(* ===== verification/Prelude.thy ===== *)
theory Prelude
  imports Complex_Main "HOL-Library.Word" "HOL-Library.List_Lexorder" "HOL-Library.Multiset"
begin

text \<open>
  Shared vocabulary of the development: JavaScript strings as lists of UTF-16 code units,
  results of fallible code as sums (\<open>Inl\<close> is a thrown error), the array operations the
  sources use (\<^verbatim>\<open>findIndex\<close>, \<^verbatim>\<open>find\<close>, \<^verbatim>\<open>some\<close>, indexed replacement) and the lemmas
  on them that every component proof draws on.
\<close>

named_theorems js_simps \<open>equations that evaluate operations on JavaScript values\<close>
named_theorems keeps \<open>an operation leaves a field or a projection unchanged\<close>
named_theorems inv_intros \<open>an operation keeps an invariant\<close>

section \<open>Strings\<close>

text \<open>A JavaScript string is a sequence of 16-bit code units; \<^verbatim>\<open>length\<close> counts them.\<close>

type_synonym code_unit = "16 word"
type_synonym js_string = "code_unit list"

text \<open>An ASCII literal of the source.\<close>

definition js :: "string \<Rightarrow> js_string" where
  "js s = map of_char s"

lemma unat_of_char [simp]: "unat (of_char c :: code_unit) = of_char c"
proof -
  have "(of_char c :: code_unit) = of_nat (of_char c)"
    by (rule of_nat_of_char [symmetric])
  moreover have "(of_char c :: nat) < 2 ^ 16"
    by (rule less_le_trans [OF nat_of_char_less_256]) simp
  ultimately show ?thesis by (simp add: unat_of_nat take_bit_nat_eq_self)
qed

lemma of_char_code_unit_eq [simp]: "(of_char c :: code_unit) = of_char d \<longleftrightarrow> c = d"
proof
  assume "(of_char c :: code_unit) = of_char d"
  then have "unat (of_char c :: code_unit) = unat (of_char d :: code_unit)" by (rule arg_cong)
  then show "c = d" by simp
qed simp

lemma js_eq_iff [simp]: "js s = js t \<longleftrightarrow> s = t"
proof
  assume "js s = js t"
  then show "s = t" unfolding js_def
    by (rule inj_map_eq_map [THEN iffD1, rotated]) (auto intro: injI)
qed simp

lemma length_js [simp]: "length (js s) = length s"
  by (simp add: js_def)

lemma js_Nil_iff [simp]: "js s = [] \<longleftrightarrow> s = []" "[] = js s \<longleftrightarrow> s = []"
  by (auto simp: js_def)

lemma js_append: "js (s @ t) = js s @ js t"
  by (simp add: js_def)

text \<open>Decimal rendering of a number, as \<^verbatim>\<open>String(n)\<close> gives for a non-negative integer.\<close>

fun nat_digits :: "nat \<Rightarrow> string" where
  "nat_digits n = (if n < 10 then [char_of (48 + n)]
     else nat_digits (n div 10) @ [char_of (48 + n mod 10)])"

declare nat_digits.simps [simp del]

definition int_digits :: "int \<Rightarrow> string" where
  "int_digits i = (if i < 0 then ''-'' @ nat_digits (nat (- i)) else nat_digits (nat i))"

section \<open>Fallible results\<close>

definition bindE :: "'e + 'a \<Rightarrow> ('a \<Rightarrow> 'e + 'b) \<Rightarrow> 'e + 'b" where
  "bindE m f = (case m of Inl e \<Rightarrow> Inl e | Inr x \<Rightarrow> f x)"

lemma bindE_simps [simp]: "bindE (Inl e) f = Inl e" "bindE (Inr x) f = f x"
  by (simp_all add: bindE_def)

lemma bindE_Inr_iff: "bindE m f = Inr y \<longleftrightarrow> (\<exists>x. m = Inr x \<and> f x = Inr y)"
  by (cases m) auto

lemma bindE_Inl_iff: "bindE m f = Inl e \<longleftrightarrow> m = Inl e \<or> (\<exists>x. m = Inr x \<and> f x = Inl e)"
  by (cases m) auto

definition okE :: "'e + 'a \<Rightarrow> bool" where
  "okE m = (case m of Inl _ \<Rightarrow> False | Inr _ \<Rightarrow> True)"

lemma okE_simps [simp]: "\<not> okE (Inl e)" "okE (Inr x)"
  by (simp_all add: okE_def)

lemma okE_iff: "okE m \<longleftrightarrow> (\<exists>x. m = Inr x)"
  by (cases m) auto

lemma okE_bindE: "okE (bindE m f) \<longleftrightarrow> (\<exists>x. m = Inr x \<and> okE (f x))"
  by (cases m) auto

text \<open>\<^verbatim>\<open>xs.map(f)\<close> where the callback may throw: the first error wins.\<close>

fun mapE :: "('a \<Rightarrow> 'e + 'b) \<Rightarrow> 'a list \<Rightarrow> 'e + 'b list" where
  "mapE f [] = Inr []"
| "mapE f (x # xs) = bindE (f x) (\<lambda>y. bindE (mapE f xs) (\<lambda>ys. Inr (y # ys)))"

lemma mapE_Inr_iff: "mapE f xs = Inr ys \<longleftrightarrow> list_all2 (\<lambda>x y. f x = Inr y) xs ys"
proof (induction xs arbitrary: ys)
  case (Cons x xs)
  then show ?case by (cases ys) (auto simp: bindE_Inr_iff)
qed auto

lemma mapE_Inr_length: "mapE f xs = Inr ys \<Longrightarrow> length ys = length xs"
  by (auto simp: mapE_Inr_iff dest: list_all2_lengthD)

text \<open>\<^verbatim>\<open>xs.forEach((x, index) => f(x, index))\<close> where the callback may throw.\<close>

fun forE :: "('a \<Rightarrow> nat \<Rightarrow> 'e + unit) \<Rightarrow> nat \<Rightarrow> 'a list \<Rightarrow> 'e + unit" where
  "forE f i [] = Inr ()"
| "forE f i (x # xs) = bindE (f x i) (\<lambda>_. forE f (Suc i) xs)"

lemma forE_Inr_iff: "forE f i xs = Inr u \<longleftrightarrow> (\<forall>k < length xs. okE (f (xs ! k) (i + k)))"
proof (induction xs arbitrary: i)
  case (Cons x xs)
  show ?case
  proof (cases "f x i")
    case (Inl e)
    then show ?thesis by auto
  next
    case (Inr v)
    have "(\<forall>k < length (x # xs). okE (f ((x # xs) ! k) (i + k))) \<longleftrightarrow>
      (\<forall>k < length xs. okE (f (xs ! k) (Suc i + k)))"
      using Inr by (auto simp: less_Suc_eq_0_disj)
    with Inr Cons show ?thesis by simp
  qed
qed simp

section \<open>Arrays\<close>

text \<open>\<^verbatim>\<open>xs.findIndex(p)\<close>: the first position where \<open>p\<close> holds (\<open>None\<close> for \<^verbatim>\<open>-1\<close>).\<close>

fun findIndex :: "('a \<Rightarrow> bool) \<Rightarrow> 'a list \<Rightarrow> nat option" where
  "findIndex p [] = None"
| "findIndex p (x # xs) = (if p x then Some 0 else map_option Suc (findIndex p xs))"

lemma findIndex_None [simp]: "findIndex p xs = None \<longleftrightarrow> (\<forall>x \<in> set xs. \<not> p x)"
  by (induction xs) auto

lemma findIndex_SomeD:
  "findIndex p xs = Some i \<Longrightarrow> i < length xs \<and> p (xs ! i) \<and> (\<forall>j < i. \<not> p (xs ! j))"
proof (induction xs arbitrary: i)
  case (Cons x xs)
  show ?case
  proof (cases "p x")
    case True
    with Cons.prems show ?thesis by simp
  next
    case False
    with Cons.prems obtain k where k: "findIndex p xs = Some k" "i = Suc k"
      by (auto split: if_splits)
    with Cons.IH [OF k(1)] False show ?thesis by (auto simp: less_Suc_eq_0_disj)
  qed
qed simp

lemmas findIndex_less = findIndex_SomeD [THEN conjunct1]
lemmas findIndex_holds = findIndex_SomeD [THEN conjunct2, THEN conjunct1]

lemma findIndex_mem: "findIndex p xs = Some i \<Longrightarrow> xs ! i \<in> set xs"
  by (auto dest: findIndex_less)

text \<open>Replacing the element at an index by one with the same key keeps the list of keys.\<close>

lemma map_list_update_same [simp]:
  "i < length xs \<Longrightarrow> f y = f (xs ! i) \<Longrightarrow> map f (xs[i := y]) = map f xs"
  by (metis list_update_id map_update nth_map)

lemma set_list_update_memD: "x \<in> set (xs[i := y]) \<Longrightarrow> x = y \<or> x \<in> set xs"
  using set_update_subset_insert by fastforce

lemma list_update_mem_cases:
  assumes "x \<in> set (xs[i := y])" and "i < length xs" and "distinct (map f xs)"
  shows "x = y \<or> x \<in> set xs \<and> f x \<noteq> f (xs ! i)"
proof -
  from assms(1) obtain j where j: "j < length xs" "x = xs[i := y] ! j"
    by (auto simp: in_set_conv_nth)
  show ?thesis
  proof (cases "j = i")
    case True
    with j show ?thesis by simp
  next
    case False
    with j assms(2,3) show ?thesis
      by (auto simp: nth_list_update distinct_conv_nth)
  qed
qed

text \<open>\<^verbatim>\<open>new Set(xs).size === xs.length\<close> says that the elements are distinct.\<close>

lemma distinct_via_card: "card (set xs) = length xs \<longleftrightarrow> distinct xs"
  by (simp add: card_distinct distinct_card iffI)

text \<open>\<^verbatim>\<open>a ?? b\<close> on a nullable value.\<close>

definition coalesce :: "'a option \<Rightarrow> 'a \<Rightarrow> 'a" where
  "coalesce x d = (case x of None \<Rightarrow> d | Some y \<Rightarrow> y)"

lemma coalesce_simps [simp]: "coalesce None d = d" "coalesce (Some y) d = y"
  by (simp_all add: coalesce_def)

end
