(* ===== verification/Patterns.thy ===== *)
theory Patterns
  imports Prelude
begin

text \<open>
  The regular expressions of the sources. A pattern denotes, for a subject string and a start
  position, the positions where a match may end; \<open>test\<close> is \<^verbatim>\<open>RegExp.prototype.test\<close> on a
  pattern without captures, back references or look-around other than word boundaries and
  anchors, which is all that the modelled files use. The credential, binary-content and
  identifier patterns of \<^verbatim>\<open>events.ts\<close>, \<^verbatim>\<open>citations.ts\<close> and \<^verbatim>\<open>approval-proposal-store.ts\<close> are
  transcribed below.
\<close>

section \<open>Character classes\<close>

definition in_range :: "char \<Rightarrow> char \<Rightarrow> code_unit \<Rightarrow> bool" where
  "in_range a b c \<longleftrightarrow> of_char a \<le> c \<and> c \<le> of_char b"

definition one_of :: "string \<Rightarrow> code_unit \<Rightarrow> bool" where
  "one_of s c \<longleftrightarrow> c \<in> set (js s)"

definition is_digit :: "code_unit \<Rightarrow> bool" where
  "is_digit c \<longleftrightarrow> in_range CHR ''0'' CHR ''9'' c"

text \<open>\<^verbatim>\<open>[a-z0-9]\<close> under the flag \<^verbatim>\<open>i\<close> alone matches ASCII letters of either case only.\<close>

definition alnum_i :: "code_unit \<Rightarrow> bool" where
  "alnum_i c \<longleftrightarrow> in_range CHR ''a'' CHR ''z'' c \<or> in_range CHR ''A'' CHR ''Z'' c \<or> is_digit c"

text \<open>
  Under \<^verbatim>\<open>iu\<close> the comparison folds case by Unicode, so the class also matches the long s
  (U+017F) and the Kelvin sign (U+212A).
\<close>

definition alnum_iu :: "code_unit \<Rightarrow> bool" where
  "alnum_iu c \<longleftrightarrow> alnum_i c \<or> c = 0x17F \<or> c = 0x212A"

definition word_char :: "code_unit \<Rightarrow> bool" where
  "word_char c \<longleftrightarrow> alnum_i c \<or> c = of_char CHR ''_''"

text \<open>\<^verbatim>\<open>\s\<close>, which is also what \<^verbatim>\<open>String.prototype.trim\<close> removes.\<close>

definition white_space :: "code_unit \<Rightarrow> bool" where
  "white_space c \<longleftrightarrow> (9 \<le> c \<and> c \<le> 13) \<or> c = 32 \<or> c = 0xA0 \<or> c = 0x1680 \<or>
     (0x2000 \<le> c \<and> c \<le> 0x200A) \<or> c = 0x2028 \<or> c = 0x2029 \<or> c = 0x202F \<or> c = 0x205F \<or>
     c = 0x3000 \<or> c = 0xFEFF"

definition trim :: "js_string \<Rightarrow> js_string" where
  "trim s = rev (dropWhile white_space (rev (dropWhile white_space s)))"

definition lower_ascii :: "code_unit \<Rightarrow> code_unit" where
  "lower_ascii c = (if in_range CHR ''A'' CHR ''Z'' c then c + 32 else c)"

text \<open>
  \<^verbatim>\<open>value.toLowerCase().replace(/[^a-z0-9]/g, "")\<close>. Beside the ASCII letters, the only
  characters whose lower case contains an ASCII letter are U+0130 (its lower case is an
  ASCII \<^verbatim>\<open>i\<close> and a combining dot) and U+212A.
\<close>

definition normalize_unit :: "code_unit \<Rightarrow> js_string" where
  "normalize_unit c =
     (if in_range CHR ''a'' CHR ''z'' c \<or> is_digit c then [c]
      else if in_range CHR ''A'' CHR ''Z'' c then [c + 32]
      else if c = 0x130 then [of_char CHR ''i'']
      else if c = 0x212A then [of_char CHR ''k'']
      else [])"

definition normalizeFieldName :: "js_string \<Rightarrow> js_string" where
  "normalizeFieldName s = concat (map normalize_unit s)"

section \<open>Patterns and matching\<close>

datatype re =
    RChar "code_unit \<Rightarrow> bool"
  | REmpty
  | RSeq re re
  | RAlt re re
  | RRep nat "nat option" re
  | RWordB
  | RWordBU
  | RStart
  | REnd

fun iter_ends :: "(nat \<Rightarrow> nat list) \<Rightarrow> nat \<Rightarrow> nat list \<Rightarrow> nat list" where
  "iter_ends f 0 ps = ps"
| "iter_ends f (Suc n) ps = iter_ends f n (remdups (concat (map f ps)))"

fun closure_ends :: "(nat \<Rightarrow> nat list) \<Rightarrow> nat \<Rightarrow> nat list \<Rightarrow> nat list" where
  "closure_ends f 0 ps = ps"
| "closure_ends f (Suc n) ps = closure_ends f n (remdups (ps @ concat (map f ps)))"

definition word_at :: "js_string \<Rightarrow> nat \<Rightarrow> bool" where
  "word_at s i \<longleftrightarrow> i < length s \<and> word_char (s ! i)"

definition word_boundary :: "js_string \<Rightarrow> nat \<Rightarrow> bool" where
  "word_boundary s i \<longleftrightarrow> (0 < i \<and> word_at s (i - 1)) \<noteq> word_at s i"

text \<open>\<^verbatim>\<open>\b\<close> under \<^verbatim>\<open>iu\<close>, where the long s and the Kelvin sign are word characters too.\<close>

definition word_at_iu :: "js_string \<Rightarrow> nat \<Rightarrow> bool" where
  "word_at_iu s i \<longleftrightarrow> i < length s \<and> (word_char (s ! i) \<or> alnum_iu (s ! i))"

definition word_boundary_iu :: "js_string \<Rightarrow> nat \<Rightarrow> bool" where
  "word_boundary_iu s i \<longleftrightarrow> (0 < i \<and> word_at_iu s (i - 1)) \<noteq> word_at_iu s i"

primrec ends :: "re \<Rightarrow> js_string \<Rightarrow> nat \<Rightarrow> nat list" where
  "ends (RChar p) s i = (if i < length s \<and> p (s ! i) then [Suc i] else [])"
| "ends REmpty s i = [i]"
| "ends (RSeq a b) s i = remdups (concat (map (ends b s) (ends a s i)))"
| "ends (RAlt a b) s i = remdups (ends a s i @ ends b s i)"
| "ends (RRep m n r) s i =
     closure_ends (ends r s) (case n of None \<Rightarrow> Suc (length s) | Some k \<Rightarrow> k - m)
       (iter_ends (ends r s) m [i])"
| "ends RWordB s i = (if word_boundary s i then [i] else [])"
| "ends RWordBU s i = (if word_boundary_iu s i then [i] else [])"
| "ends RStart s i = (if i = 0 then [i] else [])"
| "ends REnd s i = (if i = length s then [i] else [])"

definition test :: "re \<Rightarrow> js_string \<Rightarrow> bool" where
  "test r s \<longleftrightarrow> list_ex (\<lambda>i. ends r s i \<noteq> []) [0..<Suc (length s)]"

text \<open>A literal text compared without ASCII case.\<close>

fun lit_i :: "string \<Rightarrow> re" where
  "lit_i [] = REmpty"
| "lit_i (c # cs) = RSeq (RChar (\<lambda>u. lower_ascii u = of_char c)) (lit_i cs)"

text \<open>Under \<^verbatim>\<open>iu\<close> an s also matches U+017F and a k also matches U+212A.\<close>

fun lit_iu :: "string \<Rightarrow> re" where
  "lit_iu [] = REmpty"
| "lit_iu (c # cs) = RSeq (RChar (\<lambda>u. lower_ascii u = of_char c \<or> c = CHR ''s'' \<and> u = 0x17F \<or> c = CHR ''k'' \<and> u = 0x212A))
     (lit_iu cs)"

definition opt :: "re \<Rightarrow> re" where
  "opt r = RRep 0 (Some 1) r"

section \<open>The patterns of the sources\<close>

definition bearer_pattern :: re where
  "bearer_pattern = RSeq RWordB (RSeq (lit_i ''bearer'')
     (RSeq (RRep 1 None (RChar white_space))
       (RRep 8 None (RChar (\<lambda>c. alnum_i c \<or> one_of ''._~+/=-'' c)))))"

definition sk_tail :: re where
  "sk_tail = RSeq (lit_i ''sk-'')
     (RSeq (RRep 8 None (RChar (\<lambda>c. alnum_i c \<or> one_of ''_-'' c))) RWordB)"

definition private_key_pattern :: re where
  "private_key_pattern = RSeq (lit_i ''-----begin '')
     (RSeq (opt (RAlt (lit_i ''rsa '') (RAlt (lit_i ''ec '') (lit_i ''openssh ''))))
       (lit_i ''private key-----''))"

text \<open>\<^verbatim>\<open>CREDENTIAL_VALUE_PATTERNS\<close> of \<^verbatim>\<open>events.ts\<close> and of \<^verbatim>\<open>citations.ts\<close>, which differ in
  what may precede an \<^verbatim>\<open>sk-\<close> key.\<close>

definition CREDENTIAL_VALUE_PATTERNS :: "re list" where
  "CREDENTIAL_VALUE_PATTERNS = [bearer_pattern, RSeq RWordB sk_tail, private_key_pattern]"

definition CITATION_CREDENTIAL_VALUE_PATTERNS :: "re list" where
  "CITATION_CREDENTIAL_VALUE_PATTERNS =
     [bearer_pattern, RSeq (RAlt RStart (RChar (\<lambda>c. \<not> alnum_i c))) sk_tail, private_key_pattern]"

definition APPROVAL_BINARY_VALUE_PATTERNS :: "re list" where
  "APPROVAL_BINARY_VALUE_PATTERNS =
     [RSeq RStart (RSeq (lit_i ''data:'')
        (RSeq (RRep 1 (Some 256) (RChar (\<lambda>c. c \<noteq> of_char CHR '',''))) (lit_i '';base64,''))),
      RSeq RStart (RSeq (RRep 256 None (RChar (\<lambda>c. alnum_i c \<or> one_of ''+/'' c)))
        (RSeq (RRep 0 (Some 2) (RChar (\<lambda>c. c = of_char CHR ''=''))) REnd))]"

definition matches_any :: "re list \<Rightarrow> js_string \<Rightarrow> bool" where
  "matches_any rs s \<longleftrightarrow> list_ex (\<lambda>r. test r s) rs"

text \<open>\<^verbatim>\<open>haystack.includes(needle)\<close> on strings.\<close>

fun str_includes :: "js_string \<Rightarrow> js_string \<Rightarrow> bool" where
  "str_includes [] n = (n = [])"
| "str_includes (c # cs) n = (take (length n) (c # cs) = n \<or> str_includes cs n)"

section \<open>What matching means\<close>

text \<open>A whole-string pattern of the form \<^verbatim>\<open>^first rest*$\<close> tests every character.\<close>

definition head_then_star :: "(code_unit \<Rightarrow> bool) \<Rightarrow> (code_unit \<Rightarrow> bool) \<Rightarrow> re" where
  "head_then_star p q = RSeq RStart (RSeq (RChar p) (RSeq (RRep 0 None (RChar q)) REnd))"

lemma closure_ends_mono: "x \<in> set ps \<Longrightarrow> x \<in> set (closure_ends f n ps)"
  by (induction n arbitrary: ps) auto

lemma closure_ends_char:
  "set (closure_ends (ends (RChar q) s) n ps) =
     {j. \<exists>i \<in> set ps. i \<le> j \<and> j \<le> i + n \<and> (\<forall>k. i \<le> k \<and> k < j \<longrightarrow> k < length s \<and> q (s ! k))}"
proof (induction n arbitrary: ps)
  case 0
  show ?case by auto
next
  case (Suc n)
  have step: "set (remdups (ps @ concat (map (ends (RChar q) s) ps))) =
    {j. \<exists>i \<in> set ps. j = i \<or> j = Suc i \<and> i < length s \<and> q (s ! i)}"
    by (auto split: if_splits)
  show ?case (is "?L = ?R")
  proof (intro set_eqI iffI)
    fix j assume "j \<in> ?L"
    then obtain m where m: "m \<in> set (remdups (ps @ concat (map (ends (RChar q) s) ps)))"
      and mj: "m \<le> j" "j \<le> m + n" "\<forall>k. m \<le> k \<and> k < j \<longrightarrow> k < length s \<and> q (s ! k)"
      unfolding closure_ends.simps Suc.IH by blast
    from m obtain i where i: "i \<in> set ps" "m = i \<or> m = Suc i \<and> i < length s \<and> q (s ! i)"
      unfolding step by auto
    then have "\<forall>k. i \<le> k \<and> k < j \<longrightarrow> k < length s \<and> q (s ! k)"
      using mj(3) by (metis Suc_leI le_neq_implies_less)
    moreover from i(2) mj have "i \<le> j" and "j \<le> i + Suc n" by auto
    ultimately show "j \<in> ?R" using i(1) by blast
  next
    fix j assume "j \<in> ?R"
    then obtain i where i: "i \<in> set ps" "i \<le> j" "j \<le> i + Suc n"
      "\<forall>k. i \<le> k \<and> k < j \<longrightarrow> k < length s \<and> q (s ! k)" by auto
    show "j \<in> ?L"
    proof (cases "i = j")
      case True
      with i show ?thesis by (simp add: closure_ends_mono)
    next
      case False
      with i have "Suc i \<in> set (remdups (ps @ concat (map (ends (RChar q) s) ps)))"
        unfolding step by auto
      with i False show ?thesis
        unfolding closure_ends.simps Suc.IH by (intro CollectI bexI [of _ "Suc i"]) auto
    qed
  qed
qed

lemma test_head_then_star:
  "test (head_then_star p q) s \<longleftrightarrow> (\<exists>c cs. s = c # cs \<and> p c \<and> (\<forall>u \<in> set cs. q u))"
proof -
  have "test (head_then_star p q) s \<longleftrightarrow> 0 < length s \<and> p (s ! 0) \<and>
      length s \<in> set (closure_ends (ends (RChar q) s) (Suc (length s)) [Suc 0])"
    by (auto simp: test_def head_then_star_def list_ex_iff split: if_splits)
  also have "\<dots> \<longleftrightarrow> 0 < length s \<and> p (s ! 0) \<and> (\<forall>k. Suc 0 \<le> k \<and> k < length s \<longrightarrow> q (s ! k))"
    unfolding closure_ends_char by (auto simp: Suc_le_eq)
  also have "\<dots> \<longleftrightarrow> (\<exists>c cs. s = c # cs \<and> p c \<and> (\<forall>u \<in> set cs. q u))"
    by (cases s) (auto simp: all_set_conv_all_nth less_Suc_eq_0_disj Suc_le_eq gr0_conv_Suc)
  finally show ?thesis .
qed

text \<open>A lower bound on the length of a match, which rules out long patterns on short strings.\<close>

primrec min_len :: "re \<Rightarrow> nat" where
  "min_len (RChar p) = 1"
| "min_len REmpty = 0"
| "min_len (RSeq a b) = min_len a + min_len b"
| "min_len (RAlt a b) = min (min_len a) (min_len b)"
| "min_len (RRep m n r) = m * min_len r"
| "min_len RWordB = 0"
| "min_len RWordBU = 0"
| "min_len RStart = 0"
| "min_len REnd = 0"

lemma iter_ends_bound:
  assumes step: "\<And>i j. i \<le> L \<Longrightarrow> j \<in> set (f i) \<Longrightarrow> i + d \<le> j \<and> j \<le> L"
  shows "\<forall>i \<in> set ps. a \<le> i \<and> i \<le> L \<Longrightarrow> j \<in> set (iter_ends f n ps) \<Longrightarrow> a + n * d \<le> j \<and> j \<le> L"
proof (induction n arbitrary: ps a)
  case (Suc n)
  have "\<forall>k \<in> set (remdups (concat (map f ps))). a + d \<le> k \<and> k \<le> L"
  proof
    fix k assume "k \<in> set (remdups (concat (map f ps)))"
    then obtain i where "i \<in> set ps" "k \<in> set (f i)" by auto
    with Suc.prems(1) step [of i k] show "a + d \<le> k \<and> k \<le> L" by auto
  qed
  moreover have "j \<in> set (iter_ends f n (remdups (concat (map f ps))))" using Suc.prems(2) by simp
  ultimately have "a + d + n * d \<le> j \<and> j \<le> L" by (rule Suc.IH)
  then show ?case by simp
qed simp

lemma closure_ends_bound:
  assumes step: "\<And>i j. i \<le> L \<Longrightarrow> j \<in> set (f i) \<Longrightarrow> i \<le> j \<and> j \<le> L"
  shows "\<forall>i \<in> set ps. a \<le> i \<and> i \<le> L \<Longrightarrow> j \<in> set (closure_ends f n ps) \<Longrightarrow> a \<le> j \<and> j \<le> L"
proof (induction n arbitrary: ps)
  case (Suc n)
  have "\<forall>k \<in> set (remdups (ps @ concat (map f ps))). a \<le> k \<and> k \<le> L"
  proof
    fix k assume "k \<in> set (remdups (ps @ concat (map f ps)))"
    then obtain i where "i \<in> set ps" "k = i \<or> k \<in> set (f i)" by auto
    with Suc.prems(1) step [of i k] show "a \<le> k \<and> k \<le> L" by auto
  qed
  moreover have "j \<in> set (closure_ends f n (remdups (ps @ concat (map f ps))))" using Suc.prems(2) by simp
  ultimately show ?case by (rule Suc.IH)
qed simp

lemma ends_bound: "i \<le> length s \<Longrightarrow> j \<in> set (ends r s i) \<Longrightarrow> i + min_len r \<le> j \<and> j \<le> length s"
proof (induction r arbitrary: i j)
  case (RSeq a b)
  from RSeq.prems(2) obtain k where k: "k \<in> set (ends a s i)" "j \<in> set (ends b s k)" by auto
  have "i + min_len a \<le> k \<and> k \<le> length s" using RSeq.IH(1) RSeq.prems(1) k(1) .
  with RSeq.IH(2) [OF _ k(2)] show ?case by simp
next
  case (RRep m n r)
  have step: "\<And>i j. i \<le> length s \<Longrightarrow> j \<in> set (ends r s i) \<Longrightarrow> i + min_len r \<le> j \<and> j \<le> length s"
    by (rule RRep.IH)
  have start: "\<forall>k \<in> set (iter_ends (ends r s) m [i]). i + m * min_len r \<le> k \<and> k \<le> length s"
    using iter_ends_bound [OF step, where ps = "[i]" and a = i and n = m] RRep.prems(1) by simp
  have grow: "\<And>i j. i \<le> length s \<Longrightarrow> j \<in> set (ends r s i) \<Longrightarrow> i \<le> j \<and> j \<le> length s"
    using step add_leD1 by blast
  from RRep.prems(2) closure_ends_bound [OF grow start] show ?case by simp
next
  case (RAlt a b)
  from RAlt.prems(2) consider "j \<in> set (ends a s i)" | "j \<in> set (ends b s i)" by auto
  then show ?case
  proof cases
    case 1
    from RAlt.IH(1) [OF RAlt.prems(1) this] show ?thesis by (simp add: min_def)
  next
    case 2
    from RAlt.IH(2) [OF RAlt.prems(1) this] show ?thesis by (simp add: min_def)
  qed
qed (auto split: if_splits)

lemma test_short: "length s < min_len r \<Longrightarrow> \<not> test r s"
proof
  assume short: "length s < min_len r" and "test r s"
  then obtain i where i: "i < Suc (length s)" "ends r s i \<noteq> []"
    unfolding test_def list_ex_iff set_upt by (meson atLeastLessThan_iff)
  then obtain j where "j \<in> set (ends r s i)" using last_in_set by blast
  with i(1) short ends_bound [of i s j r] show False by simp
qed

lemma credential_min_len:
  "11 \<le> min_len bearer_pattern" "11 \<le> min_len sk_tail" "11 \<le> min_len private_key_pattern"
  by (simp_all add: bearer_pattern_def sk_tail_def private_key_pattern_def opt_def)

lemma credential_patterns_short:
  assumes "length s < 11"
  shows "\<not> matches_any CREDENTIAL_VALUE_PATTERNS s"
    "\<not> matches_any CITATION_CREDENTIAL_VALUE_PATTERNS s"
proof -
  have "\<not> test r s" if "11 \<le> min_len r" for r
    using assms that by (intro test_short) simp
  then show "\<not> matches_any CREDENTIAL_VALUE_PATTERNS s"
    "\<not> matches_any CITATION_CREDENTIAL_VALUE_PATTERNS s"
    using credential_min_len
    by (simp_all add: matches_any_def CREDENTIAL_VALUE_PATTERNS_def
        CITATION_CREDENTIAL_VALUE_PATTERNS_def min_def)
qed

end
