(* ===== verification/Json.thy ===== *)
theory Json
  imports Patterns
begin

text \<open>
  JSON values as the sources see them, with the two deep-equality routines
  (\<^verbatim>\<open>src/json-equality.ts\<close> and the \<^verbatim>\<open>jsonEqual\<close> of \<^verbatim>\<open>src/conversation/event-store.ts\<close>),
  \<^verbatim>\<open>utf8ByteLength\<close>, and \<^verbatim>\<open>JSON.stringify\<close>. Objects are the entry lists that
  \<^verbatim>\<open>Object.entries\<close> gives. Both equality routines are shown to decide equality of the
  values with the entries of every object sorted by key.
\<close>

section \<open>Values\<close>

text \<open>
  A number is a finite rational, negative zero or one of the non-finite values. Every finite
  double is a rational, and \<open>Finite 0\<close> is positive zero.
\<close>

datatype js_number = Finite rat | NegZero | NaN | Infinity bool

datatype json =
    JNull
  | JBool bool
  | JNum js_number
  | JStr js_string
  | JArr "json list"
  | JObj "(js_string \<times> json) list"

abbreviation JInt :: "int \<Rightarrow> json" where
  "JInt n \<equiv> JNum (Finite (of_int n))"

text \<open>\<^verbatim>\<open>object[key]\<close> and \<^verbatim>\<open>Object.keys(object)\<close> on an entry list.\<close>

definition prop_of :: "(js_string \<times> json) list \<Rightarrow> js_string \<Rightarrow> json option" where
  "prop_of fs k = map_of fs k"

definition keys_of :: "(js_string \<times> json) list \<Rightarrow> js_string list" where
  "keys_of fs = map fst fs"

lemma keys_of_simps [simp]:
  "keys_of [] = []" "keys_of (f # fs) = fst f # keys_of fs" "keys_of (fs @ gs) = keys_of fs @ keys_of gs"
  by (simp_all add: keys_of_def)

lemma prop_of_simps [simp]:
  "prop_of [] k = None"
  "prop_of ((k', v) # fs) k = (if k = k' then Some v else prop_of fs k)"
  by (simp_all add: prop_of_def)

lemma prop_of_append [simp]:
  "prop_of (fs @ gs) k = (case prop_of fs k of None \<Rightarrow> prop_of gs k | Some v \<Rightarrow> Some v)"
  by (simp add: prop_of_def map_add_def split: option.splits)

text \<open>An object has no key twice.\<close>

fun wf_json :: "json \<Rightarrow> bool" where
  "wf_json (JArr xs) = list_all wf_json xs"
| "wf_json (JObj fs) = (distinct (map fst fs) \<and> list_all (\<lambda>f. wf_json (snd f)) fs)"
| "wf_json _ = True"

section \<open>Number comparisons\<close>

text \<open>\<^verbatim>\<open>===\<close> on numbers: \<^verbatim>\<open>NaN\<close> differs from itself, the two zeros are equal. \<^verbatim>\<open>Object.is\<close> is
  equality of \<open>js_number\<close>.\<close>

definition num_strict_eq :: "js_number \<Rightarrow> js_number \<Rightarrow> bool" where
  "num_strict_eq a b \<longleftrightarrow> a \<noteq> NaN \<and> b \<noteq> NaN \<and>
     (a = b \<or> a = NegZero \<and> b = Finite 0 \<or> a = Finite 0 \<and> b = NegZero)"

definition isFinite :: "js_number \<Rightarrow> bool" where
  "isFinite n = (case n of Finite _ \<Rightarrow> True | NegZero \<Rightarrow> True | _ \<Rightarrow> False)"

definition MAX_SAFE_INTEGER :: int where
  "MAX_SAFE_INTEGER = 9007199254740991"

text \<open>The integer a safe integer stands for.\<close>

definition safe_int :: "js_number \<Rightarrow> int option" where
  "safe_int n = (case n of
     Finite r \<Rightarrow> if r = of_int \<lfloor>r\<rfloor> \<and> \<bar>\<lfloor>r\<rfloor>\<bar> \<le> MAX_SAFE_INTEGER then Some \<lfloor>r\<rfloor> else None
   | NegZero \<Rightarrow> Some 0
   | _ \<Rightarrow> None)"

lemma safe_int_JInt [simp]:
  "safe_int (Finite (of_int n)) = (if \<bar>n\<bar> \<le> MAX_SAFE_INTEGER then Some n else None)"
  by (simp add: safe_int_def)

section \<open>Deep equality\<close>

lemma size_map_of: "map_of fs k = Some v \<Longrightarrow> size v < Suc (size_list (size_prod (\<lambda>_. 0) size) fs)"
  by (induction fs) (auto split: if_splits)

text \<open>\<^verbatim>\<open>jsonValuesEqual\<close>: keys are sorted, then compared position by position.\<close>

function jsonValuesEqual :: "json \<Rightarrow> json \<Rightarrow> bool"
  and jsonListsEqual :: "json list \<Rightarrow> json list \<Rightarrow> bool" where
  "jsonValuesEqual left right =
     (case (left, right) of
        (JArr xs, JArr ys) \<Rightarrow> length xs = length ys \<and> jsonListsEqual xs ys
      | (JObj fs, JObj gs) \<Rightarrow>
          (let ks = sort (keys_of fs); ks' = sort (keys_of gs) in
           length ks = length ks' \<and>
           list_all (\<lambda>(k, k'). k = k' \<and>
             (case map_of fs k of None \<Rightarrow> map_of gs k = None
              | Some v \<Rightarrow> (case map_of gs k of None \<Rightarrow> False | Some w \<Rightarrow> jsonValuesEqual v w)))
             (zip ks ks'))
      | (JNull, JNull) \<Rightarrow> True
      | (JBool a, JBool b) \<Rightarrow> a = b
      | (JNum a, JNum b) \<Rightarrow> a = b
      | (JStr a, JStr b) \<Rightarrow> a = b
      | _ \<Rightarrow> False)"
| "jsonListsEqual (x # xs) (y # ys) = (jsonValuesEqual x y \<and> jsonListsEqual xs ys)"
| "jsonListsEqual [] ys = True"
| "jsonListsEqual xs [] = True"
  by pat_completeness auto
termination
  by (relation "measure (\<lambda>x. case x of Inl (l, r) \<Rightarrow> size l | Inr (xs, ys) \<Rightarrow> size_list size xs)")
    (auto dest: size_map_of)

text \<open>\<^verbatim>\<open>jsonEqual\<close>: the keys of the left object are looked up in the right one.\<close>

function jsonEqual :: "json \<Rightarrow> json \<Rightarrow> bool"
  and jsonEqualLists :: "json list \<Rightarrow> json list \<Rightarrow> bool" where
  "jsonEqual left right =
     (case (left, right) of
        (JArr xs, JArr ys) \<Rightarrow> length xs = length ys \<and> jsonEqualLists xs ys
      | (JObj fs, JObj gs) \<Rightarrow>
          length (keys_of fs) = length (keys_of gs) \<and>
          list_all (\<lambda>k. k \<in> set (keys_of gs) \<and>
             (case map_of fs k of None \<Rightarrow> False
              | Some v \<Rightarrow> (case map_of gs k of None \<Rightarrow> False | Some w \<Rightarrow> jsonEqual v w)))
             (keys_of fs)
      | (JNull, JNull) \<Rightarrow> True
      | (JBool a, JBool b) \<Rightarrow> a = b
      | (JNum a, JNum b) \<Rightarrow> num_strict_eq a b
      | (JStr a, JStr b) \<Rightarrow> a = b
      | _ \<Rightarrow> False)"
| "jsonEqualLists (x # xs) (y # ys) = (jsonEqual x y \<and> jsonEqualLists xs ys)"
| "jsonEqualLists [] ys = True"
| "jsonEqualLists xs [] = True"
  by pat_completeness auto
termination
  by (relation "measure (\<lambda>x. case x of Inl (l, r) \<Rightarrow> size l | Inr (xs, ys) \<Rightarrow> size_list size xs)")
    (auto dest: size_map_of)

declare jsonValuesEqual.simps [simp del] jsonEqual.simps [simp del]

section \<open>Equality up to key order\<close>

text \<open>The reference notion: values are equal when they agree after every object is sorted by key.\<close>

fun canon :: "json \<Rightarrow> json" where
  "canon (JArr xs) = JArr (map canon xs)"
| "canon (JObj fs) = JObj (sort_key fst (map (\<lambda>f. (fst f, canon (snd f))) fs))"
| "canon j = j"

text \<open>Numbers on which \<^verbatim>\<open>===\<close> and \<^verbatim>\<open>Object.is\<close> agree.\<close>

fun plain_numbers :: "json \<Rightarrow> bool" where
  "plain_numbers (JNum n) = (n \<noteq> NaN \<and> n \<noteq> NegZero)"
| "plain_numbers (JArr xs) = list_all plain_numbers xs"
| "plain_numbers (JObj fs) = list_all (\<lambda>f. plain_numbers (snd f)) fs"
| "plain_numbers _ = True"

lemma map_fst_sort_key: "map fst (sort_key fst fs) = sort (map fst fs)"
  by (rule properties_for_sort [symmetric]) simp_all

lemma sort_key_assoc:
  assumes "distinct (map fst fs)"
  shows "sort_key fst fs = map (\<lambda>k. (k, the (map_of fs k))) (sort (map fst fs))"
proof -
  have "map (\<lambda>k. (k, the (map_of fs k))) (map fst (sort_key fst fs)) = sort_key fst fs"
    unfolding map_map by (rule map_idI) (use assms in auto)
  then show ?thesis by (simp only: map_fst_sort_key)
qed

lemma map_of_canon: "map_of (map (\<lambda>f. (fst f, g (snd f))) fs) k = map_option g (map_of fs k)"
  by (induction fs) auto

lemma canon_JObj_eq:
  assumes "distinct (map fst fs)" and "distinct (map fst gs)"
  shows "canon (JObj fs) = canon (JObj gs) \<longleftrightarrow>
    sort (keys_of fs) = sort (keys_of gs) \<and>
    (\<forall>k \<in> set (keys_of fs). map_option canon (map_of fs k) = map_option canon (map_of gs k))"
    (is "_ \<longleftrightarrow> ?keys \<and> ?vals")
proof -
  let ?F = "map (\<lambda>f. (fst f, canon (snd f)))"
  have entries: "canon (JObj xs) = JObj (map (\<lambda>k. (k, the (map_option canon (map_of xs k)))) (sort (keys_of xs)))"
    if "distinct (map fst xs)" for xs
    using that sort_key_assoc [of "?F xs"]
    by (simp add: map_of_canon keys_of_def o_def)
  have some: "map_of xs k \<noteq> None" if "k \<in> set (keys_of xs)" for xs :: "(js_string \<times> json) list" and k
    using that by (auto simp: keys_of_def map_of_eq_None_iff)
  show ?thesis
  proof
    assume "canon (JObj fs) = canon (JObj gs)"
    then have e: "map (\<lambda>k. (k, the (map_option canon (map_of fs k)))) (sort (keys_of fs)) =
      map (\<lambda>k. (k, the (map_option canon (map_of gs k)))) (sort (keys_of gs))"
      by (simp add: entries assms del: canon.simps)
    from arg_cong [OF e, of "map fst"] have ks: ?keys by (simp add: o_def)
    then have sets: "set (keys_of fs) = set (keys_of gs)" by (metis set_sort)
    from e ks have
      "\<forall>k \<in> set (keys_of fs). the (map_option canon (map_of fs k)) = the (map_option canon (map_of gs k))"
      by (simp add: sets)
    then have ?vals using sets some by (metis map_option_is_None option.expand)
    with ks show "?keys \<and> ?vals" by blast
  next
    assume kv: "?keys \<and> ?vals"
    then have "map (\<lambda>k. (k, the (map_option canon (map_of fs k)))) (sort (keys_of fs)) =
      map (\<lambda>k. (k, the (map_option canon (map_of gs k)))) (sort (keys_of gs))"
      by (metis (no_types, lifting) map_cong set_sort)
    then show "canon (JObj fs) = canon (JObj gs)" by (simp add: entries assms del: canon.simps)
  qed
qed

lemma wf_json_map_of: "wf_json (JObj fs) \<Longrightarrow> map_of fs k = Some v \<Longrightarrow> wf_json v"
  by (auto simp: list_all_iff dest!: map_of_SomeD)

lemma plain_numbers_map_of: "plain_numbers (JObj fs) \<Longrightarrow> map_of fs k = Some v \<Longrightarrow> plain_numbers v"
  by (auto simp: list_all_iff dest!: map_of_SomeD)

lemma zip_all_eq_iff:
  "length xs = length ys \<and> list_all (\<lambda>(x, y). x = y \<and> P x) (zip xs ys) \<longleftrightarrow>
   xs = ys \<and> (\<forall>x \<in> set xs. P x)"
proof (cases "length xs = length ys")
  case True
  then show ?thesis by (induction xs ys rule: list_induct2) auto
qed auto

lemma map_of_key: "k \<in> set (keys_of fs) \<longleftrightarrow> map_of fs k \<noteq> None"
  by (simp add: keys_of_def map_of_eq_None_iff)

theorem jsonValuesEqual_canon_lists:
  "wf_json a \<Longrightarrow> wf_json b \<Longrightarrow> jsonValuesEqual a b \<longleftrightarrow> canon a = canon b"
  "list_all wf_json xs \<Longrightarrow> list_all wf_json ys \<Longrightarrow>
     length xs = length ys \<and> jsonListsEqual xs ys \<longleftrightarrow> map canon xs = map canon ys"
proof (induction a b and xs ys rule: jsonValuesEqual_jsonListsEqual.induct)
  case (1 left right)
  show ?case
  proof (cases "\<exists>fs gs. left = JObj fs \<and> right = JObj gs")
    case True
    then obtain fs gs where [simp]: "left = JObj fs" "right = JObj gs" by blast
    have IH: "jsonValuesEqual v w \<longleftrightarrow> canon v = canon w"
      if "map_of fs k = Some v" "map_of gs k = Some w" "k \<in> set (keys_of fs)"
        "sort (keys_of fs) = sort (keys_of gs)" for k v w
    proof -
      have z: "(k, k) \<in> set (zip (sort (keys_of fs)) (sort (keys_of gs)))"
        using that(3) unfolding that(4) [symmetric] by (simp add: zip_same)
      have wf: "wf_json v" "wf_json w"
        using wf_json_map_of [OF _ that(1)] wf_json_map_of [OF _ that(2)] 1(3,4) by simp_all
      show ?thesis by (rule 1(2) [OF refl _ _ refl refl z refl that(1,2) wf]) simp_all
    qed
    let ?P = "\<lambda>k. case map_of fs k of None \<Rightarrow> map_of gs k = None
      | Some v \<Rightarrow> (case map_of gs k of None \<Rightarrow> False | Some w \<Rightarrow> jsonValuesEqual v w)"
    have "jsonValuesEqual left right \<longleftrightarrow>
        sort (keys_of fs) = sort (keys_of gs) \<and> (\<forall>k \<in> set (keys_of fs). ?P k)"
      using zip_all_eq_iff [of "sort (keys_of fs)" "sort (keys_of gs)" ?P]
      by (subst jsonValuesEqual.simps) (simp add: Let_def)
    also have "\<dots> \<longleftrightarrow> sort (keys_of fs) = sort (keys_of gs) \<and>
        (\<forall>k \<in> set (keys_of fs). map_option canon (map_of fs k) = map_option canon (map_of gs k))"
      using IH by (fastforce simp: map_of_key split: option.splits)
    also have "\<dots> \<longleftrightarrow> canon left = canon right"
      using canon_JObj_eq [of fs gs] 1 by (simp del: canon.simps)
    finally show ?thesis .
  next
    case False
    with 1 show ?thesis
      by (subst jsonValuesEqual.simps) (auto split: json.splits)
  qed
qed auto

lemma sort_eq_iff_subset:
  assumes "distinct xs" and "distinct ys"
  shows "sort xs = sort ys \<longleftrightarrow> length xs = length ys \<and> set xs \<subseteq> set ys"
proof
  assume "sort xs = sort ys"
  then show "length xs = length ys \<and> set xs \<subseteq> set ys" by (metis length_sort set_sort order_refl)
next
  assume h: "length xs = length ys \<and> set xs \<subseteq> set ys"
  then have "set xs = set ys" using assms by (metis card_subset_eq distinct_card finite_set)
  then show "sort xs = sort ys" using assms 
    by (metis mset_sort properties_for_sort set_eq_iff_mset_eq_distinct sorted_sort)
qed

theorem jsonEqual_canon_lists:
  "wf_json a \<Longrightarrow> wf_json b \<Longrightarrow> plain_numbers a \<Longrightarrow> plain_numbers b \<Longrightarrow>
     jsonEqual a b \<longleftrightarrow> canon a = canon b"
  "list_all wf_json xs \<Longrightarrow> list_all wf_json ys \<Longrightarrow> list_all plain_numbers xs \<Longrightarrow>
     list_all plain_numbers ys \<Longrightarrow>
     length xs = length ys \<and> jsonEqualLists xs ys \<longleftrightarrow> map canon xs = map canon ys"
proof (induction a b and xs ys rule: jsonEqual_jsonEqualLists.induct)
  case (1 left right)
  show ?case
  proof (cases "\<exists>fs gs. left = JObj fs \<and> right = JObj gs")
    case True
    then obtain fs gs where [simp]: "left = JObj fs" "right = JObj gs" by blast
    have IH: "jsonEqual v w \<longleftrightarrow> canon v = canon w"
      if "map_of fs k = Some v" "map_of gs k = Some w" "k \<in> set (keys_of fs)" for k v w
    proof -
      have wf: "wf_json v" "wf_json w" "plain_numbers v" "plain_numbers w"
        using wf_json_map_of [OF _ that(1)] wf_json_map_of [OF _ that(2)]
          plain_numbers_map_of [OF _ that(1)] plain_numbers_map_of [OF _ that(2)] 1(3-6)
        by simp_all
      show ?thesis by (rule 1(2) [OF refl _ _ that(3,1,2) wf]) simp_all
    qed
    have "jsonEqual left right \<longleftrightarrow> length (keys_of fs) = length (keys_of gs) \<and>
        set (keys_of fs) \<subseteq> set (keys_of gs) \<and>
        (\<forall>k \<in> set (keys_of fs). map_option canon (map_of fs k) = map_option canon (map_of gs k))"
      using IH
      by (subst jsonEqual.simps)
        (fastforce simp: list_all_iff map_of_key subset_iff split: option.splits)
    also have "\<dots> \<longleftrightarrow> canon left = canon right"
      using canon_JObj_eq [of fs gs] sort_eq_iff_subset [of "keys_of fs" "keys_of gs"] 1
      by (simp add: keys_of_def del: canon.simps)
    finally show ?thesis .
  next
    case False
    with 1 show ?thesis
      by (subst jsonEqual.simps)
        (auto simp: num_strict_eq_def split: json.splits)
  qed
qed auto

text \<open>JSON values with every zero unsigned, and those without \<^verbatim>\<open>NaN\<close>, which JSON text cannot hold.\<close>

fun unsigned_zeros :: "json \<Rightarrow> json" where
  "unsigned_zeros (JNum n) = JNum (if n = NegZero then Finite 0 else n)"
| "unsigned_zeros (JArr xs) = JArr (map unsigned_zeros xs)"
| "unsigned_zeros (JObj fs) = JObj (map (\<lambda>f. (fst f, unsigned_zeros (snd f))) fs)"
| "unsigned_zeros v = v"

fun without_nan :: "json \<Rightarrow> bool" where
  "without_nan (JNum n) = (n \<noteq> NaN)"
| "without_nan (JArr xs) = list_all without_nan xs"
| "without_nan (JObj fs) = list_all (\<lambda>f. without_nan (snd f)) fs"
| "without_nan _ = True"

lemma unsigned_zeros_wf: "wf_json a \<Longrightarrow> wf_json (unsigned_zeros a)"
  by (induction a rule: unsigned_zeros.induct) (auto simp: list_all_iff o_def)

lemma unsigned_zeros_plain: "without_nan a \<Longrightarrow> plain_numbers (unsigned_zeros a)"
  by (induction a rule: unsigned_zeros.induct) (auto simp: list_all_iff)

lemma keys_unsigned: "keys_of (map (\<lambda>f. (fst f, g (snd f))) fs) = keys_of fs"
  by (simp add: keys_of_def o_def)

lemma jsonEqual_unsigned:
  "jsonEqual (unsigned_zeros a) (unsigned_zeros b) = jsonEqual a b"
  "jsonEqualLists (map unsigned_zeros xs) (map unsigned_zeros ys) = jsonEqualLists xs ys"
proof (induction a b and xs ys rule: jsonEqual_jsonEqualLists.induct)
  case (1 left right)
  show ?case
  proof (cases "\<exists>fs gs. left = JObj fs \<and> right = JObj gs")
    case True
    then obtain fs gs where [simp]: "left = JObj fs" "right = JObj gs" by blast
    have IH: "jsonEqual (unsigned_zeros v) (unsigned_zeros w) = jsonEqual v w"
      if "k \<in> set (keys_of fs)" "map_of fs k = Some v" "map_of gs k = Some w" for k v w
      by (rule 1(2) [OF refl _ _ that]) simp_all
    show ?thesis
      by (subst (1 2) jsonEqual.simps) (auto simp: keys_unsigned map_of_canon list_all_iff IH split: option.splits)
  next
    case False
    have arrays: "jsonEqualLists (map unsigned_zeros xs) (map unsigned_zeros ys) = jsonEqualLists xs ys"
      if "left = JArr xs" "right = JArr ys" "length xs = length ys" for xs ys
      using that by (intro 1(1)) simp_all
    from False show ?thesis
      by (subst (1 2) jsonEqual.simps) (cases left; cases right; auto simp: arrays num_strict_eq_def split: js_number.splits)
  qed
qed auto

lemma jsonEqual_unsigned_canon:
  assumes "wf_json a" "wf_json b" "without_nan a" "without_nan b"
  shows "jsonEqual a b \<longleftrightarrow> canon (unsigned_zeros a) = canon (unsigned_zeros b)"
  using jsonEqual_canon_lists(1) [OF unsigned_zeros_wf unsigned_zeros_wf unsigned_zeros_plain unsigned_zeros_plain] assms
  by (simp add: jsonEqual_unsigned)

text \<open>
  C10: on JSON documents \<^verbatim>\<open>jsonValuesEqual\<close> decides equality up to the order of object keys, and the
  \<^verbatim>\<open>jsonEqual\<close> of the event store decides equality up to that order and the sign of zeros; so they
  agree once zeros are unsigned, and only there do they differ.
\<close>

theorem deep_equality_agree:
  assumes "wf_json a" and "wf_json b" and "without_nan a" and "without_nan b"
  shows "(jsonValuesEqual a b \<longleftrightarrow> canon a = canon b) \<and>
    (jsonEqual a b \<longleftrightarrow> canon (unsigned_zeros a) = canon (unsigned_zeros b)) \<and>
    (jsonEqual a b \<longleftrightarrow> jsonValuesEqual (unsigned_zeros a) (unsigned_zeros b))"
  using jsonEqual_unsigned_canon [OF assms] assms
  by (simp add: jsonValuesEqual_canon_lists unsigned_zeros_wf)

theorem deep_equality_agree_witness:
  "jsonEqual (JObj [(js ''a'', JNull), (js ''b'', JNum NegZero)]) (JObj [(js ''b'', JInt 0), (js ''a'', JNull)]) \<and>
   \<not> jsonValuesEqual (JObj [(js ''a'', JNull), (js ''b'', JNum NegZero)]) (JObj [(js ''b'', JInt 0), (js ''a'', JNull)])"
proof -
  let ?l = "JObj [(js ''a'', JNull), (js ''b'', JNum NegZero)]"
  let ?r = "JObj [(js ''b'', JInt 0), (js ''a'', JNull)]"
  have "(jsonValuesEqual ?l ?r \<longleftrightarrow> canon ?l = canon ?r) \<and>
      (jsonEqual ?l ?r \<longleftrightarrow> canon (unsigned_zeros ?l) = canon (unsigned_zeros ?r)) \<and>
      (jsonEqual ?l ?r \<longleftrightarrow> jsonValuesEqual (unsigned_zeros ?l) (unsigned_zeros ?r))"
    by (rule deep_equality_agree) simp_all
  moreover have "canon (unsigned_zeros ?l) = canon (unsigned_zeros ?r)" "canon ?l \<noteq> canon ?r" by (simp_all add: js_def)
  ultimately show ?thesis by blast
qed

section \<open>UTF-8 length\<close>

definition high_surrogate :: "code_unit \<Rightarrow> bool" where
  "high_surrogate c \<longleftrightarrow> 0xD800 \<le> c \<and> c \<le> 0xDBFF"

definition low_surrogate :: "code_unit \<Rightarrow> bool" where
  "low_surrogate c \<longleftrightarrow> 0xDC00 \<le> c \<and> c \<le> 0xDFFF"

fun utf8ByteLength :: "js_string \<Rightarrow> nat" where
  "utf8ByteLength [] = 0"
| "utf8ByteLength (c # cs) =
     (if c \<le> 0x7F then 1 + utf8ByteLength cs
      else if c \<le> 0x7FF then 2 + utf8ByteLength cs
      else if high_surrogate c \<and> cs \<noteq> [] \<and> low_surrogate (hd cs) then 4 + utf8ByteLength (tl cs)
      else 3 + utf8ByteLength cs)"

text \<open>The encoding whose length it claims to be: a lone surrogate becomes U+FFFD.\<close>

fun code_points :: "js_string \<Rightarrow> nat list" where
  "code_points [] = []"
| "code_points (c # cs) =
     (if high_surrogate c \<and> cs \<noteq> [] \<and> low_surrogate (hd cs)
      then (0x10000 + (unat c - 0xD800) * 0x400 + (unat (hd cs) - 0xDC00)) # code_points (tl cs)
      else (if high_surrogate c \<or> low_surrogate c then 0xFFFD else unat c) # code_points cs)"

definition utf8_point :: "nat \<Rightarrow> nat list" where
  "utf8_point p =
     (if p < 0x80 then [p]
      else if p < 0x800 then [0xC0 + p div 64, 0x80 + p mod 64]
      else if p < 0x10000 then [0xE0 + p div 4096, 0x80 + p div 64 mod 64, 0x80 + p mod 64]
      else [0xF0 + p div 262144, 0x80 + p div 4096 mod 64, 0x80 + p div 64 mod 64, 0x80 + p mod 64])"

definition utf8_encode :: "js_string \<Rightarrow> nat list" where
  "utf8_encode s = concat (map utf8_point (code_points s))"

lemma utf8ByteLength_encode: "utf8ByteLength s = length (utf8_encode s)"
proof (induction s rule: utf8ByteLength.induct)
  case (2 c cs)
  have lt: "unat c < 0x10000" using unsigned_less [of c, where 'a = nat] by simp
  have le: "c \<le> 0x7F \<longleftrightarrow> unat c \<le> 0x7F" "c \<le> 0x7FF \<longleftrightarrow> unat c \<le> 0x7FF"
    by (simp_all add: word_le_nat_alt)
  show ?case
  proof (cases "high_surrogate c \<and> cs \<noteq> [] \<and> low_surrogate (hd cs)")
    case True
    then have "\<not> c \<le> 0x7F" "\<not> c \<le> 0x7FF"
      by (simp_all add: high_surrogate_def word_le_nat_alt)
    with True 2 show ?thesis by (simp add: utf8_encode_def utf8_point_def)
  next
    case False
    then show ?thesis
    proof (cases "high_surrogate c \<or> low_surrogate c")
      case True
      then have "\<not> c \<le> 0x7F" "\<not> c \<le> 0x7FF"
        by (auto simp: high_surrogate_def low_surrogate_def word_le_nat_alt)
      with True False 2 show ?thesis by (auto simp: utf8_encode_def utf8_point_def)
    next
      case plain: False
      with False 2 lt show ?thesis by (auto simp: utf8_encode_def utf8_point_def le)
    qed
  qed
qed (simp add: utf8_encode_def)

lemma utf8ByteLength_bounds: "length s \<le> utf8ByteLength s \<and> utf8ByteLength s \<le> 3 * length s"
proof (induction s rule: utf8ByteLength.induct)
  case (2 c cs)
  note IH = "2.IH"
  show ?case
  proof (cases "c \<le> 0x7F \<or> c \<le> 0x7FF \<or> \<not> (high_surrogate c \<and> cs \<noteq> [] \<and> low_surrogate (hd cs))")
    case True
    then have "length cs \<le> utf8ByteLength cs \<and> utf8ByteLength cs \<le> 3 * length cs"
      using IH(1,2,4) by metis
    moreover have "utf8ByteLength (c # cs) \<in> {1 + utf8ByteLength cs, 2 + utf8ByteLength cs, 3 + utf8ByteLength cs}"
      using True by (auto simp: utf8ByteLength.simps)
    ultimately show ?thesis by auto
  next
    case False
    then obtain d ds where cs: "cs = d # ds" by (cases cs) simp_all
    with False IH(3) have "length ds \<le> utf8ByteLength ds \<and> utf8ByteLength ds \<le> 3 * length ds" by simp
    moreover have "utf8ByteLength (c # cs) = 4 + utf8ByteLength ds"
      using False cs unfolding utf8ByteLength.simps by simp
    ultimately show ?thesis using cs by simp
  qed
qed simp

text \<open>
  C11: \<^verbatim>\<open>utf8ByteLength\<close> is the number of bytes of the UTF-8 encoding of the string (lone
  surrogates encoded as U+FFFD), between one and three per code unit.
\<close>

theorem utf8ByteLength_correct:
  "utf8ByteLength s = length (utf8_encode s) \<and> length s \<le> utf8ByteLength s \<and>
   utf8ByteLength s \<le> 3 * length s"
  using utf8ByteLength_encode utf8ByteLength_bounds by simp


section \<open>JSON text\<close>

definition hex_digit :: "nat \<Rightarrow> char" where
  "hex_digit n = (if n < 10 then char_of (48 + n) else char_of (87 + n))"

definition unicode_escape :: "code_unit \<Rightarrow> js_string" where
  "unicode_escape c = js (CHR 0x5C # CHR ''u'' # map (\<lambda>k. hex_digit (unat c div 16 ^ k mod 16)) [3, 2, 1, 0])"

text \<open>\<^verbatim>\<open>QuoteJSONString\<close>: short escapes, control characters and lone surrogates escaped.\<close>

fun quote_units :: "js_string \<Rightarrow> js_string" where
  "quote_units [] = []"
| "quote_units (c # cs) =
     (if high_surrogate c \<and> cs \<noteq> [] \<and> low_surrogate (hd cs) then c # hd cs # quote_units (tl cs)
      else if c = 0x22 then js [CHR 0x5C, CHR 0x22] @ quote_units cs
      else if c = 0x5C then js [CHR 0x5C, CHR 0x5C] @ quote_units cs
      else if c = 8 then js [CHR 0x5C, CHR ''b''] @ quote_units cs
      else if c = 9 then js [CHR 0x5C, CHR ''t''] @ quote_units cs
      else if c = 10 then js [CHR 0x5C, CHR ''n''] @ quote_units cs
      else if c = 12 then js [CHR 0x5C, CHR ''f''] @ quote_units cs
      else if c = 13 then js [CHR 0x5C, CHR ''r''] @ quote_units cs
      else if c < 0x20 \<or> high_surrogate c \<or> low_surrogate c then unicode_escape c @ quote_units cs
      else c # quote_units cs)"

definition quote :: "js_string \<Rightarrow> js_string" where
  "quote s = [0x22] @ quote_units s @ [0x22]"

lemma length_quote: "length (quote s) \<le> 6 * length s + 2"
proof -
  have "length (quote_units s) \<le> 6 * length s"
  proof (induction s rule: quote_units.induct)
    case (2 c cs)
    have esc: "length (unicode_escape c) = 6" by (simp add: unicode_escape_def)
    show ?case
    proof (cases "high_surrogate c \<and> cs \<noteq> [] \<and> low_surrogate (hd cs)")
      case True
      with "2.IH"(1) [OF True] show ?thesis by (cases cs) simp_all
    next
      case False
      have "length (quote_units cs) \<le> 6 * length cs"
        using False 2(2-) by metis
      moreover have "length (quote_units (c # cs)) \<le> 6 + length (quote_units cs)"
        unfolding quote_units.simps if_not_P [OF False] by (simp add: esc)
      ultimately show ?thesis by simp
    qed
  qed simp
  then show ?thesis by (simp add: quote_def)
qed

text \<open>
  The text of a number. Integers below \<open>10\<^sup>2\<^sup>1\<close> are decimal; \<open>fractional\<close> renders every other
  finite number (the shortest round-trip rendering of the language, left as a parameter).
\<close>

definition number_text :: "(rat \<Rightarrow> js_string) \<Rightarrow> js_number \<Rightarrow> js_string" where
  "number_text fractional n = (case n of
     Finite r \<Rightarrow> if r = of_int \<lfloor>r\<rfloor> \<and> \<bar>r\<bar> < 10 ^ 21 then js (int_digits \<lfloor>r\<rfloor>) else fractional r
   | NegZero \<Rightarrow> js ''0''
   | _ \<Rightarrow> js ''null'')"

fun join_comma :: "js_string list \<Rightarrow> js_string" where
  "join_comma [] = []"
| "join_comma [x] = x"
| "join_comma (x # xs) = x @ js '','' @ join_comma xs"

fun stringify :: "(rat \<Rightarrow> js_string) \<Rightarrow> json \<Rightarrow> js_string" where
  "stringify R JNull = js ''null''"
| "stringify R (JBool b) = js (if b then ''true'' else ''false'')"
| "stringify R (JNum n) = number_text R n"
| "stringify R (JStr s) = quote s"
| "stringify R (JArr xs) = js ''['' @ join_comma (map (stringify R) xs) @ js '']''"
| "stringify R (JObj fs) =
     js ''{'' @ join_comma (map (\<lambda>f. quote (fst f) @ js '':'' @ stringify R (snd f)) fs) @ js ''}''"

text \<open>\<^verbatim>\<open>JSON.parse(JSON.stringify(value))\<close>: non-finite numbers become \<^verbatim>\<open>null\<close>, negative zero
  becomes zero, everything else survives.\<close>

fun cloneJson :: "json \<Rightarrow> json" where
  "cloneJson (JNum n) = (case n of Finite r \<Rightarrow> JNum (Finite r) | NegZero \<Rightarrow> JNum (Finite 0) | _ \<Rightarrow> JNull)"
| "cloneJson (JArr xs) = JArr (map cloneJson xs)"
| "cloneJson (JObj fs) = JObj (map (\<lambda>f. (fst f, cloneJson (snd f))) fs)"
| "cloneJson j = j"

text \<open>Values that survive the round trip through JSON text.\<close>

fun json_stable :: "json \<Rightarrow> bool" where
  "json_stable (JNum n) = (case n of Finite _ \<Rightarrow> True | _ \<Rightarrow> False)"
| "json_stable (JArr xs) = list_all json_stable xs"
| "json_stable (JObj fs) = list_all (\<lambda>f. json_stable (snd f)) fs"
| "json_stable _ = True"

lemma cloneJson_stable: "json_stable j \<Longrightarrow> cloneJson j = j"
  by (induction j rule: json_stable.induct)
    (auto simp: list_all_iff intro!: map_idI split: js_number.splits prod.splits)

lemma json_stable_cloneJson: "json_stable (cloneJson j)"
  by (induction j rule: cloneJson.induct) (auto simp: list_all_iff split: js_number.splits)

lemma json_stable_plain: "json_stable j \<Longrightarrow> plain_numbers j"
  by (induction j rule: json_stable.induct) (auto simp: list_all_iff split: js_number.splits)

lemma cloneJson_idem: "cloneJson (cloneJson j) = cloneJson j"
  by (simp add: cloneJson_stable json_stable_cloneJson)

end
