(* ===== verification/Timestamps.thy ===== *)
theory Timestamps
  imports Json
begin

text \<open>
  The RFC 3339 UTC timestamps of the durable log: the grammar and calendar checks that
  \<^verbatim>\<open>events.ts\<close>, \<^verbatim>\<open>state-validation.ts\<close> and \<^verbatim>\<open>approval-proposal-store.ts\<close> each carry a copy
  of, and \<^verbatim>\<open>Date.parse\<close> on the strings they accept. Outside that grammar \<^verbatim>\<open>Date.parse\<close> is
  implementation-defined and the model answers \<open>None\<close> (not a number); the modelled code
  calls it on accepted timestamps only.
\<close>

record time_fields =
  tf_year :: nat
  tf_month :: nat
  tf_day :: nat
  tf_hour :: nat
  tf_minute :: nat
  tf_second :: nat
  tf_fraction :: js_string

definition digit_value :: "code_unit \<Rightarrow> nat" where
  "digit_value c = unat c - 48"

definition digits_value :: "js_string \<Rightarrow> nat" where
  "digits_value ds = foldl (\<lambda>n d. 10 * n + digit_value d) 0 ds"

definition slice :: "nat \<Rightarrow> nat \<Rightarrow> 'a list \<Rightarrow> 'a list" where
  "slice i n s = take n (drop i s)"

definition digits_at :: "nat \<Rightarrow> nat \<Rightarrow> js_string \<Rightarrow> bool" where
  "digits_at i n s \<longleftrightarrow> i + n \<le> length s \<and> list_all is_digit (slice i n s)"

definition char_at :: "nat \<Rightarrow> char \<Rightarrow> js_string \<Rightarrow> bool" where
  "char_at i c s \<longleftrightarrow> i < length s \<and> s ! i = of_char c"

text \<open>\<^verbatim>\<open>(?:\.\d{1,9})?Z\<close> at the end of the string; the digits of the fraction, if it matches.\<close>

definition fraction_tail :: "js_string \<Rightarrow> js_string option" where
  "fraction_tail t =
     (if t = js ''Z'' then Some []
      else if t \<noteq> [] \<and> hd t = of_char CHR ''.'' \<and> last t = of_char CHR ''Z'' \<and>
        3 \<le> length t \<and> length t \<le> 11 \<and> list_all is_digit (slice 1 (length t - 2) t)
      then Some (slice 1 (length t - 2) t) else None)"

definition timestamp_match :: "js_string \<Rightarrow> time_fields option" where
  "timestamp_match s =
     (if digits_at 0 4 s \<and> char_at 4 CHR ''-'' s \<and> digits_at 5 2 s \<and> char_at 7 CHR ''-'' s \<and>
         digits_at 8 2 s \<and> char_at 10 CHR ''T'' s \<and> digits_at 11 2 s \<and> char_at 13 CHR '':'' s \<and>
         digits_at 14 2 s \<and> char_at 16 CHR '':'' s \<and> digits_at 17 2 s
      then (case fraction_tail (drop 19 s) of
          None \<Rightarrow> None
        | Some f \<Rightarrow> Some \<lparr>tf_year = digits_value (slice 0 4 s), tf_month = digits_value (slice 5 2 s),
            tf_day = digits_value (slice 8 2 s), tf_hour = digits_value (slice 11 2 s),
            tf_minute = digits_value (slice 14 2 s), tf_second = digits_value (slice 17 2 s),
            tf_fraction = f\<rparr>)
      else None)"

definition leapYear :: "nat \<Rightarrow> bool" where
  "leapYear year \<longleftrightarrow> year mod 4 = 0 \<and> (year mod 100 \<noteq> 0 \<or> year mod 400 = 0)"

definition month_lengths :: "nat \<Rightarrow> nat list" where
  "month_lengths year = [31, if leapYear year then 29 else 28, 31, 30, 31, 30, 31, 31, 30, 31, 30, 31]"

text \<open>\<^verbatim>\<open>[31, ...][month - 1]\<close>: undefined out of range.\<close>

definition daysInMonth :: "nat \<Rightarrow> nat \<Rightarrow> nat option" where
  "daysInMonth year month =
     (if 1 \<le> month \<and> month \<le> 12 then Some (month_lengths year ! (month - 1)) else None)"

definition valid_fields :: "time_fields \<Rightarrow> bool" where
  "valid_fields f \<longleftrightarrow> tf_year f \<noteq> 0 \<and>
     (case daysInMonth (tf_year f) (tf_month f) of None \<Rightarrow> False
      | Some d \<Rightarrow> 1 \<le> tf_day f \<and> tf_day f \<le> d) \<and>
     tf_hour f \<le> 23 \<and> tf_minute f \<le> 59 \<and> tf_second f \<le> 59"

section \<open>\<^verbatim>\<open>Date.parse\<close>\<close>

text \<open>\<^verbatim>\<open>DayFromYear\<close> of the language specification, and the days of the months before.\<close>

definition DayFromYear :: "int \<Rightarrow> int" where
  "DayFromYear y = 365 * (y - 1970) + (y - 1969) div 4 - (y - 1901) div 100 + (y - 1601) div 400"

definition epoch_day :: "time_fields \<Rightarrow> int" where
  "epoch_day f = DayFromYear (int (tf_year f)) +
     int (sum_list (take (tf_month f - 1) (month_lengths (tf_year f)))) + int (tf_day f) - 1"

definition milliseconds :: "js_string \<Rightarrow> nat" where
  "milliseconds fraction = digits_value (take 3 (fraction @ js ''000''))"

definition epoch_ms :: "time_fields \<Rightarrow> int" where
  "epoch_ms f = (((epoch_day f * 24 + int (tf_hour f)) * 60 + int (tf_minute f)) * 60 +
     int (tf_second f)) * 1000 + int (milliseconds (tf_fraction f))"

definition Date_parse :: "js_string \<Rightarrow> int option" where
  "Date_parse s = (case timestamp_match s of None \<Rightarrow> None
     | Some f \<Rightarrow> if valid_fields f then Some (epoch_ms f) else None)"

text \<open>Comparisons with \<^verbatim>\<open>NaN\<close> are false.\<close>

definition date_less :: "js_string \<Rightarrow> js_string \<Rightarrow> bool" where
  "date_less a b = (case (Date_parse a, Date_parse b) of (Some x, Some y) \<Rightarrow> x < y | _ \<Rightarrow> False)"

text \<open>
  \<^verbatim>\<open>isConversationTimestamp\<close> of \<^verbatim>\<open>state-validation.ts\<close> (and the identical \<^verbatim>\<open>isTimestamp\<close> of
  \<^verbatim>\<open>approval-proposal-store.ts\<close>) on a string.
\<close>

definition isConversationTimestamp :: "js_string \<Rightarrow> bool" where
  "isConversationTimestamp value \<longleftrightarrow> length value \<le> 64 \<and>
     (case timestamp_match value of None \<Rightarrow> False
      | Some f \<Rightarrow> valid_fields f \<and> Date_parse value \<noteq> None)"

lemma isConversationTimestamp_Date_parse:
  "isConversationTimestamp s \<Longrightarrow> \<exists>t. Date_parse s = Some t"
  by (auto simp: isConversationTimestamp_def split: option.splits)

lemma fraction_tail_length: "fraction_tail t = Some f \<Longrightarrow> length t \<le> 11"
  by (auto simp: fraction_tail_def split: if_splits)

lemma timestamp_match_length: "timestamp_match s = Some f \<Longrightarrow> length s \<le> 30"
  by (auto simp: timestamp_match_def dest!: fraction_tail_length split: if_splits option.splits)

text \<open>The checks are exactly that \<^verbatim>\<open>Date.parse\<close> gives a number on the grammar.\<close>

lemma isConversationTimestamp_iff: "isConversationTimestamp s \<longleftrightarrow> Date_parse s \<noteq> None"
proof -
  have "length s \<le> 64" if "timestamp_match s = Some f" for f
    using timestamp_match_length [OF that] by simp
  then show ?thesis
    by (auto simp: isConversationTimestamp_def Date_parse_def split: option.splits if_splits)
qed

lemma Date_parse_epoch: "Date_parse (js ''1970-01-01T00:00:00Z'') = Some 0"
  by (simp add: Date_parse_def timestamp_match_def digits_at_def char_at_def slice_def
      fraction_tail_def digits_value_def digit_value_def valid_fields_def daysInMonth_def
      month_lengths_def epoch_ms_def epoch_day_def DayFromYear_def milliseconds_def is_digit_def
      in_range_def js_def)

end
