(* ===== verification/Validation.thy ===== *)
theory Validation
  imports Timestamps
begin

text \<open>
  The field checks that \<^verbatim>\<open>events.ts\<close> and \<^verbatim>\<open>citations.ts\<close> share: a plain JSON object, its
  required and allowed keys, bounded strings and enumerations. Each takes the constructor
  of the error it throws. The input is a JSON value, so the checks against host objects
  (foreign prototypes, symbol keys, accessors, sparse arrays, cycles) have nothing to find.
\<close>

type_synonym js_object = "(js_string \<times> json) list"
type_synonym 'e error_of = "js_string \<Rightarrow> string \<Rightarrow> 'e"

datatype (plugins only: code size) validation_error =
    ConversationEventValidationError js_string js_string
  | CitationValidationError js_string js_string

definition dot :: "js_string \<Rightarrow> string \<Rightarrow> js_string" where
  "dot path key = path @ js ''.'' @ js key"

definition index_path :: "js_string \<Rightarrow> nat \<Rightarrow> js_string" where
  "index_path path i = path @ js ''['' @ js (nat_digits i) @ js '']''"

fun join_with :: "string \<Rightarrow> string list \<Rightarrow> string" where
  "join_with sep [] = []"
| "join_with sep [x] = x"
| "join_with sep (x # xs) = x @ sep @ join_with sep xs"

definition as_record :: "'e error_of \<Rightarrow> string \<Rightarrow> json \<Rightarrow> js_string \<Rightarrow> 'e + js_object" where
  "as_record E msg value path = (case value of JObj fs \<Rightarrow> Inr fs | _ \<Rightarrow> Inl (E path msg))"

definition allowed_keys :: "'e error_of \<Rightarrow> js_object \<Rightarrow> string list \<Rightarrow> js_string \<Rightarrow> 'e + unit" where
  "allowed_keys E value keys path =
     (case find (\<lambda>k. k \<notin> set (map js keys)) (keys_of value) of
        None \<Rightarrow> Inr ()
      | Some k \<Rightarrow> Inl (E (path @ js ''.'' @ k) ''is not a supported field''))"

definition required_keys :: "'e error_of \<Rightarrow> js_object \<Rightarrow> string list \<Rightarrow> js_string \<Rightarrow> 'e + unit" where
  "required_keys E value keys path =
     (case find (\<lambda>k. js k \<notin> set (keys_of value)) keys of
        None \<Rightarrow> Inr ()
      | Some k \<Rightarrow> Inl (E (dot path k) ''is required''))"

text \<open>\<^verbatim>\<open>object.key\<close>; a missing key reads as \<^verbatim>\<open>undefined\<close>, here \<open>None\<close>.\<close>

definition fld :: "js_object \<Rightarrow> string \<Rightarrow> json option" where
  "fld obj k = prop_of obj (js k)"

definition has_own :: "js_object \<Rightarrow> string \<Rightarrow> bool" where
  "has_own obj k \<longleftrightarrow> js k \<in> set (keys_of obj)"

definition enum_value :: "'e error_of \<Rightarrow> json option \<Rightarrow> string list \<Rightarrow> js_string \<Rightarrow> 'e + string" where
  "enum_value E value values path =
     (case value of
        Some (JStr s) \<Rightarrow> (case find (\<lambda>v. js v = s) values of
            Some v \<Rightarrow> Inr v
          | None \<Rightarrow> Inl (E path (''must be one of: '' @ join_with '', '' values)))
      | _ \<Rightarrow> Inl (E path (''must be one of: '' @ join_with '', '' values)))"

lemma fld_simps [simp]:
  "fld [] k = None"
  "fld ((js k', v) # fs) k = (if k = k' then Some v else fld fs k)"
  "fld (fs @ gs) k = (case fld fs k of None \<Rightarrow> fld gs k | Some v \<Rightarrow> Some v)"
  by (simp_all add: fld_def split: option.splits)

lemma has_own_fld: "has_own obj k \<longleftrightarrow> fld obj k \<noteq> None"
  by (simp add: has_own_def fld_def prop_of_def map_of_key)

lemma required_keys_Inr_iff:
  "required_keys E obj ks p = Inr u \<longleftrightarrow> (\<forall>k \<in> set ks. fld obj k \<noteq> None)"
  by (auto simp: required_keys_def fld_def prop_of_def map_of_key find_None_iff find_Some_iff
      split: option.splits)

lemma allowed_keys_Inr_iff:
  "allowed_keys E obj ks p = Inr u \<longleftrightarrow> set (keys_of obj) \<subseteq> js ` set ks"
proof (cases "find (\<lambda>k. k \<notin> set (map js ks)) (keys_of obj)")
  case None
  then have "set (keys_of obj) \<subseteq> js ` set ks" by (auto simp: find_None_iff)
  then show ?thesis unfolding allowed_keys_def None by simp
next
  case (Some k)
  then have "k \<in> set (keys_of obj)" "k \<notin> js ` set ks" by (auto simp: find_Some_iff)
  then show ?thesis unfolding allowed_keys_def Some by auto
qed

lemma enum_value_Inr_iff:
  "enum_value E v vs p = Inr s \<longleftrightarrow> v = Some (JStr (js s)) \<and> s \<in> set vs"
proof -
  have "find (\<lambda>v. js v = t) vs = Some s \<longleftrightarrow> t = js s \<and> s \<in> set vs" for t
  proof
    assume "find (\<lambda>v. js v = t) vs = Some s"
    then show "t = js s \<and> s \<in> set vs" by (auto simp: find_Some_iff)
  next
    assume h: "t = js s \<and> s \<in> set vs"
    then have "find (\<lambda>v. js v = t) vs \<noteq> None" by (auto simp: find_None_iff)
    then obtain r where r: "find (\<lambda>v. js v = t) vs = Some r" by blast
    then have "js r = t" by (auto simp: find_Some_iff)
    with h r show "find (\<lambda>v. js v = t) vs = Some s" by simp
  qed
  note found = this
  show ?thesis
  proof (cases "\<exists>t. v = Some (JStr t)")
    case True
    then obtain t where "v = Some (JStr t)" by blast
    then show ?thesis using found [of t] by (auto simp: enum_value_def split: option.splits)
  next
    case False
    then show ?thesis by (auto simp: enum_value_def split: option.splits json.splits)
  qed
qed

lemma as_record_Inr_iff: "as_record E m v p = Inr fs \<longleftrightarrow> v = JObj fs"
  by (cases v) (auto simp: as_record_def)

lemmas check_iffs = bindE_Inr_iff required_keys_Inr_iff allowed_keys_Inr_iff enum_value_Inr_iff
  as_record_Inr_iff

end
