(* ===== verification/Citations.thy ===== *)
theory Citations
  imports Validation
begin

unbundle bit_operations_syntax

text \<open>
  \<^verbatim>\<open>src/citations.ts\<close>: provider-neutral citation records and their strict normalisation.
  The URL parser of the host platform is a parameter (\<open>parse_url\<close>); the record \<open>url\<close>
  holds what the code reads of a parsed URL.
\<close>

section \<open>Records\<close>

datatype (plugins only: code size) CitationSourceType = SourceWeb | SourceDocument | SourceTool

definition CITATION_SOURCE_TYPES :: "string list" where
  "CITATION_SOURCE_TYPES = [''web'', ''document'', ''tool'']"

definition CITATION_ATTACHMENT_TARGET_TYPES :: "string list" where
  "CITATION_ATTACHMENT_TARGET_TYPES = [''assistant_message'', ''tool_result'']"

definition CITATION_SAFE_WEB_SCHEMES :: "string list" where
  "CITATION_SAFE_WEB_SCHEMES = [''http:'', ''https:'']"

record citation_limits =
  sourcesPerRecordSet :: nat
  citationsPerRecordSet :: nat
  citationIdentifierLength :: nat
  labelLength :: nat
  locatorLength :: nat
  totalSerializedUtf8Bytes :: nat

definition CITATION_LIMITS :: citation_limits where
  "CITATION_LIMITS = \<lparr>sourcesPerRecordSet = 64, citationsPerRecordSet = 256,
     citationIdentifierLength = 256, labelLength = 512, locatorLength = 2048,
     totalSerializedUtf8Bytes = 131072\<rparr>"

record CitationSource =
  cs_source_id :: js_string
  cs_type :: CitationSourceType
  cs_label :: js_string
  cs_locator :: "js_string option"

datatype (plugins only: code size) CitationAttachmentTarget =
    AssistantMessageCitationTarget js_string
  | ToolResultCitationTarget js_string

record Citation =
  ct_citation_id :: js_string
  ct_source_id :: js_string
  ct_order :: js_number
  ct_target :: CitationAttachmentTarget

record CitationRecordSet =
  rs_sources :: "CitationSource list"
  rs_citations :: "Citation list"

record url =
  url_protocol :: js_string
  url_username :: js_string
  url_password :: js_string
  url_searchParams :: "(js_string \<times> js_string) list"
  url_hashParams :: "(js_string \<times> js_string) list"
  url_hostname :: js_string
  url_href :: js_string

type_synonym url_parser = "js_string \<Rightarrow> url option"

text \<open>The JSON form of the records: the object each interface describes.\<close>

definition source_type_text :: "CitationSourceType \<Rightarrow> string" where
  "source_type_text t = (case t of SourceWeb \<Rightarrow> ''web'' | SourceDocument \<Rightarrow> ''document'' | SourceTool \<Rightarrow> ''tool'')"

definition opt_field :: "string \<Rightarrow> json option \<Rightarrow> js_object" where
  "opt_field k v = (case v of None \<Rightarrow> [] | Some j \<Rightarrow> [(js k, j)])"

definition citation_source_json :: "CitationSource \<Rightarrow> json" where
  "citation_source_json s = JObj ([(js ''source_id'', JStr (cs_source_id s)),
     (js ''type'', JStr (js (source_type_text (cs_type s)))), (js ''label'', JStr (cs_label s))] @
     opt_field ''locator'' (map_option JStr (cs_locator s)))"

definition citation_target_json :: "CitationAttachmentTarget \<Rightarrow> json" where
  "citation_target_json t = (case t of
     AssistantMessageCitationTarget m \<Rightarrow>
       JObj [(js ''type'', JStr (js ''assistant_message'')), (js ''message_id'', JStr m)]
   | ToolResultCitationTarget c \<Rightarrow>
       JObj [(js ''type'', JStr (js ''tool_result'')), (js ''tool_call_id'', JStr c)])"

definition citation_json :: "Citation \<Rightarrow> json" where
  "citation_json c = JObj [(js ''citation_id'', JStr (ct_citation_id c)),
     (js ''source_id'', JStr (ct_source_id c)), (js ''order'', JNum (ct_order c)),
     (js ''target'', citation_target_json (ct_target c))]"

definition citation_records_json :: "CitationRecordSet \<Rightarrow> json" where
  "citation_records_json r = JObj [(js ''sources'', JArr (map citation_source_json (rs_sources r))),
     (js ''citations'', JArr (map citation_json (rs_citations r)))]"

section \<open>Field checks\<close>

definition cerr :: "validation_error error_of" where
  "cerr path message = CitationValidationError path (js message)"

definition control_character :: "code_unit \<Rightarrow> bool" where
  "control_character c \<longleftrightarrow> c \<le> 0x1F \<or> c = 0x7F"

definition boundedString :: "json option \<Rightarrow> js_string \<Rightarrow> nat \<Rightarrow> validation_error + js_string" where
  "boundedString value path maxLength =
     (case value of
        Some (JStr raw) \<Rightarrow>
          (if length raw > maxLength
           then Inl (cerr path (''must be at most '' @ nat_digits maxLength @ '' characters''))
           else let normalized = trim raw in
             if normalized = [] then Inl (cerr path ''must not be empty'')
             else if list_ex control_character normalized
             then Inl (cerr path ''must not contain control characters'')
             else if matches_any CITATION_CREDENTIAL_VALUE_PATTERNS normalized
             then Inl (cerr path ''must not contain credential material'')
             else Inr normalized)
      | _ \<Rightarrow> Inl (cerr path ''must be a string''))"

definition IDENTIFIER_PATTERN :: re where
  "IDENTIFIER_PATTERN = head_then_star alnum_i (\<lambda>c. alnum_i c \<or> one_of ''._:@-'' c)"

definition OPAQUE_LOCATOR_PATTERN :: re where
  "OPAQUE_LOCATOR_PATTERN = head_then_star alnum_i (\<lambda>c. alnum_i c \<or> one_of ''._:@/#?=&%+~-'' c)"

definition citation_identifier :: "json option \<Rightarrow> js_string \<Rightarrow> validation_error + js_string" where
  "citation_identifier value path =
     bindE (boundedString value path (citationIdentifierLength CITATION_LIMITS)) (\<lambda>normalized.
       if test IDENTIFIER_PATTERN normalized then Inr normalized
       else Inl (cerr path ''must use letters, numbers, dot, underscore, colon, at-sign, or hyphen''))"

section \<open>Host addresses\<close>

text \<open>\<^verbatim>\<open>text.split(separator)\<close> for a non-empty separator.\<close>

fun split_acc :: "js_string \<Rightarrow> js_string \<Rightarrow> js_string \<Rightarrow> js_string list" where
  "split_acc sep acc [] = [rev acc]"
| "split_acc sep acc (c # cs) =
     (if sep \<noteq> [] \<and> take (length sep) (c # cs) = sep
      then rev acc # split_acc sep [] (drop (length sep - 1) cs)
      else split_acc sep (c # acc) cs)"

definition str_split :: "string \<Rightarrow> js_string \<Rightarrow> js_string list" where
  "str_split sep s = split_acc (js sep) [] s"

definition parseIpv4 :: "js_string \<Rightarrow> nat list option" where
  "parseIpv4 hostname =
     (let parts = str_split ''.'' hostname in
      if length parts \<noteq> 4 then None
      else if list_ex (\<lambda>part. \<not> (1 \<le> length part \<and> length part \<le> 3 \<and> list_all is_digit part) \<or>
                255 < digits_value part) parts then None
      else Some (map digits_value parts))"

definition isUnsafeIpv4 :: "nat list \<Rightarrow> bool" where
  "isUnsafeIpv4 octets =
     (let a = octets ! 0; b = octets ! 1 in
      a = 0 \<or> a = 10 \<or> a = 127 \<or> (a = 100 \<and> 64 \<le> b \<and> b \<le> 127) \<or> (a = 169 \<and> b = 254) \<or>
      (a = 172 \<and> 16 \<le> b \<and> b \<le> 31) \<or> (a = 192 \<and> b = 168) \<or> (a = 198 \<and> (b = 18 \<or> b = 19)) \<or>
      224 \<le> a)"

definition hex_char :: "code_unit \<Rightarrow> bool" where
  "hex_char c \<longleftrightarrow> is_digit c \<or> in_range CHR ''a'' CHR ''f'' c \<or> in_range CHR ''A'' CHR ''F'' c"

definition hex_value :: "js_string \<Rightarrow> nat" where
  "hex_value ds = foldl (\<lambda>n c. 16 * n +
     (if is_digit c then unat c - 48 else if in_range CHR ''a'' CHR ''f'' c then unat c - 87
      else unat c - 55)) 0 ds"

definition hex_segment :: "js_string \<Rightarrow> bool" where
  "hex_segment part \<longleftrightarrow> 1 \<le> length part \<and> length part \<le> 4 \<and> list_all hex_char part"

definition parseIpv6 :: "js_string \<Rightarrow> nat option" where
  "parseIpv6 hostname =
     (let unwrapped = (if hostname \<noteq> [] \<and> hd hostname = of_char CHR ''['' \<and> last hostname = of_char CHR '']''
                       then slice 1 (length hostname - 2) hostname else hostname) in
      if \<not> str_includes unwrapped (js '':'') then None
      else let halves = str_split ''::'' unwrapped in
      if 2 < length halves then None
      else let left = (if halves ! 0 = [] then [] else str_split '':'' (halves ! 0));
               right = (if length halves = 1 \<or> halves ! 1 = [] then [] else str_split '':'' (halves ! 1)) in
      if list_ex (\<lambda>p. \<not> hex_segment p) left then None
      else if list_ex (\<lambda>p. \<not> hex_segment p) right then None
      else if length halves = 1 \<and> length left + length right \<noteq> 8 \<or>
              length halves = 2 \<and> 8 < length left + length right + 1 then None
      else let segments = left @ replicate (8 - (length left + length right)) (js ''0'') @ right in
      if length segments \<noteq> 8 then None
      else Some (foldl (\<lambda>result segment. push_bit 16 result OR hex_value segment) 0 segments))"

definition isUnsafeIpv6 :: "nat \<Rightarrow> bool" where
  "isUnsafeIpv6 address =
     (if address = 0 \<or> address = 1 then True
      else if address AND push_bit 112 0xFFC0 = push_bit 112 0xFE80 then True
      else if address AND push_bit 112 0xFE00 = push_bit 112 0xFC00 then True
      else let prefix = address AND (2 ^ 128 - 2 ^ 32) in
        if prefix = 0 \<or> prefix = push_bit 32 0xFFFF
        then (let ipv4 = address AND 0xFFFFFFFF in
          isUnsafeIpv4 [drop_bit 24 ipv4 AND 0xFF, drop_bit 16 ipv4 AND 0xFF,
            drop_bit 8 ipv4 AND 0xFF, ipv4 AND 0xFF])
        else False)"

section \<open>Locators\<close>

definition CREDENTIAL_QUERY_PARAMETERS :: "string list" where
  "CREDENTIAL_QUERY_PARAMETERS = [''accesstoken'', ''apikey'', ''auth'', ''authorization'',
     ''clientsecret'', ''credential'', ''key'', ''password'', ''passwd'', ''secret'', ''sig'',
     ''signature'', ''token'']"

definition ends_with :: "js_string \<Rightarrow> js_string \<Rightarrow> bool" where
  "ends_with s t \<longleftrightarrow> length t \<le> length s \<and> drop (length s - length t) s = t"

text \<open>\<^verbatim>\<open>url.hostname.toLowerCase().replace(/\.$/, "")\<close>; a parsed host name is ASCII.\<close>

definition normal_hostname :: "js_string \<Rightarrow> js_string" where
  "normal_hostname h = (let l = map lower_ascii h in if ends_with l (js ''.'') then butlast l else l)"

definition credential_parameter :: "js_string \<times> js_string \<Rightarrow> bool" where
  "credential_parameter nv \<longleftrightarrow>
     normalizeFieldName (fst nv) \<in> set (map js CREDENTIAL_QUERY_PARAMETERS) \<or>
     matches_any CITATION_CREDENTIAL_VALUE_PATTERNS (snd nv)"

definition normalizeWebLocator ::
  "url_parser \<Rightarrow> json option \<Rightarrow> js_string \<Rightarrow> validation_error + js_string" where
  "normalizeWebLocator parse_url value path =
     bindE (boundedString value path (locatorLength CITATION_LIMITS)) (\<lambda>locator.
       case parse_url locator of
         None \<Rightarrow> Inl (cerr path ''must be a valid absolute URL'')
       | Some url \<Rightarrow>
           if url_protocol url \<notin> set (map js CITATION_SAFE_WEB_SCHEMES)
           then Inl (cerr path (''must use one of: '' @ join_with '', '' CITATION_SAFE_WEB_SCHEMES))
           else if url_username url \<noteq> [] \<or> url_password url \<noteq> []
           then Inl (cerr path ''must not contain credentials'')
           else if list_ex credential_parameter (url_searchParams url @ url_hashParams url)
           then Inl (cerr path ''must not contain credential query parameters or fragments'')
           else let hostname = normal_hostname (url_hostname url) in
           if hostname = js ''localhost'' \<or> ends_with hostname (js ''.localhost'')
           then Inl (cerr path ''must not target localhost'')
           else if (case parseIpv4 hostname of None \<Rightarrow> False | Some ip \<Rightarrow> isUnsafeIpv4 ip)
           then Inl (cerr path ''must not target a private or non-public IPv4 address'')
           else if (case parseIpv6 hostname of None \<Rightarrow> False | Some ip \<Rightarrow> isUnsafeIpv6 ip)
           then Inl (cerr path ''must not target a private or non-public IPv6 address'')
           else if locatorLength CITATION_LIMITS < length (url_href url)
           then Inl (cerr path (''must normalize to at most '' @ nat_digits (locatorLength CITATION_LIMITS)
                  @ '' characters''))
           else Inr (url_href url))"

definition sep_opt :: re where
  "sep_opt = opt (RChar (one_of ''_-''))"

definition CREDENTIAL_LOCATOR_PATTERN :: re where
  "CREDENTIAL_LOCATOR_PATTERN =
     RSeq (RAlt RStart (RChar (one_of ''?&#;'')))
       (RSeq (foldr RAlt
          [RSeq (lit_i ''access'') (RSeq sep_opt (lit_i ''token'')),
           RSeq (lit_i ''api'') (RSeq sep_opt (lit_i ''key'')),
           lit_i ''authorization'',
           RSeq (lit_i ''client'') (RSeq sep_opt (lit_i ''secret'')),
           lit_i ''credential'', lit_i ''password'', lit_i ''passwd'', lit_i ''secret'',
           RSeq (lit_i ''sig'') (opt (lit_i ''nature''))]
          (lit_i ''token''))
        (lit_i ''=''))"

definition normalizeOpaqueLocator :: "json option \<Rightarrow> js_string \<Rightarrow> validation_error + js_string" where
  "normalizeOpaqueLocator value path =
     bindE (boundedString value path (locatorLength CITATION_LIMITS)) (\<lambda>locator.
       if \<not> test OPAQUE_LOCATOR_PATTERN locator \<or> str_includes locator (js ''://'')
       then Inl (cerr path ''must be a bounded provider-neutral opaque locator'')
       else if test CREDENTIAL_LOCATOR_PATTERN locator
       then Inl (cerr path ''must not contain credential parameters'')
       else Inr locator)"

section \<open>Sources, citations and record sets\<close>

definition source_type_of :: "string \<Rightarrow> CitationSourceType" where
  "source_type_of t = (if t = ''web'' then SourceWeb else if t = ''document'' then SourceDocument else SourceTool)"

definition normalizeCitationSource :: "url_parser \<Rightarrow> json \<Rightarrow> validation_error + CitationSource" where
  "normalizeCitationSource parse_url input =
     (let P = js ''$source'' in
      bindE (as_record cerr ''must be a plain JSON object'' input P) (\<lambda>source.
      bindE (required_keys cerr source [''source_id'', ''type'', ''label''] P) (\<lambda>_.
      bindE (allowed_keys cerr source [''source_id'', ''type'', ''label'', ''locator''] P) (\<lambda>_.
      bindE (citation_identifier (fld source ''source_id'') (dot P ''source_id'')) (\<lambda>sourceId.
      bindE (enum_value cerr (fld source ''type'') CITATION_SOURCE_TYPES (dot P ''type'')) (\<lambda>type.
      bindE (boundedString (fld source ''label'') (dot P ''label'') (labelLength CITATION_LIMITS)) (\<lambda>label.
      bindE (if has_own source ''locator''
             then map_sum id Some
               (if type = ''web'' then normalizeWebLocator parse_url (fld source ''locator'') (dot P ''locator'')
                else normalizeOpaqueLocator (fld source ''locator'') (dot P ''locator''))
             else Inr None) (\<lambda>locator.
      Inr \<lparr>cs_source_id = sourceId, cs_type = source_type_of type, cs_label = label,
           cs_locator = locator\<rparr>))))))))"

definition normalizeTarget :: "json option \<Rightarrow> validation_error + CitationAttachmentTarget" where
  "normalizeTarget input =
     (let P = js ''$citation.target'' in
      bindE (as_record cerr ''must be a plain JSON object'' (coalesce input JNull) P) (\<lambda>target.
      bindE (required_keys cerr target [''type''] P) (\<lambda>_.
      bindE (enum_value cerr (fld target ''type'') CITATION_ATTACHMENT_TARGET_TYPES (dot P ''type'')) (\<lambda>type.
      if type = ''assistant_message''
      then bindE (required_keys cerr target [''message_id''] P) (\<lambda>_.
           bindE (allowed_keys cerr target [''type'', ''message_id''] P) (\<lambda>_.
           bindE (citation_identifier (fld target ''message_id'') (dot P ''message_id'')) (\<lambda>m.
           Inr (AssistantMessageCitationTarget m))))
      else bindE (required_keys cerr target [''tool_call_id''] P) (\<lambda>_.
           bindE (allowed_keys cerr target [''type'', ''tool_call_id''] P) (\<lambda>_.
           bindE (citation_identifier (fld target ''tool_call_id'') (dot P ''tool_call_id'')) (\<lambda>c.
           Inr (ToolResultCitationTarget c))))))))"

definition safe_order :: "json option \<Rightarrow> validation_error + js_number" where
  "safe_order v = (case v of
     Some (JNum n) \<Rightarrow> (case safe_int n of
         Some i \<Rightarrow> if i < 0 then Inl (cerr (js ''$citation.order'') ''must be a non-negative safe integer'') else Inr n
       | None \<Rightarrow> Inl (cerr (js ''$citation.order'') ''must be a non-negative safe integer''))
   | _ \<Rightarrow> Inl (cerr (js ''$citation.order'') ''must be a non-negative safe integer''))"

definition normalizeCitation :: "json \<Rightarrow> validation_error + Citation" where
  "normalizeCitation input =
     (let P = js ''$citation'' in
      bindE (as_record cerr ''must be a plain JSON object'' input P) (\<lambda>citation.
      bindE (required_keys cerr citation [''citation_id'', ''source_id'', ''order'', ''target''] P) (\<lambda>_.
      bindE (allowed_keys cerr citation [''citation_id'', ''source_id'', ''order'', ''target''] P) (\<lambda>_.
      bindE (safe_order (fld citation ''order'')) (\<lambda>order.
      bindE (citation_identifier (fld citation ''citation_id'') (dot P ''citation_id'')) (\<lambda>cid.
      bindE (citation_identifier (fld citation ''source_id'') (dot P ''source_id'')) (\<lambda>sid.
      bindE (normalizeTarget (fld citation ''target'')) (\<lambda>target.
      Inr \<lparr>ct_citation_id = cid, ct_source_id = sid, ct_order = order, ct_target = target\<rparr>))))))))"

definition citation_array :: "json option \<Rightarrow> js_string \<Rightarrow> nat \<Rightarrow> validation_error + json list" where
  "citation_array value path maxLength =
     (case value of
        Some (JArr values) \<Rightarrow>
          if maxLength < length values
          then Inl (cerr path (''must contain at most '' @ nat_digits maxLength @ '' records''))
          else Inr values
      | _ \<Rightarrow> Inl (cerr path ''must be an array''))"

text \<open>
  Records are compared by their JSON text. Orders are safe integers, so the rendering of
  other numbers is never consulted.
\<close>

definition record_text :: "json \<Rightarrow> js_string" where
  "record_text = stringify (\<lambda>_. [])"

fun deduplicateByIdentity ::
  "('a \<Rightarrow> js_string) \<Rightarrow> ('a \<Rightarrow> json) \<Rightarrow> string \<Rightarrow> 'a list \<Rightarrow> 'a list \<Rightarrow> validation_error + 'a list" where
  "deduplicateByIdentity identity encode kind retained [] = Inr retained"
| "deduplicateByIdentity identity encode kind retained (current # rest) =
     (case find (\<lambda>r. identity r = identity current) retained of
        None \<Rightarrow> deduplicateByIdentity identity encode kind (retained @ [current]) rest
      | Some existing \<Rightarrow>
          if record_text (encode existing) \<noteq> record_text (encode current)
          then Inl (cerr (js ''$'' @ js kind @ js ''['' @ identity current @ js '']'')
                 ''conflicts with an earlier record using the same identity'')
          else deduplicateByIdentity identity encode kind retained rest)"

definition deduplicateCitationRecords ::
  "url_parser \<Rightarrow> json option \<Rightarrow> json option \<Rightarrow> validation_error + CitationRecordSet" where
  "deduplicateCitationRecords parse_url sourcesInput citationsInput =
     bindE (citation_array sourcesInput (js ''$records.sources'') (sourcesPerRecordSet CITATION_LIMITS)) (\<lambda>sourceValues.
     bindE (citation_array citationsInput (js ''$records.citations'') (citationsPerRecordSet CITATION_LIMITS)) (\<lambda>citationValues.
     bindE (mapE (normalizeCitationSource parse_url) sourceValues) (\<lambda>ss.
     bindE (deduplicateByIdentity cs_source_id citation_source_json ''sources'' [] ss) (\<lambda>sources.
     bindE (mapE normalizeCitation citationValues) (\<lambda>cs.
     bindE (deduplicateByIdentity ct_citation_id citation_json ''citations'' [] cs) (\<lambda>citations.
     (case find (\<lambda>c. ct_source_id c \<notin> set (map cs_source_id sources)) citations of
        Some c \<Rightarrow> Inl (cerr (js ''$citations['' @ ct_citation_id c @ js ''].source_id'')
                     ''must reference a source in the same record set'')
      | None \<Rightarrow>
          let normalized = \<lparr>rs_sources = sources, rs_citations = citations\<rparr> in
          if totalSerializedUtf8Bytes CITATION_LIMITS <
             length (utf8_encode (record_text (citation_records_json normalized)))
          then Inl (cerr (js ''$records'') (''must serialize to at most '' @
                 nat_digits (totalSerializedUtf8Bytes CITATION_LIMITS) @ '' UTF-8 bytes''))
          else Inr normalized)))))))"

definition normalizeCitationRecords :: "url_parser \<Rightarrow> json \<Rightarrow> validation_error + CitationRecordSet" where
  "normalizeCitationRecords parse_url input =
     bindE (as_record cerr ''must be a plain JSON object'' input (js ''$records'')) (\<lambda>records.
     bindE (required_keys cerr records [''sources'', ''citations''] (js ''$records'')) (\<lambda>_.
     bindE (allowed_keys cerr records [''sources'', ''citations''] (js ''$records'')) (\<lambda>_.
     deduplicateCitationRecords parse_url (fld records ''sources'') (fld records ''citations''))))"

section \<open>What a normalised set guarantees\<close>

lemma dedup_retains:
  "deduplicateByIdentity f enc k retained xs = Inr ys \<Longrightarrow> distinct (map f retained) \<Longrightarrow>
   distinct (map f ys) \<and> set ys \<subseteq> set retained \<union> set xs \<and> f ` set ys = f ` (set retained \<union> set xs)
   \<and> length ys \<le> length retained + length xs"
proof (induction xs arbitrary: retained)
  case (Cons x xs)
  show ?case
  proof (cases "find (\<lambda>r. f r = f x) retained")
    case None
    then have "f x \<notin> f ` set retained" by (auto simp: find_None_iff)
    with Cons.IH [of "retained @ [x]"] Cons.prems None show ?thesis by auto
  next
    case (Some r)
    then have "r \<in> set retained" "f r = f x" by (auto simp: find_Some_iff)
    then have "f x \<in> f ` set retained" by (metis imageI)
    with Cons Some show ?thesis by (fastforce split: if_splits)
  qed
qed simp

lemma dedup_distinct_id:
  "distinct (map f (retained @ xs)) \<Longrightarrow> deduplicateByIdentity f enc k retained xs = Inr (retained @ xs)"
proof (induction xs arbitrary: retained)
  case (Cons x xs)
  then have "f x \<notin> f ` set retained" by auto
  then have "find (\<lambda>r. f r = f x) retained = None" by (auto simp: find_None_iff image_iff)
  with Cons.IH [of "retained @ [x]"] Cons.prems show ?case by simp
qed simp

definition citation_set_ok :: "CitationRecordSet \<Rightarrow> bool" where
  "citation_set_ok r \<longleftrightarrow>
     distinct (map cs_source_id (rs_sources r)) \<and> distinct (map ct_citation_id (rs_citations r)) \<and>
     (\<forall>c \<in> set (rs_citations r). ct_source_id c \<in> cs_source_id ` set (rs_sources r)) \<and>
     length (rs_sources r) \<le> sourcesPerRecordSet CITATION_LIMITS \<and>
     length (rs_citations r) \<le> citationsPerRecordSet CITATION_LIMITS \<and>
     utf8ByteLength (record_text (citation_records_json r)) \<le> totalSerializedUtf8Bytes CITATION_LIMITS"

lemma citation_array_Inr: "citation_array v p n = Inr xs \<longleftrightarrow> v = Some (JArr xs) \<and> length xs \<le> n"
  by (auto simp: citation_array_def split: option.splits json.splits)

lemma deduplicateCitationRecords_ok:
  assumes "deduplicateCitationRecords U ss cs = Inr r"
  shows "citation_set_ok r"
proof -
  from assms obtain sv cv ns nc where
    sv: "ss = Some (JArr sv)" "length sv \<le> sourcesPerRecordSet CITATION_LIMITS" and
    cv: "cs = Some (JArr cv)" "length cv \<le> citationsPerRecordSet CITATION_LIMITS" and
    ns: "mapE (normalizeCitationSource U) sv = Inr ns"
      "deduplicateByIdentity cs_source_id citation_source_json ''sources'' [] ns = Inr (rs_sources r)" and
    nc: "mapE normalizeCitation cv = Inr nc"
      "deduplicateByIdentity ct_citation_id citation_json ''citations'' [] nc = Inr (rs_citations r)" and
    ref: "find (\<lambda>c. ct_source_id c \<notin> set (map cs_source_id (rs_sources r))) (rs_citations r) = None" and
    bytes: "length (utf8_encode (record_text (citation_records_json r)))
      \<le> totalSerializedUtf8Bytes CITATION_LIMITS"
    unfolding deduplicateCitationRecords_def
    by (auto simp: bindE_Inr_iff citation_array_Inr Let_def split: option.splits if_splits)
  from dedup_retains [OF ns(2)] dedup_retains [OF nc(2)] mapE_Inr_length [OF ns(1)]
    mapE_Inr_length [OF nc(1)] sv cv ref bytes
  show ?thesis
    by (auto simp: citation_set_ok_def find_None_iff utf8ByteLength_encode)
qed

lemma normalizeCitationRecords_set_ok:
  "normalizeCitationRecords parse_url input = Inr r \<Longrightarrow> citation_set_ok r"
  unfolding normalizeCitationRecords_def
  by (auto simp: bindE_Inr_iff intro: deduplicateCitationRecords_ok)

text \<open>
  C9: a record set that normalisation accepts has pairwise different source and citation
  identities, every citation refers to a source of the set, and the set respects the limits
  on the number of records and on the serialised size.
\<close>

theorem normalizeCitationRecords_ok:
  assumes "normalizeCitationRecords parse_url input = Inr r"
  shows "citation_set_ok r"
  using assms by (rule normalizeCitationRecords_set_ok)

lemma alnum_not_white: "alnum_i c \<Longrightarrow> \<not> white_space c"
  by (auto simp: alnum_i_def in_range_def is_digit_def white_space_def word_le_nat_alt word_less_nat_alt)

lemma alnum_not_control: "alnum_i c \<Longrightarrow> \<not> control_character c"
  by (auto simp: alnum_i_def in_range_def is_digit_def control_character_def word_le_nat_alt
      dest: arg_cong [of _ _ unat])

lemma dropWhile_none: "\<forall>c \<in> set s. \<not> P c \<Longrightarrow> dropWhile P s = s"
  by (cases s) auto

lemma trim_alnum: "list_all alnum_i s \<Longrightarrow> trim s = s"
  by (simp add: trim_def list_all_iff alnum_not_white dropWhile_none)

text \<open>Short alphanumeric strings pass the field checks unchanged.\<close>

lemma boundedString_simple:
  assumes "list_all alnum_i s" "s \<noteq> []" "length s < 11" "length s \<le> n"
  shows "boundedString (Some (JStr s)) p n = Inr s"
proof -
  have "\<not> list_ex control_character s"
    using assms(1) by (auto simp: list_ex_iff list_all_iff alnum_not_control)
  with assms show ?thesis
    by (simp add: boundedString_def trim_alnum credential_patterns_short Let_def)
qed

lemma citation_identifier_simple:
  assumes "list_all alnum_i s" "s \<noteq> []" "length s < 11"
  shows "citation_identifier (Some (JStr s)) p = Inr s"
  using assms
  by (cases s) (auto simp: citation_identifier_def boundedString_simple CITATION_LIMITS_def
      IDENTIFIER_PATTERN_def test_head_then_star list_all_iff)

text \<open>A record set that serves as a concrete input.\<close>

definition example_records :: CitationRecordSet where
  "example_records = \<lparr>rs_sources = [\<lparr>cs_source_id = js ''s1'', cs_type = SourceTool,
       cs_label = js ''Docs'', cs_locator = None\<rparr>],
     rs_citations = [\<lparr>ct_citation_id = js ''c1'', ct_source_id = js ''s1'', ct_order = Finite 0,
       ct_target = ToolResultCitationTarget (js ''t1'')\<rparr>]\<rparr>"

lemma alnum_literals:
  "list_all alnum_i (js ''s1'')" "list_all alnum_i (js ''c1'')" "list_all alnum_i (js ''t1'')"
  "list_all alnum_i (js ''Docs'')"
  by code_simp+

lemma example_records_bytes:
  "utf8ByteLength (record_text (citation_records_json example_records)) \<le> 131072"
proof -
  have "length (record_text (citation_records_json example_records)) \<le> 1000"
    unfolding record_text_def citation_records_json_def citation_source_json_def citation_json_def
      citation_target_json_def opt_field_def source_type_text_def example_records_def
    using length_quote [of "js ''sources''"]
      length_quote [of "js ''source_id''"]
      length_quote [of "js ''s1''"]
      length_quote [of "js ''type''"]
      length_quote [of "js ''tool''"]
      length_quote [of "js ''label''"]
      length_quote [of "js ''Docs''"]
      length_quote [of "js ''citations''"]
      length_quote [of "js ''citation_id''"]
      length_quote [of "js ''c1''"]
      length_quote [of "js ''order''"]
      length_quote [of "js ''target''"]
      length_quote [of "js ''tool_result''"]
      length_quote [of "js ''tool_call_id''"]
      length_quote [of "js ''t1''"]
    by (simp add: number_text_def int_digits_def nat_digits.simps)
  then show ?thesis using utf8ByteLength_bounds [of "record_text (citation_records_json example_records)"]
    by simp
qed

abbreviation example_source :: CitationSource where
  "example_source \<equiv> \<lparr>cs_source_id = js ''s1'', cs_type = SourceTool, cs_label = js ''Docs'', cs_locator = None\<rparr>"

abbreviation example_citation :: Citation where
  "example_citation \<equiv> \<lparr>ct_citation_id = js ''c1'', ct_source_id = js ''s1'', ct_order = Finite 0,
     ct_target = ToolResultCitationTarget (js ''t1'')\<rparr>"

lemma example_source_normal:
  "normalizeCitationSource U (citation_source_json example_source) = Inr example_source"
  by (simp add: normalizeCitationSource_def citation_source_json_def check_iffs has_own_fld Let_def
      citation_identifier_simple boundedString_simple alnum_literals CITATION_LIMITS_def
      CITATION_SOURCE_TYPES_def source_type_text_def source_type_of_def opt_field_def keys_of_def)

lemma example_citation_normal:
  "normalizeCitation (citation_json example_citation) = Inr example_citation"
  by (simp add: normalizeCitation_def citation_json_def normalizeTarget_def citation_target_json_def
      check_iffs Let_def citation_identifier_simple alnum_literals keys_of_def
      CITATION_ATTACHMENT_TARGET_TYPES_def safe_order_def safe_int_def MAX_SAFE_INTEGER_def)

lemma example_records_normal:
  "normalizeCitationRecords U (citation_records_json example_records) = Inr example_records"
proof -
  let ?ss = "[citation_source_json example_source]" and ?cs = "[citation_json example_citation]"
  have "deduplicateCitationRecords U (Some (JArr ?ss)) (Some (JArr ?cs)) = Inr example_records"
    using example_records_bytes
    by (simp add: deduplicateCitationRecords_def bindE_Inr_iff citation_array_Inr CITATION_LIMITS_def
        example_source_normal example_citation_normal example_records_def Let_def
        utf8ByteLength_encode [symmetric])
  then show ?thesis
    by (simp add: normalizeCitationRecords_def citation_records_json_def example_records_def
        check_iffs keys_of_def)
qed

theorem normalizeCitationRecords_ok_witness: "citation_set_ok example_records"
  by (rule normalizeCitationRecords_ok [OF example_records_normal])

end
