(* ===== verification/Events.thy ===== *)
theory Events
  imports Citations
begin

text \<open>
  The durable conversation facts of \<^verbatim>\<open>src/conversation/events.ts\<close>: the event envelope, its
  payload union with the source's 26 discriminators, and the approval lifecycle table.
  Every type has its JSON object (\<open>event_json\<close> and its parts), which is what validation,
  storage and equality work on. Optional fields are \<open>option\<close>; the literal fields of an
  interface (\<^verbatim>\<open>version\<close>, \<^verbatim>\<open>type\<close>, a proposal's initial status and version) appear in the
  JSON form only. Counters are integers; a negative zero in one of them is not represented.
\<close>

section \<open>Enumerations\<close>

datatype (plugins only: code size) ConversationEventActorType = ActorUser | ActorAssistant | ActorTool | ActorSystem

definition actor_type_text :: "ConversationEventActorType \<Rightarrow> string" where
  "actor_type_text t = (case t of ActorUser \<Rightarrow> ''user'' | ActorAssistant \<Rightarrow> ''assistant''
     | ActorTool \<Rightarrow> ''tool'' | ActorSystem \<Rightarrow> ''system'')"

datatype (plugins only: code size) ConversationMessageRole = RoleUser | RoleAssistant | RoleSystem

definition role_text :: "ConversationMessageRole \<Rightarrow> string" where
  "role_text r = (case r of RoleUser \<Rightarrow> ''user'' | RoleAssistant \<Rightarrow> ''assistant'' | RoleSystem \<Rightarrow> ''system'')"

datatype (plugins only: code size) ConversationAttachmentKind = KindImage | KindDocument

definition kind_text :: "ConversationAttachmentKind \<Rightarrow> string" where
  "kind_text k = (case k of KindImage \<Rightarrow> ''image'' | KindDocument \<Rightarrow> ''document'')"

datatype (plugins only: code size) ConversationTurnStatus = Queued | Running | WaitingForToolResult | WaitingForApproval

definition turn_status_text :: "ConversationTurnStatus \<Rightarrow> string" where
  "turn_status_text s = (case s of Queued \<Rightarrow> ''queued'' | Running \<Rightarrow> ''running''
     | WaitingForToolResult \<Rightarrow> ''waiting_for_tool_result'' | WaitingForApproval \<Rightarrow> ''waiting_for_approval'')"

datatype (plugins only: code size) ConversationTurnAttemptOperation = OpStart | OpResume

definition operation_text :: "ConversationTurnAttemptOperation \<Rightarrow> string" where
  "operation_text x = (case x of OpStart \<Rightarrow> ''start'' | OpResume \<Rightarrow> ''resume'')"

datatype (plugins only: code size) ConversationRetryReasonCategory =
  RateLimit | TimeoutReason | Unavailable | InternalReason | Disconnected | Interrupted

definition retry_reason_text :: "ConversationRetryReasonCategory \<Rightarrow> string" where
  "retry_reason_text x = (case x of RateLimit \<Rightarrow> ''rate_limit'' | TimeoutReason \<Rightarrow> ''timeout''
     | Unavailable \<Rightarrow> ''unavailable'' | InternalReason \<Rightarrow> ''internal'' | Disconnected \<Rightarrow> ''disconnected''
     | Interrupted \<Rightarrow> ''interrupted'')"

datatype (plugins only: code size) ConversationRetryExhaustionReason = MaximumAttempts | MaximumElapsedTime

definition exhaustion_reason_text :: "ConversationRetryExhaustionReason \<Rightarrow> string" where
  "exhaustion_reason_text x = (case x of MaximumAttempts \<Rightarrow> ''maximum_attempts''
     | MaximumElapsedTime \<Rightarrow> ''maximum_elapsed_time'')"

datatype (plugins only: code size) ConversationTurnCompletionOutcome = OutcomeStop | OutcomeLength | OutcomeToolCalls

definition outcome_text :: "ConversationTurnCompletionOutcome \<Rightarrow> string" where
  "outcome_text x = (case x of OutcomeStop \<Rightarrow> ''stop'' | OutcomeLength \<Rightarrow> ''length''
     | OutcomeToolCalls \<Rightarrow> ''tool_calls'')"

datatype (plugins only: code size) ConversationTurnCancellationReason =
  CancelUser | CancelTimeout | CancelSuperseded | CancelRuntimeShutdown

definition cancellation_reason_text :: "ConversationTurnCancellationReason \<Rightarrow> string" where
  "cancellation_reason_text x = (case x of CancelUser \<Rightarrow> ''user'' | CancelTimeout \<Rightarrow> ''timeout''
     | CancelSuperseded \<Rightarrow> ''superseded'' | CancelRuntimeShutdown \<Rightarrow> ''runtime_shutdown'')"

datatype (plugins only: code size) ToolLoopBudget = BudgetIterations | BudgetTotalToolCalls | BudgetWallClock

definition budget_text :: "ToolLoopBudget \<Rightarrow> string" where
  "budget_text x = (case x of BudgetIterations \<Rightarrow> ''iterations'' | BudgetTotalToolCalls \<Rightarrow> ''total_tool_calls''
     | BudgetWallClock \<Rightarrow> ''wall_clock'')"

section \<open>The approval lifecycle\<close>

datatype (plugins only: code size) ConversationApprovalProposalStatus =
  Pending | Confirmed | Rejected | Expired | Executing | Executed | Failed

definition proposal_status_text :: "ConversationApprovalProposalStatus \<Rightarrow> string" where
  "proposal_status_text x = (case x of Pending \<Rightarrow> ''pending'' | Confirmed \<Rightarrow> ''confirmed''
     | Rejected \<Rightarrow> ''rejected'' | Expired \<Rightarrow> ''expired'' | Executing \<Rightarrow> ''executing''
     | Executed \<Rightarrow> ''executed'' | Failed \<Rightarrow> ''failed'')"

definition CONVERSATION_APPROVAL_PROPOSAL_TRANSITIONS ::
  "ConversationApprovalProposalStatus \<Rightarrow> ConversationApprovalProposalStatus list" where
  "CONVERSATION_APPROVAL_PROPOSAL_TRANSITIONS s = (case s of
     Pending \<Rightarrow> [Confirmed, Rejected, Expired]
   | Confirmed \<Rightarrow> [Executing]
   | Rejected \<Rightarrow> []
   | Expired \<Rightarrow> []
   | Executing \<Rightarrow> [Executed, Failed]
   | Executed \<Rightarrow> []
   | Failed \<Rightarrow> [Executing])"

definition isLegalConversationApprovalProposalTransition ::
  "ConversationApprovalProposalStatus \<Rightarrow> ConversationApprovalProposalStatus \<Rightarrow> bool" where
  "isLegalConversationApprovalProposalTransition from to \<longleftrightarrow>
     to \<in> set (CONVERSATION_APPROVAL_PROPOSAL_TRANSITIONS from)"

section \<open>Envelope and payloads\<close>

record ConversationEventActor =
  actor_type :: ConversationEventActorType
  actor_id :: "js_string option"

datatype (plugins only: code size) ConversationEventSource =
    ClientSource js_string "js_string option"
  | RuntimeSource
  | SyncSource
  | ImportSource

datatype (plugins only: code size) ConversationMessageContentPart = TextPart (part_text: js_string)

record ConversationAttachmentReference =
  at_attachment_id :: js_string
  at_kind :: "ConversationAttachmentKind option"
  at_media_type :: js_string
  at_filename :: "js_string option"
  at_size_bytes :: "int option"

record ConversationTurnError =
  te_code :: js_string
  te_message :: js_string
  te_retryable :: bool

datatype (plugins only: code size) ConversationApprovalReviewedArguments =
    RedactedJson js_object
  | OpaqueReference js_string

record ApprovalProposalCreatedPayload =
  pc_proposal_id :: js_string
  pc_group_id :: "js_string option"
  pc_turn_id :: js_string
  pc_tool_call_id :: js_string
  pc_tool_name :: js_string
  pc_expires_at :: "js_string option"
  pc_reviewed_arguments :: ConversationApprovalReviewedArguments

text \<open>The three shapes of a status change; a decision may carry a reason.\<close>

datatype (plugins only: code size) ApprovalProposalChange =
    ChangeConfirmed "js_string option"
  | ChangeRejected "js_string option"
  | ChangeExpired "js_string option"
  | ChangeExecuting
  | ChangeExecuted
  | ChangeFailed js_string

definition change_status :: "ApprovalProposalChange \<Rightarrow> ConversationApprovalProposalStatus" where
  "change_status c = (case c of ChangeConfirmed _ \<Rightarrow> Confirmed | ChangeRejected _ \<Rightarrow> Rejected
     | ChangeExpired _ \<Rightarrow> Expired | ChangeExecuting \<Rightarrow> Executing | ChangeExecuted \<Rightarrow> Executed
     | ChangeFailed _ \<Rightarrow> Failed)"

datatype (plugins only: code size) ConversationToolResultContentPart =
    ToolTextPart js_string
  | ToolJsonPart json

datatype (plugins only: code size) ConversationCitationTarget =
    AssistantMessageTarget js_string
  | ToolResultTarget js_string js_string

datatype (plugins only: code size) ConversationEventPayload =
    ConversationCleared
  | MessageCreated js_string ConversationMessageRole "ConversationMessageContentPart list"
  | MessageTextAppended js_string js_string js_string
  | MessageAttachmentReferenced js_string ConversationAttachmentReference
  | CitationRecordsLinked ConversationCitationTarget "CitationSource list" "Citation list"
  | TurnStarted js_string "js_string list" "js_string option"
  | TurnStatusChanged js_string ConversationTurnStatus
  | TurnAttemptStarted js_string int ConversationTurnAttemptOperation
  | TurnRetryScheduled js_string int ConversationRetryReasonCategory int
  | TurnRetryExhausted js_string int ConversationRetryReasonCategory ConversationRetryExhaustionReason
  | TurnCancellationRequested js_string ConversationTurnCancellationReason
  | TurnCancellationUnsupported js_string ConversationTurnCancellationReason
  | TurnCompleted js_string ConversationTurnCompletionOutcome "js_string list"
  | TurnCancelled js_string ConversationTurnCancellationReason
  | TurnFailed js_string ConversationTurnError
  | ToolCallRequested js_string js_string js_string js_object
  | ToolCallDiscovered js_string js_string
  | ToolCallStarted js_string js_string
  | ToolCallApprovalRequired js_string js_string
  | ApprovalProposalCreated ApprovalProposalCreatedPayload
  | ApprovalProposalStatusChanged js_string int ApprovalProposalChange
  | ToolCallResultRecorded js_string js_string "ConversationToolResultContentPart list" bool
      "CitationRecordSet option"
  | ToolLoopBudgetExhausted js_string ToolLoopBudget int
  | UsageReceiptLinked js_string js_string
  | ConversationMetadataUpdated js_object
  | ConversationTitleUpdated "js_string option"

record ConversationEvent =
  ev_event_id :: js_string
  ev_conversation_id :: js_string
  ev_revision :: int
  ev_occurred_at :: js_string
  ev_actor :: ConversationEventActor
  ev_source :: ConversationEventSource
  ev_mutation_id :: "js_string option"
  ev_metadata :: "js_object option"
  ev_payload :: ConversationEventPayload

section \<open>JSON form\<close>

abbreviation JText :: "string \<Rightarrow> json" where
  "JText s \<equiv> JStr (js s)"

definition nullable :: "js_string option \<Rightarrow> json" where
  "nullable x = (case x of None \<Rightarrow> JNull | Some s \<Rightarrow> JStr s)"

definition actor_json :: "ConversationEventActor \<Rightarrow> json" where
  "actor_json a = JObj ([(js ''type'', JText (actor_type_text (actor_type a)))] @
     opt_field ''id'' (map_option JStr (actor_id a)))"

definition source_json :: "ConversationEventSource \<Rightarrow> json" where
  "source_json s = (case s of
     ClientSource c d \<Rightarrow> JObj ([(js ''type'', JText ''client''), (js ''client_id'', JStr c)] @
       opt_field ''device_id'' (map_option JStr d))
   | RuntimeSource \<Rightarrow> JObj [(js ''type'', JText ''runtime'')]
   | SyncSource \<Rightarrow> JObj [(js ''type'', JText ''sync'')]
   | ImportSource \<Rightarrow> JObj [(js ''type'', JText ''import'')])"

definition text_part_json :: "ConversationMessageContentPart \<Rightarrow> json" where
  "text_part_json p = JObj [(js ''type'', JText ''text''), (js ''text'', JStr (part_text p))]"

definition attachment_json :: "ConversationAttachmentReference \<Rightarrow> json" where
  "attachment_json a = JObj ([(js ''attachment_id'', JStr (at_attachment_id a))] @
     opt_field ''kind'' (map_option (\<lambda>k. JText (kind_text k)) (at_kind a)) @
     [(js ''media_type'', JStr (at_media_type a))] @
     opt_field ''filename'' (map_option JStr (at_filename a)) @
     opt_field ''size_bytes'' (map_option JInt (at_size_bytes a)))"

definition turn_error_json :: "ConversationTurnError \<Rightarrow> json" where
  "turn_error_json e = JObj [(js ''code'', JStr (te_code e)), (js ''message'', JStr (te_message e)),
     (js ''retryable'', JBool (te_retryable e))]"

definition reviewed_arguments_json :: "ConversationApprovalReviewedArguments \<Rightarrow> json" where
  "reviewed_arguments_json r = (case r of
     RedactedJson v \<Rightarrow> JObj [(js ''type'', JText ''redacted_json''), (js ''value'', JObj v)]
   | OpaqueReference k \<Rightarrow> JObj [(js ''type'', JText ''opaque_reference''), (js ''argument_ref'', JStr k)])"

definition tool_part_json :: "ConversationToolResultContentPart \<Rightarrow> json" where
  "tool_part_json p = (case p of
     ToolTextPart t \<Rightarrow> JObj [(js ''type'', JText ''text''), (js ''text'', JStr t)]
   | ToolJsonPart v \<Rightarrow> JObj [(js ''type'', JText ''json''), (js ''value'', v)])"

definition conversation_target_json :: "ConversationCitationTarget \<Rightarrow> json" where
  "conversation_target_json t = (case t of
     AssistantMessageTarget m \<Rightarrow> JObj [(js ''type'', JText ''assistant_message''), (js ''message_id'', JStr m)]
   | ToolResultTarget t c \<Rightarrow> JObj [(js ''type'', JText ''tool_result''), (js ''turn_id'', JStr t),
       (js ''tool_call_id'', JStr c)])"

definition change_fields :: "ApprovalProposalChange \<Rightarrow> js_object" where
  "change_fields c = [(js ''status'', JText (proposal_status_text (change_status c)))] @ (case c of
     ChangeConfirmed r \<Rightarrow> opt_field ''decision_reason'' (map_option JStr r)
   | ChangeRejected r \<Rightarrow> opt_field ''decision_reason'' (map_option JStr r)
   | ChangeExpired r \<Rightarrow> opt_field ''decision_reason'' (map_option JStr r)
   | ChangeFailed r \<Rightarrow> [(js ''failure_reason'', JStr r)]
   | _ \<Rightarrow> [])"

primrec payload_type :: "ConversationEventPayload \<Rightarrow> string" where
  "payload_type ConversationCleared = ''conversation.cleared''"
| "payload_type (MessageCreated _ _ _) = ''message.created''"
| "payload_type (MessageTextAppended _ _ _) = ''message.text_appended''"
| "payload_type (MessageAttachmentReferenced _ _) = ''message.attachment_referenced''"
| "payload_type (CitationRecordsLinked _ _ _) = ''citation.records_linked''"
| "payload_type (TurnStarted _ _ _) = ''turn.started''"
| "payload_type (TurnStatusChanged _ _) = ''turn.status_changed''"
| "payload_type (TurnAttemptStarted _ _ _) = ''turn.attempt_started''"
| "payload_type (TurnRetryScheduled _ _ _ _) = ''turn.retry_scheduled''"
| "payload_type (TurnRetryExhausted _ _ _ _) = ''turn.retry_exhausted''"
| "payload_type (TurnCancellationRequested _ _) = ''turn.cancellation_requested''"
| "payload_type (TurnCancellationUnsupported _ _) = ''turn.cancellation_unsupported''"
| "payload_type (TurnCompleted _ _ _) = ''turn.completed''"
| "payload_type (TurnCancelled _ _) = ''turn.cancelled''"
| "payload_type (TurnFailed _ _) = ''turn.failed''"
| "payload_type (ToolCallRequested _ _ _ _) = ''tool_call.requested''"
| "payload_type (ToolCallDiscovered _ _) = ''tool_call.discovered''"
| "payload_type (ToolCallStarted _ _) = ''tool_call.started''"
| "payload_type (ToolCallApprovalRequired _ _) = ''tool_call.approval_required''"
| "payload_type (ApprovalProposalCreated _) = ''approval.proposal_created''"
| "payload_type (ApprovalProposalStatusChanged _ _ _) = ''approval.proposal_status_changed''"
| "payload_type (ToolCallResultRecorded _ _ _ _ _) = ''tool_call.result_recorded''"
| "payload_type (ToolLoopBudgetExhausted _ _ _) = ''tool_loop.budget_exhausted''"
| "payload_type (UsageReceiptLinked _ _) = ''usage.receipt_linked''"
| "payload_type (ConversationMetadataUpdated _) = ''conversation.metadata_updated''"
| "payload_type (ConversationTitleUpdated _) = ''conversation.title_updated''"

definition ids_json :: "js_string list \<Rightarrow> json" where
  "ids_json xs = JArr (map JStr xs)"

primrec payload_fields :: "ConversationEventPayload \<Rightarrow> js_object" where
  "payload_fields ConversationCleared = []"
| "payload_fields (MessageCreated m r c) = [(js ''message_id'', JStr m), (js ''role'', JText (role_text r)),
       (js ''content'', JArr (map text_part_json c))]"
| "payload_fields (MessageTextAppended t m x) = [(js ''turn_id'', JStr t), (js ''message_id'', JStr m), (js ''text'', JStr x)]"
| "payload_fields (MessageAttachmentReferenced m a) = [(js ''message_id'', JStr m), (js ''attachment'', attachment_json a)]"
| "payload_fields (CitationRecordsLinked t ss cs) = [(js ''citation_records_version'', JInt 1),
       (js ''target'', conversation_target_json t), (js ''sources'', JArr (map citation_source_json ss)),
       (js ''citations'', JArr (map citation_json cs))]"
| "payload_fields (TurnStarted t ms c) = [(js ''turn_id'', JStr t), (js ''input_message_ids'', ids_json ms)] @
       opt_field ''continuation_of_turn_id'' (map_option JStr c)"
| "payload_fields (TurnStatusChanged t s) = [(js ''turn_id'', JStr t), (js ''status'', JText (turn_status_text s))]"
| "payload_fields (TurnAttemptStarted t n x) = [(js ''turn_id'', JStr t), (js ''attempt'', JInt n),
       (js ''operation'', JText (operation_text x))]"
| "payload_fields (TurnRetryScheduled t n r d) = [(js ''turn_id'', JStr t), (js ''attempt'', JInt n),
       (js ''reason_category'', JText (retry_reason_text r)), (js ''delay_ms'', JInt d)]"
| "payload_fields (TurnRetryExhausted t n r x) = [(js ''turn_id'', JStr t), (js ''attempt'', JInt n),
       (js ''reason_category'', JText (retry_reason_text r)),
       (js ''exhaustion_reason'', JText (exhaustion_reason_text x))]"
| "payload_fields (TurnCancellationRequested t r) = [(js ''turn_id'', JStr t), (js ''reason'', JText (cancellation_reason_text r))]"
| "payload_fields (TurnCancellationUnsupported t r) = [(js ''turn_id'', JStr t), (js ''reason'', JText (cancellation_reason_text r))]"
| "payload_fields (TurnCompleted t x ms) = [(js ''turn_id'', JStr t), (js ''outcome'', JText (outcome_text x)),
       (js ''output_message_ids'', ids_json ms)]"
| "payload_fields (TurnCancelled t r) = [(js ''turn_id'', JStr t), (js ''reason'', JText (cancellation_reason_text r))]"
| "payload_fields (TurnFailed t e) = [(js ''turn_id'', JStr t), (js ''error'', turn_error_json e)]"
| "payload_fields (ToolCallRequested t c n a) = [(js ''turn_id'', JStr t), (js ''tool_call_id'', JStr c),
       (js ''name'', JStr n), (js ''arguments'', JObj a)]"
| "payload_fields (ToolCallDiscovered t c) = [(js ''turn_id'', JStr t), (js ''tool_call_id'', JStr c)]"
| "payload_fields (ToolCallStarted t c) = [(js ''turn_id'', JStr t), (js ''tool_call_id'', JStr c)]"
| "payload_fields (ToolCallApprovalRequired t c) = [(js ''turn_id'', JStr t), (js ''tool_call_id'', JStr c)]"
| "payload_fields (ApprovalProposalCreated q) = [(js ''proposal_id'', JStr (pc_proposal_id q))] @
       opt_field ''group_id'' (map_option JStr (pc_group_id q)) @
       [(js ''turn_id'', JStr (pc_turn_id q)), (js ''tool_call_id'', JStr (pc_tool_call_id q)),
        (js ''tool_name'', JStr (pc_tool_name q)), (js ''status'', JText ''pending''),
        (js ''proposal_version'', JInt 1), (js ''expires_at'', nullable (pc_expires_at q)),
        (js ''reviewed_arguments'', reviewed_arguments_json (pc_reviewed_arguments q))]"
| "payload_fields (ApprovalProposalStatusChanged q v c) = [(js ''proposal_id'', JStr q), (js ''proposal_version'', JInt v)] @
       change_fields c"
| "payload_fields (ToolCallResultRecorded t c ps b r) = [(js ''turn_id'', JStr t), (js ''tool_call_id'', JStr c),
       (js ''content'', JArr (map tool_part_json ps)), (js ''is_error'', JBool b)] @
       opt_field ''citation_records'' (map_option citation_records_json r)"
| "payload_fields (ToolLoopBudgetExhausted t b n) = [(js ''turn_id'', JStr t), (js ''budget'', JText (budget_text b)),
       (js ''limit'', JInt n)]"
| "payload_fields (UsageReceiptLinked t u) = [(js ''turn_id'', JStr t), (js ''usage_receipt_id'', JStr u)]"
| "payload_fields (ConversationMetadataUpdated m) = [(js ''metadata'', JObj m)]"
| "payload_fields (ConversationTitleUpdated x) = [(js ''title'', nullable x)]"

definition payload_json :: "ConversationEventPayload \<Rightarrow> json" where
  "payload_json p = JObj ((js ''type'', JText (payload_type p)) # payload_fields p)"

definition event_json :: "ConversationEvent \<Rightarrow> json" where
  "event_json e = JObj ([(js ''version'', JInt 1), (js ''event_id'', JStr (ev_event_id e)),
     (js ''conversation_id'', JStr (ev_conversation_id e)), (js ''revision'', JInt (ev_revision e)),
     (js ''occurred_at'', JStr (ev_occurred_at e)), (js ''actor'', actor_json (ev_actor e)),
     (js ''source'', source_json (ev_source e))] @
     opt_field ''mutation_id'' (map_option JStr (ev_mutation_id e)) @
     opt_field ''metadata'' (map_option JObj (ev_metadata e)) @
     [(js ''payload'', payload_json (ev_payload e))])"

section \<open>Facts about the lifecycle table\<close>

lemma legal_transition_cases:
  "isLegalConversationApprovalProposalTransition s t \<longleftrightarrow>
     (s = Pending \<and> t \<in> {Confirmed, Rejected, Expired}) \<or> (s = Confirmed \<and> t = Executing) \<or>
     (s = Executing \<and> t \<in> {Executed, Failed}) \<or> (s = Failed \<and> t = Executing)"
  by (cases s) (auto simp: isLegalConversationApprovalProposalTransition_def
      CONVERSATION_APPROVAL_PROPOSAL_TRANSITIONS_def)

lemma change_status_not_Pending [simp]: "change_status c \<noteq> Pending"
  by (cases c) (simp_all add: change_status_def)

end
