(* ===== verification/EventValidation.thy ===== *)
theory EventValidation
  imports Events
begin

text \<open>
  Validation of durable events, from \<^verbatim>\<open>src/conversation/events.ts\<close>. A validator takes a JSON
  value and the path it reports, and either throws (\<open>Inl\<close>) or returns. \<open>parse_url\<close> stands for
  the host's URL parser and \<open>R\<close> for the rendering of numbers that are not integers in JSON
  text, which only enters the serialised-size limits.
\<close>

section \<open>Sequences of checks\<close>

definition eerr :: "validation_error error_of" where
  "eerr path message = ConversationEventValidationError path (js message)"

text \<open>Statements that may throw, in order.\<close>

primrec checks :: "('e + unit) list \<Rightarrow> 'e + unit" where
  "checks [] = Inr ()"
| "checks (c # cs) = bindE c (\<lambda>_. checks cs)"

definition voidE :: "'e + 'a \<Rightarrow> 'e + unit" where
  "voidE m = bindE m (\<lambda>_. Inr ())"

definition throw_if :: "bool \<Rightarrow> 'e \<Rightarrow> 'e + unit" where
  "throw_if b e = (if b then Inl e else Inr ())"

definition when_own :: "js_object \<Rightarrow> string \<Rightarrow> 'e + unit \<Rightarrow> 'e + unit" where
  "when_own obj k c = (if has_own obj k then c else Inr ())"

lemma checks_ok [simp]: "okE (checks cs) \<longleftrightarrow> (\<forall>c \<in> set cs. okE c)"
proof (induction cs)
  case (Cons c cs)
  then show ?case by (cases c) (simp_all add: checks.simps)
qed (simp add: checks.simps)

declare checks.simps [simp del]

lemma voidE_ok [simp]: "okE (voidE m) \<longleftrightarrow> okE m"
  by (cases m) (simp_all add: voidE_def)

lemma throw_if_ok [simp]: "okE (throw_if b e) \<longleftrightarrow> \<not> b"
  by (simp add: throw_if_def)

lemma when_own_ok [simp]: "okE (when_own obj k c) \<longleftrightarrow> (has_own obj k \<longrightarrow> okE c)"
  by (simp add: when_own_def)

lemma okE_field_checks:
  "okE (required_keys E obj ks p) \<longleftrightarrow> (\<forall>k \<in> set ks. fld obj k \<noteq> None)"
  "okE (allowed_keys E obj ks p) \<longleftrightarrow> set (keys_of obj) \<subseteq> js ` set ks"
  "okE (enum_value E v vs p) \<longleftrightarrow> (\<exists>s. v = Some (JStr (js s)) \<and> s \<in> set vs)"
  by (simp_all add: okE_iff required_keys_Inr_iff allowed_keys_Inr_iff enum_value_Inr_iff)

section \<open>Limits\<close>

definition identifierLength :: nat where "identifierLength = 256"
definition textLength :: nat where "textLength = 1000000"
definition textChunkBytes :: nat where "textChunkBytes = 1000000"
definition titleLength :: nat where "titleLength = 4096"
definition metadataSerializedBytes :: nat where "metadataSerializedBytes = 16384"
definition approvalReasonLength :: nat where "approvalReasonLength = 1024"
definition approvalArgumentReferenceLength :: nat where "approvalArgumentReferenceLength = 512"
definition approvalSnapshotSerializedBytes :: nat where "approvalSnapshotSerializedBytes = 16384"

record JsonLimits =
  maxDepth :: nat
  maxNodes :: nat
  maxArrayLength :: nat
  maxObjectKeys :: nat
  maxKeyLength :: nat
  maxStringLength :: nat
  forbiddenFields :: "string list"
  forbiddenStringValues :: "string list"
  forbiddenStringPatterns :: "re list"

definition CREDENTIAL_FIELD_NAMES :: "string list" where
  "CREDENTIAL_FIELD_NAMES = [''accesstoken'', ''apikey'', ''apitoken'', ''authorization'',
     ''bearertoken'', ''clientsecret'', ''cookie'', ''credential'', ''credentials'', ''idtoken'',
     ''password'', ''passwd'', ''privatekey'', ''refreshtoken'', ''secret'', ''secretkey'',
     ''secrets'', ''setcookie'', ''signingkey'']"

definition METADATA_FORBIDDEN_FIELD_NAMES :: "string list" where
  "METADATA_FORBIDDEN_FIELD_NAMES = CREDENTIAL_FIELD_NAMES @ [''anthropic'', ''choices'',
     ''completiontokens'', ''contentblock'', ''finishreason'', ''functioncall'', ''gemini'',
     ''headers'', ''model'', ''modelid'', ''nativechunk'', ''nativepayload'', ''openai'',
     ''prompttokens'', ''provider'', ''providerchunk'', ''providererror'', ''providername'',
     ''providerpayload'', ''providerrequest'', ''providerresponse'', ''rawerror'', ''rawrequest'',
     ''rawresponse'', ''requestheaders'', ''systemfingerprint'', ''usagemetadata'', ''xai'']"

definition APPROVAL_SNAPSHOT_FORBIDDEN_FIELD_NAMES :: "string list" where
  "APPROVAL_SNAPSHOT_FORBIDDEN_FIELD_NAMES = METADATA_FORBIDDEN_FIELD_NAMES @ [''base64'', ''binary'',
     ''bytes'', ''hiddeninstruction'', ''hiddeninstructions'', ''prompt'', ''systeminstruction'',
     ''systeminstructions'', ''systemprompt'']"

definition METADATA_FORBIDDEN_STRING_VALUES :: "string list" where
  "METADATA_FORBIDDEN_STRING_VALUES = [''anthropic'', ''chatcompletion'', ''chatcompletionchunk'',
     ''contentblockdelta'', ''gemini'', ''openai'', ''xai'']"

definition JSON_LIMITS :: JsonLimits where
  "JSON_LIMITS = \<lparr>maxDepth = 20, maxNodes = 10000, maxArrayLength = 2000, maxObjectKeys = 2000,
     maxKeyLength = 256, maxStringLength = 1000000, forbiddenFields = CREDENTIAL_FIELD_NAMES,
     forbiddenStringValues = [], forbiddenStringPatterns = []\<rparr>"

definition METADATA_LIMITS :: JsonLimits where
  "METADATA_LIMITS = \<lparr>maxDepth = 5, maxNodes = 256, maxArrayLength = 64, maxObjectKeys = 64,
     maxKeyLength = 128, maxStringLength = 4096, forbiddenFields = METADATA_FORBIDDEN_FIELD_NAMES,
     forbiddenStringValues = METADATA_FORBIDDEN_STRING_VALUES, forbiddenStringPatterns = []\<rparr>"

definition APPROVAL_SNAPSHOT_LIMITS :: JsonLimits where
  "APPROVAL_SNAPSHOT_LIMITS = \<lparr>maxDepth = 8, maxNodes = 512, maxArrayLength = 128, maxObjectKeys = 128,
     maxKeyLength = 128, maxStringLength = 4096, forbiddenFields = APPROVAL_SNAPSHOT_FORBIDDEN_FIELD_NAMES,
     forbiddenStringValues = METADATA_FORBIDDEN_STRING_VALUES,
     forbiddenStringPatterns = APPROVAL_BINARY_VALUE_PATTERNS\<rparr>"

section \<open>Scalars\<close>

definition stringValue :: "json option \<Rightarrow> js_string \<Rightarrow> bool \<Rightarrow> nat \<Rightarrow> validation_error + js_string" where
  "stringValue value path allowEmpty maxLength =
     (case value of
        Some (JStr s) \<Rightarrow>
          if \<not> allowEmpty \<and> length s = 0 then Inl (eerr path ''must not be empty'')
          else if maxLength < length s
          then Inl (eerr path (''must be at most '' @ nat_digits maxLength @ '' characters''))
          else Inr s
      | _ \<Rightarrow> Inl (eerr path ''must be a string''))"

definition booleanValue :: "json option \<Rightarrow> js_string \<Rightarrow> validation_error + bool" where
  "booleanValue value path =
     (case value of Some (JBool b) \<Rightarrow> Inr b | _ \<Rightarrow> Inl (eerr path ''must be a boolean''))"

definition event_identifier :: "json option \<Rightarrow> js_string \<Rightarrow> validation_error + js_string" where
  "event_identifier value path = stringValue value path False identifierLength"

fun identifiers :: "json list \<Rightarrow> js_string \<Rightarrow> nat \<Rightarrow> validation_error + js_string list" where
  "identifiers [] path i = Inr []"
| "identifiers (x # xs) path i =
     bindE (event_identifier (Some x) (index_path path i)) (\<lambda>s.
     bindE (identifiers xs path (Suc i)) (\<lambda>ss. Inr (s # ss)))"

definition identifierArray :: "json option \<Rightarrow> js_string \<Rightarrow> bool \<Rightarrow> validation_error + js_string list" where
  "identifierArray value path allowEmpty =
     (case value of
        Some (JArr xs) \<Rightarrow>
          if \<not> allowEmpty \<and> length xs = 0 then Inl (eerr path ''must be a non-empty array'')
          else bindE (identifiers xs path 0) (\<lambda>ids.
            if card (set ids) \<noteq> length ids then Inl (eerr path ''must contain unique identifiers'')
            else Inr ids)
      | _ \<Rightarrow> Inl (eerr path ''must be an array''))"

definition safe_integer_field :: "int \<Rightarrow> string \<Rightarrow> json option \<Rightarrow> js_string \<Rightarrow> validation_error + unit" where
  "safe_integer_field least msg value path =
     (case value of
        Some (JNum n) \<Rightarrow> (case safe_int n of
            Some i \<Rightarrow> if i < least then Inl (eerr path msg) else Inr ()
          | None \<Rightarrow> Inl (eerr path msg))
      | _ \<Rightarrow> Inl (eerr path msg))"

definition validateRevision :: "json option \<Rightarrow> js_string \<Rightarrow> validation_error + unit" where
  "validateRevision = safe_integer_field 1 ''must be a positive safe integer monotonic revision''"

definition positiveSafeInteger :: "json option \<Rightarrow> js_string \<Rightarrow> validation_error + unit" where
  "positiveSafeInteger = safe_integer_field 1 ''must be a positive safe integer''"

definition nonnegativeSafeInteger :: "json option \<Rightarrow> js_string \<Rightarrow> validation_error + unit" where
  "nonnegativeSafeInteger = safe_integer_field 0 ''must be a non-negative safe integer''"

definition validateTimestamp :: "json option \<Rightarrow> js_string \<Rightarrow> validation_error + unit" where
  "validateTimestamp value path =
     bindE (stringValue value path False 64) (\<lambda>timestamp.
       case timestamp_match timestamp of
         None \<Rightarrow> Inl (eerr path ''must be a valid RFC 3339 UTC timestamp'')
       | Some f \<Rightarrow>
           if \<not> valid_fields f \<or> Date_parse timestamp = None
           then Inl (eerr path ''must be a valid RFC 3339 UTC timestamp'')
           else Inr ())"

definition event_record :: "json option \<Rightarrow> js_string \<Rightarrow> validation_error + js_object" where
  "event_record value path =
     (case value of Some (JObj fs) \<Rightarrow> Inr fs | _ \<Rightarrow> Inl (eerr path ''must be a JSON object''))"

section \<open>Bounded JSON\<close>

definition visit_string :: "JsonLimits \<Rightarrow> js_string \<Rightarrow> js_string \<Rightarrow> validation_error + unit" where
  "visit_string limits current currentPath = checks
     [throw_if (maxStringLength limits < length current)
        (eerr currentPath (''must be at most '' @ nat_digits (maxStringLength limits) @ '' characters'')),
      throw_if (matches_any CREDENTIAL_VALUE_PATTERNS current)
        (eerr currentPath ''must not contain credential material''),
      throw_if (normalizeFieldName current \<in> set (map js (forbiddenStringValues limits)))
        (eerr currentPath ''must not identify provider-native data''),
      throw_if (matches_any (forbiddenStringPatterns limits) current)
        (eerr currentPath ''must not contain binary content'')]"

definition visit_key :: "JsonLimits \<Rightarrow> js_string \<Rightarrow> js_string \<Rightarrow> validation_error + unit" where
  "visit_key limits key currentPath = checks
     [throw_if (length key = 0 \<or> maxKeyLength limits < length key)
        (eerr (currentPath @ js ''.'' @ key)
          (''field names must be 1-'' @ nat_digits (maxKeyLength limits) @ '' characters'')),
      throw_if (normalizeFieldName key \<in> set (map js (forbiddenFields limits)))
        (eerr (currentPath @ js ''.'' @ key) ''is forbidden in durable public data'')]"

definition too_many_nodes :: "JsonLimits \<Rightarrow> js_string \<Rightarrow> validation_error" where
  "too_many_nodes limits path =
     eerr path (''must contain at most '' @ nat_digits (maxNodes limits) @ '' JSON values'')"

definition too_deep :: "JsonLimits \<Rightarrow> js_string \<Rightarrow> validation_error" where
  "too_deep limits path = eerr path (''exceeds maximum depth '' @ nat_digits (maxDepth limits))"

definition too_many_items :: "JsonLimits \<Rightarrow> js_string \<Rightarrow> validation_error" where
  "too_many_items limits path =
     eerr path (''must contain at most '' @ nat_digits (maxArrayLength limits) @ '' items'')"

definition too_many_fields :: "JsonLimits \<Rightarrow> js_string \<Rightarrow> validation_error" where
  "too_many_fields limits path =
     eerr path (''must contain at most '' @ nat_digits (maxObjectKeys limits) @ '' fields'')"

definition entry_path :: "js_string \<Rightarrow> js_string \<Rightarrow> js_string" where
  "entry_path path key = path @ js ''.'' @ key"

definition visit_scalar :: "JsonLimits \<Rightarrow> json \<Rightarrow> js_string \<Rightarrow> validation_error + unit" where
  "visit_scalar limits current currentPath = (case current of
     JNum n \<Rightarrow> throw_if (\<not> isFinite n) (eerr currentPath ''must be a finite JSON number'')
   | JStr s \<Rightarrow> visit_string limits s currentPath
   | JArr xs \<Rightarrow> throw_if (maxArrayLength limits < length xs) (too_many_items limits currentPath)
   | JObj fs \<Rightarrow> throw_if (maxObjectKeys limits < length fs) (too_many_fields limits currentPath)
   | _ \<Rightarrow> Inr ())"

text \<open>
  The inner \<^verbatim>\<open>visit\<close> threads the node counter and returns the count after the subtree.
  \<open>visit_scalar\<close> holds the checks on the value itself, before its children are visited.
\<close>

function (sequential) visit :: "JsonLimits \<Rightarrow> js_string \<Rightarrow> json \<Rightarrow> js_string \<Rightarrow> nat \<Rightarrow> nat \<Rightarrow> validation_error + nat"
  and visit_items :: "JsonLimits \<Rightarrow> js_string \<Rightarrow> json list \<Rightarrow> js_string \<Rightarrow> nat \<Rightarrow> nat \<Rightarrow> nat \<Rightarrow> validation_error + nat"
  and visit_entries :: "JsonLimits \<Rightarrow> js_string \<Rightarrow> js_object \<Rightarrow> js_string \<Rightarrow> nat \<Rightarrow> nat \<Rightarrow> validation_error + nat"
  where
  "visit limits path current currentPath depth nodes =
     (if maxNodes limits < nodes + 1 then Inl (too_many_nodes limits path)
      else if maxDepth limits < depth then Inl (too_deep limits currentPath)
      else bindE (visit_scalar limits current currentPath) (\<lambda>_.
        case current of
          JArr xs \<Rightarrow> visit_items limits path xs currentPath 0 depth (nodes + 1)
        | JObj fs \<Rightarrow> visit_entries limits path fs currentPath depth (nodes + 1)
        | _ \<Rightarrow> Inr (nodes + 1)))"
| "visit_items limits path [] currentPath index depth nodes = Inr nodes"
| "visit_items limits path (x # xs) currentPath index depth nodes =
     bindE (visit limits path x (index_path currentPath index) (depth + 1) nodes) (\<lambda>nodes.
     visit_items limits path xs currentPath (Suc index) depth nodes)"
| "visit_entries limits path [] currentPath depth nodes = Inr nodes"
| "visit_entries limits path ((key, item) # fs) currentPath depth nodes =
     bindE (visit_key limits key currentPath) (\<lambda>_.
     bindE (visit limits path item (entry_path currentPath key) (depth + 1) nodes) (\<lambda>nodes.
     visit_entries limits path fs currentPath depth nodes))"
  by pat_completeness auto
termination
  by (relation "measure (\<lambda>x. case x of
      Inl (_, _, v, _) \<Rightarrow> Suc (2 * size v)
    | Inr (Inl (_, _, vs, _)) \<Rightarrow> 2 * size_list size vs
    | Inr (Inr (_, _, fs, _)) \<Rightarrow> 2 * size_list (size_prod (\<lambda>_. 0) size) fs)") auto

definition validateJson :: "json option \<Rightarrow> js_string \<Rightarrow> JsonLimits \<Rightarrow> validation_error + unit" where
  "validateJson value path limits =
     (case value of
        Some v \<Rightarrow> voidE (visit limits path v path 0 0)
      | None \<Rightarrow> Inl (eerr path ''must be a JSON value''))"

definition validateMetadata :: "(rat \<Rightarrow> js_string) \<Rightarrow> json option \<Rightarrow> js_string \<Rightarrow> validation_error + unit" where
  "validateMetadata R value path =
     bindE (event_record value path) (\<lambda>fs. checks
       [validateJson value path METADATA_LIMITS,
        throw_if (metadataSerializedBytes < utf8ByteLength (stringify R (JObj fs)))
          (eerr path (''must serialize to at most '' @ nat_digits metadataSerializedBytes @ '' bytes''))])"

section \<open>Approval fields\<close>

definition validateApprovalReason :: "json option \<Rightarrow> js_string \<Rightarrow> validation_error + unit" where
  "validateApprovalReason value path =
     bindE (stringValue value path False approvalReasonLength) (\<lambda>reason.
       throw_if (matches_any CREDENTIAL_VALUE_PATTERNS reason \<or> matches_any APPROVAL_BINARY_VALUE_PATTERNS reason)
         (eerr path ''must not contain credential or binary material''))"

definition isConversationApprovalReason :: "json \<Rightarrow> bool" where
  "isConversationApprovalReason value \<longleftrightarrow> okE (validateApprovalReason (Some value) (js ''$reason''))"

definition ARGUMENT_REFERENCE_PATTERN :: re where
  "ARGUMENT_REFERENCE_PATTERN = head_then_star alnum_i (\<lambda>c. alnum_i c \<or> one_of ''._:/-'' c)"

definition validateApprovalReviewedArguments ::
  "(rat \<Rightarrow> js_string) \<Rightarrow> json option \<Rightarrow> js_string \<Rightarrow> validation_error + unit" where
  "validateApprovalReviewedArguments R value path =
     bindE (event_record value path) (\<lambda>obj.
     bindE (required_keys eerr obj [''type''] path) (\<lambda>_.
     if fld obj ''type'' = Some (JText ''redacted_json'')
     then checks
       [required_keys eerr obj [''value''] path,
        allowed_keys eerr obj [''type'', ''value''] path,
        voidE (event_record (fld obj ''value'') (dot path ''value'')),
        validateJson (fld obj ''value'') (dot path ''value'') APPROVAL_SNAPSHOT_LIMITS,
        throw_if (approvalSnapshotSerializedBytes <
            utf8ByteLength (stringify R (coalesce (fld obj ''value'') JNull)))
          (eerr (dot path ''value'')
            (''must serialize to at most '' @ nat_digits approvalSnapshotSerializedBytes @ '' bytes''))]
     else if fld obj ''type'' = Some (JText ''opaque_reference'')
     then checks
       [required_keys eerr obj [''argument_ref''] path,
        allowed_keys eerr obj [''type'', ''argument_ref''] path,
        bindE (stringValue (fld obj ''argument_ref'') (dot path ''argument_ref'') False
            approvalArgumentReferenceLength) (\<lambda>reference.
          throw_if (\<not> test ARGUMENT_REFERENCE_PATTERN reference \<or> str_includes reference (js ''://'') \<or>
              matches_any CREDENTIAL_VALUE_PATTERNS reference)
            (eerr (dot path ''argument_ref'') ''must be a safe host-owned opaque reference''))]
     else Inl (eerr (dot path ''type'') ''must equal \"redacted_json\" or \"opaque_reference\"'')))"

definition isConversationApprovalReviewedArguments :: "(rat \<Rightarrow> js_string) \<Rightarrow> json \<Rightarrow> bool" where
  "isConversationApprovalReviewedArguments R value \<longleftrightarrow>
     okE (validateApprovalReviewedArguments R (Some value) (js ''$reviewed_arguments''))"

section \<open>Envelope parts and content\<close>

definition CONVERSATION_EVENT_ACTOR_TYPES :: "string list" where
  "CONVERSATION_EVENT_ACTOR_TYPES = [''user'', ''assistant'', ''tool'', ''system'']"

definition CONVERSATION_EVENT_SOURCE_TYPES :: "string list" where
  "CONVERSATION_EVENT_SOURCE_TYPES = [''client'', ''runtime'', ''sync'', ''import'']"

definition validateActor :: "json option \<Rightarrow> js_string \<Rightarrow> validation_error + unit" where
  "validateActor value path =
     bindE (event_record value path) (\<lambda>obj. checks
       [required_keys eerr obj [''type''] path,
        allowed_keys eerr obj [''type'', ''id''] path,
        voidE (enum_value eerr (fld obj ''type'') CONVERSATION_EVENT_ACTOR_TYPES (dot path ''type'')),
        when_own obj ''id'' (voidE (event_identifier (fld obj ''id'') (dot path ''id'')))])"

definition validateSource :: "json option \<Rightarrow> js_string \<Rightarrow> validation_error + unit" where
  "validateSource value path =
     bindE (event_record value path) (\<lambda>obj.
     bindE (required_keys eerr obj [''type''] path) (\<lambda>_.
     bindE (enum_value eerr (fld obj ''type'') CONVERSATION_EVENT_SOURCE_TYPES (dot path ''type'')) (\<lambda>sourceType.
     if sourceType = ''client''
     then checks
       [required_keys eerr obj [''client_id''] path,
        allowed_keys eerr obj [''type'', ''client_id'', ''device_id''] path,
        voidE (event_identifier (fld obj ''client_id'') (dot path ''client_id'')),
        when_own obj ''device_id'' (voidE (event_identifier (fld obj ''device_id'') (dot path ''device_id'')))]
     else allowed_keys eerr obj [''type''] path)))"

definition validateTextPart :: "json option \<Rightarrow> js_string \<Rightarrow> validation_error + unit" where
  "validateTextPart value path =
     bindE (event_record value path) (\<lambda>obj. checks
       [required_keys eerr obj [''type'', ''text''] path,
        allowed_keys eerr obj [''type'', ''text''] path,
        throw_if (fld obj ''type'' \<noteq> Some (JText ''text'')) (eerr (dot path ''type'') ''must equal \"text\"''),
        voidE (stringValue (fld obj ''text'') (dot path ''text'') True textLength)])"

definition IMAGE_MIME_TYPES :: "string list" where
  "IMAGE_MIME_TYPES = [''image/jpeg'', ''image/png'', ''image/gif'', ''image/webp'']"

definition DOCUMENT_MIME_TYPES :: "string list" where
  "DOCUMENT_MIME_TYPES = [''application/pdf'',
     ''application/vnd.openxmlformats-officedocument.wordprocessingml.document'',
     ''application/vnd.openxmlformats-officedocument.spreadsheetml.sheet'',
     ''application/vnd.ms-excel'', ''text/csv'', ''text/tab-separated-values'']"

definition attachmentIdLength :: nat where "attachmentIdLength = 256"
definition attachmentFilenameLength :: nat where "attachmentFilenameLength = 255"

definition ATTACHMENT_ID_PATTERN :: re where
  "ATTACHMENT_ID_PATTERN = foldr RSeq (RStart # map (\<lambda>c. RChar (\<lambda>u. u = of_char c)) ''att_'')
     (RSeq (RChar alnum_i) (RSeq (RRep 0 (Some 251) (RChar (\<lambda>c. alnum_i c \<or> one_of ''._-'' c))) REnd))"

text \<open>
  The source walks the code points of the file name; the characters it refuses are all below
  U+0080, so walking the code units finds the same ones.
\<close>

definition unsafe_filename_unit :: "code_unit \<Rightarrow> bool" where
  "unsafe_filename_unit c \<longleftrightarrow> c \<le> 31 \<or> c = 127 \<or> c \<in> set (js ''<>:/|?*'') \<or> c = 0x22 \<or> c = 0x5C"

definition validateFilename :: "json option \<Rightarrow> js_string \<Rightarrow> validation_error + unit" where
  "validateFilename value path =
     bindE (stringValue value path False attachmentFilenameLength) (\<lambda>filename.
       throw_if (filename = js ''.'' \<or> filename = js ''..'' \<or> list_ex unsafe_filename_unit filename \<or>
           matches_any CREDENTIAL_VALUE_PATTERNS filename)
         (eerr path ''must be a safe filename without path separators or control characters''))"

definition attachment_max_bytes :: "string option \<Rightarrow> int" where
  "attachment_max_bytes kind = (if kind = Some ''document'' then 26214400 else 10485760)"

definition validate_size_bytes :: "string option \<Rightarrow> js_object \<Rightarrow> js_string \<Rightarrow> validation_error + unit" where
  "validate_size_bytes kind obj path =
     (if kind \<noteq> None \<and> \<not> has_own obj ''size_bytes''
      then Inl (eerr (dot path ''size_bytes'') ''is required when kind is present'')
      else if \<not> has_own obj ''size_bytes'' then Inr ()
      else throw_if (case fld obj ''size_bytes'' of
          Some (JNum n) \<Rightarrow> (case safe_int n of
              Some i \<Rightarrow> i < 1 \<or> attachment_max_bytes kind < i
            | None \<Rightarrow> True)
        | _ \<Rightarrow> True)
        (eerr (dot path ''size_bytes'') (''must be a safe integer from 1 through '' @
           int_digits (attachment_max_bytes kind))))"

definition validateAttachmentReference :: "json option \<Rightarrow> js_string \<Rightarrow> validation_error + unit" where
  "validateAttachmentReference value path =
     bindE (event_record value path) (\<lambda>obj.
     bindE (required_keys eerr obj [''attachment_id'', ''media_type''] path) (\<lambda>_.
     bindE (allowed_keys eerr obj [''attachment_id'', ''kind'', ''media_type'', ''filename'', ''size_bytes''] path) (\<lambda>_.
     bindE (stringValue (fld obj ''attachment_id'') (dot path ''attachment_id'') False attachmentIdLength) (\<lambda>attachmentId.
     bindE (throw_if (\<not> test ATTACHMENT_ID_PATTERN attachmentId) (eerr (dot path ''attachment_id'')
       ''must be an opaque identifier matching ^att_[A-Za-z0-9][A-Za-z0-9._-]{0,251}$'')) (\<lambda>_.
     bindE (if has_own obj ''kind''
            then map_sum id Some (enum_value eerr (fld obj ''kind'') [''image'', ''document''] (dot path ''kind''))
            else Inr None) (\<lambda>kind. checks
       [voidE (enum_value eerr (fld obj ''media_type'')
          (if kind = Some ''document'' then DOCUMENT_MIME_TYPES else IMAGE_MIME_TYPES) (dot path ''media_type'')),
        when_own obj ''filename'' (validateFilename (fld obj ''filename'') (dot path ''filename'')),
        validate_size_bytes kind obj path]))))))"

definition isConversationAttachmentReference :: "json \<Rightarrow> bool" where
  "isConversationAttachmentReference value \<longleftrightarrow>
     okE (validateAttachmentReference (Some value) (js ''$attachment''))"

definition validateTurnError :: "json option \<Rightarrow> js_string \<Rightarrow> validation_error + unit" where
  "validateTurnError value path =
     bindE (event_record value path) (\<lambda>obj. checks
       [required_keys eerr obj [''code'', ''message'', ''retryable''] path,
        allowed_keys eerr obj [''code'', ''message'', ''retryable''] path,
        voidE (event_identifier (fld obj ''code'') (dot path ''code'')),
        voidE (stringValue (fld obj ''message'') (dot path ''message'') True titleLength),
        voidE (booleanValue (fld obj ''retryable'') (dot path ''retryable''))])"

definition validateToolResultPart :: "json option \<Rightarrow> js_string \<Rightarrow> validation_error + unit" where
  "validateToolResultPart value path =
     bindE (event_record value path) (\<lambda>obj.
     if fld obj ''type'' = Some (JText ''text'') then validateTextPart value path
     else if fld obj ''type'' = Some (JText ''json'')
     then checks
       [required_keys eerr obj [''type'', ''value''] path,
        allowed_keys eerr obj [''type'', ''value''] path,
        validateJson (fld obj ''value'') (dot path ''value'') JSON_LIMITS]
     else Inl (eerr (dot path ''type'') ''must equal \"text\" or \"json\"''))"

text \<open>\<^verbatim>\<open>content\<close> of a message or a tool result: a non-empty array, every part validated.\<close>

definition validate_content ::
  "(json option \<Rightarrow> js_string \<Rightarrow> validation_error + unit) \<Rightarrow> json option \<Rightarrow> js_string \<Rightarrow> validation_error + unit" where
  "validate_content part value path =
     (case value of
        Some (JArr xs) \<Rightarrow>
          if length xs = 0 then Inl (eerr path ''must be a non-empty array'')
          else forE (\<lambda>x i. part (Some x) (index_path path i)) 0 xs
      | _ \<Rightarrow> Inl (eerr path ''must be a non-empty array''))"

section \<open>Payloads\<close>

text \<open>The common opening of every case: required fields, then supported fields.\<close>

definition payload_keys :: "js_object \<Rightarrow> string list \<Rightarrow> string list \<Rightarrow> js_string \<Rightarrow> validation_error + unit" where
  "payload_keys obj required allowed path = checks
     [required_keys eerr obj required path, allowed_keys eerr obj (''type'' # allowed) path]"

definition id_field :: "js_object \<Rightarrow> string \<Rightarrow> js_string \<Rightarrow> validation_error + unit" where
  "id_field obj k path = voidE (event_identifier (fld obj k) (dot path k))"

definition enum_field :: "js_object \<Rightarrow> string \<Rightarrow> string list \<Rightarrow> js_string \<Rightarrow> validation_error + unit" where
  "enum_field obj k vs path = voidE (enum_value eerr (fld obj k) vs (dot path k))"

definition TURN_STATUSES :: "string list" where
  "TURN_STATUSES = [''queued'', ''running'', ''waiting_for_tool_result'', ''waiting_for_approval'']"

definition TURN_COMPLETION_OUTCOMES :: "string list" where
  "TURN_COMPLETION_OUTCOMES = [''stop'', ''length'', ''tool_calls'']"

definition TURN_CANCELLATION_REASONS :: "string list" where
  "TURN_CANCELLATION_REASONS = [''user'', ''timeout'', ''superseded'', ''runtime_shutdown'']"

definition RETRY_REASON_CATEGORIES :: "string list" where
  "RETRY_REASON_CATEGORIES = [''rate_limit'', ''timeout'', ''unavailable'', ''internal'',
     ''disconnected'', ''interrupted'']"

definition RETRY_EXHAUSTION_REASONS :: "string list" where
  "RETRY_EXHAUSTION_REASONS = [''maximum_attempts'', ''maximum_elapsed_time'']"

definition CONVERSATION_APPROVAL_PROPOSAL_STATUSES :: "string list" where
  "CONVERSATION_APPROVAL_PROPOSAL_STATUSES =
     [''pending'', ''confirmed'', ''rejected'', ''expired'', ''executing'', ''executed'', ''failed'']"

definition validate_message_created :: "js_object \<Rightarrow> js_string \<Rightarrow> validation_error + unit" where
  "validate_message_created obj path = checks
     [payload_keys obj [''message_id'', ''role'', ''content''] [''message_id'', ''role'', ''content''] path,
      id_field obj ''message_id'' path,
      enum_field obj ''role'' [''user'', ''assistant'', ''system''] path,
      validate_content validateTextPart (fld obj ''content'') (dot path ''content'')]"

definition validate_text_appended :: "js_object \<Rightarrow> js_string \<Rightarrow> validation_error + unit" where
  "validate_text_appended obj path = checks
     [payload_keys obj [''turn_id'', ''message_id'', ''text''] [''turn_id'', ''message_id'', ''text''] path,
      id_field obj ''turn_id'' path,
      id_field obj ''message_id'' path,
      bindE (stringValue (fld obj ''text'') (dot path ''text'') False textLength) (\<lambda>text.
        throw_if (textChunkBytes < utf8ByteLength text)
          (eerr (dot path ''text'') (''must be at most '' @ nat_digits textChunkBytes @ '' UTF-8 bytes'')))]"

definition validate_attachment_referenced :: "js_object \<Rightarrow> js_string \<Rightarrow> validation_error + unit" where
  "validate_attachment_referenced obj path = checks
     [payload_keys obj [''message_id'', ''attachment''] [''message_id'', ''attachment''] path,
      id_field obj ''message_id'' path,
      validateAttachmentReference (fld obj ''attachment'') (dot path ''attachment'')]"

text \<open>\<^verbatim>\<open>error.message\<close> of either error class is \<^verbatim>\<open>path: message\<close>.\<close>

definition error_message :: "validation_error \<Rightarrow> js_string" where
  "error_message e = (case e of
     ConversationEventValidationError p m \<Rightarrow> p @ js '': '' @ m
   | CitationValidationError p m \<Rightarrow> p @ js '': '' @ m)"

text \<open>\<^verbatim>\<open>try { ... } catch (error) { fail(path, error.message) }\<close>.\<close>

definition refail :: "js_string \<Rightarrow> validation_error + 'a \<Rightarrow> validation_error + 'a" where
  "refail path m = (case m of
     Inl e \<Rightarrow> Inl (ConversationEventValidationError path (error_message e)) | Inr x \<Rightarrow> Inr x)"

definition validate_citation_target :: "json option \<Rightarrow> js_string \<Rightarrow> validation_error + ConversationCitationTarget" where
  "validate_citation_target value path =
     bindE (event_record value path) (\<lambda>target.
     bindE (required_keys eerr target [''type''] path) (\<lambda>_.
     if fld target ''type'' = Some (JText ''assistant_message'')
     then bindE (required_keys eerr target [''message_id''] path) (\<lambda>_.
          bindE (allowed_keys eerr target [''type'', ''message_id''] path) (\<lambda>_.
          bindE (event_identifier (fld target ''message_id'') (dot path ''message_id'')) (\<lambda>m.
          Inr (AssistantMessageTarget m))))
     else if fld target ''type'' = Some (JText ''tool_result'')
     then bindE (required_keys eerr target [''turn_id'', ''tool_call_id''] path) (\<lambda>_.
          bindE (allowed_keys eerr target [''type'', ''turn_id'', ''tool_call_id''] path) (\<lambda>_.
          bindE (event_identifier (fld target ''turn_id'') (dot path ''turn_id'')) (\<lambda>t.
          bindE (event_identifier (fld target ''tool_call_id'') (dot path ''tool_call_id'')) (\<lambda>c.
          Inr (ToolResultTarget t c)))))
     else Inl (eerr (dot path ''type'') ''must equal \"assistant_message\" or \"tool_result\"'')))"

definition citation_links_to :: "ConversationCitationTarget \<Rightarrow> Citation \<Rightarrow> bool" where
  "citation_links_to target c = (case (target, ct_target c) of
     (AssistantMessageTarget m, AssistantMessageCitationTarget m') \<Rightarrow> m' = m
   | (ToolResultTarget _ t, ToolResultCitationTarget t') \<Rightarrow> t' = t
   | _ \<Rightarrow> False)"

definition validate_records_linked :: "url_parser \<Rightarrow> js_object \<Rightarrow> js_string \<Rightarrow> validation_error + unit" where
  "validate_records_linked parse_url obj path =
     bindE (payload_keys obj [''citation_records_version'', ''target'', ''sources'', ''citations'']
       [''citation_records_version'', ''target'', ''sources'', ''citations''] path) (\<lambda>_.
     bindE (throw_if (case fld obj ''citation_records_version'' of
           Some (JNum n) \<Rightarrow> \<not> num_strict_eq n (Finite 1) | _ \<Rightarrow> True)
         (eerr (dot path ''citation_records_version'') ''must equal 1'')) (\<lambda>_.
     bindE (validate_citation_target (fld obj ''target'') (dot path ''target'')) (\<lambda>target.
     bindE (refail path (normalizeCitationRecords parse_url
         (JObj [(js ''sources'', coalesce (fld obj ''sources'') JNull),
                (js ''citations'', coalesce (fld obj ''citations'') JNull)]))) (\<lambda>records. checks
       [throw_if (rs_citations records = [])
          (eerr (dot path ''citations'') ''must contain at least one citation link''),
        throw_if (\<not> jsonValuesEqual (JArr (map citation_source_json (rs_sources records)))
              (coalesce (fld obj ''sources'') JNull) \<or>
            \<not> jsonValuesEqual (JArr (map citation_json (rs_citations records)))
              (coalesce (fld obj ''citations'') JNull))
          (eerr path ''citation records must already be normalized and identity-deduplicated''),
        throw_if (list_ex (\<lambda>c. \<not> citation_links_to target c) (rs_citations records))
          (eerr (dot path ''citations'') ''must contain only links to the payload target'')]))))"

definition validate_turn_started :: "js_object \<Rightarrow> js_string \<Rightarrow> validation_error + unit" where
  "validate_turn_started obj path = checks
     [payload_keys obj [''turn_id'', ''input_message_ids'']
        [''turn_id'', ''input_message_ids'', ''continuation_of_turn_id''] path,
      id_field obj ''turn_id'' path,
      voidE (identifierArray (fld obj ''input_message_ids'') (dot path ''input_message_ids'') False),
      when_own obj ''continuation_of_turn_id'' (id_field obj ''continuation_of_turn_id'' path)]"

definition validate_turn_status_changed :: "js_object \<Rightarrow> js_string \<Rightarrow> validation_error + unit" where
  "validate_turn_status_changed obj path = checks
     [payload_keys obj [''turn_id'', ''status''] [''turn_id'', ''status''] path,
      id_field obj ''turn_id'' path,
      enum_field obj ''status'' TURN_STATUSES path]"

definition validate_attempt_started :: "js_object \<Rightarrow> js_string \<Rightarrow> validation_error + unit" where
  "validate_attempt_started obj path = checks
     [payload_keys obj [''turn_id'', ''attempt'', ''operation''] [''turn_id'', ''attempt'', ''operation''] path,
      id_field obj ''turn_id'' path,
      positiveSafeInteger (fld obj ''attempt'') (dot path ''attempt''),
      enum_field obj ''operation'' [''start'', ''resume''] path]"

definition validate_retry_scheduled :: "js_object \<Rightarrow> js_string \<Rightarrow> validation_error + unit" where
  "validate_retry_scheduled obj path = checks
     [payload_keys obj [''turn_id'', ''attempt'', ''reason_category'', ''delay_ms'']
        [''turn_id'', ''attempt'', ''reason_category'', ''delay_ms''] path,
      id_field obj ''turn_id'' path,
      positiveSafeInteger (fld obj ''attempt'') (dot path ''attempt''),
      enum_field obj ''reason_category'' RETRY_REASON_CATEGORIES path,
      nonnegativeSafeInteger (fld obj ''delay_ms'') (dot path ''delay_ms'')]"

definition validate_retry_exhausted :: "js_object \<Rightarrow> js_string \<Rightarrow> validation_error + unit" where
  "validate_retry_exhausted obj path = checks
     [payload_keys obj [''turn_id'', ''attempt'', ''reason_category'', ''exhaustion_reason'']
        [''turn_id'', ''attempt'', ''reason_category'', ''exhaustion_reason''] path,
      id_field obj ''turn_id'' path,
      positiveSafeInteger (fld obj ''attempt'') (dot path ''attempt''),
      enum_field obj ''reason_category'' RETRY_REASON_CATEGORIES path,
      enum_field obj ''exhaustion_reason'' RETRY_EXHAUSTION_REASONS path]"

text \<open>\<^verbatim>\<open>turn.cancellation_requested\<close>, \<^verbatim>\<open>turn.cancellation_unsupported\<close> and \<^verbatim>\<open>turn.cancelled\<close>.\<close>

definition validate_cancellation :: "js_object \<Rightarrow> js_string \<Rightarrow> validation_error + unit" where
  "validate_cancellation obj path = checks
     [payload_keys obj [''turn_id'', ''reason''] [''turn_id'', ''reason''] path,
      id_field obj ''turn_id'' path,
      enum_field obj ''reason'' TURN_CANCELLATION_REASONS path]"

definition validate_turn_completed :: "js_object \<Rightarrow> js_string \<Rightarrow> validation_error + unit" where
  "validate_turn_completed obj path = checks
     [payload_keys obj [''turn_id'', ''outcome'', ''output_message_ids''] [''turn_id'', ''outcome'', ''output_message_ids''] path,
      id_field obj ''turn_id'' path,
      enum_field obj ''outcome'' TURN_COMPLETION_OUTCOMES path,
      voidE (identifierArray (fld obj ''output_message_ids'') (dot path ''output_message_ids'') True)]"

definition validate_turn_failed :: "js_object \<Rightarrow> js_string \<Rightarrow> validation_error + unit" where
  "validate_turn_failed obj path = checks
     [payload_keys obj [''turn_id'', ''error''] [''turn_id'', ''error''] path,
      id_field obj ''turn_id'' path,
      validateTurnError (fld obj ''error'') (dot path ''error'')]"

definition validate_tool_call_requested :: "js_object \<Rightarrow> js_string \<Rightarrow> validation_error + unit" where
  "validate_tool_call_requested obj path = checks
     [payload_keys obj [''turn_id'', ''tool_call_id'', ''name'', ''arguments'']
        [''turn_id'', ''tool_call_id'', ''name'', ''arguments''] path,
      id_field obj ''turn_id'' path,
      id_field obj ''tool_call_id'' path,
      id_field obj ''name'' path,
      voidE (event_record (fld obj ''arguments'') (dot path ''arguments'')),
      validateJson (fld obj ''arguments'') (dot path ''arguments'') JSON_LIMITS]"

text \<open>\<^verbatim>\<open>tool_call.discovered\<close>, \<^verbatim>\<open>tool_call.started\<close> and \<^verbatim>\<open>tool_call.approval_required\<close>.\<close>

definition validate_tool_call_marker :: "js_object \<Rightarrow> js_string \<Rightarrow> validation_error + unit" where
  "validate_tool_call_marker obj path = checks
     [payload_keys obj [''turn_id'', ''tool_call_id''] [''turn_id'', ''tool_call_id''] path,
      id_field obj ''turn_id'' path,
      id_field obj ''tool_call_id'' path]"

definition validate_expires_at :: "json option \<Rightarrow> js_string \<Rightarrow> validation_error + unit" where
  "validate_expires_at value path = (if value = Some JNull then Inr () else validateTimestamp value path)"

definition PROPOSAL_CREATED_FIELDS :: "string list" where
  "PROPOSAL_CREATED_FIELDS = [''proposal_id'', ''turn_id'', ''tool_call_id'', ''tool_name'', ''status'',
     ''proposal_version'', ''expires_at'', ''reviewed_arguments'']"

definition validate_proposal_created ::
  "(rat \<Rightarrow> js_string) \<Rightarrow> js_object \<Rightarrow> js_string \<Rightarrow> validation_error + unit" where
  "validate_proposal_created R obj path = checks
     [payload_keys obj PROPOSAL_CREATED_FIELDS (''group_id'' # PROPOSAL_CREATED_FIELDS) path,
      id_field obj ''proposal_id'' path,
      when_own obj ''group_id'' (id_field obj ''group_id'' path),
      id_field obj ''turn_id'' path,
      id_field obj ''tool_call_id'' path,
      id_field obj ''tool_name'' path,
      throw_if (fld obj ''status'' \<noteq> Some (JText ''pending'')) (eerr (dot path ''status'') ''must equal \"pending\"''),
      throw_if (case fld obj ''proposal_version'' of
          Some (JNum n) \<Rightarrow> \<not> num_strict_eq n (Finite 1) | _ \<Rightarrow> True)
        (eerr (dot path ''proposal_version'') ''must equal the initial version 1''),
      validate_expires_at (fld obj ''expires_at'') (dot path ''expires_at''),
      validateApprovalReviewedArguments R (fld obj ''reviewed_arguments'') (dot path ''reviewed_arguments'')]"

definition validate_proposal_status_changed :: "js_object \<Rightarrow> js_string \<Rightarrow> validation_error + unit" where
  "validate_proposal_status_changed obj path =
     bindE (required_keys eerr obj [''proposal_id'', ''proposal_version'', ''status''] path) (\<lambda>_.
     bindE (event_identifier (fld obj ''proposal_id'') (dot path ''proposal_id'')) (\<lambda>_.
     bindE (positiveSafeInteger (fld obj ''proposal_version'') (dot path ''proposal_version'')) (\<lambda>_.
     bindE (enum_value eerr (fld obj ''status'')
         (filter (\<lambda>c. c \<noteq> ''pending'') CONVERSATION_APPROVAL_PROPOSAL_STATUSES) (dot path ''status'')) (\<lambda>status.
     if status \<in> set [''confirmed'', ''rejected'', ''expired'']
     then checks
       [allowed_keys eerr obj [''type'', ''proposal_id'', ''proposal_version'', ''status'', ''decision_reason''] path,
        when_own obj ''decision_reason''
          (validateApprovalReason (fld obj ''decision_reason'') (dot path ''decision_reason''))]
     else if status = ''failed''
     then checks
       [required_keys eerr obj [''failure_reason''] path,
        allowed_keys eerr obj [''type'', ''proposal_id'', ''proposal_version'', ''status'', ''failure_reason''] path,
        validateApprovalReason (fld obj ''failure_reason'') (dot path ''failure_reason'')]
     else allowed_keys eerr obj [''type'', ''proposal_id'', ''proposal_version'', ''status''] path))))"

text \<open>The citation records a tool result carries must link to that very tool call.\<close>

definition validate_result_citations :: "url_parser \<Rightarrow> js_object \<Rightarrow> js_string \<Rightarrow> validation_error + unit" where
  "validate_result_citations parse_url obj path =
     (let value = coalesce (fld obj ''citation_records'') JNull in
      bindE (refail (dot path ''citation_records'') (normalizeCitationRecords parse_url value)) (\<lambda>records. checks
       [throw_if (rs_citations records = [])
          (eerr (dot (dot path ''citation_records'') ''citations'') ''must contain at least one citation link''),
        throw_if (\<not> jsonValuesEqual (citation_records_json records) value)
          (eerr (dot path ''citation_records'') ''must already be normalized and identity-deduplicated''),
        throw_if (list_ex (\<lambda>c. case ct_target c of
              ToolResultCitationTarget t \<Rightarrow> Some (JStr t) \<noteq> fld obj ''tool_call_id''
            | _ \<Rightarrow> True) (rs_citations records))
          (eerr (dot (dot path ''citation_records'') ''citations'') ''must contain only links to this tool result'')]))"

definition validate_result_recorded :: "url_parser \<Rightarrow> js_object \<Rightarrow> js_string \<Rightarrow> validation_error + unit" where
  "validate_result_recorded parse_url obj path = checks
     [payload_keys obj [''turn_id'', ''tool_call_id'', ''content'', ''is_error'']
        [''turn_id'', ''tool_call_id'', ''content'', ''is_error'', ''citation_records''] path,
      id_field obj ''turn_id'' path,
      id_field obj ''tool_call_id'' path,
      validate_content validateToolResultPart (fld obj ''content'') (dot path ''content''),
      voidE (booleanValue (fld obj ''is_error'') (dot path ''is_error'')),
      when_own obj ''citation_records'' (validate_result_citations parse_url obj path)]"

definition validate_budget_exhausted :: "js_object \<Rightarrow> js_string \<Rightarrow> validation_error + unit" where
  "validate_budget_exhausted obj path = checks
     [payload_keys obj [''turn_id'', ''budget'', ''limit''] [''turn_id'', ''budget'', ''limit''] path,
      id_field obj ''turn_id'' path,
      enum_field obj ''budget'' [''iterations'', ''total_tool_calls'', ''wall_clock''] path,
      positiveSafeInteger (fld obj ''limit'') (dot path ''limit'')]"

definition validate_usage_receipt :: "js_object \<Rightarrow> js_string \<Rightarrow> validation_error + unit" where
  "validate_usage_receipt obj path = checks
     [payload_keys obj [''turn_id'', ''usage_receipt_id''] [''turn_id'', ''usage_receipt_id''] path,
      id_field obj ''turn_id'' path,
      id_field obj ''usage_receipt_id'' path]"

definition validate_metadata_updated ::
  "(rat \<Rightarrow> js_string) \<Rightarrow> js_object \<Rightarrow> js_string \<Rightarrow> validation_error + unit" where
  "validate_metadata_updated R obj path = checks
     [payload_keys obj [''metadata''] [''metadata''] path,
      validateMetadata R (fld obj ''metadata'') (dot path ''metadata'')]"

definition validate_title_updated :: "js_object \<Rightarrow> js_string \<Rightarrow> validation_error + unit" where
  "validate_title_updated obj path = checks
     [payload_keys obj [''title''] [''title''] path,
      if fld obj ''title'' = Some JNull then Inr ()
      else voidE (stringValue (fld obj ''title'') (dot path ''title'') True titleLength)]"

text \<open>The \<^verbatim>\<open>switch\<close> over the discriminator; \<open>None\<close> is an unsupported one.\<close>

definition payload_validator ::
  "url_parser \<Rightarrow> (rat \<Rightarrow> js_string) \<Rightarrow> string \<Rightarrow> (js_object \<Rightarrow> js_string \<Rightarrow> validation_error + unit) option" where
  "payload_validator parse_url R t = map_of
     [(''conversation.cleared'', \<lambda>obj path. allowed_keys eerr obj [''type''] path),
      (''message.created'', validate_message_created),
      (''message.text_appended'', validate_text_appended),
      (''message.attachment_referenced'', validate_attachment_referenced),
      (''citation.records_linked'', validate_records_linked parse_url),
      (''turn.started'', validate_turn_started),
      (''turn.status_changed'', validate_turn_status_changed),
      (''turn.attempt_started'', validate_attempt_started),
      (''turn.retry_scheduled'', validate_retry_scheduled),
      (''turn.retry_exhausted'', validate_retry_exhausted),
      (''turn.cancellation_requested'', validate_cancellation),
      (''turn.cancellation_unsupported'', validate_cancellation),
      (''turn.completed'', validate_turn_completed),
      (''turn.cancelled'', validate_cancellation),
      (''turn.failed'', validate_turn_failed),
      (''tool_call.requested'', validate_tool_call_requested),
      (''tool_call.discovered'', validate_tool_call_marker),
      (''tool_call.started'', validate_tool_call_marker),
      (''tool_call.approval_required'', validate_tool_call_marker),
      (''approval.proposal_created'', validate_proposal_created R),
      (''approval.proposal_status_changed'', validate_proposal_status_changed),
      (''tool_call.result_recorded'', validate_result_recorded parse_url),
      (''tool_loop.budget_exhausted'', validate_budget_exhausted),
      (''usage.receipt_linked'', validate_usage_receipt),
      (''conversation.metadata_updated'', validate_metadata_updated R),
      (''conversation.title_updated'', validate_title_updated)] t"

definition CONVERSATION_EVENT_TYPES :: "string list" where
  "CONVERSATION_EVENT_TYPES = [''conversation.cleared'', ''message.created'', ''message.text_appended'',
     ''message.attachment_referenced'', ''citation.records_linked'', ''turn.started'',
     ''turn.status_changed'', ''turn.attempt_started'', ''turn.retry_scheduled'',
     ''turn.retry_exhausted'', ''turn.cancellation_requested'', ''turn.cancellation_unsupported'',
     ''turn.completed'', ''turn.cancelled'', ''turn.failed'', ''tool_call.requested'',
     ''tool_call.discovered'', ''tool_call.started'', ''tool_call.approval_required'',
     ''approval.proposal_created'', ''approval.proposal_status_changed'',
     ''tool_call.result_recorded'', ''tool_loop.budget_exhausted'', ''usage.receipt_linked'',
     ''conversation.metadata_updated'', ''conversation.title_updated'']"

definition validatePayload ::
  "url_parser \<Rightarrow> (rat \<Rightarrow> js_string) \<Rightarrow> json option \<Rightarrow> js_string \<Rightarrow> validation_error + unit" where
  "validatePayload parse_url R value path =
     bindE (event_record value path) (\<lambda>obj.
     bindE (required_keys eerr obj [''type''] path) (\<lambda>_.
     case fld obj ''type'' of
       Some (JStr t) \<Rightarrow> (case find (\<lambda>k. js k = t) CONVERSATION_EVENT_TYPES of
           Some k \<Rightarrow> (case payload_validator parse_url R k of
               Some v \<Rightarrow> v obj path
             | None \<Rightarrow> Inr ())
         | None \<Rightarrow> Inl (eerr (dot path ''type'') ''is not a supported durable event discriminator''))
     | _ \<Rightarrow> Inl (eerr (dot path ''type'') ''is not a supported durable event discriminator'')))"

section \<open>Events\<close>

definition sub_field :: "json option \<Rightarrow> string \<Rightarrow> json option" where
  "sub_field value k = (case value of Some (JObj fs) \<Rightarrow> fld fs k | _ \<Rightarrow> None)"

text \<open>Who may create a proposal and who may move it.\<close>

definition validate_approval_actor :: "json option \<Rightarrow> json option \<Rightarrow> validation_error + unit" where
  "validate_approval_actor actorType payload =
     (if sub_field payload ''type'' = Some (JText ''approval.proposal_created'')
      then throw_if (actorType \<noteq> Some (JText ''system''))
        (eerr (js ''$event.actor.type'') ''approval proposals must be created by an explicit host system actor'')
      else if sub_field payload ''type'' = Some (JText ''approval.proposal_status_changed'')
      then checks
        [throw_if (actorType \<noteq> Some (JText ''user'') \<and> actorType \<noteq> Some (JText ''system''))
           (eerr (js ''$event.actor.type'')
             ''approval lifecycle changes require an explicit user or host system actor''),
         throw_if (sub_field payload ''status'' \<in>
               set (map (\<lambda>s. Some (JText s)) [''expired'', ''executing'', ''executed'', ''failed'']) \<and>
             actorType \<noteq> Some (JText ''system''))
           (ConversationEventValidationError (js ''$event.actor.type'')
             ((case sub_field payload ''status'' of Some (JStr s) \<Rightarrow> s | _ \<Rightarrow> []) @
              js '' lifecycle changes require a host system actor''))]
      else Inr ())"

definition EVENT_REQUIRED_FIELDS :: "string list" where
  "EVENT_REQUIRED_FIELDS = [''version'', ''event_id'', ''conversation_id'', ''revision'',
     ''occurred_at'', ''actor'', ''source'', ''payload'']"

definition validate_mutation_id :: "js_object \<Rightarrow> validation_error + unit" where
  "validate_mutation_id obj = checks
     [id_field obj ''mutation_id'' (js ''$event''),
      throw_if (sub_field (fld obj ''source'') ''type'' = Some (JText ''import''))
        (eerr (js ''$event.mutation_id'') ''is not supported for imported events'')]"

definition parseConversationEvent ::
  "url_parser \<Rightarrow> (rat \<Rightarrow> js_string) \<Rightarrow> json \<Rightarrow> validation_error + json" where
  "parseConversationEvent parse_url R value =
     (let P = js ''$event'' in
      bindE (event_record (Some value) P) (\<lambda>obj.
      bindE (checks
        [required_keys eerr obj EVENT_REQUIRED_FIELDS P,
         allowed_keys eerr obj (EVENT_REQUIRED_FIELDS @ [''mutation_id'', ''metadata'']) P,
         throw_if (case fld obj ''version'' of Some (JNum n) \<Rightarrow> \<not> num_strict_eq n (Finite 1) | _ \<Rightarrow> True)
           (eerr (dot P ''version'') ''must equal 1''),
         id_field obj ''event_id'' P,
         id_field obj ''conversation_id'' P,
         validateRevision (fld obj ''revision'') (dot P ''revision''),
         validateTimestamp (fld obj ''occurred_at'') (dot P ''occurred_at''),
         validateActor (fld obj ''actor'') (dot P ''actor''),
         validateSource (fld obj ''source'') (dot P ''source''),
         when_own obj ''mutation_id'' (validate_mutation_id obj),
         when_own obj ''metadata'' (validateMetadata R (fld obj ''metadata'') (dot P ''metadata'')),
         validatePayload parse_url R (fld obj ''payload'') (dot P ''payload''),
         validate_approval_actor (sub_field (fld obj ''actor'') ''type'') (fld obj ''payload'')]) (\<lambda>_.
      Inr value)))"

definition isConversationEvent :: "url_parser \<Rightarrow> (rat \<Rightarrow> js_string) \<Rightarrow> json \<Rightarrow> bool" where
  "isConversationEvent parse_url R value \<longleftrightarrow> okE (parseConversationEvent parse_url R value)"

section \<open>What bounded JSON means\<close>

text \<open>The number of values in a JSON value, and the limits read as a condition on the value.\<close>

fun node_count :: "json \<Rightarrow> nat" where
  "node_count (JArr xs) = Suc (sum_list (map node_count xs))"
| "node_count (JObj fs) = Suc (sum_list (map (\<lambda>f. node_count (snd f)) fs))"
| "node_count _ = 1"

definition string_within :: "JsonLimits \<Rightarrow> js_string \<Rightarrow> bool" where
  "string_within L s \<longleftrightarrow> length s \<le> maxStringLength L \<and> \<not> matches_any CREDENTIAL_VALUE_PATTERNS s \<and>
     normalizeFieldName s \<notin> js ` set (forbiddenStringValues L) \<and>
     \<not> matches_any (forbiddenStringPatterns L) s"

definition key_within :: "JsonLimits \<Rightarrow> js_string \<Rightarrow> bool" where
  "key_within L k \<longleftrightarrow> 1 \<le> length k \<and> length k \<le> maxKeyLength L \<and>
     normalizeFieldName k \<notin> js ` set (forbiddenFields L)"

fun json_within :: "JsonLimits \<Rightarrow> nat \<Rightarrow> json \<Rightarrow> bool" where
  "json_within L d (JNum n) = (d \<le> maxDepth L \<and> isFinite n)"
| "json_within L d (JStr s) = (d \<le> maxDepth L \<and> string_within L s)"
| "json_within L d (JArr xs) = (d \<le> maxDepth L \<and> length xs \<le> maxArrayLength L \<and> list_all (json_within L (Suc d)) xs)"
| "json_within L d (JObj fs) = (d \<le> maxDepth L \<and> length fs \<le> maxObjectKeys L \<and>
     list_all (\<lambda>f. key_within L (fst f) \<and> json_within L (Suc d) (snd f)) fs)"
| "json_within L d _ = (d \<le> maxDepth L)"

lemma visit_string_ok: "okE (visit_string L s p) \<longleftrightarrow> string_within L s"
  by (simp add: visit_string_def string_within_def not_less)

lemma visit_key_ok: "okE (visit_key L k p) \<longleftrightarrow> key_within L k"
  by (auto simp: visit_key_def key_within_def not_less Suc_le_eq)

lemma okE_unit: "okE (m :: 'e + unit) \<longleftrightarrow> m = Inr ()"
  by (cases m) simp_all

declare visit.simps [simp del]

lemma visit_accepts:
  "visit L p v q d n = Inr m \<longleftrightarrow> json_within L d v \<and> m = n + node_count v \<and> m \<le> maxNodes L"
  "n \<le> maxNodes L \<Longrightarrow> visit_items L p xs q i d n = Inr m \<longleftrightarrow>
     list_all (json_within L (Suc d)) xs \<and> m = n + sum_list (map node_count xs) \<and> m \<le> maxNodes L"
  "n \<le> maxNodes L \<Longrightarrow> visit_entries L p fs q d n = Inr m \<longleftrightarrow>
     list_all (\<lambda>f. key_within L (fst f) \<and> json_within L (Suc d) (snd f)) fs \<and>
     m = n + sum_list (map (\<lambda>f. node_count (snd f)) fs) \<and> m \<le> maxNodes L"
proof (induction L p v q d n and L p xs q i d n and L p fs q d n arbitrary: m and m and m
    rule: visit_visit_items_visit_entries.induct)
  case (1 L p v q d n)
  show ?case
  proof (cases "n + 1 \<le> maxNodes L \<and> d \<le> maxDepth L \<and> okE (visit_scalar L v q)")
    case True
    then have ok: "visit_scalar L v q = Inr ()" by (simp add: okE_unit)
    with True have unf: "visit L p v q d n = (case v of JArr xs \<Rightarrow> visit_items L p xs q 0 d (n + 1)
        | JObj fs \<Rightarrow> visit_entries L p fs q d (n + 1) | _ \<Rightarrow> Inr (n + 1))"
      by (simp add: visit.simps)
    show ?thesis
    proof (cases v)
      case (JArr xs)
      with True ok unf 1(1) [of xs] show ?thesis by (auto simp: visit_scalar_def not_less)
    next
      case (JObj fs)
      with True ok unf 1(2) [of fs] show ?thesis by (auto simp: visit_scalar_def not_less)
    qed (use True unf in \<open>auto simp: visit_scalar_def visit_string_ok\<close>)
  next
    case False
    then have "visit L p v q d n \<noteq> Inr m"
      by (auto simp: visit.simps okE_unit bindE_Inr_iff)
    moreover have "\<not> (json_within L d v \<and> m = n + node_count v \<and> m \<le> maxNodes L)"
      using False by (cases v) (auto simp: visit_scalar_def visit_string_ok)
    ultimately show ?thesis by blast
  qed
next
  case (3 L p x xs q i d n)
  have "visit_items L p (x # xs) q i d n = Inr m \<longleftrightarrow>
    (\<exists>k. json_within L (Suc d) x \<and> k = n + node_count x \<and> k \<le> maxNodes L \<and> visit_items L p xs q (Suc i) d k = Inr m)"
    using "3.IH"(1) by (simp add: bindE_Inr_iff)
  also have "\<dots> \<longleftrightarrow> json_within L (Suc d) x \<and> n + node_count x \<le> maxNodes L \<and>
      visit_items L p xs q (Suc i) d (n + node_count x) = Inr m" by blast
  also have "\<dots> \<longleftrightarrow> list_all (json_within L (Suc d)) (x # xs) \<and> m = n + sum_list (map node_count (x # xs)) \<and> m \<le> maxNodes L"
    using "3.IH"(2) [of "n + node_count x" m] by (auto simp: add.assoc)
  finally show ?case .
next
  case (5 L p key item fs q d n)
  have "visit_entries L p ((key, item) # fs) q d n = Inr m \<longleftrightarrow> key_within L key \<and>
    (\<exists>k. json_within L (Suc d) item \<and> k = n + node_count item \<and> k \<le> maxNodes L \<and> visit_entries L p fs q d k = Inr m)"
    using "5.IH"(1) visit_key_ok [of L key q] by (simp add: bindE_Inr_iff okE_unit)
  also have "\<dots> \<longleftrightarrow> key_within L key \<and> json_within L (Suc d) item \<and> n + node_count item \<le> maxNodes L \<and>
      visit_entries L p fs q d (n + node_count item) = Inr m" by blast
  also have "\<dots> \<longleftrightarrow> list_all (\<lambda>f. key_within L (fst f) \<and> json_within L (Suc d) (snd f)) ((key, item) # fs) \<and>
      m = n + sum_list (map (\<lambda>f. node_count (snd f)) ((key, item) # fs)) \<and> m \<le> maxNodes L"
    using "5.IH"(2) [of "n + node_count item" m] by (auto simp: add.assoc)
  finally show ?case .
qed auto

text \<open>
  C8: \<^verbatim>\<open>validateJson\<close> accepts a value exactly when it has at most the permitted number of
  nodes and every node respects the depth, array, object, key and string limits, contains no
  forbidden field name and no credential, provider-native or binary text.
\<close>

theorem validateJson_iff:
  "okE (validateJson (Some v) path limits) \<longleftrightarrow> json_within limits 0 v \<and> node_count v \<le> maxNodes limits"
proof -
  have "okE (validateJson (Some v) path limits) \<longleftrightarrow> (\<exists>m. visit limits path v path 0 0 = Inr m)"
    by (simp add: validateJson_def okE_iff [symmetric])
  then show ?thesis by (simp add: visit_accepts)
qed

section \<open>What a validated event guarantees\<close>

lemma stringValue_ok:
  "okE (stringValue v p b n) \<longleftrightarrow> (\<exists>s. v = Some (JStr s) \<and> (b \<or> s \<noteq> []) \<and> length s \<le> n)"
  by (auto simp: stringValue_def not_less split: option.splits json.splits)

lemma safe_integer_field_ok:
  "okE (safe_integer_field l m (Some (JInt i)) p) \<longleftrightarrow> l \<le> i \<and> \<bar>i\<bar> \<le> MAX_SAFE_INTEGER"
  by (auto simp: safe_integer_field_def split: if_splits)

lemma validateTimestamp_ok:
  "okE (validateTimestamp (Some (JStr s)) p) \<longleftrightarrow> isConversationTimestamp s"
proof -
  have "s \<noteq> [] \<and> length s \<le> 64" if "timestamp_match s = Some f" for f
    using timestamp_match_length [OF that] that by (auto simp: timestamp_match_def digits_at_def)
  then show ?thesis
    by (auto simp: validateTimestamp_def okE_bindE isConversationTimestamp_def stringValue_def
        split: option.splits if_splits)
qed

text \<open>The checks of an event that its envelope alone decides, on the typed event.\<close>

definition identifier_ok :: "js_string \<Rightarrow> bool" where
  "identifier_ok s \<longleftrightarrow> s \<noteq> [] \<and> length s \<le> identifierLength"

definition envelope_ok :: "ConversationEvent \<Rightarrow> bool" where
  "envelope_ok e \<longleftrightarrow> identifier_ok (ev_event_id e) \<and> identifier_ok (ev_conversation_id e) \<and>
     1 \<le> ev_revision e \<and> ev_revision e \<le> MAX_SAFE_INTEGER \<and>
     isConversationTimestamp (ev_occurred_at e) \<and>
     (case ev_mutation_id e of None \<Rightarrow> True | Some m \<Rightarrow> identifier_ok m \<and> ev_source e \<noteq> ImportSource)"

definition actor_may :: "ConversationEventActorType \<Rightarrow> ConversationEventPayload \<Rightarrow> bool" where
  "actor_may a p = (case p of
     ApprovalProposalCreated _ \<Rightarrow> a = ActorSystem
   | ApprovalProposalStatusChanged _ _ c \<Rightarrow>
       a = ActorSystem \<or> (a = ActorUser \<and> change_status c \<in> {Confirmed, Rejected})
   | _ \<Rightarrow> True)"

lemma id_field_ok: "okE (id_field obj k p) \<longleftrightarrow> (\<exists>s. fld obj k = Some (JStr s) \<and> identifier_ok s)"
  by (simp add: id_field_def event_identifier_def stringValue_ok identifier_ok_def)

lemma event_fields:
  assumes "event_json e = JObj obj"
  shows "fld obj ''event_id'' = Some (JStr (ev_event_id e))"
    "fld obj ''conversation_id'' = Some (JStr (ev_conversation_id e))"
    "fld obj ''revision'' = Some (JInt (ev_revision e))"
    "fld obj ''occurred_at'' = Some (JStr (ev_occurred_at e))"
    "fld obj ''actor'' = Some (actor_json (ev_actor e))"
    "fld obj ''source'' = Some (source_json (ev_source e))"
    "fld obj ''mutation_id'' = map_option JStr (ev_mutation_id e)"
    "fld obj ''payload'' = Some (payload_json (ev_payload e))"
  using assms by (auto simp: event_json_def opt_field_def split: option.splits)

lemma source_type_import:
  "sub_field (Some (source_json s)) ''type'' = Some (JText ''import'') \<longleftrightarrow> s = ImportSource"
  by (cases s) (simp_all add: source_json_def sub_field_def)

lemma actor_type_sub:
  "sub_field (Some (actor_json a)) ''type'' = Some (JText (actor_type_text (actor_type a)))"
  by (simp add: actor_json_def sub_field_def)

lemma payload_type_sub:
  "sub_field (Some (payload_json p)) ''type'' = Some (JText (payload_type p))"
  by (simp add: payload_json_def sub_field_def)

lemma approval_actor_ok:
  "okE (validate_approval_actor (Some (JText (actor_type_text a))) (Some (payload_json p))) \<longleftrightarrow> actor_may a p"
proof (cases p)
  case (ApprovalProposalStatusChanged q v c)
  have "sub_field (Some (payload_json p)) ''status'' = Some (JText (proposal_status_text (change_status c)))"
    by (simp add: payload_json_def sub_field_def ApprovalProposalStatusChanged change_fields_def)
  with ApprovalProposalStatusChanged show ?thesis
    unfolding validate_approval_actor_def payload_type_sub
    by (cases a; cases c) (simp_all add: actor_may_def actor_type_text_def change_status_def proposal_status_text_def)
qed (unfold validate_approval_actor_def payload_type_sub,
  simp_all add: actor_may_def actor_type_text_def split: ConversationEventActorType.splits)

lemma parsed_event_facts:
  assumes "parseConversationEvent parse_url R (event_json e) = Inr v"
  shows "v = event_json e \<and> envelope_ok e \<and> actor_may (actor_type (ev_actor e)) (ev_payload e)"
proof -
  obtain obj where obj: "event_json e = JObj obj" by (simp add: event_json_def)
  note flds = event_fields [OF obj]
  let ?P = "js ''$event''"
  from assms obj have v: "v = event_json e"
    and "okE (id_field obj ''event_id'' ?P)" "okE (id_field obj ''conversation_id'' ?P)"
    and "okE (validateRevision (fld obj ''revision'') (dot ?P ''revision''))"
    and "okE (validateTimestamp (fld obj ''occurred_at'') (dot ?P ''occurred_at''))"
    and mut: "has_own obj ''mutation_id'' \<longrightarrow> okE (validate_mutation_id obj)"
    and act: "okE (validate_approval_actor (sub_field (fld obj ''actor'') ''type'') (fld obj ''payload''))"
    unfolding parseConversationEvent_def Let_def event_record_def option.case json.case bindE_simps
    by (auto simp: bindE_Inr_iff okE_unit [symmetric])
  then have "identifier_ok (ev_event_id e)" "identifier_ok (ev_conversation_id e)"
    "1 \<le> ev_revision e \<and> ev_revision e \<le> MAX_SAFE_INTEGER" "isConversationTimestamp (ev_occurred_at e)"
    by (auto simp: id_field_ok flds validateRevision_def safe_integer_field_ok validateTimestamp_ok)
  moreover have "case ev_mutation_id e of None \<Rightarrow> True | Some m \<Rightarrow> identifier_ok m \<and> ev_source e \<noteq> ImportSource"
    using mut by (auto simp: has_own_fld flds validate_mutation_id_def id_field_ok source_type_import
        split: option.splits)
  ultimately show ?thesis
    using v act by (auto simp: flds actor_type_sub approval_actor_ok envelope_ok_def)
qed


text \<open>Events that serve as concrete inputs: a system actor at the runtime, at the epoch.\<close>

definition runtime_event :: "js_string \<Rightarrow> js_string \<Rightarrow> int \<Rightarrow> ConversationEventPayload \<Rightarrow> ConversationEvent" where
  "runtime_event eid cid r p = \<lparr>ev_event_id = eid, ev_conversation_id = cid, ev_revision = r,
     ev_occurred_at = js ''1970-01-01T00:00:00Z'', ev_actor = \<lparr>actor_type = ActorSystem, actor_id = None\<rparr>,
     ev_source = RuntimeSource, ev_mutation_id = None, ev_metadata = None, ev_payload = p\<rparr>"

lemma runtime_event_simps [simp]:
  "ev_event_id (runtime_event i c r p) = i" "ev_conversation_id (runtime_event i c r p) = c"
  "ev_revision (runtime_event i c r p) = r" "ev_payload (runtime_event i c r p) = p"
  "ev_mutation_id (runtime_event i c r p) = None" "ev_source (runtime_event i c r p) = RuntimeSource"
  by (simp_all add: runtime_event_def)

text \<open>The same with a client mutation identity.\<close>

lemma mutation_event_parses:
  assumes "identifier_ok eid" "identifier_ok cid" "1 \<le> r" "r \<le> MAX_SAFE_INTEGER" "\<forall>m. mid = Some m \<longrightarrow> identifier_ok m"
    and payload: "okE (validatePayload parse_url R (Some (payload_json p)) (js ''$event.payload''))"
  shows "parseConversationEvent parse_url R (event_json ((runtime_event eid cid r p)\<lparr>ev_mutation_id := mid\<rparr>)) =
    Inr (event_json ((runtime_event eid cid r p)\<lparr>ev_mutation_id := mid\<rparr>))"
proof -
  let ?e = "(runtime_event eid cid r p)\<lparr>ev_mutation_id := mid\<rparr>" and ?P = "js ''$event''"
  obtain obj where obj: "event_json ?e = JObj obj" by (simp add: event_json_def)
  note flds = event_fields [OF obj, unfolded runtime_event_def, simplified]
  have keys: "js ` set EVENT_REQUIRED_FIELDS \<subseteq> set (keys_of obj)"
      "set (keys_of obj) \<subseteq> insert (js ''mutation_id'') (js ` set EVENT_REQUIRED_FIELDS)"
    and other: "fld obj ''version'' = Some (JInt 1)" "fld obj ''mutation_id'' = map_option JStr mid"
      "fld obj ''metadata'' = None"
    using obj unfolding event_json_def runtime_event_def
    by (cases mid; auto simp: opt_field_def EVENT_REQUIRED_FIELDS_def)+
  have "okE (when_own obj ''mutation_id'' (validate_mutation_id obj))"
    using assms(5) by (cases mid) (auto simp: has_own_fld other flds validate_mutation_id_def id_field_ok source_type_import)
  moreover have "okE (required_keys eerr obj EVENT_REQUIRED_FIELDS ?P)"
    unfolding okE_iff required_keys_Inr_iff has_own_fld [symmetric] has_own_def using keys by auto
  moreover have "okE (allowed_keys eerr obj (EVENT_REQUIRED_FIELDS @ [''mutation_id'', ''metadata'']) ?P)"
    using keys by (auto simp: okE_iff allowed_keys_Inr_iff)
  moreover have "okE (validateTimestamp (fld obj ''occurred_at'') (dot ?P ''occurred_at''))"
    by (simp add: flds validateTimestamp_ok isConversationTimestamp_iff Date_parse_epoch)
  moreover have "okE (validateActor (fld obj ''actor'') (dot ?P ''actor''))"
    unfolding flds actor_json_def
    by (simp add: validateActor_def event_record_def okE_field_checks opt_field_def has_own_fld
        actor_type_text_def CONVERSATION_EVENT_ACTOR_TYPES_def)
  moreover have "okE (validateSource (fld obj ''source'') (dot ?P ''source''))"
    unfolding flds source_json_def
    by (simp add: validateSource_def event_record_def okE_iff check_iffs
        CONVERSATION_EVENT_SOURCE_TYPES_def)
  moreover have "okE (validate_approval_actor (sub_field (fld obj ''actor'') ''type'') (fld obj ''payload''))"
    by (simp add: flds actor_type_sub approval_actor_ok) (simp add: actor_may_def split: ConversationEventPayload.splits)
  moreover have "dot ?P ''payload'' = js ''$event.payload''" by (simp add: dot_def js_def)
  ultimately have "okE (checks
        [required_keys eerr obj EVENT_REQUIRED_FIELDS ?P,
         allowed_keys eerr obj (EVENT_REQUIRED_FIELDS @ [''mutation_id'', ''metadata'']) ?P,
         throw_if (case fld obj ''version'' of Some (JNum n) \<Rightarrow> \<not> num_strict_eq n (Finite 1) | _ \<Rightarrow> True)
           (eerr (dot ?P ''version'') ''must equal 1''),
         id_field obj ''event_id'' ?P,
         id_field obj ''conversation_id'' ?P,
         validateRevision (fld obj ''revision'') (dot ?P ''revision''),
         validateTimestamp (fld obj ''occurred_at'') (dot ?P ''occurred_at''),
         validateActor (fld obj ''actor'') (dot ?P ''actor''),
         validateSource (fld obj ''source'') (dot ?P ''source''),
         when_own obj ''mutation_id'' (validate_mutation_id obj),
         when_own obj ''metadata'' (validateMetadata R (fld obj ''metadata'') (dot ?P ''metadata'')),
         validatePayload parse_url R (fld obj ''payload'') (dot ?P ''payload''),
         validate_approval_actor (sub_field (fld obj ''actor'') ''type'') (fld obj ''payload'')])"
    using assms other
    by (simp add: has_own_fld id_field_ok flds validateRevision_def safe_integer_field_ok num_strict_eq_def)
  then show ?thesis
    unfolding parseConversationEvent_def Let_def obj event_record_def option.case json.case bindE_simps okE_unit
    by simp
qed

lemma runtime_event_parses:
  assumes "identifier_ok eid" "identifier_ok cid" "1 \<le> r" "r \<le> MAX_SAFE_INTEGER"
    and "okE (validatePayload parse_url R (Some (payload_json p)) (js ''$event.payload''))"
  shows "parseConversationEvent parse_url R (event_json (runtime_event eid cid r p)) =
    Inr (event_json (runtime_event eid cid r p))"
  using mutation_event_parses [of eid cid r None parse_url R p] assms by (simp add: runtime_event_def)

lemma cleared_payload_ok: "okE (validatePayload parse_url R (Some (payload_json ConversationCleared)) path)"
  by (simp add: validatePayload_def payload_json_def event_record_def okE_iff check_iffs
      CONVERSATION_EVENT_TYPES_def payload_validator_def)


end
