(* ===== verification/EventStore.thy ===== *)
theory EventStore
  imports EventValidation
begin

text \<open>
  \<^verbatim>\<open>InMemoryConversationEventStore\<close> of \<^verbatim>\<open>src/conversation/event-store.ts\<close>: appending a batch with
  optimistic concurrency and idempotent retries, paged reads behind opaque cursors, and the
  checkpoint slot of a conversation. The three maps of the class are the fields of a record
  and a method returns the next store, so that a thrown error (\<open>Inl\<close>) leaves the old one.
  References to stored entries are compared by value; entries of a store differ in their
  event identity (\<open>store_ok\<close> below), so this agrees with comparing references.
\<close>

section \<open>Stored data\<close>

record StoredConversationEvent =
  se_cursor :: js_string
  se_event :: ConversationEvent

record IndexedEntry =
  ie_conversationId :: js_string
  ie_entry :: StoredConversationEvent

record ConversationEventCheckpoint =
  cp_conversationId :: js_string
  cp_schemaVersion :: "int option"
  cp_revision :: js_number
  cp_state :: json

record InMemoryConversation =
  mc_entries :: "StoredConversationEvent list"
  mc_checkpoint :: "ConversationEventCheckpoint option"

record InMemoryConversationEventStore =
  es_conversations :: "js_string \<rightharpoonup> InMemoryConversation"
  es_eventIds :: "js_string \<rightharpoonup> IndexedEntry"
  es_mutationIds :: "js_string \<rightharpoonup> IndexedEntry"

definition empty_store :: InMemoryConversationEventStore where
  "empty_store = \<lparr>es_conversations = Map.empty, es_eventIds = Map.empty, es_mutationIds = Map.empty\<rparr>"

record AppendConversationEventsInput =
  ai_conversationId :: js_string
  ai_expectedRevision :: "int option"
  ai_events :: "ConversationEvent list"

datatype (plugins only: code size) append_status = Appended | Idempotent

record AppendConversationEventsResult =
  ao_status :: append_status
  ao_entries :: "StoredConversationEvent list"
  ao_latestRevision :: int

datatype (plugins only: code size) ConversationEventReadPosition = AfterCursor js_string | AfterRevision int

record ReadConversationEventsInput =
  ri_conversationId :: js_string
  ri_after :: "ConversationEventReadPosition option"
  ri_limit :: "int option"

record ReadConversationEventsResult =
  ro_entries :: "StoredConversationEvent list"
  ro_nextCursor :: "js_string option"
  ro_latestRevision :: "int option"
  ro_hasMore :: bool

datatype (plugins only: code size) ConversationEventStoreConflictCode =
  revision_conflict | idempotency_conflict | invalid_append | cursor_not_found | checkpoint_conflict

record ConversationEventStoreConflictDetails =
  cd_code :: ConversationEventStoreConflictCode
  cd_conversationId :: js_string
  cd_expectedRevision :: "js_number option"
  cd_actualRevision :: "int option"
  cd_identifier :: "js_string option"

datatype (plugins only: code size) store_error =
    ConversationEventStoreConflictError string ConversationEventStoreConflictDetails
  | InvalidEvent validation_error
  | LimitRangeError
  | URIError

section \<open>Clones\<close>

text \<open>\<^verbatim>\<open>JSON.parse(JSON.stringify(event))\<close>, which turns a negative zero into zero.\<close>

definition clone_number :: "js_number \<Rightarrow> js_number" where
  "clone_number n = (case n of NegZero \<Rightarrow> Finite 0 | _ \<Rightarrow> n)"

definition clone_object :: "js_object \<Rightarrow> js_object" where
  "clone_object fs = map (\<lambda>f. (fst f, cloneJson (snd f))) fs"

definition clone_stored_citation :: "Citation \<Rightarrow> Citation" where
  "clone_stored_citation c = c\<lparr>ct_order := clone_number (ct_order c)\<rparr>"

definition clone_payload :: "ConversationEventPayload \<Rightarrow> ConversationEventPayload" where
  "clone_payload p = (case p of
     CitationRecordsLinked t ss cs \<Rightarrow> CitationRecordsLinked t ss (map clone_stored_citation cs)
   | ToolCallRequested t c n a \<Rightarrow> ToolCallRequested t c n (clone_object a)
   | ApprovalProposalCreated q \<Rightarrow> ApprovalProposalCreated (q\<lparr>pc_reviewed_arguments :=
       (case pc_reviewed_arguments q of RedactedJson v \<Rightarrow> RedactedJson (clone_object v) | r \<Rightarrow> r)\<rparr>)
   | ToolCallResultRecorded t c ps b r \<Rightarrow> ToolCallResultRecorded t c
       (map (\<lambda>x. case x of ToolJsonPart v \<Rightarrow> ToolJsonPart (cloneJson v) | y \<Rightarrow> y) ps) b
       (map_option (\<lambda>s. s\<lparr>rs_citations := map clone_stored_citation (rs_citations s)\<rparr>) r)
   | ConversationMetadataUpdated m \<Rightarrow> ConversationMetadataUpdated (clone_object m)
   | q \<Rightarrow> q)"

definition clone_event :: "ConversationEvent \<Rightarrow> ConversationEvent" where
  "clone_event e = e\<lparr>ev_metadata := map_option clone_object (ev_metadata e), ev_payload := clone_payload (ev_payload e)\<rparr>"

definition clone_entry :: "StoredConversationEvent \<Rightarrow> StoredConversationEvent" where
  "clone_entry x = x\<lparr>se_event := clone_event (se_event x)\<rparr>"

definition cloneEntries :: "StoredConversationEvent list \<Rightarrow> StoredConversationEvent list" where
  "cloneEntries entries = map clone_entry entries"

section \<open>Cursors\<close>

text \<open>
  \<^verbatim>\<open>encodeURIComponent\<close>: unreserved characters stay, every other code point becomes its
  percent-encoded UTF-8 bytes, and a lone surrogate throws \<^verbatim>\<open>URIError\<close>.
\<close>

definition uri_unreserved :: "code_unit \<Rightarrow> bool" where
  "uri_unreserved c \<longleftrightarrow> alnum_i c \<or> one_of ''-_.!~*()'' c \<or> c = 0x27"

definition upper_hex :: "nat \<Rightarrow> char" where
  "upper_hex n = (if n < 10 then char_of (48 + n) else char_of (55 + n))"

definition percent_byte :: "nat \<Rightarrow> js_string" where
  "percent_byte b = js [CHR ''%'', upper_hex (b div 16), upper_hex (b mod 16)]"

fun encodeURIComponent :: "js_string \<Rightarrow> js_string option" where
  "encodeURIComponent [] = Some []"
| "encodeURIComponent (c # cs) =
     (if uri_unreserved c then map_option ((#) c) (encodeURIComponent cs)
      else if high_surrogate c \<and> cs \<noteq> [] \<and> low_surrogate (hd cs)
      then map_option ((@) (concat (map percent_byte (utf8_encode [c, hd cs])))) (encodeURIComponent (tl cs))
      else if high_surrogate c \<or> low_surrogate c then None
      else map_option ((@) (concat (map percent_byte (utf8_encode [c])))) (encodeURIComponent cs))"

definition memoryCursor :: "js_string \<Rightarrow> int \<Rightarrow> store_error + js_string" where
  "memoryCursor conversationId revision = (case encodeURIComponent conversationId of
     None \<Rightarrow> Inl URIError
   | Some c \<Rightarrow> Inr (js ''memory:'' @ c @ js '':'' @ js (int_digits revision)))"

section \<open>Appending\<close>

definition latestRevision :: "InMemoryConversation option \<Rightarrow> int option" where
  "latestRevision conversation = (case conversation of
     None \<Rightarrow> None
   | Some c \<Rightarrow> if mc_entries c = [] then None else Some (ev_revision (se_event (last (mc_entries c)))))"

definition conflict :: "ConversationEventStoreConflictCode \<Rightarrow> AppendConversationEventsInput \<Rightarrow> int option \<Rightarrow> string \<Rightarrow>
    js_string option \<Rightarrow> store_error" where
  "conflict code input actualRevision message identifier =
     ConversationEventStoreConflictError message
       \<lparr>cd_code = code, cd_conversationId = ai_conversationId input,
        cd_expectedRevision = map_option (\<lambda>r. Finite (of_int r)) (ai_expectedRevision input),
        cd_actualRevision = actualRevision, cd_identifier = identifier\<rparr>"

definition idempotencyConflict :: "ConversationEvent \<Rightarrow> js_string option \<Rightarrow> store_error" where
  "idempotencyConflict event identifier =
     ConversationEventStoreConflictError ''An idempotency identifier is already stored for a different fact or mutation.''
       \<lparr>cd_code = idempotency_conflict, cd_conversationId = ev_conversation_id event,
        cd_expectedRevision = None, cd_actualRevision = None, cd_identifier = identifier\<rparr>"

text \<open>The \<^verbatim>\<open>forEach\<close> of \<^verbatim>\<open>validateAppend\<close>, with the two identity sets of the batch.\<close>

fun validate_batch :: "url_parser \<Rightarrow> (rat \<Rightarrow> js_string) \<Rightarrow> AppendConversationEventsInput \<Rightarrow> int option \<Rightarrow>
    int \<Rightarrow> js_string set \<Rightarrow> js_string set \<Rightarrow> ConversationEvent list \<Rightarrow> store_error + unit" where
  "validate_batch parse_url R input current required ids muts [] = Inr ()"
| "validate_batch parse_url R input current required ids muts (e # es) =
     (case parseConversationEvent parse_url R (event_json e) of
        Inl err \<Rightarrow> Inl (InvalidEvent err)
      | Inr _ \<Rightarrow>
          if ev_conversation_id e \<noteq> ai_conversationId input
          then Inl (conflict invalid_append input current
            ''Every event in a batch must belong to the requested conversation.'' (Some (ev_conversation_id e)))
          else if ev_revision e \<noteq> required
          then Inl (conflict invalid_append input current
            (''Expected contiguous event revision '' @ int_digits required @ ''.'') (Some (ev_event_id e)))
          else if ev_event_id e \<in> ids
          then Inl (conflict invalid_append input current
            ''An append batch cannot repeat an event ID.'' (Some (ev_event_id e)))
          else case ev_mutation_id e of
            None \<Rightarrow> validate_batch parse_url R input current (required + 1) (insert (ev_event_id e) ids) muts es
          | Some m \<Rightarrow>
              if m \<in> muts
              then Inl (conflict invalid_append input current
                ''An append batch cannot repeat a client mutation ID.'' (Some m))
              else validate_batch parse_url R input current (required + 1) (insert (ev_event_id e) ids) (insert m muts) es)"

definition validateAppend :: "url_parser \<Rightarrow> (rat \<Rightarrow> js_string) \<Rightarrow> AppendConversationEventsInput \<Rightarrow>
    int option \<Rightarrow> store_error + unit" where
  "validateAppend parse_url R input current =
     (if ai_events input = []
      then Inl (conflict invalid_append input current ''An append batch must contain at least one event.'' None)
      else validate_batch parse_url R input current (coalesce (ai_expectedRevision input) 0 + 1) {} {} (ai_events input))"

definition opt_jsonEqual :: "json option \<Rightarrow> json option \<Rightarrow> bool" where
  "opt_jsonEqual a b = (case (a, b) of (None, None) \<Rightarrow> True | (Some x, Some y) \<Rightarrow> jsonEqual x y | _ \<Rightarrow> False)"

definition sameClientMutation :: "ConversationEvent \<Rightarrow> ConversationEvent \<Rightarrow> bool" where
  "sameClientMutation stored requested \<longleftrightarrow>
     ev_mutation_id stored \<noteq> None \<and> ev_mutation_id requested \<noteq> None \<and>
     ev_mutation_id stored = ev_mutation_id requested \<and>
     ev_conversation_id stored = ev_conversation_id requested \<and>
     jsonEqual (actor_json (ev_actor stored)) (actor_json (ev_actor requested)) \<and>
     jsonEqual (source_json (ev_source stored)) (source_json (ev_source requested)) \<and>
     opt_jsonEqual (map_option JObj (ev_metadata stored)) (map_option JObj (ev_metadata requested)) \<and>
     jsonEqual (payload_json (ev_payload stored)) (payload_json (ev_payload requested))"

definition findIdempotentMatch :: "InMemoryConversationEventStore \<Rightarrow> ConversationEvent \<Rightarrow> store_error + IndexedEntry option" where
  "findIdempotentMatch store event =
     (let eventMatch = es_eventIds store (ev_event_id event);
          mutationMatch = (case ev_mutation_id event of None \<Rightarrow> None | Some m \<Rightarrow> es_mutationIds store m)
      in if (case (eventMatch, mutationMatch) of (Some a, Some b) \<Rightarrow> ie_entry a \<noteq> ie_entry b | _ \<Rightarrow> False)
         then Inl (idempotencyConflict event (Some (ev_event_id event)))
         else if (case eventMatch of None \<Rightarrow> False
                  | Some a \<Rightarrow> \<not> jsonEqual (event_json (se_event (ie_entry a))) (event_json event))
         then Inl (idempotencyConflict event (Some (ev_event_id event)))
         else if (case mutationMatch of None \<Rightarrow> False
                  | Some b \<Rightarrow> \<not> sameClientMutation (se_event (ie_entry b)) event)
         then Inl (idempotencyConflict event (ev_mutation_id event))
         else Inr (case eventMatch of Some a \<Rightarrow> Some a | None \<Rightarrow> mutationMatch))"

fun validateCompleteRetry :: "AppendConversationEventsInput \<Rightarrow> int option \<Rightarrow> int \<Rightarrow>
    (IndexedEntry \<times> ConversationEvent) list \<Rightarrow> store_error + unit" where
  "validateCompleteRetry input current required [] = Inr ()"
| "validateCompleteRetry input current required ((match, e) # rest) =
     (if ie_conversationId match \<noteq> ai_conversationId input \<or> ev_revision (se_event (ie_entry match)) \<noteq> required
      then Inl (conflict idempotency_conflict input current
        ''The identifiers do not describe one previously stored atomic batch.'' (Some (ev_event_id e)))
      else validateCompleteRetry input current (required + 1) rest)"

definition store_event :: "js_string \<Rightarrow> ConversationEvent \<Rightarrow> store_error + StoredConversationEvent" where
  "store_event conversationId event =
     (let storedEvent = clone_event event in
      bindE (memoryCursor conversationId (ev_revision storedEvent)) (\<lambda>cursor.
      Inr \<lparr>se_cursor = cursor, se_event = storedEvent\<rparr>))"

text \<open>One iteration of the loop that files a stored entry under its identities.\<close>

definition index_entry :: "js_string \<Rightarrow> StoredConversationEvent \<Rightarrow> InMemoryConversationEventStore \<Rightarrow> InMemoryConversationEventStore" where
  "index_entry conversationId entry store =
     (let indexed = \<lparr>ie_conversationId = conversationId, ie_entry = entry\<rparr>;
          conversation = (case es_conversations store conversationId of
            None \<Rightarrow> \<lparr>mc_entries = [], mc_checkpoint = None\<rparr> | Some c \<Rightarrow> c)
      in store\<lparr>es_conversations := (es_conversations store)(conversationId \<mapsto>
                 conversation\<lparr>mc_entries := mc_entries conversation @ [entry]\<rparr>),
               es_eventIds := (es_eventIds store)(ev_event_id (se_event entry) \<mapsto> indexed),
               es_mutationIds := (case ev_mutation_id (se_event entry) of
                 None \<Rightarrow> es_mutationIds store
               | Some m \<Rightarrow> (es_mutationIds store)(m \<mapsto> indexed))\<rparr>)"

definition appendResult :: "append_status \<Rightarrow> StoredConversationEvent list \<Rightarrow> int \<Rightarrow> AppendConversationEventsResult" where
  "appendResult status entries latest =
     \<lparr>ao_status = status, ao_entries = cloneEntries entries, ao_latestRevision = latest\<rparr>"

definition append_events :: "url_parser \<Rightarrow> (rat \<Rightarrow> js_string) \<Rightarrow> InMemoryConversationEventStore \<Rightarrow>
    AppendConversationEventsInput \<Rightarrow> store_error + AppendConversationEventsResult \<times> InMemoryConversationEventStore" where
  "append_events parse_url R store input =
     (let cid = ai_conversationId input;
          currentRevision = latestRevision (es_conversations store cid)
      in bindE (validateAppend parse_url R input currentRevision) (\<lambda>_.
         bindE (mapE (findIdempotentMatch store) (ai_events input)) (\<lambda>matches.
         let matched = List.map_filter id matches in
         if 0 < length matched
         then if length matched \<noteq> length (ai_events input)
              then Inl (conflict idempotency_conflict input currentRevision
                ''Only part of the atomic batch is already stored.'' None)
              else bindE (validateCompleteRetry input currentRevision (coalesce (ai_expectedRevision input) 0 + 1)
                     (zip matched (ai_events input))) (\<lambda>_.
                   Inr (appendResult Idempotent (map ie_entry matched) (coalesce currentRevision 0), store))
         else if ai_expectedRevision input \<noteq> currentRevision
         then Inl (conflict revision_conflict input currentRevision
           ''The expected revision does not match the latest stored revision.'' None)
         else bindE (mapE (store_event cid) (ai_events input)) (\<lambda>storedEntries.
              Inr (appendResult Appended storedEntries (ev_revision (se_event (last storedEntries))),
                   fold (index_entry cid) storedEntries store)))))"

section \<open>Reading\<close>

definition start_index :: "InMemoryConversationEventStore \<Rightarrow> ReadConversationEventsInput \<Rightarrow>
    StoredConversationEvent list \<Rightarrow> store_error + nat" where
  "start_index store input allEntries = (case ri_after input of
     None \<Rightarrow> Inr 0
   | Some (AfterCursor cursor) \<Rightarrow>
       (case findIndex (\<lambda>entry. se_cursor entry = cursor) allEntries of
          None \<Rightarrow> Inl (ConversationEventStoreConflictError
            ''The cursor was not issued for this conversation or is no longer available.''
            \<lparr>cd_code = cursor_not_found, cd_conversationId = ri_conversationId input,
             cd_expectedRevision = None,
             cd_actualRevision = latestRevision (es_conversations store (ri_conversationId input)),
             cd_identifier = Some cursor\<rparr>)
        | Some i \<Rightarrow> Inr (i + 1))
   | Some (AfterRevision revision) \<Rightarrow>
       (case findIndex (\<lambda>entry. revision < ev_revision (se_event entry)) allEntries of
          None \<Rightarrow> Inr (length allEntries)
        | Some i \<Rightarrow> Inr i))"

definition all_entries :: "InMemoryConversationEventStore \<Rightarrow> js_string \<Rightarrow> StoredConversationEvent list" where
  "all_entries store cid = (case es_conversations store cid of None \<Rightarrow> [] | Some c \<Rightarrow> mc_entries c)"

definition read_events :: "InMemoryConversationEventStore \<Rightarrow> ReadConversationEventsInput \<Rightarrow>
    store_error + ReadConversationEventsResult" where
  "read_events store input =
     (if (case ri_limit input of None \<Rightarrow> False | Some l \<Rightarrow> l \<le> 0 \<or> MAX_SAFE_INTEGER < l)
      then Inl LimitRangeError
      else let allEntries = all_entries store (ri_conversationId input) in
        bindE (start_index store input allEntries) (\<lambda>startIndex.
        let remaining = drop startIndex allEntries;
            selected = (case ri_limit input of None \<Rightarrow> remaining | Some l \<Rightarrow> take (nat l) remaining);
            entries = cloneEntries selected
        in Inr \<lparr>ro_entries = entries,
                ro_nextCursor = (if entries = [] then None else Some (se_cursor (last entries))),
                ro_latestRevision = latestRevision (es_conversations store (ri_conversationId input)),
                ro_hasMore = length selected < length remaining\<rparr>))"

definition getLatestRevision :: "InMemoryConversationEventStore \<Rightarrow> js_string \<Rightarrow> int option" where
  "getLatestRevision store cid = latestRevision (es_conversations store cid)"

section \<open>Checkpoints\<close>

definition clone_checkpoint :: "ConversationEventCheckpoint \<Rightarrow> ConversationEventCheckpoint" where
  "clone_checkpoint c = c\<lparr>cp_revision := clone_number (cp_revision c), cp_state := cloneJson (cp_state c)\<rparr>"

definition readCheckpoint :: "InMemoryConversationEventStore \<Rightarrow> js_string \<Rightarrow> ConversationEventCheckpoint option" where
  "readCheckpoint store cid = (case es_conversations store cid of
     None \<Rightarrow> None | Some c \<Rightarrow> map_option clone_checkpoint (mc_checkpoint c))"

definition checkpointConflict :: "ConversationEventCheckpoint \<Rightarrow> int option \<Rightarrow> string \<Rightarrow> store_error" where
  "checkpointConflict checkpoint actual message =
     ConversationEventStoreConflictError message
       \<lparr>cd_code = checkpoint_conflict, cd_conversationId = cp_conversationId checkpoint,
        cd_expectedRevision = Some (cp_revision checkpoint), cd_actualRevision = actual, cd_identifier = None\<rparr>"

datatype (plugins only: code size) checkpoint_status = Written | CheckpointIdempotent

definition put_checkpoint :: "InMemoryConversationEventStore \<Rightarrow> InMemoryConversation \<Rightarrow> ConversationEventCheckpoint \<Rightarrow>
    (checkpoint_status \<times> ConversationEventCheckpoint) \<times> InMemoryConversationEventStore" where
  "put_checkpoint store conversation checkpoint =
     (let stored = clone_checkpoint checkpoint in
      ((Written, clone_checkpoint stored), store\<lparr>es_conversations := (es_conversations store)
         (cp_conversationId checkpoint \<mapsto> conversation\<lparr>mc_checkpoint := Some stored\<rparr>)\<rparr>))"

text \<open>A revision that is a safe integer in \<open>1..actual\<close>; every other one is refused.\<close>

definition checkpoint_revision :: "js_number \<Rightarrow> int option \<Rightarrow> int option" where
  "checkpoint_revision revision actual = (case (safe_int revision, actual) of
     (Some r, Some a) \<Rightarrow> if r < 1 \<or> a < r then None else Some r
   | _ \<Rightarrow> None)"

definition writeCheckpoint :: "InMemoryConversationEventStore \<Rightarrow> ConversationEventCheckpoint \<Rightarrow>
    store_error + (checkpoint_status \<times> ConversationEventCheckpoint) \<times> InMemoryConversationEventStore" where
  "writeCheckpoint store checkpoint =
     (let actual = latestRevision (es_conversations store (cp_conversationId checkpoint)) in
      case (es_conversations store (cp_conversationId checkpoint), checkpoint_revision (cp_revision checkpoint) actual) of
        (Some conversation, Some revision) \<Rightarrow>
          (case mc_checkpoint conversation of
             None \<Rightarrow> Inr (put_checkpoint store conversation checkpoint)
           | Some current \<Rightarrow>
               (let currentRevision = coalesce (safe_int (cp_revision current)) 0 in
                if revision < currentRevision
                then Inl (checkpointConflict checkpoint (Some currentRevision) ''A checkpoint cannot replace a newer checkpoint.'')
                else if revision = currentRevision \<and> \<not> jsonEqual (cp_state checkpoint) (cp_state current)
                then Inl (checkpointConflict checkpoint (Some currentRevision)
                  ''A checkpoint revision cannot be reused with different state.'')
                else if revision = currentRevision \<and> cp_schemaVersion checkpoint = cp_schemaVersion current
                then Inr ((CheckpointIdempotent, clone_checkpoint current), store)
                else Inr (put_checkpoint store conversation checkpoint)))
      | _ \<Rightarrow> Inl (checkpointConflict checkpoint actual ''A checkpoint must reference an existing conversation revision.''))"

end
