(* ===== verification/EventLog.thy ===== *)
theory EventLog
  imports EventStore
begin

text \<open>
  The contract of \<^verbatim>\<open>ConversationEventStore.read\<close> (\<^verbatim>\<open>src/conversation/event-store.ts\<close>) as its clients
  use it: a conversation has a log; a read from the start, after a cursor that the store
  issued, or after a revision returns a page of the log, which is non-empty while something
  remains, together with the cursor of its last entry and whether more remains. A store may
  return less than the requested limit.
\<close>

definition page_of :: "StoredConversationEvent list \<Rightarrow> nat \<Rightarrow> ReadConversationEventsResult \<Rightarrow> bool" where
  "page_of entries start page \<longleftrightarrow> (\<exists>n.
     ro_entries page = take n (drop start entries) \<and>
     (drop start entries \<noteq> [] \<longrightarrow> 0 < n) \<and>
     (ro_hasMore page \<longleftrightarrow> start + n < length entries) \<and>
     ro_nextCursor page = (if ro_entries page = [] then None else Some (se_cursor (last (ro_entries page)))) \<and>
     ro_latestRevision page = (if entries = [] then None else Some (ev_revision (se_event (last entries)))))"

text \<open>The position in the log that a read request names.\<close>

definition position_of :: "StoredConversationEvent list \<Rightarrow> ConversationEventReadPosition option \<Rightarrow> nat \<Rightarrow> bool" where
  "position_of entries after k \<longleftrightarrow> k \<le> length entries \<and> (case after of
     None \<Rightarrow> k = 0
   | Some (AfterCursor c) \<Rightarrow> 0 < k \<and> c = se_cursor (entries ! (k - 1))
   | Some (AfterRevision r) \<Rightarrow> r = int k)"

definition limit_ok :: "int option \<Rightarrow> bool" where
  "limit_ok limit \<longleftrightarrow> (case limit of None \<Rightarrow> True | Some l \<Rightarrow> 0 < l \<and> l \<le> MAX_SAFE_INTEGER)"

locale event_log =
  fixes inv :: "'s \<Rightarrow> bool"
    and log_of :: "'s \<Rightarrow> js_string \<Rightarrow> StoredConversationEvent list"
    and read :: "'s \<Rightarrow> ReadConversationEventsInput \<Rightarrow> 'e + ReadConversationEventsResult"
  assumes log_conversation: "inv s \<Longrightarrow> x \<in> set (log_of s cid) \<Longrightarrow> ev_conversation_id (se_event x) = cid"
    and log_revisions: "inv s \<Longrightarrow> i < length (log_of s cid) \<Longrightarrow> ev_revision (se_event (log_of s cid ! i)) = int i + 1"
    and log_cursors: "inv s \<Longrightarrow> distinct (map se_cursor (log_of s cid))"
    and log_events: "inv s \<Longrightarrow> distinct (map (\<lambda>x. ev_event_id (se_event x)) (log_of s cid))"
    and log_mutations: "inv s \<Longrightarrow> distinct (List.map_filter (\<lambda>x. ev_mutation_id (se_event x)) (log_of s cid))"
    and read_page: "inv s \<Longrightarrow> position_of (log_of s cid) after k \<Longrightarrow> limit_ok limit \<Longrightarrow>
      \<exists>page. read s \<lparr>ri_conversationId = cid, ri_after = after, ri_limit = limit\<rparr> = Inr page \<and>
        page_of (log_of s cid) k page"
begin

text \<open>A page that ends before the end of the log is followed by a read after its cursor.\<close>

lemma page_end:
  assumes page: "page_of (log_of s cid) k page" and more: "ro_hasMore page"
  shows "\<exists>n. 0 < n \<and> k + n < length (log_of s cid) \<and> ro_entries page = take n (drop k (log_of s cid)) \<and>
    ro_nextCursor page = Some (se_cursor (log_of s cid ! (k + n - 1))) \<and>
    position_of (log_of s cid) (map_option AfterCursor (ro_nextCursor page)) (k + n)"
proof -
  let ?log = "log_of s cid"
  from page more obtain n where n: "ro_entries page = take n (drop k ?log)" "k + n < length ?log" "0 < n"
    "ro_nextCursor page = (if ro_entries page = [] then None else Some (se_cursor (last (ro_entries page))))"
    by (auto simp: page_of_def)
  then have ne: "ro_entries page \<noteq> []" "length (ro_entries page) = n" by auto
  then have "last (ro_entries page) = ro_entries page ! (n - 1)" by (simp add: last_conv_nth)
  also have "\<dots> = ?log ! (k + n - 1)" using n ne by (simp add: add_diff_assoc)
  finally have "ro_nextCursor page = Some (se_cursor (?log ! (k + n - 1)))" using n(4) ne(1) by simp
  with n show ?thesis by (auto simp: position_of_def)
qed

lemma cursor_position:
  "inv s \<Longrightarrow> i < length (log_of s cid) \<Longrightarrow> j < length (log_of s cid) \<Longrightarrow>
   se_cursor (log_of s cid ! i) = se_cursor (log_of s cid ! j) \<longleftrightarrow> i = j"
  using log_cursors [of s cid] by (auto simp: distinct_conv_nth)

lemma page_rest:
  assumes "page_of (log_of s cid) k page" "\<not> ro_hasMore page"
  shows "ro_entries page = drop k (log_of s cid)"
  using assms by (auto simp: page_of_def not_less)

end

end
