(* ===== verification/EventStoreProperties.thy ===== *)
theory EventStoreProperties
  imports EventLog
begin

text \<open>
  What the event store promises: the invariant \<open>store_ok\<close> of the in-memory adapter, that every
  operation keeps it, and the contract \<open>conversation_event_store\<close> that the clients of the
  interface rely on, interpreted on the adapter.
\<close>

section \<open>Clones and cursors\<close>

lemma clone_number_idem [simp]: "clone_number (clone_number n) = clone_number n"
  by (simp add: clone_number_def split: js_number.split)

lemma clone_object_idem [simp]: "clone_object (clone_object fs) = clone_object fs"
  by (simp add: clone_object_def cloneJson_idem)

lemma clone_payload_idem: "clone_payload (clone_payload p) = clone_payload p"
  by (cases p) (auto simp: clone_payload_def clone_stored_citation_def cloneJson_idem option.map_comp comp_def
      intro!: map_option_cong split: ConversationApprovalReviewedArguments.splits ConversationToolResultContentPart.splits)

lemma clone_event_idem [simp]: "clone_event (clone_event e) = clone_event e"
  by (simp add: clone_event_def clone_payload_idem option.map_comp comp_def)

lemma clone_event_simps [simp]:
  "ev_event_id (clone_event e) = ev_event_id e" "ev_conversation_id (clone_event e) = ev_conversation_id e"
  "ev_revision (clone_event e) = ev_revision e" "ev_mutation_id (clone_event e) = ev_mutation_id e"
  "ev_actor (clone_event e) = ev_actor e" "ev_source (clone_event e) = ev_source e"
  "ev_occurred_at (clone_event e) = ev_occurred_at e"
  by (simp_all add: clone_event_def)

text \<open>Decimal renderings of different revisions differ, so cursors of one conversation do.\<close>

lemma digit_chars: "d < 10 \<Longrightarrow> (of_char (char_of (48 + d) :: char) :: nat) = 48 + d"
  by (simp add: of_char_of)

fun value_of_digits :: "string \<Rightarrow> nat" where
  "value_of_digits s = foldl (\<lambda>n c. 10 * n + (of_char c - 48)) 0 s"

lemma value_of_nat_digits: "value_of_digits (nat_digits n) = n"
proof (induction n rule: nat_digits.induct)
  case (1 n)
  then show ?case
    by (subst nat_digits.simps) (simp add: digit_chars)
qed

lemma nat_digits_inj: "nat_digits m = nat_digits n \<Longrightarrow> m = n"
  using value_of_nat_digits by metis

lemma nat_digits_not_minus: "\<exists>c cs. nat_digits n = c # cs \<and> c \<noteq> CHR ''-''"
proof (induction n rule: nat_digits.induct)
  case (1 n)
  show ?case
  proof (cases "n < 10")
    case True
    have "(of_char (char_of (48 + n) :: char) :: nat) \<noteq> of_char CHR ''-''" using True by (simp add: digit_chars)
    then have "char_of (48 + n) \<noteq> CHR ''-''" by metis
    with True show ?thesis by (subst nat_digits.simps) simp
  next
    case False
    with 1 show ?thesis by (subst nat_digits.simps) auto
  qed
qed

lemma memoryCursor_inj:
  assumes "memoryCursor cid r = Inr c" "memoryCursor cid r' = Inr c" "0 \<le> r" "0 \<le> r'"
  shows "r = r'"
proof -
  from assms(1,2) have "int_digits r = int_digits r'"
    by (auto simp: memoryCursor_def split: option.splits)
  with assms(3,4) show ?thesis by (auto simp: int_digits_def dest: nat_digits_inj)
qed

section \<open>The invariant\<close>

text \<open>
  The entries of a conversation carry the revisions \<open>1, 2, \<dots>\<close>, belong to it, have the cursors
  that identify these revisions and are already clones.
\<close>

definition entry_ok :: "js_string \<Rightarrow> nat \<Rightarrow> StoredConversationEvent \<Rightarrow> bool" where
  "entry_ok cid i x \<longleftrightarrow> ev_revision (se_event x) = int i + 1 \<and> ev_conversation_id (se_event x) = cid \<and>
     memoryCursor cid (int i + 1) = Inr (se_cursor x) \<and> clone_entry x = x"

definition entries_ok :: "js_string \<Rightarrow> StoredConversationEvent list \<Rightarrow> bool" where
  "entries_ok cid xs \<longleftrightarrow> (\<forall>i < length xs. entry_ok cid i (xs ! i))"

text \<open>The two identity maps hold exactly the stored entries.\<close>

definition index_ok :: "(ConversationEvent \<Rightarrow> js_string option) \<Rightarrow> (js_string \<rightharpoonup> IndexedEntry) \<Rightarrow>
    InMemoryConversationEventStore \<Rightarrow> bool" where
  "index_ok key index store \<longleftrightarrow>
     (\<forall>cid. \<forall>x \<in> set (all_entries store cid). \<forall>k. key (se_event x) = Some k \<longrightarrow>
        index k = Some \<lparr>ie_conversationId = cid, ie_entry = x\<rparr>) \<and>
     (\<forall>k ix. index k = Some ix \<longrightarrow> ie_entry ix \<in> set (all_entries store (ie_conversationId ix)) \<and>
        key (se_event (ie_entry ix)) = Some k)"

definition store_ok :: "InMemoryConversationEventStore \<Rightarrow> bool" where
  "store_ok store \<longleftrightarrow> (\<forall>cid. entries_ok cid (all_entries store cid)) \<and>
     (\<forall>cid c. es_conversations store cid = Some c \<longrightarrow> mc_entries c \<noteq> []) \<and>
     index_ok (\<lambda>e. Some (ev_event_id e)) (es_eventIds store) store \<and>
     index_ok ev_mutation_id (es_mutationIds store) store"

lemma empty_store_ok: "store_ok empty_store"
  by (simp add: store_ok_def entries_ok_def index_ok_def all_entries_def empty_store_def)

lemma latestRevision_length:
  assumes "store_ok store"
  shows "latestRevision (es_conversations store cid) =
    (if all_entries store cid = [] then None else Some (int (length (all_entries store cid))))"
proof (cases "all_entries store cid = []")
  case False
  then have "entry_ok cid (length (all_entries store cid) - 1) (last (all_entries store cid))"
    using assms by (simp add: store_ok_def entries_ok_def last_conv_nth)
  with False show ?thesis
    by (auto simp: latestRevision_def all_entries_def entry_ok_def Suc_leI of_nat_diff split: option.splits)
qed (auto simp: latestRevision_def all_entries_def split: option.splits)

section \<open>Appending\<close>

lemma all_entries_index [simp]:
  "all_entries (index_entry cid x store) = (all_entries store)(cid := all_entries store cid @ [x])"
  by (rule ext) (auto simp: all_entries_def index_entry_def Let_def split: option.splits)

lemma index_entry_ids [simp]:
  "es_eventIds (index_entry cid x store) =
     (es_eventIds store)(ev_event_id (se_event x) \<mapsto> \<lparr>ie_conversationId = cid, ie_entry = x\<rparr>)"
  "es_mutationIds (index_entry cid x store) = (case ev_mutation_id (se_event x) of
     None \<Rightarrow> es_mutationIds store
   | Some m \<Rightarrow> (es_mutationIds store)(m \<mapsto> \<lparr>ie_conversationId = cid, ie_entry = x\<rparr>))"
  by (simp_all add: index_entry_def Let_def)

lemma index_ok_add:
  assumes ok: "index_ok key index store"
    and fresh: "\<And>k. key (se_event x) = Some k \<Longrightarrow> index k = None"
    and index': "index' = (case key (se_event x) of None \<Rightarrow> index | Some k \<Rightarrow> index(k \<mapsto> \<lparr>ie_conversationId = cid, ie_entry = x\<rparr>))"
    and entries': "all_entries store' = (all_entries store)(cid := all_entries store cid @ [x])"
  shows "index_ok key index' store'"
  unfolding index_ok_def
proof (intro conjI allI ballI impI)
  fix d y k assume y: "y \<in> set (all_entries store' d)" and k: "key (se_event y) = Some k"
  show "index' k = Some \<lparr>ie_conversationId = d, ie_entry = y\<rparr>"
  proof (cases "y \<in> set (all_entries store d)")
    case True
    with ok k have "index k = Some \<lparr>ie_conversationId = d, ie_entry = y\<rparr>" by (simp add: index_ok_def)
    with fresh index' show ?thesis by (auto split: option.splits)
  next
    case False
    with y entries' have "d = cid" "y = x" by (auto split: if_splits)
    with k index' show ?thesis by simp
  qed
next
  fix k ix assume ix: "index' k = Some ix"
  have "ie_entry ix \<in> set (all_entries store' (ie_conversationId ix)) \<and> key (se_event (ie_entry ix)) = Some k"
  proof (cases "key (se_event x) = Some k")
    case True
    with ix index' entries' show ?thesis by auto
  next
    case False
    with ix index' have "index k = Some ix" by (auto split: option.splits if_splits)
    with ok have "ie_entry ix \<in> set (all_entries store (ie_conversationId ix)) \<and> key (se_event (ie_entry ix)) = Some k"
      by (simp add: index_ok_def)
    with entries' show ?thesis by auto
  qed
  then show "ie_entry ix \<in> set (all_entries store' (ie_conversationId ix))" "key (se_event (ie_entry ix)) = Some k"
    by simp_all
qed

text \<open>An event that neither identity map knows, for the next position of its conversation.\<close>

definition fresh_in :: "InMemoryConversationEventStore \<Rightarrow> ConversationEvent \<Rightarrow> bool" where
  "fresh_in store e \<longleftrightarrow> es_eventIds store (ev_event_id e) = None \<and>
     (\<forall>m. ev_mutation_id e = Some m \<longrightarrow> es_mutationIds store m = None)"

lemma index_entry_ok:
  assumes ok: "store_ok store" and x: "entry_ok cid (length (all_entries store cid)) x"
    and fresh: "fresh_in store (se_event x)"
  shows "store_ok (index_entry cid x store)"
proof -
  have "entries_ok d (all_entries (index_entry cid x store) d)" for d
    using ok x by (auto simp: store_ok_def entries_ok_def nth_append less_Suc_eq)
  moreover have "mc_entries c \<noteq> []" if "es_conversations (index_entry cid x store) d = Some c" for d c
    using that ok by (auto simp: index_entry_def Let_def store_ok_def split: if_splits)
  moreover have "index_ok (\<lambda>e. Some (ev_event_id e)) (es_eventIds (index_entry cid x store)) (index_entry cid x store)"
  proof (rule index_ok_add)
    show "index_ok (\<lambda>e. Some (ev_event_id e)) (es_eventIds store) store" using ok by (simp add: store_ok_def)
    show "es_eventIds store k = None" if "Some (ev_event_id (se_event x)) = Some k" for k
      using fresh that by (simp add: fresh_in_def)
  qed simp_all
  moreover have "index_ok ev_mutation_id (es_mutationIds (index_entry cid x store)) (index_entry cid x store)"
  proof (rule index_ok_add)
    show "index_ok ev_mutation_id (es_mutationIds store) store" using ok by (simp add: store_ok_def)
    show "es_mutationIds store k = None" if "ev_mutation_id (se_event x) = Some k" for k
      using fresh that by (simp add: fresh_in_def)
  qed simp_all
  ultimately show ?thesis by (simp add: store_ok_def)
qed

lemma validate_batch_Inr:
  assumes "validate_batch parse_url R input cur req ids muts es = Inr u"
  shows "(\<forall>i < length es. ev_revision (es ! i) = req + int i \<and> ev_conversation_id (es ! i) = ai_conversationId input) \<and>
    distinct (map ev_event_id es) \<and> ids \<inter> ev_event_id ` set es = {} \<and>
    distinct (List.map_filter ev_mutation_id es) \<and> muts \<inter> set (List.map_filter ev_mutation_id es) = {} \<and>
    (\<forall>e \<in> set es. okE (parseConversationEvent parse_url R (event_json e)))"
  using assms
proof (induction es arbitrary: req ids muts)
  case (Cons e es)
  let ?muts = "case ev_mutation_id e of None \<Rightarrow> muts | Some m \<Rightarrow> insert m muts"
  from Cons.prems have e: "ev_conversation_id e = ai_conversationId input" "ev_revision e = req"
    "ev_event_id e \<notin> ids" "\<forall>m. ev_mutation_id e = Some m \<longrightarrow> m \<notin> muts"
    "okE (parseConversationEvent parse_url R (event_json e))"
    and rest: "validate_batch parse_url R input cur (req + 1) (insert (ev_event_id e) ids) ?muts es = Inr u"
    by (auto split: sum.splits if_splits option.splits)
  from Cons.IH [OF rest] have IH: "\<forall>i < length es. ev_revision (es ! i) = (req + 1) + int i \<and>
        ev_conversation_id (es ! i) = ai_conversationId input"
    "distinct (map ev_event_id es)" "insert (ev_event_id e) ids \<inter> ev_event_id ` set es = {}"
    "distinct (List.map_filter ev_mutation_id es)" "?muts \<inter> set (List.map_filter ev_mutation_id es) = {}"
    "\<forall>e \<in> set es. okE (parseConversationEvent parse_url R (event_json e))" by blast+
  have "ev_revision ((e # es) ! i) = req + int i \<and> ev_conversation_id ((e # es) ! i) = ai_conversationId input"
    if "i < length (e # es)" for i
    using that e IH(1) by (cases i) auto
  moreover have "distinct (List.map_filter ev_mutation_id (e # es)) \<and>
      muts \<inter> set (List.map_filter ev_mutation_id (e # es)) = {}"
    using IH(4,5) e(4) by (auto simp: map_filter_simps split: option.splits)
  ultimately show ?case using IH e by auto
qed (simp add: map_filter_simps)

lemma findIdempotentMatch_None: "findIdempotentMatch store e = Inr None \<Longrightarrow> fresh_in store e"
  by (auto simp: findIdempotentMatch_def fresh_in_def Let_def split: if_splits option.splits)

lemma mapE_all_None:
  assumes "mapE f es = Inr ms" "length (List.map_filter id ms) = 0" "e \<in> set es"
  shows "f e = Inr None"
  using assms
proof (induction es arbitrary: ms)
  case (Cons x xs)
  then obtain y ys where "f x = Inr y" "mapE f xs = Inr ys" "ms = y # ys" by (auto simp: bindE_Inr_iff)
  with Cons show ?case by (auto simp: map_filter_simps split: option.splits)
qed simp

lemma mapE_nth: "mapE f xs = Inr ys \<Longrightarrow> i < length xs \<Longrightarrow> f (xs ! i) = Inr (ys ! i)"
  by (auto simp: mapE_Inr_iff dest: list_all2_nthD)

lemma store_event_Inr:
  assumes "store_event cid e = Inr x"
  shows "memoryCursor cid (ev_revision e) = Inr (se_cursor x)" "se_event x = clone_event e" "clone_entry x = x"
  using assms by (auto simp: store_event_def bindE_Inr_iff Let_def clone_entry_def)

lemma map_filter_map_same:
  "map g xs = map h ys \<Longrightarrow> List.map_filter g xs = List.map_filter h ys"
proof (induction xs arbitrary: ys)
  case (Cons x xs)
  then obtain y zs where "ys = y # zs" "g x = h y" "map g xs = map h zs" by auto
  with Cons.IH show ?case by (simp add: map_filter_simps split: option.split)
qed (simp add: map_filter_simps)

lemma index_batch_ok:
  assumes "store_ok store" "\<forall>i < length xs. entry_ok cid (length (all_entries store cid) + i) (xs ! i)"
    "\<forall>x \<in> set xs. fresh_in store (se_event x)" "distinct (map (\<lambda>x. ev_event_id (se_event x)) xs)"
    "distinct (List.map_filter (\<lambda>x. ev_mutation_id (se_event x)) xs)"
  shows "store_ok (fold (index_entry cid) xs store) \<and>
    all_entries (fold (index_entry cid) xs store) = (all_entries store)(cid := all_entries store cid @ xs)"
  using assms
proof (induction xs arbitrary: store)
  case (Cons x xs)
  let ?store = "index_entry cid x store"
  have x: "entry_ok cid (length (all_entries store cid)) x" using Cons.prems(2) by (auto dest: spec [of _ 0])
  have ok: "store_ok ?store"
    using Cons.prems by (intro index_entry_ok x) simp_all
  have "entry_ok cid (length (all_entries ?store cid) + i) (xs ! i)" if "i < length xs" for i
    using Cons.prems(2) that by (auto dest: spec [of _ "Suc i"])
  moreover have "fresh_in ?store (se_event y)" if y: "y \<in> set xs" for y
  proof -
    have "ev_event_id (se_event y) \<in> (\<lambda>x. ev_event_id (se_event x)) ` set xs" using y by (rule imageI)
    with Cons.prems(4) have ids: "ev_event_id (se_event y) \<noteq> ev_event_id (se_event x)" by auto
    have muts: "m \<noteq> n" if "ev_mutation_id (se_event x) = Some n" "ev_mutation_id (se_event y) = Some m" for m n
    proof -
      have "m \<in> set (List.map_filter (\<lambda>x. ev_mutation_id (se_event x)) xs)"
        using y that(2) by (force simp: List.map_filter_def)
      with Cons.prems(5) that(1) show ?thesis by (auto simp: map_filter_simps)
    qed
    have "fresh_in store (se_event y)" using Cons.prems(3) y by simp
    with ids muts show ?thesis by (auto simp: fresh_in_def split: option.splits)
  qed
  moreover have "distinct (List.map_filter (\<lambda>x. ev_mutation_id (se_event x)) xs)"
    using Cons.prems(5) by (simp add: map_filter_simps split: option.splits)
  ultimately have "store_ok (fold (index_entry cid) xs ?store) \<and>
      all_entries (fold (index_entry cid) xs ?store) = (all_entries ?store)(cid := all_entries ?store cid @ xs)"
    using ok Cons.prems(4) by (intro Cons.IH) simp_all
  then show ?case by simp
qed simp

text \<open>What an append that returns has done: confirmed a stored batch, or stored a new one.\<close>

lemma append_cases:
  assumes "append_events parse_url R store input = Inr (res, store')"
  obtains (retry) ms where "ao_status res = Idempotent" "store' = store"
    "mapE (findIdempotentMatch store) (ai_events input) = Inr (map Some ms)" "ao_entries res = cloneEntries (map ie_entry ms)"
    "validateCompleteRetry input (latestRevision (es_conversations store (ai_conversationId input)))
       (coalesce (ai_expectedRevision input) 0 + 1) (zip ms (ai_events input)) = Inr ()"
  | (new) xs where "ao_status res = Appended" "store' = fold (index_entry (ai_conversationId input)) xs store"
    "mapE (store_event (ai_conversationId input)) (ai_events input) = Inr xs" "ao_entries res = cloneEntries xs"
    "ai_expectedRevision input = latestRevision (es_conversations store (ai_conversationId input))"
    "\<forall>e \<in> set (ai_events input). fresh_in store e" "ai_events input \<noteq> []"
    "ao_latestRevision res = ev_revision (se_event (last xs))"
    "validate_batch parse_url R input (latestRevision (es_conversations store (ai_conversationId input)))
       (coalesce (ai_expectedRevision input) 0 + 1) {} {} (ai_events input) = Inr ()"
proof -
  let ?cur = "latestRevision (es_conversations store (ai_conversationId input))"
  from assms obtain ms where valid: "validateAppend parse_url R input ?cur = Inr ()"
    and ms: "mapE (findIdempotentMatch store) (ai_events input) = Inr ms"
    unfolding append_events_def by (auto simp: Let_def bindE_Inr_iff)
  show thesis
  proof (cases "length (List.map_filter id ms) = 0")
    case True
    from assms valid ms True obtain xs where
      xs: "mapE (store_event (ai_conversationId input)) (ai_events input) = Inr xs"
      "res = appendResult Appended xs (ev_revision (se_event (last xs)))"
      "store' = fold (index_entry (ai_conversationId input)) xs store" "ai_expectedRevision input = ?cur"
      unfolding append_events_def by (auto simp: Let_def bindE_Inr_iff split: if_splits)
    show ?thesis
    proof (rule new [of xs])
      show "\<forall>e \<in> set (ai_events input). fresh_in store e"
        using mapE_all_None [OF ms True] findIdempotentMatch_None by blast
    qed (use xs valid in \<open>auto simp: appendResult_def validateAppend_def split: if_splits\<close>)
  next
    case False
    from assms valid ms False have
      r: "length (List.map_filter id ms) = length (ai_events input)"
        "res = appendResult Idempotent (map ie_entry (List.map_filter id ms)) (coalesce ?cur 0)" "store' = store"
        "validateCompleteRetry input ?cur (coalesce (ai_expectedRevision input) 0 + 1)
          (zip (List.map_filter id ms) (ai_events input)) = Inr ()"
      unfolding append_events_def by (auto simp: Let_def bindE_Inr_iff split: if_splits)
    have len: "length ms = length (ai_events input)" by (rule mapE_Inr_length [OF ms])
    have "map Some (List.map_filter id ms) = ms" if "length (List.map_filter id ms) = length ms" for ms :: "IndexedEntry option list"
      using that
    proof (induction ms)
      case (Cons m ms)
      have "length (List.map_filter (\<lambda>a. a) ms) \<le> length ms" by (simp add: List.map_filter_def)
      with Cons show ?case by (cases m) (auto simp: map_filter_simps id_def)
    qed (simp add: map_filter_simps)
    with r(1) len have "map Some (List.map_filter id ms) = ms" by simp
    with ms r show ?thesis by (intro retry [of "List.map_filter id ms"]) (simp_all add: appendResult_def)
  qed
qed

lemma cloneEntries_stored:
  assumes "mapE (store_event cid) es = Inr xs"
  shows "cloneEntries xs = xs"
  unfolding cloneEntries_def
proof (rule map_idI)
  fix x assume "x \<in> set xs"
  then obtain i where "i < length es" "x = xs ! i" by (auto simp: in_set_conv_nth mapE_Inr_length [OF assms])
  then show "clone_entry x = x" using store_event_Inr(3) [OF mapE_nth [OF assms]] by simp
qed

lemma append_new:
  assumes ok: "store_ok store"
    and stored: "mapE (store_event (ai_conversationId input)) (ai_events input) = Inr xs"
    and expected: "ai_expectedRevision input = latestRevision (es_conversations store (ai_conversationId input))"
    and fresh: "\<forall>e \<in> set (ai_events input). fresh_in store e"
    and valid: "validate_batch parse_url R input cur (coalesce (ai_expectedRevision input) 0 + 1) {} {} (ai_events input) = Inr ()"
  shows "store_ok (fold (index_entry (ai_conversationId input)) xs store)"
    "all_entries (fold (index_entry (ai_conversationId input)) xs store) =
      (all_entries store)(ai_conversationId input := all_entries store (ai_conversationId input) @ xs)"
    "map se_event xs = map clone_event (ai_events input)"
proof -
  let ?cid = "ai_conversationId input" and ?es = "ai_events input"
  note valid = validate_batch_Inr [OF valid]
  have len: "length xs = length ?es" by (rule mapE_Inr_length [OF stored])
  have at: "store_event ?cid (?es ! i) = Inr (xs ! i)" if "i < length ?es" for i
    using mapE_nth [OF stored that] .
  show events: "map se_event xs = map clone_event ?es"
    by (rule nth_equalityI) (use len at store_event_Inr(2) in auto)
  have base: "coalesce (ai_expectedRevision input) 0 = int (length (all_entries store ?cid))"
    using latestRevision_length [OF ok, of ?cid] expected by simp
  have entry: "\<forall>i < length xs. entry_ok ?cid (length (all_entries store ?cid) + i) (xs ! i)"
  proof (intro allI impI)
    fix i assume "i < length xs"
    then have i: "i < length ?es" using len by simp
    with valid base have "ev_revision (?es ! i) = int (length (all_entries store ?cid) + i) + 1"
      "ev_conversation_id (?es ! i) = ?cid" by auto
    with store_event_Inr [OF at [OF i]] show "entry_ok ?cid (length (all_entries store ?cid) + i) (xs ! i)"
      by (simp add: entry_ok_def)
  qed
  have fresh': "\<forall>x \<in> set xs. fresh_in store (se_event x)"
  proof
    fix x assume "x \<in> set xs"
    then have "se_event x \<in> set (map clone_event ?es)" using events by (metis image_eqI list.set_map)
    then obtain e where "e \<in> set ?es" "se_event x = clone_event e" by auto
    with fresh show "fresh_in store (se_event x)" by (simp add: fresh_in_def)
  qed
  have ids: "map (\<lambda>x. ev_event_id (se_event x)) xs = map ev_event_id ?es"
    using arg_cong [OF events, of "map ev_event_id"] by (simp add: comp_def)
  have muts: "map (\<lambda>x. ev_mutation_id (se_event x)) xs = map ev_mutation_id ?es"
    using arg_cong [OF events, of "map ev_mutation_id"] by (simp add: comp_def)
  have "store_ok (fold (index_entry ?cid) xs store) \<and>
    all_entries (fold (index_entry ?cid) xs store) = (all_entries store)(?cid := all_entries store ?cid @ xs)"
    using valid map_filter_map_same [OF muts] ids
    by (intro index_batch_ok [OF ok entry fresh']) simp_all
  then show "store_ok (fold (index_entry ?cid) xs store)"
    "all_entries (fold (index_entry ?cid) xs store) = (all_entries store)(?cid := all_entries store ?cid @ xs)" by simp_all
qed

text \<open>The result of a new batch reports the new length of the log.\<close>

lemma appended_latest:
  assumes ok: "store_ok store'" and log: "all_entries store' cid = ys @ xs" and "xs \<noteq> []"
  shows "latestRevision (es_conversations store' cid) = Some (ev_revision (se_event (last xs)))"
proof -
  have "entries_ok cid (ys @ xs)" using ok log by (metis store_ok_def)
  then have "entry_ok cid (length (ys @ xs) - 1) (last (ys @ xs))"
    using assms(3) by (auto simp: entries_ok_def last_conv_nth)
  with assms(3) have "ev_revision (se_event (last xs)) = int (length (ys @ xs))"
    by (auto simp: entry_ok_def Suc_leI of_nat_diff)
  with latestRevision_length [OF ok, of cid] log assms(3) show ?thesis by simp
qed

lemma append_store_ok:
  assumes "store_ok store" "append_events parse_url R store input = Inr (res, store')"
  shows "store_ok store'"
  using assms(2) by (cases rule: append_cases) (use assms(1) append_new in auto)

lemma validateCompleteRetry_Inr:
  assumes "validateCompleteRetry input cur req (zip ms es) = Inr u" "length ms = length es" "i < length ms"
  shows "ie_conversationId (ms ! i) = ai_conversationId input \<and> ev_revision (se_event (ie_entry (ms ! i))) = req + int i"
  using assms
proof (induction ms arbitrary: es req i)
  case (Cons m ms)
  then obtain e rest where es: "es = e # rest" by (cases es) auto
  show ?case
  proof (cases i)
    case 0
    with Cons.prems es show ?thesis by (auto split: if_splits)
  next
    case (Suc j)
    with Cons.prems es Cons.IH [of "req + 1" rest j] show ?thesis by (auto split: if_splits)
  qed
qed simp

lemma match_indexed:
  assumes "store_ok store" "findIdempotentMatch store e = Inr (Some m)"
  shows "ie_entry m \<in> set (all_entries store (ie_conversationId m))"
proof -
  have "es_eventIds store (ev_event_id e) = Some m \<or> (\<exists>k. es_mutationIds store k = Some m)"
    using assms(2) by (auto simp: findIdempotentMatch_def Let_def split: if_splits option.splits)
  with assms(1) show ?thesis by (auto simp: store_ok_def index_ok_def)
qed

lemma stored_position:
  assumes "store_ok store" "x \<in> set (all_entries store cid)" "ev_revision (se_event x) = int k + 1"
  shows "k < length (all_entries store cid) \<and> x = all_entries store cid ! k"
proof -
  from assms(2) obtain j where j: "j < length (all_entries store cid)" "x = all_entries store cid ! j"
    by (auto simp: in_set_conv_nth)
  then have "entry_ok cid j x" using assms(1) by (simp add: store_ok_def entries_ok_def)
  with assms(3) have "j = k" by (simp add: entry_ok_def)
  with j show ?thesis by simp
qed

lemma retry_entries:
  assumes ok: "store_ok store"
    and ms: "mapE (findIdempotentMatch store) (ai_events input) = Inr (map Some ms)"
    and valid: "validateCompleteRetry input cur (int k + 1) (zip ms (ai_events input)) = Inr ()"
  shows "map ie_entry ms = take (length (ai_events input)) (drop k (all_entries store (ai_conversationId input)))"
proof -
  let ?log = "all_entries store (ai_conversationId input)" and ?n = "length (ai_events input)"
  have len: "length ms = ?n" using mapE_Inr_length [OF ms] by simp
  have at: "k + i < length ?log \<and> ie_entry (ms ! i) = ?log ! (k + i)" if i: "i < ?n" for i
  proof (rule stored_position [OF ok])
    have rev: "ie_conversationId (ms ! i) = ai_conversationId input"
      "ev_revision (se_event (ie_entry (ms ! i))) = int k + 1 + int i"
      using validateCompleteRetry_Inr [OF valid] i len by simp_all
    then show "ev_revision (se_event (ie_entry (ms ! i))) = int (k + i) + 1" by simp
    have "findIdempotentMatch store (ai_events input ! i) = Inr (Some (ms ! i))"
      using mapE_nth [OF ms i] i len by simp
    from match_indexed [OF ok this] rev(1) show "ie_entry (ms ! i) \<in> set ?log" by simp
  qed
  have "length (take ?n (drop k ?log)) = ?n"
  proof (cases ?n)
    case (Suc j)
    from at [of j] Suc have "k + j < length ?log" by simp
    with Suc show ?thesis by simp
  qed simp
  with len at show ?thesis by (intro nth_equalityI) (auto simp: add.commute)
qed

lemma expected_nonneg:
  assumes "validate_batch parse_url R input cur (coalesce (ai_expectedRevision input) 0 + 1) {} {} (ai_events input) = Inr ()"
    "ai_events input \<noteq> []"
  shows "0 \<le> coalesce (ai_expectedRevision input) 0"
proof -
  let ?e = "ai_events input ! 0"
  have "ev_revision ?e = coalesce (ai_expectedRevision input) 0 + 1" "?e \<in> set (ai_events input)"
    using validate_batch_Inr [OF assms(1)] assms(2) by auto
  moreover have "okE (parseConversationEvent parse_url R (event_json ?e))"
    using validate_batch_Inr [OF assms(1)] calculation(2) by blast
  ultimately show ?thesis
    using parsed_event_facts [of parse_url R ?e] by (auto simp: okE_iff envelope_ok_def)
qed

lemma append_validated:
  assumes "append_events parse_url R store input = Inr r"
  shows "validate_batch parse_url R input (latestRevision (es_conversations store (ai_conversationId input)))
      (coalesce (ai_expectedRevision input) 0 + 1) {} {} (ai_events input) = Inr ()" "ai_events input \<noteq> []"
  using assms by (auto simp: append_events_def Let_def bindE_Inr_iff validateAppend_def split: if_splits)

lemma cloneEntries_log: "store_ok store \<Longrightarrow> set xs \<subseteq> set (all_entries store cid) \<Longrightarrow> cloneEntries xs = xs"
proof -
  assume ok: "store_ok store" and sub: "set xs \<subseteq> set (all_entries store cid)"
  have "clone_entry x = x" if x: "x \<in> set xs" for x
  proof -
    from x sub have "x \<in> set (all_entries store cid)" by blast
    then obtain i where "i < length (all_entries store cid)" "x = all_entries store cid ! i"
      by (auto simp: in_set_conv_nth)
    with ok have "entry_ok cid i x" by (simp add: store_ok_def entries_ok_def)
    then show ?thesis by (simp add: entry_ok_def)
  qed
  then show ?thesis by (simp add: cloneEntries_def map_idI)
qed

text \<open>
  C3: an append that returns keeps the store well-formed and touches the requested
  conversation only. A new batch is added to the end of its log, after exactly the revision
  the caller expected; a retry leaves the store alone and answers with the entries that the
  log holds at the positions of the batch.
\<close>

theorem append_effect:
  assumes ok: "store_ok store" and step: "append_events parse_url R store input = Inr (res, store')"
  shows "store_ok store' \<and> (case ao_status res of
      Appended \<Rightarrow> all_entries store' = (all_entries store)(ai_conversationId input :=
          all_entries store (ai_conversationId input) @ ao_entries res) \<and>
        map se_event (ao_entries res) = map clone_event (ai_events input) \<and>
        getLatestRevision store (ai_conversationId input) = ai_expectedRevision input \<and>
        getLatestRevision store' (ai_conversationId input) = Some (ao_latestRevision res)
    | Idempotent \<Rightarrow> store' = store \<and> ao_entries res = take (length (ai_events input))
        (drop (nat (coalesce (ai_expectedRevision input) 0)) (all_entries store (ai_conversationId input))))"
  using step
proof (cases rule: append_cases)
  case (retry ms)
  let ?k = "nat (coalesce (ai_expectedRevision input) 0)"
  have k: "int ?k = coalesce (ai_expectedRevision input) 0"
    using expected_nonneg [OF append_validated [OF step]] by simp
  from retry_entries [OF ok retry(3)] retry(5) k
  have "map ie_entry ms = take (length (ai_events input)) (drop ?k (all_entries store (ai_conversationId input)))"
    by simp
  moreover from this have "cloneEntries (map ie_entry ms) = map ie_entry ms"
    by (intro cloneEntries_log [OF ok]) (auto dest: in_set_takeD in_set_dropD)
  ultimately show ?thesis using retry ok by simp
next
  case (new xs)
  let ?cid = "ai_conversationId input"
  note eff = append_new [OF ok new(3,5,6,9)]
  have xs: "xs \<noteq> []" using mapE_Inr_length [OF new(3)] new(7) by auto
  have "store_ok store'" "all_entries store' ?cid = all_entries store ?cid @ xs"
    using eff(1,2) by (simp_all add: new(2))
  from appended_latest [OF this xs] show ?thesis
    using new eff cloneEntries_stored [OF new(3)] by (simp add: getLatestRevision_def)
qed

section \<open>Retries\<close>

text \<open>
  An event that survives the trip through JSON text: no negative zero, no repeated key, no
  number outside JSON.
\<close>

definition plain_event :: "ConversationEvent \<Rightarrow> bool" where
  "plain_event e \<longleftrightarrow> wf_json (event_json e) \<and> plain_numbers (event_json e) \<and> clone_event e = e"

lemma jsonEqual_refl: "wf_json v \<Longrightarrow> plain_numbers v \<Longrightarrow> jsonEqual v v"
  by (simp add: jsonEqual_canon_lists)

lemma plain_event_parts:
  assumes "plain_event e"
  shows "jsonEqual (event_json e) (event_json e)" "jsonEqual (actor_json (ev_actor e)) (actor_json (ev_actor e))"
    "jsonEqual (source_json (ev_source e)) (source_json (ev_source e))"
    "opt_jsonEqual (map_option JObj (ev_metadata e)) (map_option JObj (ev_metadata e))"
    "jsonEqual (payload_json (ev_payload e)) (payload_json (ev_payload e))"
proof -
  obtain obj where obj: "event_json e = JObj obj" by (simp add: event_json_def)
  have wf: "wf_json (JObj obj)" "plain_numbers (JObj obj)" using assms obj by (simp_all add: plain_event_def)
  have sub: "jsonEqual v v" if "fld obj k = Some v" for k v
    using that wf wf_json_map_of plain_numbers_map_of unfolding fld_def prop_of_def
    by (intro jsonEqual_refl) blast+
  show "jsonEqual (event_json e) (event_json e)" using jsonEqual_refl [OF wf] obj by simp
  show "jsonEqual (actor_json (ev_actor e)) (actor_json (ev_actor e))"
    "jsonEqual (source_json (ev_source e)) (source_json (ev_source e))"
    "jsonEqual (payload_json (ev_payload e)) (payload_json (ev_payload e))"
    using sub event_fields [OF obj] by blast+
  show "opt_jsonEqual (map_option JObj (ev_metadata e)) (map_option JObj (ev_metadata e))"
  proof (cases "ev_metadata e")
    case (Some m)
    then have "fld obj ''metadata'' = Some (JObj m)"
      using obj by (auto simp: event_json_def opt_field_def split: option.splits)
    with Some sub show ?thesis by (simp add: opt_jsonEqual_def)
  qed (simp add: opt_jsonEqual_def)
qed

lemma stored_match:
  assumes ok: "store_ok store" and x: "x \<in> set (all_entries store cid)" and e: "se_event x = e" "plain_event e"
  shows "findIdempotentMatch store e = Inr (Some \<lparr>ie_conversationId = cid, ie_entry = x\<rparr>)"
proof -
  have ids: "es_eventIds store (ev_event_id e) = Some \<lparr>ie_conversationId = cid, ie_entry = x\<rparr>"
    using ok x e(1) by (auto simp: store_ok_def index_ok_def)
  have muts: "es_mutationIds store m = Some \<lparr>ie_conversationId = cid, ie_entry = x\<rparr>" if "ev_mutation_id e = Some m" for m
    using ok x e(1) that by (auto simp: store_ok_def index_ok_def)
  have "sameClientMutation e e" if "ev_mutation_id e \<noteq> None"
    using that plain_event_parts [OF e(2)] by (simp add: sameClientMutation_def)
  with ids muts e plain_event_parts(1) [OF e(2)] show ?thesis
    by (cases "ev_mutation_id e") (simp_all add: findIdempotentMatch_def)
qed

lemma validate_batch_current:
  "validate_batch parse_url R input cur req ids muts es = Inr () \<Longrightarrow>
   validate_batch parse_url R input cur' req ids muts es = Inr ()"
  by (induction es arbitrary: req ids muts) (auto split: sum.splits if_splits option.splits)

lemma validateCompleteRetry_ok:
  assumes "length ms = length es" "\<And>i. i < length ms \<Longrightarrow> ie_conversationId (ms ! i) = ai_conversationId input \<and>
    ev_revision (se_event (ie_entry (ms ! i))) = req + int i"
  shows "validateCompleteRetry input cur req (zip ms es) = Inr ()"
  using assms
proof (induction ms arbitrary: es req)
  case (Cons m ms)
  then obtain e rest where es: "es = e # rest" "length ms = length rest" by (cases es) auto
  have "ie_conversationId (ms ! i) = ai_conversationId input \<and>
      ev_revision (se_event (ie_entry (ms ! i))) = (req + 1) + int i" if "i < length ms" for i
    using Cons.prems(2) [of "Suc i"] that by simp
  from Cons.IH [OF es(2) this] Cons.prems(2) [of 0] es show ?case by simp
qed simp

text \<open>
  Repeating a request that was stored is idempotent: the retry returns the same stored
  entries and the same latest revision, and leaves the store unchanged.
\<close>

theorem append_retry_idempotent:
  assumes ok: "store_ok store" and step: "append_events parse_url R store input = Inr (res, store')"
    and "ao_status res = Appended" and plain: "\<forall>e \<in> set (ai_events input). plain_event e"
  shows "append_events parse_url R store' input = Inr (res\<lparr>ao_status := Idempotent\<rparr>, store')"
  using step
proof (cases rule: append_cases)
  case (new xs)
  let ?cid = "ai_conversationId input" and ?es = "ai_events input"
  note eff = append_new [OF ok new(3,5,6,9)]
  have ok': "store_ok store'" and log: "all_entries store' ?cid = all_entries store ?cid @ xs"
    using eff(1,2) by (simp_all add: new(2))
  have len: "length xs = length ?es" by (rule mapE_Inr_length [OF new(3)])
  have ev: "se_event (xs ! i) = ?es ! i" if "i < length ?es" for i
  proof -
    have "se_event (xs ! i) = clone_event (?es ! i)"
      using eff(3) that len by (metis nth_map)
    with plain that show ?thesis by (simp add: plain_event_def)
  qed
  let ?ms = "map (\<lambda>x. \<lparr>ie_conversationId = ?cid, ie_entry = x\<rparr>) xs"
  have "mapE (findIdempotentMatch store') ?es = Inr (map Some ?ms)"
    unfolding mapE_Inr_iff list_all2_conv_all_nth
  proof (intro conjI allI impI)
    fix i assume i: "i < length ?es"
    have "findIdempotentMatch store' (?es ! i) = Inr (Some \<lparr>ie_conversationId = ?cid, ie_entry = xs ! i\<rparr>)"
      using i len log ev [OF i] plain by (intro stored_match [OF ok']) auto
    with i len show "findIdempotentMatch store' (?es ! i) = Inr (map Some ?ms ! i)" by simp
  qed (simp add: len)
  moreover have "List.map_filter id (map Some ?ms) = ?ms" by (simp add: List.map_filter_def comp_def)
  moreover have "validateCompleteRetry input cur (coalesce (ai_expectedRevision input) 0 + 1) (zip ?ms ?es) = Inr ()" for cur
    using len ev validate_batch_Inr [OF new(9)] by (intro validateCompleteRetry_ok) simp_all
  moreover have "validateAppend parse_url R input cur = Inr ()" for cur
    using validate_batch_current [OF new(9)] new(7) by (simp add: validateAppend_def)
  moreover have "latestRevision (es_conversations store' ?cid) = Some (ev_revision (se_event (last xs)))"
    using len new(7) by (intro appended_latest [OF ok' log]) auto
  moreover have "xs \<noteq> []" using len new(7) by auto
  moreover have "res\<lparr>ao_status := Idempotent\<rparr> = appendResult Idempotent xs (ev_revision (se_event (last xs)))"
    using new(1,4,8) by (simp add: appendResult_def)
  ultimately show ?thesis
    using new(2,7) len unfolding append_events_def Let_def
    by (simp add: comp_def)
qed (use assms(3) in simp)

text \<open>A first batch of one event, on an empty store.\<close>

definition first_batch :: AppendConversationEventsInput where
  "first_batch = \<lparr>ai_conversationId = js ''c'', ai_expectedRevision = None,
     ai_events = [runtime_event (js ''e1'') (js ''c'') 1 ConversationCleared]\<rparr>"

definition first_entry :: StoredConversationEvent where
  "first_entry = \<lparr>se_cursor = js ''memory:c:1'', se_event = runtime_event (js ''e1'') (js ''c'') 1 ConversationCleared\<rparr>"

lemma clone_first_event [simp]:
  "clone_event (runtime_event i c r ConversationCleared) = runtime_event i c r ConversationCleared"
  by (simp add: clone_event_def clone_payload_def runtime_event_def)

lemma first_cursor [simp]: "memoryCursor (js ''c'') 1 = Inr (js ''memory:c:1'')"
  by code_simp

lemma first_batch_appended:
  "append_events (\<lambda>_. None) (\<lambda>_. []) empty_store first_batch =
     Inr (appendResult Appended [first_entry] 1, index_entry (js ''c'') first_entry empty_store)"
proof -
  have "parseConversationEvent (\<lambda>_. None) (\<lambda>_. [])
      (event_json (runtime_event (js ''e1'') (js ''c'') 1 ConversationCleared)) =
    Inr (event_json (runtime_event (js ''e1'') (js ''c'') 1 ConversationCleared))"
    by (rule runtime_event_parses)
      (simp_all add: cleared_payload_ok identifier_ok_def identifierLength_def MAX_SAFE_INTEGER_def)
  then show ?thesis
    by (simp add: append_events_def first_batch_def first_entry_def empty_store_def latestRevision_def validateAppend_def
        coalesce_def findIdempotentMatch_def map_filter_simps store_event_def bindE_def Let_def)
qed

theorem append_effect_witness:
  "all_entries (index_entry (js ''c'') first_entry empty_store) (js ''c'') = [first_entry] \<and>
   getLatestRevision (index_entry (js ''c'') first_entry empty_store) (js ''c'') = Some 1"
  using append_effect [OF empty_store_ok first_batch_appended]
  by (simp add: appendResult_def cloneEntries_def clone_entry_def first_entry_def first_batch_def all_entries_def empty_store_def)

theorem append_retry_idempotent_witness:
  "append_events (\<lambda>_. None) (\<lambda>_. []) (index_entry (js ''c'') first_entry empty_store) first_batch =
     Inr (appendResult Idempotent [first_entry] 1, index_entry (js ''c'') first_entry empty_store)"
proof -
  have "plain_event (runtime_event (js ''e1'') (js ''c'') 1 ConversationCleared)"
    unfolding plain_event_def by (intro conjI; code_simp)
  then have "append_events (\<lambda>_. None) (\<lambda>_. []) (index_entry (js ''c'') first_entry empty_store) first_batch =
     Inr ((appendResult Appended [first_entry] 1)\<lparr>ao_status := Idempotent\<rparr>, index_entry (js ''c'') first_entry empty_store)"
    by (intro append_retry_idempotent [OF empty_store_ok first_batch_appended]) (simp_all add: appendResult_def first_batch_def)
  then show ?thesis by (simp add: appendResult_def)
qed

section \<open>Optimistic concurrency\<close>

text \<open>
  Of two writers that read the same latest revision, only the first succeeds. After one
  batch has been stored, a valid batch of new events that expects the same revision is
  refused with a revision conflict that reports the new latest revision.
\<close>

theorem append_conflict:
  assumes ok: "store_ok store" and first: "append_events parse_url R store input = Inr (res, store')"
    and "ao_status res = Appended"
    and same: "ai_conversationId input2 = ai_conversationId input" "ai_expectedRevision input2 = ai_expectedRevision input"
    and valid: "validateAppend parse_url R input2 (getLatestRevision store' (ai_conversationId input)) = Inr ()"
    and fresh: "\<forall>e \<in> set (ai_events input2). findIdempotentMatch store' e = Inr None"
  shows "append_events parse_url R store' input2 = Inl (conflict revision_conflict input2 (Some (ao_latestRevision res))
    ''The expected revision does not match the latest stored revision.'' None)"
  using first
proof (cases rule: append_cases)
  case (new xs)
  let ?cid = "ai_conversationId input"
  note eff = append_new [OF ok new(3,5,6,9)]
  have log: "store_ok store'" "all_entries store' ?cid = all_entries store ?cid @ xs" "xs \<noteq> []"
    using eff(1,2) mapE_Inr_length [OF new(3)] new(7) by (auto simp: new(2))
  have latest: "latestRevision (es_conversations store' ?cid) = Some (ao_latestRevision res)"
    using appended_latest [OF log] new(8) by simp
  have "latestRevision (es_conversations store ?cid) \<noteq> latestRevision (es_conversations store' ?cid)"
    using latestRevision_length [OF ok, of ?cid] latestRevision_length [OF log(1), of ?cid] log(2,3) by auto
  then have stale: "ai_expectedRevision input2 \<noteq> Some (ao_latestRevision res)" using new(5) same(2) latest by simp
  have "mapE (findIdempotentMatch store') (ai_events input2) = Inr (map (\<lambda>_. None) (ai_events input2))"
    using fresh by (simp add: mapE_Inr_iff list_all2_conv_all_nth)
  moreover have "List.map_filter id (map (\<lambda>_. None) es) = ([] :: IndexedEntry list)" for es :: "ConversationEvent list"
    by (induction es) (simp_all add: map_filter_simps)
  ultimately show ?thesis
    using valid stale latest by (simp add: append_events_def same(1) getLatestRevision_def Let_def)
qed (use assms(3) in simp)

definition second_batch :: AppendConversationEventsInput where
  "second_batch = \<lparr>ai_conversationId = js ''c'', ai_expectedRevision = None,
     ai_events = [runtime_event (js ''e2'') (js ''c'') 1 ConversationCleared]\<rparr>"

theorem append_conflict_witness:
  "append_events (\<lambda>_. None) (\<lambda>_. []) (index_entry (js ''c'') first_entry empty_store) second_batch =
    Inl (conflict revision_conflict second_batch (Some 1)
      ''The expected revision does not match the latest stored revision.'' None)"
proof -
  have valid: "validateAppend (\<lambda>_. None) (\<lambda>_. []) second_batch cur = Inr ()" for cur
  proof -
    have "parseConversationEvent (\<lambda>_. None) (\<lambda>_. [])
        (event_json (runtime_event (js ''e2'') (js ''c'') 1 ConversationCleared)) =
      Inr (event_json (runtime_event (js ''e2'') (js ''c'') 1 ConversationCleared))"
      by (rule runtime_event_parses)
        (simp_all add: cleared_payload_ok identifier_ok_def identifierLength_def MAX_SAFE_INTEGER_def)
    then show ?thesis by (simp add: validateAppend_def second_batch_def coalesce_def)
  qed
  have ids: "js ''e2'' \<noteq> js ''e1''" by (simp add: js_def)
  have "append_events (\<lambda>_. None) (\<lambda>_. []) (index_entry (js ''c'') first_entry empty_store) second_batch =
      Inl (conflict revision_conflict second_batch (Some (ao_latestRevision (appendResult Appended [first_entry] 1)))
        ''The expected revision does not match the latest stored revision.'' None)"
    by (rule append_conflict [OF empty_store_ok first_batch_appended])
      (use valid ids in \<open>simp_all add: appendResult_def first_batch_def second_batch_def first_entry_def
        findIdempotentMatch_def empty_store_def\<close>)
  then show ?thesis by (simp add: appendResult_def)
qed

section \<open>Reading\<close>

lemma entry_at: "store_ok store \<Longrightarrow> i < length (all_entries store cid) \<Longrightarrow> entry_ok cid i (all_entries store cid ! i)"
  by (simp add: store_ok_def entries_ok_def)

lemma stored_cursors_distinct:
  assumes ok: "store_ok store"
  shows "distinct (map se_cursor (all_entries store cid))"
  unfolding distinct_conv_nth
proof (intro allI impI)
  fix i j assume ij: "i < length (map se_cursor (all_entries store cid))"
    "j < length (map se_cursor (all_entries store cid))" "i \<noteq> j"
  then have "memoryCursor cid (int i + 1) = Inr (map se_cursor (all_entries store cid) ! i)"
    "memoryCursor cid (int j + 1) = Inr (map se_cursor (all_entries store cid) ! j)"
    using entry_at [OF ok] by (auto simp: entry_ok_def)
  with memoryCursor_inj [of cid "int i + 1" _ "int j + 1"] ij(3)
  show "map se_cursor (all_entries store cid) ! i \<noteq> map se_cursor (all_entries store cid) ! j" by auto
qed

lemma indexed_positions:
  assumes ok: "store_ok store" and index: "index_ok key index store"
    and i: "i < length (all_entries store cid)" and j: "j < length (all_entries store cid)"
    and "key (se_event (all_entries store cid ! i)) = Some k" "key (se_event (all_entries store cid ! j)) = Some k"
  shows "i = j"
proof -
  let ?x = "all_entries store cid ! i" and ?y = "all_entries store cid ! j"
  have "index k = Some \<lparr>ie_conversationId = cid, ie_entry = z\<rparr>" if "z \<in> set (all_entries store cid)" "key (se_event z) = Some k" for z
    using index that by (simp add: index_ok_def)
  from this [of ?x] this [of ?y] assms(3-6) have "?x = ?y" by simp
  moreover have "entry_ok cid i (all_entries store cid ! i)" "entry_ok cid j (all_entries store cid ! j)"
    using entry_at [OF ok] i j by simp_all
  ultimately show ?thesis by (simp add: entry_ok_def)
qed

lemma distinct_map_filter:
  assumes "\<And>i j k. i < length xs \<Longrightarrow> j < length xs \<Longrightarrow> f (xs ! i) = Some k \<Longrightarrow> f (xs ! j) = Some k \<Longrightarrow> i = j"
  shows "distinct (List.map_filter f xs)"
  using assms
proof (induction xs)
  case (Cons x xs)
  have "distinct (List.map_filter f xs)"
    using Cons.prems [of "Suc _" "Suc _"] by (intro Cons.IH) auto
  moreover have "y \<notin> set (List.map_filter f xs)" if "f x = Some y" for y
  proof
    assume "y \<in> set (List.map_filter f xs)"
    then obtain j where "j < length xs" "f (xs ! j) = Some y"
      by (auto simp: List.map_filter_def in_set_conv_nth)
    with Cons.prems [of 0 "Suc j" y] that show False by simp
  qed
  ultimately show ?case by (simp add: map_filter_simps split: option.split)
qed (simp add: map_filter_simps)

lemma start_at_position:
  assumes ok: "store_ok store" and pos: "position_of (all_entries store (ri_conversationId input)) (ri_after input) k"
  shows "start_index store input (all_entries store (ri_conversationId input)) = Inr k"
proof (cases "ri_after input")
  case (Some p)
  let ?cid = "ri_conversationId input" and ?log = "all_entries store (ri_conversationId input)"
  show ?thesis
  proof (cases p)
    case (AfterCursor c)
    with Some pos have k: "0 < k" "k \<le> length ?log" "c = se_cursor (?log ! (k - 1))" by (auto simp: position_of_def)
    then have "?log ! (k - 1) \<in> set ?log" by simp
    with k have "findIndex (\<lambda>x. se_cursor x = c) ?log \<noteq> None" by auto
    then obtain i where i: "findIndex (\<lambda>x. se_cursor x = c) ?log = Some i" by blast
    note at = findIndex_SomeD [OF i]
    have "i = k - 1"
      using at k nth_eq_iff_index_eq [OF stored_cursors_distinct [OF ok, of ?cid], of i "k - 1"] by auto
    with i k Some AfterCursor show ?thesis by (simp add: start_index_def)
  next
    case (AfterRevision r)
    with Some pos have k: "k \<le> length ?log" "r = int k" by (auto simp: position_of_def)
    have rev: "r < ev_revision (se_event (?log ! i)) \<longleftrightarrow> k \<le> i" if "i < length ?log" for i
      using entry_at [OF ok that] k by (auto simp: entry_ok_def)
    show ?thesis
    proof (cases "findIndex (\<lambda>x. r < ev_revision (se_event x)) ?log")
      case None
      then have "k = length ?log" using rev [of k] k by (cases "k < length ?log") auto
      with None Some AfterRevision show ?thesis by (simp add: start_index_def del: findIndex_None)
    next
      case (Some i)
      note at = findIndex_SomeD [OF Some]
      have "i = k"
      proof (rule antisym)
        show "k \<le> i" using at rev by blast
        show "i \<le> k" using at rev [of k] by (meson less_le_trans linorder_not_less nat_less_le order_refl order.strict_trans)
      qed
      with Some \<open>ri_after input = Some p\<close> AfterRevision show ?thesis by (simp add: start_index_def)
    qed
  qed
qed (use pos in \<open>simp add: position_of_def start_index_def\<close>)

lemma read_events_page:
  assumes ok: "store_ok store" and pos: "position_of (all_entries store cid) after k" and lim: "limit_ok limit"
  shows "\<exists>page. read_events store \<lparr>ri_conversationId = cid, ri_after = after, ri_limit = limit\<rparr> = Inr page \<and>
    page_of (all_entries store cid) k page"
proof -
  let ?input = "\<lparr>ri_conversationId = cid, ri_after = after, ri_limit = limit\<rparr>" and ?log = "all_entries store cid"
  define n where "n = (case limit of None \<Rightarrow> length ?log | Some l \<Rightarrow> min (nat l) (length (drop k ?log)))"
  have k: "k \<le> length ?log" using pos by (simp add: position_of_def)
  have start: "start_index store ?input ?log = Inr k"
    using start_at_position [OF ok, of ?input] pos by simp
  have sel: "(case limit of None \<Rightarrow> drop k ?log | Some l \<Rightarrow> take (nat l) (drop k ?log)) = take n (drop k ?log)"
    by (auto simp: n_def min_def split: option.split)
  have clone: "cloneEntries (take n (drop k ?log)) = take n (drop k ?log)"
    by (rule cloneEntries_log [OF ok]) (auto dest: in_set_takeD in_set_dropD)
  have latest: "latestRevision (es_conversations store cid) =
      (if ?log = [] then None else Some (ev_revision (se_event (last ?log))))"
    by (auto simp: latestRevision_def all_entries_def split: option.split)
  have pos_n: "drop k ?log \<noteq> [] \<longrightarrow> 0 < n"
    using lim by (auto simp: n_def limit_ok_def split: option.splits)
  let ?page = "\<lparr>ro_entries = take n (drop k ?log),
      ro_nextCursor = (if take n (drop k ?log) = [] then None else Some (se_cursor (last (take n (drop k ?log))))),
      ro_latestRevision = latestRevision (es_conversations store cid),
      ro_hasMore = length (take n (drop k ?log)) < length (drop k ?log)\<rparr>"
  have "read_events store ?input = Inr ?page"
    using lim start sel clone by (auto simp: read_events_def limit_ok_def Let_def split: option.splits)
  moreover have "page_of ?log k ?page"
    unfolding page_of_def using pos_n k latest by (intro exI [of _ n]) auto
  ultimately show ?thesis by blast
qed

interpretation memory: event_log store_ok all_entries read_events
proof
  fix store cid i x assume ok: "store_ok store"
  show "ev_conversation_id (se_event x) = cid" if "x \<in> set (all_entries store cid)"
    using that entry_at [OF ok] by (auto simp: in_set_conv_nth entry_ok_def)
  show "ev_revision (se_event (all_entries store cid ! i)) = int i + 1" if "i < length (all_entries store cid)"
    using entry_at [OF ok that] by (simp add: entry_ok_def)
  have ids: "index_ok (\<lambda>e. Some (ev_event_id e)) (es_eventIds store) store"
    and muts: "index_ok ev_mutation_id (es_mutationIds store) store" using ok by (simp_all add: store_ok_def)
  show "distinct (map (\<lambda>x. ev_event_id (se_event x)) (all_entries store cid))"
    using indexed_positions [OF ok ids] by (auto simp: distinct_conv_nth)
  show "distinct (List.map_filter (\<lambda>x. ev_mutation_id (se_event x)) (all_entries store cid))"
    by (rule distinct_map_filter) (rule indexed_positions [OF ok muts])
qed (simp_all add: stored_cursors_distinct read_events_page)

section \<open>Checkpoints\<close>

lemma safe_int_clone [simp]: "safe_int (clone_number n) = safe_int n"
  by (cases n) (simp_all add: clone_number_def safe_int_def MAX_SAFE_INTEGER_def)

lemma clone_checkpoint_simps [simp]:
  "clone_checkpoint (clone_checkpoint c) = clone_checkpoint c"
  "safe_int (cp_revision (clone_checkpoint c)) = safe_int (cp_revision c)"
  by (simp_all add: clone_checkpoint_def cloneJson_idem)

lemma store_ok_entries:
  assumes "store_ok store" "es_eventIds store' = es_eventIds store" "es_mutationIds store' = es_mutationIds store"
    "all_entries store' = all_entries store" "\<And>cid c. es_conversations store' cid = Some c \<Longrightarrow> mc_entries c \<noteq> []"
  shows "store_ok store'"
  using assms by (simp add: store_ok_def index_ok_def)

lemma put_checkpoint_effect:
  assumes ok: "store_ok store" and conv: "es_conversations store (cp_conversationId cp) = Some conversation"
    and put: "put_checkpoint store conversation cp = ((status, c), store')"
  shows "store_ok store'" "all_entries store' = all_entries store" "c = clone_checkpoint cp"
    "readCheckpoint store' = (readCheckpoint store)(cp_conversationId cp \<mapsto> c)"
proof -
  let ?conv = "conversation\<lparr>mc_checkpoint := Some (clone_checkpoint cp)\<rparr>"
  from put have store': "store' = store\<lparr>es_conversations := (es_conversations store)(cp_conversationId cp \<mapsto> ?conv)\<rparr>"
    and c: "c = clone_checkpoint cp" by (auto simp: put_checkpoint_def Let_def)
  show entries: "all_entries store' = all_entries store"
    using conv by (intro ext) (simp add: all_entries_def store')
  show "c = clone_checkpoint cp" by (rule c)
  show "store_ok store'"
    using ok conv by (intro store_ok_entries [OF ok _ _ entries]) (auto simp: store' store_ok_def split: if_splits)
  show "readCheckpoint store' = (readCheckpoint store)(cp_conversationId cp \<mapsto> c)"
    by (intro ext) (simp add: readCheckpoint_def store' c)
qed

text \<open>
  C15: a checkpoint write that returns answers with the checkpoint that a later read finds;
  its revision is a revision of the conversation's log and not older than the checkpoint it
  replaces. The log, the well-formedness of the store and the checkpoints of other
  conversations are untouched.
\<close>

theorem checkpoint_monotone:
  assumes ok: "store_ok store" and step: "writeCheckpoint store cp = Inr ((status, c), store')"
  shows "store_ok store' \<and> all_entries store' = all_entries store \<and>
    readCheckpoint store' = (readCheckpoint store)(cp_conversationId cp \<mapsto> c) \<and>
    (\<exists>r. safe_int (cp_revision c) = Some r \<and> 1 \<le> r \<and> r \<le> int (length (all_entries store (cp_conversationId cp))) \<and>
      (case readCheckpoint store (cp_conversationId cp) of None \<Rightarrow> True
       | Some old \<Rightarrow> coalesce (safe_int (cp_revision old)) 0 \<le> r))"
proof -
  let ?cid = "cp_conversationId cp"
  from step obtain conversation r where conv: "es_conversations store ?cid = Some conversation"
    and rev: "checkpoint_revision (cp_revision cp) (latestRevision (es_conversations store ?cid)) = Some r"
    by (auto simp: writeCheckpoint_def Let_def split: option.splits)
  from rev have r: "safe_int (cp_revision cp) = Some r" "1 \<le> r" "r \<le> int (length (all_entries store ?cid))"
    unfolding latestRevision_length [OF ok]
    by (auto simp: checkpoint_revision_def split: option.splits if_splits)
  consider (put) "put_checkpoint store conversation cp = ((status, c), store')"
      "case mc_checkpoint conversation of None \<Rightarrow> True | Some old \<Rightarrow> coalesce (safe_int (cp_revision old)) 0 \<le> r"
    | (same) current where "mc_checkpoint conversation = Some current" "c = clone_checkpoint current" "store' = store"
      "r = coalesce (safe_int (cp_revision current)) 0"
    using step conv rev by (auto simp: writeCheckpoint_def Let_def split: option.splits if_splits)
  then show ?thesis
  proof cases
    case put
    note eff = put_checkpoint_effect [OF ok conv put(1)]
    with r put(2) show ?thesis by (auto simp: readCheckpoint_def conv split: option.splits)
  next
    case (same current)
    then have "safe_int (cp_revision current) = Some r" using r(2) by (auto simp: coalesce_def split: option.splits)
    moreover have "readCheckpoint store = (readCheckpoint store)(?cid \<mapsto> c)"
      using same conv by (intro ext) (simp add: readCheckpoint_def)
    ultimately show ?thesis using same r ok conv by (auto simp: readCheckpoint_def)
  qed
qed

definition first_checkpoint :: ConversationEventCheckpoint where
  "first_checkpoint = \<lparr>cp_conversationId = js ''c'', cp_schemaVersion = Some 3, cp_revision = Finite 1, cp_state = JNull\<rparr>"

theorem checkpoint_monotone_witness:
  "readCheckpoint (snd (put_checkpoint (index_entry (js ''c'') first_entry empty_store)
      \<lparr>mc_entries = [first_entry], mc_checkpoint = None\<rparr> first_checkpoint)) (js ''c'') = Some first_checkpoint"
proof -
  let ?store = "index_entry (js ''c'') first_entry empty_store"
    and ?conv = "\<lparr>mc_entries = [first_entry], mc_checkpoint = None\<rparr>"
  have ok: "store_ok ?store" by (rule append_store_ok [OF empty_store_ok first_batch_appended])
  have "es_conversations ?store (js ''c'') = Some ?conv" by (simp add: index_entry_def empty_store_def Let_def)
  then have wr: "writeCheckpoint ?store first_checkpoint = Inr (put_checkpoint ?store ?conv first_checkpoint)"
    by (simp add: writeCheckpoint_def first_checkpoint_def latestRevision_def checkpoint_revision_def safe_int_def
        first_entry_def MAX_SAFE_INTEGER_def)
  have eq: "clone_checkpoint first_checkpoint = first_checkpoint"
    by (simp add: clone_checkpoint_def first_checkpoint_def clone_number_def)
  have "put_checkpoint ?store ?conv first_checkpoint =
      ((Written, first_checkpoint), snd (put_checkpoint ?store ?conv first_checkpoint))"
    by (simp add: put_checkpoint_def eq)
  with wr have "writeCheckpoint ?store first_checkpoint =
      Inr ((Written, first_checkpoint), snd (put_checkpoint ?store ?conv first_checkpoint))" by simp
  from checkpoint_monotone [OF ok this] show ?thesis by (simp add: first_checkpoint_def)
qed

end
