(* ===== verification/FindEvent.thy ===== *)
theory FindEvent
  imports EventStoreProperties
begin

text \<open>
  \<^verbatim>\<open>src/conversation/find-event.ts\<close>: searching the log of a conversation page by page. The
  \<^verbatim>\<open>for (;;)\<close> loop has no bound of its own, so it is a partial function (\<open>None\<close> for a loop that
  never ends), and that it returns is proved from the contract \<open>event_log\<close> of the store.
\<close>

datatype (plugins only: code size) 'e find_error = ReadFailed 'e | HistoryDidNotAdvance

definition page_match :: "js_string \<Rightarrow> (ConversationEvent \<Rightarrow> bool) \<Rightarrow> ReadConversationEventsResult \<Rightarrow> ConversationEvent option" where
  "page_match cid matches page = find (\<lambda>e. ev_conversation_id e = cid \<and> matches e) (map se_event (ro_entries page))"

partial_function (option) find_loop ::
  "(ReadConversationEventsInput \<Rightarrow> 'e + ReadConversationEventsResult) \<Rightarrow> js_string \<Rightarrow> (ConversationEvent \<Rightarrow> bool) \<Rightarrow>
   js_string option \<Rightarrow> js_string list \<Rightarrow> ('e find_error + ConversationEvent option) option" where
  "find_loop read cid matches cursor seenCursors =
     (case read \<lparr>ri_conversationId = cid, ri_after = map_option AfterCursor cursor, ri_limit = Some 500\<rparr> of
        Inl e \<Rightarrow> Some (Inl (ReadFailed e))
      | Inr page \<Rightarrow>
          (case page_match cid matches page of
             Some e \<Rightarrow> Some (Inr (Some e))
           | None \<Rightarrow>
               if \<not> ro_hasMore page then Some (Inr None)
               else case ro_nextCursor page of
                   None \<Rightarrow> Some (Inl HistoryDidNotAdvance)
                 | Some c \<Rightarrow>
                     if c \<in> set seenCursors then Some (Inl HistoryDidNotAdvance)
                     else find_loop read cid matches (Some c) (c # seenCursors)))"

definition findConversationEvent ::
  "(ReadConversationEventsInput \<Rightarrow> 'e + ReadConversationEventsResult) \<Rightarrow> js_string \<Rightarrow> (ConversationEvent \<Rightarrow> bool) \<Rightarrow>
   ('e find_error + ConversationEvent option) option" where
  "findConversationEvent read cid matches = find_loop read cid matches None []"

declare find_loop.simps [code]

lemma find_append_None: "find P xs = None \<Longrightarrow> find P (xs @ ys) = find P ys"
  by (induction xs) (auto split: if_splits)

lemma find_append_Some: "find P xs = Some y \<Longrightarrow> find P (xs @ ys) = Some y"
  by (induction xs) (auto split: if_splits)

lemma page_entries:
  assumes "page_of entries k page"
  shows "set (ro_entries page) \<subseteq> set entries"
proof -
  from assms obtain n where "ro_entries page = take n (drop k entries)" unfolding page_of_def by blast
  then show ?thesis by (auto dest: in_set_takeD in_set_dropD)
qed

context event_log
begin

lemma page_match_log:
  assumes inv: "inv s" and entries: "set (ro_entries page) \<subseteq> set (log_of s cid)"
  shows "page_match cid matches page = find matches (map se_event (ro_entries page))"
proof -
  have "ev_conversation_id e = cid" if "e \<in> set (map se_event (ro_entries page))" for e
    using that entries log_conversation [OF inv] by auto
  then show ?thesis unfolding page_match_def by (intro find_cong) auto
qed

text \<open>From any position whose earlier cursors are the ones seen, the loop finds the first match that remains.\<close>

lemma find_loop_finds:
  assumes inv: "inv s" and "position_of (log_of s cid) (map_option AfterCursor cursor) k"
    and "set seen \<subseteq> se_cursor ` set (take k (log_of s cid))"
  shows "find_loop (read s) cid matches cursor seen = Some (Inr (find matches (map se_event (drop k (log_of s cid)))))"
  using assms(2,3)
proof (induction "length (log_of s cid) - k" arbitrary: k cursor seen rule: less_induct)
  case less
  let ?log = "log_of s cid"
  have "limit_ok (Some 500)" by (simp add: limit_ok_def MAX_SAFE_INTEGER_def)
  from read_page [OF inv less.prems(1) this] obtain page where
    page: "read s \<lparr>ri_conversationId = cid, ri_after = map_option AfterCursor cursor, ri_limit = Some 500\<rparr> = Inr page"
      "page_of ?log k page" by blast
  have sub: "set (ro_entries page) \<subseteq> set ?log"
    by (rule page_entries [OF page(2)])
  note match = page_match_log [OF inv sub, of matches]
  show ?case
  proof (cases "ro_hasMore page")
    case False
    from page_rest [OF page(2) False] False show ?thesis
      unfolding find_loop.simps [of _ _ _ cursor] page(1) sum.case match
      by (simp split: option.split)
  next
    case True
    from page_end [OF page(2) True] obtain n where n: "0 < n" "k + n < length ?log" "ro_entries page = take n (drop k ?log)"
      "ro_nextCursor page = Some (se_cursor (?log ! (k + n - 1)))"
      "position_of ?log (map_option AfterCursor (ro_nextCursor page)) (k + n)" by blast
    let ?c = "se_cursor (?log ! (k + n - 1))"
    have rest: "drop k ?log = ro_entries page @ drop (k + n) ?log"
      using append_take_drop_id [of n "drop k ?log"] n(3) by (simp add: add.commute)
    have at: "?c \<in> se_cursor ` set (take (k + n) ?log)"
      using n(1,2) by (intro imageI) (auto simp: in_set_conv_nth intro!: exI [of _ "k + n - 1"])
    have "?c \<notin> set seen"
    proof
      assume "?c \<in> set seen"
      with less.prems(2) have "?c \<in> se_cursor ` set (take k ?log)" by (rule subsetD)
      then obtain x where x: "?c = se_cursor x" "x \<in> set (take k ?log)" by (rule imageE)
      from x(2) obtain i where i: "i < k" "x = ?log ! i" "i < length ?log"
        unfolding in_set_conv_nth by auto
      with x(1) cursor_position [OF inv i(3), of "k + n - 1"] n(1,2) show False by simp
    qed
    moreover have "find_loop (read s) cid matches (Some ?c) (?c # seen) =
        Some (Inr (find matches (map se_event (drop (k + n) ?log))))"
    proof (rule less.hyps)
      show "length ?log - (k + n) < length ?log - k" using n(1,2) by simp
      show "position_of ?log (map_option AfterCursor (Some ?c)) (k + n)" using n(4,5) by simp
      have "se_cursor ` set (take k ?log) \<subseteq> se_cursor ` set (take (k + n) ?log)"
        by (intro image_mono set_take_subset_set_take) simp
      then show "set (?c # seen) \<subseteq> se_cursor ` set (take (k + n) ?log)" using less.prems(2) at by auto
    qed
    ultimately show ?thesis
      unfolding find_loop.simps [of _ _ _ cursor] page(1) sum.case match n(4) option.case rest map_append
      using True by (cases "find matches (map se_event (ro_entries page))") (simp_all add: find_append_None find_append_Some)
  qed
qed

lemma findConversationEvent_finds:
  "inv s \<Longrightarrow> findConversationEvent (read s) cid matches = Some (Inr (find matches (map se_event (log_of s cid))))"
  using find_loop_finds [of s cid None 0 "[]" matches] by (simp add: findConversationEvent_def position_of_def)

end

text \<open>
  C16: the paged search of a conversation returns, after finitely many reads, the first event
  of the log that satisfies the predicate, or nothing when there is none, however many pages
  the log has.
\<close>

theorem findConversationEvent_first:
  assumes "store_ok store"
  shows "findConversationEvent (read_events store) cid matches =
    Some (Inr (find matches (map se_event (all_entries store cid))))"
  using assms by (rule memory.findConversationEvent_finds)

theorem findConversationEvent_first_witness:
  "findConversationEvent (read_events (index_entry (js ''c'') first_entry empty_store)) (js ''c'')
     (\<lambda>e. ev_payload e = ConversationCleared) = Some (Inr (Some (se_event first_entry)))"
proof -
  have "store_ok (index_entry (js ''c'') first_entry empty_store)"
    by (rule append_store_ok [OF empty_store_ok first_batch_appended])
  from findConversationEvent_first [OF this, of "js ''c''" "\<lambda>e. ev_payload e = ConversationCleared"] show ?thesis
    by (simp add: all_entries_def empty_store_def first_entry_def)
qed

end
