(* ===== verification/State.thy ===== *)
theory State
  imports EventValidation
begin

text \<open>
  The projection of a conversation log, from \<^verbatim>\<open>src/conversation/state.ts\<close>: one record per
  interface, a nullable or optional field as an \<open>option\<close>. Identifiers, timestamps and texts
  are strings; revisions and versions are integers (validated events keep them within the
  safe integers, where the arithmetic of the sources is exact).
\<close>

record ConversationEventAttribution =
  aa_actor :: ConversationEventActor
  aa_source :: ConversationEventSource

record ConversationMessageRecord =
  m_message_id :: js_string
  m_turn_id :: "js_string option"
  m_role :: "ConversationMessageRole option"
  m_content :: "ConversationMessageContentPart list"
  m_attachments :: "ConversationAttachmentReference list"
  m_created_at :: "js_string option"
  m_attribution :: "ConversationEventAttribution option"

record ConversationAttachmentRecord =
  ar_message_id :: js_string
  ar_attachment_id :: js_string
  ar_reference :: ConversationAttachmentReference
  ar_referenced_at :: js_string
  ar_attribution :: ConversationEventAttribution

datatype (plugins only: code size) ConversationTurnStateStatus =
  TurnOpen ConversationTurnStatus | TurnIsCompleted | TurnIsCancelled | TurnIsFailed

datatype (plugins only: code size) ConversationTurnCancellationStatus =
  CancellationRequested | CancellationUnsupported | CancellationDone

datatype (plugins only: code size) ConversationTurnRetryRecord =
    AttemptStarted int ConversationTurnAttemptOperation js_string ConversationEventAttribution
  | RetryScheduled int ConversationRetryReasonCategory int js_string ConversationEventAttribution
  | RetryExhausted int ConversationRetryReasonCategory ConversationRetryExhaustionReason js_string
      ConversationEventAttribution

definition retry_attribution :: "ConversationTurnRetryRecord \<Rightarrow> ConversationEventAttribution" where
  "retry_attribution r = (case r of AttemptStarted _ _ _ a \<Rightarrow> a | RetryScheduled _ _ _ _ a \<Rightarrow> a
     | RetryExhausted _ _ _ _ a \<Rightarrow> a)"

record ConversationTurnRecord =
  t_turn_id :: js_string
  t_continuation_of_turn_id :: "js_string option"
  t_status :: ConversationTurnStateStatus
  t_input_message_ids :: "js_string list"
  t_output_message_ids :: "js_string list"
  t_outcome :: "ConversationTurnCompletionOutcome option"
  t_cancellation_reason :: "ConversationTurnCancellationReason option"
  t_cancellation_status :: "ConversationTurnCancellationStatus option"
  t_cancellation_requested_reason :: "ConversationTurnCancellationReason option"
  t_remote_may_still_be_running :: bool
  t_error :: "ConversationTurnError option"
  t_retry_history :: "ConversationTurnRetryRecord list"
  t_started_at :: "js_string option"
  t_terminal_at :: "js_string option"
  t_attribution :: "ConversationEventAttribution option"

record ConversationToolResultRecord =
  tr_content :: "ConversationToolResultContentPart list"
  tr_is_error :: bool
  tr_citation_records :: "CitationRecordSet option"
  tr_recorded_at :: js_string
  tr_attribution :: ConversationEventAttribution

record ConversationToolCallRecord =
  tc_tool_call_id :: js_string
  tc_turn_id :: js_string
  tc_name :: "js_string option"
  tc_arguments :: "js_object option"
  tc_requested_at :: "js_string option"
  tc_discovered_at :: "js_string option"
  tc_started_at :: "js_string option"
  tc_approval_required_at :: "js_string option"
  tc_attribution :: "ConversationEventAttribution option"
  tc_result :: "ConversationToolResultRecord option"

record ConversationApprovalProposalRecord =
  ap_proposal_id :: js_string
  ap_group_id :: "js_string option"
  ap_turn_id :: js_string
  ap_tool_call_id :: js_string
  ap_tool_name :: js_string
  ap_reviewed_arguments :: ConversationApprovalReviewedArguments
  ap_status :: ConversationApprovalProposalStatus
  ap_proposal_version :: int
  ap_expires_at :: "js_string option"
  ap_created_at :: js_string
  ap_updated_at :: js_string
  ap_created_attribution :: ConversationEventAttribution
  ap_latest_attribution :: ConversationEventAttribution
  ap_decision_at :: "js_string option"
  ap_decision_attribution :: "ConversationEventAttribution option"
  ap_decision_reason :: "js_string option"
  ap_failure_reason :: "js_string option"

record ConversationToolLoopBudgetExhaustion =
  be_turn_id :: js_string
  be_budget :: ToolLoopBudget
  be_limit :: int
  be_exhausted_at :: js_string
  be_attribution :: ConversationEventAttribution

record ConversationUsageReceiptLink =
  ul_usage_receipt_id :: js_string
  ul_turn_id :: js_string
  ul_linked_at :: js_string
  ul_attribution :: ConversationEventAttribution

datatype (plugins only: code size) ConversationReplayError =
    RevisionGap js_string js_string int int
  | StaleRevision js_string js_string int int
  | ConversationMismatch js_string js_string js_string

record ConversationState =
  st_conversation_id :: "js_string option"
  st_revision :: "int option"
  st_last_event_id :: "js_string option"
  st_processed_event_ids :: "js_string list"
  st_processed_mutation_ids :: "js_string list"
  st_messages :: "ConversationMessageRecord list"
  st_attachments :: "ConversationAttachmentRecord list"
  st_citation_sources :: "CitationSource list"
  st_citations :: "Citation list"
  st_turns :: "ConversationTurnRecord list"
  st_active_turn_id :: "js_string option"
  st_tool_calls :: "ConversationToolCallRecord list"
  st_approval_proposals :: "ConversationApprovalProposalRecord list"
  st_tool_loop_budget_exhaustions :: "ConversationToolLoopBudgetExhaustion list"
  st_usage_receipt_links :: "ConversationUsageReceiptLink list"
  st_metadata :: js_object
  st_title :: "js_string option"
  st_replay_error :: "ConversationReplayError option"

definition createInitialConversationState :: "js_string option \<Rightarrow> ConversationState" where
  "createInitialConversationState conversationId =
     \<lparr>st_conversation_id = conversationId, st_revision = None, st_last_event_id = None,
      st_processed_event_ids = [], st_processed_mutation_ids = [], st_messages = [],
      st_attachments = [], st_citation_sources = [], st_citations = [], st_turns = [],
      st_active_turn_id = None, st_tool_calls = [], st_approval_proposals = [],
      st_tool_loop_budget_exhaustions = [], st_usage_receipt_links = [], st_metadata = [],
      st_title = None, st_replay_error = None\<rparr>"

end
