(* ===== verification/Reducer.thy ===== *)
theory Reducer
  imports State
begin

text \<open>
  \<^verbatim>\<open>src/conversation/reducer.ts\<close>: folding one durable event into the projection. Each case of
  the \<^verbatim>\<open>switch\<close> is a definition that takes the state with the accepted envelope, and the
  helpers keep their names. \<^verbatim>\<open>Object.freeze\<close> has no counterpart: values are immutable. The
  reducer throws in two places, on a second active turn and on citation records that do not
  normalise, so a step is a sum.
\<close>

datatype (plugins only: code size) reducer_error =
    AnotherTurnActive
  | CitationFailure validation_error

section \<open>Clones\<close>

definition cloneAttribution :: "ConversationEventActor \<Rightarrow> ConversationEventSource \<Rightarrow> ConversationEventAttribution" where
  "cloneAttribution actor source =
     \<lparr>aa_actor = \<lparr>actor_type = actor_type actor, actor_id = actor_id actor\<rparr>,
      aa_source = (case source of
          ClientSource c d \<Rightarrow> ClientSource c d
        | RuntimeSource \<Rightarrow> RuntimeSource
        | SyncSource \<Rightarrow> SyncSource
        | ImportSource \<Rightarrow> ImportSource)\<rparr>"

definition cloneAttachment :: "ConversationAttachmentReference \<Rightarrow> ConversationAttachmentReference" where
  "cloneAttachment a =
     \<lparr>at_attachment_id = at_attachment_id a, at_kind = at_kind a, at_media_type = at_media_type a,
      at_filename = at_filename a, at_size_bytes = at_size_bytes a\<rparr>"

definition cloneCitationSource :: "CitationSource \<Rightarrow> CitationSource" where
  "cloneCitationSource s = \<lparr>cs_source_id = cs_source_id s, cs_type = cs_type s, cs_label = cs_label s,
     cs_locator = cs_locator s\<rparr>"

definition cloneCitation :: "Citation \<Rightarrow> Citation" where
  "cloneCitation c = \<lparr>ct_citation_id = ct_citation_id c, ct_source_id = ct_source_id c,
     ct_order = ct_order c, ct_target = (case ct_target c of
         AssistantMessageCitationTarget m \<Rightarrow> AssistantMessageCitationTarget m
       | ToolResultCitationTarget t \<Rightarrow> ToolResultCitationTarget t)\<rparr>"

definition cloneMessageContent ::
  "ConversationMessageContentPart list \<Rightarrow> ConversationMessageContentPart list" where
  "cloneMessageContent content = map (\<lambda>part. TextPart (part_text part)) content"

fun copyJson :: "json \<Rightarrow> json" where
  "copyJson (JArr xs) = JArr (map copyJson xs)"
| "copyJson (JObj fs) = JObj (map (\<lambda>f. (fst f, copyJson (snd f))) fs)"
| "copyJson v = v"

definition cloneJsonObject :: "js_object \<Rightarrow> js_object" where
  "cloneJsonObject fs = map (\<lambda>f. (fst f, copyJson (snd f))) fs"

definition cloneToolResultContent ::
  "ConversationToolResultContentPart list \<Rightarrow> ConversationToolResultContentPart list" where
  "cloneToolResultContent content = map (\<lambda>part. case part of
     ToolTextPart t \<Rightarrow> ToolTextPart t | ToolJsonPart v \<Rightarrow> ToolJsonPart (copyJson v)) content"

definition cloneApprovalReviewedArguments ::
  "ConversationApprovalReviewedArguments \<Rightarrow> ConversationApprovalReviewedArguments" where
  "cloneApprovalReviewedArguments v = (case v of
     OpaqueReference k \<Rightarrow> OpaqueReference k | RedactedJson fs \<Rightarrow> RedactedJson (cloneJsonObject fs))"

text \<open>Every clone has the value of its original.\<close>

lemma copyJson_id [simp]: "copyJson v = v"
  by (induction v rule: copyJson.induct) (auto intro!: map_idI split: prod.splits)

lemma clones_id [simp]:
  "cloneAttachment a = a" "cloneCitationSource s = s" "cloneCitation c = c"
  "cloneMessageContent ps = ps" "cloneJsonObject fs = fs" "cloneToolResultContent ts = ts"
  "cloneApprovalReviewedArguments r = r"
  "cloneAttribution x y = \<lparr>aa_actor = x, aa_source = y\<rparr>"
proof -
  have [simp]: "(\<lambda>part. TextPart (part_text part)) = id" by (rule ext) simp
  have [simp]: "(\<lambda>part. case part of ToolTextPart t \<Rightarrow> ToolTextPart t
      | ToolJsonPart v \<Rightarrow> ToolJsonPart (copyJson v)) = id"
    by (rule ext) (simp split: ConversationToolResultContentPart.split)
  show "cloneAttachment a = a" "cloneCitationSource s = s" "cloneCitation c = c"
    "cloneMessageContent ps = ps" "cloneJsonObject fs = fs" "cloneToolResultContent ts = ts"
    "cloneApprovalReviewedArguments r = r" "cloneAttribution x y = \<lparr>aa_actor = x, aa_source = y\<rparr>"
    by (simp_all add: cloneAttachment_def cloneCitationSource_def cloneCitation_def
        cloneMessageContent_def cloneJsonObject_def cloneToolResultContent_def
        cloneApprovalReviewedArguments_def cloneAttribution_def map_idI
        split: CitationAttachmentTarget.split ConversationApprovalReviewedArguments.split
        ConversationEventSource.split)
qed

section \<open>Envelope\<close>

definition acceptEnvelope :: "ConversationState \<Rightarrow> ConversationEvent \<Rightarrow> ConversationState" where
  "acceptEnvelope state event = state
     \<lparr>st_conversation_id := Some (coalesce (st_conversation_id state) (ev_conversation_id event)),
      st_revision := Some (ev_revision event),
      st_last_event_id := Some (ev_event_id event),
      st_processed_event_ids := st_processed_event_ids state @ [ev_event_id event],
      st_processed_mutation_ids := (case ev_mutation_id event of
          None \<Rightarrow> st_processed_mutation_ids state
        | Some m \<Rightarrow> st_processed_mutation_ids state @ [m]),
      st_replay_error := None\<rparr>"

text \<open>The two errors are compared by their JSON text, which is injective on these records.\<close>

definition sameReplayError :: "ConversationReplayError option \<Rightarrow> ConversationReplayError \<Rightarrow> bool" where
  "sameReplayError left right \<longleftrightarrow> left = Some right"

definition withReplayError :: "ConversationState \<Rightarrow> ConversationReplayError \<Rightarrow> ConversationState" where
  "withReplayError state error =
     (if sameReplayError (st_replay_error state) error then state
      else state\<lparr>st_replay_error := Some error\<rparr>)"

section \<open>Messages\<close>

definition findMessage :: "ConversationState \<Rightarrow> js_string \<Rightarrow> nat option" where
  "findMessage state m = findIndex (\<lambda>message. m_message_id message = m) (st_messages state)"

definition updateMessages :: "ConversationState \<Rightarrow> nat \<Rightarrow> ConversationMessageRecord \<Rightarrow> ConversationState" where
  "updateMessages state index message = state\<lparr>st_messages := (st_messages state)[index := message]\<rparr>"

definition appendMessage :: "ConversationState \<Rightarrow> ConversationMessageRecord \<Rightarrow> ConversationState" where
  "appendMessage state message = state\<lparr>st_messages := st_messages state @ [message]\<rparr>"

definition insertImportedMessage ::
  "ConversationMessageRecord list \<Rightarrow> ConversationMessageRecord \<Rightarrow> ConversationMessageRecord list" where
  "insertImportedMessage messages message =
     (case findIndex (\<lambda>existing. case (m_created_at existing, m_created_at message) of
              (Some created, Some timestamp) \<Rightarrow> date_less timestamp created
            | _ \<Rightarrow> False) messages of
        None \<Rightarrow> messages @ [message]
      | Some index \<Rightarrow> take index messages @ [message] @ drop index messages)"

definition removeCitationsForAssistantMessage :: "ConversationState \<Rightarrow> js_string \<Rightarrow> ConversationState" where
  "removeCitationsForAssistantMessage state messageId =
     state\<lparr>st_citations := filter (\<lambda>c. ct_target c \<noteq> AssistantMessageCitationTarget messageId) (st_citations state)\<rparr>"

definition appendMessageText ::
  "ConversationMessageContentPart list \<Rightarrow> js_string \<Rightarrow> ConversationMessageContentPart list" where
  "appendMessageText content text =
     (if content = [] then [TextPart text]
      else content[length content - 1 := TextPart (part_text (content ! (length content - 1)) @ text)])"

definition messagePlaceholder :: "js_string \<Rightarrow> ConversationAttachmentReference list \<Rightarrow> ConversationMessageRecord" where
  "messagePlaceholder m attachments = \<lparr>m_message_id = m, m_turn_id = None, m_role = None, m_content = [],
     m_attachments = attachments, m_created_at = None, m_attribution = None\<rparr>"

definition removeAt :: "nat \<Rightarrow> 'a list \<Rightarrow> 'a list" where
  "removeAt i xs = take i xs @ drop (Suc i) xs"

definition on_message_created :: "ConversationState \<Rightarrow> ConversationEvent \<Rightarrow> ConversationEventAttribution \<Rightarrow>
    js_string \<Rightarrow> ConversationMessageRole \<Rightarrow> ConversationMessageContentPart list \<Rightarrow> ConversationState" where
  "on_message_created accepted event attribution messageId role content =
     (case findMessage accepted messageId of
        Some index \<Rightarrow>
          (let current = st_messages accepted ! index in
           if m_role current \<noteq> None then accepted
           else let replacement = current\<lparr>m_role := Some role, m_content := cloneMessageContent content,
                      m_created_at := Some (ev_occurred_at event), m_attribution := Some attribution\<rparr>;
                    updated = (if ev_source event = ImportSource
                      then accepted\<lparr>st_messages :=
                             insertImportedMessage (removeAt index (st_messages accepted)) replacement\<rparr>
                      else updateMessages accepted index replacement)
                in if role = RoleAssistant then updated
                   else removeCitationsForAssistantMessage updated messageId)
      | None \<Rightarrow>
          (let message = \<lparr>m_message_id = messageId, m_turn_id = None, m_role = Some role,
                 m_content = cloneMessageContent content, m_attachments = [],
                 m_created_at = Some (ev_occurred_at event), m_attribution = Some attribution\<rparr>
           in if ev_source event = ImportSource
              then accepted\<lparr>st_messages := insertImportedMessage (st_messages accepted) message\<rparr>
              else appendMessage accepted message))"

definition on_text_appended :: "ConversationState \<Rightarrow> ConversationEvent \<Rightarrow> ConversationEventAttribution \<Rightarrow>
    js_string \<Rightarrow> js_string \<Rightarrow> js_string \<Rightarrow> ConversationState" where
  "on_text_appended accepted event attribution turnId messageId text =
     (case findMessage accepted messageId of
        Some index \<Rightarrow>
          (let current = st_messages accepted ! index in
           if (m_role current \<noteq> None \<and> m_role current \<noteq> Some RoleAssistant) \<or>
              (m_role current = Some RoleAssistant \<and> m_turn_id current \<noteq> Some turnId)
           then accepted
           else updateMessages accepted index (current
             \<lparr>m_turn_id := Some turnId, m_role := Some RoleAssistant,
              m_content := appendMessageText (m_content current) text,
              m_created_at := Some (coalesce (m_created_at current) (ev_occurred_at event)),
              m_attribution := Some (coalesce (m_attribution current) attribution)\<rparr>))
      | None \<Rightarrow> appendMessage accepted
          \<lparr>m_message_id = messageId, m_turn_id = Some turnId, m_role = Some RoleAssistant,
           m_content = [TextPart text], m_attachments = [],
           m_created_at = Some (ev_occurred_at event), m_attribution = Some attribution\<rparr>)"

definition on_attachment_referenced :: "ConversationState \<Rightarrow> ConversationEvent \<Rightarrow> ConversationEventAttribution \<Rightarrow>
    js_string \<Rightarrow> ConversationAttachmentReference \<Rightarrow> ConversationState" where
  "on_attachment_referenced accepted event attribution messageId attachment =
     (let reference = cloneAttachment attachment;
          alreadyLinked = list_ex (\<lambda>a. ar_message_id a = messageId \<and>
            ar_attachment_id a = at_attachment_id reference) (st_attachments accepted);
          attachments = (if alreadyLinked then st_attachments accepted
            else st_attachments accepted @ [\<lparr>ar_message_id = messageId,
              ar_attachment_id = at_attachment_id reference, ar_reference = reference,
              ar_referenced_at = ev_occurred_at event, ar_attribution = attribution\<rparr>])
      in case findMessage accepted messageId of
        Some index \<Rightarrow>
          (let message = st_messages accepted ! index in
           if list_ex (\<lambda>a. at_attachment_id a = at_attachment_id reference) (m_attachments message)
           then accepted\<lparr>st_attachments := attachments\<rparr>
           else (updateMessages accepted index
                  (message\<lparr>m_attachments := m_attachments message @ [reference]\<rparr>))
                  \<lparr>st_attachments := attachments\<rparr>)
      | None \<Rightarrow> (appendMessage accepted (messagePlaceholder messageId [reference]))
                  \<lparr>st_attachments := attachments\<rparr>)"

section \<open>Citations\<close>

fun merge_records :: "('a \<Rightarrow> js_string) \<Rightarrow> ('a \<Rightarrow> json) \<Rightarrow> ('a \<Rightarrow> 'a) \<Rightarrow> 'a list \<Rightarrow> 'a list \<Rightarrow> 'a list option" where
  "merge_records identity encode clone kept [] = Some kept"
| "merge_records identity encode clone kept (r # rs) =
     (case find (\<lambda>candidate. identity candidate = identity r) kept of
        Some existing \<Rightarrow>
          if jsonValuesEqual (encode existing) (encode r)
          then merge_records identity encode clone kept rs else None
      | None \<Rightarrow> merge_records identity encode clone (kept @ [clone r]) rs)"

definition mergeCitationRecords :: "ConversationState \<Rightarrow> CitationRecordSet \<Rightarrow> ConversationState option" where
  "mergeCitationRecords state records =
     (case merge_records cs_source_id citation_source_json cloneCitationSource
             (st_citation_sources state) (rs_sources records) of
        None \<Rightarrow> None
      | Some sources \<Rightarrow>
          (case merge_records ct_citation_id citation_json cloneCitation (st_citations state) (rs_citations records) of
             None \<Rightarrow> None
           | Some citations \<Rightarrow> Some (state\<lparr>st_citation_sources := sources, st_citations := citations\<rparr>)))"

definition findToolCall :: "ConversationState \<Rightarrow> js_string \<Rightarrow> nat option" where
  "findToolCall state c = findIndex (\<lambda>toolCall. tc_tool_call_id toolCall = c) (st_tool_calls state)"

definition toolCallPlaceholder :: "js_string \<Rightarrow> js_string \<Rightarrow> ConversationToolCallRecord" where
  "toolCallPlaceholder turnId toolCallId = \<lparr>tc_tool_call_id = toolCallId, tc_turn_id = turnId,
     tc_name = None, tc_arguments = None, tc_requested_at = None, tc_discovered_at = None,
     tc_started_at = None, tc_approval_required_at = None, tc_attribution = None, tc_result = None\<rparr>"

definition appendToolCall :: "ConversationState \<Rightarrow> ConversationToolCallRecord \<Rightarrow> ConversationState" where
  "appendToolCall state toolCall = state\<lparr>st_tool_calls := st_tool_calls state @ [toolCall]\<rparr>"

definition link_citation_target :: "ConversationState \<Rightarrow> ConversationState \<Rightarrow> ConversationCitationTarget \<Rightarrow> ConversationState" where
  "link_citation_target accepted merged target = (case target of
     AssistantMessageTarget messageId \<Rightarrow>
       (case findMessage accepted messageId of
          Some index \<Rightarrow>
            if m_role (st_messages accepted ! index) \<notin> {None, Some RoleAssistant} then accepted else merged
        | None \<Rightarrow> appendMessage merged (messagePlaceholder messageId []))
   | ToolResultTarget turnId toolCallId \<Rightarrow>
       (case findToolCall accepted toolCallId of
          Some index \<Rightarrow> if tc_turn_id (st_tool_calls accepted ! index) \<noteq> turnId then accepted else merged
        | None \<Rightarrow> appendToolCall merged (toolCallPlaceholder turnId toolCallId)))"

definition on_records_linked :: "url_parser \<Rightarrow> ConversationState \<Rightarrow> ConversationCitationTarget \<Rightarrow>
    CitationSource list \<Rightarrow> Citation list \<Rightarrow> reducer_error + ConversationState" where
  "on_records_linked parse_url accepted target sources citations =
     (case normalizeCitationRecords parse_url
             (citation_records_json \<lparr>rs_sources = sources, rs_citations = citations\<rparr>) of
        Inl e \<Rightarrow> Inl (CitationFailure e)
      | Inr records \<Rightarrow> Inr (case mergeCitationRecords accepted records of
            None \<Rightarrow> accepted
          | Some merged \<Rightarrow> link_citation_target accepted merged target))"

section \<open>Turns\<close>

definition findTurn :: "ConversationState \<Rightarrow> js_string \<Rightarrow> nat option" where
  "findTurn state turnId = findIndex (\<lambda>turn. t_turn_id turn = turnId) (st_turns state)"

definition isTerminal :: "ConversationTurnRecord \<Rightarrow> bool" where
  "isTerminal turn \<longleftrightarrow> t_status turn = TurnIsCompleted \<or> t_status turn = TurnIsCancelled \<or>
     t_status turn = TurnIsFailed"

definition isTerminalTurn :: "ConversationState \<Rightarrow> js_string \<Rightarrow> bool" where
  "isTerminalTurn state turnId = (case findTurn state turnId of
     None \<Rightarrow> False | Some index \<Rightarrow> isTerminal (st_turns state ! index))"

definition emptyTurn :: "js_string \<Rightarrow> ConversationTurnStateStatus \<Rightarrow> ConversationEventAttribution \<Rightarrow> ConversationTurnRecord" where
  "emptyTurn turnId status attribution =
     \<lparr>t_turn_id = turnId, t_continuation_of_turn_id = None, t_status = status,
      t_input_message_ids = [], t_output_message_ids = [], t_outcome = None,
      t_cancellation_reason = None, t_cancellation_status = None,
      t_cancellation_requested_reason = None, t_remote_may_still_be_running = True, t_error = None,
      t_retry_history = [], t_started_at = None, t_terminal_at = None, t_attribution = Some attribution\<rparr>"

definition appendTurn :: "ConversationState \<Rightarrow> ConversationTurnRecord \<Rightarrow> js_string option \<Rightarrow> ConversationState" where
  "appendTurn state turn activeTurnId =
     state\<lparr>st_turns := st_turns state @ [turn], st_active_turn_id := activeTurnId\<rparr>"

definition updateTurn :: "ConversationState \<Rightarrow> nat \<Rightarrow> ConversationTurnRecord \<Rightarrow> js_string option \<Rightarrow> ConversationState" where
  "updateTurn state index turn activeTurnId =
     state\<lparr>st_turns := (st_turns state)[index := turn], st_active_turn_id := activeTurnId\<rparr>"

text \<open>The fields a terminal event sets; the two optional ones may be absent.\<close>

record terminal_fields =
  tm_status :: ConversationTurnStateStatus
  tm_output_message_ids :: "js_string list"
  tm_outcome :: "ConversationTurnCompletionOutcome option"
  tm_cancellation_reason :: "ConversationTurnCancellationReason option"
  tm_cancellation_status :: "ConversationTurnCancellationStatus option"
  tm_cancellation_requested_reason :: "ConversationTurnCancellationReason option"
  tm_error :: "ConversationTurnError option"

definition override :: "'a option \<Rightarrow> 'a option \<Rightarrow> 'a option" where
  "override present current = (case present of None \<Rightarrow> current | Some x \<Rightarrow> Some x)"

definition apply_terminal :: "ConversationTurnRecord \<Rightarrow> terminal_fields \<Rightarrow> js_string \<Rightarrow> ConversationTurnRecord" where
  "apply_terminal turn terminal terminalAt = turn
     \<lparr>t_status := tm_status terminal, t_output_message_ids := tm_output_message_ids terminal,
      t_outcome := tm_outcome terminal, t_cancellation_reason := tm_cancellation_reason terminal,
      t_cancellation_status := override (tm_cancellation_status terminal) (t_cancellation_status turn),
      t_cancellation_requested_reason :=
        override (tm_cancellation_requested_reason terminal) (t_cancellation_requested_reason turn),
      t_remote_may_still_be_running := False, t_error := tm_error terminal,
      t_terminal_at := Some terminalAt\<rparr>"

definition terminateTurn :: "ConversationState \<Rightarrow> js_string \<Rightarrow> js_string \<Rightarrow> ConversationEventAttribution \<Rightarrow>
    terminal_fields \<Rightarrow> ConversationState" where
  "terminateTurn state turnId terminalAt attribution terminal =
     (case findTurn state turnId of
        Some index \<Rightarrow>
          (let current = st_turns state ! index in
           if isTerminal current then state
           else updateTurn state index (apply_terminal current terminal terminalAt)
             (if st_active_turn_id state = Some turnId then None else st_active_turn_id state))
      | None \<Rightarrow> appendTurn state
          (apply_terminal (emptyTurn turnId (tm_status terminal) attribution) terminal terminalAt)
          (st_active_turn_id state))"

definition updateTurnCancellation :: "ConversationState \<Rightarrow> js_string \<Rightarrow> ConversationTurnCancellationStatus \<Rightarrow>
    ConversationTurnCancellationReason \<Rightarrow> ConversationEventAttribution \<Rightarrow> ConversationState" where
  "updateTurnCancellation state turnId status reason attribution =
     (case findTurn state turnId of
        Some index \<Rightarrow>
          (let turn = st_turns state ! index in
           if isTerminal turn then state
           else updateTurn state index
             (turn\<lparr>t_cancellation_status := Some status, t_cancellation_requested_reason := Some reason,
                   t_remote_may_still_be_running := True\<rparr>) (st_active_turn_id state))
      | None \<Rightarrow> appendTurn state
          ((emptyTurn turnId (TurnOpen Queued) attribution)
            \<lparr>t_cancellation_status := Some status, t_cancellation_requested_reason := Some reason\<rparr>)
          (Some turnId))"

definition appendTurnRetryRecord :: "ConversationState \<Rightarrow> js_string \<Rightarrow> ConversationTurnRetryRecord \<Rightarrow> ConversationState" where
  "appendTurnRetryRecord state turnId retry =
     (case findTurn state turnId of
        Some index \<Rightarrow>
          (let turn = st_turns state ! index in
           updateTurn state index (turn\<lparr>t_retry_history := t_retry_history turn @ [retry]\<rparr>)
             (st_active_turn_id state))
      | None \<Rightarrow> appendTurn state
          ((emptyTurn turnId (TurnOpen Queued) (retry_attribution retry))\<lparr>t_retry_history := [retry]\<rparr>)
          (Some turnId))"

definition on_turn_started :: "ConversationState \<Rightarrow> ConversationEvent \<Rightarrow> ConversationEventAttribution \<Rightarrow>
    js_string \<Rightarrow> js_string list \<Rightarrow> js_string option \<Rightarrow> ConversationState" where
  "on_turn_started accepted event attribution turnId inputs continuation =
     (case findTurn accepted turnId of
        Some index \<Rightarrow>
          (let turn = st_turns accepted ! index in
           if isTerminal turn \<or> t_started_at turn \<noteq> None then accepted
           else updateTurn accepted index
             (turn\<lparr>t_input_message_ids := inputs, t_continuation_of_turn_id := continuation,
                   t_started_at := Some (ev_occurred_at event), t_attribution := Some attribution\<rparr>)
             (Some turnId))
      | None \<Rightarrow> appendTurn accepted
          ((emptyTurn turnId (TurnOpen Queued) attribution)
            \<lparr>t_input_message_ids := inputs, t_continuation_of_turn_id := continuation,
             t_started_at := Some (ev_occurred_at event)\<rparr>)
          (Some turnId))"

definition on_turn_status_changed :: "ConversationState \<Rightarrow> ConversationEventAttribution \<Rightarrow>
    js_string \<Rightarrow> ConversationTurnStatus \<Rightarrow> reducer_error + ConversationState" where
  "on_turn_status_changed accepted attribution turnId status =
     (let waiting = (status = WaitingForApproval);
          activeId = (if waiting
            then (if st_active_turn_id accepted = Some turnId then None else st_active_turn_id accepted)
            else Some turnId)
      in case findTurn accepted turnId of
        Some index \<Rightarrow>
          (let turn = st_turns accepted ! index in
           if isTerminal turn then Inr accepted
           else if \<not> waiting \<and> st_active_turn_id accepted \<noteq> None \<and> st_active_turn_id accepted \<noteq> Some turnId
           then Inl AnotherTurnActive
           else Inr (updateTurn accepted index
             (turn\<lparr>t_status := TurnOpen status, t_remote_may_still_be_running := \<not> waiting\<rparr>) activeId))
      | None \<Rightarrow> Inr (appendTurn accepted
          ((emptyTurn turnId (TurnOpen status) attribution)\<lparr>t_remote_may_still_be_running := \<not> waiting\<rparr>)
          activeId))"

definition completed_fields :: "ConversationTurnCompletionOutcome \<Rightarrow> js_string list \<Rightarrow> terminal_fields" where
  "completed_fields outcome outputs = \<lparr>tm_status = TurnIsCompleted, tm_output_message_ids = outputs,
     tm_outcome = Some outcome, tm_cancellation_reason = None, tm_cancellation_status = None,
     tm_cancellation_requested_reason = None, tm_error = None\<rparr>"

definition cancelled_fields :: "ConversationTurnCancellationReason \<Rightarrow> terminal_fields" where
  "cancelled_fields reason = \<lparr>tm_status = TurnIsCancelled, tm_output_message_ids = [],
     tm_outcome = None, tm_cancellation_reason = Some reason,
     tm_cancellation_status = Some CancellationDone,
     tm_cancellation_requested_reason = Some reason, tm_error = None\<rparr>"

definition failed_fields :: "ConversationTurnError \<Rightarrow> terminal_fields" where
  "failed_fields error = \<lparr>tm_status = TurnIsFailed, tm_output_message_ids = [],
     tm_outcome = None, tm_cancellation_reason = None, tm_cancellation_status = None,
     tm_cancellation_requested_reason = None, tm_error = Some error\<rparr>"

section \<open>Tool calls\<close>

definition updateToolCall :: "ConversationState \<Rightarrow> nat \<Rightarrow> ConversationToolCallRecord \<Rightarrow> ConversationState" where
  "updateToolCall state index toolCall = state\<lparr>st_tool_calls := (st_tool_calls state)[index := toolCall]\<rparr>"

definition on_tool_call_requested :: "ConversationState \<Rightarrow> ConversationEvent \<Rightarrow> ConversationEventAttribution \<Rightarrow>
    js_string \<Rightarrow> js_string \<Rightarrow> js_string \<Rightarrow> js_object \<Rightarrow> ConversationState" where
  "on_tool_call_requested accepted event attribution turnId toolCallId name arguments =
     (if isTerminalTurn accepted turnId then accepted
      else case findToolCall accepted toolCallId of
        Some index \<Rightarrow>
          (let current = st_tool_calls accepted ! index in
           if tc_name current \<noteq> None \<or> tc_turn_id current \<noteq> turnId then accepted
           else updateToolCall accepted index (current
             \<lparr>tc_name := Some name, tc_arguments := Some (cloneJsonObject arguments),
              tc_requested_at := Some (ev_occurred_at event), tc_attribution := Some attribution\<rparr>))
      | None \<Rightarrow> appendToolCall accepted ((toolCallPlaceholder turnId toolCallId)
          \<lparr>tc_name := Some name, tc_arguments := Some (cloneJsonObject arguments),
           tc_requested_at := Some (ev_occurred_at event), tc_attribution := Some attribution\<rparr>))"

text \<open>The three markers differ in the field they set, \<^verbatim>\<open>current[field]\<close> in the source.\<close>

datatype (plugins only: code size) marker_field = DiscoveredAt | StartedAt | ApprovalRequiredAt

definition marker :: "marker_field \<Rightarrow> ConversationToolCallRecord \<Rightarrow> js_string option" where
  "marker field t = (case field of DiscoveredAt \<Rightarrow> tc_discovered_at t | StartedAt \<Rightarrow> tc_started_at t
     | ApprovalRequiredAt \<Rightarrow> tc_approval_required_at t)"

definition set_marker :: "marker_field \<Rightarrow> js_string \<Rightarrow> ConversationToolCallRecord \<Rightarrow> ConversationToolCallRecord" where
  "set_marker field time t = (case field of
     DiscoveredAt \<Rightarrow> t\<lparr>tc_discovered_at := Some time\<rparr>
   | StartedAt \<Rightarrow> t\<lparr>tc_started_at := Some time\<rparr>
   | ApprovalRequiredAt \<Rightarrow> t\<lparr>tc_approval_required_at := Some time\<rparr>)"

definition on_tool_call_marker :: "ConversationState \<Rightarrow> ConversationEvent \<Rightarrow> marker_field \<Rightarrow>
    js_string \<Rightarrow> js_string \<Rightarrow> ConversationState" where
  "on_tool_call_marker accepted event field turnId toolCallId =
     (case findToolCall accepted toolCallId of
        Some index \<Rightarrow>
          (let current = st_tool_calls accepted ! index in
           if tc_turn_id current \<noteq> turnId \<or> marker field current \<noteq> None then accepted
           else updateToolCall accepted index (set_marker field (ev_occurred_at event) current))
      | None \<Rightarrow> appendToolCall accepted
          (set_marker field (ev_occurred_at event) (toolCallPlaceholder turnId toolCallId)))"

definition on_result_recorded :: "url_parser \<Rightarrow> ConversationState \<Rightarrow> ConversationEvent \<Rightarrow> ConversationEventAttribution \<Rightarrow>
    js_string \<Rightarrow> js_string \<Rightarrow> ConversationToolResultContentPart list \<Rightarrow> bool \<Rightarrow> CitationRecordSet option \<Rightarrow>
    reducer_error + ConversationState" where
  "on_result_recorded parse_url accepted event attribution turnId toolCallId content isError citationRecords =
     (case (case citationRecords of
              None \<Rightarrow> Inr None
            | Some r \<Rightarrow> map_sum CitationFailure Some (normalizeCitationRecords parse_url (citation_records_json r))) of
        Inl e \<Rightarrow> Inl e
      | Inr records \<Rightarrow> Inr
          (let result = \<lparr>tr_content = cloneToolResultContent content, tr_is_error = isError,
                 tr_citation_records = records, tr_recorded_at = ev_occurred_at event,
                 tr_attribution = attribution\<rparr>
           in case findToolCall accepted toolCallId of
             Some index \<Rightarrow>
               (let current = st_tool_calls accepted ! index in
                if tc_result current \<noteq> None \<or> tc_turn_id current \<noteq> turnId then accepted
                else updateToolCall accepted index (current\<lparr>tc_result := Some result\<rparr>))
           | None \<Rightarrow> appendToolCall accepted
               ((toolCallPlaceholder turnId toolCallId)\<lparr>tc_result := Some result\<rparr>)))"

section \<open>Approval proposals\<close>

definition findProposal :: "ConversationState \<Rightarrow> js_string \<Rightarrow> nat option" where
  "findProposal state p = findIndex (\<lambda>proposal. ap_proposal_id proposal = p) (st_approval_proposals state)"

definition created_proposal :: "ConversationEvent \<Rightarrow> ConversationEventAttribution \<Rightarrow>
    ApprovalProposalCreatedPayload \<Rightarrow> ConversationApprovalProposalRecord" where
  "created_proposal event attribution payload =
     \<lparr>ap_proposal_id = pc_proposal_id payload, ap_group_id = pc_group_id payload,
      ap_turn_id = pc_turn_id payload, ap_tool_call_id = pc_tool_call_id payload,
      ap_tool_name = pc_tool_name payload,
      ap_reviewed_arguments = cloneApprovalReviewedArguments (pc_reviewed_arguments payload),
      ap_status = Pending, ap_proposal_version = 1, ap_expires_at = pc_expires_at payload,
      ap_created_at = ev_occurred_at event, ap_updated_at = ev_occurred_at event,
      ap_created_attribution = attribution, ap_latest_attribution = attribution,
      ap_decision_at = None, ap_decision_attribution = None, ap_decision_reason = None,
      ap_failure_reason = None\<rparr>"

definition on_proposal_created :: "ConversationState \<Rightarrow> ConversationEvent \<Rightarrow> ConversationEventAttribution \<Rightarrow>
    ApprovalProposalCreatedPayload \<Rightarrow> ConversationState" where
  "on_proposal_created accepted event attribution payload =
     (if isTerminalTurn accepted (pc_turn_id payload) \<or>
         list_ex (\<lambda>p. ap_proposal_id p = pc_proposal_id payload) (st_approval_proposals accepted)
      then accepted
      else case findToolCall accepted (pc_tool_call_id payload) of
        None \<Rightarrow> accepted
      | Some index \<Rightarrow>
          (let toolCall = st_tool_calls accepted ! index in
           if tc_turn_id toolCall \<noteq> pc_turn_id payload \<or> tc_name toolCall \<noteq> Some (pc_tool_name payload)
           then accepted
           else accepted
             \<lparr>st_tool_calls := (if tc_approval_required_at toolCall = None
                then (st_tool_calls accepted)[index :=
                       toolCall\<lparr>tc_approval_required_at := Some (ev_occurred_at event)\<rparr>]
                else st_tool_calls accepted),
              st_approval_proposals :=
                st_approval_proposals accepted @ [created_proposal event attribution payload]\<rparr>))"

definition isDecision :: "ConversationApprovalProposalStatus \<Rightarrow> bool" where
  "isDecision s \<longleftrightarrow> s \<in> {Confirmed, Rejected, Expired}"

text \<open>\<^verbatim>\<open>isDecision && "decision_reason" in payload ? payload.decision_reason ?? null : current.decision_reason\<close>.\<close>

definition changed_decision_reason :: "ApprovalProposalChange \<Rightarrow> js_string option \<Rightarrow> js_string option" where
  "changed_decision_reason change current = (case change of
     ChangeConfirmed (Some r) \<Rightarrow> Some r
   | ChangeRejected (Some r) \<Rightarrow> Some r
   | ChangeExpired (Some r) \<Rightarrow> Some r
   | _ \<Rightarrow> current)"

definition changed_failure_reason :: "ApprovalProposalChange \<Rightarrow> js_string option \<Rightarrow> js_string option" where
  "changed_failure_reason change current = (case change of
     ChangeFailed r \<Rightarrow> Some r | ChangeExecuting \<Rightarrow> None | _ \<Rightarrow> current)"

definition changed_proposal :: "ConversationEvent \<Rightarrow> ConversationEventAttribution \<Rightarrow> int \<Rightarrow> ApprovalProposalChange \<Rightarrow>
    ConversationApprovalProposalRecord \<Rightarrow> ConversationApprovalProposalRecord" where
  "changed_proposal event attribution version change current =
     (let status = change_status change in current
        \<lparr>ap_status := status, ap_proposal_version := version, ap_updated_at := ev_occurred_at event,
         ap_latest_attribution := attribution,
         ap_decision_at := (if isDecision status then Some (ev_occurred_at event) else ap_decision_at current),
         ap_decision_attribution := (if isDecision status then Some attribution else ap_decision_attribution current),
         ap_decision_reason := changed_decision_reason change (ap_decision_reason current),
         ap_failure_reason := changed_failure_reason change (ap_failure_reason current)\<rparr>)"

definition updateApprovalProposal ::
  "ConversationState \<Rightarrow> nat \<Rightarrow> ConversationApprovalProposalRecord \<Rightarrow> ConversationState" where
  "updateApprovalProposal state index proposal =
     state\<lparr>st_approval_proposals := (st_approval_proposals state)[index := proposal]\<rparr>"

definition expiry_too_early :: "ConversationEvent \<Rightarrow> ConversationApprovalProposalRecord \<Rightarrow> bool" where
  "expiry_too_early event current = (case ap_expires_at current of
     None \<Rightarrow> True | Some deadline \<Rightarrow> date_less (ev_occurred_at event) deadline)"

definition on_proposal_status_changed :: "ConversationState \<Rightarrow> ConversationEvent \<Rightarrow> ConversationEventAttribution \<Rightarrow>
    js_string \<Rightarrow> int \<Rightarrow> ApprovalProposalChange \<Rightarrow> ConversationState" where
  "on_proposal_status_changed accepted event attribution proposalId version change =
     (case findProposal accepted proposalId of
        None \<Rightarrow> accepted
      | Some index \<Rightarrow>
          (let current = st_approval_proposals accepted ! index in
           if change_status change = Expired \<and> expiry_too_early event current then accepted
           else if version \<noteq> ap_proposal_version current + 1 \<or>
             \<not> isLegalConversationApprovalProposalTransition (ap_status current) (change_status change)
           then accepted
           else updateApprovalProposal accepted index
             (changed_proposal event attribution version change current)))"

section \<open>Budgets, receipts and clearing\<close>

definition on_budget_exhausted :: "ConversationState \<Rightarrow> ConversationEvent \<Rightarrow> ConversationEventAttribution \<Rightarrow>
    js_string \<Rightarrow> ToolLoopBudget \<Rightarrow> int \<Rightarrow> ConversationState" where
  "on_budget_exhausted accepted event attribution turnId budget limit =
     (if list_ex (\<lambda>item. be_turn_id item = turnId \<and> be_budget item = budget)
           (st_tool_loop_budget_exhaustions accepted) then accepted
      else accepted\<lparr>st_tool_loop_budget_exhaustions := st_tool_loop_budget_exhaustions accepted @
        [\<lparr>be_turn_id = turnId, be_budget = budget, be_limit = limit,
          be_exhausted_at = ev_occurred_at event, be_attribution = attribution\<rparr>]\<rparr>)"

definition on_receipt_linked :: "ConversationState \<Rightarrow> ConversationEvent \<Rightarrow> ConversationEventAttribution \<Rightarrow>
    js_string \<Rightarrow> js_string \<Rightarrow> ConversationState" where
  "on_receipt_linked accepted event attribution turnId receiptId =
     (if list_ex (\<lambda>link. ul_usage_receipt_id link = receiptId) (st_usage_receipt_links accepted) then accepted
      else accepted\<lparr>st_usage_receipt_links := st_usage_receipt_links accepted @
        [\<lparr>ul_usage_receipt_id = receiptId, ul_turn_id = turnId, ul_linked_at = ev_occurred_at event,
          ul_attribution = attribution\<rparr>]\<rparr>)"

definition on_cleared :: "ConversationState \<Rightarrow> ConversationEvent \<Rightarrow> ConversationState" where
  "on_cleared accepted event = (createInitialConversationState (Some (ev_conversation_id event)))
     \<lparr>st_revision := st_revision accepted, st_last_event_id := st_last_event_id accepted,
      st_processed_event_ids := st_processed_event_ids accepted,
      st_processed_mutation_ids := st_processed_mutation_ids accepted\<rparr>"

section \<open>The reducer\<close>

primrec reduce_payload :: "url_parser \<Rightarrow> ConversationState \<Rightarrow> ConversationEvent \<Rightarrow> ConversationEventAttribution \<Rightarrow>
    ConversationEventPayload \<Rightarrow> reducer_error + ConversationState" where
  "reduce_payload U s e a ConversationCleared = Inr (on_cleared s e)"
| "reduce_payload U s e a (MessageCreated m r c) = Inr (on_message_created s e a m r c)"
| "reduce_payload U s e a (MessageTextAppended t m x) = Inr (on_text_appended s e a t m x)"
| "reduce_payload U s e a (MessageAttachmentReferenced m x) = Inr (on_attachment_referenced s e a m x)"
| "reduce_payload U s e a (CitationRecordsLinked t ss cs) = on_records_linked U s t ss cs"
| "reduce_payload U s e a (TurnStarted t ms c) = Inr (on_turn_started s e a t ms c)"
| "reduce_payload U s e a (TurnStatusChanged t st) = on_turn_status_changed s a t st"
| "reduce_payload U s e a (TurnAttemptStarted t n x) =
     Inr (appendTurnRetryRecord s t (AttemptStarted n x (ev_occurred_at e) a))"
| "reduce_payload U s e a (TurnRetryScheduled t n r d) =
     Inr (appendTurnRetryRecord s t (RetryScheduled n r d (ev_occurred_at e) a))"
| "reduce_payload U s e a (TurnRetryExhausted t n r x) =
     Inr (appendTurnRetryRecord s t (RetryExhausted n r x (ev_occurred_at e) a))"
| "reduce_payload U s e a (TurnCancellationRequested t r) = Inr (updateTurnCancellation s t CancellationRequested r a)"
| "reduce_payload U s e a (TurnCancellationUnsupported t r) = Inr (updateTurnCancellation s t CancellationUnsupported r a)"
| "reduce_payload U s e a (TurnCompleted t x ms) = Inr (terminateTurn s t (ev_occurred_at e) a (completed_fields x ms))"
| "reduce_payload U s e a (TurnCancelled t r) = Inr (terminateTurn s t (ev_occurred_at e) a (cancelled_fields r))"
| "reduce_payload U s e a (TurnFailed t x) = Inr (terminateTurn s t (ev_occurred_at e) a (failed_fields x))"
| "reduce_payload U s e a (ToolCallRequested t c n x) = Inr (on_tool_call_requested s e a t c n x)"
| "reduce_payload U s e a (ToolCallDiscovered t c) = Inr (on_tool_call_marker s e DiscoveredAt t c)"
| "reduce_payload U s e a (ToolCallStarted t c) = Inr (on_tool_call_marker s e StartedAt t c)"
| "reduce_payload U s e a (ToolCallApprovalRequired t c) = Inr (on_tool_call_marker s e ApprovalRequiredAt t c)"
| "reduce_payload U s e a (ApprovalProposalCreated q) = Inr (on_proposal_created s e a q)"
| "reduce_payload U s e a (ApprovalProposalStatusChanged q v c) = Inr (on_proposal_status_changed s e a q v c)"
| "reduce_payload U s e a (ToolCallResultRecorded t c ps b r) = on_result_recorded U s e a t c ps b r"
| "reduce_payload U s e a (ToolLoopBudgetExhausted t b n) = Inr (on_budget_exhausted s e a t b n)"
| "reduce_payload U s e a (UsageReceiptLinked t u) = Inr (on_receipt_linked s e a t u)"
| "reduce_payload U s e a (ConversationMetadataUpdated m) = Inr (s\<lparr>st_metadata := cloneJsonObject m\<rparr>)"
| "reduce_payload U s e a (ConversationTitleUpdated x) = Inr (s\<lparr>st_title := x\<rparr>)"

definition already_processed :: "ConversationState \<Rightarrow> ConversationEvent \<Rightarrow> bool" where
  "already_processed state event \<longleftrightarrow> ev_event_id event \<in> set (st_processed_event_ids state) \<or>
     (case ev_mutation_id event of None \<Rightarrow> False | Some m \<Rightarrow> m \<in> set (st_processed_mutation_ids state))"

definition expected_revision :: "ConversationState \<Rightarrow> int" where
  "expected_revision state = coalesce (st_revision state) 0 + 1"

definition revision_error :: "ConversationState \<Rightarrow> ConversationEvent \<Rightarrow> ConversationReplayError" where
  "revision_error state event =
     (if expected_revision state < ev_revision event then RevisionGap else StaleRevision)
       (ev_conversation_id event) (ev_event_id event) (expected_revision state) (ev_revision event)"

definition reduceConversationEvent ::
  "url_parser \<Rightarrow> ConversationState \<Rightarrow> ConversationEvent \<Rightarrow> reducer_error + ConversationState" where
  "reduceConversationEvent parse_url state event =
     (if already_processed state event then Inr state
      else case st_conversation_id state of
        Some cid \<Rightarrow>
          if cid \<noteq> ev_conversation_id event
          then Inr (withReplayError state
            (ConversationMismatch (ev_conversation_id event) (ev_event_id event) cid))
          else if ev_revision event \<noteq> expected_revision state
          then Inr (withReplayError state (revision_error state event))
          else reduce_payload parse_url (acceptEnvelope state event) event
            (cloneAttribution (ev_actor event) (ev_source event)) (ev_payload event)
      | None \<Rightarrow>
          if ev_revision event \<noteq> expected_revision state
          then Inr (withReplayError state (revision_error state event))
          else reduce_payload parse_url (acceptEnvelope state event) event
            (cloneAttribution (ev_actor event) (ev_source event)) (ev_payload event))"

text \<open>Folding a sequence of events, as the stores do.\<close>

fun reduceEvents :: "url_parser \<Rightarrow> ConversationState \<Rightarrow> ConversationEvent list \<Rightarrow> reducer_error + ConversationState" where
  "reduceEvents parse_url state [] = Inr state"
| "reduceEvents parse_url state (event # events) =
     bindE (reduceConversationEvent parse_url state event) (\<lambda>next. reduceEvents parse_url next events)"

end
