(* ===== verification/ReducerInvariants.thy ===== *)
theory ReducerInvariants
  imports Reducer
begin

text \<open>
  The well-formedness of the projection and its preservation by every event. The invariant
  has five parts, one per group of fields: the log position (\<open>log_ok\<close>), messages with their
  attachments (\<open>messages_ok\<close>), turns with the active turn (\<open>turns_ok\<close>), tool calls with the
  approval proposals (\<open>tools_ok\<close>) and the citation records (\<open>citations_ok\<close>). An operation
  that does not touch a group keeps it by the frame lemmas collected in \<open>keeps\<close>.
\<close>

section \<open>Frames\<close>

text \<open>Each operation changes the fields it is about and no others.\<close>

definition log_part where
  "log_part s = (st_conversation_id s, st_revision s, st_last_event_id s, st_processed_event_ids s,
     st_processed_mutation_ids s, st_replay_error s)"

definition message_part where "message_part s = (st_messages s, st_attachments s)"
definition turn_part where "turn_part s = (st_turns s, st_active_turn_id s)"
definition tool_part where "tool_part s = (st_tool_calls s, st_approval_proposals s)"
definition citation_part where "citation_part s = (st_citation_sources s, st_citations s)"

lemmas parts = log_part_def message_part_def turn_part_def tool_part_def citation_part_def

lemma primitive_frame [keeps]:
  "log_part (updateMessages s i m) = log_part s" "turn_part (updateMessages s i m) = turn_part s"
  "tool_part (updateMessages s i m) = tool_part s" "citation_part (updateMessages s i m) = citation_part s"
  "log_part (appendMessage s m) = log_part s" "turn_part (appendMessage s m) = turn_part s"
  "tool_part (appendMessage s m) = tool_part s" "citation_part (appendMessage s m) = citation_part s"
  "log_part (removeCitationsForAssistantMessage s x) = log_part s"
  "turn_part (removeCitationsForAssistantMessage s x) = turn_part s"
  "tool_part (removeCitationsForAssistantMessage s x) = tool_part s"
  "message_part (removeCitationsForAssistantMessage s x) = message_part s"
  "log_part (updateTurn s i t ac) = log_part s" "message_part (updateTurn s i t ac) = message_part s"
  "tool_part (updateTurn s i t ac) = tool_part s" "citation_part (updateTurn s i t ac) = citation_part s"
  "log_part (appendTurn s t ac) = log_part s" "message_part (appendTurn s t ac) = message_part s"
  "tool_part (appendTurn s t ac) = tool_part s" "citation_part (appendTurn s t ac) = citation_part s"
  "log_part (updateToolCall s i c) = log_part s" "message_part (updateToolCall s i c) = message_part s"
  "turn_part (updateToolCall s i c) = turn_part s" "citation_part (updateToolCall s i c) = citation_part s"
  "log_part (appendToolCall s c) = log_part s" "message_part (appendToolCall s c) = message_part s"
  "turn_part (appendToolCall s c) = turn_part s" "citation_part (appendToolCall s c) = citation_part s"
  "log_part (updateApprovalProposal s i q) = log_part s" "message_part (updateApprovalProposal s i q) = message_part s"
  "turn_part (updateApprovalProposal s i q) = turn_part s" "citation_part (updateApprovalProposal s i q) = citation_part s"
  by (simp_all add: parts updateMessages_def appendMessage_def removeCitationsForAssistantMessage_def
      updateTurn_def appendTurn_def updateToolCall_def appendToolCall_def updateApprovalProposal_def)

lemma update_frame [keeps]:
  "log_part (s\<lparr>st_messages := ms\<rparr>) = log_part s" "turn_part (s\<lparr>st_messages := ms\<rparr>) = turn_part s"
  "tool_part (s\<lparr>st_messages := ms\<rparr>) = tool_part s" "citation_part (s\<lparr>st_messages := ms\<rparr>) = citation_part s"
  "log_part (s\<lparr>st_attachments := xs\<rparr>) = log_part s" "turn_part (s\<lparr>st_attachments := xs\<rparr>) = turn_part s"
  "tool_part (s\<lparr>st_attachments := xs\<rparr>) = tool_part s" "citation_part (s\<lparr>st_attachments := xs\<rparr>) = citation_part s"
  "log_part (s\<lparr>st_metadata := md\<rparr>) = log_part s" "turn_part (s\<lparr>st_metadata := md\<rparr>) = turn_part s"
  "tool_part (s\<lparr>st_metadata := md\<rparr>) = tool_part s" "citation_part (s\<lparr>st_metadata := md\<rparr>) = citation_part s"
  "message_part (s\<lparr>st_metadata := md\<rparr>) = message_part s"
  "log_part (s\<lparr>st_title := ti\<rparr>) = log_part s" "turn_part (s\<lparr>st_title := ti\<rparr>) = turn_part s"
  "tool_part (s\<lparr>st_title := ti\<rparr>) = tool_part s" "citation_part (s\<lparr>st_title := ti\<rparr>) = citation_part s"
  "message_part (s\<lparr>st_title := ti\<rparr>) = message_part s"
  by (simp_all add: parts)

lemma message_frame [keeps]:
  "log_part (on_message_created s e a m r c) = log_part s" "turn_part (on_message_created s e a m r c) = turn_part s"
  "tool_part (on_message_created s e a m r c) = tool_part s"
  "log_part (on_text_appended s e a t m x) = log_part s" "turn_part (on_text_appended s e a t m x) = turn_part s"
  "tool_part (on_text_appended s e a t m x) = tool_part s" "citation_part (on_text_appended s e a t m x) = citation_part s"
  "log_part (on_attachment_referenced s e a m y) = log_part s" "turn_part (on_attachment_referenced s e a m y) = turn_part s"
  "tool_part (on_attachment_referenced s e a m y) = tool_part s"
  "citation_part (on_attachment_referenced s e a m y) = citation_part s"
  by (simp_all add: keeps on_message_created_def on_text_appended_def on_attachment_referenced_def Let_def
      split: option.split)

lemma turn_frame [keeps]:
  "log_part (on_turn_started s e a t ms c) = log_part s" "message_part (on_turn_started s e a t ms c) = message_part s"
  "tool_part (on_turn_started s e a t ms c) = tool_part s" "citation_part (on_turn_started s e a t ms c) = citation_part s"
  "log_part (terminateTurn s t time a fs) = log_part s" "message_part (terminateTurn s t time a fs) = message_part s"
  "tool_part (terminateTurn s t time a fs) = tool_part s" "citation_part (terminateTurn s t time a fs) = citation_part s"
  "log_part (updateTurnCancellation s t cs cr a) = log_part s"
  "message_part (updateTurnCancellation s t cs cr a) = message_part s"
  "tool_part (updateTurnCancellation s t cs cr a) = tool_part s"
  "citation_part (updateTurnCancellation s t cs cr a) = citation_part s"
  "log_part (appendTurnRetryRecord s t r) = log_part s" "message_part (appendTurnRetryRecord s t r) = message_part s"
  "tool_part (appendTurnRetryRecord s t r) = tool_part s" "citation_part (appendTurnRetryRecord s t r) = citation_part s"
  by (simp_all add: keeps on_turn_started_def terminateTurn_def updateTurnCancellation_def
      appendTurnRetryRecord_def Let_def split: option.split)

lemma turn_status_frame:
  assumes "on_turn_status_changed s a t st = Inr s'"
  shows "log_part s' = log_part s" "message_part s' = message_part s" "tool_part s' = tool_part s"
    "citation_part s' = citation_part s"
  using assms by (auto simp: keeps on_turn_status_changed_def Let_def split: option.splits if_splits)

lemma tool_frame [keeps]:
  "log_part (on_tool_call_requested s e a t c n x) = log_part s"
  "message_part (on_tool_call_requested s e a t c n x) = message_part s"
  "turn_part (on_tool_call_requested s e a t c n x) = turn_part s"
  "citation_part (on_tool_call_requested s e a t c n x) = citation_part s"
  "log_part (on_tool_call_marker s e f t c) = log_part s" "message_part (on_tool_call_marker s e f t c) = message_part s"
  "turn_part (on_tool_call_marker s e f t c) = turn_part s" "citation_part (on_tool_call_marker s e f t c) = citation_part s"
  by (simp_all add: keeps on_tool_call_requested_def on_tool_call_marker_def Let_def split: option.split)

lemma result_frame:
  assumes "on_result_recorded U s e a t c ps b r = Inr s'"
  shows "log_part s' = log_part s" "message_part s' = message_part s" "turn_part s' = turn_part s"
    "citation_part s' = citation_part s"
  using assms by (auto simp: keeps on_result_recorded_def Let_def split: option.splits if_splits sum.splits)

lemma proposal_frame [keeps]:
  "log_part (on_proposal_created s e a q) = log_part s" "message_part (on_proposal_created s e a q) = message_part s"
  "turn_part (on_proposal_created s e a q) = turn_part s" "citation_part (on_proposal_created s e a q) = citation_part s"
  "log_part (on_proposal_status_changed s e a p v c) = log_part s"
  "message_part (on_proposal_status_changed s e a p v c) = message_part s"
  "turn_part (on_proposal_status_changed s e a p v c) = turn_part s"
  "citation_part (on_proposal_status_changed s e a p v c) = citation_part s"
  by (simp_all add: parts on_proposal_created_def on_proposal_status_changed_def updateApprovalProposal_def Let_def
      split: option.split)

lemma misc_frame [keeps]:
  "log_part (on_budget_exhausted s e a t b n) = log_part s" "message_part (on_budget_exhausted s e a t b n) = message_part s"
  "turn_part (on_budget_exhausted s e a t b n) = turn_part s" "tool_part (on_budget_exhausted s e a t b n) = tool_part s"
  "citation_part (on_budget_exhausted s e a t b n) = citation_part s"
  "log_part (on_receipt_linked s e a t u) = log_part s" "message_part (on_receipt_linked s e a t u) = message_part s"
  "turn_part (on_receipt_linked s e a t u) = turn_part s" "tool_part (on_receipt_linked s e a t u) = tool_part s"
  "citation_part (on_receipt_linked s e a t u) = citation_part s"
  by (simp_all add: parts on_budget_exhausted_def on_receipt_linked_def)

lemma merge_frame:
  assumes "mergeCitationRecords s r = Some s'"
  shows "log_part s' = log_part s" "message_part s' = message_part s" "turn_part s' = turn_part s"
    "tool_part s' = tool_part s"
  using assms by (auto simp: parts mergeCitationRecords_def split: option.splits)

lemma records_linked_frame:
  assumes "on_records_linked U s t ss cs = Inr s'"
  shows "log_part s' = log_part s" "turn_part s' = turn_part s"
  using assms
  by (auto simp: keeps on_records_linked_def link_citation_target_def
      dest: merge_frame split: sum.splits option.splits ConversationCitationTarget.splits if_splits)

lemmas throwing_frames = turn_status_frame result_frame records_linked_frame

section \<open>The log position\<close>

definition log_ok :: "ConversationState \<Rightarrow> bool" where
  "log_ok s \<longleftrightarrow>
     st_revision s = (if st_processed_event_ids s = [] then None else Some (int (length (st_processed_event_ids s)))) \<and>
     st_last_event_id s = (if st_processed_event_ids s = [] then None else Some (last (st_processed_event_ids s))) \<and>
     (st_processed_event_ids s \<noteq> [] \<longrightarrow> st_conversation_id s \<noteq> None) \<and>
     distinct (st_processed_event_ids s) \<and> distinct (st_processed_mutation_ids s)"

lemma log_ok_part: "log_part s' = log_part s \<Longrightarrow> log_ok s' \<longleftrightarrow> log_ok s"
  by (simp add: log_ok_def log_part_def)

lemma expected_revision_length: "log_ok s \<Longrightarrow> expected_revision s = int (length (st_processed_event_ids s)) + 1"
  by (auto simp: log_ok_def expected_revision_def)

lemma acceptEnvelope_log:
  assumes "log_ok s" "\<not> already_processed s e" "ev_revision e = expected_revision s"
  shows "log_ok (acceptEnvelope s e)"
  using assms expected_revision_length [OF assms(1)]
  by (auto simp: log_ok_def acceptEnvelope_def already_processed_def split: option.splits)

lemma acceptEnvelope_frame [keeps]:
  "message_part (acceptEnvelope s e) = message_part s" "turn_part (acceptEnvelope s e) = turn_part s"
  "tool_part (acceptEnvelope s e) = tool_part s" "citation_part (acceptEnvelope s e) = citation_part s"
  by (simp_all add: parts acceptEnvelope_def)

lemma reduce_payload_log:
  assumes "reduce_payload U s e a p = Inr s'" "st_conversation_id s = Some (ev_conversation_id e)"
    "st_replay_error s = None"
  shows "log_part s' = log_part s"
proof (cases p)
  case ConversationCleared
  with assms show ?thesis by (auto simp: log_part_def on_cleared_def createInitialConversationState_def)
qed (use assms(1) throwing_frames in \<open>auto simp: keeps\<close>)

section \<open>Turns\<close>

text \<open>A turn's terminal fields are set together, by the event that ended it.\<close>

definition turn_ok :: "ConversationTurnRecord \<Rightarrow> bool" where
  "turn_ok t \<longleftrightarrow> (isTerminal t \<longleftrightarrow> t_terminal_at t \<noteq> None) \<and>
     (isTerminal t \<longrightarrow> \<not> t_remote_may_still_be_running t) \<and>
     (t_outcome t \<noteq> None \<longleftrightarrow> t_status t = TurnIsCompleted) \<and>
     (t_error t \<noteq> None \<longleftrightarrow> t_status t = TurnIsFailed) \<and>
     (t_cancellation_reason t \<noteq> None \<longleftrightarrow> t_status t = TurnIsCancelled) \<and>
     (t_cancellation_status t = Some CancellationDone \<longleftrightarrow> t_status t = TurnIsCancelled) \<and>
     (t_status t = TurnIsCancelled \<longrightarrow> t_cancellation_requested_reason t = t_cancellation_reason t) \<and>
     (t_status t \<noteq> TurnIsCompleted \<longrightarrow> t_output_message_ids t = [])"

definition turns_ok :: "ConversationState \<Rightarrow> bool" where
  "turns_ok s \<longleftrightarrow> distinct (map t_turn_id (st_turns s)) \<and> (\<forall>t \<in> set (st_turns s). turn_ok t) \<and>
     (\<forall>i. st_active_turn_id s = Some i \<longrightarrow> (\<exists>t \<in> set (st_turns s). t_turn_id t = i \<and> \<not> isTerminal t))"

lemma turns_ok_part: "turn_part s' = turn_part s \<Longrightarrow> turns_ok s' \<longleftrightarrow> turns_ok s"
  by (simp add: turns_ok_def turn_part_def)

lemma findTurn_Some:
  "findTurn s t = Some i \<Longrightarrow> i < length (st_turns s) \<and> t_turn_id (st_turns s ! i) = t"
  unfolding findTurn_def by (drule findIndex_SomeD) simp

lemma findTurn_None: "findTurn s t = None \<longleftrightarrow> t \<notin> t_turn_id ` set (st_turns s)"
  by (auto simp: findTurn_def)

lemma turns_ok_append:
  assumes "turns_ok s" "t_turn_id t \<notin> t_turn_id ` set (st_turns s)" "turn_ok t"
    "\<And>i. ac = Some i \<Longrightarrow> st_active_turn_id s = Some i \<or> (i = t_turn_id t \<and> \<not> isTerminal t)"
  shows "turns_ok (appendTurn s t ac)"
  using assms by (fastforce simp: turns_ok_def appendTurn_def)

text \<open>The active turn of a well-formed state is the one found under its identity.\<close>

lemma active_not_terminal:
  assumes "turns_ok s" "st_active_turn_id s = Some t" "findTurn s t = Some i"
  shows "\<not> isTerminal (st_turns s ! i)"
proof -
  from assms(1,2) obtain u where u: "u \<in> set (st_turns s)" "t_turn_id u = t" "\<not> isTerminal u"
    by (auto simp: turns_ok_def)
  with findTurn_Some [OF assms(3)] assms(1) have "u = st_turns s ! i"
    by (auto simp: turns_ok_def distinct_map inj_on_def)
  with u show ?thesis by simp
qed

lemma turns_ok_update:
  assumes ok: "turns_ok s" and i: "findTurn s x = Some i" and t: "t_turn_id t = x" "turn_ok t"
    and ac: "\<And>j. ac = Some j \<Longrightarrow> (j = x \<and> \<not> isTerminal t) \<or> (j \<noteq> x \<and> st_active_turn_id s = Some j)"
  shows "turns_ok (updateTurn s i t ac)"
proof -
  note idx = findTurn_Some [OF i]
  have "distinct (map t_turn_id ((st_turns s)[i := t]))"
    using ok idx t(1) by (simp add: turns_ok_def)
  moreover have "\<forall>u \<in> set ((st_turns s)[i := t]). turn_ok u"
    using ok t(2) by (auto simp: turns_ok_def dest: set_list_update_memD)
  moreover have "\<exists>u \<in> set ((st_turns s)[i := t]). t_turn_id u = j \<and> \<not> isTerminal u" if j: "ac = Some j" for j
    using ac [OF j]
  proof
    assume "j = x \<and> \<not> isTerminal t"
    with idx t(1) show ?thesis by (auto intro!: bexI [of _ t] set_update_memI)
  next
    assume other: "j \<noteq> x \<and> st_active_turn_id s = Some j"
    with ok obtain u where u: "u \<in> set (st_turns s)" "t_turn_id u = j" "\<not> isTerminal u"
      by (auto simp: turns_ok_def)
    then obtain k where k: "k < length (st_turns s)" "u = st_turns s ! k" by (auto simp: in_set_conv_nth)
    with u other idx have "k \<noteq> i" by auto
    with k have "u = (st_turns s)[i := t] ! k" by simp
    with k u show ?thesis by (metis length_list_update nth_mem)
  qed
  ultimately show ?thesis by (simp add: turns_ok_def updateTurn_def)
qed

lemma emptyTurn_ok: "turn_ok (emptyTurn t (TurnOpen st) a)"
  by (simp add: turn_ok_def emptyTurn_def isTerminal_def)

lemma turn_at_ok: "turns_ok s \<Longrightarrow> findTurn s t = Some i \<Longrightarrow> turn_ok (st_turns s ! i)"
  using findTurn_Some by (auto simp: turns_ok_def)

lemma open_simps [simp]:
  "isTerminal (t\<lparr>t_status := st\<rparr>) \<longleftrightarrow> st \<in> {TurnIsCompleted, TurnIsCancelled, TurnIsFailed}"
  "isTerminal (t\<lparr>t_remote_may_still_be_running := b\<rparr>) = isTerminal t"
  "isTerminal (t\<lparr>t_cancellation_status := x\<rparr>) = isTerminal t"
  "isTerminal (t\<lparr>t_cancellation_requested_reason := y\<rparr>) = isTerminal t"
  "isTerminal (t\<lparr>t_retry_history := rs\<rparr>) = isTerminal t"
  "isTerminal (t\<lparr>t_attribution := att\<rparr>) = isTerminal t"
  "isTerminal (t\<lparr>t_started_at := sa\<rparr>) = isTerminal t"
  "isTerminal (t\<lparr>t_input_message_ids := ms\<rparr>) = isTerminal t"
  "isTerminal (t\<lparr>t_continuation_of_turn_id := c\<rparr>) = isTerminal t"
  "isTerminal (emptyTurn i (TurnOpen os) a) = False"
  by (auto simp: isTerminal_def emptyTurn_def)

lemma emptyTurn_id [simp]: "t_turn_id (emptyTurn i st a) = i"
  by (simp add: emptyTurn_def)

text \<open>The fields of the three terminal events are consistent.\<close>

definition terminal_ok :: "terminal_fields \<Rightarrow> bool" where
  "terminal_ok f \<longleftrightarrow> tm_status f \<in> {TurnIsCompleted, TurnIsCancelled, TurnIsFailed} \<and>
     (tm_outcome f \<noteq> None \<longleftrightarrow> tm_status f = TurnIsCompleted) \<and>
     (tm_error f \<noteq> None \<longleftrightarrow> tm_status f = TurnIsFailed) \<and>
     (tm_cancellation_reason f \<noteq> None \<longleftrightarrow> tm_status f = TurnIsCancelled) \<and>
     tm_cancellation_status f = (if tm_status f = TurnIsCancelled then Some CancellationDone else None) \<and>
     tm_cancellation_requested_reason f = tm_cancellation_reason f \<and>
     (tm_status f \<noteq> TurnIsCompleted \<longrightarrow> tm_output_message_ids f = [])"

lemma terminal_fields_ok:
  "terminal_ok (completed_fields x ms)" "terminal_ok (cancelled_fields r)" "terminal_ok (failed_fields err)"
  by (simp_all add: terminal_ok_def completed_fields_def cancelled_fields_def failed_fields_def)

lemma apply_terminal_ok:
  assumes "terminal_ok f" "t_cancellation_status t \<noteq> Some CancellationDone"
  shows "turn_ok (apply_terminal t f time)" "isTerminal (apply_terminal t f time)"
  using assms by (auto simp: turn_ok_def terminal_ok_def apply_terminal_def isTerminal_def override_def)

lemma terminateTurn_turns:
  assumes "turns_ok s" "terminal_ok f"
  shows "turns_ok (terminateTurn s t time a f)"
proof (cases "findTurn s t")
  case None
  moreover have "turns_ok (appendTurn s (apply_terminal (emptyTurn t (tm_status f) a) f time) (st_active_turn_id s))"
    using assms None by (intro turns_ok_append apply_terminal_ok)
      (auto simp: findTurn_None apply_terminal_def emptyTurn_def)
  ultimately show ?thesis by (simp add: terminateTurn_def)
next
  case (Some i)
  show ?thesis
  proof (cases "isTerminal (st_turns s ! i)")
    case False
    with turn_at_ok [OF assms(1) Some] have "t_cancellation_status (st_turns s ! i) \<noteq> Some CancellationDone"
      by (auto simp: turn_ok_def isTerminal_def)
    with assms Some have "turns_ok (updateTurn s i (apply_terminal (st_turns s ! i) f time)
        (if st_active_turn_id s = Some t then None else st_active_turn_id s))"
      by (intro turns_ok_update [OF assms(1) Some] apply_terminal_ok)
        (auto simp: apply_terminal_def findTurn_Some split: if_splits)
    with Some False show ?thesis by (simp add: terminateTurn_def Let_def)
  qed (use assms Some in \<open>simp add: terminateTurn_def Let_def\<close>)
qed

lemma retry_turns:
  assumes ok: "turns_ok s"
  shows "turns_ok (appendTurnRetryRecord s t r)"
proof (cases "findTurn s t")
  case None
  then have "t \<notin> t_turn_id ` set (st_turns s)" by (simp add: findTurn_None)
  with ok None show ?thesis
    by (auto intro!: turns_ok_append simp: appendTurnRetryRecord_def turn_ok_def emptyTurn_def isTerminal_def)
next
  case (Some i)
  have "turn_ok ((st_turns s ! i)\<lparr>t_retry_history := t_retry_history (st_turns s ! i) @ [r]\<rparr>)"
    using turn_at_ok [OF ok Some] by (simp add: turn_ok_def)
  with ok Some active_not_terminal [OF ok _ Some] show ?thesis
    unfolding appendTurnRetryRecord_def Some option.case Let_def
    by (intro turns_ok_update [OF ok Some]) (auto simp: findTurn_Some [OF Some])
qed

lemma cancellation_turns:
  assumes ok: "turns_ok s" and st: "st \<noteq> CancellationDone"
  shows "turns_ok (updateTurnCancellation s t st r a)"
proof (cases "findTurn s t")
  case None
  then have "t \<notin> t_turn_id ` set (st_turns s)" by (simp add: findTurn_None)
  with ok st None show ?thesis
    by (auto intro!: turns_ok_append simp: updateTurnCancellation_def turn_ok_def emptyTurn_def isTerminal_def)
next
  case (Some i)
  let ?t = "(st_turns s ! i)\<lparr>t_cancellation_status := Some st, t_cancellation_requested_reason := Some r,
    t_remote_may_still_be_running := True\<rparr>"
  show ?thesis
  proof (cases "isTerminal (st_turns s ! i)")
    case False
    with turn_at_ok [OF ok Some] st have "turn_ok ?t" by (auto simp: turn_ok_def isTerminal_def)
    with ok Some False have "turns_ok (updateTurn s i ?t (st_active_turn_id s))"
      by (intro turns_ok_update [OF ok Some]) (auto simp: findTurn_Some)
    with Some False show ?thesis by (simp add: updateTurnCancellation_def Let_def)
  qed (use ok Some in \<open>simp add: updateTurnCancellation_def Let_def\<close>)
qed

lemma started_turns:
  assumes ok: "turns_ok s"
  shows "turns_ok (on_turn_started s e a t ms c)"
proof (cases "findTurn s t")
  case None
  then have "t \<notin> t_turn_id ` set (st_turns s)" by (simp add: findTurn_None)
  with ok None show ?thesis
    by (auto intro!: turns_ok_append simp: on_turn_started_def turn_ok_def emptyTurn_def isTerminal_def)
next
  case (Some i)
  let ?t = "(st_turns s ! i)\<lparr>t_input_message_ids := ms, t_continuation_of_turn_id := c,
    t_started_at := Some (ev_occurred_at e), t_attribution := Some a\<rparr>"
  have "turn_ok ?t" using turn_at_ok [OF ok Some] by (simp add: turn_ok_def)
  then have "turns_ok (updateTurn s i ?t (Some t))" if "\<not> isTerminal (st_turns s ! i)"
    using that by (intro turns_ok_update [OF ok Some]) (auto simp: findTurn_Some [OF Some])
  with ok Some show ?thesis by (simp add: on_turn_started_def Let_def)
qed

lemma status_turns:
  assumes ok: "turns_ok s" and step: "on_turn_status_changed s a t st = Inr s'"
  shows "turns_ok s'"
proof (cases "findTurn s t")
  case None
  then have "t \<notin> t_turn_id ` set (st_turns s)" by (simp add: findTurn_None)
  moreover have "s' = appendTurn s ((emptyTurn t (TurnOpen st) a)\<lparr>t_remote_may_still_be_running := st \<noteq> WaitingForApproval\<rparr>)
      (if st = WaitingForApproval then (if st_active_turn_id s = Some t then None else st_active_turn_id s) else Some t)"
    using step None by (simp add: on_turn_status_changed_def Let_def)
  ultimately show ?thesis
    using ok by (auto intro!: turns_ok_append simp: turn_ok_def emptyTurn_def isTerminal_def split: if_splits)
next
  case (Some i)
  let ?t = "(st_turns s ! i)\<lparr>t_status := TurnOpen st, t_remote_may_still_be_running := st \<noteq> WaitingForApproval\<rparr>"
  show ?thesis
  proof (cases "isTerminal (st_turns s ! i)")
    case True
    with step Some ok show ?thesis by (simp add: on_turn_status_changed_def Let_def)
  next
    case False
    with turn_at_ok [OF ok Some] have t: "turn_ok ?t" by (auto simp: turn_ok_def isTerminal_def)
    have "s' = updateTurn s i ?t
      (if st = WaitingForApproval then (if st_active_turn_id s = Some t then None else st_active_turn_id s) else Some t)"
      using step Some False by (auto simp: on_turn_status_changed_def Let_def split: if_splits)
    with t show ?thesis
      by (auto intro!: turns_ok_update [OF ok Some] simp: findTurn_Some [OF Some] split: if_splits)
  qed
qed

lemma cleared_ok: "turns_ok (on_cleared s e)"
  by (simp add: turns_ok_def on_cleared_def createInitialConversationState_def)

lemma reduce_payload_turns:
  assumes "reduce_payload U s e a p = Inr s'" "turns_ok s"
  shows "turns_ok s'"
proof -
  have frame: "turns_ok s'" if "turn_part s' = turn_part s"
    using turns_ok_part [OF that] assms(2) by simp
  show ?thesis
  proof (cases p)
    case (TurnStatusChanged t st)
    with assms status_turns show ?thesis by simp
  next
    case (CitationRecordsLinked t ss cs)
    with assms(1) records_linked_frame(2) frame show ?thesis by simp
  next
    case (ToolCallResultRecorded t c ps b r)
    with assms(1) result_frame(3) frame show ?thesis by simp
  qed (use assms frame terminal_fields_ok in \<open>auto simp: keeps terminateTurn_turns retry_turns
      cancellation_turns started_turns cleared_ok\<close>)
qed

section \<open>Messages and attachments\<close>

text \<open>
  The attachments of a message are the references of its attachment records, in order; a
  message without a role is a placeholder.
\<close>

definition references_of :: "ConversationAttachmentRecord list \<Rightarrow> js_string \<Rightarrow> ConversationAttachmentReference list" where
  "references_of rs m = map ar_reference (filter (\<lambda>r. ar_message_id r = m) rs)"

definition message_ok :: "ConversationMessageRecord \<Rightarrow> bool" where
  "message_ok m \<longleftrightarrow> (m_role m = None \<longrightarrow> m_content m = [] \<and> m_turn_id m = None) \<and>
     (m_role m = None \<longleftrightarrow> m_created_at m = None) \<and> (m_role m = None \<longleftrightarrow> m_attribution m = None) \<and>
     (m_turn_id m \<noteq> None \<longrightarrow> m_role m = Some RoleAssistant)"

definition messages_ok :: "ConversationState \<Rightarrow> bool" where
  "messages_ok s \<longleftrightarrow> distinct (map m_message_id (st_messages s)) \<and>
     (\<forall>m \<in> set (st_messages s). message_ok m \<and> m_attachments m = references_of (st_attachments s) (m_message_id m)) \<and>
     (\<forall>r \<in> set (st_attachments s). ar_message_id r \<in> m_message_id ` set (st_messages s) \<and>
        ar_attachment_id r = at_attachment_id (ar_reference r)) \<and>
     distinct (map (\<lambda>r. (ar_message_id r, ar_attachment_id r)) (st_attachments s))"

lemma messages_ok_part: "message_part s' = message_part s \<Longrightarrow> messages_ok s' \<longleftrightarrow> messages_ok s"
  by (simp add: messages_ok_def message_part_def)

lemma message_ok_attachments [simp]: "message_ok (m\<lparr>m_attachments := x\<rparr>) = message_ok m"
  by (simp add: message_ok_def)

lemma findMessage_Some:
  "findMessage s m = Some i \<Longrightarrow> i < length (st_messages s) \<and> m_message_id (st_messages s ! i) = m"
  unfolding findMessage_def by (drule findIndex_SomeD) simp

lemma findMessage_None: "findMessage s m = None \<longleftrightarrow> m \<notin> m_message_id ` set (st_messages s)"
  by (auto simp: findMessage_def)

lemma references_of_append [simp]: "references_of (rs @ [r]) m =
    references_of rs m @ (if ar_message_id r = m then [ar_reference r] else [])"
  by (simp add: references_of_def)

lemma references_of_fresh: "m \<notin> ar_message_id ` set rs \<Longrightarrow> references_of rs m = []"
  by (auto simp: references_of_def filter_empty_conv)

text \<open>
  Replacing the messages by others with the same identities and attachments: the shape of
  every message operation that leaves the attachment records alone.
\<close>

lemma messages_ok_cong:
  assumes ok: "messages_ok s" and ids: "mset (map m_message_id ms) = mset (map m_message_id (st_messages s))"
    and each: "\<And>m. m \<in> set ms \<Longrightarrow> message_ok m \<and> m_attachments m = references_of (st_attachments s) (m_message_id m)"
  shows "messages_ok (s\<lparr>st_messages := ms\<rparr>)"
proof -
  have "distinct (map m_message_id ms)"
    using ok mset_eq_imp_distinct_iff [OF ids] by (simp add: messages_ok_def)
  moreover have "m_message_id ` set ms = m_message_id ` set (st_messages s)"
    using ids by (metis list.set_map mset_eq_setD)
  ultimately show ?thesis using ok each by (simp add: messages_ok_def)
qed

lemma messages_ok_add:
  assumes ok: "messages_ok s" and fresh: "m_message_id m \<notin> m_message_id ` set (st_messages s)"
    and m: "message_ok m" "m_attachments m = []" and ms: "mset ms = add_mset m (mset (st_messages s))"
  shows "messages_ok (s\<lparr>st_messages := ms\<rparr>)"
proof -
  have set: "set ms = insert m (set (st_messages s))" using arg_cong [OF ms, of set_mset] by simp
  have "mset (map m_message_id ms) = mset (m_message_id m # map m_message_id (st_messages s))"
    by (simp add: ms)
  then have "distinct (map m_message_id ms) \<longleftrightarrow> distinct (m_message_id m # map m_message_id (st_messages s))"
    by (rule mset_eq_imp_distinct_iff)
  then have "distinct (map m_message_id ms)" using ok fresh by (simp add: messages_ok_def)
  moreover have "references_of (st_attachments s) (m_message_id m) = []"
    using ok fresh by (intro references_of_fresh) (auto simp: messages_ok_def)
  ultimately show ?thesis using ok m by (auto simp: messages_ok_def set)
qed

lemma mset_insertImported: "mset (insertImportedMessage ms m) = add_mset m (mset ms)"
proof (cases "findIndex (\<lambda>existing. case (m_created_at existing, m_created_at m) of
              (Some created, Some timestamp) \<Rightarrow> date_less timestamp created
            | _ \<Rightarrow> False) ms")
  case (Some i)
  have "mset (take i ms) + mset (drop i ms) = mset ms" by (metis append_take_drop_id mset_append)
  with Some show ?thesis unfolding insertImportedMessage_def Some by simp
next
  case None
  then show ?thesis unfolding insertImportedMessage_def None by simp
qed

lemma mset_removeAt: "i < length xs \<Longrightarrow> add_mset (xs ! i) (mset (removeAt i xs)) = mset xs"
  using arg_cong [OF id_take_nth_drop, of i xs mset] by (simp add: removeAt_def)

lemma message_at_ok:
  assumes "messages_ok s" "findMessage s m = Some i"
  shows "message_ok (st_messages s ! i)" "m_attachments (st_messages s ! i) = references_of (st_attachments s) m"
  using assms findMessage_Some by (auto simp: messages_ok_def)

lemma updateMessages_ok:
  assumes ok: "messages_ok s" and i: "findMessage s m = Some i"
    and u: "m_message_id u = m" "message_ok u" "m_attachments u = m_attachments (st_messages s ! i)"
  shows "messages_ok (updateMessages s i u)"
  unfolding updateMessages_def
proof (rule messages_ok_cong [OF ok])
  show "mset (map m_message_id ((st_messages s)[i := u])) = mset (map m_message_id (st_messages s))"
    using findMessage_Some [OF i] u(1) by simp
  fix x assume "x \<in> set ((st_messages s)[i := u])"
  then have "x = u \<or> x \<in> set (st_messages s)" by (rule set_list_update_memD)
  then show "message_ok x \<and> m_attachments x = references_of (st_attachments s) (m_message_id x)"
    using ok u message_at_ok [OF ok i] by (auto simp: messages_ok_def)
qed

lemma created_messages:
  assumes ok: "messages_ok s"
  shows "messages_ok (on_message_created s e a m r c)"
proof (cases "findMessage s m")
  case None
  let ?m = "\<lparr>m_message_id = m, m_turn_id = None, m_role = Some r, m_content = c, m_attachments = [],
    m_created_at = Some (ev_occurred_at e), m_attribution = Some a\<rparr>"
  have "messages_ok (s\<lparr>st_messages := ms\<rparr>)" if "mset ms = add_mset ?m (mset (st_messages s))" for ms
    using ok None that by (intro messages_ok_add) (auto simp: findMessage_None message_ok_def)
  with None show ?thesis
    by (simp add: on_message_created_def Let_def appendMessage_def mset_insertImported)
next
  case (Some i)
  let ?c = "st_messages s ! i"
  let ?m = "?c\<lparr>m_role := Some r, m_content := c, m_created_at := Some (ev_occurred_at e), m_attribution := Some a\<rparr>"
  have m: "m_message_id ?m = m" "m_attachments ?m = m_attachments ?c" using findMessage_Some [OF Some] by simp_all
  have mok: "message_ok ?m" if "m_role ?c = None"
    using message_at_ok(1) [OF ok Some] that by (auto simp: message_ok_def)
  let ?ins = "insertImportedMessage (removeAt i (st_messages s)) ?m"
  have ins: "messages_ok (s\<lparr>st_messages := ?ins\<rparr>)" if none: "m_role ?c = None"
  proof (rule messages_ok_cong [OF ok])
    have "mset (map m_message_id ?ins) = image_mset m_message_id (add_mset ?m (mset (removeAt i (st_messages s))))"
      by (simp only: mset_map mset_insertImported)
    also have "\<dots> = image_mset m_message_id (add_mset ?c (mset (removeAt i (st_messages s))))" by simp
    finally show "mset (map m_message_id ?ins) = mset (map m_message_id (st_messages s))"
      using findMessage_Some [OF Some] by (simp add: mset_removeAt)
    fix x assume "x \<in> set ?ins"
    then have "x \<in># add_mset ?m (mset (removeAt i (st_messages s)))"
      by (metis mset_insertImported set_mset_mset)
    then have "x = ?m \<or> x \<in> set (st_messages s)"
      by (auto simp: removeAt_def dest: in_set_takeD in_set_dropD)
    then show "message_ok x \<and> m_attachments x = references_of (st_attachments s) (m_message_id x)"
      using ok mok [OF none] m message_at_ok(2) [OF ok Some] by (auto simp: messages_ok_def)
  qed
  have upd: "messages_ok (updateMessages s i ?m)" if "m_role ?c = None"
    using mok [OF that] m by (intro updateMessages_ok [OF ok Some]) simp_all
  from Some ok ins upd show ?thesis
    by (auto simp: on_message_created_def Let_def messages_ok_part [OF primitive_frame(12)])
qed

lemma text_messages:
  assumes ok: "messages_ok s"
  shows "messages_ok (on_text_appended s e a t m x)"
proof (cases "findMessage s m")
  case None
  have "messages_ok (s\<lparr>st_messages := st_messages s @ [\<lparr>m_message_id = m, m_turn_id = Some t,
      m_role = Some RoleAssistant, m_content = [TextPart x], m_attachments = [],
      m_created_at = Some (ev_occurred_at e), m_attribution = Some a\<rparr>]\<rparr>)"
    using ok None by (intro messages_ok_add) (auto simp: findMessage_None message_ok_def)
  with None show ?thesis by (simp add: on_text_appended_def appendMessage_def)
next
  case (Some i)
  with ok show ?thesis
    by (auto simp: on_text_appended_def Let_def message_ok_def findMessage_Some
        intro!: updateMessages_ok [OF ok Some])
qed

text \<open>A reference is recorded twice, on the message and in the attachment list, or not at all.\<close>

lemma linked_iff:
  assumes "messages_ok s" "findMessage s m = Some i"
  shows "list_ex (\<lambda>r. ar_message_id r = m \<and> ar_attachment_id r = k) (st_attachments s) \<longleftrightarrow>
    list_ex (\<lambda>x. at_attachment_id x = k) (m_attachments (st_messages s ! i))"
proof -
  have "\<forall>r \<in> set (st_attachments s). ar_attachment_id r = at_attachment_id (ar_reference r)"
    using assms(1) by (auto simp: messages_ok_def)
  then show ?thesis by (auto simp: message_at_ok(2) [OF assms] references_of_def list_ex_iff)
qed

lemma attachment_messages:
  assumes ok: "messages_ok s"
  shows "messages_ok (on_attachment_referenced s e a m x)"
proof (cases "findMessage s m")
  case None
  define r where "r = \<lparr>ar_message_id = m, ar_attachment_id = at_attachment_id x, ar_reference = x,
    ar_referenced_at = ev_occurred_at e, ar_attribution = a\<rparr>"
  have fresh: "m \<notin> m_message_id ` set (st_messages s)" using None by (simp add: findMessage_None)
  then have no: "m \<notin> ar_message_id ` set (st_attachments s)" using ok by (auto simp: messages_ok_def)
  then have unlinked: "\<not> list_ex (\<lambda>r. ar_message_id r = m \<and> ar_attachment_id r = at_attachment_id x) (st_attachments s)"
    by (auto simp: list_ex_iff)
  have eq: "on_attachment_referenced s e a m x = s\<lparr>st_messages := st_messages s @ [messagePlaceholder m [x]],
      st_attachments := st_attachments s @ [r]\<rparr>"
    using None unlinked by (simp add: on_attachment_referenced_def Let_def appendMessage_def r_def)
  have "message_ok y \<and> m_attachments y = references_of (st_attachments s @ [r]) (m_message_id y)"
    if "y \<in> set (st_messages s @ [messagePlaceholder m [x]])" for y
  proof (cases "y \<in> set (st_messages s)")
    case True
    with fresh have "ar_message_id r \<noteq> m_message_id y" by (auto simp: r_def)
    with True ok show ?thesis by (simp add: messages_ok_def)
  next
    case False
    with that have "y = messagePlaceholder m [x]" by simp
    then show ?thesis using references_of_fresh [OF no] by (simp add: messagePlaceholder_def message_ok_def r_def)
  qed
  moreover have "distinct (map (\<lambda>r. (ar_message_id r, ar_attachment_id r)) (st_attachments s @ [r]))"
    using ok no by (auto simp: messages_ok_def r_def)
  moreover have "distinct (map m_message_id (st_messages s @ [messagePlaceholder m [x]]))"
    using ok fresh by (simp add: messages_ok_def messagePlaceholder_def)
  moreover have "\<forall>q \<in> set (st_attachments s @ [r]). ar_message_id q \<in>
      m_message_id ` set (st_messages s @ [messagePlaceholder m [x]]) \<and>
      ar_attachment_id q = at_attachment_id (ar_reference q)"
    using ok by (simp add: messages_ok_def r_def messagePlaceholder_def)
  ultimately show ?thesis unfolding eq messages_ok_def by simp
next
  case (Some i)
  define r where "r = \<lparr>ar_message_id = m, ar_attachment_id = at_attachment_id x, ar_reference = x,
    ar_referenced_at = ev_occurred_at e, ar_attribution = a\<rparr>"
  let ?c = "st_messages s ! i"
  note idx = findMessage_Some [OF Some]
  show ?thesis
  proof (cases "list_ex (\<lambda>y. at_attachment_id y = at_attachment_id x) (m_attachments ?c)")
    case True
    with linked_iff [OF ok Some] Some ok show ?thesis by (simp add: on_attachment_referenced_def Let_def)
  next
    case False
    let ?u = "?c\<lparr>m_attachments := m_attachments ?c @ [x]\<rparr>"
    have eq: "on_attachment_referenced s e a m x = s\<lparr>st_messages := (st_messages s)[i := ?u],
        st_attachments := st_attachments s @ [r]\<rparr>"
      using Some False linked_iff [OF ok Some] by (simp add: on_attachment_referenced_def Let_def updateMessages_def r_def)
    have ids: "map m_message_id ((st_messages s)[i := ?u]) = map m_message_id (st_messages s)"
      using idx by simp
    then have idset: "m_message_id ` set ((st_messages s)[i := ?u]) = m_message_id ` set (st_messages s)"
      by (metis list.set_map)
    have "message_ok y \<and> m_attachments y = references_of (st_attachments s @ [r]) (m_message_id y)"
      if y: "y \<in> set ((st_messages s)[i := ?u])" for y
    proof -
      have "y = ?u \<or> y \<in> set (st_messages s) \<and> m_message_id y \<noteq> m_message_id ?c"
        using y idx ok by (intro list_update_mem_cases) (auto simp: messages_ok_def)
      then show ?thesis
      proof
        assume "y = ?u"
        moreover have "message_ok ?u" using message_at_ok(1) [OF ok Some] by simp
        ultimately show ?thesis using idx message_at_ok(2) [OF ok Some] by (simp add: r_def)
      next
        assume "y \<in> set (st_messages s) \<and> m_message_id y \<noteq> m_message_id ?c"
        moreover from this idx have "ar_message_id r \<noteq> m_message_id y" by (auto simp: r_def)
        ultimately show ?thesis using ok by (simp add: messages_ok_def)
      qed
    qed
    moreover have "distinct (map (\<lambda>r. (ar_message_id r, ar_attachment_id r)) (st_attachments s @ [r]))"
      using ok False linked_iff [OF ok Some, of "at_attachment_id x"]
      by (auto simp: messages_ok_def r_def list_ex_iff)
    moreover have "m \<in> m_message_id ` set (st_messages s)" using idx by (metis image_eqI nth_mem)
    ultimately show ?thesis
      unfolding eq using ok ids idset by (auto simp: messages_ok_def r_def)
  qed
qed

lemma placeholder_messages:
  assumes "messages_ok s" "findMessage s m = None"
  shows "messages_ok (appendMessage s (messagePlaceholder m []))"
  unfolding appendMessage_def using assms
  by (intro messages_ok_add) (auto simp: findMessage_None messagePlaceholder_def message_ok_def)

lemma on_records_linked_cases:
  assumes "on_records_linked U s t ss cs = Inr s'"
  obtains "s' = s" | r s1 where "mergeCitationRecords s r = Some s1" "s' = link_citation_target s s1 t" "citation_set_ok r"
proof (cases "normalizeCitationRecords U (citation_records_json \<lparr>rs_sources = ss, rs_citations = cs\<rparr>)")
  case (Inr r)
  show thesis
  proof (cases "mergeCitationRecords s r")
    case None
    with assms Inr show ?thesis by (intro that(1)) (simp add: on_records_linked_def)
  next
    case (Some s1)
    with assms Inr show ?thesis by (intro that(2) [of r s1]) (auto simp: on_records_linked_def intro: normalizeCitationRecords_set_ok)
  qed
qed (use assms in \<open>simp add: on_records_linked_def\<close>)

lemma records_linked_messages:
  assumes ok: "messages_ok s" and step: "on_records_linked U s t ss cs = Inr s'"
  shows "messages_ok s'"
proof -
  from step consider "s' = s" | r s1 where "mergeCitationRecords s r = Some s1" "s' = link_citation_target s s1 t"
    by (rule on_records_linked_cases) blast+
  then show ?thesis
  proof cases
    case (2 r s1)
    note same = merge_frame(2) [OF 2(1)]
    have s1: "messages_ok s1" using ok messages_ok_part [OF same] by simp
    have find: "findMessage s1 x = findMessage s x" for x
      using same by (simp add: findMessage_def message_part_def)
    show ?thesis
    proof (cases t)
      case (AssistantMessageTarget m)
      then show ?thesis
        using 2(2) ok s1 placeholder_messages [OF s1, of m]
        by (simp add: link_citation_target_def find split: option.splits)
    next
      case (ToolResultTarget u c)
      have "messages_ok (appendToolCall s1 x)" for x
        using s1 messages_ok_part [OF primitive_frame(26)] by simp
      with ToolResultTarget 2(2) ok s1 show ?thesis by (simp add: link_citation_target_def split: option.splits)
    qed
  qed (use ok in simp)
qed

lemma reduce_payload_messages:
  assumes "reduce_payload U s e a p = Inr s'" "messages_ok s"
  shows "messages_ok s'"
proof -
  have frame: "messages_ok s'" if "message_part s' = message_part s"
    using messages_ok_part [OF that] assms(2) by simp
  have cleared: "messages_ok (on_cleared s e)"
    by (simp add: messages_ok_def on_cleared_def createInitialConversationState_def)
  show ?thesis
  proof (cases p)
    case (TurnStatusChanged t st)
    with assms(1) turn_status_frame(2) frame show ?thesis by simp
  next
    case (CitationRecordsLinked t ss cs)
    with assms records_linked_messages show ?thesis by simp
  next
    case (ToolCallResultRecorded t c ps b r)
    with assms(1) result_frame(2) frame show ?thesis by simp
  qed (use assms frame cleared in \<open>auto simp: keeps created_messages text_messages attachment_messages\<close>)
qed

section \<open>Tool calls and approval proposals\<close>

text \<open>
  The version of a proposal counts its transitions, and the fields of the decision and of a
  failure are present exactly in the states the lifecycle reaches through them.
\<close>

definition proposal_ok :: "ConversationApprovalProposalRecord \<Rightarrow> bool" where
  "proposal_ok p \<longleftrightarrow>
     (case ap_status p of
        Pending \<Rightarrow> ap_proposal_version p = 1
      | Confirmed \<Rightarrow> ap_proposal_version p = 2
      | Rejected \<Rightarrow> ap_proposal_version p = 2
      | Expired \<Rightarrow> ap_proposal_version p = 2 \<and> ap_expires_at p \<noteq> None
      | Executing \<Rightarrow> 3 \<le> ap_proposal_version p \<and> odd (ap_proposal_version p)
      | _ \<Rightarrow> 4 \<le> ap_proposal_version p \<and> even (ap_proposal_version p)) \<and>
     (ap_decision_at p = None \<longleftrightarrow> ap_status p = Pending) \<and>
     (ap_decision_attribution p = None \<longleftrightarrow> ap_status p = Pending) \<and>
     (ap_status p = Pending \<longrightarrow> ap_decision_reason p = None) \<and>
     (ap_failure_reason p \<noteq> None \<longleftrightarrow> ap_status p = Failed)"

definition requested_by :: "ConversationApprovalProposalRecord \<Rightarrow> ConversationToolCallRecord \<Rightarrow> bool" where
  "requested_by p t \<longleftrightarrow> tc_tool_call_id t = ap_tool_call_id p \<and> tc_turn_id t = ap_turn_id p \<and>
     tc_name t = Some (ap_tool_name p) \<and> tc_approval_required_at t \<noteq> None"

definition tools_ok :: "ConversationState \<Rightarrow> bool" where
  "tools_ok s \<longleftrightarrow> distinct (map tc_tool_call_id (st_tool_calls s)) \<and>
     distinct (map ap_proposal_id (st_approval_proposals s)) \<and>
     (\<forall>p \<in> set (st_approval_proposals s). proposal_ok p \<and> (\<exists>t \<in> set (st_tool_calls s). requested_by p t))"

lemma tools_ok_part: "tool_part s' = tool_part s \<Longrightarrow> tools_ok s' \<longleftrightarrow> tools_ok s"
  by (simp add: tools_ok_def tool_part_def)

lemma findToolCall_Some:
  "findToolCall s c = Some i \<Longrightarrow> i < length (st_tool_calls s) \<and> tc_tool_call_id (st_tool_calls s ! i) = c"
  unfolding findToolCall_def by (drule findIndex_SomeD) simp

lemma findToolCall_None: "findToolCall s c = None \<longleftrightarrow> c \<notin> tc_tool_call_id ` set (st_tool_calls s)"
  by (auto simp: findToolCall_def)

text \<open>An update of a tool call that forgets nothing keeps the proposals attached to it.\<close>

definition tool_extends :: "ConversationToolCallRecord \<Rightarrow> ConversationToolCallRecord \<Rightarrow> bool" where
  "tool_extends t u \<longleftrightarrow> tc_tool_call_id u = tc_tool_call_id t \<and> tc_turn_id u = tc_turn_id t \<and>
     (tc_name t \<noteq> None \<longrightarrow> tc_name u = tc_name t) \<and>
     (tc_approval_required_at t \<noteq> None \<longrightarrow> tc_approval_required_at u \<noteq> None)"

lemma requested_by_extends: "requested_by p t \<Longrightarrow> tool_extends t u \<Longrightarrow> requested_by p u"
  by (auto simp: requested_by_def tool_extends_def)

lemma list_update_image:
  assumes "i < length xs" "x \<in> set xs" "\<And>y. P y \<Longrightarrow> y = xs ! i \<Longrightarrow> P u" "P x"
  shows "\<exists>y \<in> set (xs[i := u]). P y"
proof -
  from assms(2) obtain k where k: "k < length xs" "x = xs ! k" by (auto simp: in_set_conv_nth)
  show ?thesis
  proof (cases "k = i")
    case True
    with k assms show ?thesis by (intro bexI [of _ u]) (auto intro: set_update_memI)
  next
    case False
    with k have "x = xs[i := u] ! k" "k < length (xs[i := u])" by simp_all
    with assms(4) show ?thesis by (metis nth_mem)
  qed
qed

lemma updateToolCall_ok:
  assumes ok: "tools_ok s" and i: "findToolCall s c = Some i" and u: "tool_extends (st_tool_calls s ! i) u"
  shows "tools_ok (updateToolCall s i u)"
proof -
  note idx = findToolCall_Some [OF i]
  have "distinct (map tc_tool_call_id ((st_tool_calls s)[i := u]))"
    using ok idx u by (simp add: tools_ok_def tool_extends_def)
  moreover have "\<exists>t \<in> set ((st_tool_calls s)[i := u]). requested_by p t"
    if p: "p \<in> set (st_approval_proposals s)" for p
  proof -
    from ok p obtain t where "t \<in> set (st_tool_calls s)" "requested_by p t" by (auto simp: tools_ok_def)
    with idx u requested_by_extends show ?thesis by (intro list_update_image) auto
  qed
  ultimately show ?thesis using ok by (simp add: tools_ok_def updateToolCall_def)
qed

lemma appendToolCall_ok:
  assumes "tools_ok s" "tc_tool_call_id t \<notin> tc_tool_call_id ` set (st_tool_calls s)"
  shows "tools_ok (appendToolCall s t)"
  using assms by (auto simp: tools_ok_def appendToolCall_def)

lemma placeholder_id [simp]: "tc_tool_call_id (toolCallPlaceholder t c) = c"
  by (simp add: toolCallPlaceholder_def)

lemma set_marker_simps [simp]: "tc_tool_call_id (set_marker f time t) = tc_tool_call_id t"
  by (cases f) (simp_all add: set_marker_def)

lemma requested_tools:
  assumes ok: "tools_ok s"
  shows "tools_ok (on_tool_call_requested s e a t c n x)"
proof (cases "findToolCall s c")
  case None
  then have "c \<notin> tc_tool_call_id ` set (st_tool_calls s)" by (simp add: findToolCall_None)
  with ok None show ?thesis by (simp add: on_tool_call_requested_def appendToolCall_ok)
next
  case (Some i)
  with ok show ?thesis
    by (auto simp: on_tool_call_requested_def Let_def tool_extends_def intro!: updateToolCall_ok [OF ok Some])
qed

lemma marker_tools:
  assumes ok: "tools_ok s"
  shows "tools_ok (on_tool_call_marker s e f t c)"
proof (cases "findToolCall s c")
  case None
  then have "c \<notin> tc_tool_call_id ` set (st_tool_calls s)" by (simp add: findToolCall_None)
  with ok None show ?thesis by (simp add: on_tool_call_marker_def appendToolCall_ok)
next
  case (Some i)
  have "tool_extends y (set_marker f (ev_occurred_at e) y)" for y
    by (cases f) (simp_all add: tool_extends_def set_marker_def)
  with ok Some updateToolCall_ok [OF ok Some] show ?thesis
    by (simp add: on_tool_call_marker_def Let_def)
qed

lemma on_result_recorded_cases:
  assumes "on_result_recorded U s e a t c ps b r = Inr s'"
  obtains (add) x where "findToolCall s c = None" "s' = appendToolCall s ((toolCallPlaceholder t c)\<lparr>tc_result := x\<rparr>)"
  | (set) i x where "findToolCall s c = Some i" "s' = updateToolCall s i ((st_tool_calls s ! i)\<lparr>tc_result := x\<rparr>)"
  | (same) "s' = s"
proof (cases "findToolCall s c")
  case None
  with assms show thesis
    by (auto simp: on_result_recorded_def Let_def intro: add split: sum.splits)
next
  case (Some i)
  with assms show thesis
    by (auto simp: on_result_recorded_def Let_def intro: set same split: sum.splits if_splits)
qed

lemma result_tools:
  assumes ok: "tools_ok s" and step: "on_result_recorded U s e a t c ps b r = Inr s'"
  shows "tools_ok s'"
  using step
proof (cases rule: on_result_recorded_cases)
  case (add x)
  then show ?thesis using ok by (simp add: appendToolCall_ok findToolCall_None)
next
  case (set i x)
  have "tool_extends y (y\<lparr>tc_result := x\<rparr>)" for y by (simp add: tool_extends_def)
  with set(2) updateToolCall_ok [OF ok set(1)] show ?thesis by simp
qed (use ok in simp)

lemma created_proposal_tools:
  assumes ok: "tools_ok s"
  shows "tools_ok (on_proposal_created s e a q)"
proof (cases "findToolCall s (pc_tool_call_id q)")
  case (Some i)
  define t where "t = st_tool_calls s ! i"
  define u where "u = (if tc_approval_required_at t = None
    then t\<lparr>tc_approval_required_at := Some (ev_occurred_at e)\<rparr> else t)"
  define p where "p = created_proposal e a q"
  show ?thesis
  proof (cases "isTerminalTurn s (pc_turn_id q) \<or>
      list_ex (\<lambda>p. ap_proposal_id p = pc_proposal_id q) (st_approval_proposals s) \<or>
      tc_turn_id t \<noteq> pc_turn_id q \<or> tc_name t \<noteq> Some (pc_tool_name q)")
    case True
    with Some have "on_proposal_created s e a q = s" unfolding on_proposal_created_def t_def Let_def by auto
    with ok show ?thesis by simp
  next
    case False
    have eq: "on_proposal_created s e a q = (updateToolCall s i u)\<lparr>st_approval_proposals := st_approval_proposals s @ [p]\<rparr>"
      using False Some unfolding on_proposal_created_def Let_def
      by (simp add: t_def u_def p_def updateToolCall_def)
    have new: "ap_proposal_id p \<notin> ap_proposal_id ` set (st_approval_proposals s)"
      using False by (auto simp: list_ex_iff p_def created_proposal_def)
    have upd: "tools_ok (updateToolCall s i u)"
      by (rule updateToolCall_ok [OF ok Some]) (simp add: tool_extends_def u_def t_def)
    have "u \<in> set ((st_tool_calls s)[i := u])"
      using findToolCall_Some [OF Some] by (intro set_update_memI) simp
    moreover have "requested_by p u"
      using False findToolCall_Some [OF Some] by (simp add: requested_by_def p_def created_proposal_def u_def t_def)
    moreover have "proposal_ok p" by (simp add: proposal_ok_def p_def created_proposal_def)
    ultimately show ?thesis
      unfolding eq using new upd by (simp add: tools_ok_def updateToolCall_def) blast
  qed
qed (use ok in \<open>simp add: on_proposal_created_def\<close>)

lemma findProposal_Some:
  "findProposal s p = Some i \<Longrightarrow> i < length (st_approval_proposals s) \<and> ap_proposal_id (st_approval_proposals s ! i) = p"
  unfolding findProposal_def by (drule findIndex_SomeD) simp

lemma changed_proposal_ok:
  assumes "proposal_ok p" "v = ap_proposal_version p + 1"
    "isLegalConversationApprovalProposalTransition (ap_status p) (change_status c)"
    "change_status c = Expired \<Longrightarrow> ap_expires_at p \<noteq> None"
  shows "proposal_ok (changed_proposal e a v c p)"
  using assms
  by (cases c) (auto simp: proposal_ok_def changed_proposal_def legal_transition_cases change_status_def
      isDecision_def changed_decision_reason_def changed_failure_reason_def)

lemma changed_proposal_simps [simp]:
  "ap_proposal_id (changed_proposal e a v c p) = ap_proposal_id p"
  "requested_by (changed_proposal e a v c p) t = requested_by p t"
  by (simp_all add: changed_proposal_def requested_by_def Let_def)

lemma updateApprovalProposal_ok:
  assumes ok: "tools_ok s" and i: "i < length (st_approval_proposals s)"
    and u: "ap_proposal_id u = ap_proposal_id (st_approval_proposals s ! i)" "proposal_ok u"
      "\<And>t. requested_by u t = requested_by (st_approval_proposals s ! i) t"
  shows "tools_ok (updateApprovalProposal s i u)"
proof -
  have "distinct (map ap_proposal_id ((st_approval_proposals s)[i := u]))"
    using ok i u(1) by (simp add: tools_ok_def)
  moreover have "proposal_ok p \<and> (\<exists>t \<in> set (st_tool_calls s). requested_by p t)"
    if "p \<in> set ((st_approval_proposals s)[i := u])" for p
    using set_list_update_memD [OF that]
  proof
    assume "p = u"
    moreover have "\<exists>t \<in> set (st_tool_calls s). requested_by (st_approval_proposals s ! i) t"
      using ok i by (simp add: tools_ok_def)
    ultimately show ?thesis using u by simp
  qed (use ok in \<open>simp add: tools_ok_def\<close>)
  ultimately show ?thesis using ok by (simp add: tools_ok_def updateApprovalProposal_def)
qed

lemma changed_proposal_tools:
  assumes ok: "tools_ok s"
  shows "tools_ok (on_proposal_status_changed s e a q v c)"
proof (cases "findProposal s q")
  case (Some i)
  let ?p = "st_approval_proposals s ! i"
  note idx = findProposal_Some [OF Some]
  have "proposal_ok ?p" using ok idx by (simp add: tools_ok_def)
  then have "tools_ok (updateApprovalProposal s i (changed_proposal e a v c ?p))"
    if "\<not> (change_status c = Expired \<and> expiry_too_early e ?p)" "v = ap_proposal_version ?p + 1"
      "isLegalConversationApprovalProposalTransition (ap_status ?p) (change_status c)"
    using that idx ok
    by (intro updateApprovalProposal_ok changed_proposal_ok)
      (auto simp: expiry_too_early_def split: option.splits)
  with Some ok show ?thesis by (auto simp: on_proposal_status_changed_def Let_def)
qed (use ok in \<open>simp add: on_proposal_status_changed_def\<close>)

lemma records_linked_tools:
  assumes ok: "tools_ok s" and step: "on_records_linked U s t ss cs = Inr s'"
  shows "tools_ok s'"
proof -
  from step consider "s' = s" | r s1 where "mergeCitationRecords s r = Some s1" "s' = link_citation_target s s1 t"
    by (rule on_records_linked_cases) blast+
  then show ?thesis
  proof cases
    case (2 r s1)
    note same = merge_frame(4) [OF 2(1)]
    have s1: "tools_ok s1" using ok tools_ok_part [OF same] by simp
    have find: "findToolCall s1 x = findToolCall s x" for x
      using same by (simp add: findToolCall_def tool_part_def)
    show ?thesis
    proof (cases t)
      case (AssistantMessageTarget m)
      have "tools_ok (appendMessage s1 x)" for x
        using s1 tools_ok_part [OF primitive_frame(7)] by simp
      with AssistantMessageTarget 2(2) ok s1 show ?thesis by (simp add: link_citation_target_def split: option.splits)
    next
      case (ToolResultTarget u c)
      have "tools_ok (appendToolCall s1 (toolCallPlaceholder u c))" if "findToolCall s c = None"
        using that s1 by (intro appendToolCall_ok) (simp_all add: find [symmetric] findToolCall_None)
      with ToolResultTarget 2(2) ok s1 show ?thesis by (simp add: link_citation_target_def split: option.splits)
    qed
  qed (use ok in simp)
qed

lemma reduce_payload_tools:
  assumes "reduce_payload U s e a p = Inr s'" "tools_ok s"
  shows "tools_ok s'"
proof -
  have frame: "tools_ok s'" if "tool_part s' = tool_part s"
    using tools_ok_part [OF that] assms(2) by simp
  have cleared: "tools_ok (on_cleared s e)"
    by (simp add: tools_ok_def on_cleared_def createInitialConversationState_def)
  show ?thesis
  proof (cases p)
    case (TurnStatusChanged t st)
    with assms(1) turn_status_frame(3) frame show ?thesis by simp
  next
    case (CitationRecordsLinked t ss cs)
    with assms records_linked_tools show ?thesis by simp
  next
    case (ToolCallResultRecorded t c ps b r)
    with assms result_tools show ?thesis by simp
  qed (use assms frame cleared in \<open>auto simp: keeps requested_tools marker_tools created_proposal_tools
      changed_proposal_tools\<close>)
qed

section \<open>Citation records\<close>

definition citations_ok :: "ConversationState \<Rightarrow> bool" where
  "citations_ok s \<longleftrightarrow> distinct (map cs_source_id (st_citation_sources s)) \<and>
     distinct (map ct_citation_id (st_citations s)) \<and>
     (\<forall>c \<in> set (st_citations s). ct_source_id c \<in> cs_source_id ` set (st_citation_sources s))"

lemma citations_ok_part: "citation_part s' = citation_part s \<Longrightarrow> citations_ok s' \<longleftrightarrow> citations_ok s"
  by (simp add: citations_ok_def citation_part_def)

lemma merge_records_keeps:
  assumes "merge_records f enc clone kept rs = Some ks" "\<And>x. clone x = x" "distinct (map f kept)"
  shows "distinct (map f ks) \<and> set kept \<subseteq> set ks \<and> set ks \<subseteq> set kept \<union> set rs \<and> f ` set rs \<subseteq> f ` set ks"
  using assms
proof (induction rs arbitrary: kept)
  case (Cons r rs)
  show ?case
  proof (cases "find (\<lambda>x. f x = f r) kept")
    case None
    then have "f r \<notin> f ` set kept" by (auto simp: find_None_iff)
    with Cons.IH [of "kept @ [r]"] Cons.prems None show ?thesis by auto
  next
    case (Some x)
    then have "x \<in> set kept" "f x = f r" by (auto simp: find_Some_iff)
    then have x: "f r \<in> f ` set kept" by (metis imageI)
    from Some Cons.prems(1) have "merge_records f enc clone kept rs = Some ks" by (simp split: if_splits)
    from Cons.IH [OF this Cons.prems(2,3)] x show ?thesis by auto
  qed
qed simp

lemma merge_citations:
  assumes ok: "citations_ok s" and r: "citation_set_ok r" and m: "mergeCitationRecords s r = Some s'"
  shows "citations_ok s'"
proof -
  from m obtain ss cs where
    ss: "merge_records cs_source_id citation_source_json cloneCitationSource (st_citation_sources s) (rs_sources r) = Some ss" and
    cs: "merge_records ct_citation_id citation_json cloneCitation (st_citations s) (rs_citations r) = Some cs" and
    s': "s' = s\<lparr>st_citation_sources := ss, st_citations := cs\<rparr>"
    by (auto simp: mergeCitationRecords_def split: option.splits)
  have 1: "distinct (map cs_source_id ss)" "set (st_citation_sources s) \<subseteq> set ss"
    "cs_source_id ` set (rs_sources r) \<subseteq> cs_source_id ` set ss"
    using merge_records_keeps [OF ss] ok by (auto simp: citations_ok_def)
  have 2: "distinct (map ct_citation_id cs)" "set cs \<subseteq> set (st_citations s) \<union> set (rs_citations r)"
    using merge_records_keeps [OF cs] ok by (auto simp: citations_ok_def)
  have "ct_source_id c \<in> cs_source_id ` set ss" if "c \<in> set cs" for c
  proof -
    from that 2(2) have "c \<in> set (st_citations s) \<or> c \<in> set (rs_citations r)" by blast
    then show ?thesis
    proof
      assume "c \<in> set (st_citations s)"
      then have "ct_source_id c \<in> cs_source_id ` set (st_citation_sources s)" using ok by (simp add: citations_ok_def)
      with 1(2) show ?thesis by blast
    next
      assume "c \<in> set (rs_citations r)"
      then have "ct_source_id c \<in> cs_source_id ` set (rs_sources r)" using r by (simp add: citation_set_ok_def)
      with 1(3) show ?thesis by blast
    qed
  qed
  with 1(1) 2(1) show ?thesis by (simp add: s' citations_ok_def)
qed

lemma link_target_citations:
  "citations_ok s \<Longrightarrow> citations_ok s1 \<Longrightarrow> citations_ok (link_citation_target s s1 t)"
  by (simp add: link_citation_target_def citations_ok_def appendMessage_def appendToolCall_def
      split: ConversationCitationTarget.split option.split)

lemma records_linked_citations:
  assumes ok: "citations_ok s" and step: "on_records_linked U s t ss cs = Inr s'"
  shows "citations_ok s'"
  using step
proof (cases rule: on_records_linked_cases)
  case (2 r s1)
  from merge_citations [OF ok 2(3,1)] 2(2) link_target_citations [OF ok] show ?thesis by simp
qed (use ok in simp)

lemma created_citations: "citations_ok s \<Longrightarrow> citations_ok (on_message_created s e a m r c)"
  by (auto simp: on_message_created_def Let_def citations_ok_def updateMessages_def appendMessage_def
      removeCitationsForAssistantMessage_def distinct_map_filter split: option.splits)

lemma reduce_payload_citations:
  assumes "reduce_payload U s e a p = Inr s'" "citations_ok s"
  shows "citations_ok s'"
proof -
  have frame: "citations_ok s'" if "citation_part s' = citation_part s"
    using citations_ok_part [OF that] assms(2) by simp
  have cleared: "citations_ok (on_cleared s e)"
    by (simp add: citations_ok_def on_cleared_def createInitialConversationState_def)
  show ?thesis
  proof (cases p)
    case (TurnStatusChanged t st)
    with assms(1) turn_status_frame(4) frame show ?thesis by simp
  next
    case (CitationRecordsLinked t ss cs)
    with assms records_linked_citations show ?thesis by simp
  next
    case (ToolCallResultRecorded t c ps b r)
    with assms(1) result_frame(4) frame show ?thesis by simp
  qed (use assms frame cleared in \<open>auto simp: keeps created_citations\<close>)
qed

section \<open>The invariant of the projection\<close>

definition links_ok :: "ConversationState \<Rightarrow> bool" where
  "links_ok s \<longleftrightarrow> distinct (map ul_usage_receipt_id (st_usage_receipt_links s)) \<and>
     distinct (map (\<lambda>b. (be_turn_id b, be_budget b)) (st_tool_loop_budget_exhaustions s))"

definition state_ok :: "ConversationState \<Rightarrow> bool" where
  "state_ok s \<longleftrightarrow> log_ok s \<and> messages_ok s \<and> turns_ok s \<and> tools_ok s \<and> citations_ok s \<and> links_ok s"

definition link_part where
  "link_part s = (st_usage_receipt_links s, st_tool_loop_budget_exhaustions s)"

lemma link_frame_primitive [simp]:
  "link_part (updateMessages s i m) = link_part s" "link_part (appendMessage s m) = link_part s"
  "link_part (removeCitationsForAssistantMessage s x) = link_part s" "link_part (updateTurn s i t ac) = link_part s"
  "link_part (appendTurn s t ac) = link_part s" "link_part (updateToolCall s i c) = link_part s"
  "link_part (appendToolCall s c) = link_part s" "link_part (updateApprovalProposal s i q) = link_part s"
  "link_part (s\<lparr>st_messages := ms\<rparr>) = link_part s" "link_part (s\<lparr>st_attachments := xs\<rparr>) = link_part s"
  "link_part (s\<lparr>st_metadata := md\<rparr>) = link_part s" "link_part (s\<lparr>st_title := ti\<rparr>) = link_part s"
  "link_part (s\<lparr>st_tool_calls := tcs\<rparr>) = link_part s" "link_part (s\<lparr>st_approval_proposals := aps\<rparr>) = link_part s"
  "link_part (acceptEnvelope s e) = link_part s"
  by (simp_all add: link_part_def updateMessages_def appendMessage_def removeCitationsForAssistantMessage_def
      updateTurn_def appendTurn_def updateToolCall_def appendToolCall_def updateApprovalProposal_def acceptEnvelope_def)

lemma link_frame:
  "link_part (on_message_created s e a m r c) = link_part s" "link_part (on_text_appended s e a t m x) = link_part s"
  "link_part (on_attachment_referenced s e a m y) = link_part s" "link_part (on_turn_started s e a t ms co) = link_part s"
  "link_part (terminateTurn s t time a fs) = link_part s" "link_part (updateTurnCancellation s t cs cr a) = link_part s"
  "link_part (appendTurnRetryRecord s t rr) = link_part s" "link_part (on_tool_call_requested s e a t cl n ar) = link_part s"
  "link_part (on_tool_call_marker s e f t cl) = link_part s" "link_part (on_proposal_created s e a q) = link_part s"
  "link_part (on_proposal_status_changed s e a pr v ch) = link_part s"
  by (simp_all add: on_message_created_def on_text_appended_def on_attachment_referenced_def on_turn_started_def
      terminateTurn_def updateTurnCancellation_def appendTurnRetryRecord_def on_tool_call_requested_def
      on_tool_call_marker_def on_proposal_created_def on_proposal_status_changed_def Let_def split: option.split)

lemma link_frame_throwing:
  "on_turn_status_changed s a t st = Inr s' \<Longrightarrow> link_part s' = link_part s"
  "on_result_recorded U s e a t c ps b r = Inr s' \<Longrightarrow> link_part s' = link_part s"
  "on_records_linked U s tg ss cs = Inr s' \<Longrightarrow> link_part s' = link_part s"
proof -
  show "link_part s' = link_part s" if "on_turn_status_changed s a t st = Inr s'"
    using that by (auto simp: on_turn_status_changed_def Let_def split: option.splits if_splits)
  show "link_part s' = link_part s" if "on_result_recorded U s e a t c ps b r = Inr s'"
    using that by (cases rule: on_result_recorded_cases) simp_all
  show "link_part s' = link_part s" if "on_records_linked U s tg ss cs = Inr s'"
    using that
  proof (cases rule: on_records_linked_cases)
    case (2 r s1)
    have "link_part s1 = link_part s" using 2(1) by (auto simp: mergeCitationRecords_def link_part_def split: option.splits)
    with 2(2) show ?thesis
      by (simp add: link_citation_target_def split: ConversationCitationTarget.split option.split)
  qed simp
qed

lemma reduce_payload_links:
  assumes "reduce_payload U s e a p = Inr s'" "links_ok s"
  shows "links_ok s'"
proof -
  have frame: "links_ok s'" if "link_part s' = link_part s"
    using that assms(2) by (simp add: links_ok_def link_part_def)
  show ?thesis
  proof (cases p)
    case ConversationCleared
    with assms show ?thesis by (auto simp: links_ok_def on_cleared_def createInitialConversationState_def)
  next
    case (ToolLoopBudgetExhausted t b n)
    with assms show ?thesis by (auto simp: links_ok_def on_budget_exhausted_def list_ex_iff)
  next
    case (UsageReceiptLinked t u)
    with assms show ?thesis by (auto simp: links_ok_def on_receipt_linked_def list_ex_iff)
  qed (use assms(1) frame link_frame_throwing in \<open>auto simp: link_frame\<close>)
qed

lemma initial_state_ok: "state_ok (createInitialConversationState cid)"
  by (simp add: state_ok_def log_ok_def messages_ok_def turns_ok_def tools_ok_def citations_ok_def links_ok_def
      createInitialConversationState_def)

text \<open>The step of an event whose envelope is accepted.\<close>

definition accepts :: "ConversationState \<Rightarrow> ConversationEvent \<Rightarrow> bool" where
  "accepts s e \<longleftrightarrow> \<not> already_processed s e \<and> st_conversation_id s \<in> {None, Some (ev_conversation_id e)} \<and>
     ev_revision e = expected_revision s"

lemma reduce_accepts:
  "accepts s e \<Longrightarrow> reduceConversationEvent U s e =
     reduce_payload U (acceptEnvelope s e) e \<lparr>aa_actor = ev_actor e, aa_source = ev_source e\<rparr> (ev_payload e)"
  by (auto simp: accepts_def reduceConversationEvent_def split: option.splits)

lemma reduce_rejects:
  "\<not> accepts s e \<Longrightarrow> \<exists>err. reduceConversationEvent U s e = Inr (if already_processed s e then s else withReplayError s err)"
  by (auto simp: accepts_def reduceConversationEvent_def split: option.splits)

lemma withReplayError_part:
  "log_ok (withReplayError s x) = log_ok s" "message_part (withReplayError s x) = message_part s"
  "turn_part (withReplayError s x) = turn_part s" "tool_part (withReplayError s x) = tool_part s"
  "citation_part (withReplayError s x) = citation_part s" "link_part (withReplayError s x) = link_part s"
  by (simp_all add: withReplayError_def log_ok_def parts link_part_def)

lemma state_ok_parts:
  assumes "state_ok s" "log_ok s'" "message_part s' = message_part s" "turn_part s' = turn_part s"
    "tool_part s' = tool_part s" "citation_part s' = citation_part s" "link_part s' = link_part s"
  shows "state_ok s'"
  using assms(1,2) messages_ok_part [OF assms(3)] turns_ok_part [OF assms(4)] tools_ok_part [OF assms(5)]
    citations_ok_part [OF assms(6)] assms(7)
  by (simp add: state_ok_def links_ok_def link_part_def)

lemma accepted_log:
  assumes "accepts s e" "reduceConversationEvent U s e = Inr s'"
  shows "log_part s' = log_part (acceptEnvelope s e)"
proof (rule reduce_payload_log)
  show "reduce_payload U (acceptEnvelope s e) e \<lparr>aa_actor = ev_actor e, aa_source = ev_source e\<rparr> (ev_payload e) = Inr s'"
    using assms by (simp add: reduce_accepts)
  show "st_conversation_id (acceptEnvelope s e) = Some (ev_conversation_id e)"
    using assms(1) by (auto simp: accepts_def acceptEnvelope_def)
  show "st_replay_error (acceptEnvelope s e) = None" by (simp add: acceptEnvelope_def)
qed

lemma reduce_state_ok:
  assumes ok: "state_ok s" and step: "reduceConversationEvent U s e = Inr s'"
  shows "state_ok s'"
proof (cases "accepts s e")
  case False
  with reduce_rejects [of s e U] step obtain err where "s' = (if already_processed s e then s else withReplayError s err)"
    by auto
  moreover have "state_ok (withReplayError s err)"
    using ok by (intro state_ok_parts [OF ok]) (simp_all add: withReplayError_part state_ok_def)
  ultimately show ?thesis using ok by simp
next
  case True
  let ?s = "acceptEnvelope s e"
  from step True have p: "reduce_payload U ?s e \<lparr>aa_actor = ev_actor e, aa_source = ev_source e\<rparr> (ev_payload e) = Inr s'"
    by (simp add: reduce_accepts)
  have "log_ok ?s" using True ok by (intro acceptEnvelope_log) (simp_all add: accepts_def state_ok_def)
  then have "state_ok ?s" by (intro state_ok_parts [OF ok]) (simp_all add: keeps)
  moreover from this have "log_ok s'"
    using log_ok_part [OF accepted_log [OF True step]] by (simp add: state_ok_def)
  ultimately show ?thesis
    using reduce_payload_messages [OF p] reduce_payload_turns [OF p] reduce_payload_tools [OF p]
      reduce_payload_citations [OF p] reduce_payload_links [OF p] by (simp add: state_ok_def)
qed

lemma reduceEvents_state_ok:
  "state_ok s \<Longrightarrow> reduceEvents U s es = Inr s' \<Longrightarrow> state_ok s'"
proof (induction es arbitrary: s)
  case (Cons e es)
  then obtain s1 where "reduceConversationEvent U s e = Inr s1" "reduceEvents U s1 es = Inr s'"
    by (auto simp: bindE_Inr_iff)
  with Cons reduce_state_ok show ?case by blast
qed simp

end
