(* ===== verification/ReducerProperties.thy ===== *)
theory ReducerProperties
  imports ReducerInvariants
begin

text \<open>
  What the reducer guarantees to its callers: the projection stays well-formed, the log
  position advances by exactly one accepted event, replaying an event changes nothing,
  terminal turns and settled proposals are final, and streamed text is concatenated.
\<close>

section \<open>Well-formedness of every reachable projection\<close>

text \<open>
  C1: every projection that folding events from an empty conversation produces is
  well-formed: the revision counts the distinct processed events, identities are unique in
  every collection, attachments agree with their messages, the active turn exists and is
  not terminal, terminal fields are set together, proposals refer to the tool call they gate
  and their version counts legal transitions, and citations refer to known sources.
\<close>

theorem reachable_state_ok:
  assumes "reduceEvents parse_url (createInitialConversationState cid) events = Inr s"
  shows "state_ok s"
  using assms by (rule reduceEvents_state_ok [OF initial_state_ok])

definition sample_events :: "ConversationEvent list" where
  "sample_events =
     [runtime_event (js ''e1'') (js ''c'') 1 (MessageCreated (js ''m1'') RoleUser [TextPart (js ''hi'')]),
      runtime_event (js ''e2'') (js ''c'') 2 (TurnStarted (js ''t1'') [js ''m1''] None),
      runtime_event (js ''e3'') (js ''c'') 3 (MessageTextAppended (js ''t1'') (js ''m2'') (js ''yes'')),
      runtime_event (js ''e4'') (js ''c'') 4 (TurnCompleted (js ''t1'') OutcomeStop [js ''m2''])]"

definition state_of :: "reducer_error + ConversationState \<Rightarrow> ConversationState" where
  "state_of r = (case r of Inr s \<Rightarrow> s | Inl _ \<Rightarrow> createInitialConversationState None)"

definition sample_state :: ConversationState where
  "sample_state = state_of (reduceEvents (\<lambda>_. None) (createInitialConversationState (Some (js ''c''))) sample_events)"

lemmas reducer_eval = reduceConversationEvent_def already_processed_def expected_revision_def
  createInitialConversationState_def acceptEnvelope_def findMessage_def findTurn_def findToolCall_def
  on_message_created_def on_turn_started_def on_text_appended_def terminateTurn_def appendMessage_def
  updateMessages_def appendTurn_def updateTurn_def isTerminal_def emptyTurn_def apply_terminal_def
  completed_fields_def runtime_event_def Let_def

lemma sample_runs:
  "reduceEvents (\<lambda>_. None) (createInitialConversationState (Some (js ''c''))) sample_events = Inr sample_state"
proof -
  have "okE (reduceEvents (\<lambda>_. None) (createInitialConversationState (Some (js ''c''))) sample_events)"
    by (simp add: sample_events_def reducer_eval)
  then show ?thesis by (auto simp: okE_iff sample_state_def state_of_def)
qed

theorem reachable_state_ok_witness: "state_ok sample_state"
  by (rule reachable_state_ok [OF sample_runs])

section \<open>The log position\<close>

text \<open>
  C2: the reducer either leaves the log position alone (a known event or mutation identity, or
  a recorded replay error for another conversation, a gap or a stale revision) or the event
  has the next revision and becomes the last processed one.
\<close>

theorem reduce_log_position:
  assumes "reduceConversationEvent parse_url s e = Inr s'"
  shows "if accepts s e
    then st_processed_event_ids s' = st_processed_event_ids s @ [ev_event_id e] \<and>
      st_revision s' = Some (coalesce (st_revision s) 0 + 1) \<and> st_last_event_id s' = Some (ev_event_id e) \<and>
      st_conversation_id s' = Some (ev_conversation_id e) \<and> st_replay_error s' = None
    else if already_processed s e then s' = s
    else st_replay_error s' \<noteq> None \<and> s'\<lparr>st_replay_error := st_replay_error s\<rparr> = s"
proof (cases "accepts s e")
  case True
  from accepted_log [OF True assms] True show ?thesis
    by (auto simp: log_part_def acceptEnvelope_def accepts_def expected_revision_def)
next
  case False
  with reduce_rejects [of s e parse_url] assms obtain err where
    "s' = (if already_processed s e then s else withReplayError s err)" by auto
  with False show ?thesis by (auto simp: withReplayError_def sameReplayError_def)
qed

definition first_event :: ConversationEvent where
  "first_event = runtime_event (js ''e1'') (js ''c'') 1 (ConversationTitleUpdated (Some (js ''T'')))"

definition first_state :: ConversationState where
  "first_state = (acceptEnvelope (createInitialConversationState None) first_event)\<lparr>st_title := Some (js ''T'')\<rparr>"

lemma first_step: "reduceConversationEvent U (createInitialConversationState None) first_event = Inr first_state"
  by (simp add: reduceConversationEvent_def first_event_def first_state_def runtime_event_def already_processed_def
      expected_revision_def createInitialConversationState_def)

theorem reduce_log_position_witness: "st_revision first_state = Some 1"
  using reduce_log_position [OF first_step [of "\<lambda>_. None"]]
  by (simp add: accepts_def already_processed_def expected_revision_def createInitialConversationState_def
      first_event_def runtime_event_def)

text \<open>
  Applying an event a second time changes nothing, whether the first application accepted
  it, ignored it as a duplicate or recorded a replay error.
\<close>

theorem reduce_idempotent:
  assumes "reduceConversationEvent parse_url s e = Inr s'"
  shows "reduceConversationEvent parse_url s' e = Inr s'"
proof (cases "accepts s e")
  case True
  from accepted_log [OF True assms] have "already_processed s' e"
    by (auto simp: log_part_def acceptEnvelope_def already_processed_def)
  then show ?thesis by (simp add: reduceConversationEvent_def)
next
  case rej: False
  show ?thesis
  proof (cases "already_processed s e")
    case True
    with assms show ?thesis by (simp add: reduceConversationEvent_def)
  next
    case False
    have keep: "already_processed (withReplayError s err) e = already_processed s e"
      "st_conversation_id (withReplayError s err) = st_conversation_id s"
      "expected_revision (withReplayError s err) = expected_revision s"
      "withReplayError (withReplayError s err) err = withReplayError s err" for err
      by (simp_all add: withReplayError_def already_processed_def expected_revision_def sameReplayError_def
          split: option.split)
    have rev: "revision_error (withReplayError s err) e = revision_error s e" for err
      using keep(3) by (simp add: revision_error_def)
    from rej False assms keep rev show ?thesis
      unfolding accepts_def reduceConversationEvent_def by (auto split: option.splits if_splits)
  qed
qed

theorem reduce_idempotent_witness: "reduceConversationEvent (\<lambda>_. None) first_state first_event = Inr first_state"
  by (rule reduce_idempotent [OF first_step])

section \<open>Terminal turns\<close>

text \<open>A turn record that differs from another in its retry history at most, which only grows.\<close>

definition only_retries :: "ConversationTurnRecord \<Rightarrow> ConversationTurnRecord \<Rightarrow> bool" where
  "only_retries t u \<longleftrightarrow> u\<lparr>t_retry_history := t_retry_history t\<rparr> = t \<and>
     take (length (t_retry_history t)) (t_retry_history u) = t_retry_history t"

definition keeps_terminal :: "ConversationState \<Rightarrow> ConversationState \<Rightarrow> bool" where
  "keeps_terminal s s' \<longleftrightarrow> (\<forall>t \<in> set (st_turns s). isTerminal t \<longrightarrow> (\<exists>u \<in> set (st_turns s'). only_retries t u))"

lemma only_retries_refl [simp]: "only_retries t t"
  by (simp add: only_retries_def)

lemma list_update_related:
  assumes "x \<in> set xs" "\<And>y. R y y" "R (xs ! i) u"
  shows "\<exists>y \<in> set (xs[i := u]). R x y"
proof -
  from assms(1) obtain k where k: "k < length xs" "x = xs ! k" by (auto simp: in_set_conv_nth)
  then have "R x (xs[i := u] ! k)" using assms by (cases "k = i") simp_all
  with k show ?thesis by (metis length_list_update nth_mem)
qed

lemma keeps_terminal_same: "st_turns s' = st_turns s \<Longrightarrow> keeps_terminal s s'"
  unfolding keeps_terminal_def by (metis only_retries_refl)

lemma keeps_terminal_append: "keeps_terminal s (appendTurn s t ac)"
  using only_retries_refl by (fastforce simp: keeps_terminal_def appendTurn_def)

lemma keeps_terminal_update:
  assumes "isTerminal (st_turns s ! i) \<longrightarrow> only_retries (st_turns s ! i) u"
  shows "keeps_terminal s (updateTurn s i u ac)"
proof -
  have "\<exists>v \<in> set ((st_turns s)[i := u]). isTerminal t \<longrightarrow> only_retries t v" if "t \<in> set (st_turns s)" for t
    using that assms by (intro list_update_related) simp_all
  then show ?thesis by (auto simp: keeps_terminal_def updateTurn_def)
qed

lemma turn_ops_keep_terminal:
  "keeps_terminal s (terminateTurn s t time a f)" "keeps_terminal s (updateTurnCancellation s t cs r a)"
  "keeps_terminal s (appendTurnRetryRecord s t rr)" "keeps_terminal s (on_turn_started s e a t ms c)"
proof -
  have [simp]: "keeps_terminal s s" by (simp add: keeps_terminal_same)
  show "keeps_terminal s (terminateTurn s t time a f)" "keeps_terminal s (updateTurnCancellation s t cs r a)"
    "keeps_terminal s (appendTurnRetryRecord s t rr)" "keeps_terminal s (on_turn_started s e a t ms c)"
    by (simp_all add: terminateTurn_def updateTurnCancellation_def appendTurnRetryRecord_def on_turn_started_def
        Let_def only_retries_def keeps_terminal_append keeps_terminal_update split: option.split)
qed

lemma status_keeps_terminal:
  "on_turn_status_changed s a t st = Inr s' \<Longrightarrow> keeps_terminal s s'"
  by (auto simp: on_turn_status_changed_def Let_def keeps_terminal_append keeps_terminal_update keeps_terminal_same
      split: option.splits if_splits)

lemma turn_part_turns: "turn_part s' = turn_part s \<Longrightarrow> st_turns s' = st_turns s"
  by (simp add: turn_part_def)

lemma reduce_payload_terminal:
  assumes "reduce_payload U s e a p = Inr s'" "p \<noteq> ConversationCleared"
  shows "keeps_terminal s s'"
proof -
  have frame: "keeps_terminal s s'" if "turn_part s' = turn_part s"
    using that by (intro keeps_terminal_same turn_part_turns)
  show ?thesis
  proof (cases p)
    case (TurnStatusChanged t st)
    with assms status_keeps_terminal show ?thesis by simp
  next
    case (CitationRecordsLinked t ss cs)
    with assms(1) records_linked_frame(2) frame show ?thesis by simp
  next
    case (ToolCallResultRecorded t c ps b r)
    with assms(1) result_frame(3) frame show ?thesis by simp
  qed (use assms frame in \<open>auto simp: keeps turn_ops_keep_terminal\<close>)
qed

text \<open>
  C4: a turn that has completed, failed or been cancelled is never reopened or rewritten: any
  event other than clearing the conversation leaves its record as it was, except that retry
  records may be appended to its history.
\<close>

theorem terminal_turns_final:
  assumes "reduceConversationEvent parse_url s e = Inr s'" "ev_payload e \<noteq> ConversationCleared"
    "t \<in> set (st_turns s)" "isTerminal t"
  shows "\<exists>u \<in> set (st_turns s'). only_retries t u"
proof (cases "accepts s e")
  case True
  with assms(1) have "keeps_terminal (acceptEnvelope s e) s'"
    by (intro reduce_payload_terminal [OF _ assms(2)]) (simp add: reduce_accepts)
  then show ?thesis using assms(3,4) by (simp add: keeps_terminal_def acceptEnvelope_def)
next
  case False
  with reduce_rejects [of s e parse_url] assms(1) have "st_turns s' = st_turns s"
    by (auto simp: withReplayError_def)
  with assms(3) show ?thesis by (intro bexI [of _ t]) simp_all
qed

text \<open>A completed turn, and a late cancellation request for it.\<close>

definition done_turn :: ConversationTurnRecord where
  "done_turn = apply_terminal (emptyTurn (js ''t1'') TurnIsCompleted
     \<lparr>aa_actor = \<lparr>actor_type = ActorSystem, actor_id = None\<rparr>, aa_source = RuntimeSource\<rparr>)
     (completed_fields OutcomeStop []) (js ''1970-01-01T00:00:00Z'')"

definition done_state :: ConversationState where
  "done_state = (createInitialConversationState (Some (js ''c'')))
     \<lparr>st_revision := Some 1, st_processed_event_ids := [js ''e1''], st_turns := [done_turn]\<rparr>"

definition late_request :: ConversationEvent where
  "late_request = runtime_event (js ''e2'') (js ''c'') 2 (TurnCancellationRequested (js ''t1'') CancelUser)"

theorem terminal_turns_final_witness:
  "\<exists>u \<in> set (st_turns (acceptEnvelope done_state late_request)). only_retries done_turn u"
proof (rule terminal_turns_final)
  show "reduceConversationEvent (\<lambda>_. None) done_state late_request = Inr (acceptEnvelope done_state late_request)"
    by (simp add: reducer_eval done_state_def late_request_def updateTurnCancellation_def done_turn_def)
  show "ev_payload late_request \<noteq> ConversationCleared" by (simp add: late_request_def runtime_event_def)
  show "done_turn \<in> set (st_turns done_state)" by (simp add: done_state_def)
  show "isTerminal done_turn" by (simp add: done_turn_def isTerminal_def apply_terminal_def completed_fields_def)
qed

section \<open>Approval proposals\<close>

text \<open>How a proposal may move in one event: not at all, or along one lifecycle edge.\<close>

definition proposal_step :: "ConversationApprovalProposalRecord \<Rightarrow> ConversationApprovalProposalRecord \<Rightarrow> bool" where
  "proposal_step p q \<longleftrightarrow> q = p \<or>
     (ap_proposal_version q = ap_proposal_version p + 1 \<and>
      isLegalConversationApprovalProposalTransition (ap_status p) (ap_status q) \<and>
      ap_proposal_id q = ap_proposal_id p \<and> ap_turn_id q = ap_turn_id p \<and> ap_tool_call_id q = ap_tool_call_id p \<and>
      ap_tool_name q = ap_tool_name p \<and> ap_reviewed_arguments q = ap_reviewed_arguments p \<and>
      ap_created_at q = ap_created_at p \<and> ap_created_attribution q = ap_created_attribution p)"

lemma proposal_step_refl [simp]: "proposal_step p p"
  by (simp add: proposal_step_def)

lemma proposals_unchanged:
  assumes "reduce_payload U s e a p = Inr s'" "p \<noteq> ConversationCleared"
    "\<And>q. p \<noteq> ApprovalProposalCreated q" "\<And>q v c. p \<noteq> ApprovalProposalStatusChanged q v c"
  shows "st_approval_proposals s' = st_approval_proposals s"
proof -
  have tp: "tool_part s' = tool_part s \<Longrightarrow> ?thesis" by (simp add: tool_part_def)
  show ?thesis
  proof (cases p)
    case (TurnStatusChanged t st)
    with assms(1) turn_status_frame(3) tp show ?thesis by simp
  next
    case (CitationRecordsLinked t ss cs)
    with assms(1) have "on_records_linked U s t ss cs = Inr s'" by simp
    then show ?thesis
    proof (cases rule: on_records_linked_cases)
      case (2 r s1)
      have "st_approval_proposals s1 = st_approval_proposals s"
        using merge_frame(4) [OF 2(1)] by (simp add: tool_part_def)
      with 2(2) show ?thesis
        by (simp add: link_citation_target_def appendMessage_def appendToolCall_def
            split: ConversationCitationTarget.split option.split)
    qed simp
  next
    case (ToolCallResultRecorded t c ps b r)
    with assms(1) have "on_result_recorded U s e a t c ps b r = Inr s'" by simp
    then show ?thesis
      by (cases rule: on_result_recorded_cases) (simp_all add: appendToolCall_def updateToolCall_def)
  qed (use assms tp in \<open>auto simp: keeps on_tool_call_requested_def on_tool_call_marker_def Let_def
      appendToolCall_def updateToolCall_def split: option.splits if_splits\<close>)
qed

lemma status_changed_steps:
  assumes "p \<in> set (st_approval_proposals s)"
  shows "\<exists>q \<in> set (st_approval_proposals (on_proposal_status_changed s e a x v c)). proposal_step p q"
proof (cases "on_proposal_status_changed s e a x v c = s")
  case True
  with assms show ?thesis by (auto intro!: bexI [of _ p])
next
  case False
  then obtain i where i: "findProposal s x = Some i"
    and legal: "v = ap_proposal_version (st_approval_proposals s ! i) + 1"
      "isLegalConversationApprovalProposalTransition (ap_status (st_approval_proposals s ! i)) (change_status c)"
    and eq: "on_proposal_status_changed s e a x v c =
      updateApprovalProposal s i (changed_proposal e a v c (st_approval_proposals s ! i))"
    by (auto simp: on_proposal_status_changed_def Let_def split: option.splits if_splits)
  have "proposal_step (st_approval_proposals s ! i) (changed_proposal e a v c (st_approval_proposals s ! i))"
    using legal by (simp add: proposal_step_def changed_proposal_def Let_def)
  with assms have "\<exists>q \<in> set ((st_approval_proposals s)[i := changed_proposal e a v c (st_approval_proposals s ! i)]). proposal_step p q"
    by (intro list_update_related) simp_all
  then show ?thesis by (simp add: eq updateApprovalProposal_def)
qed


text \<open>A pending proposal that the user confirms.\<close>

definition pending_proposal :: ConversationApprovalProposalRecord where
  "pending_proposal = created_proposal (runtime_event (js ''e0'') (js ''c'') 1 ConversationCleared)
     \<lparr>aa_actor = \<lparr>actor_type = ActorSystem, actor_id = None\<rparr>, aa_source = RuntimeSource\<rparr>
     \<lparr>pc_proposal_id = js ''p'', pc_group_id = None, pc_turn_id = js ''t'', pc_tool_call_id = js ''k'',
      pc_tool_name = js ''n'', pc_expires_at = None, pc_reviewed_arguments = OpaqueReference (js ''r'')\<rparr>"

definition confirmation :: ConversationEvent where
  "confirmation = runtime_event (js ''e2'') (js ''c'') 2 (ApprovalProposalStatusChanged (js ''p'') 2 (ChangeConfirmed None))"

definition pending_state :: ConversationState where
  "pending_state = (createInitialConversationState (Some (js ''c'')))
     \<lparr>st_revision := Some 1, st_processed_event_ids := [js ''e1''], st_approval_proposals := [pending_proposal]\<rparr>"


section \<open>Streamed text\<close>

text \<open>Events that stream the chunks of one assistant message, from a given revision on.\<close>

fun text_events :: "js_string \<Rightarrow> js_string \<Rightarrow> js_string \<Rightarrow> (nat \<Rightarrow> js_string) \<Rightarrow> nat \<Rightarrow> js_string list \<Rightarrow> ConversationEvent list" where
  "text_events cid t m ids r [] = []"
| "text_events cid t m ids r (x # xs) =
     runtime_event (ids r) cid (int r) (MessageTextAppended t m x) # text_events cid t m ids (Suc r) xs"

definition streaming :: "ConversationState \<Rightarrow> js_string \<Rightarrow> js_string \<Rightarrow> js_string \<Rightarrow> bool" where
  "streaming s t m w \<longleftrightarrow> (\<exists>x \<in> set (st_messages s). m_message_id x = m \<and> m_turn_id x = Some t \<and>
     m_role x = Some RoleAssistant \<and> m_content x = [TextPart w])"

lemma text_step:
  assumes ok: "state_ok s" and cid: "st_conversation_id s = Some cid" and r: "expected_revision s = int r"
    and new: "ids r \<notin> set (st_processed_event_ids s)" and m: "streaming s t m w"
  shows "\<exists>s'. reduceConversationEvent U s (runtime_event (ids r) cid (int r) (MessageTextAppended t m x)) = Inr s' \<and>
    streaming s' t m (w @ x)"
proof -
  let ?e = "runtime_event (ids r) cid (int r) (MessageTextAppended t m x)"
  let ?s = "acceptEnvelope s ?e" and ?a = "\<lparr>aa_actor = ev_actor ?e, aa_source = ev_source ?e\<rparr>"
  have acc: "accepts s ?e"
    using cid r new by (simp add: accepts_def already_processed_def runtime_event_def)
  have step: "reduceConversationEvent U s ?e = Inr (on_text_appended ?s ?e ?a t m x)"
    by (simp add: reduce_accepts [OF acc])
  obtain y where y: "y \<in> set (st_messages s)" "m_message_id y = m" "m_turn_id y = Some t"
    "m_role y = Some RoleAssistant" "m_content y = [TextPart w]" using m by (auto simp: streaming_def)
  have msgs: "st_messages ?s = st_messages s" by (simp add: acceptEnvelope_def)
  obtain i where i: "findMessage ?s m = Some i"
    using y by (cases "findMessage ?s m") (auto simp: findMessage_def msgs)
  note idx = findMessage_Some [OF i, unfolded msgs]
  have "y = st_messages s ! i"
    using ok y idx by (auto simp: state_ok_def messages_ok_def distinct_map inj_on_def)
  define u where "u = y
      \<lparr>m_turn_id := Some t, m_role := Some RoleAssistant, m_content := [TextPart (w @ x)],
       m_created_at := Some (coalesce (m_created_at y) (ev_occurred_at ?e)),
       m_attribution := Some (coalesce (m_attribution y) ?a)\<rparr>"
  have "on_text_appended ?s ?e ?a t m x = updateMessages ?s i u"
    using i y \<open>y = st_messages s ! i\<close> by (simp add: on_text_appended_def msgs appendMessageText_def Let_def u_def)
  moreover have "u \<in> set ((st_messages s)[i := u])" using idx by (intro set_update_memI) simp
  ultimately have "streaming (on_text_appended ?s ?e ?a t m x) t m (w @ x)"
    unfolding streaming_def updateMessages_def using y
    by (intro bexI [of _ u]) (simp_all add: u_def msgs)
  with step show ?thesis by blast
qed

lemma text_stream:
  assumes "state_ok s" "st_conversation_id s = Some cid" "expected_revision s = int r"
    "\<forall>k \<ge> r. ids k \<notin> set (st_processed_event_ids s)" "inj_on ids {k. r \<le> k}" "streaming s t m w"
  shows "\<exists>s'. reduceEvents U s (text_events cid t m ids r xs) = Inr s' \<and> streaming s' t m (w @ concat xs)"
  using assms
proof (induction xs arbitrary: s r w)
  case (Cons x xs)
  let ?e = "runtime_event (ids r) cid (int r) (MessageTextAppended t m x)"
  obtain s1 where s1: "reduceConversationEvent U s ?e = Inr s1" "streaming s1 t m (w @ x)"
    using text_step [OF Cons.prems(1-3) _ Cons.prems(6)] Cons.prems(4) by blast
  have acc: "accepts s ?e"
    using Cons.prems by (simp add: accepts_def already_processed_def runtime_event_def)
  have log: "st_conversation_id s1 = Some cid" "st_processed_event_ids s1 = st_processed_event_ids s @ [ids r]"
    "expected_revision s1 = int (Suc r)"
    using accepted_log [OF acc s1(1)] Cons.prems(2,3)
    by (auto simp: log_part_def acceptEnvelope_def runtime_event_def expected_revision_def)
  have "ids k \<noteq> ids r" if "Suc r \<le> k" for k
    using inj_onD [OF Cons.prems(5), of k r] that by auto
  then have "\<exists>s'. reduceEvents U s1 (text_events cid t m ids (Suc r) xs) = Inr s' \<and> streaming s' t m ((w @ x) @ concat xs)"
    using Cons.prems log s1(2) reduce_state_ok [OF Cons.prems(1) s1(1)]
    by (intro Cons.IH) (auto simp: inj_on_def)
  with s1(1) show ?case by auto
qed auto

text \<open>
  The chunks of an assistant message that is being streamed are concatenated in order:
  after any number of consecutive text events of its turn, the message holds the text it had
  followed by all the chunks, and no event is refused.
\<close>

theorem streamed_text_concatenated:
  assumes "state_ok s" "st_conversation_id s = Some cid" "expected_revision s = int r"
    "\<forall>k \<ge> r. ids k \<notin> set (st_processed_event_ids s)" "inj_on ids {k. r \<le> k}" "streaming s t m w"
  shows "\<exists>s'. reduceEvents parse_url s (text_events cid t m ids r xs) = Inr s' \<and> streaming s' t m (w @ concat xs)"
  using assms by (rule text_stream)

text \<open>A conversation whose only message is being streamed.\<close>

definition stream_state :: ConversationState where
  "stream_state = state_of (reduceEvents (\<lambda>_. None) (createInitialConversationState (Some (js ''c'')))
     [runtime_event (js ''a'') (js ''c'') 1 (MessageTextAppended (js ''t'') (js ''m'') (js ''He''))])"

theorem streamed_text_concatenated_witness:
  "\<exists>s'. reduceEvents (\<lambda>_. None) stream_state
      (text_events (js ''c'') (js ''t'') (js ''m'') (\<lambda>k. replicate k 0) 2 [js ''l'', js ''lo'']) = Inr s' \<and>
     streaming s' (js ''t'') (js ''m'') (js ''He'' @ concat [js ''l'', js ''lo''])"
proof (rule streamed_text_concatenated)
  have run: "reduceEvents (\<lambda>_. None) (createInitialConversationState (Some (js ''c'')))
     [runtime_event (js ''a'') (js ''c'') 1 (MessageTextAppended (js ''t'') (js ''m'') (js ''He''))] = Inr stream_state"
    by (simp add: stream_state_def state_of_def reducer_eval)
  show "state_ok stream_state" by (rule reduceEvents_state_ok [OF initial_state_ok run])
  show "st_conversation_id stream_state = Some (js ''c'')" "expected_revision stream_state = int 2"
    "streaming stream_state (js ''t'') (js ''m'') (js ''He'')"
    by (simp_all add: stream_state_def state_of_def reducer_eval streaming_def)
  show "\<forall>k \<ge> 2. replicate k 0 \<notin> set (st_processed_event_ids stream_state)"
    by (auto simp: stream_state_def state_of_def reducer_eval dest: arg_cong [of _ _ length])
  show "inj_on (\<lambda>k. replicate k (0 :: code_unit)) {k. 2 \<le> k}"
    by (auto simp: inj_on_def dest: arg_cong [of _ _ length])
qed

section \<open>Exceptions\<close>

text \<open>Validation has already normalised the citation records of an event.\<close>

lemma validated_payload:
  assumes "parseConversationEvent U R (event_json e) = Inr v"
  shows "okE (validatePayload U R (Some (payload_json (ev_payload e))) (js ''$event.payload''))"
proof -
  obtain obj where obj: "event_json e = JObj obj" by (simp add: event_json_def)
  have "dot (js ''$event'') ''payload'' = js ''$event.payload''" by (simp add: dot_def js_def)
  with assms event_fields(8) [OF obj] show ?thesis
    unfolding parseConversationEvent_def Let_def obj event_record_def option.case json.case bindE_simps
    by (auto simp: bindE_Inr_iff okE_unit [symmetric])
qed

lemma validated_links:
  assumes "okE (validatePayload U R (Some (payload_json (CitationRecordsLinked t ss cs))) p)"
  shows "okE (normalizeCitationRecords U (citation_records_json \<lparr>rs_sources = ss, rs_citations = cs\<rparr>))"
proof -
  let ?obj = "(js ''type'', JText ''citation.records_linked'') # payload_fields (CitationRecordsLinked t ss cs)"
  from assms have "okE (validate_records_linked U ?obj p)"
    by (simp add: validatePayload_def payload_json_def event_record_def CONVERSATION_EVENT_TYPES_def
        payload_validator_def okE_bindE)
  then show ?thesis
    by (auto simp: validate_records_linked_def okE_bindE refail_def citation_records_json_def
        split: sum.splits)
qed

lemma validated_result:
  assumes "okE (validatePayload U R (Some (payload_json (ToolCallResultRecorded t c ps b (Some r)))) p)"
  shows "okE (normalizeCitationRecords U (citation_records_json r))"
proof -
  let ?obj = "(js ''type'', JText ''tool_call.result_recorded'') # payload_fields (ToolCallResultRecorded t c ps b (Some r))"
  from assms have "okE (validate_result_recorded U ?obj p)"
    by (simp add: validatePayload_def payload_json_def event_record_def CONVERSATION_EVENT_TYPES_def
        payload_validator_def okE_bindE)
  then have "okE (validate_result_citations U ?obj p)"
    by (simp add: validate_result_recorded_def has_own_fld opt_field_def)
  then show ?thesis
    by (auto simp: validate_result_citations_def Let_def okE_bindE refail_def opt_field_def split: sum.splits)
qed

text \<open>
  C6: on a validated event the reducer throws exactly if it accepts the event and the event
  changes the status of a known turn that is not terminal, to another status than waiting for
  approval, while another turn is active; the error is always that one. No other event makes it
  throw: not one with citation records, and not the start, an attempt or the first status of a
  turn while another one is active, which make that turn the active one.
\<close>

theorem validated_event_exceptions:
  assumes "parseConversationEvent parse_url R (event_json e) = Inr v"
  shows "reduceConversationEvent parse_url s e = Inl err \<longleftrightarrow>
    err = AnotherTurnActive \<and> accepts s e \<and> (\<exists>t st i. ev_payload e = TurnStatusChanged t st \<and>
      st \<noteq> WaitingForApproval \<and> findTurn s t = Some i \<and> \<not> isTerminal (st_turns s ! i) \<and>
      st_active_turn_id s \<notin> {None, Some t})"
proof (cases "accepts s e")
  case False
  with reduce_rejects [of s e parse_url] show ?thesis by auto
next
  case True
  let ?s = "acceptEnvelope s e"
  note valid = validated_payload [OF assms]
  have turns: "st_turns ?s = st_turns s" "st_active_turn_id ?s = st_active_turn_id s"
    by (simp_all add: acceptEnvelope_def)
  then have find: "findTurn ?s t = findTurn s t" for t by (simp add: findTurn_def)
  show ?thesis
  proof (cases "ev_payload e")
    case (CitationRecordsLinked t ss cs)
    with True valid validated_links [of parse_url R t ss cs] show ?thesis
      by (auto simp: reduce_accepts on_records_linked_def okE_iff split: sum.splits)
  next
    case (ToolCallResultRecorded t c ps b r)
    show ?thesis
    proof (cases r)
      case None
      with True ToolCallResultRecorded show ?thesis by (simp add: reduce_accepts on_result_recorded_def)
    next
      case (Some q)
      with valid ToolCallResultRecorded have "okE (normalizeCitationRecords parse_url (citation_records_json q))"
        by (intro validated_result) simp
      with True ToolCallResultRecorded Some show ?thesis
        by (auto simp: reduce_accepts on_result_recorded_def okE_iff)
    qed
  next
    case (TurnStatusChanged t st)
    with True show ?thesis
      by (auto simp: reduce_accepts on_turn_status_changed_def Let_def turns find split: option.splits if_splits)
  qed (use True in \<open>simp_all add: reduce_accepts\<close>)
qed

text \<open>A second turn cannot start running while the first is active.\<close>

lemma status_payload_ok:
  "okE (validatePayload U R (Some (payload_json (TurnStatusChanged (js ''t2'') Running))) p)"
  by (simp add: validatePayload_def payload_json_def event_record_def CONVERSATION_EVENT_TYPES_def
      payload_validator_def okE_bindE okE_field_checks validate_turn_status_changed_def payload_keys_def
      id_field_ok identifier_ok_def identifierLength_def enum_field_def turn_status_text_def TURN_STATUSES_def
      required_keys_Inr_iff)

definition second_turn :: ConversationEvent where
  "second_turn = runtime_event (js ''e2'') (js ''c'') 2 (TurnStatusChanged (js ''t2'') Running)"

definition two_turns :: ConversationState where
  "two_turns = (createInitialConversationState (Some (js ''c'')))
     \<lparr>st_revision := Some 1, st_processed_event_ids := [js ''e1''], st_active_turn_id := Some (js ''t1''),
      st_turns := map (\<lambda>t. emptyTurn t (TurnOpen Queued)
        \<lparr>aa_actor = \<lparr>actor_type = ActorSystem, actor_id = None\<rparr>, aa_source = RuntimeSource\<rparr>) [js ''t1'', js ''t2'']\<rparr>"

theorem validated_event_exceptions_witness:
  "reduceConversationEvent (\<lambda>_. None) two_turns second_turn = Inl AnotherTurnActive"
proof -
  have parsed: "parseConversationEvent (\<lambda>_. None) (\<lambda>_. []) (event_json second_turn) = Inr (event_json second_turn)"
    unfolding second_turn_def
    by (rule runtime_event_parses)
      (simp_all add: status_payload_ok identifier_ok_def identifierLength_def MAX_SAFE_INTEGER_def)
  have "accepts two_turns second_turn"
    by (simp add: accepts_def already_processed_def expected_revision_def two_turns_def second_turn_def
        createInitialConversationState_def)
  then show ?thesis
    unfolding validated_event_exceptions [OF parsed]
    by (simp add: two_turns_def second_turn_def findTurn_def)
qed

end
