(* ===== verification/ConversationStore.thy ===== *)
theory ConversationStore
  imports ReducerProperties
begin

text \<open>
  \<^verbatim>\<open>src/conversation/store.ts\<close>: the external store of one conversation. The closure variables of
  \<^verbatim>\<open>createConversationStore\<close> are the fields of a record; the promise chain \<^verbatim>\<open>mutationBoundary\<close> is
  the queue of batches that wait for their turn. A subscription returns a closure with a flag
  of its own, so subscriptions are numbered and keep that flag.

  Listeners and selectors are code of the host. What a listener does to the store while it
  runs is a list of method calls, which the parameter \<open>host\<close> gives for the state that the
  listener sees; a selector or an equality that throws returns \<open>None\<close>. A listener that throws
  has the effect of the calls made before, because the store catches the exception.
\<close>

section \<open>The store and its methods\<close>

record ('l, 'v) SelectorSubscription =
  sl_selector :: "ConversationState \<Rightarrow> 'v option"
  sl_isEqual :: "'v \<Rightarrow> 'v \<Rightarrow> bool option"
  sl_listener :: 'l
  sl_previousSelected :: 'v
  sl_subscribed :: bool

record ('l, 'v) conversation_store =
  cs_snapshot :: ConversationState
  cs_destroyed :: bool
  cs_listeners :: "'l list"
  cs_handles :: "('l \<times> bool) list"
  cs_selections :: "('l, 'v) SelectorSubscription list"
  cs_selectorSubscriptions :: "nat list"
  cs_pending :: "ConversationEvent list list"

datatype (plugins only: code size) store_failure = InitialStateMismatch | ConversationStoreDestroyedError | SelectorThrew

definition createConversationStore :: "js_string option \<Rightarrow> ConversationState \<Rightarrow> store_failure + ('l, 'v) conversation_store" where
  "createConversationStore conversationId initialState =
     (if conversationId \<noteq> None \<and> st_conversation_id initialState \<noteq> None \<and>
         st_conversation_id initialState \<noteq> conversationId
      then Inl InitialStateMismatch
      else Inr \<lparr>cs_snapshot = initialState, cs_destroyed = False, cs_listeners = [], cs_handles = [],
        cs_selections = [], cs_selectorSubscriptions = [], cs_pending = []\<rparr>)"

text \<open>\<^verbatim>\<open>Set.add\<close> keeps insertion order.\<close>

definition set_add :: "'a \<Rightarrow> 'a list \<Rightarrow> 'a list" where
  "set_add x xs = (if x \<in> set xs then xs else xs @ [x])"

definition subscribe :: "'l \<Rightarrow> ('l, 'v) conversation_store \<Rightarrow> store_failure + nat \<times> ('l, 'v) conversation_store" where
  "subscribe listener s =
     (if cs_destroyed s then Inl ConversationStoreDestroyedError
      else Inr (length (cs_handles s), s\<lparr>cs_listeners := set_add listener (cs_listeners s),
        cs_handles := cs_handles s @ [(listener, True)]\<rparr>))"

text \<open>The closure that \<^verbatim>\<open>subscribe\<close> returned as number \<open>n\<close>.\<close>

definition unsubscribe :: "nat \<Rightarrow> ('l, 'v) conversation_store \<Rightarrow> ('l, 'v) conversation_store" where
  "unsubscribe n s =
     (if n < length (cs_handles s) \<and> snd (cs_handles s ! n)
      then s\<lparr>cs_handles := (cs_handles s)[n := (fst (cs_handles s ! n), False)],
             cs_listeners := removeAll (fst (cs_handles s ! n)) (cs_listeners s)\<rparr>
      else s)"

definition select_value :: "(ConversationState \<Rightarrow> 'v option) \<Rightarrow> ('l, 'v) conversation_store \<Rightarrow> store_failure + 'v" where
  "select_value selector s = (case selector (cs_snapshot s) of None \<Rightarrow> Inl SelectorThrew | Some v \<Rightarrow> Inr v)"

definition select_listen :: "(ConversationState \<Rightarrow> 'v option) \<Rightarrow> 'l \<Rightarrow> ('v \<Rightarrow> 'v \<Rightarrow> bool option) \<Rightarrow>
    ('l, 'v) conversation_store \<Rightarrow> store_failure + nat \<times> ('l, 'v) conversation_store" where
  "select_listen selector listener isEqual s =
     (if cs_destroyed s then Inl ConversationStoreDestroyedError
      else bindE (select_value selector s) (\<lambda>selected.
        let n = length (cs_selections s) in
        Inr (n, s\<lparr>cs_selections := cs_selections s @ [\<lparr>sl_selector = selector, sl_isEqual = isEqual,
                    sl_listener = listener, sl_previousSelected = selected, sl_subscribed = True\<rparr>],
                  cs_selectorSubscriptions := set_add n (cs_selectorSubscriptions s)\<rparr>)))"

definition unsubscribe_selector :: "nat \<Rightarrow> ('l, 'v) conversation_store \<Rightarrow> ('l, 'v) conversation_store" where
  "unsubscribe_selector n s =
     (if n < length (cs_selections s) \<and> sl_subscribed (cs_selections s ! n)
      then s\<lparr>cs_selections := (cs_selections s)[n := (cs_selections s ! n)\<lparr>sl_subscribed := False\<rparr>],
             cs_selectorSubscriptions := removeAll n (cs_selectorSubscriptions s)\<rparr>
      else s)"

text \<open>A call of \<^verbatim>\<open>applyEvents\<close> puts its batch behind the mutation boundary.\<close>

definition applyEvents :: "ConversationEvent list \<Rightarrow> ('l, 'v) conversation_store \<Rightarrow> store_failure + ('l, 'v) conversation_store" where
  "applyEvents events s =
     (if cs_destroyed s then Inl ConversationStoreDestroyedError
      else Inr (s\<lparr>cs_pending := cs_pending s @ [events]\<rparr>))"

definition applyEvent :: "ConversationEvent \<Rightarrow> ('l, 'v) conversation_store \<Rightarrow> store_failure + ('l, 'v) conversation_store" where
  "applyEvent event s = applyEvents [event] s"

definition destroy :: "('l, 'v) conversation_store \<Rightarrow> ('l, 'v) conversation_store" where
  "destroy s = (if cs_destroyed s then s
     else s\<lparr>cs_destroyed := True, cs_listeners := [], cs_selectorSubscriptions := []\<rparr>)"

datatype (plugins only: code size) ('l, 'v) command =
    Subscribe 'l
  | Unsubscribe nat
  | SelectListen "ConversationState \<Rightarrow> 'v option" 'l "'v \<Rightarrow> 'v \<Rightarrow> bool option"
  | UnsubscribeSelector nat
  | ApplyEvents "ConversationEvent list"
  | Destroy

definition perform :: "('l, 'v) command \<Rightarrow> ('l, 'v) conversation_store \<Rightarrow> ('l, 'v) conversation_store" where
  "perform c s = (case c of
     Subscribe l \<Rightarrow> (case subscribe l s of Inl _ \<Rightarrow> s | Inr (_, s') \<Rightarrow> s')
   | Unsubscribe n \<Rightarrow> unsubscribe n s
   | SelectListen f l eq \<Rightarrow> (case select_listen f l eq s of Inl _ \<Rightarrow> s | Inr (_, s') \<Rightarrow> s')
   | UnsubscribeSelector n \<Rightarrow> unsubscribe_selector n s
   | ApplyEvents es \<Rightarrow> (case applyEvents es s of Inl _ \<Rightarrow> s | Inr s' \<Rightarrow> s')
   | Destroy \<Rightarrow> destroy s)"

section \<open>Notification\<close>

datatype (plugins only: code size) ('l, 'v) callback = Changed 'l | SelectedChanged 'l 'v 'v

type_synonym ('l, 'v) host = "('l, 'v) callback \<Rightarrow> ('l, 'v) conversation_store \<Rightarrow> ('l, 'v) command list"

definition invoke :: "('l, 'v) host \<Rightarrow> ('l, 'v) callback \<Rightarrow> ('l, 'v) conversation_store \<Rightarrow> ('l, 'v) conversation_store" where
  "invoke host cb s = fold perform (host cb s) s"

text \<open>The two loops of \<^verbatim>\<open>notify\<close> run over copies of the sets; the list of calls is returned.\<close>

fun notify_listeners :: "('l, 'v) host \<Rightarrow> 'l list \<Rightarrow> ('l, 'v) conversation_store \<Rightarrow>
    ('l, 'v) conversation_store \<times> ('l, 'v) callback list" where
  "notify_listeners host [] s = (s, [])"
| "notify_listeners host (l # ls) s =
     (if cs_destroyed s then (s, [])
      else if l \<notin> set (cs_listeners s) then notify_listeners host ls s
      else let (s', calls) = notify_listeners host ls (invoke host (Changed l) s) in (s', Changed l # calls))"

definition notify_subscription :: "('l, 'v) host \<Rightarrow> nat \<Rightarrow> ('l, 'v) conversation_store \<Rightarrow>
    ('l, 'v) conversation_store \<times> ('l, 'v) callback list" where
  "notify_subscription host n s =
     (let sub = cs_selections s ! n; previous = sl_previousSelected sub in
      case sl_selector sub (cs_snapshot s) of
        None \<Rightarrow> (s, [])
      | Some nextSelected \<Rightarrow>
          if sl_isEqual sub previous nextSelected \<noteq> Some False then (s, [])
          else let cb = SelectedChanged (sl_listener sub) nextSelected previous in
            (invoke host cb (s\<lparr>cs_selections := (cs_selections s)[n := sub\<lparr>sl_previousSelected := nextSelected\<rparr>]\<rparr>), [cb]))"

fun notify_selections :: "('l, 'v) host \<Rightarrow> nat list \<Rightarrow> ('l, 'v) conversation_store \<Rightarrow>
    ('l, 'v) conversation_store \<times> ('l, 'v) callback list" where
  "notify_selections host [] s = (s, [])"
| "notify_selections host (n # ns) s =
     (if n \<notin> set (cs_selectorSubscriptions s) then notify_selections host ns s
      else let (s', calls) = notify_subscription host n s in
        if cs_destroyed s' then (s', calls)
        else let (s'', calls') = notify_selections host ns s' in (s'', calls @ calls'))"

definition notify :: "('l, 'v) host \<Rightarrow> ('l, 'v) conversation_store \<Rightarrow> ('l, 'v) conversation_store \<times> ('l, 'v) callback list" where
  "notify host s =
     (let (s', calls) = notify_listeners host (cs_listeners s) s in
      if cs_destroyed s' then (s', calls)
      else let (s'', calls') = notify_selections host (cs_selectorSubscriptions s') s' in (s'', calls @ calls'))"

section \<open>Applying a batch\<close>

text \<open>
  The fold of the reducer, with whether the resulting object is a new one. The reducer returns
  its argument itself or a new object of different content, so a step is compared by value;
  a batch that ends in an equal state after a change has still made a new object.
\<close>

fun apply_batch :: "url_parser \<Rightarrow> ConversationState \<Rightarrow> ConversationEvent list \<Rightarrow> reducer_error + ConversationState \<times> bool" where
  "apply_batch parse_url state [] = Inr (state, False)"
| "apply_batch parse_url state (event # events) =
     bindE (reduceConversationEvent parse_url state event) (\<lambda>next.
     bindE (apply_batch parse_url next events) (\<lambda>(final, changed).
     Inr (final, next \<noteq> state \<or> changed)))"

datatype (plugins only: code size) settlement = Resolved ConversationState | RejectedDestroyed | RejectedReducer reducer_error

definition run_operation :: "url_parser \<Rightarrow> ('l, 'v) host \<Rightarrow> ConversationEvent list \<Rightarrow> ('l, 'v) conversation_store \<Rightarrow>
    settlement \<times> ('l, 'v) conversation_store \<times> ('l, 'v) callback list" where
  "run_operation parse_url host events s =
     (if cs_destroyed s then (RejectedDestroyed, s, [])
      else case apply_batch parse_url (cs_snapshot s) events of
        Inl e \<Rightarrow> (RejectedReducer e, s, [])
      | Inr (nextSnapshot, changed) \<Rightarrow>
          if changed
          then let (s', calls) = notify host (s\<lparr>cs_snapshot := nextSnapshot\<rparr>) in (Resolved (cs_snapshot s'), s', calls)
          else (Resolved (cs_snapshot s), s, []))"

text \<open>The batch at the head of the boundary runs when the ones before it have settled.\<close>

definition run_next :: "url_parser \<Rightarrow> ('l, 'v) host \<Rightarrow> ('l, 'v) conversation_store \<Rightarrow>
    (settlement \<times> ('l, 'v) conversation_store \<times> ('l, 'v) callback list) option" where
  "run_next parse_url host s = (case cs_pending s of
     [] \<Rightarrow> None
   | events # rest \<Rightarrow> Some (run_operation parse_url host events (s\<lparr>cs_pending := rest\<rparr>)))"

end
