(* ===== verification/ConversationStoreProperties.thy ===== *)
theory ConversationStoreProperties
  imports ConversationStore "HOL-Library.Sublist"
begin

text \<open>
  What the external store promises to its host, whatever the listeners do while they run:
  batches are applied whole and in the order of the calls, a destroyed store never changes
  again, and a notification calls every listener that was subscribed, once and in order.
\<close>

section \<open>Frames of the methods\<close>

text \<open>
  What no method call and no notification can do: change the snapshot, take a batch out of
  the queue, or revive a destroyed store.
\<close>

definition host_frame :: "('l, 'v) conversation_store \<Rightarrow> ('l, 'v) conversation_store \<Rightarrow> bool" where
  "host_frame s s' \<longleftrightarrow> cs_snapshot s' = cs_snapshot s \<and> (\<exists>more. cs_pending s' = cs_pending s @ more) \<and>
     (cs_destroyed s \<longrightarrow> cs_destroyed s' \<and> cs_pending s' = cs_pending s)"

definition store_inv :: "('l, 'v) conversation_store \<Rightarrow> bool" where
  "store_inv s \<longleftrightarrow> distinct (cs_listeners s) \<and> distinct (cs_selectorSubscriptions s) \<and>
     (\<forall>n \<in> set (cs_selectorSubscriptions s). n < length (cs_selections s)) \<and>
     (cs_destroyed s \<longrightarrow> cs_listeners s = [] \<and> cs_selectorSubscriptions s = [])"

lemma host_frame_refl [simp]: "host_frame s s"
  by (simp add: host_frame_def)

lemma host_frame_trans [trans]: "host_frame s t \<Longrightarrow> host_frame t u \<Longrightarrow> host_frame s u"
  by (auto simp: host_frame_def)

lemma set_add_simps [simp]: "set (set_add x xs) = insert x (set xs)" "distinct (set_add x xs) = distinct xs"
  by (auto simp: set_add_def)

lemmas method_defs = subscribe_def unsubscribe_def select_value_def select_listen_def unsubscribe_selector_def
  applyEvents_def destroy_def

lemma perform_frame: "host_frame s (perform c s)"
  by (cases c) (auto simp: perform_def method_defs host_frame_def Let_def bindE_def split: option.splits)

lemma perform_inv: "store_inv s \<Longrightarrow> store_inv (perform c s)"
  by (cases c) (auto simp: perform_def method_defs store_inv_def Let_def bindE_def less_Suc_eq distinct_removeAll
      split: option.splits)

lemma invoke_frame: "host_frame s (invoke host cb s)"
proof -
  have "host_frame s (fold perform cs s)" for cs
    by (induction cs arbitrary: s) (auto intro: host_frame_trans perform_frame)
  then show ?thesis by (simp add: invoke_def)
qed

lemma invoke_inv: "store_inv s \<Longrightarrow> store_inv (invoke host cb s)"
proof -
  have "store_inv s \<Longrightarrow> store_inv (fold perform cs s)" for cs
    by (induction cs arbitrary: s) (auto intro: perform_inv)
  then show "store_inv s \<Longrightarrow> store_inv (invoke host cb s)" by (simp add: invoke_def)
qed

lemma notify_listeners_frame:
  "notify_listeners host ls s = (s', calls) \<Longrightarrow> host_frame s s' \<and> (store_inv s \<longrightarrow> store_inv s')"
proof (induction ls arbitrary: s calls)
  case (Cons l ls)
  show ?case
  proof (cases "cs_destroyed s \<or> l \<notin> set (cs_listeners s)")
    case True
    with Cons show ?thesis by (auto split: if_splits)
  next
    case False
    with Cons.prems obtain rest where "notify_listeners host ls (invoke host (Changed l) s) = (s', rest)"
      by (auto split: prod.splits)
    from Cons.IH [OF this] show ?thesis using invoke_frame invoke_inv host_frame_trans by blast
  qed
qed simp

lemma notify_subscription_frame:
  "notify_subscription host n s = (s', calls) \<Longrightarrow> host_frame s s' \<and> (store_inv s \<longrightarrow> store_inv s')"
proof -
  assume step: "notify_subscription host n s = (s', calls)"
  let ?upd = "\<lambda>v. s\<lparr>cs_selections := (cs_selections s)[n := (cs_selections s ! n)\<lparr>sl_previousSelected := v\<rparr>]\<rparr>"
  have upd: "host_frame s (?upd v)" "store_inv s \<Longrightarrow> store_inv (?upd v)" for v
    by (simp_all add: host_frame_def store_inv_def)
  from step consider "s' = s" | v cb where "s' = invoke host cb (?upd v)"
    by (auto simp: notify_subscription_def Let_def split: option.splits if_splits)
  then show ?thesis
  proof cases
    case (2 v cb)
    then show ?thesis
      using host_frame_trans [OF upd(1) invoke_frame] invoke_inv [OF upd(2)] by simp
  qed simp
qed

lemma notify_selections_frame:
  "notify_selections host ns s = (s', calls) \<Longrightarrow> host_frame s s' \<and> (store_inv s \<longrightarrow> store_inv s')"
proof (induction ns arbitrary: s calls)
  case (Cons n ns)
  show ?case
  proof (cases "n \<in> set (cs_selectorSubscriptions s)")
    case True
    obtain t c where sub: "notify_subscription host n s = (t, c)" by (cases "notify_subscription host n s")
    note frame = notify_subscription_frame [OF sub]
    show ?thesis
    proof (cases "cs_destroyed t")
      case True
      with Cons.prems \<open>n \<in> _\<close> sub frame show ?thesis by simp
    next
      case False
      with Cons.prems \<open>n \<in> _\<close> sub obtain rest where "notify_selections host ns t = (s', rest)"
        by (auto split: prod.splits)
      from Cons.IH [OF this] frame show ?thesis using host_frame_trans by blast
    qed
  qed (use Cons in simp)
qed simp

lemma notify_frame: "notify host s = (s', calls) \<Longrightarrow> host_frame s s' \<and> (store_inv s \<longrightarrow> store_inv s')"
proof -
  assume step: "notify host s = (s', calls)"
  obtain t c where t: "notify_listeners host (cs_listeners s) s = (t, c)" by (cases "notify_listeners host (cs_listeners s) s")
  obtain u d where u: "notify_selections host (cs_selectorSubscriptions t) t = (u, d)"
    by (cases "notify_selections host (cs_selectorSubscriptions t) t")
  from step t u have "s' = t \<or> s' = u" by (auto simp: notify_def Let_def split: if_splits)
  with notify_listeners_frame [OF t] notify_selections_frame [OF u] show ?thesis
    using host_frame_trans by metis
qed

section \<open>Runs of the store\<close>

lemma apply_batch_reduceEvents:
  "apply_batch parse_url s es = Inr (t, changed) \<Longrightarrow> reduceEvents parse_url s es = Inr t \<and> (\<not> changed \<longrightarrow> t = s)"
proof (induction es arbitrary: s changed)
  case (Cons e es)
  from Cons.prems obtain n c where "reduceConversationEvent parse_url s e = Inr n" "apply_batch parse_url n es = Inr (t, c)"
    "changed = (n \<noteq> s \<or> c)" by (auto simp: bindE_Inr_iff)
  with Cons.IH [of n c] show ?case by (auto simp: bindE_Inr_iff)
qed simp

lemma apply_batch_error: "apply_batch parse_url s es = Inl e \<longleftrightarrow> reduceEvents parse_url s es = Inl e"
proof (induction es arbitrary: s)
  case (Cons ev es)
  show ?case
  proof (cases "reduceConversationEvent parse_url s ev")
    case (Inr n)
    with Cons.IH [of n] show ?thesis by (cases "apply_batch parse_url n es") auto
  qed simp
qed simp

lemma run_operation_cases:
  assumes "run_operation parse_url host events s = (result, s', calls)"
  obtains (resolved) "\<not> cs_destroyed s" "result = Resolved (cs_snapshot s')"
      "reduceEvents parse_url (cs_snapshot s) events = Inr (cs_snapshot s')"
      "host_frame (s\<lparr>cs_snapshot := cs_snapshot s'\<rparr>) s'" "store_inv s \<longrightarrow> store_inv s'"
  | (rejected) "s' = s" "calls = []" "result = RejectedDestroyed \<and> cs_destroyed s \<or>
      (\<exists>e. result = RejectedReducer e \<and> \<not> cs_destroyed s \<and> reduceEvents parse_url (cs_snapshot s) events = Inl e)"
proof (cases "cs_destroyed s")
  case True
  with assms rejected show ?thesis by (simp add: run_operation_def)
next
  case live: False
  show ?thesis
  proof (cases "apply_batch parse_url (cs_snapshot s) events")
    case (Inl e)
    with assms live rejected show ?thesis by (simp add: run_operation_def apply_batch_error)
  next
    case (Inr r)
    obtain t changed where r: "r = (t, changed)" by (cases r)
    note batch = apply_batch_reduceEvents [OF Inr [unfolded r]]
    show ?thesis
    proof (cases changed)
      case True
      with assms live Inr r have n: "notify host (s\<lparr>cs_snapshot := t\<rparr>) = (s', calls)" "result = Resolved (cs_snapshot s')"
        by (auto simp: run_operation_def split: prod.splits)
      note frame = notify_frame [OF n(1)]
      then have "cs_snapshot s' = t" by (simp add: host_frame_def)
      moreover have "store_inv s \<longrightarrow> store_inv s'" using frame by (simp add: store_inv_def)
      ultimately show ?thesis using live batch n(2) frame by (intro resolved) simp_all
    next
      case False
      with assms live Inr r batch have "s' = s" "result = Resolved (cs_snapshot s)" "t = cs_snapshot s"
        by (auto simp: run_operation_def)
      with live batch show ?thesis by (intro resolved) simp_all
    qed
  qed
qed

text \<open>
  The runs of a store: calls of its methods interleaved with the settling of queued batches.
  The list holds the batches that have resolved.
\<close>

inductive store_run :: "url_parser \<Rightarrow> ('l, 'v) host \<Rightarrow> ('l, 'v) conversation_store \<Rightarrow> ConversationEvent list list \<Rightarrow>
    ('l, 'v) conversation_store \<Rightarrow> bool" for parse_url host s0 where
  start: "store_run parse_url host s0 [] s0"
| call: "store_run parse_url host s0 applied s \<Longrightarrow> store_run parse_url host s0 applied (perform c s)"
| resolve: "store_run parse_url host s0 applied s \<Longrightarrow> cs_pending s = events # rest \<Longrightarrow>
    run_next parse_url host s = Some (Resolved state, s', calls) \<Longrightarrow> store_run parse_url host s0 (applied @ [events]) s'"
| reject: "store_run parse_url host s0 applied s \<Longrightarrow> run_next parse_url host s = Some (result, s', calls) \<Longrightarrow>
    (\<And>state. result \<noteq> Resolved state) \<Longrightarrow> store_run parse_url host s0 applied s'"

lemma reduceEvents_append:
  "reduceEvents parse_url s (xs @ ys) = bindE (reduceEvents parse_url s xs) (\<lambda>t. reduceEvents parse_url t ys)"
  by (induction xs arbitrary: s) (auto simp: bindE_def split: sum.splits)

text \<open>
  C17: whatever the listeners do, the snapshot of a store is at every moment the fold of the
  reducer over the batches that have resolved, whole and in the order in which they were
  settled; a batch that was rejected has left no trace.
\<close>

theorem store_snapshot_fold:
  assumes "store_run parse_url host s0 applied s"
  shows "reduceEvents parse_url (cs_snapshot s0) (concat applied) = Inr (cs_snapshot s)"
  using assms
proof (induction rule: store_run.induct)
  case (call applied s c)
  then show ?case using perform_frame [of s c] by (simp add: host_frame_def)
next
  case (resolve applied s events rest state s' calls)
  then have "run_operation parse_url host events (s\<lparr>cs_pending := rest\<rparr>) = (Resolved state, s', calls)"
    by (simp add: run_next_def)
  then have "reduceEvents parse_url (cs_snapshot s) events = Inr (cs_snapshot s')"
    by (cases rule: run_operation_cases) auto
  with resolve.IH show ?case by (simp add: reduceEvents_append)
next
  case (reject applied s result s' calls)
  then obtain events rest where
    "run_operation parse_url host events (s\<lparr>cs_pending := rest\<rparr>) = (result, s', calls)"
    by (auto simp: run_next_def split: list.splits)
  then have "cs_snapshot s' = cs_snapshot s" by (cases rule: run_operation_cases) (use reject(3) in auto)
  with reject.IH show ?case by simp
qed simp

text \<open>
  A destroyed store is final: in every run that starts in a destroyed store the snapshot
  stays, nothing resolves, no listener is called and the subscriptions stay released.
\<close>

theorem destroyed_store_final:
  assumes "store_run parse_url host s0 applied s" "cs_destroyed s0" "store_inv s0"
  shows "applied = [] \<and> cs_destroyed s \<and> cs_snapshot s = cs_snapshot s0 \<and> cs_listeners s = [] \<and>
    cs_selectorSubscriptions s = [] \<and> (\<forall>result s' calls. run_next parse_url host s = Some (result, s', calls) \<longrightarrow>
      result = RejectedDestroyed \<and> calls = [])"
proof -
  have "applied = [] \<and> cs_destroyed s \<and> cs_snapshot s = cs_snapshot s0 \<and> store_inv s"
    using assms
  proof (induction rule: store_run.induct)
    case (call applied s c)
    then show ?case using perform_frame [of s c] perform_inv [of s c] by (simp add: host_frame_def)
  next
    case (resolve applied s events rest state s' calls)
    then show ?case by (simp add: run_next_def run_operation_def)
  next
    case (reject applied s result s' calls)
    then show ?case by (auto simp: run_next_def run_operation_def store_inv_def split: list.splits)
  qed simp
  then show ?thesis by (auto simp: store_inv_def run_next_def run_operation_def split: list.splits)
qed

section \<open>Who is called\<close>

definition listeners_called :: "('l, 'v) callback list \<Rightarrow> 'l list" where
  "listeners_called calls = List.map_filter (\<lambda>cb. case cb of Changed l \<Rightarrow> Some l | SelectedChanged _ _ _ \<Rightarrow> None) calls"

lemma listeners_called_simps [simp]:
  "listeners_called [] = []" "listeners_called (Changed l # calls) = l # listeners_called calls"
  "listeners_called (SelectedChanged l v w # calls) = listeners_called calls"
  "listeners_called (xs @ ys) = listeners_called xs @ listeners_called ys"
  by (simp_all add: listeners_called_def map_filter_simps List.map_filter_def)

text \<open>A host whose listeners release no subscription and do not destroy the store.\<close>

fun releases :: "('l, 'v) command \<Rightarrow> bool" where
  "releases (Unsubscribe n) = True"
| "releases (UnsubscribeSelector n) = True"
| "releases Destroy = True"
| "releases _ = False"

definition calm :: "('l, 'v) host \<Rightarrow> bool" where
  "calm host \<longleftrightarrow> (\<forall>cb s. \<forall>c \<in> set (host cb s). \<not> releases c)"

lemma perform_calm:
  assumes "\<not> releases c" "\<not> cs_destroyed s"
  shows "\<not> cs_destroyed (perform c s) \<and> set (cs_listeners s) \<subseteq> set (cs_listeners (perform c s))"
  using assms by (cases c) (auto simp: perform_def method_defs Let_def bindE_def split: option.splits)

lemma invoke_calm:
  assumes "calm host" "\<not> cs_destroyed s"
  shows "\<not> cs_destroyed (invoke host cb s) \<and> set (cs_listeners s) \<subseteq> set (cs_listeners (invoke host cb s))"
proof -
  have "\<not> cs_destroyed (fold perform cs s) \<and> set (cs_listeners s) \<subseteq> set (cs_listeners (fold perform cs s))"
    if "\<forall>c \<in> set cs. \<not> releases c" "\<not> cs_destroyed s" for cs s
    using that
  proof (induction cs arbitrary: s)
    case (Cons c cs)
    with perform_calm [of c s] Cons.IH [of "perform c s"] show ?case by auto
  qed simp
  from this [of "host cb s" s] assms show ?thesis by (simp add: invoke_def calm_def)
qed

lemma notify_listeners_called:
  "notify_listeners host ls s = (s', calls) \<Longrightarrow> subseq (listeners_called calls) ls"
proof (induction ls arbitrary: s calls)
  case (Cons l ls)
  show ?case
  proof (cases "cs_destroyed s \<or> l \<notin> set (cs_listeners s)")
    case True
    with Cons show ?thesis by (auto split: if_splits)
  next
    case False
    with Cons.prems obtain rest where "notify_listeners host ls (invoke host (Changed l) s) = (s', rest)"
      "calls = Changed l # rest" by (auto split: prod.splits)
    with Cons.IH show ?thesis by simp
  qed
qed simp

lemma notify_listeners_calm:
  assumes "calm host"
  shows "notify_listeners host ls s = (s', calls) \<Longrightarrow> \<not> cs_destroyed s \<Longrightarrow> set ls \<subseteq> set (cs_listeners s) \<Longrightarrow>
    listeners_called calls = ls \<and> \<not> cs_destroyed s'"
proof (induction ls arbitrary: s calls)
  case (Cons l ls)
  from Cons.prems obtain rest where rest: "notify_listeners host ls (invoke host (Changed l) s) = (s', rest)"
    "calls = Changed l # rest" by (auto split: prod.splits if_splits)
  from Cons.IH [OF rest(1)] invoke_calm [OF assms Cons.prems(2)] Cons.prems(3) rest(2) show ?case by auto
qed simp

lemma notify_selections_called:
  "notify_selections host ns s = (s', calls) \<Longrightarrow> listeners_called calls = []"
proof (induction ns arbitrary: s s' calls)
  case (Cons n ns)
  have one: "listeners_called (snd (notify_subscription host n s)) = []"
    by (simp add: notify_subscription_def Let_def split: option.split)
  show ?case
  proof (cases "n \<in> set (cs_selectorSubscriptions s)")
    case True
    obtain t c where sub: "notify_subscription host n s = (t, c)" by (cases "notify_subscription host n s")
    obtain u d where rest: "notify_selections host ns t = (u, d)" by (cases "notify_selections host ns t")
    from Cons.prems True sub rest have "calls = c \<or> calls = c @ d" by (auto split: if_splits)
    with one sub Cons.IH [OF rest] show ?thesis by auto
  qed (use Cons in simp)
qed simp

lemma notify_called:
  assumes "notify host s = (s', calls)"
  obtains t ls where "notify_listeners host (cs_listeners s) s = (t, ls)" "listeners_called calls = listeners_called ls"
proof -
  obtain t c where t: "notify_listeners host (cs_listeners s) s = (t, c)" by (cases "notify_listeners host (cs_listeners s) s")
  obtain u d where u: "notify_selections host (cs_selectorSubscriptions t) t = (u, d)"
    by (cases "notify_selections host (cs_selectorSubscriptions t) t")
  from assms t u have "calls = c \<or> calls = c @ d" by (auto simp: notify_def Let_def split: if_splits)
  with notify_selections_called [OF u] that [OF t] show ?thesis by auto
qed

lemma subseq_distinct:
  assumes "subseq xs ys" "distinct ys"
  shows "distinct xs"
  using assms
proof (induction rule: list_emb.induct)
  case (list_emb_Cons2 x y xs ys)
  then show ?case using list_emb_set [of "(=)" xs ys] by auto
qed auto

text \<open>
  C18: when a batch settles, the listeners that are called are among those subscribed when the
  notification starts, each at most once and in subscription order, also if listeners
  subscribe, unsubscribe or destroy the store meanwhile; if they release nothing, every
  subscribed listener is called exactly once when the state changed, and none when it did not.
\<close>

theorem notification_order:
  assumes "store_inv s" "run_operation parse_url host events s = (Resolved state, s', calls)"
  shows "subseq (listeners_called calls) (cs_listeners s) \<and> distinct (listeners_called calls) \<and>
    (calm host \<longrightarrow> listeners_called calls =
      (if apply_batch parse_url (cs_snapshot s) events = Inr (state, True) then cs_listeners s else []))"
proof (cases "apply_batch parse_url (cs_snapshot s) events")
  case (Inl e)
  with assms(2) show ?thesis by (simp add: run_operation_def split: if_splits)
next
  case (Inr r)
  obtain t changed where r: "r = (t, changed)" by (cases r)
  from assms(2) have live: "\<not> cs_destroyed s" by (auto simp: run_operation_def split: if_splits)
  show ?thesis
  proof (cases changed)
    case True
    let ?s = "s\<lparr>cs_snapshot := t\<rparr>"
    from assms(2) live Inr r True have n: "notify host ?s = (s', calls)" "state = cs_snapshot s'"
      by (auto simp: run_operation_def split: prod.splits)
    have t: "state = t" using notify_frame [OF n(1)] n(2) by (simp add: host_frame_def)
    obtain u ls where ls: "notify_listeners host (cs_listeners s) ?s = (u, ls)" "listeners_called calls = listeners_called ls"
      using notify_called [OF n(1)] by auto
    have sub: "subseq (listeners_called calls) (cs_listeners s)" using notify_listeners_called [OF ls(1)] ls(2) by simp
    moreover have "distinct (listeners_called calls)"
      using sub assms(1) by (metis store_inv_def subseq_distinct)
    moreover have "listeners_called calls = cs_listeners s" if "calm host"
      using notify_listeners_calm [OF that ls(1)] live ls(2) by simp
    ultimately show ?thesis using Inr r True t by simp
  next
    case False
    with assms(2) live Inr r show ?thesis by (simp add: run_operation_def)
  qed
qed

section \<open>A concrete store\<close>

text \<open>One listener that does nothing, and a batch of one event.\<close>

definition idle_store :: "(nat, nat) conversation_store" where
  "idle_store = \<lparr>cs_snapshot = createInitialConversationState None, cs_destroyed = False, cs_listeners = [7],
     cs_handles = [(7, True)], cs_selections = [], cs_selectorSubscriptions = [], cs_pending = []\<rparr>"

definition quiet :: "(nat, nat) host" where
  "quiet = (\<lambda>_ _. [])"

lemma first_state_new: "first_state \<noteq> createInitialConversationState None"
proof
  assume "first_state = createInitialConversationState None"
  then have "st_revision first_state = st_revision (createInitialConversationState None)" by simp
  then show False by (simp add: first_state_def acceptEnvelope_def createInitialConversationState_def)
qed

lemma first_batch_runs:
  "run_operation (\<lambda>_. None) quiet [first_event] idle_store =
     (Resolved first_state, idle_store\<lparr>cs_snapshot := first_state\<rparr>, [Changed 7])"
  using first_state_new
  by (simp add: run_operation_def idle_store_def first_step notify_def invoke_def quiet_def Let_def)

theorem store_snapshot_fold_witness:
  "reduceEvents (\<lambda>_. None) (createInitialConversationState None) [first_event] = Inr first_state"
proof -
  let ?s = "perform (ApplyEvents [first_event]) idle_store"
  have "store_run (\<lambda>_. None) quiet idle_store [] ?s" by (intro store_run.intros)
  moreover have "cs_pending ?s = [[first_event]]" "?s\<lparr>cs_pending := []\<rparr> = idle_store"
    by (simp_all add: perform_def applyEvents_def idle_store_def)
  moreover from this have "run_next (\<lambda>_. None) quiet ?s =
      Some (Resolved first_state, idle_store\<lparr>cs_snapshot := first_state\<rparr>, [Changed 7])"
    by (simp add: run_next_def first_batch_runs)
  ultimately have "store_run (\<lambda>_. None) quiet idle_store ([] @ [[first_event]]) (idle_store\<lparr>cs_snapshot := first_state\<rparr>)"
    by (intro store_run.resolve)
  from store_snapshot_fold [OF this] show ?thesis by (simp add: idle_store_def)
qed

theorem destroyed_store_final_witness:
  "cs_listeners (perform (Subscribe 3) (destroy idle_store)) = []"
proof -
  have "store_run (\<lambda>_. None) quiet (destroy idle_store) [] (perform (Subscribe 3) (destroy idle_store))"
    by (intro store_run.intros)
  moreover have "cs_destroyed (destroy idle_store)" "store_inv (destroy idle_store)"
    by (simp_all add: destroy_def idle_store_def store_inv_def)
  ultimately show ?thesis using destroyed_store_final by blast
qed

theorem notification_order_witness: "listeners_called [Changed 7 :: (nat, nat) callback] = [7]"
proof -
  have "store_inv idle_store" by (simp add: store_inv_def idle_store_def)
  moreover have "calm quiet" by (simp add: calm_def quiet_def)
  moreover have "apply_batch (\<lambda>_. None) (cs_snapshot idle_store) [first_event] = Inr (first_state, True)"
    using first_state_new by (simp add: idle_store_def first_step)
  ultimately show ?thesis using notification_order [OF _ first_batch_runs] by (simp add: idle_store_def)
qed

end
