(* ===== verification/StateJson.thy ===== *)
theory StateJson
  imports State
begin

text \<open>
  The projection as the JSON value that \<^verbatim>\<open>JSON.stringify(state)\<close> serialises and that a
  checkpoint holds (\<^verbatim>\<open>src/conversation/state.ts\<close>). Fields are listed in the order of the
  interfaces; the order in which the reducer happened to create them does not change the
  length of the text, and checkpoints are compared without regard to it.
\<close>

definition or_null :: "('a \<Rightarrow> json) \<Rightarrow> 'a option \<Rightarrow> json" where
  "or_null f x = (case x of None \<Rightarrow> JNull | Some v \<Rightarrow> f v)"

definition attribution_json :: "ConversationEventAttribution \<Rightarrow> json" where
  "attribution_json a = JObj [(js ''actor'', actor_json (aa_actor a)), (js ''source'', source_json (aa_source a))]"

definition message_json :: "ConversationMessageRecord \<Rightarrow> json" where
  "message_json m = JObj ([(js ''message_id'', JStr (m_message_id m))] @
     opt_field ''turn_id'' (map_option JStr (m_turn_id m)) @
     [(js ''role'', or_null (\<lambda>r. JText (role_text r)) (m_role m)),
      (js ''content'', JArr (map text_part_json (m_content m))),
      (js ''attachments'', JArr (map attachment_json (m_attachments m))),
      (js ''created_at'', nullable (m_created_at m)),
      (js ''attribution'', or_null attribution_json (m_attribution m))])"

definition attachment_record_json :: "ConversationAttachmentRecord \<Rightarrow> json" where
  "attachment_record_json r = JObj [(js ''message_id'', JStr (ar_message_id r)),
     (js ''attachment_id'', JStr (ar_attachment_id r)), (js ''reference'', attachment_json (ar_reference r)),
     (js ''referenced_at'', JStr (ar_referenced_at r)), (js ''attribution'', attribution_json (ar_attribution r))]"

definition turn_state_text :: "ConversationTurnStateStatus \<Rightarrow> string" where
  "turn_state_text s = (case s of TurnOpen t \<Rightarrow> turn_status_text t | TurnIsCompleted \<Rightarrow> ''completed''
     | TurnIsCancelled \<Rightarrow> ''cancelled'' | TurnIsFailed \<Rightarrow> ''failed'')"

definition cancellation_status_text :: "ConversationTurnCancellationStatus \<Rightarrow> string" where
  "cancellation_status_text s = (case s of CancellationRequested \<Rightarrow> ''requested''
     | CancellationUnsupported \<Rightarrow> ''unsupported'' | CancellationDone \<Rightarrow> ''cancelled'')"

definition retry_record_json :: "ConversationTurnRetryRecord \<Rightarrow> json" where
  "retry_record_json r = (case r of
     AttemptStarted n x t a \<Rightarrow> JObj [(js ''type'', JText ''turn.attempt_started''), (js ''attempt'', JInt n),
       (js ''operation'', JText (operation_text x)), (js ''occurred_at'', JStr t), (js ''attribution'', attribution_json a)]
   | RetryScheduled n c d t a \<Rightarrow> JObj [(js ''type'', JText ''turn.retry_scheduled''), (js ''attempt'', JInt n),
       (js ''reason_category'', JText (retry_reason_text c)), (js ''delay_ms'', JInt d), (js ''occurred_at'', JStr t),
       (js ''attribution'', attribution_json a)]
   | RetryExhausted n c x t a \<Rightarrow> JObj [(js ''type'', JText ''turn.retry_exhausted''), (js ''attempt'', JInt n),
       (js ''reason_category'', JText (retry_reason_text c)), (js ''exhaustion_reason'', JText (exhaustion_reason_text x)),
       (js ''occurred_at'', JStr t), (js ''attribution'', attribution_json a)])"

definition turn_json :: "ConversationTurnRecord \<Rightarrow> json" where
  "turn_json t = JObj [(js ''turn_id'', JStr (t_turn_id t)),
     (js ''continuation_of_turn_id'', nullable (t_continuation_of_turn_id t)),
     (js ''status'', JText (turn_state_text (t_status t))),
     (js ''input_message_ids'', ids_json (t_input_message_ids t)),
     (js ''output_message_ids'', ids_json (t_output_message_ids t)),
     (js ''outcome'', or_null (\<lambda>x. JText (outcome_text x)) (t_outcome t)),
     (js ''cancellation_reason'', or_null (\<lambda>x. JText (cancellation_reason_text x)) (t_cancellation_reason t)),
     (js ''cancellation_status'', or_null (\<lambda>x. JText (cancellation_status_text x)) (t_cancellation_status t)),
     (js ''cancellation_requested_reason'',
       or_null (\<lambda>x. JText (cancellation_reason_text x)) (t_cancellation_requested_reason t)),
     (js ''remote_may_still_be_running'', JBool (t_remote_may_still_be_running t)),
     (js ''error'', or_null turn_error_json (t_error t)),
     (js ''retry_history'', JArr (map retry_record_json (t_retry_history t))),
     (js ''started_at'', nullable (t_started_at t)), (js ''terminal_at'', nullable (t_terminal_at t)),
     (js ''attribution'', or_null attribution_json (t_attribution t))]"

definition tool_result_json :: "ConversationToolResultRecord \<Rightarrow> json" where
  "tool_result_json r = JObj ([(js ''content'', JArr (map tool_part_json (tr_content r))),
     (js ''is_error'', JBool (tr_is_error r))] @
     opt_field ''citation_records'' (map_option citation_records_json (tr_citation_records r)) @
     [(js ''recorded_at'', JStr (tr_recorded_at r)), (js ''attribution'', attribution_json (tr_attribution r))])"

definition tool_call_json :: "ConversationToolCallRecord \<Rightarrow> json" where
  "tool_call_json t = JObj [(js ''tool_call_id'', JStr (tc_tool_call_id t)), (js ''turn_id'', JStr (tc_turn_id t)),
     (js ''name'', nullable (tc_name t)), (js ''arguments'', or_null JObj (tc_arguments t)),
     (js ''requested_at'', nullable (tc_requested_at t)), (js ''discovered_at'', nullable (tc_discovered_at t)),
     (js ''started_at'', nullable (tc_started_at t)),
     (js ''approval_required_at'', nullable (tc_approval_required_at t)),
     (js ''attribution'', or_null attribution_json (tc_attribution t)),
     (js ''result'', or_null tool_result_json (tc_result t))]"

definition proposal_json :: "ConversationApprovalProposalRecord \<Rightarrow> json" where
  "proposal_json p = JObj [(js ''proposal_id'', JStr (ap_proposal_id p)), (js ''group_id'', nullable (ap_group_id p)),
     (js ''turn_id'', JStr (ap_turn_id p)), (js ''tool_call_id'', JStr (ap_tool_call_id p)),
     (js ''tool_name'', JStr (ap_tool_name p)),
     (js ''reviewed_arguments'', reviewed_arguments_json (ap_reviewed_arguments p)),
     (js ''status'', JText (proposal_status_text (ap_status p))),
     (js ''proposal_version'', JInt (ap_proposal_version p)), (js ''expires_at'', nullable (ap_expires_at p)),
     (js ''created_at'', JStr (ap_created_at p)), (js ''updated_at'', JStr (ap_updated_at p)),
     (js ''created_attribution'', attribution_json (ap_created_attribution p)),
     (js ''latest_attribution'', attribution_json (ap_latest_attribution p)),
     (js ''decision_at'', nullable (ap_decision_at p)),
     (js ''decision_attribution'', or_null attribution_json (ap_decision_attribution p)),
     (js ''decision_reason'', nullable (ap_decision_reason p)),
     (js ''failure_reason'', nullable (ap_failure_reason p))]"

definition exhaustion_json :: "ConversationToolLoopBudgetExhaustion \<Rightarrow> json" where
  "exhaustion_json b = JObj [(js ''turn_id'', JStr (be_turn_id b)), (js ''budget'', JText (budget_text (be_budget b))),
     (js ''limit'', JInt (be_limit b)), (js ''exhausted_at'', JStr (be_exhausted_at b)),
     (js ''attribution'', attribution_json (be_attribution b))]"

definition usage_link_json :: "ConversationUsageReceiptLink \<Rightarrow> json" where
  "usage_link_json u = JObj [(js ''usage_receipt_id'', JStr (ul_usage_receipt_id u)), (js ''turn_id'', JStr (ul_turn_id u)),
     (js ''linked_at'', JStr (ul_linked_at u)), (js ''attribution'', attribution_json (ul_attribution u))]"

definition replay_error_json :: "ConversationReplayError \<Rightarrow> json" where
  "replay_error_json e = (case e of
     RevisionGap c i x r \<Rightarrow> JObj [(js ''type'', JText ''revision_gap''), (js ''conversation_id'', JStr c),
       (js ''event_id'', JStr i), (js ''expected_revision'', JInt x), (js ''received_revision'', JInt r)]
   | StaleRevision c i x r \<Rightarrow> JObj [(js ''type'', JText ''stale_revision''), (js ''conversation_id'', JStr c),
       (js ''event_id'', JStr i), (js ''expected_revision'', JInt x), (js ''received_revision'', JInt r)]
   | ConversationMismatch c i x \<Rightarrow> JObj [(js ''type'', JText ''conversation_mismatch''), (js ''conversation_id'', JStr c),
       (js ''event_id'', JStr i), (js ''expected_conversation_id'', JStr x)])"

definition state_json :: "ConversationState \<Rightarrow> json" where
  "state_json s = JObj [(js ''conversation_id'', nullable (st_conversation_id s)),
     (js ''revision'', or_null JInt (st_revision s)), (js ''last_event_id'', nullable (st_last_event_id s)),
     (js ''processed_event_ids'', ids_json (st_processed_event_ids s)),
     (js ''processed_mutation_ids'', ids_json (st_processed_mutation_ids s)),
     (js ''messages'', JArr (map message_json (st_messages s))),
     (js ''attachments'', JArr (map attachment_record_json (st_attachments s))),
     (js ''citation_sources'', JArr (map citation_source_json (st_citation_sources s))),
     (js ''citations'', JArr (map citation_json (st_citations s))),
     (js ''turns'', JArr (map turn_json (st_turns s))), (js ''active_turn_id'', nullable (st_active_turn_id s)),
     (js ''tool_calls'', JArr (map tool_call_json (st_tool_calls s))),
     (js ''approval_proposals'', JArr (map proposal_json (st_approval_proposals s))),
     (js ''tool_loop_budget_exhaustions'', JArr (map exhaustion_json (st_tool_loop_budget_exhaustions s))),
     (js ''usage_receipt_links'', JArr (map usage_link_json (st_usage_receipt_links s))),
     (js ''metadata'', JObj (st_metadata s)), (js ''title'', nullable (st_title s)),
     (js ''replay_error'', or_null replay_error_json (st_replay_error s))]"

end
