(* ===== verification/Replay.thy ===== *)
theory Replay
  imports FindEvent ConversationStoreProperties StateJson
begin

text \<open>
  \<^verbatim>\<open>src/conversation/replay.ts\<close>: hydrating a store from the newest checkpoint and the tail of
  the log. The loop over pages has no bound, so it is a partial function; that it returns is
  proved from the contract of the event store. The checkpoint enters as \<^verbatim>\<open>parseCheckpoint\<close>
  returned it. Events handed to \<^verbatim>\<open>onEvent\<close> are collected in the order of the calls. The abort
  signal is not modelled.
\<close>

section \<open>Checkpoint policy\<close>

record ConversationCheckpointPolicy =
  po_eventCount :: "js_number option"
  po_serializedBytes :: "js_number option"

definition DEFAULT_CONVERSATION_CHECKPOINT_POLICY :: ConversationCheckpointPolicy where
  "DEFAULT_CONVERSATION_CHECKPOINT_POLICY =
     \<lparr>po_eventCount = Some (Finite 100), po_serializedBytes = Some (Finite (256 * 1024))\<rparr>"

definition CONVERSATION_CHECKPOINT_SCHEMA_VERSION :: int where
  "CONVERSATION_CHECKPOINT_SCHEMA_VERSION = 3"

text \<open>A threshold is absent or a positive safe integer; any other value throws.\<close>

definition threshold_error :: "string \<Rightarrow> string" where
  "threshold_error name = ''Conversation checkpoint '' @ name @ '' must be a positive safe integer''"

definition validateThreshold :: "js_number option \<Rightarrow> string \<Rightarrow> string + int option" where
  "validateThreshold value name = (case value of
     None \<Rightarrow> Inr None
   | Some n \<Rightarrow> (case safe_int n of
       Some i \<Rightarrow> if i \<le> 0 then Inl (threshold_error name) else Inr (Some i)
     | None \<Rightarrow> Inl (threshold_error name)))"

definition shouldWriteConversationCheckpoint ::
  "nat \<Rightarrow> nat \<Rightarrow> ConversationCheckpointPolicy \<Rightarrow> string + bool" where
  "shouldWriteConversationCheckpoint eventsSinceCheckpoint serializedBytes policy =
     bindE (validateThreshold (po_eventCount policy) ''eventCount'') (\<lambda>count.
     bindE (validateThreshold (po_serializedBytes policy) ''serializedBytes'') (\<lambda>bytes.
     Inr ((case count of None \<Rightarrow> False | Some c \<Rightarrow> c \<le> int eventsSinceCheckpoint) \<or>
          (case bytes of None \<Rightarrow> False | Some b \<Rightarrow> b \<le> int serializedBytes))))"

section \<open>The replay loop\<close>

datatype (plugins only: code size) ConversationReplayFailureCode = CorruptEvent | ReplayRevisionGap

datatype (plugins only: code size) replay_cause =
  NoCause | InvalidStoredEvent validation_error | ForeignEvent | ReducerReplayError ConversationReplayError | NonAdvancingPage

record ConversationReplayFailure =
  rf_code :: ConversationReplayFailureCode
  rf_conversationId :: js_string
  rf_lastSafeCursor :: "js_string option"
  rf_lastSafeRevision :: "int option"
  rf_eventCursor :: "js_string option"
  rf_expectedRevision :: "int option"
  rf_receivedRevision :: "int option"
  rf_cause :: replay_cause

datatype (plugins only: code size) 'e replay_exception =
    BatchSizeRangeError
  | StoreFailure store_failure
  | ReadFailure 'e
  | Failure ConversationReplayFailure
  | ApplyRejected settlement

record ValidCheckpoint =
  vc_revision :: int
  vc_state :: ConversationState

text \<open>The local variables of the loop.\<close>

record replay_progress =
  rg_store :: "(unit, unit) conversation_store"
  rg_lastSafeRevision :: "int option"
  rg_lastSafeCursor :: "js_string option"
  rg_readCursor :: "js_string option"
  rg_replayedEventCount :: nat
  rg_duplicateEventCount :: nat
  rg_seenEventIds :: "js_string list"
  rg_seenMutationIds :: "js_string list"
  rg_observed :: "ConversationEvent list"

definition replayFailure :: "ConversationReplayFailureCode \<Rightarrow> js_string \<Rightarrow> replay_progress \<Rightarrow> js_string option \<Rightarrow>
    int option \<Rightarrow> int option \<Rightarrow> replay_cause \<Rightarrow> 'e replay_exception" where
  "replayFailure code cid p eventCursor expected received cause =
     Failure \<lparr>rf_code = code, rf_conversationId = cid, rf_lastSafeCursor = rg_lastSafeCursor p,
       rf_lastSafeRevision = rg_lastSafeRevision p, rf_eventCursor = eventCursor, rf_expectedRevision = expected,
       rf_receivedRevision = received, rf_cause = cause\<rparr>"

text \<open>\<^verbatim>\<open>await store.applyEvent(event)\<close> on a store that nobody has subscribed to yet.\<close>

definition await_applyEvent :: "url_parser \<Rightarrow> (unit, unit) conversation_store \<Rightarrow> ConversationEvent \<Rightarrow>
    settlement + (unit, unit) conversation_store" where
  "await_applyEvent parse_url store event = (case applyEvent event store of
     Inl _ \<Rightarrow> Inl RejectedDestroyed
   | Inr queued \<Rightarrow> (case run_next parse_url (\<lambda>_ _. []) queued of
       Some (Resolved _, store', _) \<Rightarrow> Inr store'
     | Some (result, _, _) \<Rightarrow> Inl result
     | None \<Rightarrow> Inl RejectedDestroyed))"

definition seen_before :: "replay_progress \<Rightarrow> ConversationEvent \<Rightarrow> bool" where
  "seen_before p event \<longleftrightarrow> ev_event_id event \<in> set (rg_seenEventIds p) \<or>
     (case ev_mutation_id event of None \<Rightarrow> False | Some m \<Rightarrow> m \<in> set (rg_seenMutationIds p))"

text \<open>The body of the loop over the entries of a page.\<close>

definition replay_entry :: "url_parser \<Rightarrow> (rat \<Rightarrow> js_string) \<Rightarrow> js_string \<Rightarrow> StoredConversationEvent \<Rightarrow> replay_progress \<Rightarrow>
    'e replay_exception + replay_progress" where
  "replay_entry parse_url R cid entry p =
     (let event = se_event entry; cursor = Some (se_cursor entry) in
      case parseConversationEvent parse_url R (event_json event) of
        Inl e \<Rightarrow> Inl (replayFailure CorruptEvent cid p cursor None None (InvalidStoredEvent e))
      | Inr _ \<Rightarrow>
          if ev_conversation_id event \<noteq> cid
          then Inl (replayFailure CorruptEvent cid p cursor None None ForeignEvent)
          else if seen_before p event
          then Inr (p\<lparr>rg_duplicateEventCount := rg_duplicateEventCount p + 1, rg_readCursor := cursor\<rparr>)
          else let expectedRevision = coalesce (rg_lastSafeRevision p) 0 + 1 in
            if ev_revision event \<noteq> expectedRevision
            then Inl (replayFailure ReplayRevisionGap cid p cursor (Some expectedRevision) (Some (ev_revision event)) NoCause)
            else case await_applyEvent parse_url (rg_store p) event of
              Inl result \<Rightarrow> Inl (ApplyRejected result)
            | Inr store \<Rightarrow>
                (case st_replay_error (cs_snapshot store) of
                   Some err \<Rightarrow> Inl (replayFailure CorruptEvent cid p cursor None None (ReducerReplayError err))
                 | None \<Rightarrow> Inr (p\<lparr>rg_store := store,
                     rg_observed := rg_observed p @ [event],
                     rg_seenEventIds := ev_event_id event # rg_seenEventIds p,
                     rg_seenMutationIds := (case ev_mutation_id event of
                       None \<Rightarrow> rg_seenMutationIds p | Some m \<Rightarrow> m # rg_seenMutationIds p),
                     rg_lastSafeRevision := Some (ev_revision event), rg_lastSafeCursor := cursor,
                     rg_readCursor := cursor, rg_replayedEventCount := rg_replayedEventCount p + 1\<rparr>)))"

fun replay_entries :: "url_parser \<Rightarrow> (rat \<Rightarrow> js_string) \<Rightarrow> js_string \<Rightarrow> StoredConversationEvent list \<Rightarrow> replay_progress \<Rightarrow>
    'e replay_exception + replay_progress" where
  "replay_entries parse_url R cid [] p = Inr p"
| "replay_entries parse_url R cid (x # xs) p =
     bindE (replay_entry parse_url R cid x p) (\<lambda>q. replay_entries parse_url R cid xs q)"

definition read_request :: "js_string \<Rightarrow> ValidCheckpoint option \<Rightarrow> int option \<Rightarrow> replay_progress \<Rightarrow> ReadConversationEventsInput" where
  "read_request cid checkpoint readBatchSize p =
     \<lparr>ri_conversationId = cid,
      ri_after = (case rg_readCursor p of
        Some c \<Rightarrow> Some (AfterCursor c)
      | None \<Rightarrow> map_option (\<lambda>c. AfterRevision (vc_revision c)) checkpoint),
      ri_limit = readBatchSize\<rparr>"

partial_function (option) replay_loop :: "url_parser \<Rightarrow> (rat \<Rightarrow> js_string) \<Rightarrow>
    (ReadConversationEventsInput \<Rightarrow> 'e + ReadConversationEventsResult) \<Rightarrow> js_string \<Rightarrow> ValidCheckpoint option \<Rightarrow>
    int option \<Rightarrow> replay_progress \<Rightarrow> ('e replay_exception + replay_progress) option" where
  "replay_loop parse_url R read cid checkpoint readBatchSize p =
     (case read (read_request cid checkpoint readBatchSize p) of
        Inl e \<Rightarrow> Some (Inl (ReadFailure e))
      | Inr page \<Rightarrow>
          (case replay_entries parse_url R cid (ro_entries page) p of
             Inl x \<Rightarrow> Some (Inl x)
           | Inr q \<Rightarrow>
               if \<not> ro_hasMore page
               then if ro_latestRevision page \<noteq> rg_lastSafeRevision q
                 then Some (Inl (replayFailure ReplayRevisionGap cid q None
                   (Some (coalesce (rg_lastSafeRevision q) 0 + 1)) (ro_latestRevision page) NoCause))
                 else Some (Inr q)
               else if ro_nextCursor page = None \<or> ro_nextCursor page = rg_readCursor q \<and> ro_entries page = []
               then Some (Inl (replayFailure CorruptEvent cid q None None None NonAdvancingPage))
               else replay_loop parse_url R read cid checkpoint readBatchSize (q\<lparr>rg_readCursor := ro_nextCursor page\<rparr>)))"

declare replay_loop.simps [code]

section \<open>Hydrating a conversation\<close>

record ReplayConversationResult =
  rr_store :: "(unit, unit) conversation_store"
  rr_state :: ConversationState
  rr_replayedEventCount :: nat
  rr_duplicateEventCount :: nat
  rr_lastCursor :: "js_string option"
  rr_lastRevision :: "int option"
  rr_observed :: "ConversationEvent list"

definition initial_progress :: "(unit, unit) conversation_store \<Rightarrow> replay_progress" where
  "initial_progress store =
     \<lparr>rg_store = store, rg_lastSafeRevision = st_revision (cs_snapshot store), rg_lastSafeCursor = None,
      rg_readCursor = None, rg_replayedEventCount = 0, rg_duplicateEventCount = 0,
      rg_seenEventIds = st_processed_event_ids (cs_snapshot store),
      rg_seenMutationIds = st_processed_mutation_ids (cs_snapshot store), rg_observed = []\<rparr>"

definition replayConversation :: "url_parser \<Rightarrow> (rat \<Rightarrow> js_string) \<Rightarrow>
    (ReadConversationEventsInput \<Rightarrow> 'e + ReadConversationEventsResult) \<Rightarrow> js_string \<Rightarrow> ValidCheckpoint option \<Rightarrow>
    int option \<Rightarrow> ('e replay_exception + ReplayConversationResult) option" where
  "replayConversation parse_url R read cid checkpoint readBatchSize =
     (if (case readBatchSize of None \<Rightarrow> False | Some n \<Rightarrow> n \<le> 0 \<or> MAX_SAFE_INTEGER < n)
      then Some (Inl BatchSizeRangeError)
      else let initialState = (case checkpoint of Some c \<Rightarrow> vc_state c | None \<Rightarrow> createInitialConversationState (Some cid)) in
        case createConversationStore (Some cid) initialState of
          Inl e \<Rightarrow> Some (Inl (StoreFailure e))
        | Inr store \<Rightarrow>
            map_option (\<lambda>r. bindE r (\<lambda>p. Inr
              \<lparr>rr_store = rg_store p, rr_state = cs_snapshot (rg_store p),
               rr_replayedEventCount = rg_replayedEventCount p, rr_duplicateEventCount = rg_duplicateEventCount p,
               rr_lastCursor = rg_lastSafeCursor p, rr_lastRevision = rg_lastSafeRevision p, rr_observed = rg_observed p\<rparr>))
            (replay_loop parse_url R read cid checkpoint readBatchSize (initial_progress store)))"

text \<open>The checkpoint that a finished replay writes, if its policy asks for one.\<close>

definition checkpoint_request :: "(rat \<Rightarrow> js_string) \<Rightarrow> js_string \<Rightarrow> ValidCheckpoint option \<Rightarrow> ConversationCheckpointPolicy option \<Rightarrow>
    ReplayConversationResult \<Rightarrow> string + ConversationEventCheckpoint option" where
  "checkpoint_request R cid checkpoint policy result =
     (let state = rr_state result in
      case (policy, st_revision state) of
        (Some pol, Some revision) \<Rightarrow>
          if (case checkpoint of None \<Rightarrow> True | Some c \<Rightarrow> vc_revision c < revision)
          then bindE (shouldWriteConversationCheckpoint (rr_replayedEventCount result)
              (utf8ByteLength (stringify R (state_json state))) pol) (\<lambda>write.
            Inr (if write then Some \<lparr>cp_conversationId = cid,
                cp_schemaVersion = Some CONVERSATION_CHECKPOINT_SCHEMA_VERSION, cp_revision = Finite (of_int revision),
                cp_state = cloneJson (state_json state)\<rparr> else None))
          else Inr None
      | _ \<Rightarrow> Inr None)"

end
