(* ===== verification/ReplayProperties.thy ===== *)
theory ReplayProperties
  imports Replay
begin

text \<open>
  Replay trusts no event store: what it returns is the fold of a gapless, validated sequence
  of events. On a store that keeps the contract \<open>event_log\<close> it terminates and reaches the fold
  of the whole log, whether or not it started from a checkpoint.
\<close>

section \<open>Applying one event\<close>

definition private_store :: "(unit, unit) conversation_store \<Rightarrow> bool" where
  "private_store s \<longleftrightarrow> \<not> cs_destroyed s \<and> cs_listeners s = [] \<and> cs_selectorSubscriptions s = [] \<and> cs_pending s = []"

lemma await_applyEvent_private:
  assumes "private_store s"
  shows "await_applyEvent parse_url s e = (case reduceConversationEvent parse_url (cs_snapshot s) e of
    Inl err \<Rightarrow> Inl (RejectedReducer err) | Inr t \<Rightarrow> Inr (s\<lparr>cs_snapshot := t\<rparr>))"
proof -
  have same: "s\<lparr>cs_pending := []\<rparr> = s" using assms by (cases s) (simp add: private_store_def)
  show ?thesis
    using assms same
    by (auto simp: await_applyEvent_def applyEvent_def applyEvents_def run_next_def run_operation_def private_store_def
        notify_def Let_def split: sum.split)
qed

lemma private_snapshot [simp]: "private_store (s\<lparr>cs_snapshot := t\<rparr>) = private_store s"
  by (simp add: private_store_def)

section \<open>Safety on any event store\<close>

text \<open>What replay has established when it has applied the events \<open>rg_observed p\<close> on top of the state \<open>s0\<close>.\<close>

definition progress_ok :: "url_parser \<Rightarrow> (rat \<Rightarrow> js_string) \<Rightarrow> js_string \<Rightarrow> ConversationState \<Rightarrow> replay_progress \<Rightarrow> bool" where
  "progress_ok parse_url R cid s0 p \<longleftrightarrow> private_store (rg_store p) \<and>
     reduceEvents parse_url s0 (rg_observed p) = Inr (cs_snapshot (rg_store p)) \<and>
     rg_replayedEventCount p = length (rg_observed p) \<and>
     (\<forall>i < length (rg_observed p). ev_revision (rg_observed p ! i) = coalesce (st_revision s0) 0 + 1 + int i) \<and>
     rg_lastSafeRevision p = (if rg_observed p = [] then st_revision s0
       else Some (coalesce (st_revision s0) 0 + int (length (rg_observed p)))) \<and>
     (\<forall>e \<in> set (rg_observed p). ev_conversation_id e = cid \<and> okE (parseConversationEvent parse_url R (event_json e)))"

lemma replay_entry_cases:
  assumes "replay_entry parse_url R cid x p = Inr q" "private_store (rg_store p)"
  obtains (duplicate) "seen_before p (se_event x)"
      "q = p\<lparr>rg_duplicateEventCount := rg_duplicateEventCount p + 1, rg_readCursor := Some (se_cursor x)\<rparr>"
  | (applied) t where "\<not> seen_before p (se_event x)" "ev_conversation_id (se_event x) = cid"
      "okE (parseConversationEvent parse_url R (event_json (se_event x)))"
      "ev_revision (se_event x) = coalesce (rg_lastSafeRevision p) 0 + 1"
      "reduceConversationEvent parse_url (cs_snapshot (rg_store p)) (se_event x) = Inr t" "st_replay_error t = None"
      "q = p\<lparr>rg_store := (rg_store p)\<lparr>cs_snapshot := t\<rparr>, rg_observed := rg_observed p @ [se_event x],
         rg_seenEventIds := ev_event_id (se_event x) # rg_seenEventIds p,
         rg_seenMutationIds := (case ev_mutation_id (se_event x) of
           None \<Rightarrow> rg_seenMutationIds p | Some m \<Rightarrow> m # rg_seenMutationIds p),
         rg_lastSafeRevision := Some (ev_revision (se_event x)), rg_lastSafeCursor := Some (se_cursor x),
         rg_readCursor := Some (se_cursor x), rg_replayedEventCount := rg_replayedEventCount p + 1\<rparr>"
  using assms
  by (auto simp: replay_entry_def Let_def await_applyEvent_private split: sum.splits if_splits option.splits)

lemma replay_entry_ok:
  assumes "progress_ok parse_url R cid s0 p" "replay_entry parse_url R cid x p = Inr q"
  shows "progress_ok parse_url R cid s0 q"
proof -
  have "private_store (rg_store p)" using assms(1) by (simp add: progress_ok_def)
  from assms(2) this show ?thesis
  proof (cases rule: replay_entry_cases)
    case duplicate
    with assms(1) show ?thesis by (simp add: progress_ok_def)
  next
    case (applied t)
    have "coalesce (rg_lastSafeRevision p) 0 = coalesce (st_revision s0) 0 + int (length (rg_observed p))"
      using assms(1) by (simp add: progress_ok_def)
    with assms(1) applied show ?thesis
      by (auto simp: progress_ok_def reduceEvents_append nth_append less_Suc_eq)
  qed
qed

lemma replay_entries_ok:
  "progress_ok parse_url R cid s0 p \<Longrightarrow> replay_entries parse_url R cid xs p = Inr q \<Longrightarrow> progress_ok parse_url R cid s0 q"
  by (induction xs arbitrary: p) (auto simp: bindE_Inr_iff dest: replay_entry_ok)

lemma progress_ok_cursor [simp]: "progress_ok parse_url R cid s0 (p\<lparr>rg_readCursor := c\<rparr>) = progress_ok parse_url R cid s0 p"
  by (simp add: progress_ok_def)

lemma replay_loop_ok:
  assumes "replay_loop parse_url R read cid checkpoint n p = Some r" "progress_ok parse_url R cid s0 p"
  shows "case r of Inl _ \<Rightarrow> True | Inr q \<Rightarrow> progress_ok parse_url R cid s0 q"
proof -
  let ?P = "\<lambda>parse_url R (read :: ReadConversationEventsInput \<Rightarrow> 'e + ReadConversationEventsResult) cid checkpoint n p
    (r :: 'e replay_exception + replay_progress).
      progress_ok parse_url R cid s0 p \<longrightarrow> (case r of Inl _ \<Rightarrow> True | Inr q \<Rightarrow> progress_ok parse_url R cid s0 q)"
  have "?P parse_url R read cid checkpoint n p r"
  proof (rule replay_loop.raw_induct [of ?P, OF _ assms(1)], rule impI)
    fix loop parse_url R cid checkpoint n p r
      and read :: "ReadConversationEventsInput \<Rightarrow> 'e + ReadConversationEventsResult"
    assume IH: "\<And>parse_url R read cid checkpoint n p r.
        loop parse_url R read cid checkpoint n p = Some r \<Longrightarrow> ?P parse_url R read cid checkpoint n p r"
      and step: "(case read (read_request cid checkpoint n p) of
          Inl e \<Rightarrow> Some (Inl (ReadFailure e))
        | Inr page \<Rightarrow>
            case replay_entries parse_url R cid (ro_entries page) p of
              Inl x \<Rightarrow> Some (Inl x)
            | Inr q \<Rightarrow>
                if \<not> ro_hasMore page
                then if ro_latestRevision page \<noteq> rg_lastSafeRevision q
                  then Some (Inl (replayFailure ReplayRevisionGap cid q None
                    (Some (coalesce (rg_lastSafeRevision q) 0 + 1)) (ro_latestRevision page) NoCause))
                  else Some (Inr q)
                else if ro_nextCursor page = None \<or> ro_nextCursor page = rg_readCursor q \<and> ro_entries page = []
                then Some (Inl (replayFailure CorruptEvent cid q None None None NonAdvancingPage))
                else loop parse_url R read cid checkpoint n (q\<lparr>rg_readCursor := ro_nextCursor page\<rparr>)) = Some r"
      and ok: "progress_ok parse_url R cid s0 p"
    show "case r of Inl _ \<Rightarrow> True | Inr q \<Rightarrow> progress_ok parse_url R cid s0 q"
    proof (cases "read (read_request cid checkpoint n p)")
      case (Inr page)
      show ?thesis
      proof (cases "replay_entries parse_url R cid (ro_entries page) p :: 'e replay_exception + replay_progress")
        case (Inr q)
        have "progress_ok parse_url R cid s0 q" by (rule replay_entries_ok [OF ok Inr])
        with step Inr \<open>read _ = Inr page\<close> IH [of parse_url R read cid checkpoint n "q\<lparr>rg_readCursor := ro_nextCursor page\<rparr>" r]
        show ?thesis by (auto split: if_splits sum.splits)
      qed (use step Inr in \<open>auto split: sum.splits\<close>)
    qed (use step in auto)
  qed
  with assms(2) show ?thesis by blast
qed

lemma initial_progress_ok:
  assumes "createConversationStore (Some cid) s0 = Inr store"
  shows "progress_ok parse_url R cid s0 (initial_progress store)" "cs_snapshot store = s0"
  using assms by (auto simp: progress_ok_def initial_progress_def createConversationStore_def private_store_def split: if_splits)

lemma replayConversation_cases:
  assumes "replayConversation parse_url R read cid checkpoint n = Some (Inr result)"
  obtains store p where "createConversationStore (Some cid) (case checkpoint of Some c \<Rightarrow> vc_state c
        | None \<Rightarrow> createInitialConversationState (Some cid)) = Inr store"
    "replay_loop parse_url R read cid checkpoint n (initial_progress store) = Some (Inr p)"
    "result = \<lparr>rr_store = rg_store p, rr_state = cs_snapshot (rg_store p),
               rr_replayedEventCount = rg_replayedEventCount p, rr_duplicateEventCount = rg_duplicateEventCount p,
               rr_lastCursor = rg_lastSafeCursor p, rr_lastRevision = rg_lastSafeRevision p, rr_observed = rg_observed p\<rparr>"
  using assms by (auto simp: replayConversation_def Let_def bindE_Inr_iff split: if_splits sum.splits)

text \<open>
  C13: whatever the event store answers, a replay that returns has folded a gapless sequence
  of validated events of the requested conversation over its starting state: each observed
  event has the next revision, and the state, the counters and the last revision agree with
  that sequence.
\<close>

theorem replay_sound:
  assumes "replayConversation parse_url R read cid checkpoint n = Some (Inr result)"
  defines "s0 \<equiv> case checkpoint of Some c \<Rightarrow> vc_state c | None \<Rightarrow> createInitialConversationState (Some cid)"
  shows "reduceEvents parse_url s0 (rr_observed result) = Inr (rr_state result) \<and>
    rr_replayedEventCount result = length (rr_observed result) \<and>
    (\<forall>i < length (rr_observed result). ev_revision (rr_observed result ! i) = coalesce (st_revision s0) 0 + 1 + int i) \<and>
    coalesce (rr_lastRevision result) 0 = coalesce (st_revision s0) 0 + int (length (rr_observed result)) \<and>
    (\<forall>e \<in> set (rr_observed result). ev_conversation_id e = cid \<and> okE (parseConversationEvent parse_url R (event_json e)))"
  using assms(1)
proof (cases rule: replayConversation_cases)
  case (1 store p)
  have "createConversationStore (Some cid) s0 = Inr store" using 1(1) by (simp add: s0_def)
  note init = initial_progress_ok [OF this]
  have "progress_ok parse_url R cid s0 p" using replay_loop_ok [OF 1(2) init(1)] by simp
  with 1(3) show ?thesis by (auto simp: progress_ok_def)
qed

section \<open>Folding a log\<close>

definition proper_log :: "js_string \<Rightarrow> ConversationEvent list \<Rightarrow> bool" where
  "proper_log cid es \<longleftrightarrow> (\<forall>i < length es. ev_revision (es ! i) = int i + 1 \<and> ev_conversation_id (es ! i) = cid) \<and>
     distinct (map ev_event_id es) \<and> distinct (List.map_filter ev_mutation_id es)"

text \<open>The state after a prefix of a log knows exactly the identities of that prefix.\<close>

definition at_position :: "js_string \<Rightarrow> ConversationEvent list \<Rightarrow> ConversationState \<Rightarrow> bool" where
  "at_position cid xs t \<longleftrightarrow> st_processed_event_ids t = map ev_event_id xs \<and>
     st_processed_mutation_ids t = List.map_filter ev_mutation_id xs \<and>
     st_revision t = (if xs = [] then None else Some (int (length xs))) \<and>
     st_conversation_id t = Some cid \<and> st_replay_error t = None"

lemma map_filter_append: "List.map_filter f (xs @ ys) = List.map_filter f xs @ List.map_filter f ys"
  by (simp add: List.map_filter_def)

lemma map_filter_snoc: "List.map_filter f (xs @ [x]) = List.map_filter f xs @ (case f x of None \<Rightarrow> [] | Some y \<Rightarrow> [y])"
  by (simp add: List.map_filter_def split: option.split)

lemma proper_next:
  assumes "proper_log cid es" "k < length es" "at_position cid (take k es) t"
  shows "accepts t (es ! k)"
proof -
  have ids: "ev_event_id (es ! k) \<notin> set (map ev_event_id (take k es))"
    using assms(1,2) by (auto simp: proper_log_def distinct_conv_nth in_set_conv_nth)
  have "m \<notin> set (List.map_filter ev_mutation_id (take k es))" if "ev_mutation_id (es ! k) = Some m" for m
  proof -
    have "distinct (List.map_filter ev_mutation_id (take k es @ es ! k # drop (Suc k) es))"
      using assms(1) id_take_nth_drop [OF assms(2)] by (simp add: proper_log_def)
    with that show ?thesis by (simp add: map_filter_append map_filter_simps)
  qed
  with ids assms show ?thesis
    by (auto simp: accepts_def already_processed_def at_position_def expected_revision_def proper_log_def
        split: option.split)
qed

lemma at_position_step:
  assumes "proper_log cid es" "k < length es" "at_position cid (take k es) t"
    "reduceConversationEvent parse_url t (es ! k) = Inr u"
  shows "at_position cid (take (Suc k) es) u"
proof -
  have take: "take (Suc k) es = take k es @ [es ! k]" using assms(2) by (simp add: take_Suc_conv_app_nth)
  have "ev_revision (es ! k) = int k + 1" using assms(1,2) by (simp add: proper_log_def)
  with accepted_log [OF proper_next [OF assms(1-3)] assms(4)] assms(2,3) show ?thesis
    unfolding take by (auto simp: at_position_def log_part_def acceptEnvelope_def map_filter_snoc split: option.split)
qed

lemma initial_position: "at_position cid [] (createInitialConversationState (Some cid))"
  by (simp add: at_position_def createInitialConversationState_def map_filter_simps)

lemma fold_position:
  assumes log: "proper_log cid es" and "k \<le> length es"
    and "reduceEvents parse_url (createInitialConversationState (Some cid)) (take k es) = Inr t"
  shows "at_position cid (take k es) t"
  using assms(2,3)
proof (induction k arbitrary: t)
  case (Suc k)
  have take: "take (Suc k) es = take k es @ [es ! k]" using Suc.prems(1) by (simp add: take_Suc_conv_app_nth)
  from Suc.prems(2) obtain u where u: "reduceEvents parse_url (createInitialConversationState (Some cid)) (take k es) = Inr u"
    "reduceConversationEvent parse_url u (es ! k) = Inr t"
    by (auto simp: take reduceEvents_append bindE_Inr_iff)
  with Suc.IH [OF _ u(1)] Suc.prems(1) at_position_step [OF log] show ?case by simp
qed (use initial_position in simp)

lemma fold_prefix:
  assumes "reduceEvents parse_url s es = Inr final"
  obtains t where "reduceEvents parse_url s (take k es) = Inr t"
proof -
  have "reduceEvents parse_url s (take k es @ drop k es) = Inr final" using assms by simp
  with that show ?thesis unfolding reduceEvents_append by (auto simp: bindE_Inr_iff)
qed

section \<open>Completeness on a store that keeps its contract\<close>

text \<open>
  Replay stands at position \<open>k\<close> of the log, having started at \<open>k0\<close>: the store holds the fold of
  the first \<open>k\<close> events, whose identities have been seen, and no duplicate was met.
\<close>

definition replay_at :: "url_parser \<Rightarrow> js_string \<Rightarrow> StoredConversationEvent list \<Rightarrow> nat \<Rightarrow> nat \<Rightarrow> replay_progress \<Rightarrow> bool" where
  "replay_at parse_url cid entries k0 k p \<longleftrightarrow> k0 \<le> k \<and> k \<le> length entries \<and> private_store (rg_store p) \<and>
     reduceEvents parse_url (createInitialConversationState (Some cid)) (take k (map se_event entries)) = Inr (cs_snapshot (rg_store p)) \<and>
     set (rg_seenEventIds p) = set (st_processed_event_ids (cs_snapshot (rg_store p))) \<and>
     set (rg_seenMutationIds p) = set (st_processed_mutation_ids (cs_snapshot (rg_store p))) \<and>
     rg_lastSafeRevision p = st_revision (cs_snapshot (rg_store p)) \<and>
     rg_observed p = drop k0 (take k (map se_event entries)) \<and> rg_replayedEventCount p = k - k0 \<and>
     rg_duplicateEventCount p = 0 \<and>
     rg_readCursor p = (if k = k0 then None else Some (se_cursor (entries ! (k - 1))))"

lemma replay_entry_at:
  assumes log: "proper_log cid (map se_event entries)" and at: "replay_at parse_url cid entries k0 k p" and k: "k < length entries"
    and valid: "okE (parseConversationEvent parse_url R (event_json (se_event (entries ! k))))"
    and folds: "reduceEvents parse_url (createInitialConversationState (Some cid)) (map se_event entries) = Inr final"
  shows "\<exists>q. replay_entry parse_url R cid (entries ! k) p = Inr q \<and> replay_at parse_url cid entries k0 (Suc k) q"
proof -
  let ?es = "map se_event entries" and ?e = "se_event (entries ! k)" and ?s = "cs_snapshot (rg_store p)"
  have take: "take (Suc k) ?es = take k ?es @ [?e]" using k by (simp add: take_Suc_conv_app_nth)
  from at have priv: "private_store (rg_store p)"
    and fold_k: "reduceEvents parse_url (createInitialConversationState (Some cid)) (take k ?es) = Inr ?s"
    by (simp_all add: replay_at_def)
  obtain t where t: "reduceConversationEvent parse_url ?s ?e = Inr t"
    using fold_prefix [OF folds, of "Suc k"] fold_k by (auto simp: take reduceEvents_append bindE_Inr_iff)
  have pos: "at_position cid (take k ?es) ?s" using fold_position [OF log _ fold_k] k by simp
  have acc: "accepts ?s ?e" using proper_next [OF log _ pos] k by simp
  have "at_position cid (take (Suc k) ?es) t" using at_position_step [OF log _ pos] t k by simp
  then have clean: "st_replay_error t = None" and rev: "st_revision t = Some (int (Suc k))"
    unfolding take using k by (simp_all add: at_position_def)
  have new: "\<not> seen_before p ?e"
    using acc at by (auto simp: seen_before_def replay_at_def accepts_def already_processed_def split: option.splits)
  have rev_e: "ev_revision ?e = coalesce (rg_lastSafeRevision p) 0 + 1"
    using acc at by (simp add: accepts_def replay_at_def expected_revision_def)
  have conv: "ev_conversation_id ?e = cid" using log k by (simp add: proper_log_def)
  obtain v where v: "parseConversationEvent parse_url R (event_json ?e) = Inr v" using valid by (auto simp: okE_iff)
  let ?q = "p\<lparr>rg_store := (rg_store p)\<lparr>cs_snapshot := t\<rparr>, rg_observed := rg_observed p @ [?e],
     rg_seenEventIds := ev_event_id ?e # rg_seenEventIds p,
     rg_seenMutationIds := (case ev_mutation_id ?e of None \<Rightarrow> rg_seenMutationIds p | Some m \<Rightarrow> m # rg_seenMutationIds p),
     rg_lastSafeRevision := Some (ev_revision ?e), rg_lastSafeCursor := Some (se_cursor (entries ! k)),
     rg_readCursor := Some (se_cursor (entries ! k)), rg_replayedEventCount := rg_replayedEventCount p + 1\<rparr>"
  have "replay_entry parse_url R cid (entries ! k) p = Inr ?q"
    using v conv new rev_e t clean by (simp add: replay_entry_def Let_def await_applyEvent_private [OF priv])
  moreover have "replay_at parse_url cid entries k0 (Suc k) ?q"
  proof -
    have "ev_revision ?e = int k + 1" using log k by (simp add: proper_log_def)
    moreover have "log_part t = log_part (acceptEnvelope ?s ?e)" by (rule accepted_log [OF acc t])
    moreover have "reduceEvents parse_url (createInitialConversationState (Some cid)) (take (Suc k) ?es) = Inr t"
      unfolding take reduceEvents_append using fold_k t by simp
    ultimately show ?thesis
      using at k rev unfolding replay_at_def take
      by (auto simp: log_part_def acceptEnvelope_def split: option.split)
  qed
  ultimately show ?thesis by blast
qed

lemma replay_entries_at:
  assumes log: "proper_log cid (map se_event entries)"
    and valid: "\<forall>x \<in> set entries. okE (parseConversationEvent parse_url R (event_json (se_event x)))"
    and folds: "reduceEvents parse_url (createInitialConversationState (Some cid)) (map se_event entries) = Inr final"
  shows "replay_at parse_url cid entries k0 k p \<Longrightarrow> k + n \<le> length entries \<Longrightarrow>
    \<exists>q. replay_entries parse_url R cid (take n (drop k entries)) p = (Inr q :: 'e replay_exception + replay_progress) \<and> replay_at parse_url cid entries k0 (k + n) q"
proof (induction n arbitrary: k p)
  case (Suc n)
  then have k: "k < length entries" by simp
  have step: "take (Suc n) (drop k entries) = entries ! k # take n (drop (Suc k) entries)"
    using k by (simp add: Cons_nth_drop_Suc [symmetric])
  obtain q where q: "replay_entry parse_url R cid (entries ! k) p = (Inr q :: 'e replay_exception + replay_progress)"
    "replay_at parse_url cid entries k0 (Suc k) q"
    using replay_entry_at [OF log Suc.prems(1) k _ folds] valid k by fastforce
  with Suc.IH [OF q(2)] Suc.prems(2) show ?case by (simp add: step)
qed simp

context event_log
begin

lemma log_proper: "inv s \<Longrightarrow> proper_log cid (map se_event (log_of s cid))"
  using log_conversation [of s] log_revisions [of s] log_events [of s cid] log_mutations [of s cid]
  by (auto simp: proper_log_def comp_def List.map_filter_def filter_map)

lemma replay_loop_at:
  assumes inv: "inv s" and limit: "limit_ok n"
    and valid: "\<forall>x \<in> set (log_of s cid). okE (parseConversationEvent parse_url R (event_json (se_event x)))"
    and folds: "reduceEvents parse_url (createInitialConversationState (Some cid)) (map se_event (log_of s cid)) = Inr final"
    and start: "case checkpoint of None \<Rightarrow> k0 = 0 | Some c \<Rightarrow> vc_revision c = int k0"
  shows "replay_at parse_url cid (log_of s cid) k0 k p \<Longrightarrow>
    \<exists>q. replay_loop parse_url R (read s) cid checkpoint n p = Some (Inr q) \<and>
      replay_at parse_url cid (log_of s cid) k0 (length (log_of s cid)) q"
proof (induction "length (log_of s cid) - k" arbitrary: k p rule: less_induct)
  case less
  let ?log = "log_of s cid"
  note log = log_proper [OF inv, of cid]
  have "position_of ?log (ri_after (read_request cid checkpoint n p)) k"
    using less.prems start by (auto simp: position_of_def read_request_def replay_at_def split: option.splits if_splits)
  from read_page [OF inv this limit] obtain page where
    page: "read s (read_request cid checkpoint n p) = Inr page" "page_of ?log k page"
    by (auto simp: read_request_def)
  from page(2) obtain m where m: "ro_entries page = take m (drop k ?log)" "drop k ?log \<noteq> [] \<longrightarrow> 0 < m"
    "ro_hasMore page \<longleftrightarrow> k + m < length ?log"
    "ro_nextCursor page = (if ro_entries page = [] then None else Some (se_cursor (last (ro_entries page))))"
    "ro_latestRevision page = (if ?log = [] then None else Some (ev_revision (se_event (last ?log))))"
    unfolding page_of_def by blast
  have k: "k0 \<le> k" "k \<le> length ?log" using less.prems by (simp_all add: replay_at_def)
  show ?case
  proof (cases "ro_hasMore page")
    case False
    have all: "ro_entries page = take (length ?log - k) (drop k ?log)" using False m(1,3) by simp
    from replay_entries_at [OF log valid folds less.prems, of "length ?log - k"] k obtain q where
      q: "replay_entries parse_url R cid (ro_entries page) p = (Inr q :: 'e replay_exception + replay_progress)"
        "replay_at parse_url cid ?log k0 (length ?log) q"
      unfolding all by auto
    have "at_position cid (map se_event ?log) (cs_snapshot (rg_store q))"
      using fold_position [OF log, of "length ?log" parse_url] q(2) by (simp add: replay_at_def)
    then have "rg_lastSafeRevision q = (if ?log = [] then None else Some (int (length ?log)))"
      using q(2) by (simp add: at_position_def replay_at_def)
    moreover have "ev_revision (se_event (last ?log)) = int (length ?log)" if "?log \<noteq> []"
      using log_revisions [OF inv, of "length ?log - 1" cid] that by (simp add: last_conv_nth Suc_leI of_nat_diff)
    ultimately show ?thesis
      using page(1) q False m(5) by (subst replay_loop.simps) auto
  next
    case True
    then have more: "k + m < length ?log" "0 < m" using m by auto
    from replay_entries_at [OF log valid folds less.prems, of m] more obtain q where
      q: "replay_entries parse_url R cid (ro_entries page) p = (Inr q :: 'e replay_exception + replay_progress)"
        "replay_at parse_url cid ?log k0 (k + m) q"
      unfolding m(1) by auto
    from page_end [OF page(2) True] m(1) more obtain m' where "ro_entries page = take m' (drop k ?log)" "0 < m'"
      "k + m' < length ?log" "ro_nextCursor page = Some (se_cursor (?log ! (k + m' - 1)))" by blast
    moreover from this m(1) more have "m' = m" by (metis (no_types, lifting) add_diff_cancel_left' diff_less_mono
        length_drop length_take less_imp_le min.absorb2 add_leD1 le_add1)
    ultimately have cursor: "ro_nextCursor page = rg_readCursor q" "ro_entries page \<noteq> []" "ro_nextCursor page \<noteq> None"
      using q(2) more k(1) by (auto simp: replay_at_def)
    have same: "q\<lparr>rg_readCursor := ro_nextCursor page\<rparr> = q" using cursor(1) by simp
    have "length ?log - (k + m) < length ?log - k" using more by linarith
    from less.hyps [OF this q(2)] obtain r where "replay_loop parse_url R (read s) cid checkpoint n q = Some (Inr r)"
      "replay_at parse_url cid ?log k0 (length ?log) r" by blast
    with page(1) q(1) True cursor same show ?thesis by (subst replay_loop.simps) auto
  qed
qed

end

text \<open>
  The prefix of the log that a checkpoint stands for: it was folded from the empty
  conversation, so that replay may start behind it.
\<close>

definition checkpoint_of :: "url_parser \<Rightarrow> js_string \<Rightarrow> ConversationEvent list \<Rightarrow> ValidCheckpoint option \<Rightarrow> nat \<Rightarrow> bool" where
  "checkpoint_of parse_url cid es checkpoint k \<longleftrightarrow> k \<le> length es \<and> (case checkpoint of
     None \<Rightarrow> k = 0
   | Some c \<Rightarrow> vc_revision c = int k \<and>
       reduceEvents parse_url (createInitialConversationState (Some cid)) (take k es) = Inr (vc_state c))"

lemma replay_start:
  assumes "proper_log cid (map se_event entries)" "checkpoint_of parse_url cid (map se_event entries) checkpoint k"
  defines "s0 \<equiv> case checkpoint of Some c \<Rightarrow> vc_state c | None \<Rightarrow> createInitialConversationState (Some cid)"
  obtains store where "createConversationStore (Some cid) s0 = Inr store"
    "replay_at parse_url cid entries k k (initial_progress store)"
proof -
  have folded: "reduceEvents parse_url (createInitialConversationState (Some cid)) (take k (map se_event entries)) = Inr s0"
    using assms(2) by (auto simp: checkpoint_of_def s0_def split: option.splits)
  have k: "k \<le> length entries" using assms(2) by (simp add: checkpoint_of_def)
  then have "st_conversation_id s0 = Some cid"
    using fold_position [OF assms(1) _ folded] by (simp add: at_position_def)
  then obtain store where store: "createConversationStore (Some cid) s0 = Inr (store :: (unit, unit) conversation_store)"
    "cs_snapshot store = s0" "private_store store"
    by (simp add: createConversationStore_def private_store_def)
  then have "replay_at parse_url cid entries k k (initial_progress store)"
    using folded k by (simp add: replay_at_def initial_progress_def)
  with store(1) show ?thesis by (rule that)
qed

context event_log
begin

lemma replayConversation_complete:
  assumes inv: "inv s" and limit: "limit_ok n"
    and valid: "\<forall>x \<in> set (log_of s cid). okE (parseConversationEvent parse_url R (event_json (se_event x)))"
    and folds: "reduceEvents parse_url (createInitialConversationState (Some cid)) (map se_event (log_of s cid)) = Inr final"
    and checkpoint: "checkpoint_of parse_url cid (map se_event (log_of s cid)) checkpoint k"
  shows "\<exists>result. replayConversation parse_url R (read s) cid checkpoint n = Some (Inr result) \<and>
    rr_state result = final \<and> rr_observed result = drop k (map se_event (log_of s cid)) \<and>
    rr_replayedEventCount result = length (log_of s cid) - k \<and> rr_duplicateEventCount result = 0"
proof -
  let ?log = "log_of s cid"
  obtain store where store: "createConversationStore (Some cid) (case checkpoint of Some c \<Rightarrow> vc_state c
      | None \<Rightarrow> createInitialConversationState (Some cid)) = Inr store"
    "replay_at parse_url cid ?log k k (initial_progress store)"
    by (rule replay_start [OF log_proper [OF inv] checkpoint])
  have start: "case checkpoint of None \<Rightarrow> k = 0 | Some c \<Rightarrow> vc_revision c = int k"
    using checkpoint by (auto simp: checkpoint_of_def split: option.splits)
  from replay_loop_at [OF inv limit valid folds start store(2)] obtain q where
    q: "replay_loop parse_url R (read s) cid checkpoint n (initial_progress store) = Some (Inr q)"
      "replay_at parse_url cid ?log k (length ?log) q" by blast
  have "\<not> (case n of None \<Rightarrow> False | Some n \<Rightarrow> n \<le> 0 \<or> MAX_SAFE_INTEGER < n)"
    using limit by (auto simp: limit_ok_def split: option.splits)
  with q store(1) folds show ?thesis by (simp add: replayConversation_def replay_at_def)
qed

end

text \<open>
  C12: replaying a well-formed log of valid events terminates, for every page size, in the fold
  of the whole log. Starting from a checkpoint of the first \<open>k\<close> events gives the same state as
  replaying everything, after reading only the events behind it.
\<close>

theorem replay_from_checkpoint:
  assumes "store_ok store" "limit_ok n"
    and "\<forall>x \<in> set (all_entries store cid). okE (parseConversationEvent parse_url R (event_json (se_event x)))"
    and "reduceEvents parse_url (createInitialConversationState (Some cid)) (map se_event (all_entries store cid)) = Inr final"
    and "checkpoint_of parse_url cid (map se_event (all_entries store cid)) checkpoint k"
  shows "\<exists>result. replayConversation parse_url R (read_events store) cid checkpoint n = Some (Inr result) \<and>
    rr_state result = final \<and> rr_observed result = drop k (map se_event (all_entries store cid)) \<and>
    rr_replayedEventCount result = length (all_entries store cid) - k \<and> rr_duplicateEventCount result = 0"
  using assms by (rule memory.replayConversation_complete)

definition cleared_state :: ConversationState where
  "cleared_state = state_of (reduceEvents (\<lambda>_. None) (createInitialConversationState (Some (js ''c''))) [se_event first_entry])"

lemma cleared_run:
  "reduceEvents (\<lambda>_. None) (createInitialConversationState (Some (js ''c''))) [se_event first_entry] = Inr cleared_state"
proof -
  have "okE (reduceEvents (\<lambda>_. None) (createInitialConversationState (Some (js ''c''))) [se_event first_entry])"
    by (simp add: first_entry_def reducer_eval)
  then show ?thesis unfolding cleared_state_def by (auto simp: okE_iff state_of_def simp del: reduceEvents.simps)
qed

lemma one_entry_store:
  "store_ok (index_entry (js ''c'') first_entry empty_store)"
  "all_entries (index_entry (js ''c'') first_entry empty_store) (js ''c'') = [first_entry]"
  "okE (parseConversationEvent (\<lambda>_. None) (\<lambda>_. []) (event_json (se_event first_entry)))"
proof -
  show "store_ok (index_entry (js ''c'') first_entry empty_store)"
    by (rule append_store_ok [OF empty_store_ok first_batch_appended])
  show "all_entries (index_entry (js ''c'') first_entry empty_store) (js ''c'') = [first_entry]"
    by (simp add: all_entries_def empty_store_def)
  have "se_event first_entry = runtime_event (js ''e1'') (js ''c'') 1 ConversationCleared" by (simp add: first_entry_def)
  then show "okE (parseConversationEvent (\<lambda>_. None) (\<lambda>_. []) (event_json (se_event first_entry)))"
    by (simp only:, subst runtime_event_parses)
      (simp_all add: cleared_payload_ok identifier_ok_def identifierLength_def MAX_SAFE_INTEGER_def)
qed

theorem replay_from_checkpoint_witness:
  "\<exists>result. replayConversation (\<lambda>_. None) (\<lambda>_. []) (read_events (index_entry (js ''c'') first_entry empty_store)) (js ''c'')
     None (Some 1) = Some (Inr result) \<and> rr_state result = cleared_state \<and> rr_replayedEventCount result = 1"
proof -
  have "limit_ok (Some 1)" by (simp add: limit_ok_def MAX_SAFE_INTEGER_def)
  from replay_from_checkpoint [OF one_entry_store(1) this, of "js ''c''" "\<lambda>_. None" "\<lambda>_. []" cleared_state None 0]
  show ?thesis using cleared_run one_entry_store(2,3) by (auto simp: checkpoint_of_def simp del: reduceEvents.simps)
qed

theorem replay_sound_witness:
  "\<exists>result :: ReplayConversationResult. reduceEvents (\<lambda>_. None) (createInitialConversationState (Some (js ''c''))) (rr_observed result) = Inr (rr_state result) \<and>
     rr_state result = cleared_state"
proof -
  have "limit_ok None" by (simp add: limit_ok_def)
  from memory.replayConversation_complete [OF one_entry_store(1) this, of "js ''c''" "\<lambda>_. None" "\<lambda>_. []" cleared_state None 0]
    cleared_run one_entry_store(2,3)
  obtain result where "replayConversation (\<lambda>_. None) (\<lambda>_. []) (read_events (index_entry (js ''c'') first_entry empty_store))
      (js ''c'') None None = Some (Inr result)" "rr_state result = cleared_state"
    by (auto simp: checkpoint_of_def simp del: reduceEvents.simps)
  with replay_sound [OF this(1)] show ?thesis by (intro exI [of _ result]) simp
qed

end
