(* ===== verification/Retention.thy ===== *)
theory Retention
  imports Prelude "HOL-Library.AList"
begin

text \<open>
  Bounded maps in insertion order, as the in-memory adapters keep them for idempotency
  records: setting a key first drops the oldest entries until there is room for one more.
  The locale states what a store of such records promises to its clients.
\<close>

section \<open>Eviction\<close>

text \<open>The \<^verbatim>\<open>while\<close> loop that deletes the first key while the map is full.\<close>

fun evict_oldest :: "int \<Rightarrow> ('k \<times> 'v) list \<Rightarrow> ('k \<times> 'v) list" where
  "evict_oldest maximum [] = []"
| "evict_oldest maximum (x # xs) =
     (if maximum \<le> int (length (x # xs)) then evict_oldest maximum xs else x # xs)"

definition retain :: "int \<Rightarrow> 'k \<Rightarrow> 'v \<Rightarrow> ('k \<times> 'v) list \<Rightarrow> ('k \<times> 'v) list" where
  "retain maximum key v xs = AList.update key v (evict_oldest maximum xs)"

lemma evict_suffix: "\<exists>ys. xs = ys @ evict_oldest n xs"
proof (induction n xs rule: evict_oldest.induct)
  case (2 n x xs)
  show ?case
  proof (cases "n \<le> int (length (x # xs))")
    case True
    from 2 [OF True] obtain ys where ys: "xs = ys @ evict_oldest n xs" by blast
    have "evict_oldest n (x # xs) = evict_oldest n xs" using True by simp
    with ys have "x # xs = (x # ys) @ evict_oldest n (x # xs)" by simp
    then show ?thesis by blast
  qed auto
qed simp

lemma evict_length: "0 < n \<Longrightarrow> int (length (evict_oldest n xs)) < n"
  by (induction n xs rule: evict_oldest.induct) auto

lemma evict_set: "set (evict_oldest n xs) \<subseteq> set xs"
  using evict_suffix [of xs n] by (metis Un_upper2 set_append)

lemma evict_distinct: "distinct (map fst xs) \<Longrightarrow> distinct (map fst (evict_oldest n xs))"
  using evict_suffix [of xs n] by (metis distinct_append map_append)

lemma map_of_suffix:
  assumes "distinct (map fst (ys @ zs))" "map_of zs k = Some v"
  shows "map_of (ys @ zs) k = Some v"
proof -
  have "k \<in> fst ` set zs" using assms(2) by (force dest: map_of_SomeD)
  with assms(1) have "k \<notin> fst ` set ys" by auto
  then have "map_of ys k = None" by (simp add: map_of_eq_None_iff)
  with assms(2) show ?thesis by (simp add: map_add_def)
qed

lemma evict_lookup:
  assumes "distinct (map fst xs)" "map_of (evict_oldest n xs) k = Some v"
  shows "map_of xs k = Some v"
  using evict_suffix [of xs n] assms map_of_suffix by metis

lemma length_update: "length (AList.update k v xs) = (if k \<in> fst ` set xs then length xs else Suc (length xs))"
  by (induction xs) auto

lemma set_update_subset: "set (AList.update k v xs) \<subseteq> insert (k, v) (set xs)"
  by (induction xs) auto

lemma update_appends: "map_of kvs k = None \<Longrightarrow> map snd (AList.update k y kvs) = map snd kvs @ [y]"
  by (induction kvs) (auto split: if_splits)

lemma retain_bounded: "0 < n \<Longrightarrow> int (length (retain n k v xs)) \<le> n"
  using evict_length [of n xs] by (simp add: retain_def length_update)

lemma retain_distinct: "distinct (map fst xs) \<Longrightarrow> distinct (map fst (retain n k v xs))"
  by (simp add: retain_def evict_distinct distinct_update)

lemma retain_set: "set (retain n k v xs) \<subseteq> insert (k, v) (set xs)"
  unfolding retain_def using set_update_subset [of k v "evict_oldest n xs"] evict_set [of n xs] by blast

lemma retain_same [simp]: "map_of (retain n k v xs) k = Some v"
  by (simp add: retain_def update_conv')

lemma retain_other:
  "distinct (map fst xs) \<Longrightarrow> k' \<noteq> k \<Longrightarrow> map_of (retain n k v xs) k' = Some w \<Longrightarrow> map_of xs k' = Some w"
  by (simp add: retain_def update_conv' evict_lookup)

lemma retain_keeps:
  assumes "distinct (map fst xs)" "k' \<noteq> k" "map_of xs k' = Some r"
  shows "map_of (retain n k v xs) k' = Some r \<or> map_of (retain n k v xs) k' = None"
proof (cases "map_of (retain n k v xs) k'")
  case (Some w)
  with retain_other [OF assms(1,2) Some] assms(3) show ?thesis by simp
qed simp

section \<open>The contract of a store with idempotency records\<close>

text \<open>
  \<open>step s s'\<close> is one accepted request. A request leaves the records as they are or files one
  under a key that had none and may forget others. So the answer kept for a key never changes
  while it is kept.
\<close>

locale request_records =
  fixes inv :: "'s \<Rightarrow> bool"
    and lookup :: "'s \<Rightarrow> 'k \<Rightarrow> 'r option"
    and step :: "'s \<Rightarrow> 's \<Rightarrow> bool"
  assumes step_inv: "inv s \<Longrightarrow> step s s' \<Longrightarrow> inv s'"
    and step_keeps: "inv s \<Longrightarrow> step s s' \<Longrightarrow> lookup s k = Some r \<Longrightarrow> lookup s' k = Some r \<or> lookup s' k = None"
begin

lemma steps_inv: "step\<^sup>*\<^sup>* s s' \<Longrightarrow> inv s \<Longrightarrow> inv s'"
  by (induction rule: rtranclp_induct) (auto intro: step_inv)

text \<open>Through any run in which a key stays recorded, its record is the first one.\<close>

lemma record_stable:
  assumes "(\<lambda>a b. step a b \<and> lookup b k \<noteq> None)\<^sup>*\<^sup>* s s'" "inv s" "lookup s k = Some r"
  shows "lookup s' k = Some r \<and> inv s'"
  using assms(1)
proof (induction rule: rtranclp_induct)
  case base
  with assms show ?case by simp
next
  case (step y z)
  then have "inv y" "step y z" "lookup y k = Some r" "lookup z k \<noteq> None" by auto
  with step_keeps [of y z k r] step_inv [of y z] show ?case by auto
qed

end

end
