(* ===== verification/ApprovalStore.thy ===== *)
theory ApprovalStore
  imports ReducerProperties Retention Sorting
begin

text \<open>
  \<^verbatim>\<open>src/conversation/approval-proposal-store.ts\<close>: the in-memory store of approval proposals. A
  request is validated and authorised when it is made; its body runs later, alone, behind the
  promise chain \<^verbatim>\<open>#mutationTail\<close>. So a request has two definitions here: what happens at the
  call, which never looks at the store, and the atomic body on the store. The permission check
  and the clock belong to the host: they are parameters, and \<open>None\<close> is a throw.
\<close>

section \<open>Data\<close>

record ApprovalProposalStoreLimits =
  maxProposals :: int
  maxIdempotencyRecords :: int
  maxIdempotencyKeyLength :: int
  maxIdempotencyFingerprintLength :: int

definition DEFAULT_APPROVAL_PROPOSAL_STORE_LIMITS :: ApprovalProposalStoreLimits where
  "DEFAULT_APPROVAL_PROPOSAL_STORE_LIMITS =
     \<lparr>maxProposals = 1000, maxIdempotencyRecords = 2000, maxIdempotencyKeyLength = 256,
      maxIdempotencyFingerprintLength = 256\<rparr>"

datatype (plugins only: code size) ApprovalProposalStoreOperation = OpCreate | OpGet | OpListGroup | OpTransition

datatype (plugins only: code size) ApprovalProposalStoreErrorCode =
    permission_denied | invalid_input | not_found | capacity_exceeded | approval_idempotency_conflict
  | version_conflict | invalid_transition | not_expired | unavailable

record ApprovalProposalStoreError =
  ase_code :: ApprovalProposalStoreErrorCode
  ase_operation :: ApprovalProposalStoreOperation
  ase_retryable :: bool

definition storeError :: "ApprovalProposalStoreErrorCode \<Rightarrow> ApprovalProposalStoreOperation \<Rightarrow> ApprovalProposalStoreError" where
  "storeError code operation = \<lparr>ase_code = code, ase_operation = operation,
     ase_retryable = (code = unavailable \<or> code = version_conflict)\<rparr>"

record 'p ApprovalProposalPermissionRequest =
  pr_operation :: ApprovalProposalStoreOperation
  pr_permissionContext :: 'p
  pr_proposalId :: "js_string option"
  pr_groupId :: "js_string option"
  pr_targetStatus :: "ConversationApprovalProposalStatus option"

type_synonym 'p permission_check = "'p ApprovalProposalPermissionRequest \<Rightarrow> bool option"

record 'p CreateApprovalProposalInput =
  ci_permissionContext :: 'p
  ci_proposalId :: js_string
  ci_groupId :: "js_string option"
  ci_turnId :: js_string
  ci_toolCallId :: js_string
  ci_toolName :: js_string
  ci_reviewedArguments :: ConversationApprovalReviewedArguments
  ci_expiresAt :: "js_string option"
  ci_attribution :: ConversationEventAttribution
  ci_idempotencyKey :: js_string
  ci_idempotencyFingerprint :: js_string

record 'p TransitionApprovalProposalInput =
  ti_permissionContext :: 'p
  ti_proposalId :: js_string
  ti_expectedVersion :: js_number
  ti_status :: ConversationApprovalProposalStatus
  ti_attribution :: ConversationEventAttribution
  ti_decisionReason :: "js_string option"
  ti_failureReason :: "js_string option"
  ti_idempotencyKey :: js_string
  ti_idempotencyFingerprint :: js_string

datatype (plugins only: code size) idempotency_operation = IdCreate | IdTransition

record IdempotencyRecord =
  ir_operation :: idempotency_operation
  ir_fingerprint :: js_string
  ir_requestSignature :: js_string
  ir_result :: ConversationApprovalProposalRecord

text \<open>The two maps of the class, in insertion order.\<close>

record InMemoryApprovalProposalStore =
  as_limits :: ApprovalProposalStoreLimits
  as_proposals :: "(js_string \<times> ConversationApprovalProposalRecord) list"
  as_idempotency :: "(js_string \<times> IdempotencyRecord) list"

section \<open>Validation\<close>

definition limit_value_ok :: "int \<Rightarrow> bool" where
  "limit_value_ok n \<longleftrightarrow> 0 < n \<and> n \<le> MAX_SAFE_INTEGER"

definition resolveLimits :: "ApprovalProposalStoreLimits \<Rightarrow> ApprovalProposalStoreLimits option" where
  "resolveLimits limits =
     (if limit_value_ok (maxProposals limits) \<and> limit_value_ok (maxIdempotencyRecords limits) \<and>
         limit_value_ok (maxIdempotencyKeyLength limits) \<and> limit_value_ok (maxIdempotencyFingerprintLength limits) \<and>
         maxIdempotencyKeyLength limits \<le> int textLength \<and> maxIdempotencyFingerprintLength limits \<le> int textLength
      then Some limits else None)"

definition createApprovalStore :: "ApprovalProposalStoreLimits \<Rightarrow> InMemoryApprovalProposalStore option" where
  "createApprovalStore limits = map_option (\<lambda>l. \<lparr>as_limits = l, as_proposals = [], as_idempotency = []\<rparr>) (resolveLimits limits)"

definition check_that :: "bool \<Rightarrow> 'e \<Rightarrow> 'e + unit" where
  "check_that b e = (if b then Inr () else Inl e)"

definition validateIdentifier :: "js_string \<Rightarrow> ApprovalProposalStoreOperation \<Rightarrow> ApprovalProposalStoreError + unit" where
  "validateIdentifier value operation = check_that (identifier_ok value) (storeError invalid_input operation)"

definition OPAQUE_VALUE_PATTERN :: re where
  "OPAQUE_VALUE_PATTERN = head_then_star alnum_iu (\<lambda>c. alnum_iu c \<or> one_of ''._:/-'' c)"

definition isBoundedOpaqueValue :: "js_string \<Rightarrow> int \<Rightarrow> bool" where
  "isBoundedOpaqueValue value maximum \<longleftrightarrow> value \<noteq> [] \<and> int (length value) \<le> maximum \<and>
     test OPAQUE_VALUE_PATTERN value \<and> \<not> str_includes value (js ''://'')"

definition validateIdempotency :: "js_string \<Rightarrow> js_string \<Rightarrow> ApprovalProposalStoreLimits \<Rightarrow>
    ApprovalProposalStoreOperation \<Rightarrow> ApprovalProposalStoreError + unit" where
  "validateIdempotency key fingerprint limits operation =
     bindE (check_that (isBoundedOpaqueValue key (maxIdempotencyKeyLength limits)) (storeError invalid_input operation)) (\<lambda>_.
     check_that (isBoundedOpaqueValue fingerprint (maxIdempotencyFingerprintLength limits)) (storeError invalid_input operation))"

text \<open>\<^verbatim>\<open>cloneAttribution\<close> of this file also checks the identifiers of the actor and the source.\<close>

definition attribution_valid :: "ConversationEventAttribution \<Rightarrow> bool" where
  "attribution_valid a \<longleftrightarrow> (case actor_id (aa_actor a) of None \<Rightarrow> True | Some i \<Rightarrow> identifier_ok i) \<and>
     (case aa_source a of
        ClientSource c d \<Rightarrow> identifier_ok c \<and> (case d of None \<Rightarrow> True | Some x \<Rightarrow> identifier_ok x)
      | _ \<Rightarrow> True)"

definition checkedAttribution :: "ConversationEventAttribution \<Rightarrow> ApprovalProposalStoreErrorCode \<Rightarrow>
    ApprovalProposalStoreOperation \<Rightarrow> ApprovalProposalStoreError + ConversationEventAttribution" where
  "checkedAttribution a code operation =
     (if attribution_valid a then Inr (cloneAttribution (aa_actor a) (aa_source a)) else Inl (storeError code operation))"

definition validateCreateInput :: "(rat \<Rightarrow> js_string) \<Rightarrow> 'p CreateApprovalProposalInput \<Rightarrow> ApprovalProposalStoreLimits \<Rightarrow>
    ApprovalProposalStoreError + unit" where
  "validateCreateInput R input limits =
     bindE (validateIdentifier (ci_proposalId input) OpCreate) (\<lambda>_.
     bindE (case ci_groupId input of None \<Rightarrow> Inr () | Some g \<Rightarrow> validateIdentifier g OpCreate) (\<lambda>_.
     bindE (validateIdentifier (ci_turnId input) OpCreate) (\<lambda>_.
     bindE (validateIdentifier (ci_toolCallId input) OpCreate) (\<lambda>_.
     bindE (validateIdentifier (ci_toolName input) OpCreate) (\<lambda>_.
     bindE (validateIdempotency (ci_idempotencyKey input) (ci_idempotencyFingerprint input) limits OpCreate) (\<lambda>_.
     bindE (check_that (case ci_expiresAt input of None \<Rightarrow> True | Some t \<Rightarrow> isConversationTimestamp t)
       (storeError invalid_input OpCreate)) (\<lambda>_.
     bindE (check_that (isConversationApprovalReviewedArguments R (reviewed_arguments_json (ci_reviewedArguments input)))
       (storeError invalid_input OpCreate)) (\<lambda>_.
     bindE (checkedAttribution (ci_attribution input) invalid_input OpCreate) (\<lambda>_. Inr ())))))))))"

definition validateTransitionInput :: "'p TransitionApprovalProposalInput \<Rightarrow> ApprovalProposalStoreLimits \<Rightarrow>
    ApprovalProposalStoreError + int" where
  "validateTransitionInput input limits =
     (let bad = storeError invalid_input OpTransition; status = ti_status input in
     bindE (validateIdentifier (ti_proposalId input) OpTransition) (\<lambda>_.
     bindE (validateIdempotency (ti_idempotencyKey input) (ti_idempotencyFingerprint input) limits OpTransition) (\<lambda>_.
     bindE (case safe_int (ti_expectedVersion input) of
       None \<Rightarrow> Inl bad | Some v \<Rightarrow> if v \<le> 0 then Inl bad else Inr v) (\<lambda>version.
     bindE (check_that (status \<in> {Confirmed, Rejected, Expired, Executing, Executed, Failed}) bad) (\<lambda>_.
     bindE (check_that (case ti_decisionReason input of None \<Rightarrow> True
       | Some r \<Rightarrow> isDecision status \<and> isConversationApprovalReason (JStr r)) bad) (\<lambda>_.
     bindE (check_that (if status = Failed
       then (case ti_failureReason input of None \<Rightarrow> False | Some r \<Rightarrow> isConversationApprovalReason (JStr r))
       else ti_failureReason input = None) bad) (\<lambda>_.
     bindE (checkedAttribution (ti_attribution input) invalid_input OpTransition) (\<lambda>_. Inr version))))))))"

definition authorize :: "'p permission_check \<Rightarrow> 'p ApprovalProposalPermissionRequest \<Rightarrow> ApprovalProposalStoreError + unit" where
  "authorize check request = check_that (check request = Some True) (storeError permission_denied (pr_operation request))"

section \<open>Request signatures\<close>

text \<open>\<^verbatim>\<open>stableStringify\<close>: JSON text with the entries of every object in the order of their sorted keys.\<close>

fun stableStringify :: "(rat \<Rightarrow> js_string) \<Rightarrow> json \<Rightarrow> js_string" where
  "stableStringify R (JArr xs) = js ''['' @ join_comma (map (stableStringify R) xs) @ js '']''"
| "stableStringify R (JObj fs) =
     js ''{'' @ join_comma (map snd (sort_key fst (map (\<lambda>f. (fst f, quote (fst f) @ js '':'' @ stableStringify R (snd f))) fs))) @ js ''}''"
| "stableStringify R v = stringify R v"

definition attribution_object :: "ConversationEventAttribution \<Rightarrow> json" where
  "attribution_object a = JObj [(js ''actor'', actor_json (aa_actor a)), (js ''source'', source_json (aa_source a))]"

definition createRequestSignature :: "(rat \<Rightarrow> js_string) \<Rightarrow> 'p CreateApprovalProposalInput \<Rightarrow> js_string" where
  "createRequestSignature R input = stableStringify R (JObj
     [(js ''operation'', JText ''create''), (js ''proposalId'', JStr (ci_proposalId input)),
      (js ''groupId'', nullable (ci_groupId input)), (js ''turnId'', JStr (ci_turnId input)),
      (js ''toolCallId'', JStr (ci_toolCallId input)), (js ''toolName'', JStr (ci_toolName input)),
      (js ''reviewedArguments'', reviewed_arguments_json (ci_reviewedArguments input)),
      (js ''expiresAt'', nullable (ci_expiresAt input)),
      (js ''attribution'', attribution_object (ci_attribution input))])"

definition transitionRequestSignature :: "(rat \<Rightarrow> js_string) \<Rightarrow> 'p TransitionApprovalProposalInput \<Rightarrow> js_string" where
  "transitionRequestSignature R input = stableStringify R (JObj
     [(js ''operation'', JText ''transition''), (js ''proposalId'', JStr (ti_proposalId input)),
      (js ''expectedVersion'', JNum (ti_expectedVersion input)),
      (js ''status'', JText (proposal_status_text (ti_status input))),
      (js ''attribution'', attribution_object (ti_attribution input)),
      (js ''decisionReason'', nullable (ti_decisionReason input)),
      (js ''failureReason'', nullable (ti_failureReason input))])"

section \<open>Bodies\<close>

definition cloneReviewedArguments :: "ConversationApprovalReviewedArguments \<Rightarrow> ConversationApprovalReviewedArguments" where
  "cloneReviewedArguments value = (case value of
     OpaqueReference k \<Rightarrow> OpaqueReference k
   | RedactedJson v \<Rightarrow> RedactedJson (map (\<lambda>f. (fst f, copyJson (snd f))) v))"

definition cloneProposal :: "ConversationApprovalProposalRecord \<Rightarrow> ApprovalProposalStoreError + ConversationApprovalProposalRecord" where
  "cloneProposal proposal =
     bindE (checkedAttribution (ap_created_attribution proposal) unavailable OpGet) (\<lambda>created.
     bindE (checkedAttribution (ap_latest_attribution proposal) unavailable OpGet) (\<lambda>latest.
     bindE (case ap_decision_attribution proposal of
        None \<Rightarrow> Inr None
      | Some a \<Rightarrow> bindE (checkedAttribution a unavailable OpGet) (\<lambda>d. Inr (Some d))) (\<lambda>decision.
     Inr (proposal\<lparr>ap_reviewed_arguments := cloneReviewedArguments (ap_reviewed_arguments proposal),
       ap_created_attribution := created, ap_latest_attribution := latest, ap_decision_attribution := decision\<rparr>))))"

text \<open>\<^verbatim>\<open>#now\<close>: the clock may throw or return something that is no timestamp.\<close>

definition checked_now :: "js_string option \<Rightarrow> ApprovalProposalStoreOperation \<Rightarrow> ApprovalProposalStoreError + js_string" where
  "checked_now clock operation = (case clock of
     None \<Rightarrow> Inl (storeError unavailable operation)
   | Some t \<Rightarrow> if isConversationTimestamp t then Inr t else Inl (storeError unavailable operation))"

definition idempotentResult :: "InMemoryApprovalProposalStore \<Rightarrow> idempotency_operation \<Rightarrow> js_string \<Rightarrow> js_string \<Rightarrow> js_string \<Rightarrow>
    ApprovalProposalStoreError + ConversationApprovalProposalRecord option" where
  "idempotentResult s operation key fingerprint requestSignature = (case map_of (as_idempotency s) key of
     None \<Rightarrow> Inr None
   | Some retained \<Rightarrow>
       if ir_operation retained \<noteq> operation \<or> ir_fingerprint retained \<noteq> fingerprint \<or>
          ir_requestSignature retained \<noteq> requestSignature
       then Inl (storeError approval_idempotency_conflict (case operation of IdCreate \<Rightarrow> OpCreate | IdTransition \<Rightarrow> OpTransition))
       else Inr (Some (ir_result retained)))"

text \<open>\<^verbatim>\<open>#retainIdempotency\<close>: the oldest records give way until there is room for one more.\<close>

definition retainIdempotency :: "js_string \<Rightarrow> IdempotencyRecord \<Rightarrow> InMemoryApprovalProposalStore \<Rightarrow> InMemoryApprovalProposalStore" where
  "retainIdempotency key record s =
     s\<lparr>as_idempotency := retain (maxIdempotencyRecords (as_limits s)) key record (as_idempotency s)\<rparr>"

definition new_proposal :: "'p CreateApprovalProposalInput \<Rightarrow> js_string \<Rightarrow> ConversationApprovalProposalRecord" where
  "new_proposal input now =
     (let attribution = cloneAttribution (aa_actor (ci_attribution input)) (aa_source (ci_attribution input)) in
     \<lparr>ap_proposal_id = ci_proposalId input, ap_group_id = ci_groupId input, ap_turn_id = ci_turnId input,
      ap_tool_call_id = ci_toolCallId input, ap_tool_name = ci_toolName input,
      ap_reviewed_arguments = cloneReviewedArguments (ci_reviewedArguments input), ap_status = Pending,
      ap_proposal_version = 1, ap_expires_at = None, ap_created_at = now, ap_updated_at = now,
      ap_created_attribution = attribution, ap_latest_attribution = attribution, ap_decision_at = None,
      ap_decision_attribution = None, ap_decision_reason = None, ap_failure_reason = None\<rparr>)"

text \<open>Filing a new record of a proposal under its identity and its idempotency key.\<close>

definition store_proposal :: "ConversationApprovalProposalRecord \<Rightarrow> js_string \<Rightarrow> idempotency_operation \<Rightarrow> js_string \<Rightarrow> js_string \<Rightarrow>
    InMemoryApprovalProposalStore \<Rightarrow>
    ApprovalProposalStoreError + ConversationApprovalProposalRecord \<times> InMemoryApprovalProposalStore" where
  "store_proposal proposal key operation fingerprint signature s =
     bindE (cloneProposal proposal) (\<lambda>result.
     Inr (result, retainIdempotency key
       \<lparr>ir_operation = operation, ir_fingerprint = fingerprint, ir_requestSignature = signature, ir_result = result\<rparr>
       (s\<lparr>as_proposals := AList.update (ap_proposal_id proposal) proposal (as_proposals s)\<rparr>)))"

definition create_body :: "(rat \<Rightarrow> js_string) \<Rightarrow> js_string option \<Rightarrow> 'p CreateApprovalProposalInput \<Rightarrow> InMemoryApprovalProposalStore \<Rightarrow>
    ApprovalProposalStoreError + ConversationApprovalProposalRecord \<times> InMemoryApprovalProposalStore" where
  "create_body R clock input s =
     (let signature = createRequestSignature R input in
     bindE (idempotentResult s IdCreate (ci_idempotencyKey input) (ci_idempotencyFingerprint input) signature) (\<lambda>retry.
     case retry of
       Some r \<Rightarrow> bindE (cloneProposal r) (\<lambda>result. Inr (result, s))
     | None \<Rightarrow>
         if map_of (as_proposals s) (ci_proposalId input) \<noteq> None then Inl (storeError approval_idempotency_conflict OpCreate)
         else if maxProposals (as_limits s) \<le> int (length (as_proposals s)) then Inl (storeError capacity_exceeded OpCreate)
         else bindE (checked_now clock OpCreate) (\<lambda>now.
           if actor_type (aa_actor (ci_attribution input)) \<noteq> ActorSystem then Inl (storeError invalid_input OpCreate)
           else store_proposal (new_proposal input now) (ci_idempotencyKey input) IdCreate
             (ci_idempotencyFingerprint input) signature s)))"

definition get_body :: "js_string \<Rightarrow> InMemoryApprovalProposalStore \<Rightarrow>
    ApprovalProposalStoreError + ConversationApprovalProposalRecord option" where
  "get_body proposalId s = (case map_of (as_proposals s) proposalId of
     None \<Rightarrow> Inr None
   | Some p \<Rightarrow> bindE (cloneProposal p) (\<lambda>q. Inr (Some q)))"

definition transitionProposal :: "ConversationApprovalProposalRecord \<Rightarrow> ConversationApprovalProposalStatus \<Rightarrow>
    js_string option \<Rightarrow> js_string option \<Rightarrow> js_string \<Rightarrow> ConversationEventAttribution \<Rightarrow> ConversationApprovalProposalRecord" where
  "transitionProposal current status decisionReason failureReason now attribution = current
     \<lparr>ap_status := status, ap_proposal_version := ap_proposal_version current + 1, ap_updated_at := now,
      ap_latest_attribution := attribution,
      ap_decision_at := (if isDecision status then Some now else ap_decision_at current),
      ap_decision_attribution := (if isDecision status then Some attribution else ap_decision_attribution current),
      ap_decision_reason := (if isDecision status then decisionReason else ap_decision_reason current),
      ap_failure_reason := (if status = Failed then failureReason
        else if status = Executing then None else ap_failure_reason current)\<rparr>"

definition transition_body :: "(rat \<Rightarrow> js_string) \<Rightarrow> js_string option \<Rightarrow> 'p TransitionApprovalProposalInput \<Rightarrow>
    InMemoryApprovalProposalStore \<Rightarrow>
    ApprovalProposalStoreError + ConversationApprovalProposalRecord \<times> InMemoryApprovalProposalStore" where
  "transition_body R clock input s =
     (let signature = transitionRequestSignature R input; status = ti_status input;
          actor = actor_type (aa_actor (ti_attribution input)) in
     bindE (idempotentResult s IdTransition (ti_idempotencyKey input) (ti_idempotencyFingerprint input) signature) (\<lambda>retry.
     case retry of
       Some r \<Rightarrow> bindE (cloneProposal r) (\<lambda>result. Inr (result, s))
     | None \<Rightarrow>
         (case map_of (as_proposals s) (ti_proposalId input) of
            None \<Rightarrow> Inl (storeError not_found OpTransition)
          | Some current \<Rightarrow>
              if Some (ap_proposal_version current) \<noteq> safe_int (ti_expectedVersion input)
              then Inl (storeError version_conflict OpTransition)
              else bindE (checked_now clock OpTransition) (\<lambda>now.
                if date_less now (ap_updated_at current) then Inl (storeError unavailable OpTransition)
                else if status = Expired then Inl (storeError invalid_transition OpTransition)
                else if \<not> isLegalConversationApprovalProposalTransition (ap_status current) status
                then Inl (storeError invalid_transition OpTransition)
                else if status \<in> {Expired, Executing, Executed, Failed} \<and> actor \<noteq> ActorSystem
                then Inl (storeError invalid_input OpTransition)
                else if status \<in> {Confirmed, Rejected} \<and> actor \<notin> {ActorUser, ActorSystem}
                then Inl (storeError invalid_input OpTransition)
                else bindE (checkedAttribution (ti_attribution input) invalid_input OpTransition) (\<lambda>attribution.
                  store_proposal (transitionProposal current status (ti_decisionReason input) (ti_failureReason input) now attribution)
                    (ti_idempotencyKey input) IdTransition (ti_idempotencyFingerprint input) signature s)))))"

section \<open>Listing a group\<close>

text \<open>
  \<^verbatim>\<open>localeCompare\<close> depends on the locale of the process and is a parameter.
\<close>

definition compareProposals :: "(js_string \<Rightarrow> js_string \<Rightarrow> int) \<Rightarrow> ConversationApprovalProposalRecord \<Rightarrow>
    ConversationApprovalProposalRecord \<Rightarrow> int" where
  "compareProposals localeCompare left right =
     (let order = localeCompare (ap_proposal_id left) (ap_proposal_id right) in
      case (Date_parse (ap_created_at left), Date_parse (ap_created_at right)) of
        (Some x, Some y) \<Rightarrow> if x - y \<noteq> 0 then x - y else order
      | _ \<Rightarrow> order)"

definition listGroup_body :: "(js_string \<Rightarrow> js_string \<Rightarrow> int) \<Rightarrow> js_string \<Rightarrow> InMemoryApprovalProposalStore \<Rightarrow>
    ApprovalProposalStoreError + ConversationApprovalProposalRecord list" where
  "listGroup_body localeCompare groupId s =
     bindE (mapE cloneProposal (filter (\<lambda>p. ap_group_id p = Some groupId) (map snd (as_proposals s)))) (\<lambda>ps.
     Inr (sort_by (compareProposals localeCompare) ps))"

section \<open>Whole requests\<close>

definition create_request :: "(rat \<Rightarrow> js_string) \<Rightarrow> 'p permission_check \<Rightarrow> ApprovalProposalStoreLimits \<Rightarrow>
    'p CreateApprovalProposalInput \<Rightarrow> ApprovalProposalStoreError + unit" where
  "create_request R check limits input =
     bindE (validateCreateInput R input limits) (\<lambda>_.
     authorize check \<lparr>pr_operation = OpCreate, pr_permissionContext = ci_permissionContext input,
       pr_proposalId = Some (ci_proposalId input), pr_groupId = ci_groupId input, pr_targetStatus = None\<rparr>)"

definition transition_request :: "'p permission_check \<Rightarrow> ApprovalProposalStoreLimits \<Rightarrow>
    'p TransitionApprovalProposalInput \<Rightarrow> ApprovalProposalStoreError + unit" where
  "transition_request check limits input =
     bindE (validateTransitionInput input limits) (\<lambda>_.
     authorize check \<lparr>pr_operation = OpTransition, pr_permissionContext = ti_permissionContext input,
       pr_proposalId = Some (ti_proposalId input), pr_groupId = None, pr_targetStatus = Some (ti_status input)\<rparr>)"

definition get_request :: "'p permission_check \<Rightarrow> 'p \<Rightarrow> js_string \<Rightarrow> ApprovalProposalStoreError + unit" where
  "get_request check ctx proposalId =
     bindE (validateIdentifier proposalId OpGet) (\<lambda>_.
     authorize check \<lparr>pr_operation = OpGet, pr_permissionContext = ctx, pr_proposalId = Some proposalId,
       pr_groupId = None, pr_targetStatus = None\<rparr>)"

definition listGroup_request :: "'p permission_check \<Rightarrow> 'p \<Rightarrow> js_string \<Rightarrow> ApprovalProposalStoreError + unit" where
  "listGroup_request check ctx groupId =
     bindE (validateIdentifier groupId OpListGroup) (\<lambda>_.
     authorize check \<lparr>pr_operation = OpListGroup, pr_permissionContext = ctx, pr_proposalId = None,
       pr_groupId = Some groupId, pr_targetStatus = None\<rparr>)"

end
