(* ===== verification/ApprovalStoreProperties.thy ===== *)
theory ApprovalStoreProperties
  imports ApprovalStore
begin

text \<open>
  The proposal store keeps its capacity and its lifecycle, answers a repeated request from its
  record, lets one of two competing transitions win, and stays in step with the projection
  that the reducer builds from the corresponding events.
\<close>

section \<open>Clones\<close>

lemma cloneReviewedArguments_id [simp]: "cloneReviewedArguments r = r"
  by (cases r) (simp_all add: cloneReviewedArguments_def)

lemma checkedAttribution_Inr: "checkedAttribution a c x = Inr b \<longleftrightarrow> attribution_valid a \<and> b = a"
  by (auto simp: checkedAttribution_def)

definition attributions_valid :: "ConversationApprovalProposalRecord \<Rightarrow> bool" where
  "attributions_valid p \<longleftrightarrow> attribution_valid (ap_created_attribution p) \<and> attribution_valid (ap_latest_attribution p) \<and>
     (case ap_decision_attribution p of None \<Rightarrow> True | Some a \<Rightarrow> attribution_valid a)"

lemma cloneProposal_Inr: "cloneProposal p = Inr q \<longleftrightarrow> attributions_valid p \<and> q = p"
  by (auto simp: cloneProposal_def attributions_valid_def bindE_Inr_iff checkedAttribution_Inr split: option.splits)

lemma cloneProposal_valid: "attributions_valid p \<Longrightarrow> cloneProposal p = Inr p"
  by (simp add: cloneProposal_Inr)

section \<open>The invariant\<close>

definition stored_proposal_ok :: "ConversationApprovalProposalRecord \<Rightarrow> bool" where
  "stored_proposal_ok p \<longleftrightarrow> proposal_ok p \<and> ap_status p \<noteq> Expired \<and> ap_expires_at p = None \<and> attributions_valid p \<and>
     actor_type (aa_actor (ap_created_attribution p)) = ActorSystem \<and>
     isConversationTimestamp (ap_created_at p) \<and> isConversationTimestamp (ap_updated_at p) \<and>
     \<not> date_less (ap_updated_at p) (ap_created_at p)"

definition approval_store_ok :: "InMemoryApprovalProposalStore \<Rightarrow> bool" where
  "approval_store_ok s \<longleftrightarrow> 0 < maxProposals (as_limits s) \<and> 0 < maxIdempotencyRecords (as_limits s) \<and>
     distinct (map fst (as_proposals s)) \<and> int (length (as_proposals s)) \<le> maxProposals (as_limits s) \<and>
     (\<forall>(k, p) \<in> set (as_proposals s). ap_proposal_id p = k \<and> stored_proposal_ok p) \<and>
     distinct (map fst (as_idempotency s)) \<and> int (length (as_idempotency s)) \<le> maxIdempotencyRecords (as_limits s) \<and>
     (\<forall>(k, r) \<in> set (as_idempotency s). stored_proposal_ok (ir_result r))"

lemma created_store_ok: "createApprovalStore limits = Some s \<Longrightarrow> approval_store_ok s"
  by (auto simp: createApprovalStore_def resolveLimits_def limit_value_ok_def approval_store_ok_def split: if_splits)

lemma date_less_trans:
  assumes "isConversationTimestamp b" "\<not> date_less b a" "\<not> date_less c b"
    "isConversationTimestamp a" "isConversationTimestamp c"
  shows "\<not> date_less c a"
proof -
  obtain x y z where "Date_parse a = Some x" "Date_parse b = Some y" "Date_parse c = Some z"
    using assms isConversationTimestamp_Date_parse by blast
  with assms(2,3) show ?thesis by (simp add: date_less_def)
qed

lemma retain_ok:
  assumes "approval_store_ok s" "stored_proposal_ok (ir_result r)"
  shows "approval_store_ok (retainIdempotency k r s)"
proof -
  let ?new = "retain (maxIdempotencyRecords (as_limits s)) k r (as_idempotency s)"
  have "set ?new \<subseteq> insert (k, r) (set (as_idempotency s))" by (rule retain_set)
  moreover have "int (length ?new) \<le> maxIdempotencyRecords (as_limits s)" "distinct (map fst ?new)"
    using assms(1) by (simp_all add: approval_store_ok_def retain_bounded retain_distinct)
  ultimately show ?thesis
    using assms by (auto simp: approval_store_ok_def retainIdempotency_def)
qed

lemma put_ok:
  assumes ok: "approval_store_ok s" and p: "stored_proposal_ok p"
    and room: "ap_proposal_id p \<in> fst ` set (as_proposals s) \<or> int (length (as_proposals s)) < maxProposals (as_limits s)"
  shows "approval_store_ok (s\<lparr>as_proposals := AList.update (ap_proposal_id p) p (as_proposals s)\<rparr>)"
proof -
  let ?new = "AList.update (ap_proposal_id p) p (as_proposals s)"
  have "set ?new \<subseteq> insert (ap_proposal_id p, p) (set (as_proposals s))" by (rule set_update_subset)
  moreover have "int (length ?new) \<le> maxProposals (as_limits s)"
    using ok room by (auto simp: length_update approval_store_ok_def)
  ultimately show ?thesis using ok p by (auto simp: approval_store_ok_def distinct_update)
qed

lemma store_proposal_Inr:
  assumes "store_proposal p key op' fp sig s = Inr (result, s')"
  shows "result = p" "attributions_valid p"
    "s' = retainIdempotency key \<lparr>ir_operation = op', ir_fingerprint = fp, ir_requestSignature = sig, ir_result = p\<rparr>
      (s\<lparr>as_proposals := AList.update (ap_proposal_id p) p (as_proposals s)\<rparr>)"
  using assms by (auto simp: store_proposal_def bindE_Inr_iff cloneProposal_Inr)

lemma store_proposal_ok:
  assumes "approval_store_ok s" "stored_proposal_ok p"
    "ap_proposal_id p \<in> fst ` set (as_proposals s) \<or> int (length (as_proposals s)) < maxProposals (as_limits s)"
    "store_proposal p key op' fp sig s = Inr (result, s')"
  shows "approval_store_ok s'"
  unfolding store_proposal_Inr(3) [OF assms(4)]
  by (rule retain_ok [OF put_ok [OF assms(1-3)]]) (use assms(2) in simp)

section \<open>What a body has done\<close>

lemma idempotentResult_Inr:
  assumes "idempotentResult s op' key fp sig = Inr (Some r)"
  shows "\<exists>rec. map_of (as_idempotency s) key = Some rec \<and> ir_result rec = r"
  using assms by (auto simp: idempotentResult_def split: option.splits if_splits)

lemma idempotentResult_None: "idempotentResult s op' key fp sig = Inr None \<Longrightarrow> map_of (as_idempotency s) key = None"
  by (auto simp: idempotentResult_def split: option.splits if_splits)

lemma create_body_cases:
  assumes "create_body R clock input s = Inr (result, s')"
  obtains (retry) rec where "s' = s" "map_of (as_idempotency s) (ci_idempotencyKey input) = Some rec" "result = ir_result rec"
  | (new) now where "clock = Some now" "isConversationTimestamp now" "map_of (as_proposals s) (ci_proposalId input) = None"
      "int (length (as_proposals s)) < maxProposals (as_limits s)"
      "actor_type (aa_actor (ci_attribution input)) = ActorSystem" "result = new_proposal input now"
      "store_proposal (new_proposal input now) (ci_idempotencyKey input) IdCreate (ci_idempotencyFingerprint input)
        (createRequestSignature R input) s = Inr (result, s')"
      "map_of (as_idempotency s) (ci_idempotencyKey input) = None"
proof -
  from assms obtain r where r: "idempotentResult s IdCreate (ci_idempotencyKey input) (ci_idempotencyFingerprint input)
      (createRequestSignature R input) = Inr r"
    by (auto simp: create_body_def Let_def bindE_Inr_iff)
  show thesis
  proof (cases r)
    case (Some x)
    from idempotentResult_Inr [OF r [unfolded Some]] obtain rec where
      "map_of (as_idempotency s) (ci_idempotencyKey input) = Some rec" "ir_result rec = x" by blast
    moreover have "s' = s" "result = x"
      using assms r Some by (auto simp: create_body_def Let_def bindE_Inr_iff cloneProposal_Inr)
    ultimately show ?thesis using retry by blast
  next
    case None
    with assms r obtain now where n: "clock = Some now" "isConversationTimestamp now"
      "map_of (as_proposals s) (ci_proposalId input) = None" "int (length (as_proposals s)) < maxProposals (as_limits s)"
      "actor_type (aa_actor (ci_attribution input)) = ActorSystem"
      "store_proposal (new_proposal input now) (ci_idempotencyKey input) IdCreate (ci_idempotencyFingerprint input)
        (createRequestSignature R input) s = Inr (result, s')"
      by (auto simp: create_body_def Let_def bindE_Inr_iff checked_now_def split: if_splits option.splits)
    with store_proposal_Inr(1) [OF n(6)] idempotentResult_None [OF r [unfolded None]] show ?thesis by (intro new) simp_all
  qed
qed

definition transitioned :: "'p TransitionApprovalProposalInput \<Rightarrow> js_string \<Rightarrow> ConversationApprovalProposalRecord \<Rightarrow>
    ConversationApprovalProposalRecord" where
  "transitioned input now current = transitionProposal current (ti_status input) (ti_decisionReason input)
     (ti_failureReason input) now (ti_attribution input)"

lemma transition_body_cases:
  assumes "transition_body R clock input s = Inr (result, s')"
  obtains (retry) rec where "s' = s" "map_of (as_idempotency s) (ti_idempotencyKey input) = Some rec" "result = ir_result rec"
  | (move) now current where "clock = Some now" "isConversationTimestamp now"
      "map_of (as_proposals s) (ti_proposalId input) = Some current"
      "safe_int (ti_expectedVersion input) = Some (ap_proposal_version current)" "\<not> date_less now (ap_updated_at current)"
      "ti_status input \<noteq> Expired" "isLegalConversationApprovalProposalTransition (ap_status current) (ti_status input)"
      "attribution_valid (ti_attribution input)" "result = transitioned input now current"
      "store_proposal result (ti_idempotencyKey input) IdTransition (ti_idempotencyFingerprint input)
        (transitionRequestSignature R input) s = Inr (result, s')"
      "map_of (as_idempotency s) (ti_idempotencyKey input) = None"
proof -
  from assms obtain r where r: "idempotentResult s IdTransition (ti_idempotencyKey input) (ti_idempotencyFingerprint input)
      (transitionRequestSignature R input) = Inr r"
    by (auto simp: transition_body_def Let_def bindE_Inr_iff)
  show thesis
  proof (cases r)
    case (Some x)
    from idempotentResult_Inr [OF r [unfolded Some]] obtain rec where
      "map_of (as_idempotency s) (ti_idempotencyKey input) = Some rec" "ir_result rec = x" by blast
    moreover have "s' = s" "result = x"
      using assms r Some by (auto simp: transition_body_def Let_def bindE_Inr_iff cloneProposal_Inr)
    ultimately show ?thesis using retry by blast
  next
    case None
    with assms r obtain now current where n: "clock = Some now" "isConversationTimestamp now"
      "map_of (as_proposals s) (ti_proposalId input) = Some current"
      "safe_int (ti_expectedVersion input) = Some (ap_proposal_version current)" "\<not> date_less now (ap_updated_at current)"
      "ti_status input \<noteq> Expired" "isLegalConversationApprovalProposalTransition (ap_status current) (ti_status input)"
      "attribution_valid (ti_attribution input)"
      "store_proposal (transitioned input now current) (ti_idempotencyKey input) IdTransition (ti_idempotencyFingerprint input)
        (transitionRequestSignature R input) s = Inr (result, s')"
      by (auto simp: transition_body_def Let_def bindE_Inr_iff checked_now_def checkedAttribution_Inr transitioned_def
          split: if_splits option.splits)
    with store_proposal_Inr(1) [OF n(9)] idempotentResult_None [OF r [unfolded None]] show ?thesis by (intro move) simp_all
  qed
qed

section \<open>Reachable stores\<close>

text \<open>
  The bodies run one after another, in any order, for requests that passed their validation
  and authorisation when they were made; reads leave the store as it is.
\<close>

inductive approval_step :: "(rat \<Rightarrow> js_string) \<Rightarrow> 'p permission_check \<Rightarrow> InMemoryApprovalProposalStore \<Rightarrow>
    InMemoryApprovalProposalStore \<Rightarrow> bool"
  for R check where
  create: "create_request R check (as_limits s) input = Inr () \<Longrightarrow>
    create_body R clock input s = Inr (result, s') \<Longrightarrow> approval_step R check s s'"
| transition: "transition_request check (as_limits s) input = Inr () \<Longrightarrow>
    transition_body R clock input s = Inr (result, s') \<Longrightarrow> approval_step R check s s'"

definition approval_reach :: "(rat \<Rightarrow> js_string) \<Rightarrow> 'p permission_check \<Rightarrow> InMemoryApprovalProposalStore \<Rightarrow> bool" where
  "approval_reach R check s \<longleftrightarrow> (\<exists>limits s0. createApprovalStore limits = Some s0 \<and> (approval_step R check)\<^sup>*\<^sup>* s0 s)"

lemma create_request_valid: "create_request R check limits input = Inr () \<Longrightarrow> attribution_valid (ci_attribution input)"
  by (auto simp: create_request_def validateCreateInput_def bindE_Inr_iff checkedAttribution_Inr)

lemma check_that_Inr [simp]: "check_that b e = Inr u \<longleftrightarrow> b"
  by (simp add: check_that_def)

lemma transition_request_valid:
  assumes "transition_request check limits input = Inr ()"
  shows "(ti_status input = Failed \<longleftrightarrow> ti_failureReason input \<noteq> None) \<and> (ti_decisionReason input \<noteq> None \<longrightarrow> isDecision (ti_status input))"
proof -
  from assms obtain v where "validateTransitionInput input limits = Inr v"
    by (auto simp: transition_request_def bindE_Inr_iff)
  then have "if ti_status input = Failed
      then (case ti_failureReason input of None \<Rightarrow> False | Some r \<Rightarrow> isConversationApprovalReason (JStr r))
      else ti_failureReason input = None"
    "case ti_decisionReason input of None \<Rightarrow> True | Some r \<Rightarrow> isDecision (ti_status input) \<and> isConversationApprovalReason (JStr r)"
    unfolding validateTransitionInput_def Let_def bindE_Inr_iff check_that_Inr by blast+
  then show ?thesis by (auto split: if_splits option.splits)
qed

lemma new_proposal_ok:
  assumes "attribution_valid (ci_attribution input)" "isConversationTimestamp now"
    "actor_type (aa_actor (ci_attribution input)) = ActorSystem"
  shows "stored_proposal_ok (new_proposal input now)"
  using assms by (simp add: stored_proposal_ok_def new_proposal_def proposal_ok_def attributions_valid_def date_less_def
      Let_def attribution_valid_def split: option.splits)

lemma new_proposal_simps [simp]:
  "ap_proposal_id (new_proposal input now) = ci_proposalId input"
  "ap_status (new_proposal input now) = Pending" "ap_proposal_version (new_proposal input now) = 1"
  "ap_updated_at (new_proposal input now) = now"
  by (simp_all add: new_proposal_def Let_def)

lemma transitioned_simps [simp]:
  "ap_proposal_id (transitioned input now p) = ap_proposal_id p"
  "ap_status (transitioned input now p) = ti_status input"
  "ap_proposal_version (transitioned input now p) = ap_proposal_version p + 1"
  "ap_updated_at (transitioned input now p) = now"
  by (simp_all add: transitioned_def transitionProposal_def)

lemma transitioned_ok:
  assumes p: "stored_proposal_ok p" and now: "isConversationTimestamp now" "\<not> date_less now (ap_updated_at p)"
    and legal: "isLegalConversationApprovalProposalTransition (ap_status p) (ti_status input)" "ti_status input \<noteq> Expired"
    and a: "attribution_valid (ti_attribution input)" and req: "transition_request check limits input = Inr ()"
  shows "stored_proposal_ok (transitioned input now p)"
proof -
  have "proposal_ok (transitioned input now p)"
    using p legal transition_request_valid [OF req]
    by (cases "ti_status input") (auto simp: stored_proposal_ok_def proposal_ok_def transitioned_def transitionProposal_def
        legal_transition_cases isDecision_def)
  moreover have "\<not> date_less now (ap_created_at p)"
    by (rule date_less_trans [of "ap_updated_at p"]) (use p now in \<open>auto simp: stored_proposal_ok_def\<close>)
  ultimately show ?thesis
    using p now legal a by (auto simp: stored_proposal_ok_def attributions_valid_def transitioned_def transitionProposal_def)
qed

lemma stored_at: "approval_store_ok s \<Longrightarrow> map_of (as_proposals s) k = Some p \<Longrightarrow> ap_proposal_id p = k \<and> stored_proposal_ok p"
  by (auto simp: approval_store_ok_def dest!: map_of_SomeD)

lemma create_body_ok:
  assumes ok: "approval_store_ok s" and req: "create_request R check (as_limits s) input = Inr ()"
    and body: "create_body R clock input s = Inr (result, s')"
  shows "approval_store_ok s'"
  using body
proof (cases rule: create_body_cases)
  case (new now)
  have "stored_proposal_ok (new_proposal input now)"
    by (rule new_proposal_ok [OF create_request_valid [OF req] new(2,5)])
  then show ?thesis using new(4) by (intro store_proposal_ok [OF ok _ _ new(7)]) simp_all
qed (use ok in simp)

lemma transition_body_ok:
  assumes ok: "approval_store_ok s" and req: "transition_request check (as_limits s) input = Inr ()"
    and body: "transition_body R clock input s = Inr (result, s')"
  shows "approval_store_ok s'"
  using body
proof (cases rule: transition_body_cases)
  case (move now current)
  note cur = stored_at [OF ok move(3)]
  have "stored_proposal_ok result"
    unfolding move(9) by (rule transitioned_ok [OF conjunct2 [OF cur] move(2,5,7,6,8) req])
  moreover have "ap_proposal_id result \<in> fst ` set (as_proposals s)"
    using cur move(3,9) by (auto dest!: map_of_SomeD intro: rev_image_eqI)
  ultimately show ?thesis by (intro store_proposal_ok [OF ok _ _ move(10)]) simp_all
qed (use ok in simp)

lemma filed_elsewhere:
  assumes ok: "approval_store_ok s" and filed: "store_proposal p key op' fp sig s = Inr (result, s')"
    and "map_of (as_idempotency s) key = None" "map_of (as_idempotency s) k = Some r"
  shows "map_of (as_idempotency s') k = Some r \<or> map_of (as_idempotency s') k = None"
proof -
  have d: "distinct (map fst (as_idempotency s))" using ok by (simp add: approval_store_ok_def)
  have "k \<noteq> key" using assms(3,4) by auto
  from retain_keeps [OF d this assms(4)] show ?thesis
    unfolding store_proposal_Inr(3) [OF filed] retainIdempotency_def by simp
qed

text \<open>The store of proposals honours the contract of idempotency records.\<close>

interpretation approval_records: request_records approval_store_ok "\<lambda>s. map_of (as_idempotency s)" "approval_step R check"
proof
  fix s s' k r
  assume ok: "approval_store_ok s" and step: "approval_step R check s s'"
  from step show "approval_store_ok s'"
  proof cases
    case (create input clock result)
    then show ?thesis by (rule create_body_ok [OF ok])
  next
    case (transition input clock result)
    then show ?thesis by (rule transition_body_ok [OF ok])
  qed
  assume r: "map_of (as_idempotency s) k = Some r"
  from step show "map_of (as_idempotency s') k = Some r \<or> map_of (as_idempotency s') k = None"
  proof cases
    case (create input clock result)
    from create(2) show ?thesis
    proof (cases rule: create_body_cases)
      case (new now)
      show ?thesis by (rule filed_elsewhere [OF ok new(7,8) r])
    qed (use r in simp)
  next
    case (transition input clock result)
    from transition(2) show ?thesis
    proof (cases rule: transition_body_cases)
      case (move now current)
      show ?thesis by (rule filed_elsewhere [OF ok move(10,11) r])
    qed (use r in simp)
  qed
qed

text \<open>
  C20: every store of proposals that requests can reach keeps its limits (at most the
  configured number of proposals and of idempotency records, each identity once), and every
  proposal in it is well-formed: created by the system, without a deadline, never expired,
  its version counting legal transitions and its last update not before its creation.
\<close>

theorem approval_store_reachable_ok:
  assumes "approval_reach R check s"
  shows "approval_store_ok s"
  using assms approval_records.steps_inv created_store_ok unfolding approval_reach_def by blast

section \<open>Retries and competing transitions\<close>

lemma store_proposal_effect:
  assumes "store_proposal p key op' fp sig s = Inr (result, s')"
  shows "map_of (as_proposals s') = (map_of (as_proposals s))(ap_proposal_id p \<mapsto> p)"
    "map_of (as_idempotency s') key =
      Some \<lparr>ir_operation = op', ir_fingerprint = fp, ir_requestSignature = sig, ir_result = p\<rparr>"
    "as_limits s' = as_limits s"
  by (simp_all add: store_proposal_Inr(3) [OF assms] retainIdempotency_def update_conv')

text \<open>
  C21: an accepted transition moves exactly the named proposal, from the version the caller
  expected along one legal edge to the next version; its reviewed content is unchanged and no
  other proposal is touched. A repeated request changes nothing.
\<close>

theorem transition_effect:
  assumes "approval_store_ok s" "transition_body R clock input s = Inr (result, s')"
  shows "s' = s \<and> (\<exists>rec. map_of (as_idempotency s) (ti_idempotencyKey input) = Some rec \<and> result = ir_result rec) \<or>
    (\<exists>current. map_of (as_proposals s) (ti_proposalId input) = Some current \<and>
       safe_int (ti_expectedVersion input) = Some (ap_proposal_version current) \<and>
       ap_status result = ti_status input \<and> ap_proposal_version result = ap_proposal_version current + 1 \<and>
       proposal_step current result \<and>
       map_of (as_proposals s') = (map_of (as_proposals s))(ti_proposalId input \<mapsto> result))"
  using assms(2)
proof (cases rule: transition_body_cases)
  case (move now current)
  have id: "ap_proposal_id current = ti_proposalId input" using stored_at [OF assms(1) move(3)] by simp
  have "proposal_step current result"
    using move(7) by (simp add: move(9) proposal_step_def transitioned_def transitionProposal_def)
  with move id store_proposal_effect(1) [OF move(10)] show ?thesis by simp
qed blast

text \<open>
  Repeating a transition that succeeded returns the same record and leaves the store as
  it is, whatever other requests were served meanwhile and whatever the clock says, for as
  long as its idempotency record is retained.
\<close>

theorem approval_retry_idempotent:
  assumes ok: "approval_store_ok s" and req: "transition_request check (as_limits s) input = Inr ()"
    and body: "transition_body R clock input s = Inr (result, s')" and fresh: "map_of (as_idempotency s) (ti_idempotencyKey input) = None"
    and run: "(\<lambda>a b. approval_step R check a b \<and> map_of (as_idempotency b) (ti_idempotencyKey input) \<noteq> None)\<^sup>*\<^sup>* s' later"
  shows "transition_body R clock2 input later = Inr (result, later)"
  using body
proof (cases rule: transition_body_cases)
  case (move now current)
  have "map_of (as_idempotency later) (ti_idempotencyKey input) = map_of (as_idempotency s') (ti_idempotencyKey input)"
    using approval_records.record_stable [OF run transition_body_ok [OF ok req body]] store_proposal_effect(2) [OF move(10)]
    by simp
  then have "idempotentResult later IdTransition (ti_idempotencyKey input) (ti_idempotencyFingerprint input)
      (transitionRequestSignature R input) = Inr (Some result)"
    using store_proposal_effect(2) [OF move(10)] by (simp add: idempotentResult_def)
  with cloneProposal_valid [OF store_proposal_Inr(2) [OF move(10)]] show ?thesis
    by (simp add: transition_body_def)
qed (use fresh in simp)

text \<open>
  Of two transitions that expect the same version of a proposal, the one that comes
  second is refused with a version conflict, which is marked as retryable.
\<close>

theorem transition_conflict:
  assumes ok: "approval_store_ok s" and first: "transition_body R clock input s = Inr (result, s')"
    and new: "map_of (as_idempotency s) (ti_idempotencyKey input) = None"
    and same: "ti_proposalId input2 = ti_proposalId input" "safe_int (ti_expectedVersion input2) = safe_int (ti_expectedVersion input)"
    and fresh: "map_of (as_idempotency s') (ti_idempotencyKey input2) = None"
  shows "transition_body R clock2 input2 s' = Inl \<lparr>ase_code = version_conflict, ase_operation = OpTransition, ase_retryable = True\<rparr>"
  using first
proof (cases rule: transition_body_cases)
  case (move now current)
  have id: "ap_proposal_id current = ti_proposalId input" using stored_at [OF ok move(3)] by simp
  have "map_of (as_proposals s') (ti_proposalId input2) = Some result"
    using store_proposal_effect(1) [OF move(10)] id same(1) by (simp add: move(9))
  moreover have "safe_int (ti_expectedVersion input2) \<noteq> Some (ap_proposal_version result)"
    using same(2) move(4) by (simp add: move(9))
  ultimately show ?thesis
    using fresh by (simp add: transition_body_def idempotentResult_def storeError_def)
qed (use new in simp)

section \<open>The store and the projection\<close>

text \<open>The change that the event of an accepted transition announces.\<close>

fun change_of :: "'p TransitionApprovalProposalInput \<Rightarrow> ApprovalProposalChange" where
  "change_of input = (case ti_status input of
     Confirmed \<Rightarrow> ChangeConfirmed (ti_decisionReason input)
   | Rejected \<Rightarrow> ChangeRejected (ti_decisionReason input)
   | Expired \<Rightarrow> ChangeExpired (ti_decisionReason input)
   | Executing \<Rightarrow> ChangeExecuting
   | Executed \<Rightarrow> ChangeExecuted
   | _ \<Rightarrow> ChangeFailed (the (ti_failureReason input)))"

lemma update_replaces:
  assumes "map_of kvs k = Some x" "distinct (map fst kvs)" "\<forall>(j, v) \<in> set kvs. f v = j"
  shows "\<exists>i. findIndex (\<lambda>v. f v = k) (map snd kvs) = Some i \<and> map snd kvs ! i = x \<and>
    map snd (AList.update k y kvs) = (map snd kvs)[i := y]"
  using assms
proof (induction kvs)
  case (Cons kv kvs)
  obtain j v where kv: "kv = (j, v)" by fastforce
  have fv: "f v = j" using Cons.prems(3) by (simp add: kv)
  show ?case
  proof (cases "j = k")
    case False
    with Cons kv obtain i where i: "findIndex (\<lambda>v. f v = k) (map snd kvs) = Some i" "map snd kvs ! i = x"
      "map snd (AList.update k y kvs) = (map snd kvs)[i := y]" by auto
    with False fv show ?thesis by (intro exI [of _ "Suc i"]) (simp add: kv)
  qed (use Cons.prems(1) fv kv in simp)
qed simp

lemma change_of_status: "ti_status input \<noteq> Pending \<Longrightarrow> change_status (change_of input) = ti_status input"
  by (cases "ti_status input") (simp_all add: change_status_def)

lemma changed_is_transitioned:
  assumes p: "stored_proposal_ok p" and req: "transition_request check limits input = Inr ()"
    and legal: "isLegalConversationApprovalProposalTransition (ap_status p) (ti_status input)"
  shows "changed_proposal e (ti_attribution input) (ap_proposal_version p + 1) (change_of input) p =
    transitioned input (ev_occurred_at e) p"
proof -
  have st: "change_status (change_of input) = ti_status input"
    by (rule change_of_status) (use legal in \<open>auto simp: legal_transition_cases\<close>)
  have "ap_decision_reason p = None" if "isDecision (ti_status input)"
    using p legal that by (auto simp: stored_proposal_ok_def proposal_ok_def legal_transition_cases isDecision_def)
  then have d: "changed_decision_reason (change_of input) (ap_decision_reason p) =
      (if isDecision (ti_status input) then ti_decisionReason input else ap_decision_reason p)"
    using legal by (cases "ti_status input")
      (auto simp: changed_decision_reason_def isDecision_def legal_transition_cases split: option.split)
  have f: "changed_failure_reason (change_of input) (ap_failure_reason p) = (if ti_status input = Failed then ti_failureReason input
      else if ti_status input = Executing then None else ap_failure_reason p)"
    using legal transition_request_valid [OF req] by (cases "ti_status input")
      (auto simp: changed_failure_reason_def legal_transition_cases)
  show ?thesis
    unfolding changed_proposal_def transitioned_def transitionProposal_def Let_def st d f ..
qed

text \<open>
  C22: the store and the event projection agree. When a new transition is accepted at a time,
  the reducer applied to the matching \<open>approval.proposal_status_changed\<close> event of that time (same
  proposal, next version, same attribution and reasons) turns a projection that shows the
  proposals of the store into one that shows the proposals of the new store, in the same order.
\<close>

theorem transition_refines_projection:
  assumes ok: "approval_store_ok s" and req: "transition_request check (as_limits s) input = Inr ()"
    and body: "transition_body R (Some (ev_occurred_at e)) input s = Inr (result, s')"
    and new: "map_of (as_idempotency s) (ti_idempotencyKey input) = None"
    and shown: "st_approval_proposals st = map snd (as_proposals s)"
  shows "st_approval_proposals (on_proposal_status_changed st e (ti_attribution input) (ti_proposalId input)
    (ap_proposal_version result) (change_of input)) = map snd (as_proposals s')"
  using body
proof (cases rule: transition_body_cases)
  case (move now current)
  note cur = stored_at [OF ok move(3)]
  note changed = changed_is_transitioned [OF conjunct2 [OF cur] req move(7), of e]
  have status: "change_status (change_of input) = ti_status input"
    by (rule change_of_status) (use move(7) in \<open>auto simp: legal_transition_cases\<close>)
  have "\<forall>(k, p) \<in> set (as_proposals s). ap_proposal_id p = k" "distinct (map fst (as_proposals s))"
    using ok by (auto simp: approval_store_ok_def)
  from update_replaces [OF move(3) this(2,1), of result] obtain i where
    i: "findProposal st (ti_proposalId input) = Some i" "st_approval_proposals st ! i = current"
      "map snd (AList.update (ti_proposalId input) result (as_proposals s)) = (st_approval_proposals st)[i := result]"
    by (auto simp: findProposal_def shown)
  have "as_proposals s' = AList.update (ti_proposalId input) result (as_proposals s)"
    using store_proposal_Inr(3) [OF move(10)] cur by (simp add: retainIdempotency_def move(9))
  moreover have "on_proposal_status_changed st e (ti_attribution input) (ti_proposalId input) (ap_proposal_version result)
      (change_of input) = updateApprovalProposal st i result"
    using move(1,6,7) changed
    by (simp del: change_of.simps add: on_proposal_status_changed_def i(1,2) status move(9))
  ultimately show ?thesis using i(3) by (simp add: updateApprovalProposal_def)
qed (use new in simp)

text \<open>
  A new proposal appears in the store and in the projection alike: if the projection
  knows the tool call it is for, the reducer appends to it the record the store filed.
\<close>

theorem create_refines_projection:
  assumes body: "create_body R (Some (ev_occurred_at e)) input s = Inr (result, s')"
    and new: "map_of (as_idempotency s) (ci_idempotencyKey input) = None"
    and ok: "approval_store_ok s" and shown: "st_approval_proposals st = map snd (as_proposals s)"
    and call: "findToolCall st (ci_toolCallId input) = Some i" "tc_turn_id (st_tool_calls st ! i) = ci_turnId input"
      "tc_name (st_tool_calls st ! i) = Some (ci_toolName input)" "\<not> isTerminalTurn st (ci_turnId input)"
  shows "st_approval_proposals (on_proposal_created st e (ci_attribution input)
     \<lparr>pc_proposal_id = ci_proposalId input, pc_group_id = ci_groupId input, pc_turn_id = ci_turnId input,
      pc_tool_call_id = ci_toolCallId input, pc_tool_name = ci_toolName input, pc_expires_at = None,
      pc_reviewed_arguments = ci_reviewedArguments input\<rparr>) = map snd (as_proposals s')"
  using body
proof (cases rule: create_body_cases)
  case (new now)
  have unused: "\<not> list_ex (\<lambda>p. ap_proposal_id p = ci_proposalId input) (st_approval_proposals st)"
  proof
    assume "list_ex (\<lambda>p. ap_proposal_id p = ci_proposalId input) (st_approval_proposals st)"
    then obtain k p where kp: "(k, p) \<in> set (as_proposals s)" "ap_proposal_id p = ci_proposalId input"
      by (auto simp: shown list_ex_iff)
    have "ap_proposal_id p = k" using ok kp(1) by (auto simp: approval_store_ok_def)
    with kp new(3) show False by (force simp: map_of_eq_None_iff)
  qed
  have "as_proposals s' = AList.update (ci_proposalId input) result (as_proposals s)"
    using store_proposal_Inr(3) [OF new(7)] by (simp add: retainIdempotency_def new(6))
  with update_appends [OF new(3)] have "map snd (as_proposals s') = st_approval_proposals st @ [result]" by (simp add: shown)
  moreover have recorded: "created_proposal e (ci_attribution input) \<lparr>pc_proposal_id = ci_proposalId input,
      pc_group_id = ci_groupId input, pc_turn_id = ci_turnId input, pc_tool_call_id = ci_toolCallId input,
      pc_tool_name = ci_toolName input, pc_expires_at = None, pc_reviewed_arguments = ci_reviewedArguments input\<rparr> = result"
    using new(1) by (simp add: created_proposal_def new_proposal_def new(6) Let_def)
  ultimately show ?thesis
    using unused call recorded by (simp add: on_proposal_created_def Let_def)
qed (use new in simp)

section \<open>A worked session\<close>

text \<open>The system proposes a call; the user confirms it.\<close>

definition sample_creation :: "unit CreateApprovalProposalInput" where
  "sample_creation = \<lparr>ci_permissionContext = (), ci_proposalId = js ''p'', ci_groupId = None, ci_turnId = js ''t'',
     ci_toolCallId = js ''c'', ci_toolName = js ''n'', ci_reviewedArguments = OpaqueReference (js ''a''), ci_expiresAt = None,
     ci_attribution = \<lparr>aa_actor = \<lparr>actor_type = ActorSystem, actor_id = None\<rparr>, aa_source = RuntimeSource\<rparr>,
     ci_idempotencyKey = js ''k1'', ci_idempotencyFingerprint = js ''f''\<rparr>"

definition sample_confirmation :: "js_string \<Rightarrow> unit TransitionApprovalProposalInput" where
  "sample_confirmation key = \<lparr>ti_permissionContext = (), ti_proposalId = js ''p'', ti_expectedVersion = Finite 1,
     ti_status = Confirmed,
     ti_attribution = \<lparr>aa_actor = \<lparr>actor_type = ActorUser, actor_id = None\<rparr>, aa_source = RuntimeSource\<rparr>,
     ti_decisionReason = None, ti_failureReason = None, ti_idempotencyKey = key, ti_idempotencyFingerprint = js ''f''\<rparr>"

definition sample_time :: js_string where
  "sample_time = js ''1970-01-01T00:00:00Z''"

definition blank_store :: InMemoryApprovalProposalStore where
  "blank_store = \<lparr>as_limits = DEFAULT_APPROVAL_PROPOSAL_STORE_LIMITS, as_proposals = [], as_idempotency = []\<rparr>"

definition store_of :: "'e + 'r \<times> 's \<Rightarrow> 's \<Rightarrow> 's" where
  "store_of r d = (case r of Inl _ \<Rightarrow> d | Inr p \<Rightarrow> snd p)"

definition pending_store :: InMemoryApprovalProposalStore where
  "pending_store = store_of (create_body (\<lambda>_. []) (Some sample_time) sample_creation blank_store) blank_store"

definition confirmed_store :: InMemoryApprovalProposalStore where
  "confirmed_store = store_of (transition_body (\<lambda>_. []) (Some sample_time) (sample_confirmation (js ''k2'')) pending_store) blank_store"

lemma sample_requests:
  "create_request (\<lambda>_. []) (\<lambda>_. Some True) DEFAULT_APPROVAL_PROPOSAL_STORE_LIMITS sample_creation = Inr ()"
  "transition_request (\<lambda>_. Some True) DEFAULT_APPROVAL_PROPOSAL_STORE_LIMITS (sample_confirmation (js ''k2'')) = Inr ()"
  by code_simp+

lemma sample_time_ok [simp]: "isConversationTimestamp sample_time"
  by code_simp

lemma sample_valid [simp]: "attributions_valid (new_proposal sample_creation sample_time)"
  "attributions_valid (transitioned (sample_confirmation key) sample_time (new_proposal sample_creation sample_time))"
  by (simp_all add: attributions_valid_def new_proposal_def transitioned_def transitionProposal_def sample_creation_def
      sample_confirmation_def attribution_valid_def Let_def isDecision_def)

lemma sample_creates:
  "create_body (\<lambda>_. []) (Some sample_time) sample_creation blank_store = Inr (new_proposal sample_creation sample_time, pending_store)"
proof -
  have "okE (create_body (\<lambda>_. []) (Some sample_time) sample_creation blank_store)"
    by (simp add: create_body_def idempotentResult_def blank_store_def DEFAULT_APPROVAL_PROPOSAL_STORE_LIMITS_def checked_now_def
        store_proposal_def cloneProposal_valid) (simp add: sample_creation_def)
  then obtain r s where rs: "create_body (\<lambda>_. []) (Some sample_time) sample_creation blank_store = Inr (r, s)"
    by (auto simp: okE_iff)
  then have "r = new_proposal sample_creation sample_time"
    by (cases rule: create_body_cases) (auto simp: blank_store_def)
  with rs show ?thesis by (simp add: pending_store_def store_of_def)
qed

lemma pending_store_eq:
  "pending_store = \<lparr>as_limits = DEFAULT_APPROVAL_PROPOSAL_STORE_LIMITS,
     as_proposals = [(js ''p'', new_proposal sample_creation sample_time)],
     as_idempotency = [(js ''k1'', \<lparr>ir_operation = IdCreate, ir_fingerprint = js ''f'',
       ir_requestSignature = createRequestSignature (\<lambda>_. []) sample_creation,
       ir_result = new_proposal sample_creation sample_time\<rparr>)]\<rparr>"
  using sample_creates
proof (cases rule: create_body_cases)
  case (new now)
  have "now = sample_time" using new(1) by simp
  with store_proposal_Inr(3) [OF new(7)] show ?thesis
    by (simp add: blank_store_def retainIdempotency_def retain_def) (simp add: sample_creation_def)
next
  case (retry rec)
  moreover have "as_idempotency blank_store = []" by (simp add: blank_store_def)
  ultimately show ?thesis by simp
qed

lemma pending_reachable: "approval_reach (\<lambda>_. []) (\<lambda>_ :: unit ApprovalProposalPermissionRequest. Some True) pending_store"
proof -
  have "createApprovalStore DEFAULT_APPROVAL_PROPOSAL_STORE_LIMITS = Some blank_store"
    by (simp add: createApprovalStore_def resolveLimits_def limit_value_ok_def blank_store_def
        DEFAULT_APPROVAL_PROPOSAL_STORE_LIMITS_def MAX_SAFE_INTEGER_def textLength_def)
  moreover have "approval_step (\<lambda>_. []) (\<lambda>_ :: unit ApprovalProposalPermissionRequest. Some True) blank_store pending_store"
    by (rule approval_step.create [OF _ sample_creates]) (simp add: blank_store_def sample_requests)
  ultimately show ?thesis unfolding approval_reach_def by blast
qed

lemma pending_store_ok: "approval_store_ok pending_store"
  using new_proposal_ok [OF _ sample_time_ok, of sample_creation]
  by (simp add: approval_store_ok_def pending_store_eq DEFAULT_APPROVAL_PROPOSAL_STORE_LIMITS_def)
    (simp add: sample_creation_def attribution_valid_def)

lemma sample_confirms:
  assumes "key \<noteq> js ''k1''"
  shows "transition_body (\<lambda>_. []) (Some sample_time) (sample_confirmation key) pending_store =
    store_proposal (transitioned (sample_confirmation key) sample_time (new_proposal sample_creation sample_time))
      key IdTransition (js ''f'') (transitionRequestSignature (\<lambda>_. []) (sample_confirmation key)) pending_store"
proof -
  have "safe_int (Finite 1) = Some 1" by code_simp
  moreover have "\<not> date_less sample_time sample_time" by (simp add: date_less_def split: option.split)
  moreover have "attribution_valid (ti_attribution (sample_confirmation key))"
    by (simp add: sample_confirmation_def attribution_valid_def)
  ultimately show ?thesis
    using assms
    by (simp add: transition_body_def idempotentResult_def pending_store_eq checked_now_def checkedAttribution_def
      transitioned_def sample_confirmation_def legal_transition_cases)
qed

lemma sample_confirmed:
  "transition_body (\<lambda>_. []) (Some sample_time) (sample_confirmation (js ''k2'')) pending_store =
     Inr (transitioned (sample_confirmation (js ''k2'')) sample_time (new_proposal sample_creation sample_time), confirmed_store)"
  using sample_confirms [of "js ''k2''"]
  by (simp add: confirmed_store_def store_of_def store_proposal_def cloneProposal_valid)

lemma sample_keys_unused:
  "map_of (as_idempotency pending_store) (js ''k2'') = None" "map_of (as_idempotency confirmed_store) (js ''k3'') = None"
proof -
  show "map_of (as_idempotency pending_store) (js ''k2'') = None" by (simp add: pending_store_eq)
  note filed = store_proposal_Inr(3) [OF trans [OF sample_confirms [symmetric] sample_confirmed]]
  show "map_of (as_idempotency confirmed_store) (js ''k3'') = None"
    by (subst filed) (simp_all add: pending_store_eq retainIdempotency_def retain_def DEFAULT_APPROVAL_PROPOSAL_STORE_LIMITS_def)
qed

theorem approval_store_reachable_ok_witness: "approval_store_ok pending_store"
  by (rule approval_store_reachable_ok [OF pending_reachable])

theorem transition_effect_witness:
  "\<exists>current. map_of (as_proposals pending_store) (js ''p'') = Some current \<and>
     proposal_step current (transitioned (sample_confirmation (js ''k2'')) sample_time (new_proposal sample_creation sample_time))"
  using transition_effect [OF pending_store_ok sample_confirmed] sample_keys_unused(1)
  by (auto simp: sample_confirmation_def)

theorem approval_retry_idempotent_witness:
  "transition_body (\<lambda>_. []) None (sample_confirmation (js ''k2'')) confirmed_store =
     Inr (transitioned (sample_confirmation (js ''k2'')) sample_time (new_proposal sample_creation sample_time), confirmed_store)"
proof (rule approval_retry_idempotent [OF pending_store_ok _ sample_confirmed])
  show "transition_request (\<lambda>_. Some True) (as_limits pending_store) (sample_confirmation (js ''k2'')) = Inr ()"
    by (simp add: pending_store_eq sample_requests)
qed (simp_all add: sample_confirmation_def sample_keys_unused)

theorem transition_conflict_witness:
  "transition_body (\<lambda>_. []) (Some sample_time) (sample_confirmation (js ''k3'')) confirmed_store =
     Inl \<lparr>ase_code = version_conflict, ase_operation = OpTransition, ase_retryable = True\<rparr>"
  by (rule transition_conflict [OF pending_store_ok sample_confirmed])
    (simp_all add: sample_confirmation_def sample_keys_unused)

text \<open>A conversation with the tool call, and the same conversation once it shows the proposal.\<close>

definition calling_state :: ConversationState where
  "calling_state = (createInitialConversationState (Some (js ''x'')))
     \<lparr>st_tool_calls := [\<lparr>tc_tool_call_id = js ''c'', tc_turn_id = js ''t'', tc_name = Some (js ''n''), tc_arguments = None,
       tc_requested_at = None, tc_discovered_at = None, tc_started_at = None, tc_approval_required_at = None,
       tc_attribution = None, tc_result = None\<rparr>]\<rparr>"

definition proposed_state :: ConversationState where
  "proposed_state = calling_state\<lparr>st_approval_proposals := [new_proposal sample_creation sample_time]\<rparr>"

definition sample_moment :: ConversationEvent where
  "sample_moment = runtime_event (js ''e'') (js ''x'') 1 ConversationCleared"

lemma sample_moment_time: "ev_occurred_at sample_moment = sample_time"
  by (simp add: sample_moment_def runtime_event_def sample_time_def)

theorem transition_refines_projection_witness:
  "st_approval_proposals (on_proposal_status_changed proposed_state sample_moment
     (ti_attribution (sample_confirmation (js ''k2''))) (js ''p'') 2 (ChangeConfirmed None)) =
   map snd (as_proposals confirmed_store)"
  using transition_refines_projection [of pending_store "\<lambda>_. Some True" "sample_confirmation (js ''k2'')" "\<lambda>_. []" sample_moment,
      unfolded sample_moment_time, OF pending_store_ok _ sample_confirmed, of proposed_state]
  by (simp add: pending_store_eq sample_requests) (simp add: proposed_state_def sample_confirmation_def)

theorem create_refines_projection_witness:
  "st_approval_proposals (on_proposal_created calling_state sample_moment
     \<lparr>aa_actor = \<lparr>actor_type = ActorSystem, actor_id = None\<rparr>, aa_source = RuntimeSource\<rparr>
     \<lparr>pc_proposal_id = js ''p'', pc_group_id = None, pc_turn_id = js ''t'', pc_tool_call_id = js ''c'', pc_tool_name = js ''n'',
      pc_expires_at = None, pc_reviewed_arguments = OpaqueReference (js ''a'')\<rparr>) = map snd (as_proposals pending_store)"
proof -
  have "approval_store_ok blank_store"
    by (simp add: approval_store_ok_def blank_store_def DEFAULT_APPROVAL_PROPOSAL_STORE_LIMITS_def)
  moreover have "map_of (as_idempotency blank_store) (ci_idempotencyKey sample_creation) = None"
    "st_approval_proposals calling_state = map snd (as_proposals blank_store)"
    by (simp_all add: blank_store_def calling_state_def createInitialConversationState_def)
  moreover have "findToolCall calling_state (ci_toolCallId sample_creation) = Some 0"
    "tc_turn_id (st_tool_calls calling_state ! 0) = ci_turnId sample_creation"
    "tc_name (st_tool_calls calling_state ! 0) = Some (ci_toolName sample_creation)"
    "\<not> isTerminalTurn calling_state (ci_turnId sample_creation)"
    by (simp_all add: sample_creation_def calling_state_def createInitialConversationState_def findToolCall_def
        isTerminalTurn_def findTurn_def)
  ultimately have "st_approval_proposals (on_proposal_created calling_state sample_moment (ci_attribution sample_creation)
     \<lparr>pc_proposal_id = ci_proposalId sample_creation, pc_group_id = ci_groupId sample_creation,
      pc_turn_id = ci_turnId sample_creation, pc_tool_call_id = ci_toolCallId sample_creation,
      pc_tool_name = ci_toolName sample_creation, pc_expires_at = None,
      pc_reviewed_arguments = ci_reviewedArguments sample_creation\<rparr>) = map snd (as_proposals pending_store)"
    using create_refines_projection [of "\<lambda>_. []" sample_moment, unfolded sample_moment_time, OF sample_creates] by blast
  then show ?thesis by (simp only: sample_creation_def CreateApprovalProposalInput.simps)
qed

end
