(* ===== verification/Catalog.thy ===== *)
theory Catalog
  imports EventStore Retention Sorting
begin

text \<open>
  \<^verbatim>\<open>src/conversation/catalog.ts\<close>: the descriptors of a conversation catalog, the validation of
  its requests, the cursors that name a place in a sorted list and the paging helper that
  adapters use. Every check that fails throws the same error for its operation.

  A request arrives as an unknown value: either no object at all, or an object whose
  \<^verbatim>\<open>authorizationContext\<close> is a value of the host (it may be absent) and whose other
  properties are JSON values.
\<close>

section \<open>Errors and requests\<close>

datatype (plugins only: code size) ConversationCatalogAuthorizationAction =
    ActList | ActCreate | ActGet | ActRename | ActClear | ActArchive | ActRestore | ActPermanentDelete

datatype (plugins only: code size) ConversationCatalogErrorCode =
    CatInvalidInput | CatNotFound | CatVersionConflict | CatIdempotencyConflict | CatForbidden
  | CatUnsupported | CatUnavailable

record ConversationCatalogError =
  ce_code :: ConversationCatalogErrorCode
  ce_operation :: ConversationCatalogAuthorizationAction
  ce_retryable :: bool

definition catalogError :: "ConversationCatalogErrorCode \<Rightarrow> ConversationCatalogAuthorizationAction \<Rightarrow> ConversationCatalogError" where
  "catalogError code operation =
     \<lparr>ce_code = code, ce_operation = operation, ce_retryable = (code = CatUnavailable)\<rparr>"

type_synonym 'a catalog_result = "ConversationCatalogError + 'a"

definition invalid :: "ConversationCatalogAuthorizationAction \<Rightarrow> 'a catalog_result" where
  "invalid operation = Inl (catalogError CatInvalidInput operation)"

definition require :: "bool \<Rightarrow> ConversationCatalogAuthorizationAction \<Rightarrow> unit catalog_result" where
  "require b operation = (if b then Inr () else invalid operation)"

datatype (plugins only: code size) 'p raw_request = NotAnObject | AnObject "'p option" js_object

definition catalog_record :: "json option \<Rightarrow> ConversationCatalogAuthorizationAction \<Rightarrow> js_object catalog_result" where
  "catalog_record value operation = (case value of Some (JObj fs) \<Rightarrow> Inr fs | _ \<Rightarrow> invalid operation)"

definition exactKeys :: "js_string list \<Rightarrow> string list \<Rightarrow> string list \<Rightarrow> ConversationCatalogAuthorizationAction \<Rightarrow>
    unit catalog_result" where
  "exactKeys keys allowed required operation =
     bindE (require (list_all (\<lambda>k. k \<in> set (map js allowed)) keys) operation) (\<lambda>_.
     require (list_all (\<lambda>k. js k \<in> set keys) required) operation)"

text \<open>\<^verbatim>\<open>record\<close> and \<^verbatim>\<open>exactKeys\<close> on a whole request; every request needs its authorisation context.\<close>

definition request_fields :: "'p raw_request \<Rightarrow> string list \<Rightarrow> string list \<Rightarrow> ConversationCatalogAuthorizationAction \<Rightarrow>
    ('p \<times> js_object) catalog_result" where
  "request_fields value allowed required operation = (case value of
     NotAnObject \<Rightarrow> invalid operation
   | AnObject ctx fs \<Rightarrow> (case ctx of
       None \<Rightarrow> invalid operation
     | Some c \<Rightarrow> bindE (exactKeys (js ''authorizationContext'' # keys_of fs) (''authorizationContext'' # allowed)
         (''authorizationContext'' # required) operation) (\<lambda>_. Inr (c, fs))))"

section \<open>Scalars\<close>

definition alnum :: "code_unit \<Rightarrow> bool" where
  "alnum c \<longleftrightarrow> alnum_i c"

definition IDENTIFIER :: re where
  "IDENTIFIER = head_then_star alnum (\<lambda>c. alnum c \<or> one_of ''._:@/+~-'' c)"

definition IDEMPOTENCY_KEY :: re where
  "IDEMPOTENCY_KEY = head_then_star alnum (\<lambda>c. alnum c \<or> one_of ''._:-'' c)"

definition catalog_identifier_ok :: "js_string \<Rightarrow> bool" where
  "catalog_identifier_ok s \<longleftrightarrow> s \<noteq> [] \<and> length s \<le> 256 \<and> test IDENTIFIER s"

definition catalog_key_ok :: "js_string \<Rightarrow> bool" where
  "catalog_key_ok s \<longleftrightarrow> s \<noteq> [] \<and> length s \<le> 128 \<and> test IDEMPOTENCY_KEY s"

definition string_checked :: "(js_string \<Rightarrow> bool) \<Rightarrow> json option \<Rightarrow> ConversationCatalogAuthorizationAction \<Rightarrow> js_string catalog_result" where
  "string_checked p value operation = (case value of
     Some (JStr s) \<Rightarrow> if p s then Inr s else invalid operation
   | _ \<Rightarrow> invalid operation)"

definition parseIdentifier :: "json option \<Rightarrow> ConversationCatalogAuthorizationAction \<Rightarrow> js_string catalog_result" where
  "parseIdentifier = string_checked catalog_identifier_ok"

definition parseConversationCatalogIdempotencyKey :: "json option \<Rightarrow> ConversationCatalogAuthorizationAction \<Rightarrow> js_string catalog_result" where
  "parseConversationCatalogIdempotencyKey = string_checked catalog_key_ok"

text \<open>
  A canonical timestamp is a string of at most 32 characters that \<^verbatim>\<open>toISOString\<close> returns for
  the time it denotes: four digits of year, or a sign and six digits outside the years 0 to
  9999, and three digits of fraction, within the range of a \<^verbatim>\<open>Date\<close>.
\<close>

definition fits_template :: "string \<Rightarrow> js_string \<Rightarrow> bool" where
  "fits_template t s \<longleftrightarrow> list_all2 (\<lambda>c u. if c = CHR ''0'' then is_digit u else u = of_char c) t s"

definition iso_fields :: "nat \<Rightarrow> js_string \<Rightarrow> time_fields" where
  "iso_fields n s = \<lparr>tf_year = digits_value (take n s), tf_month = digits_value (slice (n + 1) 2 s),
     tf_day = digits_value (slice (n + 4) 2 s), tf_hour = digits_value (slice (n + 7) 2 s),
     tf_minute = digits_value (slice (n + 10) 2 s), tf_second = digits_value (slice (n + 13) 2 s),
     tf_fraction = slice (n + 16) 3 s\<rparr>"

definition iso_in_range :: "int \<Rightarrow> time_fields \<Rightarrow> bool" where
  "iso_in_range year f \<longleftrightarrow>
     (case daysInMonth (tf_year f) (tf_month f) of None \<Rightarrow> False | Some d \<Rightarrow> 1 \<le> tf_day f \<and> tf_day f \<le> d) \<and>
     tf_hour f \<le> 23 \<and> tf_minute f \<le> 59 \<and> tf_second f \<le> 59 \<and>
     \<bar>epoch_ms f + (DayFromYear year - DayFromYear (int (tf_year f))) * 86400000\<bar> \<le> 8640000000000000"

definition isCanonicalTimestamp :: "js_string \<Rightarrow> bool" where
  "isCanonicalTimestamp s \<longleftrightarrow> length s \<le> 32 \<and>
     (fits_template ''0000-00-00T00:00:00.000Z'' s \<and> iso_in_range (int (tf_year (iso_fields 4 s))) (iso_fields 4 s) \<or>
      fits_template ''+000000-00-00T00:00:00.000Z'' s \<and> 9999 < tf_year (iso_fields 6 (tl s)) \<and>
        iso_in_range (int (tf_year (iso_fields 6 (tl s)))) (iso_fields 6 (tl s)) \<or>
      fits_template ''-000000-00-00T00:00:00.000Z'' s \<and> 0 < tf_year (iso_fields 6 (tl s)) \<and>
        iso_in_range (- int (tf_year (iso_fields 6 (tl s)))) (iso_fields 6 (tl s)))"

definition parseTimestamp :: "json option \<Rightarrow> ConversationCatalogAuthorizationAction \<Rightarrow> js_string catalog_result" where
  "parseTimestamp = string_checked isCanonicalTimestamp"

definition parseConversationCatalogVersion :: "json option \<Rightarrow> ConversationCatalogAuthorizationAction \<Rightarrow> int catalog_result" where
  "parseConversationCatalogVersion value operation = (case value of
     Some (JNum n) \<Rightarrow> (case safe_int n of
       Some v \<Rightarrow> if v < 1 then invalid operation else Inr v
     | None \<Rightarrow> invalid operation)
   | _ \<Rightarrow> invalid operation)"

definition containsDisallowedControl :: "js_string \<Rightarrow> bool \<Rightarrow> bool" where
  "containsDisallowedControl value allowTextWhitespace \<longleftrightarrow>
     list_ex (\<lambda>c. c = 127 \<or> c < 32 \<and> (\<not> allowTextWhitespace \<or> c \<noteq> 9 \<and> c \<noteq> 10 \<and> c \<noteq> 13)) value"

definition catalog_title_ok :: "js_string \<Rightarrow> bool" where
  "catalog_title_ok t \<longleftrightarrow> t \<noteq> [] \<and> length t \<le> 256 \<and> \<not> containsDisallowedControl t False"

definition parseConversationCatalogTitle :: "json option \<Rightarrow> ConversationCatalogAuthorizationAction \<Rightarrow> js_string catalog_result" where
  "parseConversationCatalogTitle value operation = (case value of
     Some (JStr s) \<Rightarrow> (let normalized = trim s in if catalog_title_ok normalized then Inr normalized else invalid operation)
   | _ \<Rightarrow> invalid operation)"

section \<open>Metadata\<close>

definition FORBIDDEN_METADATA_FIELDS :: "string list" where
  "FORBIDDEN_METADATA_FIELDS = [''accesstoken'', ''apikey'', ''attachment'', ''attachments'', ''auth'', ''authorization'',
     ''authorizationcontext'', ''base64'', ''binary'', ''blob'', ''buffer'', ''bytes'', ''content'', ''contentref'',
     ''contentreference'', ''cookie'', ''credential'', ''credentials'', ''data'', ''file'', ''fileid'', ''filename'',
     ''headers'', ''href'', ''message'', ''messages'', ''modelid'', ''objectkey'', ''password'', ''payload'',
     ''permissioncontext'', ''prompt'', ''provider'', ''providerconfig'', ''providerid'', ''providernative'', ''proto'',
     ''prototype'', ''constructor'', ''ref'', ''reference'', ''refreshtoken'', ''secret'', ''storagekey'', ''token'',
     ''toolinput'', ''toolinputs'', ''toolresult'', ''toolresults'', ''transcript'', ''uri'', ''url'']"

definition CATALOG_CREDENTIAL_VALUE_PATTERNS :: "re list" where
  "CATALOG_CREDENTIAL_VALUE_PATTERNS =
     [RSeq RWordBU (RSeq (lit_iu ''bearer'') (RSeq (RRep 1 None (RChar white_space))
        (RRep 8 None (RChar (\<lambda>c. alnum_iu c \<or> one_of ''._~+/=-'' c))))),
      RSeq (RAlt RStart (RChar (\<lambda>c. \<not> alnum_iu c))) (RSeq (lit_iu ''sk-'')
        (RSeq (RRep 8 None (RChar (\<lambda>c. alnum_iu c \<or> one_of ''_-'' c))) RWordBU)),
      RSeq (lit_iu ''-----begin '') (RSeq (opt (RAlt (lit_iu ''rsa '') (RAlt (lit_iu ''ec '') (lit_iu ''openssh ''))))
        (lit_iu ''private key-----''))]"

definition CONTENT_REFERENCE_PATTERNS :: "re list" where
  "CONTENT_REFERENCE_PATTERNS =
     [RSeq RStart (RSeq (RAlt (lit_iu ''data'') (lit_iu ''blob'')) (lit_iu '':'')),
      RSeq RStart (RSeq (RAlt (lit_iu ''attachment'') (RAlt (lit_iu ''content'') (RAlt (lit_iu ''file'')
          (RAlt (lit_iu ''object'') (lit_iu ''storage'')))))
        (RSeq (opt (RChar (one_of ''_-''))) (RSeq (RAlt (lit_iu ''ref'') (RAlt (lit_iu ''reference'') (lit_iu ''id'')))
          (lit_iu '':''))))]"

definition safe_metadata_string :: "js_string \<Rightarrow> bool" where
  "safe_metadata_string value \<longleftrightarrow> length value \<le> 256 \<and> \<not> containsDisallowedControl value True \<and>
     \<not> matches_any CATALOG_CREDENTIAL_VALUE_PATTERNS value \<and> \<not> matches_any CONTENT_REFERENCE_PATTERNS value"

definition safe_metadata_key :: "js_string \<Rightarrow> bool" where
  "safe_metadata_key key \<longleftrightarrow> key \<noteq> [] \<and> length key \<le> 64 \<and> normalizeFieldName key \<notin> set (map js FORBIDDEN_METADATA_FIELDS)"

text \<open>\<^verbatim>\<open>visit\<close> with its running count of nodes; the copy it returns is built entry by entry.\<close>

fun visit_metadata :: "ConversationCatalogAuthorizationAction \<Rightarrow> nat \<Rightarrow> nat \<Rightarrow> json \<Rightarrow> (nat \<times> json) catalog_result"
  and metadata_items :: "ConversationCatalogAuthorizationAction \<Rightarrow> nat \<Rightarrow> nat \<Rightarrow> json list \<Rightarrow> (nat \<times> json list) catalog_result"
  and metadata_entries :: "ConversationCatalogAuthorizationAction \<Rightarrow> nat \<Rightarrow> nat \<Rightarrow> js_object \<Rightarrow> js_object \<Rightarrow> (nat \<times> js_object) catalog_result"
where
  "visit_metadata operation depth nodes current =
     (if 64 < Suc nodes \<or> 4 < depth then invalid operation
      else case current of
        JStr s \<Rightarrow> if safe_metadata_string s then Inr (Suc nodes, current) else invalid operation
      | JNum n \<Rightarrow> if isFinite n then Inr (Suc nodes, current) else invalid operation
      | JArr xs \<Rightarrow> if 16 < length xs then invalid operation
          else bindE (metadata_items operation (Suc depth) (Suc nodes) xs) (\<lambda>(n, ys). Inr (n, JArr ys))
      | JObj fs \<Rightarrow> if 16 < length fs then invalid operation
          else bindE (metadata_entries operation (Suc depth) (Suc nodes) [] fs) (\<lambda>(n, gs). Inr (n, JObj gs))
      | _ \<Rightarrow> Inr (Suc nodes, current))"
| "metadata_items operation depth nodes [] = Inr (nodes, [])"
| "metadata_items operation depth nodes (x # xs) =
     bindE (visit_metadata operation depth nodes x) (\<lambda>(n, y).
     bindE (metadata_items operation depth n xs) (\<lambda>(m, ys). Inr (m, y # ys)))"
| "metadata_entries operation depth nodes parsed [] = Inr (nodes, parsed)"
| "metadata_entries operation depth nodes parsed (f # fs) =
     (if \<not> safe_metadata_key (fst f) \<or> fst f \<in> set (keys_of parsed) then invalid operation
      else bindE (visit_metadata operation depth nodes (snd f)) (\<lambda>(n, y).
        metadata_entries operation depth n (parsed @ [(fst f, y)]) fs))"

definition parseConversationCatalogMetadata :: "(rat \<Rightarrow> js_string) \<Rightarrow> json option \<Rightarrow> ConversationCatalogAuthorizationAction \<Rightarrow>
    js_object catalog_result" where
  "parseConversationCatalogMetadata R value operation = (case value of
     None \<Rightarrow> invalid operation
   | Some v \<Rightarrow> bindE (visit_metadata operation 0 0 v) (\<lambda>(n, parsed).
       case parsed of
         JObj fs \<Rightarrow> if 4096 < utf8ByteLength (stringify R parsed) then invalid operation else Inr fs
       | _ \<Rightarrow> invalid operation))"

section \<open>Descriptors\<close>

datatype (plugins only: code size) ConversationCatalogLifecycleState = Active | Archived js_string

record ConversationCatalogDescriptor =
  dc_conversationId :: js_string
  dc_title :: "js_string option"
  dc_createdAt :: js_string
  dc_updatedAt :: js_string
  dc_version :: int
  dc_lifecycle :: ConversationCatalogLifecycleState
  dc_metadata :: js_object

definition DESCRIPTOR_FIELDS :: "string list" where
  "DESCRIPTOR_FIELDS = [''conversationId'', ''title'', ''createdAt'', ''updatedAt'', ''version'', ''lifecycle'',
     ''archivedAt'', ''metadata'']"

definition descriptor_json :: "ConversationCatalogDescriptor \<Rightarrow> json" where
  "descriptor_json d = JObj [(js ''conversationId'', JStr (dc_conversationId d)), (js ''title'', nullable (dc_title d)),
     (js ''createdAt'', JStr (dc_createdAt d)), (js ''updatedAt'', JStr (dc_updatedAt d)),
     (js ''version'', JInt (dc_version d)),
     (js ''lifecycle'', JText (case dc_lifecycle d of Active \<Rightarrow> ''active'' | Archived _ \<Rightarrow> ''archived'')),
     (js ''archivedAt'', (case dc_lifecycle d of Active \<Rightarrow> JNull | Archived t \<Rightarrow> JStr t)),
     (js ''metadata'', JObj (dc_metadata d))]"

definition parse_lifecycle :: "js_object \<Rightarrow> js_string \<Rightarrow> js_string \<Rightarrow> ConversationCatalogLifecycleState catalog_result" where
  "parse_lifecycle source createdAt updatedAt =
     (if fld source ''lifecycle'' = Some (JText ''active'') \<and> fld source ''archivedAt'' = Some JNull then Inr Active
      else if fld source ''lifecycle'' = Some (JText ''archived'')
      then bindE (parseTimestamp (fld source ''archivedAt'') ActGet) (\<lambda>archivedAt.
        if archivedAt < createdAt \<or> updatedAt < archivedAt then invalid ActGet else Inr (Archived archivedAt))
      else invalid ActGet)"

definition parseConversationCatalogDescriptor :: "(rat \<Rightarrow> js_string) \<Rightarrow> json \<Rightarrow> ConversationCatalogDescriptor catalog_result" where
  "parseConversationCatalogDescriptor R value =
     bindE (catalog_record (Some value) ActGet) (\<lambda>source.
     bindE (exactKeys (keys_of source) DESCRIPTOR_FIELDS DESCRIPTOR_FIELDS ActGet) (\<lambda>_.
     bindE (parseIdentifier (fld source ''conversationId'') ActGet) (\<lambda>conversationId.
     bindE (if fld source ''title'' = Some JNull then Inr None
       else bindE (parseConversationCatalogTitle (fld source ''title'') ActGet) (\<lambda>t. Inr (Some t))) (\<lambda>title.
     bindE (parseTimestamp (fld source ''createdAt'') ActGet) (\<lambda>createdAt.
     bindE (parseTimestamp (fld source ''updatedAt'') ActGet) (\<lambda>updatedAt.
     bindE (require (\<not> updatedAt < createdAt) ActGet) (\<lambda>_.
     bindE (parseConversationCatalogVersion (fld source ''version'') ActGet) (\<lambda>version.
     bindE (parseConversationCatalogMetadata R (fld source ''metadata'') ActGet) (\<lambda>metadata.
     bindE (parse_lifecycle source createdAt updatedAt) (\<lambda>lifecycle.
     Inr \<lparr>dc_conversationId = conversationId, dc_title = title, dc_createdAt = createdAt, dc_updatedAt = updatedAt,
          dc_version = version, dc_lifecycle = lifecycle, dc_metadata = metadata\<rparr>))))))))))"

text \<open>\<^verbatim>\<open>cloneDescriptor\<close>: a descriptor is copied by validating it again.\<close>

definition cloneDescriptor :: "(rat \<Rightarrow> js_string) \<Rightarrow> ConversationCatalogDescriptor \<Rightarrow> ConversationCatalogDescriptor catalog_result" where
  "cloneDescriptor R d = parseConversationCatalogDescriptor R (descriptor_json d)"

section \<open>Order and cursors\<close>

datatype (plugins only: code size) ConversationCatalogOrderField = UpdatedAt | CreatedAt
datatype (plugins only: code size) ConversationCatalogOrderDirection = Ascending | Descending

record ConversationCatalogOrder =
  or_field :: ConversationCatalogOrderField
  or_direction :: ConversationCatalogOrderDirection

definition DEFAULT_CONVERSATION_CATALOG_ORDER :: ConversationCatalogOrder where
  "DEFAULT_CONVERSATION_CATALOG_ORDER = \<lparr>or_field = UpdatedAt, or_direction = Descending\<rparr>"

definition order_field_text :: "ConversationCatalogOrderField \<Rightarrow> string" where
  "order_field_text f = (case f of UpdatedAt \<Rightarrow> ''updated_at'' | CreatedAt \<Rightarrow> ''created_at'')"

definition order_direction_text :: "ConversationCatalogOrderDirection \<Rightarrow> string" where
  "order_direction_text d = (case d of Ascending \<Rightarrow> ''asc'' | Descending \<Rightarrow> ''desc'')"

definition order_json :: "ConversationCatalogOrder \<Rightarrow> json" where
  "order_json order = JObj [(js ''field'', JText (order_field_text (or_field order))),
     (js ''direction'', JText (order_direction_text (or_direction order)))]"

definition order_of :: "json option \<Rightarrow> json option \<Rightarrow> ConversationCatalogOrder catalog_result" where
  "order_of field direction =
     bindE (if field = Some (JText ''updated_at'') then Inr UpdatedAt
       else if field = Some (JText ''created_at'') then Inr CreatedAt else invalid ActList) (\<lambda>f.
     bindE (if direction = Some (JText ''asc'') then Inr Ascending
       else if direction = Some (JText ''desc'') then Inr Descending else invalid ActList) (\<lambda>d.
     Inr \<lparr>or_field = f, or_direction = d\<rparr>))"

definition parseConversationCatalogOrder :: "json option \<Rightarrow> ConversationCatalogOrder catalog_result" where
  "parseConversationCatalogOrder value = (case value of
     None \<Rightarrow> Inr DEFAULT_CONVERSATION_CATALOG_ORDER
   | Some v \<Rightarrow> bindE (catalog_record (Some v) ActList) (\<lambda>source.
       bindE (exactKeys (keys_of source) [''field'', ''direction''] [''field'', ''direction''] ActList) (\<lambda>_.
       order_of (fld source ''field'') (fld source ''direction''))))"

definition parseConversationCatalogPageSize :: "json option \<Rightarrow> nat catalog_result" where
  "parseConversationCatalogPageSize value = (case value of
     None \<Rightarrow> Inr 50
   | Some (JNum n) \<Rightarrow> (case safe_int n of
       Some v \<Rightarrow> if v < 1 \<or> 100 < v then invalid ActList else Inr (nat v)
     | None \<Rightarrow> invalid ActList)
   | _ \<Rightarrow> invalid ActList)"

record DecodedCursor =
  dk_primary :: js_string
  dk_conversationId :: js_string

text \<open>\<^verbatim>\<open>decodeURIComponent\<close>; \<open>None\<close> is the \<^verbatim>\<open>URIError\<close> of a malformed sequence.\<close>

definition hex_nibble :: "code_unit \<Rightarrow> nat option" where
  "hex_nibble c = (if is_digit c then Some (unat c - 48)
     else if in_range CHR ''A'' CHR ''F'' c then Some (unat c - 55)
     else if in_range CHR ''a'' CHR ''f'' c then Some (unat c - 87) else None)"

definition percent_octet :: "js_string \<Rightarrow> (nat \<times> js_string) option" where
  "percent_octet s = (case s of
     p # a # b # rest \<Rightarrow> if p \<noteq> of_char CHR ''%'' then None
       else (case (hex_nibble a, hex_nibble b) of (Some x, Some y) \<Rightarrow> Some (16 * x + y, rest) | _ \<Rightarrow> None)
   | _ \<Rightarrow> None)"

text \<open>The continuation bytes of a multi-byte sequence, most significant bits first.\<close>

fun continuation_octets :: "nat \<Rightarrow> nat \<Rightarrow> js_string \<Rightarrow> (nat \<times> js_string) option" where
  "continuation_octets 0 acc s = Some (acc, s)"
| "continuation_octets (Suc n) acc s = (case percent_octet s of
     None \<Rightarrow> None
   | Some (b, rest) \<Rightarrow> if 0x80 \<le> b \<and> b < 0xC0 then continuation_octets n (64 * acc + (b - 0x80)) rest else None)"

definition utf16_units :: "nat \<Rightarrow> js_string" where
  "utf16_units p = (if p < 0x10000 then [of_nat p]
     else [of_nat (0xD800 + (p - 0x10000) div 0x400), of_nat (0xDC00 + (p - 0x10000) mod 0x400)])"

text \<open>One escaped code point: its units and what follows; overlong forms and surrogates are refused.\<close>

definition escaped_point :: "js_string \<Rightarrow> (js_string \<times> js_string) option" where
  "escaped_point s = (case percent_octet s of
     None \<Rightarrow> None
   | Some (b, rest) \<Rightarrow>
       if b < 0x80 then Some ([of_nat b], rest)
       else if 0xC2 \<le> b \<and> b < 0xE0 then
         map_option (\<lambda>(p, r). (utf16_units p, r)) (continuation_octets 1 (b - 0xC0) rest)
       else if 0xE0 \<le> b \<and> b < 0xF0 then
         (case continuation_octets 2 (b - 0xE0) rest of
            Some (p, r) \<Rightarrow> if 0x800 \<le> p \<and> \<not> (0xD800 \<le> p \<and> p < 0xE000) then Some (utf16_units p, r) else None
          | None \<Rightarrow> None)
       else if 0xF0 \<le> b \<and> b < 0xF5 then
         (case continuation_octets 3 (b - 0xF0) rest of
            Some (p, r) \<Rightarrow> if 0x10000 \<le> p \<and> p < 0x110000 then Some (utf16_units p, r) else None
          | None \<Rightarrow> None)
       else None)"

lemma percent_octet_shorter: "percent_octet s = Some (b, r) \<Longrightarrow> length r < length s"
  by (auto simp: percent_octet_def split: list.splits if_splits option.splits)

lemma continuation_shorter: "continuation_octets n acc s = Some (p, r) \<Longrightarrow> length r \<le> length s"
proof (induction n arbitrary: acc s)
  case (Suc n)
  then obtain b t where t: "percent_octet s = Some (b, t)" "continuation_octets n (64 * acc + (b - 0x80)) t = Some (p, r)"
    by (auto split: option.splits prod.splits if_splits)
  with Suc.IH [OF t(2)] percent_octet_shorter [OF t(1)] show ?case by simp
qed simp

lemma escaped_point_shorter: "escaped_point s = Some (u, r) \<Longrightarrow> length r < length s"
  by (auto simp: escaped_point_def dest!: percent_octet_shorter continuation_shorter
      split: option.splits prod.splits if_splits)

function decodeURIComponent :: "js_string \<Rightarrow> js_string option" where
  "decodeURIComponent [] = Some []"
| "decodeURIComponent (c # cs) =
     (if c \<noteq> of_char CHR ''%'' then map_option ((#) c) (decodeURIComponent cs)
      else case escaped_point (c # cs) of
        None \<Rightarrow> None
      | Some (units, rest) \<Rightarrow> map_option ((@) units) (decodeURIComponent rest))"
  by pat_completeness auto
termination
  by (relation "measure length") (auto dest!: escaped_point_shorter)

definition decodeCursorPart :: "js_string \<Rightarrow> js_string option" where
  "decodeCursorPart value = (case decodeURIComponent value of
     None \<Rightarrow> None
   | Some decoded \<Rightarrow> if encodeURIComponent decoded = Some value then Some decoded else None)"

definition CURSOR_PREFIX :: string where
  "CURSOR_PREFIX = ''handrail.catalog.v1''"

definition decodeCursor :: "json option \<Rightarrow> ConversationCatalogOrder \<Rightarrow> DecodedCursor catalog_result" where
  "decodeCursor value expectedOrder = (case value of
     Some (JStr s) \<Rightarrow>
       if s = [] \<or> 1024 < length s then invalid ActList
       else let parts = str_split ''|'' s in
         if length parts \<noteq> 5 \<or> parts ! 0 \<noteq> js CURSOR_PREFIX then invalid ActList
         else bindE (order_of (Some (JStr (parts ! 1))) (Some (JStr (parts ! 2)))) (\<lambda>order.
           if order \<noteq> expectedOrder then invalid ActList
           else (case (decodeCursorPart (parts ! 3), decodeCursorPart (parts ! 4)) of
             (Some primary, Some cid) \<Rightarrow>
               bindE (parseTimestamp (Some (JStr primary)) ActList) (\<lambda>p.
               bindE (parseIdentifier (Some (JStr cid)) ActList) (\<lambda>i.
               Inr \<lparr>dk_primary = p, dk_conversationId = i\<rparr>))
           | _ \<Rightarrow> invalid ActList))
   | _ \<Rightarrow> invalid ActList)"

definition primary_key :: "ConversationCatalogOrder \<Rightarrow> ConversationCatalogDescriptor \<Rightarrow> js_string" where
  "primary_key order d = (case or_field order of UpdatedAt \<Rightarrow> dc_updatedAt d | CreatedAt \<Rightarrow> dc_createdAt d)"

text \<open>\<^verbatim>\<open>encodeURIComponent\<close> throws on a lone surrogate; identifiers and timestamps have none.\<close>

datatype (plugins only: code size) catalog_failure = Refused ConversationCatalogError | CursorURIError

definition createConversationCatalogCursor :: "(rat \<Rightarrow> js_string) \<Rightarrow> ConversationCatalogDescriptor \<Rightarrow> ConversationCatalogOrder \<Rightarrow>
    catalog_failure + js_string" where
  "createConversationCatalogCursor R descriptor order = (case cloneDescriptor R descriptor of
     Inl e \<Rightarrow> Inl (Refused e)
   | Inr d \<Rightarrow> (case (encodeURIComponent (primary_key order d), encodeURIComponent (dc_conversationId d)) of
       (Some p, Some i) \<Rightarrow> Inr (js CURSOR_PREFIX @ js ''|'' @ js (order_field_text (or_field order)) @ js ''|'' @
         js (order_direction_text (or_direction order)) @ js ''|'' @ p @ js ''|'' @ i)
     | _ \<Rightarrow> Inl CursorURIError))"

section \<open>Paging\<close>

definition compareKey :: "js_string \<Rightarrow> js_string \<Rightarrow> js_string \<Rightarrow> js_string \<Rightarrow> ConversationCatalogOrderDirection \<Rightarrow> int" where
  "compareKey leftPrimary leftId rightPrimary rightId direction =
     (if leftPrimary \<noteq> rightPrimary
      then let comparison = (if leftPrimary < rightPrimary then -1 else 1) in
        (case direction of Ascending \<Rightarrow> comparison | Descending \<Rightarrow> - comparison)
      else if leftId = rightId then 0 else if leftId < rightId then -1 else 1)"

definition compare_by :: "ConversationCatalogOrder \<Rightarrow> ConversationCatalogDescriptor \<Rightarrow> ConversationCatalogDescriptor \<Rightarrow> int" where
  "compare_by order left right = compareKey (primary_key order left) (dc_conversationId left)
     (primary_key order right) (dc_conversationId right) (or_direction order)"

definition compareConversationCatalogDescriptors :: "(rat \<Rightarrow> js_string) \<Rightarrow> ConversationCatalogDescriptor \<Rightarrow>
    ConversationCatalogDescriptor \<Rightarrow> ConversationCatalogOrder \<Rightarrow> int catalog_result" where
  "compareConversationCatalogDescriptors R left right order =
     bindE (cloneDescriptor R left) (\<lambda>l. bindE (cloneDescriptor R right) (\<lambda>r. Inr (compare_by order l r)))"

record ListConversationsResult =
  lr_items :: "ConversationCatalogDescriptor list"
  lr_nextCursor :: "js_string option"
  lr_hasMore :: bool
  lr_order :: ConversationCatalogOrder

text \<open>
  \<^verbatim>\<open>paginateConversationCatalogDescriptors\<close> with its order and page size parsed. The
  descriptors are copies that passed validation, so the comparisons inside \<^verbatim>\<open>sort\<close> do not
  throw; the stable sort is by insertion.
\<close>

definition after_cursor :: "ConversationCatalogOrder \<Rightarrow> DecodedCursor option \<Rightarrow> ConversationCatalogDescriptor list \<Rightarrow>
    ConversationCatalogDescriptor list" where
  "after_cursor order cursor xs = (case cursor of
     None \<Rightarrow> xs
   | Some c \<Rightarrow> filter (\<lambda>d. 0 < compareKey (primary_key order d) (dc_conversationId d) (dk_primary c) (dk_conversationId c)
       (or_direction order)) xs)"

definition paginateConversationCatalogDescriptors :: "(rat \<Rightarrow> js_string) \<Rightarrow> ConversationCatalogDescriptor list \<Rightarrow> json option \<Rightarrow>
    json option \<Rightarrow> json option \<Rightarrow> catalog_failure + ListConversationsResult" where
  "paginateConversationCatalogDescriptors R descriptors pageSizeInput orderInput cursorInput =
     (case (bindE (parseConversationCatalogPageSize pageSizeInput) (\<lambda>pageSize.
            bindE (parseConversationCatalogOrder orderInput) (\<lambda>order.
            bindE (case cursorInput of None \<Rightarrow> Inr None
              | Some c \<Rightarrow> bindE (decodeCursor (Some c) order) (\<lambda>k. Inr (Some k))) (\<lambda>cursor.
            bindE (mapE (cloneDescriptor R) descriptors) (\<lambda>copies. Inr (pageSize, order, cursor, copies)))))) of
        Inl e \<Rightarrow> Inl (Refused e)
      | Inr (pageSize, order, cursor, copies) \<Rightarrow>
          (let rest = after_cursor order cursor (sort_by (compare_by order) copies);
               hasMore = pageSize < length rest; items = take pageSize rest in
           bindE (if hasMore \<and> items \<noteq> [] then bindE (createConversationCatalogCursor R (last items) order) (\<lambda>c. Inr (Some c))
             else Inr None) (\<lambda>nextCursor.
           Inr \<lparr>lr_items = items, lr_nextCursor = nextCursor, lr_hasMore = hasMore, lr_order = order\<rparr>)))"

section \<open>Capabilities\<close>

datatype (plugins only: code size) ConversationCatalogUnsupportedReason = NotImplemented | PolicyDisabled | StorageLimitation

datatype (plugins only: code size) ConversationCatalogCapability = Supported | Unsupported ConversationCatalogUnsupportedReason

record ConversationCatalogCapabilities =
  ca_rename :: ConversationCatalogCapability
  ca_clear :: ConversationCatalogCapability
  ca_archive :: ConversationCatalogCapability
  ca_restore :: ConversationCatalogCapability
  ca_permanentDelete :: ConversationCatalogCapability

definition parse_capability :: "json option \<Rightarrow> ConversationCatalogCapability catalog_result" where
  "parse_capability candidate = bindE (catalog_record candidate ActGet) (\<lambda>item.
     if fld item ''supported'' = Some (JBool True)
     then bindE (exactKeys (keys_of item) [''supported''] [''supported''] ActGet) (\<lambda>_. Inr Supported)
     else bindE (exactKeys (keys_of item) [''supported'', ''reason''] [''supported'', ''reason''] ActGet) (\<lambda>_.
       if fld item ''supported'' \<noteq> Some (JBool False) then invalid ActGet
       else if fld item ''reason'' = Some (JText ''not_implemented'') then Inr (Unsupported NotImplemented)
       else if fld item ''reason'' = Some (JText ''policy_disabled'') then Inr (Unsupported PolicyDisabled)
       else if fld item ''reason'' = Some (JText ''storage_limitation'') then Inr (Unsupported StorageLimitation)
       else invalid ActGet))"

definition parseConversationCatalogCapabilities :: "json option \<Rightarrow> ConversationCatalogCapabilities catalog_result" where
  "parseConversationCatalogCapabilities value = bindE (catalog_record value ActGet) (\<lambda>source.
     let keys = [''rename'', ''clear'', ''archive'', ''restore'', ''permanentDelete''] in
     bindE (exactKeys (keys_of source) keys keys ActGet) (\<lambda>_.
     bindE (parse_capability (fld source ''rename'')) (\<lambda>a.
     bindE (parse_capability (fld source ''clear'')) (\<lambda>b.
     bindE (parse_capability (fld source ''archive'')) (\<lambda>c.
     bindE (parse_capability (fld source ''restore'')) (\<lambda>d.
     bindE (parse_capability (fld source ''permanentDelete'')) (\<lambda>e.
     Inr \<lparr>ca_rename = a, ca_clear = b, ca_archive = c, ca_restore = d, ca_permanentDelete = e\<rparr>)))))))"

section \<open>Requests\<close>

datatype (plugins only: code size) ConversationCatalogLifecycleFilter = OnlyActive | OnlyArchived | AllConversations

record 'p ListConversationsInput =
  li_authorizationContext :: 'p
  li_lifecycle :: ConversationCatalogLifecycleFilter
  li_pageSize :: nat
  li_order :: ConversationCatalogOrder
  li_cursor :: "js_string option"

record 'p CreateConversationInput =
  cv_authorizationContext :: 'p
  cv_conversationId :: "js_string option"
  cv_title :: "js_string option"
  cv_metadata :: "js_object option"
  cv_idempotencyKey :: js_string

record 'p GetConversationInput =
  gv_authorizationContext :: 'p
  gv_conversationId :: js_string

record 'p ConversationCatalogMutationInput =
  mv_authorizationContext :: 'p
  mv_conversationId :: js_string
  mv_expectedVersion :: int
  mv_idempotencyKey :: js_string

definition parseLifecycle :: "json option \<Rightarrow> ConversationCatalogLifecycleFilter catalog_result" where
  "parseLifecycle value =
     (if value = None \<or> value = Some JNull \<or> value = Some (JText ''active'') then Inr OnlyActive
      else if value = Some (JText ''archived'') then Inr OnlyArchived
      else if value = Some (JText ''all'') then Inr AllConversations
      else invalid ActList)"

definition optionally :: "(json option \<Rightarrow> 'a catalog_result) \<Rightarrow> json option \<Rightarrow> 'a option catalog_result" where
  "optionally parse value = (case value of None \<Rightarrow> Inr None | Some v \<Rightarrow> bindE (parse (Some v)) (\<lambda>x. Inr (Some x)))"

definition parseListConversationsInput :: "'p raw_request \<Rightarrow> 'p ListConversationsInput catalog_result" where
  "parseListConversationsInput value =
     bindE (request_fields value [''lifecycle'', ''pageSize'', ''order'', ''cursor''] [] ActList) (\<lambda>(ctx, source).
     bindE (parseConversationCatalogOrder (fld source ''order'')) (\<lambda>order.
     bindE (optionally (\<lambda>c. bindE (decodeCursor c order) (\<lambda>_. string_checked (\<lambda>_. True) c ActList)) (fld source ''cursor'')) (\<lambda>cursor.
     bindE (parseLifecycle (fld source ''lifecycle'')) (\<lambda>lifecycle.
     bindE (parseConversationCatalogPageSize (fld source ''pageSize'')) (\<lambda>pageSize.
     Inr \<lparr>li_authorizationContext = ctx, li_lifecycle = lifecycle, li_pageSize = pageSize, li_order = order, li_cursor = cursor\<rparr>)))))"

definition parseCreateConversationInput :: "(rat \<Rightarrow> js_string) \<Rightarrow> 'p raw_request \<Rightarrow> 'p CreateConversationInput catalog_result" where
  "parseCreateConversationInput R value =
     bindE (request_fields value [''conversationId'', ''title'', ''metadata'', ''idempotencyKey''] [''idempotencyKey''] ActCreate)
       (\<lambda>(ctx, source).
     bindE (optionally (\<lambda>v. parseIdentifier v ActCreate) (fld source ''conversationId'')) (\<lambda>cid.
     bindE (optionally (\<lambda>v. parseConversationCatalogTitle v ActCreate) (fld source ''title'')) (\<lambda>title.
     bindE (optionally (\<lambda>v. parseConversationCatalogMetadata R v ActCreate) (fld source ''metadata'')) (\<lambda>metadata.
     bindE (parseConversationCatalogIdempotencyKey (fld source ''idempotencyKey'') ActCreate) (\<lambda>key.
     Inr \<lparr>cv_authorizationContext = ctx, cv_conversationId = cid, cv_title = title, cv_metadata = metadata,
       cv_idempotencyKey = key\<rparr>)))))"

definition parseGetConversationInput :: "'p raw_request \<Rightarrow> 'p GetConversationInput catalog_result" where
  "parseGetConversationInput value =
     bindE (request_fields value [''conversationId''] [''conversationId''] ActGet) (\<lambda>(ctx, source).
     bindE (parseIdentifier (fld source ''conversationId'') ActGet) (\<lambda>cid.
     Inr \<lparr>gv_authorizationContext = ctx, gv_conversationId = cid\<rparr>))"

definition MUTATION_FIELDS :: "string list" where
  "MUTATION_FIELDS = [''conversationId'', ''expectedVersion'', ''idempotencyKey'']"

definition parseMutationInput :: "'p raw_request \<Rightarrow> ConversationCatalogAuthorizationAction \<Rightarrow> string list \<Rightarrow>
    ('p ConversationCatalogMutationInput \<times> js_object) catalog_result" where
  "parseMutationInput value operation extraKeys =
     bindE (request_fields value (MUTATION_FIELDS @ extraKeys) (MUTATION_FIELDS @ extraKeys) operation) (\<lambda>(ctx, source).
     bindE (parseIdentifier (fld source ''conversationId'') operation) (\<lambda>cid.
     bindE (parseConversationCatalogVersion (fld source ''expectedVersion'') operation) (\<lambda>version.
     bindE (parseConversationCatalogIdempotencyKey (fld source ''idempotencyKey'') operation) (\<lambda>key.
     Inr (\<lparr>mv_authorizationContext = ctx, mv_conversationId = cid, mv_expectedVersion = version, mv_idempotencyKey = key\<rparr>,
       source)))))"

definition parseRenameConversationInput :: "'p raw_request \<Rightarrow> ('p ConversationCatalogMutationInput \<times> js_string) catalog_result" where
  "parseRenameConversationInput value =
     bindE (parseMutationInput value ActRename [''title'']) (\<lambda>(parsed, source).
     bindE (parseConversationCatalogTitle (fld source ''title'') ActRename) (\<lambda>title. Inr (parsed, title)))"

definition parsePlainMutationInput :: "'p raw_request \<Rightarrow> ConversationCatalogAuthorizationAction \<Rightarrow>
    'p ConversationCatalogMutationInput catalog_result" where
  "parsePlainMutationInput value operation =
     bindE (parseMutationInput value operation []) (\<lambda>(parsed, _). Inr parsed)"

section \<open>Authorisation\<close>

record 'p ConversationCatalogAuthorizationRequest =
  aq_action :: ConversationCatalogAuthorizationAction
  aq_authorizationContext :: 'p
  aq_conversationId :: "js_string option"

type_synonym 'p catalog_authorizer = "'p ConversationCatalogAuthorizationRequest \<Rightarrow> bool option"

definition authorizeConversationCatalogRequest :: "'p catalog_authorizer \<Rightarrow> 'p ConversationCatalogAuthorizationRequest \<Rightarrow>
    unit catalog_result" where
  "authorizeConversationCatalogRequest host request =
     bindE (case (aq_action request, aq_conversationId request) of
        (ActList, _) \<Rightarrow> Inr None
      | (ActCreate, None) \<Rightarrow> Inr None
      | (action, cid) \<Rightarrow> bindE (parseIdentifier (map_option JStr cid) action) (\<lambda>i. Inr (Some i))) (\<lambda>cid.
     if host (request\<lparr>aq_conversationId := cid\<rparr>) = Some True then Inr () else Inl (catalogError CatForbidden (aq_action request)))"

end
