(* ===== verification/InMemoryCatalog.thy ===== *)
theory InMemoryCatalog
  imports Catalog
begin

text \<open>
  \<^verbatim>\<open>InMemoryConversationCatalog\<close> of \<^verbatim>\<open>src/conversation/in-memory-catalog.ts\<close>. A request is parsed and
  authorised when it is made; its body runs later, alone, behind \<^verbatim>\<open>#mutationTail\<close>, or reads
  the maps once that chain has settled. A body returns its result and the next catalog, or an
  error that leaves the catalog as it was. The authoriser, the clock and the factory of
  conversation identifiers belong to the host and are parameters (\<open>None\<close> is a throw).
\<close>

section \<open>State\<close>

record InMemoryConversationCatalogLimits =
  maxRecords :: int
  maxTombstones :: int
  maxIdempotencyEntries :: int

definition DEFAULT_IN_MEMORY_CONVERSATION_CATALOG_LIMITS :: InMemoryConversationCatalogLimits where
  "DEFAULT_IN_MEMORY_CONVERSATION_CATALOG_LIMITS =
     \<lparr>maxRecords = 1000, maxTombstones = 1000, maxIdempotencyEntries = 2000\<rparr>"

datatype (plugins only: code size) catalog_status =
  Created | Updated | Cleared | IsArchived | Restored | Deleted | Replayed

datatype (plugins only: code size) CatalogIdempotencyResult =
    DescriptorResult ConversationCatalogAuthorizationAction catalog_status ConversationCatalogDescriptor
  | DeletionResult catalog_status js_string int

record CatalogIdempotencyRecord =
  cr_operation :: ConversationCatalogAuthorizationAction
  cr_signature :: js_string
  cr_result :: CatalogIdempotencyResult

record InMemoryConversationCatalog =
  ic_limits :: InMemoryConversationCatalogLimits
  ic_records :: "(js_string \<times> ConversationCatalogDescriptor) list"
  ic_tombstones :: "(js_string \<times> CatalogIdempotencyResult) list"
  ic_idempotency :: "(js_string \<times> CatalogIdempotencyRecord) list"

definition MAX_CONFIGURED_CAPACITY :: int where
  "MAX_CONFIGURED_CAPACITY = 1000000"

definition resolveCatalogLimits :: "InMemoryConversationCatalogLimits \<Rightarrow> InMemoryConversationCatalogLimits option" where
  "resolveCatalogLimits limits =
     (if list_all (\<lambda>n. 0 < n \<and> n \<le> MAX_CONFIGURED_CAPACITY) [maxRecords limits, maxTombstones limits, maxIdempotencyEntries limits]
      then Some limits else None)"

definition createCatalog :: "InMemoryConversationCatalogLimits \<Rightarrow> InMemoryConversationCatalog option" where
  "createCatalog limits = map_option (\<lambda>l. \<lparr>ic_limits = l, ic_records = [], ic_tombstones = [], ic_idempotency = []\<rparr>)
     (resolveCatalogLimits limits)"

section \<open>Helpers\<close>

text \<open>\<^verbatim>\<open>canonicalStringify\<close>: JSON text with the entries of every object sorted by key.\<close>

fun canonicalStringify :: "(rat \<Rightarrow> js_string) \<Rightarrow> json \<Rightarrow> js_string" where
  "canonicalStringify R (JArr xs) = js ''['' @ join_comma (map (canonicalStringify R) xs) @ js '']''"
| "canonicalStringify R (JObj fs) =
     js ''{'' @ join_comma (map snd (sort_key fst (map (\<lambda>f. (fst f, quote (fst f) @ js '':'' @ canonicalStringify R (snd f))) fs))) @ js ''}''"
| "canonicalStringify R v = stringify R v"

definition action_text :: "ConversationCatalogAuthorizationAction \<Rightarrow> string" where
  "action_text a = (case a of ActList \<Rightarrow> ''list'' | ActCreate \<Rightarrow> ''create'' | ActGet \<Rightarrow> ''get'' | ActRename \<Rightarrow> ''rename''
     | ActClear \<Rightarrow> ''clear'' | ActArchive \<Rightarrow> ''archive'' | ActRestore \<Rightarrow> ''restore'' | ActPermanentDelete \<Rightarrow> ''permanent_delete'')"

definition create_signature :: "(rat \<Rightarrow> js_string) \<Rightarrow> 'p CreateConversationInput \<Rightarrow> js_string" where
  "create_signature R input = canonicalStringify R (JObj [(js ''conversationId'', nullable (cv_conversationId input)),
     (js ''title'', nullable (cv_title input)), (js ''metadata'', JObj (coalesce (cv_metadata input) []))])"

definition mutation_signature :: "(rat \<Rightarrow> js_string) \<Rightarrow> ConversationCatalogAuthorizationAction \<Rightarrow>
    'p ConversationCatalogMutationInput \<Rightarrow> js_string" where
  "mutation_signature R operation input = canonicalStringify R (JObj [(js ''operation'', JText (action_text operation)),
     (js ''conversationId'', JStr (mv_conversationId input)), (js ''expectedVersion'', JInt (mv_expectedVersion input))])"

definition rename_signature :: "(rat \<Rightarrow> js_string) \<Rightarrow> 'p ConversationCatalogMutationInput \<Rightarrow> js_string \<Rightarrow> js_string" where
  "rename_signature R input title = canonicalStringify R (JObj [(js ''conversationId'', JStr (mv_conversationId input)),
     (js ''expectedVersion'', JInt (mv_expectedVersion input)), (js ''title'', JStr title)])"

definition cloneResult :: "(rat \<Rightarrow> js_string) \<Rightarrow> CatalogIdempotencyResult \<Rightarrow> CatalogIdempotencyResult catalog_result" where
  "cloneResult R result = (case result of
     DescriptorResult operation status d \<Rightarrow> bindE (cloneDescriptor R d) (\<lambda>d'. Inr (DescriptorResult operation status d'))
   | DeletionResult status cid version \<Rightarrow> Inr result)"

definition cloneIdempotentResult :: "(rat \<Rightarrow> js_string) \<Rightarrow> CatalogIdempotencyResult \<Rightarrow> CatalogIdempotencyResult catalog_result" where
  "cloneIdempotentResult R result = cloneResult R (case result of
     DescriptorResult operation _ d \<Rightarrow> DescriptorResult operation Replayed d
   | DeletionResult _ cid version \<Rightarrow> DeletionResult Replayed cid version)"

definition replay :: "(rat \<Rightarrow> js_string) \<Rightarrow> ConversationCatalogAuthorizationAction \<Rightarrow> js_string \<Rightarrow> js_string \<Rightarrow>
    InMemoryConversationCatalog \<Rightarrow> CatalogIdempotencyResult option catalog_result" where
  "replay R operation key signature s = (case map_of (ic_idempotency s) key of
     None \<Rightarrow> Inr None
   | Some retained \<Rightarrow>
       if cr_operation retained \<noteq> operation \<or> cr_signature retained \<noteq> signature
       then Inl (catalogError CatIdempotencyConflict operation)
       else bindE (cloneIdempotentResult R (cr_result retained)) (\<lambda>r. Inr (Some r)))"

text \<open>\<^verbatim>\<open>#commit\<close>, after \<^verbatim>\<open>freezeResult\<close> and before the copy that is returned.\<close>

definition commit :: "(rat \<Rightarrow> js_string) \<Rightarrow> js_string \<Rightarrow> ConversationCatalogAuthorizationAction \<Rightarrow> js_string \<Rightarrow>
    CatalogIdempotencyResult \<Rightarrow> InMemoryConversationCatalog \<Rightarrow>
    (CatalogIdempotencyResult \<times> InMemoryConversationCatalog) catalog_result" where
  "commit R key operation signature result s =
     bindE (cloneResult R result) (\<lambda>kept.
     Inr (kept, s\<lparr>ic_idempotency := retain (maxIdempotencyEntries (ic_limits s)) key
       \<lparr>cr_operation = operation, cr_signature = signature, cr_result = kept\<rparr> (ic_idempotency s)\<rparr>))"

definition catalog_now :: "js_string option \<Rightarrow> ConversationCatalogAuthorizationAction \<Rightarrow> js_string option \<Rightarrow> js_string catalog_result" where
  "catalog_now clock operation minimum = (case clock of
     None \<Rightarrow> Inl (catalogError CatUnavailable operation)
   | Some t \<Rightarrow> if \<not> isCanonicalTimestamp t \<or> (case minimum of None \<Rightarrow> False | Some m \<Rightarrow> t < m)
       then Inl (catalogError CatUnavailable operation) else Inr t)"

definition nextVersion :: "int \<Rightarrow> ConversationCatalogAuthorizationAction \<Rightarrow> int catalog_result" where
  "nextVersion current operation =
     (if MAX_SAFE_INTEGER \<le> current then Inl (catalogError CatUnavailable operation) else Inr (current + 1))"

definition current_record :: "'p ConversationCatalogMutationInput \<Rightarrow> ConversationCatalogAuthorizationAction \<Rightarrow>
    InMemoryConversationCatalog \<Rightarrow> ConversationCatalogDescriptor catalog_result" where
  "current_record input operation s = (case map_of (ic_records s) (mv_conversationId input) of
     None \<Rightarrow> Inl (catalogError CatNotFound operation)
   | Some current \<Rightarrow> if dc_version current \<noteq> mv_expectedVersion input
       then Inl (catalogError CatVersionConflict operation) else Inr current)"

definition set_record :: "ConversationCatalogDescriptor \<Rightarrow> InMemoryConversationCatalog \<Rightarrow> InMemoryConversationCatalog" where
  "set_record d s = s\<lparr>ic_records := AList.update (dc_conversationId d) d (ic_records s)\<rparr>"

definition is_active :: "ConversationCatalogDescriptor \<Rightarrow> bool" where
  "is_active d \<longleftrightarrow> dc_lifecycle d = Active"

section \<open>Bodies\<close>

type_synonym catalog_step = "InMemoryConversationCatalog \<Rightarrow> (CatalogIdempotencyResult \<times> InMemoryConversationCatalog) catalog_result"

text \<open>What every mutation does first: a retained answer is returned as it is.\<close>

definition unless_replayed :: "(rat \<Rightarrow> js_string) \<Rightarrow> ConversationCatalogAuthorizationAction \<Rightarrow> js_string \<Rightarrow> js_string \<Rightarrow>
    catalog_step \<Rightarrow> catalog_step" where
  "unless_replayed R operation key signature body s =
     bindE (replay R operation key signature s) (\<lambda>r. case r of Some result \<Rightarrow> Inr (result, s) | None \<Rightarrow> body s)"

text \<open>A mutation that replaces the descriptor: the new one is validated, filed and answered.\<close>

definition replace_record :: "(rat \<Rightarrow> js_string) \<Rightarrow> ConversationCatalogAuthorizationAction \<Rightarrow> catalog_status \<Rightarrow> js_string \<Rightarrow>
    js_string \<Rightarrow> (ConversationCatalogDescriptor \<Rightarrow> bool) \<Rightarrow> ConversationCatalogDescriptor \<Rightarrow> catalog_step" where
  "replace_record R operation status key signature expected next s =
     bindE (cloneDescriptor R next) (\<lambda>d.
     if \<not> expected d then Inl (catalogError CatUnavailable operation)
     else bindE (cloneResult R (DescriptorResult operation status d)) (\<lambda>result.
       commit R key operation signature result (set_record d s)))"

definition rename_body :: "(rat \<Rightarrow> js_string) \<Rightarrow> js_string option \<Rightarrow> 'p ConversationCatalogMutationInput \<Rightarrow> js_string \<Rightarrow> catalog_step" where
  "rename_body R clock input title =
     (let key = mv_idempotencyKey input; signature = rename_signature R input title in
     unless_replayed R ActRename key signature (\<lambda>s.
       bindE (current_record input ActRename s) (\<lambda>current.
       bindE (catalog_now clock ActRename (Some (dc_updatedAt current))) (\<lambda>now.
       bindE (nextVersion (dc_version current) ActRename) (\<lambda>version.
       replace_record R ActRename Updated key signature (\<lambda>_. True)
         (current\<lparr>dc_title := Some title, dc_updatedAt := now, dc_version := version\<rparr>) s)))))"

definition clear_body :: "(rat \<Rightarrow> js_string) \<Rightarrow> js_string option \<Rightarrow> 'p ConversationCatalogMutationInput \<Rightarrow> catalog_step" where
  "clear_body R clock input =
     (let key = mv_idempotencyKey input; signature = mutation_signature R ActClear input in
     unless_replayed R ActClear key signature (\<lambda>s.
       bindE (current_record input ActClear s) (\<lambda>current.
       if \<not> is_active current then Inl (catalogError CatNotFound ActClear)
       else bindE (catalog_now clock ActClear (Some (dc_updatedAt current))) (\<lambda>now.
         bindE (nextVersion (dc_version current) ActClear) (\<lambda>version.
         replace_record R ActClear Cleared key signature is_active
           (current\<lparr>dc_updatedAt := now, dc_version := version\<rparr>) s)))))"

definition archive_body :: "(rat \<Rightarrow> js_string) \<Rightarrow> js_string option \<Rightarrow> 'p ConversationCatalogMutationInput \<Rightarrow> catalog_step" where
  "archive_body R clock input =
     (let key = mv_idempotencyKey input; signature = mutation_signature R ActArchive input in
     unless_replayed R ActArchive key signature (\<lambda>s.
       bindE (current_record input ActArchive s) (\<lambda>current.
       if \<not> is_active current then Inl (catalogError CatNotFound ActArchive)
       else bindE (catalog_now clock ActArchive (Some (dc_updatedAt current))) (\<lambda>now.
         bindE (nextVersion (dc_version current) ActArchive) (\<lambda>version.
         replace_record R ActArchive IsArchived key signature (\<lambda>d. \<not> is_active d)
           (current\<lparr>dc_lifecycle := Archived now, dc_updatedAt := now, dc_version := version\<rparr>) s)))))"

definition restore_body :: "(rat \<Rightarrow> js_string) \<Rightarrow> js_string option \<Rightarrow> 'p ConversationCatalogMutationInput \<Rightarrow> catalog_step" where
  "restore_body R clock input =
     (let key = mv_idempotencyKey input; signature = mutation_signature R ActRestore input in
     unless_replayed R ActRestore key signature (\<lambda>s.
       bindE (current_record input ActRestore s) (\<lambda>current.
       if is_active current then Inl (catalogError CatNotFound ActRestore)
       else bindE (catalog_now clock ActRestore (Some (dc_updatedAt current))) (\<lambda>now.
         bindE (nextVersion (dc_version current) ActRestore) (\<lambda>version.
         replace_record R ActRestore Restored key signature is_active
           (current\<lparr>dc_lifecycle := Active, dc_updatedAt := now, dc_version := version\<rparr>) s)))))"

definition delete_body :: "(rat \<Rightarrow> js_string) \<Rightarrow> 'p ConversationCatalogMutationInput \<Rightarrow> catalog_step" where
  "delete_body R input =
     (let key = mv_idempotencyKey input; signature = mutation_signature R ActPermanentDelete input in
     unless_replayed R ActPermanentDelete key signature (\<lambda>s.
       bindE (current_record input ActPermanentDelete s) (\<lambda>current.
       if maxTombstones (ic_limits s) \<le> int (length (ic_tombstones s))
       then Inl (catalogError CatUnavailable ActPermanentDelete)
       else bindE (cloneResult R (DeletionResult Deleted (dc_conversationId current) (dc_version current))) (\<lambda>result.
         commit R key ActPermanentDelete signature result
           (s\<lparr>ic_records := AList.delete (dc_conversationId current) (ic_records s),
              ic_tombstones := AList.update (dc_conversationId current) result (ic_tombstones s)\<rparr>)))))"

text \<open>\<^verbatim>\<open>#generatedId\<close>: the factory may throw or return something that is no identifier.\<close>

definition generatedId :: "json option \<Rightarrow> js_string catalog_result" where
  "generatedId candidate = (case candidate of
     None \<Rightarrow> Inl (catalogError CatUnavailable ActCreate)
   | Some v \<Rightarrow> (case parseIdentifier (Some v) ActCreate of
       Inl _ \<Rightarrow> Inl (catalogError CatUnavailable ActCreate) | Inr i \<Rightarrow> Inr i))"

definition create_conversation_body :: "(rat \<Rightarrow> js_string) \<Rightarrow> js_string option \<Rightarrow> json option \<Rightarrow> 'p CreateConversationInput \<Rightarrow> catalog_step" where
  "create_conversation_body R clock factory input =
     (let key = cv_idempotencyKey input; signature = create_signature R input in
     unless_replayed R ActCreate key signature (\<lambda>s.
       if maxRecords (ic_limits s) \<le> int (length (ic_records s)) then Inl (catalogError CatUnavailable ActCreate)
       else bindE (case cv_conversationId input of Some i \<Rightarrow> Inr i | None \<Rightarrow> generatedId factory) (\<lambda>cid.
         if map_of (ic_records s) cid \<noteq> None \<or> map_of (ic_tombstones s) cid \<noteq> None
         then Inl (catalogError CatIdempotencyConflict ActCreate)
         else bindE (catalog_now clock ActCreate None) (\<lambda>now.
           replace_record R ActCreate Created key signature is_active
             \<lparr>dc_conversationId = cid, dc_title = cv_title input, dc_createdAt = now, dc_updatedAt = now, dc_version = 1,
              dc_lifecycle = Active, dc_metadata = coalesce (cv_metadata input) []\<rparr> s))))"

definition get_conversation_body :: "(rat \<Rightarrow> js_string) \<Rightarrow> js_string \<Rightarrow> InMemoryConversationCatalog \<Rightarrow>
    ConversationCatalogDescriptor catalog_result" where
  "get_conversation_body R cid s = (case map_of (ic_records s) cid of
     None \<Rightarrow> Inl (catalogError CatNotFound ActGet)
   | Some d \<Rightarrow> cloneDescriptor R d)"

definition matches_lifecycle :: "ConversationCatalogLifecycleFilter \<Rightarrow> ConversationCatalogDescriptor \<Rightarrow> bool" where
  "matches_lifecycle wanted d = (case wanted of
     AllConversations \<Rightarrow> True | OnlyActive \<Rightarrow> is_active d | OnlyArchived \<Rightarrow> \<not> is_active d)"

definition list_body :: "(rat \<Rightarrow> js_string) \<Rightarrow> 'p ListConversationsInput \<Rightarrow> InMemoryConversationCatalog \<Rightarrow>
    catalog_failure + ListConversationsResult" where
  "list_body R input s = paginateConversationCatalogDescriptors R
     (filter (matches_lifecycle (li_lifecycle input)) (map snd (ic_records s)))
     (Some (JInt (int (li_pageSize input)))) (Some (order_json (li_order input))) (map_option JStr (li_cursor input))"

section \<open>Whole requests\<close>

definition create_conversation :: "(rat \<Rightarrow> js_string) \<Rightarrow> 'p catalog_authorizer \<Rightarrow> js_string option \<Rightarrow> json option \<Rightarrow> 'p raw_request \<Rightarrow>
    catalog_step" where
  "create_conversation R host clock factory value s =
     bindE (parseCreateConversationInput R value) (\<lambda>input.
     bindE (authorizeConversationCatalogRequest host \<lparr>aq_action = ActCreate,
       aq_authorizationContext = cv_authorizationContext input, aq_conversationId = cv_conversationId input\<rparr>) (\<lambda>_.
     create_conversation_body R clock factory input s))"

definition authorizeMutation :: "'p catalog_authorizer \<Rightarrow> ConversationCatalogAuthorizationAction \<Rightarrow>
    'p ConversationCatalogMutationInput \<Rightarrow> unit catalog_result" where
  "authorizeMutation host operation input = authorizeConversationCatalogRequest host \<lparr>aq_action = operation,
     aq_authorizationContext = mv_authorizationContext input, aq_conversationId = Some (mv_conversationId input)\<rparr>"

definition rename_conversation :: "(rat \<Rightarrow> js_string) \<Rightarrow> 'p catalog_authorizer \<Rightarrow> js_string option \<Rightarrow> 'p raw_request \<Rightarrow> catalog_step" where
  "rename_conversation R host clock value s =
     bindE (parseRenameConversationInput value) (\<lambda>(input, title).
     bindE (authorizeMutation host ActRename input) (\<lambda>_. rename_body R clock input title s))"

definition plain_mutation :: "'p catalog_authorizer \<Rightarrow> ConversationCatalogAuthorizationAction \<Rightarrow>
    ('p ConversationCatalogMutationInput \<Rightarrow> catalog_step) \<Rightarrow> 'p raw_request \<Rightarrow> catalog_step" where
  "plain_mutation host operation body value s =
     bindE (parsePlainMutationInput value operation) (\<lambda>input.
     bindE (authorizeMutation host operation input) (\<lambda>_. body input s))"

definition clear_conversation :: "(rat \<Rightarrow> js_string) \<Rightarrow> 'p catalog_authorizer \<Rightarrow> js_string option \<Rightarrow> 'p raw_request \<Rightarrow> catalog_step" where
  "clear_conversation R host clock = plain_mutation host ActClear (clear_body R clock)"

definition archive_conversation :: "(rat \<Rightarrow> js_string) \<Rightarrow> 'p catalog_authorizer \<Rightarrow> js_string option \<Rightarrow> 'p raw_request \<Rightarrow> catalog_step" where
  "archive_conversation R host clock = plain_mutation host ActArchive (archive_body R clock)"

definition restore_conversation :: "(rat \<Rightarrow> js_string) \<Rightarrow> 'p catalog_authorizer \<Rightarrow> js_string option \<Rightarrow> 'p raw_request \<Rightarrow> catalog_step" where
  "restore_conversation R host clock = plain_mutation host ActRestore (restore_body R clock)"

definition permanentlyDelete :: "(rat \<Rightarrow> js_string) \<Rightarrow> 'p catalog_authorizer \<Rightarrow> 'p raw_request \<Rightarrow> catalog_step" where
  "permanentlyDelete R host = plain_mutation host ActPermanentDelete (delete_body R)"

definition get_conversation :: "(rat \<Rightarrow> js_string) \<Rightarrow> 'p catalog_authorizer \<Rightarrow> 'p raw_request \<Rightarrow> InMemoryConversationCatalog \<Rightarrow>
    ConversationCatalogDescriptor catalog_result" where
  "get_conversation R host value s =
     bindE (parseGetConversationInput value) (\<lambda>input.
     bindE (authorizeConversationCatalogRequest host \<lparr>aq_action = ActGet,
       aq_authorizationContext = gv_authorizationContext input, aq_conversationId = Some (gv_conversationId input)\<rparr>) (\<lambda>_.
     get_conversation_body R (gv_conversationId input) s))"

definition list_conversations :: "(rat \<Rightarrow> js_string) \<Rightarrow> 'p catalog_authorizer \<Rightarrow> 'p raw_request \<Rightarrow> InMemoryConversationCatalog \<Rightarrow>
    catalog_failure + ListConversationsResult" where
  "list_conversations R host value s =
     (case bindE (parseListConversationsInput value) (\<lambda>input.
        bindE (authorizeConversationCatalogRequest host \<lparr>aq_action = ActList,
          aq_authorizationContext = li_authorizationContext input, aq_conversationId = None\<rparr>) (\<lambda>_. Inr input)) of
        Inl e \<Rightarrow> Inl (Refused e)
      | Inr input \<Rightarrow> list_body R input s)"

end
