(* ===== verification/CatalogProperties.thy ===== *)
theory CatalogProperties
  imports Catalog
begin

text \<open>
  Validation of a descriptor is idempotent, a cursor decodes to the position it was made
  from, and following the cursors of the paging helper lists every descriptor once, in order.
\<close>

section \<open>Validation is idempotent\<close>

lemma require_Inr [simp]: "require b a = Inr u \<longleftrightarrow> b"
  by (simp add: require_def invalid_def)

lemma invalid_not_Inr [simp]: "invalid a \<noteq> Inr x" "Inr x \<noteq> invalid a"
  by (simp_all add: invalid_def)

lemma trim_idem [simp]: "trim (trim s) = trim s"
proof -
  have drop: "dropWhile p (rev (dropWhile p (rev xs))) = rev (dropWhile p (rev xs))" if "dropWhile p xs = xs" for p and xs :: js_string
  proof (cases "rev (dropWhile p (rev xs))")
    case (Cons y ys)
    have "takeWhile p (rev xs) @ dropWhile p (rev xs) = rev xs" by simp
    then have "xs = rev (dropWhile p (rev xs)) @ rev (takeWhile p (rev xs))" by (metis rev_append rev_rev_ident)
    then have "hd xs = y" "xs \<noteq> []" using Cons by (metis hd_append2 list.distinct(1) list.sel(1), metis Cons append_is_Nil_conv list.distinct(1))
    then have "xs = y # tl xs" by (cases xs) simp_all
    moreover have "length (dropWhile p (tl xs)) < length (y # tl xs)"
      using length_dropWhile_le [of p "tl xs"] by (simp only: list.size le_imp_less_Suc add.right_neutral add_Suc_right)
    ultimately have "\<not> p y" using that by (metis dropWhile.simps(2) less_irrefl)
    with Cons show ?thesis by simp
  next
    case Nil
    then show ?thesis by (simp only: dropWhile.simps)
  qed
  have "dropWhile white_space (rev (dropWhile white_space (rev (dropWhile white_space s)))) =
      rev (dropWhile white_space (rev (dropWhile white_space s)))"
    by (rule drop) (simp add: dropWhile_idem)
  then show ?thesis by (simp add: trim_def)
qed

lemma visit_same:
  "visit_metadata a d n v = Inr (m, w) \<Longrightarrow> w = v"
  "metadata_items a d n vs = Inr (m, ws) \<Longrightarrow> ws = vs"
  "metadata_entries a d n fs gs = Inr (m, hs) \<Longrightarrow> hs = fs @ gs"
proof (induction a d n v and a d n vs and a d n fs gs arbitrary: m w and m ws and m hs
    rule: visit_metadata_metadata_items_metadata_entries.induct)
  case (1 a d n v)
  then show ?case by (auto simp: bindE_Inr_iff split: if_splits json.splits prod.splits)
next
  case (3 a d n x xs)
  then show ?case by (fastforce simp: bindE_Inr_iff split: prod.splits)
next
  case (5 a d n parsed f fs)
  then show ?case by (fastforce simp: bindE_Inr_iff split: prod.splits if_splits)
qed auto

lemma visit_any_operation:
  "visit_metadata a d n v = Inr r \<Longrightarrow> visit_metadata b d n v = Inr r"
  "metadata_items a d n vs = Inr r' \<Longrightarrow> metadata_items b d n vs = Inr r'"
  "metadata_entries a d n fs gs = Inr r'' \<Longrightarrow> metadata_entries b d n fs gs = Inr r''"
proof (induction a d n v and a d n vs and a d n fs gs arbitrary: r and r' and r''
    rule: visit_metadata_metadata_items_metadata_entries.induct)
  case (1 a d n v)
  then show ?case by (auto simp: bindE_Inr_iff split: if_splits json.splits prod.splits)
next
  case (3 a d n x xs)
  then show ?case by (fastforce simp: bindE_Inr_iff split: prod.splits)
next
  case (5 a d n parsed f fs)
  then have ok: "safe_metadata_key (fst f)" "fst f \<notin> set (keys_of parsed)" by (auto split: if_splits)
  with 5 obtain m y where "visit_metadata a d n (snd f) = Inr (m, y)"
    "metadata_entries a d m (parsed @ [(fst f, y)]) fs = Inr r''"
    by (auto simp: bindE_Inr_iff)
  with 5(1) [OF _ this(1)] 5(2) [OF _ this(2)] ok show ?case by simp
qed auto

lemma string_checked_Inr [simp]: "string_checked p v a = Inr s \<longleftrightarrow> v = Some (JStr s) \<and> p s"
  by (auto simp: string_checked_def split: option.splits json.splits)

definition metadata_ok :: "(rat \<Rightarrow> js_string) \<Rightarrow> js_object \<Rightarrow> bool" where
  "metadata_ok R fs \<longleftrightarrow> (\<exists>n. visit_metadata ActGet 0 0 (JObj fs) = Inr (n, JObj fs)) \<and> utf8ByteLength (stringify R (JObj fs)) \<le> 4096"

lemma parse_metadata_Inr: "parseConversationCatalogMetadata R v a = Inr fs \<longleftrightarrow> v = Some (JObj fs) \<and> metadata_ok R fs"
proof
  assume "parseConversationCatalogMetadata R v a = Inr fs"
  then obtain w n p where p: "v = Some w" "visit_metadata a 0 0 w = Inr (n, p)"
      "(case p of JObj gs \<Rightarrow> if 4096 < utf8ByteLength (stringify R p) then invalid a else Inr gs | _ \<Rightarrow> invalid a) = Inr fs"
    by (auto simp: parseConversationCatalogMetadata_def bindE_Inr_iff simp del: visit_metadata.simps stringify.simps split: option.splits)
  then have w: "v = Some w" "visit_metadata a 0 0 w = Inr (n, JObj fs)" "utf8ByteLength (stringify R (JObj fs)) \<le> 4096"
    by (cases p; auto simp del: visit_metadata.simps stringify.simps split: if_splits)+
  have "w = JObj fs" using visit_same(1) [OF w(2)] by (rule sym)
  with w(1,3) visit_any_operation(1) [OF w(2), of ActGet] show "v = Some (JObj fs) \<and> metadata_ok R fs"
    unfolding metadata_ok_def by blast
next
  assume v: "v = Some (JObj fs) \<and> metadata_ok R fs"
  then obtain n where "visit_metadata ActGet 0 0 (JObj fs) = Inr (n, JObj fs)" by (auto simp: metadata_ok_def)
  from visit_any_operation(1) [OF this, of a] v show "parseConversationCatalogMetadata R v a = Inr fs"
    by (simp add: parseConversationCatalogMetadata_def metadata_ok_def del: visit_metadata.simps stringify.simps)
qed

lemma parse_title_Inr:
  "parseConversationCatalogTitle v a = Inr t \<longleftrightarrow> (\<exists>s. v = Some (JStr s) \<and> t = trim s \<and> catalog_title_ok t)"
  by (auto simp: parseConversationCatalogTitle_def Let_def split: option.splits json.splits if_splits)

lemma parse_version_Inr:
  "parseConversationCatalogVersion v a = Inr n \<longleftrightarrow> (\<exists>x. v = Some (JNum x) \<and> safe_int x = Some n \<and> 1 \<le> n)"
  by (auto simp: parseConversationCatalogVersion_def split: option.splits json.splits if_splits)

text \<open>What a descriptor that passes validation satisfies.\<close>

definition descriptor_ok :: "(rat \<Rightarrow> js_string) \<Rightarrow> ConversationCatalogDescriptor \<Rightarrow> bool" where
  "descriptor_ok R d \<longleftrightarrow> catalog_identifier_ok (dc_conversationId d) \<and>
     (case dc_title d of None \<Rightarrow> True | Some t \<Rightarrow> trim t = t \<and> catalog_title_ok t) \<and>
     isCanonicalTimestamp (dc_createdAt d) \<and> isCanonicalTimestamp (dc_updatedAt d) \<and> dc_createdAt d \<le> dc_updatedAt d \<and>
     1 \<le> dc_version d \<and> dc_version d \<le> MAX_SAFE_INTEGER \<and> metadata_ok R (dc_metadata d) \<and>
     (case dc_lifecycle d of Active \<Rightarrow> True
      | Archived t \<Rightarrow> isCanonicalTimestamp t \<and> dc_createdAt d \<le> t \<and> t \<le> dc_updatedAt d)"

lemma safe_int_bound: "safe_int x = Some n \<Longrightarrow> n \<le> MAX_SAFE_INTEGER"
  by (auto simp: safe_int_def MAX_SAFE_INTEGER_def split: js_number.splits if_splits)

lemma parse_descriptor_ok:
  assumes "parseConversationCatalogDescriptor R v = Inr d"
  shows "descriptor_ok R d"
  using assms
  by (auto simp: parseConversationCatalogDescriptor_def bindE_Inr_iff descriptor_ok_def parseIdentifier_def parseTimestamp_def
      parse_title_Inr parse_version_Inr parse_metadata_Inr parse_lifecycle_def safe_int_bound not_less
      split: if_splits)

lemma cloneDescriptor_ok: "descriptor_ok R d \<Longrightarrow> cloneDescriptor R d = Inr d"
  by (cases d) (auto simp: cloneDescriptor_def parseConversationCatalogDescriptor_def bindE_Inr_iff descriptor_ok_def
      parseIdentifier_def parseTimestamp_def parse_title_Inr parse_version_Inr parse_metadata_Inr parse_lifecycle_def
      descriptor_json_def catalog_record_def exactKeys_def DESCRIPTOR_FIELDS_def fld_def nullable_def not_less
      split: option.splits ConversationCatalogLifecycleState.splits)

lemma cloneDescriptor_Inr:
  assumes "cloneDescriptor R d = Inr e"
  shows "descriptor_ok R e" "e = d\<lparr>dc_title := map_option trim (dc_title d)\<rparr>"
  using assms parse_descriptor_ok [of R "descriptor_json d" e] unfolding cloneDescriptor_def
  by (auto simp: parseConversationCatalogDescriptor_def bindE_Inr_iff parseIdentifier_def parseTimestamp_def
      parse_title_Inr parse_version_Inr parse_metadata_Inr parse_lifecycle_def descriptor_json_def catalog_record_def
      fld_def nullable_def split: if_splits option.splits ConversationCatalogLifecycleState.splits)

text \<open>
  C23: validating a descriptor is idempotent. What validation returns for any value is a
  well-formed descriptor (bounded identifier and title, canonical times in order, a positive
  safe version, bounded metadata), and validating its JSON form again returns it unchanged.
\<close>

theorem descriptor_roundtrip:
  assumes "parseConversationCatalogDescriptor R v = Inr d"
  shows "descriptor_ok R d \<and> parseConversationCatalogDescriptor R (descriptor_json d) = Inr d"
  using parse_descriptor_ok [OF assms] cloneDescriptor_ok [of R d] by (simp add: cloneDescriptor_def)

section \<open>Cursors\<close>

lemma fits_template_chars:
  "fits_template t s \<Longrightarrow> u \<in> set s \<Longrightarrow> is_digit u \<or> u \<in> of_char ` set t"
  unfolding fits_template_def by (induction t s rule: list_all2_induct) (auto split: if_splits)

definition cursor_char :: "code_unit \<Rightarrow> bool" where
  "cursor_char u \<longleftrightarrow> alnum_i u \<or> one_of ''._:@/+~-'' u"

lemma timestamp_chars: "isCanonicalTimestamp s \<Longrightarrow> u \<in> set s \<Longrightarrow> cursor_char u"
  unfolding isCanonicalTimestamp_def
  by (elim conjE disjE; drule (1) fits_template_chars; elim disjE;
      auto simp: cursor_char_def alnum_i_def one_of_def js_def in_range_def is_digit_def)

lemma identifier_chars: "catalog_identifier_ok s \<Longrightarrow> u \<in> set s \<Longrightarrow> cursor_char u"
  by (auto simp: catalog_identifier_ok_def IDENTIFIER_def test_head_then_star alnum_def cursor_char_def)

lemma hex_nibble_upper: "n < 16 \<Longrightarrow> hex_nibble (of_char (upper_hex n)) = Some n"
proof -
  have "list_all (\<lambda>n. hex_nibble (of_char (upper_hex n)) = Some n) [0..<16]" by code_simp
  then show "n < 16 \<Longrightarrow> ?thesis" by (simp add: list_all_iff)
qed

lemma upper_hex_bar: "n < 16 \<Longrightarrow> upper_hex n \<noteq> CHR ''|''"
proof -
  have "list_all (\<lambda>n. upper_hex n \<noteq> CHR ''|'') [0..<16]" by code_simp
  then show "n < 16 \<Longrightarrow> ?thesis" by (simp add: list_all_iff)
qed

lemma percent_octet_byte: "b < 256 \<Longrightarrow> percent_octet (percent_byte b @ r) = Some (b, r)"
proof -
  assume "b < 256"
  then have "hex_nibble (of_char (upper_hex (b div 16))) = Some (b div 16)"
    "hex_nibble (of_char (upper_hex (b mod 16))) = Some (b mod 16)"
    by (auto intro!: hex_nibble_upper simp: div_less_iff_less_mult)
  then show ?thesis by (simp add: percent_octet_def percent_byte_def js_def)
qed

lemma percent_byte_Cons: "percent_byte b = of_char CHR ''%'' # tl (percent_byte b)"
  by (simp add: percent_byte_def js_def)

lemma decode_escaped:
  assumes "b < 128"
  shows "decodeURIComponent (percent_byte b @ r) = map_option ((#) (of_nat b)) (decodeURIComponent r)"
proof -
  have e: "escaped_point (percent_byte b @ r) = Some ([of_nat b], r)"
    using assms percent_octet_byte [of b r] by (simp add: escaped_point_def)
  obtain cs where cs: "percent_byte b @ r = of_char CHR ''%'' # cs" by (metis percent_byte_Cons append_Cons)
  have "(@) [of_nat b] = (#) (of_nat b :: code_unit)" by (rule ext) simp
  then show ?thesis using e unfolding cs by simp
qed

lemma cursor_char_cases:
  assumes "cursor_char u"
  shows "unat u < 128" "\<not> high_surrogate u" "\<not> low_surrogate u" "u \<noteq> of_char CHR ''%''" "u \<noteq> of_char CHR ''|''"
  using assms
  by (auto simp: cursor_char_def alnum_i_def one_of_def js_def in_range_def is_digit_def high_surrogate_def low_surrogate_def
      word_le_nat_alt)

lemma encode_cursor_chars:
  assumes "\<forall>u \<in> set s. cursor_char u"
  shows "\<exists>t. encodeURIComponent s = Some t \<and> decodeURIComponent t = Some s \<and> of_char CHR ''|'' \<notin> set t \<and> length t \<le> 3 * length s"
  using assms
proof (induction s)
  case (Cons u us)
  then obtain t where t: "encodeURIComponent us = Some t" "decodeURIComponent t = Some us" "of_char CHR ''|'' \<notin> set t"
    "length t \<le> 3 * length us" by auto
  note u = cursor_char_cases [of u]
  have cu: "cursor_char u" using Cons.prems by simp
  show ?case
  proof (cases "uri_unreserved u")
    case True
    with t u cu show ?thesis by auto
  next
    case False
    have bytes: "utf8_encode [u] = [unat u]" using u [OF cu] by (simp add: utf8_encode_def utf8_point_def)
    have "unat u div 16 < 16" using u(1) [OF cu] by (simp add: div_less_iff_less_mult)
    then have "of_char CHR ''|'' \<notin> set (percent_byte (unat u))"
      using upper_hex_bar [of "unat u div 16"] upper_hex_bar [of "unat u mod 16"]
      by (auto simp: percent_byte_def js_def simp del: of_char_Char)
    with False t u [OF cu] bytes show ?thesis
      by (intro exI [of _ "percent_byte (unat u) @ t"]) (simp add: decode_escaped, simp add: percent_byte_def)
  qed
qed simp

lemma split_acc_plain: "of_char b \<notin> set s \<Longrightarrow> split_acc (js [b]) acc s = [rev acc @ s]"
  by (induction s arbitrary: acc) (auto simp: js_def)

lemma split_acc_bar:
  "of_char b \<notin> set s \<Longrightarrow> split_acc (js [b]) acc (s @ js [b] @ r) = (rev acc @ s) # split_acc (js [b]) [] r"
  by (induction s arbitrary: acc) (auto simp: js_def)

lemma str_split_bar:
  "of_char CHR ''|'' \<notin> set s \<Longrightarrow> str_split ''|'' (s @ js ''|'' @ r) = s # str_split ''|'' r"
  "of_char CHR ''|'' \<notin> set s \<Longrightarrow> str_split ''|'' s = [s]"
  using split_acc_bar [of "CHR ''|''" s "[]" r] split_acc_plain [of "CHR ''|''" s "[]"] by (simp_all add: str_split_def)

lemma bar_free: "of_char CHR ''|'' \<notin> set (js CURSOR_PREFIX)" "of_char CHR ''|'' \<notin> set (js (order_field_text f))"
  "of_char CHR ''|'' \<notin> set (js (order_direction_text e))"
  by (simp_all add: CURSOR_PREFIX_def order_field_text_def order_direction_text_def js_def
      split: ConversationCatalogOrderField.split ConversationCatalogOrderDirection.split)

lemma primary_key_ok: "descriptor_ok R d \<Longrightarrow> isCanonicalTimestamp (primary_key order d)"
  by (auto simp: primary_key_def descriptor_ok_def split: ConversationCatalogOrderField.splits)

lemma order_of_text:
  "order_of (Some (JStr (js (order_field_text (or_field order))))) (Some (JStr (js (order_direction_text (or_direction order))))) = Inr order"
  by (cases order; cases "or_field order"; cases "or_direction order")
    (auto simp: order_of_def order_field_text_def order_direction_text_def)

lemma text_lengths: "length (order_field_text f) = 10" "length (order_direction_text e) \<le> 4"
  by (simp_all add: order_field_text_def order_direction_text_def
      split: ConversationCatalogOrderField.split ConversationCatalogOrderDirection.split)

lemma canonical_length: "isCanonicalTimestamp s \<Longrightarrow> length s \<le> 32"
  by (simp add: isCanonicalTimestamp_def)

lemma identifier_length: "catalog_identifier_ok s \<Longrightarrow> length s \<le> 256"
  by (simp add: catalog_identifier_ok_def)

lemma cursor_created:
  assumes ok: "descriptor_ok R d"
  obtains c where "createConversationCatalogCursor R d order = Inr c"
    "decodeCursor (Some (JStr c)) order = Inr \<lparr>dk_primary = primary_key order d, dk_conversationId = dc_conversationId d\<rparr>"
    "\<And>order'. order' \<noteq> order \<Longrightarrow> decodeCursor (Some (JStr c)) order' = invalid ActList"
proof -
  have ts: "isCanonicalTimestamp (primary_key order d)" by (rule primary_key_ok [OF ok])
  have ident: "catalog_identifier_ok (dc_conversationId d)" using ok by (simp add: descriptor_ok_def)
  obtain p where p: "encodeURIComponent (primary_key order d) = Some p" "decodeURIComponent p = Some (primary_key order d)"
    "of_char CHR ''|'' \<notin> set p" "length p \<le> 3 * length (primary_key order d)"
    using encode_cursor_chars timestamp_chars [OF ts] by blast
  obtain i where i: "encodeURIComponent (dc_conversationId d) = Some i" "decodeURIComponent i = Some (dc_conversationId d)"
    "of_char CHR ''|'' \<notin> set i" "length i \<le> 3 * length (dc_conversationId d)"
    using encode_cursor_chars identifier_chars [OF ident] by blast
  define c where "c = js CURSOR_PREFIX @ js ''|'' @ js (order_field_text (or_field order)) @ js ''|'' @
    js (order_direction_text (or_direction order)) @ js ''|'' @ p @ js ''|'' @ i"
  have "createConversationCatalogCursor R d order = Inr c"
    by (simp add: createConversationCatalogCursor_def cloneDescriptor_ok [OF ok] p(1) i(1) c_def)
  moreover have parts: "str_split ''|'' c = [js CURSOR_PREFIX, js (order_field_text (or_field order)),
      js (order_direction_text (or_direction order)), p, i]"
    unfolding c_def by (simp only: str_split_bar bar_free p(3) i(3) not_False_eq_True)
  have "length c \<le> 1024"
    using p(4) i(4) canonical_length [OF ts] identifier_length [OF ident] text_lengths(1) [of "or_field order"]
      text_lengths(2) [of "or_direction order"]
    by (simp add: c_def CURSOR_PREFIX_def)
  moreover have "c \<noteq> []" by (simp add: c_def CURSOR_PREFIX_def)
  moreover have "decodeCursorPart p = Some (primary_key order d)" "decodeCursorPart i = Some (dc_conversationId d)"
    using p i by (simp_all add: decodeCursorPart_def)
  ultimately show thesis
    using that [of c] ts ident
    by (simp add: decodeCursor_def parts order_of_text parseTimestamp_def parseIdentifier_def string_checked_def)
qed

text \<open>
  C24: a cursor made from a valid descriptor decodes, under the same order, to the sort key
  and the identity of that descriptor; it is never longer than the accepted length. Under
  another order it is refused.
\<close>

theorem cursor_roundtrip:
  assumes "descriptor_ok R d"
  shows "\<exists>c. createConversationCatalogCursor R d order = Inr c \<and>
    decodeCursor (Some (JStr c)) order = Inr \<lparr>dk_primary = primary_key order d, dk_conversationId = dc_conversationId d\<rparr> \<and>
    (\<forall>order'. order' \<noteq> order \<longrightarrow> decodeCursor (Some (JStr c)) order' = invalid ActList)"
  using cursor_created [OF assms] by metis

section \<open>Paging\<close>

lemma compareKey_antisym: "compareKey p i q j dir = - compareKey q j p i dir"
  by (auto simp: compareKey_def Let_def split: ConversationCatalogOrderDirection.splits)

lemma compare_by_antisym: "compare_by order x y = - compare_by order y x"
  unfolding compare_by_def by (rule compareKey_antisym)

lemma compareKey_le:
  "compareKey p i q j dir \<le> 0 \<longleftrightarrow>
     (if p = q then i \<le> j else case dir of Ascending \<Rightarrow> p < q | Descending \<Rightarrow> q < p)"
  by (auto simp: compareKey_def Let_def split: ConversationCatalogOrderDirection.splits)

interpretation catalog_order: comparison "compare_by order"
proof
  fix x y z
  show "compare_by order y x \<le> 0 \<or> compare_by order x y \<le> 0"
    using compare_by_antisym [of order x y] by linarith
  assume "compare_by order x y \<le> 0" "compare_by order y z \<le> 0"
  then show "compare_by order x z \<le> 0"
    by (auto simp: compare_by_def compareKey_le split: if_splits ConversationCatalogOrderDirection.splits)
qed

lemma compare_by_zero: "compare_by order x y = 0 \<Longrightarrow> dc_conversationId x = dc_conversationId y"
  by (auto simp: compare_by_def compareKey_def Let_def split: if_splits ConversationCatalogOrderDirection.splits)

lemma sorted_strict:
  assumes "distinct (map dc_conversationId ds)"
  shows "sorted_wrt (\<lambda>x y. compare_by order x y < 0) (sort_by (compare_by order) ds)"
proof -
  let ?L = "sort_by (compare_by order) ds"
  have "mset (map dc_conversationId ?L) = mset (map dc_conversationId ds)" by simp
  then have d: "distinct (map dc_conversationId ?L)" using assms by (metis mset_eq_imp_distinct_iff)
  have "sorted_wrt (\<lambda>x y. compare_by order x y \<le> 0) ?L" by (rule catalog_order.sorted_sort_by)
  with d show ?thesis
    unfolding sorted_wrt_iff_nth_less
    by (fastforce simp: distinct_conv_nth less_le dest: compare_by_zero)
qed

lemma filter_after:
  assumes "sorted_wrt (\<lambda>x y. compare_by order x y < 0) xs" "k < length xs"
  shows "filter (\<lambda>d. 0 < compare_by order d (xs ! k)) xs = drop (Suc k) xs"
proof -
  let ?P = "\<lambda>d. 0 < compare_by order d (xs ! k)"
  have "\<forall>d \<in> set (take (Suc k) xs). \<not> 0 < compare_by order d (xs ! k)"
  proof
    fix d assume "d \<in> set (take (Suc k) xs)"
    then obtain j where j: "j \<le> k" "d = xs ! j" using assms(2) by (auto simp: in_set_conv_nth less_Suc_eq_le)
    show "\<not> 0 < compare_by order d (xs ! k)"
    proof (cases "j = k")
      case True
      with j show ?thesis using compare_by_antisym [of order d d] by simp
    next
      case False
      with j assms have "compare_by order d (xs ! k) < 0" by (auto simp: sorted_wrt_iff_nth_less)
      then show ?thesis by simp
    qed
  qed
  then have "filter ?P (take (Suc k) xs) = []" by (simp add: filter_empty_conv)
  moreover have "\<forall>d \<in> set (drop (Suc k) xs). 0 < compare_by order d (xs ! k)"
  proof
    fix d assume "d \<in> set (drop (Suc k) xs)"
    then obtain m where m: "m < length (drop (Suc k) xs)" "d = drop (Suc k) xs ! m" by (metis in_set_conv_nth)
    define j where "j = Suc k + m"
    have j: "k < j" "j < length xs" "d = xs ! j" using m by (simp_all add: j_def)
    then have "compare_by order (xs ! k) d < 0" using assms by (simp add: sorted_wrt_iff_nth_less)
    then show "0 < compare_by order d (xs ! k)" using compare_by_antisym [of order d "xs ! k"] by simp
  qed
  then have "filter ?P (drop (Suc k) xs) = drop (Suc k) xs" by (rule filter_True)
  moreover have "filter ?P xs = filter ?P (take (Suc k) xs) @ filter ?P (drop (Suc k) xs)"
    by (metis append_take_drop_id filter_append)
  ultimately show ?thesis by simp
qed

text \<open>The page that starts at position \<open>k\<close> of the sorted list.\<close>

lemma order_json_parsed: "parseConversationCatalogOrder (Some (order_json order)) = Inr order"
  using order_of_text [of order]
  by (simp add: parseConversationCatalogOrder_def order_json_def catalog_record_def exactKeys_def require_def fld_def)

definition cursor_at :: "(rat \<Rightarrow> js_string) \<Rightarrow> ConversationCatalogDescriptor list \<Rightarrow> ConversationCatalogOrder \<Rightarrow> nat \<Rightarrow> json option \<Rightarrow> bool" where
  "cursor_at R xs order k c \<longleftrightarrow> (if k = 0 then c = None
     else \<exists>t. c = Some (JStr t) \<and> createConversationCatalogCursor R (xs ! (k - 1)) order = Inr t)"

lemma page_at:
  assumes ok: "\<forall>d \<in> set ds. descriptor_ok R d" and ids: "distinct (map dc_conversationId ds)"
    and n: "1 \<le> n" "n \<le> 100" and L: "xs = sort_by (compare_by order) ds" and k: "k \<le> length xs" "cursor_at R xs order k c"
  shows "\<exists>next. paginateConversationCatalogDescriptors R ds (Some (JInt (int n))) (Some (order_json order)) c =
      Inr \<lparr>lr_items = take n (drop k xs), lr_nextCursor = next, lr_hasMore = (k + n < length xs), lr_order = order\<rparr> \<and>
      (k + n < length xs \<longrightarrow> cursor_at R xs order (k + n) (map_option JStr next)) \<and> (\<not> k + n < length xs \<longrightarrow> next = None)"
proof -
  have xs_ok: "\<forall>d \<in> set xs. descriptor_ok R d" using ok L by simp
  have size: "parseConversationCatalogPageSize (Some (JInt (int n))) = Inr n"
    using n safe_int_JInt [of "int n"] by (simp add: parseConversationCatalogPageSize_def MAX_SAFE_INTEGER_def del: safe_int_JInt)
  have copies: "mapE (cloneDescriptor R) ds = Inr ds"
    using ok by (simp add: mapE_Inr_iff list_all2_same cloneDescriptor_ok)
  obtain cur where cur: "(case c of None \<Rightarrow> Inr None | Some c \<Rightarrow> bindE (decodeCursor (Some c) order) (\<lambda>k. Inr (Some k))) = Inr cur"
    "after_cursor order cur xs = drop k xs"
  proof (cases "k = 0")
    case True
    with k that [of None] show ?thesis by (simp add: cursor_at_def after_cursor_def)
  next
    case False
    then obtain t where t: "c = Some (JStr t)" "createConversationCatalogCursor R (xs ! (k - 1)) order = Inr t"
      using k(2) by (auto simp: cursor_at_def)
    have "k - 1 < length xs" using k False by simp
    then have "descriptor_ok R (xs ! (k - 1))" using xs_ok by simp
    from cursor_created [OF this, of order] t(2) have
      "decodeCursor c order = Inr \<lparr>dk_primary = primary_key order (xs ! (k - 1)), dk_conversationId = dc_conversationId (xs ! (k - 1))\<rparr>"
      by (metis t(1) Inr_inject)
    moreover have "filter (\<lambda>d. 0 < compare_by order d (xs ! (k - 1))) xs = drop k xs"
      using filter_after [OF sorted_strict [OF ids], of "k - 1" order, folded L] \<open>k - 1 < length xs\<close> False by simp
    ultimately show ?thesis
      using that [of "Some \<lparr>dk_primary = primary_key order (xs ! (k - 1)), dk_conversationId = dc_conversationId (xs ! (k - 1))\<rparr>"] t(1)
      by (simp add: after_cursor_def compare_by_def)
  qed
  let ?page = "take n (drop k xs)"
  show ?thesis
  proof (cases "k + n < length xs")
    case True
    have last: "last ?page = xs ! (k + n - 1)" using True n by (simp add: last_conv_nth)
    have "descriptor_ok R (xs ! (k + n - 1))" using True xs_ok by simp
    then obtain t where t: "createConversationCatalogCursor R (xs ! (k + n - 1)) order = Inr t"
      using cursor_created by metis
    have "?page \<noteq> []" using True n by simp
    with True t n show ?thesis
      unfolding paginateConversationCatalogDescriptors_def size order_json_parsed copies
      by (simp add: cur L [symmetric] last cursor_at_def Let_def)
  next
    case False
    then have "\<not> n < length xs - k" by simp
    then show ?thesis
      unfolding paginateConversationCatalogDescriptors_def size order_json_parsed copies
      using False by (simp add: cur L [symmetric] Let_def)
  qed
qed

text \<open>Reading page after page: each next request carries the cursor of the page before.\<close>

fun walk_pages :: "nat \<Rightarrow> (json option \<Rightarrow> catalog_failure + ListConversationsResult) \<Rightarrow> json option \<Rightarrow>
    (catalog_failure + ConversationCatalogDescriptor list) option" where
  "walk_pages 0 page cursor = None"
| "walk_pages (Suc fuel) page cursor = (case page cursor of
     Inl e \<Rightarrow> Some (Inl e)
   | Inr r \<Rightarrow> if \<not> lr_hasMore r then Some (Inr (lr_items r))
       else map_option (\<lambda>x. bindE x (\<lambda>rest. Inr (lr_items r @ rest)))
         (walk_pages fuel page (map_option JStr (lr_nextCursor r))))"

lemma walk_from:
  assumes ok: "\<forall>d \<in> set ds. descriptor_ok R d" and ids: "distinct (map dc_conversationId ds)"
    and n: "1 \<le> n" "n \<le> 100" and L: "xs = sort_by (compare_by order) ds"
  shows "k \<le> length xs \<Longrightarrow> cursor_at R xs order k c \<Longrightarrow> length xs - k < fuel \<Longrightarrow>
    walk_pages fuel (paginateConversationCatalogDescriptors R ds (Some (JInt (int n))) (Some (order_json order))) c =
      Some (Inr (drop k xs))"
proof (induction fuel arbitrary: k c)
  case (Suc fuel)
  from page_at [OF ok ids n L Suc.prems(1,2)] obtain nextc where
    page: "paginateConversationCatalogDescriptors R ds (Some (JInt (int n))) (Some (order_json order)) c =
      Inr \<lparr>lr_items = take n (drop k xs), lr_nextCursor = nextc, lr_hasMore = (k + n < length xs), lr_order = order\<rparr>"
    and more: "k + n < length xs \<longrightarrow> cursor_at R xs order (k + n) (map_option JStr nextc)" by blast
  show ?case
  proof (cases "k + n < length xs")
    case True
    have "walk_pages fuel (paginateConversationCatalogDescriptors R ds (Some (JInt (int n))) (Some (order_json order)))
        (map_option JStr nextc) = Some (Inr (drop (k + n) xs))"
      by (rule Suc.IH) (use True more Suc.prems n in auto)
    moreover have "take n (drop k xs) @ drop (k + n) xs = drop k xs" by (metis append_take_drop_id drop_drop add.commute)
    ultimately show ?thesis using True unfolding walk_pages.simps page by simp
  next
    case False
    then show ?thesis unfolding walk_pages.simps page by simp
  qed
qed simp

text \<open>
  C25: for every page size and order, reading a catalog page by page with the cursors it
  returns ends after finitely many requests and lists every descriptor exactly once, sorted by
  the requested time and then by identity.
\<close>

theorem paging_complete:
  assumes "\<forall>d \<in> set ds. descriptor_ok R d" "distinct (map dc_conversationId ds)" "1 \<le> n" "n \<le> 100" "length ds < fuel"
  shows "\<exists>xs. walk_pages fuel (paginateConversationCatalogDescriptors R ds (Some (JInt (int n))) (Some (order_json order))) None =
      Some (Inr xs) \<and> mset xs = mset ds \<and> sorted_wrt (\<lambda>x y. compare_by order x y < 0) xs"
proof -
  have "walk_pages fuel (paginateConversationCatalogDescriptors R ds (Some (JInt (int n))) (Some (order_json order))) None =
      Some (Inr (drop 0 (sort_by (compare_by order) ds)))"
    by (rule walk_from [OF assms(1-4) refl]) (use assms(5) in \<open>simp_all add: cursor_at_def\<close>)
  with sorted_strict [OF assms(2), of order] show ?thesis by simp
qed

section \<open>Sample descriptors\<close>

definition sample_descriptor :: "string \<Rightarrow> ConversationCatalogDescriptor" where
  "sample_descriptor i = \<lparr>dc_conversationId = js i, dc_title = Some (js ''T''), dc_createdAt = js ''1970-01-01T00:00:00.000Z'',
     dc_updatedAt = js ''1970-01-01T00:00:00.000Z'', dc_version = 1, dc_lifecycle = Active, dc_metadata = []\<rparr>"

lemma sample_instant: "isCanonicalTimestamp (js ''1970-01-01T00:00:00.000Z'')"
  by code_simp

lemma sample_metadata: "metadata_ok (\<lambda>_. []) []"
proof -
  have "visit_metadata ActGet 0 0 (JObj []) = Inr (1, JObj [])" by simp
  moreover have "utf8ByteLength (stringify (\<lambda>_. []) (JObj [])) \<le> 4096" by code_simp
  ultimately show ?thesis unfolding metadata_ok_def by blast
qed

lemma sample_ok: "i \<in> {''a'', ''b''} \<Longrightarrow> descriptor_ok (\<lambda>_. []) (sample_descriptor i)"
proof -
  have "catalog_identifier_ok (js ''a'')" "catalog_identifier_ok (js ''b'')" "catalog_title_ok (js ''T'')" "trim (js ''T'') = js ''T''"
    by code_simp+
  then show "i \<in> {''a'', ''b''} \<Longrightarrow> ?thesis"
    by (auto simp: descriptor_ok_def sample_descriptor_def sample_instant sample_metadata MAX_SAFE_INTEGER_def)
qed

theorem descriptor_roundtrip_witness: "descriptor_ok (\<lambda>_. []) (sample_descriptor ''a'')"
  using descriptor_roundtrip [of "\<lambda>_. []" "descriptor_json (sample_descriptor ''a'')" "sample_descriptor ''a''"]
    cloneDescriptor_ok [OF sample_ok, of "''a''"] by (simp add: cloneDescriptor_def)

theorem cursor_roundtrip_witness:
  "\<exists>c. createConversationCatalogCursor (\<lambda>_. []) (sample_descriptor ''a'') DEFAULT_CONVERSATION_CATALOG_ORDER = Inr c \<and>
     decodeCursor (Some (JStr c)) \<lparr>or_field = CreatedAt, or_direction = Ascending\<rparr> = invalid ActList"
proof -
  have "\<lparr>or_field = CreatedAt, or_direction = Ascending\<rparr> \<noteq> DEFAULT_CONVERSATION_CATALOG_ORDER"
    by (simp add: DEFAULT_CONVERSATION_CATALOG_ORDER_def)
  then show ?thesis
    using cursor_roundtrip [OF sample_ok, of "''a''" DEFAULT_CONVERSATION_CATALOG_ORDER] by auto
qed

theorem paging_complete_witness:
  "\<exists>xs. walk_pages 3 (paginateConversationCatalogDescriptors (\<lambda>_. []) [sample_descriptor ''b'', sample_descriptor ''a'']
     (Some (JInt (int 1))) (Some (order_json DEFAULT_CONVERSATION_CATALOG_ORDER))) None = Some (Inr xs) \<and>
     mset xs = mset [sample_descriptor ''b'', sample_descriptor ''a'']"
  using paging_complete [of "[sample_descriptor ''b'', sample_descriptor ''a'']" "\<lambda>_. []" 1 3 DEFAULT_CONVERSATION_CATALOG_ORDER]
    sample_ok [of "''a''"] sample_ok [of "''b''"] by (auto simp: sample_descriptor_def)

end
