(* ===== verification/InMemoryCatalogProperties.thy ===== *)
theory InMemoryCatalogProperties
  imports InMemoryCatalog CatalogProperties
begin

text \<open>
  The in-memory catalog keeps its capacities, moves a conversation through its lifecycle one
  version at a time, answers a repeated request from its record, and never brings a deleted
  conversation back.
\<close>

section \<open>The invariant\<close>

definition result_ok :: "(rat \<Rightarrow> js_string) \<Rightarrow> CatalogIdempotencyResult \<Rightarrow> bool" where
  "result_ok R r = (case r of DescriptorResult _ _ d \<Rightarrow> descriptor_ok R d | DeletionResult _ _ _ \<Rightarrow> True)"

definition catalog_ok :: "(rat \<Rightarrow> js_string) \<Rightarrow> InMemoryConversationCatalog \<Rightarrow> bool" where
  "catalog_ok R s \<longleftrightarrow>
     0 < maxRecords (ic_limits s) \<and> 0 < maxTombstones (ic_limits s) \<and> 0 < maxIdempotencyEntries (ic_limits s) \<and>
     distinct (map fst (ic_records s)) \<and> int (length (ic_records s)) \<le> maxRecords (ic_limits s) \<and>
     (\<forall>(k, d) \<in> set (ic_records s). dc_conversationId d = k \<and> descriptor_ok R d) \<and>
     int (length (ic_tombstones s)) \<le> maxTombstones (ic_limits s) \<and>
     fst ` set (ic_records s) \<inter> fst ` set (ic_tombstones s) = {} \<and>
     distinct (map fst (ic_idempotency s)) \<and> int (length (ic_idempotency s)) \<le> maxIdempotencyEntries (ic_limits s) \<and>
     (\<forall>(k, r) \<in> set (ic_idempotency s). result_ok R (cr_result r))"

lemma created_catalog_ok: "createCatalog limits = Some s \<Longrightarrow> catalog_ok R s"
  by (auto simp: createCatalog_def resolveCatalogLimits_def catalog_ok_def split: if_splits)

lemma cloneResult_ok: "result_ok R r \<Longrightarrow> cloneResult R r = Inr r"
  by (cases r) (simp_all add: cloneResult_def result_ok_def cloneDescriptor_ok)

lemma record_at: "catalog_ok R s \<Longrightarrow> map_of (ic_records s) k = Some d \<Longrightarrow> dc_conversationId d = k \<and> descriptor_ok R d"
  by (auto simp: catalog_ok_def dest!: map_of_SomeD)

lemma kept_at: "catalog_ok R s \<Longrightarrow> map_of (ic_idempotency s) k = Some r \<Longrightarrow> result_ok R (cr_result r)"
  by (auto simp: catalog_ok_def dest!: map_of_SomeD)

text \<open>The answer to a repeated request is the first one, marked as such.\<close>

definition replayed :: "CatalogIdempotencyResult \<Rightarrow> CatalogIdempotencyResult" where
  "replayed r = (case r of DescriptorResult operation _ d \<Rightarrow> DescriptorResult operation Replayed d
     | DeletionResult _ cid version \<Rightarrow> DeletionResult Replayed cid version)"

lemma cloneIdempotentResult_ok: "result_ok R r \<Longrightarrow> cloneIdempotentResult R r = Inr (replayed r)"
  by (cases r) (simp_all add: cloneIdempotentResult_def replayed_def cloneResult_ok result_ok_def)

section \<open>What a body has done\<close>

definition file_answer :: "js_string \<Rightarrow> ConversationCatalogAuthorizationAction \<Rightarrow> js_string \<Rightarrow> CatalogIdempotencyResult \<Rightarrow>
    InMemoryConversationCatalog \<Rightarrow> InMemoryConversationCatalog" where
  "file_answer key operation signature result s = s\<lparr>ic_idempotency := retain (maxIdempotencyEntries (ic_limits s)) key
     \<lparr>cr_operation = operation, cr_signature = signature, cr_result = result\<rparr> (ic_idempotency s)\<rparr>"

lemma unless_replayed_cases:
  assumes "catalog_ok R s" "unless_replayed R operation key signature body s = Inr (result, s')"
  obtains (replay) rec where "s' = s" "map_of (ic_idempotency s) key = Some rec" "result = replayed (cr_result rec)"
  | (run) "map_of (ic_idempotency s) key = None" "body s = Inr (result, s')"
proof (cases "map_of (ic_idempotency s) key")
  case None
  with assms(2) run show thesis by (simp add: unless_replayed_def InMemoryCatalog.replay_def)
next
  case (Some rec)
  with assms(2) cloneIdempotentResult_ok [OF kept_at [OF assms(1) Some]] replay show thesis
    by (auto simp: unless_replayed_def InMemoryCatalog.replay_def split: if_splits)
qed

lemma replace_record_Inr:
  assumes "replace_record R operation status key signature expected d s = Inr (result, s')"
  shows "\<exists>e. e = d\<lparr>dc_title := map_option trim (dc_title d)\<rparr> \<and> descriptor_ok R e \<and> expected e \<and>
    result = DescriptorResult operation status e \<and> s' = file_answer key operation signature result (set_record e s)"
proof -
  from assms obtain e where e: "cloneDescriptor R d = Inr e" "expected e"
    "bindE (cloneResult R (DescriptorResult operation status e)) (\<lambda>r. commit R key operation signature r (set_record e s)) = Inr (result, s')"
    by (auto simp: replace_record_def bindE_Inr_iff split: if_splits)
  have "result_ok R (DescriptorResult operation status e)"
    using cloneDescriptor_Inr(1) [OF e(1)] by (simp add: result_ok_def)
  with e(3) cloneDescriptor_Inr [OF e(1)] e(2) show ?thesis
    by (auto simp: cloneResult_ok commit_def file_answer_def bindE_Inr_iff set_record_def)
qed

text \<open>The common form of the four requests that replace a descriptor.\<close>

definition replacing :: "(rat \<Rightarrow> js_string) \<Rightarrow> ConversationCatalogAuthorizationAction \<Rightarrow> catalog_status \<Rightarrow> js_string \<Rightarrow>
    (ConversationCatalogDescriptor \<Rightarrow> bool) \<Rightarrow> (ConversationCatalogDescriptor \<Rightarrow> bool) \<Rightarrow>
    (js_string \<Rightarrow> ConversationCatalogDescriptor \<Rightarrow> ConversationCatalogDescriptor) \<Rightarrow> js_string option \<Rightarrow>
    'p ConversationCatalogMutationInput \<Rightarrow> catalog_step" where
  "replacing R operation status signature guard expected change clock input =
     unless_replayed R operation (mv_idempotencyKey input) signature (\<lambda>s.
       bindE (current_record input operation s) (\<lambda>current.
       if \<not> guard current then Inl (catalogError CatNotFound operation)
       else bindE (catalog_now clock operation (Some (dc_updatedAt current))) (\<lambda>now.
         bindE (nextVersion (dc_version current) operation) (\<lambda>version.
         replace_record R operation status (mv_idempotencyKey input) signature expected
           ((change now current)\<lparr>dc_updatedAt := now, dc_version := version\<rparr>) s))))"

lemma body_forms:
  "rename_body R clock input title = replacing R ActRename Updated (rename_signature R input title) (\<lambda>_. True) (\<lambda>_. True)
     (\<lambda>_ d. d\<lparr>dc_title := Some title\<rparr>) clock input"
  "clear_body R clock input = replacing R ActClear Cleared (mutation_signature R ActClear input) is_active is_active
     (\<lambda>_ d. d) clock input"
  "archive_body R clock input = replacing R ActArchive IsArchived (mutation_signature R ActArchive input) is_active (\<lambda>d. \<not> is_active d)
     (\<lambda>now d. d\<lparr>dc_lifecycle := Archived now\<rparr>) clock input"
  "restore_body R clock input = replacing R ActRestore Restored (mutation_signature R ActRestore input) (\<lambda>d. \<not> is_active d) is_active
     (\<lambda>_ d. d\<lparr>dc_lifecycle := Active\<rparr>) clock input"
  by (simp_all add: rename_body_def clear_body_def archive_body_def restore_body_def replacing_def Let_def)

lemma current_record_Inr:
  "current_record input operation s = Inr d \<longleftrightarrow> map_of (ic_records s) (mv_conversationId input) = Some d \<and>
     dc_version d = mv_expectedVersion input"
  by (auto simp: current_record_def split: option.splits if_splits)

lemma catalog_now_Inr:
  "catalog_now clock operation minimum = Inr t \<longleftrightarrow> clock = Some t \<and> isCanonicalTimestamp t \<and>
     (case minimum of None \<Rightarrow> True | Some m \<Rightarrow> m \<le> t)"
  by (auto simp: catalog_now_def not_less split: option.splits if_splits)

lemma replacing_cases:
  assumes "catalog_ok R s" "replacing R operation status signature guard expected change clock input s = Inr (result, s')"
  obtains (replay) rec where "s' = s" "map_of (ic_idempotency s) (mv_idempotencyKey input) = Some rec" "result = replayed (cr_result rec)"
  | (put) current now e where "map_of (ic_idempotency s) (mv_idempotencyKey input) = None"
      "map_of (ic_records s) (mv_conversationId input) = Some current" "dc_version current = mv_expectedVersion input"
      "guard current" "clock = Some now" "dc_updatedAt current \<le> now"
      "e = (change now current)\<lparr>dc_title := map_option trim (dc_title (change now current)), dc_updatedAt := now,
        dc_version := dc_version current + 1\<rparr>"
      "descriptor_ok R e" "expected e" "result = DescriptorResult operation status e"
      "s' = file_answer (mv_idempotencyKey input) operation signature result (set_record e s)"
proof (rule unless_replayed_cases [OF assms(1) assms(2) [unfolded replacing_def]])
  assume none: "map_of (ic_idempotency s) (mv_idempotencyKey input) = None"
    and body: "bindE (current_record input operation s) (\<lambda>current.
       if \<not> guard current then Inl (catalogError CatNotFound operation)
       else bindE (catalog_now clock operation (Some (dc_updatedAt current))) (\<lambda>now.
         bindE (nextVersion (dc_version current) operation) (\<lambda>version.
         replace_record R operation status (mv_idempotencyKey input) signature expected
           ((change now current)\<lparr>dc_updatedAt := now, dc_version := version\<rparr>) s))) = Inr (result, s')"
  then obtain current now version where c: "current_record input operation s = Inr current" "guard current"
    "catalog_now clock operation (Some (dc_updatedAt current)) = Inr now" "nextVersion (dc_version current) operation = Inr version"
    "replace_record R operation status (mv_idempotencyKey input) signature expected
      ((change now current)\<lparr>dc_updatedAt := now, dc_version := version\<rparr>) s = Inr (result, s')"
    by (auto simp: bindE_Inr_iff split: if_splits)
  then have "version = dc_version current + 1" by (auto simp: nextVersion_def split: if_splits)
  with c none replace_record_Inr [OF c(5)] show thesis
    by (intro put [of current now]) (auto simp: current_record_Inr catalog_now_Inr)
qed (rule replay)

lemma create_conversation_cases:
  assumes "catalog_ok R s" "create_conversation_body R clock factory input s = Inr (result, s')"
  obtains (replay) rec where "s' = s" "map_of (ic_idempotency s) (cv_idempotencyKey input) = Some rec" "result = replayed (cr_result rec)"
  | (put) now e where "map_of (ic_idempotency s) (cv_idempotencyKey input) = None"
      "int (length (ic_records s)) < maxRecords (ic_limits s)" "clock = Some now"
      "map_of (ic_records s) (dc_conversationId e) = None" "map_of (ic_tombstones s) (dc_conversationId e) = None"
      "dc_version e = 1" "dc_lifecycle e = Active" "dc_createdAt e = now" "dc_updatedAt e = now"
      "descriptor_ok R e" "result = DescriptorResult ActCreate Created e"
      "s' = file_answer (cv_idempotencyKey input) ActCreate (create_signature R input) result (set_record e s)"
proof (rule unless_replayed_cases [OF assms(1) assms(2) [unfolded create_conversation_body_def Let_def]])
  assume none: "map_of (ic_idempotency s) (cv_idempotencyKey input) = None"
    and body: "(if maxRecords (ic_limits s) \<le> int (length (ic_records s)) then Inl (catalogError CatUnavailable ActCreate)
       else bindE (case cv_conversationId input of None \<Rightarrow> generatedId factory | Some x \<Rightarrow> Inr x) (\<lambda>cid.
         if map_of (ic_records s) cid \<noteq> None \<or> map_of (ic_tombstones s) cid \<noteq> None
         then Inl (catalogError CatIdempotencyConflict ActCreate)
         else bindE (catalog_now clock ActCreate None) (\<lambda>now.
           replace_record R ActCreate Created (cv_idempotencyKey input) (create_signature R input) is_active
             \<lparr>dc_conversationId = cid, dc_title = cv_title input, dc_createdAt = now, dc_updatedAt = now, dc_version = 1,
              dc_lifecycle = Active, dc_metadata = coalesce (cv_metadata input) []\<rparr> s))) = Inr (result, s')"
  then obtain cid now where c: "map_of (ic_records s) cid = None" "map_of (ic_tombstones s) cid = None" "clock = Some now"
    "replace_record R ActCreate Created (cv_idempotencyKey input) (create_signature R input) is_active
       \<lparr>dc_conversationId = cid, dc_title = cv_title input, dc_createdAt = now, dc_updatedAt = now, dc_version = 1,
        dc_lifecycle = Active, dc_metadata = coalesce (cv_metadata input) []\<rparr> s = Inr (result, s')"
    by (auto simp: bindE_Inr_iff catalog_now_Inr split: if_splits)
  have room: "int (length (ic_records s)) < maxRecords (ic_limits s)" using body by (auto split: if_splits)
  from replace_record_Inr [OF c(4)] obtain e where
    e: "e = \<lparr>dc_conversationId = cid, dc_title = map_option trim (cv_title input), dc_createdAt = now, dc_updatedAt = now,
        dc_version = 1, dc_lifecycle = Active, dc_metadata = coalesce (cv_metadata input) []\<rparr>"
      "descriptor_ok R e" "result = DescriptorResult ActCreate Created e"
      "s' = file_answer (cv_idempotencyKey input) ActCreate (create_signature R input) result (set_record e s)" by auto
  show thesis
    by (rule put [of now e]) (use none room c e in simp_all)
qed (rule replay)

lemma delete_cases:
  assumes "catalog_ok R s" "delete_body R input s = Inr (result, s')"
  obtains (replay) rec where "s' = s" "map_of (ic_idempotency s) (mv_idempotencyKey input) = Some rec" "result = replayed (cr_result rec)"
  | (remove) current where "map_of (ic_idempotency s) (mv_idempotencyKey input) = None"
      "map_of (ic_records s) (mv_conversationId input) = Some current" "dc_version current = mv_expectedVersion input"
      "int (length (ic_tombstones s)) < maxTombstones (ic_limits s)"
      "result = DeletionResult Deleted (mv_conversationId input) (dc_version current)"
      "s' = file_answer (mv_idempotencyKey input) ActPermanentDelete (mutation_signature R ActPermanentDelete input) result
        (s\<lparr>ic_records := AList.delete (mv_conversationId input) (ic_records s),
           ic_tombstones := AList.update (mv_conversationId input) result (ic_tombstones s)\<rparr>)"
proof (rule unless_replayed_cases [OF assms(1) assms(2) [unfolded delete_body_def Let_def]])
  assume none: "map_of (ic_idempotency s) (mv_idempotencyKey input) = None"
    and body: "bindE (current_record input ActPermanentDelete s) (\<lambda>current.
       if maxTombstones (ic_limits s) \<le> int (length (ic_tombstones s))
       then Inl (catalogError CatUnavailable ActPermanentDelete)
       else bindE (cloneResult R (DeletionResult Deleted (dc_conversationId current) (dc_version current))) (\<lambda>result.
         commit R (mv_idempotencyKey input) ActPermanentDelete (mutation_signature R ActPermanentDelete input) result
           (s\<lparr>ic_records := AList.delete (dc_conversationId current) (ic_records s),
              ic_tombstones := AList.update (dc_conversationId current) result (ic_tombstones s)\<rparr>))) = Inr (result, s')"
  then obtain current where c: "map_of (ic_records s) (mv_conversationId input) = Some current" "dc_version current = mv_expectedVersion input"
    by (auto simp: bindE_Inr_iff current_record_Inr)
  with record_at [OF assms(1) c(1)] none body show thesis
    by (intro remove [of current])
      (auto simp: bindE_Inr_iff current_record_Inr cloneResult_def commit_def file_answer_def split: if_splits)
qed (rule replay)

section \<open>Preservation\<close>

lemma file_answer_ok:
  assumes "catalog_ok R s" "result_ok R r"
  shows "catalog_ok R (file_answer key a sig r s)"
proof -
  let ?rec = "\<lparr>cr_operation = a, cr_signature = sig, cr_result = r\<rparr>"
  let ?new = "retain (maxIdempotencyEntries (ic_limits s)) key ?rec (ic_idempotency s)"
  have "set ?new \<subseteq> insert (key, ?rec) (set (ic_idempotency s))" by (rule retain_set)
  moreover have "int (length ?new) \<le> maxIdempotencyEntries (ic_limits s)" "distinct (map fst ?new)"
    using assms(1) by (simp_all add: catalog_ok_def retain_bounded retain_distinct)
  ultimately show ?thesis using assms by (auto simp: catalog_ok_def file_answer_def)
qed

lemma still_apart: "A \<subseteq> insert x B \<Longrightarrow> x \<notin> C \<Longrightarrow> B \<inter> C = {} \<Longrightarrow> A \<inter> C = {}"
  by blast

lemma set_record_ok:
  assumes ok: "catalog_ok R s" and e: "descriptor_ok R e"
    and room: "dc_conversationId e \<in> fst ` set (ic_records s) \<or>
      int (length (ic_records s)) < maxRecords (ic_limits s) \<and> map_of (ic_tombstones s) (dc_conversationId e) = None"
  shows "catalog_ok R (set_record e s)"
proof -
  let ?new = "AList.update (dc_conversationId e) e (ic_records s)"
  have disj: "fst ` set (ic_records s) \<inter> fst ` set (ic_tombstones s) = {}" using ok by (simp add: catalog_ok_def)
  have ok_rows: "\<forall>(k, d) \<in> set (ic_records s). dc_conversationId d = k \<and> descriptor_ok R d"
    using ok by (simp add: catalog_ok_def)
  have sub: "set ?new \<subseteq> insert (dc_conversationId e, e) (set (ic_records s))" by (rule set_update_subset)
  have keys: "fst ` set ?new \<subseteq> insert (dc_conversationId e) (fst ` set (ic_records s))"
    using image_mono [OF sub, of fst] by simp
  have "dc_conversationId e \<notin> fst ` set (ic_tombstones s)"
    using room
  proof
    assume "dc_conversationId e \<in> fst ` set (ic_records s)"
    with disj show ?thesis by blast
  qed (simp add: map_of_eq_None_iff)
  note apart = still_apart [OF keys this disj]
  have rows: "\<forall>(k, d) \<in> set ?new. dc_conversationId d = k \<and> descriptor_ok R d"
    using sub e ok_rows by blast
  have "int (length ?new) \<le> maxRecords (ic_limits s)"
    using ok room by (auto simp: length_update catalog_ok_def)
  with ok apart rows show ?thesis by (simp add: catalog_ok_def set_record_def distinct_update)
qed

lemma remove_ok:
  assumes ok: "catalog_ok R s" and room: "int (length (ic_tombstones s)) < maxTombstones (ic_limits s)"
  shows "catalog_ok R (s\<lparr>ic_records := AList.delete k (ic_records s), ic_tombstones := AList.update k r (ic_tombstones s)\<rparr>)"
proof -
  let ?rest = "AList.delete k (ic_records s)" and ?gone = "AList.update k r (ic_tombstones s)"
  have disj: "fst ` set (ic_records s) \<inter> fst ` set (ic_tombstones s) = {}" using ok by (simp add: catalog_ok_def)
  have rest: "set ?rest = {p \<in> set (ic_records s). fst p \<noteq> k}" by (auto simp: AList.delete_eq)
  have "fst ` set ?gone \<subseteq> insert k (fst ` set (ic_tombstones s))"
    using set_update_subset [of k r "ic_tombstones s"] by force
  moreover have "fst ` set ?rest \<subseteq> fst ` set (ic_records s) - {k}" using rest by auto
  ultimately have "fst ` set ?rest \<inter> fst ` set ?gone = {}"
    using disj by blast
  moreover have "\<forall>(k, d) \<in> set ?rest. dc_conversationId d = k \<and> descriptor_ok R d"
    using ok unfolding rest catalog_ok_def by auto
  moreover have "length ?rest \<le> length (ic_records s)" by (simp add: AList.delete_eq)
  moreover have "int (length ?gone) \<le> maxTombstones (ic_limits s)" using room by (simp add: length_update)
  ultimately show ?thesis using ok by (simp add: catalog_ok_def distinct_delete)
qed

lemma replacing_ok:
  assumes ok: "catalog_ok R s" and keep: "\<And>now d. dc_conversationId (change now d) = dc_conversationId d"
    and body: "replacing R operation status signature guard expected change clock input s = Inr (result, s')"
  shows "catalog_ok R s'"
  using ok body
proof (cases rule: replacing_cases)
  case (put current now e)
  have "dc_conversationId e = mv_conversationId input" using record_at [OF ok put(2)] keep by (simp add: put(7))
  moreover have "mv_conversationId input \<in> fst ` set (ic_records s)" using put(2) by (force dest: map_of_SomeD)
  ultimately show ?thesis
    unfolding put(11) using put(8) put(10) ok
    by (intro file_answer_ok set_record_ok) (simp_all add: result_ok_def)
qed (use ok in simp)

lemma create_conversation_ok:
  assumes ok: "catalog_ok R s" and body: "create_conversation_body R clock factory input s = Inr (result, s')"
  shows "catalog_ok R s'"
  using ok body
proof (cases rule: create_conversation_cases)
  case (put now e)
  show ?thesis
    unfolding put(12) using put(2,5,10,11) ok
    by (intro file_answer_ok set_record_ok) (simp_all add: result_ok_def)
qed (use ok in simp)

lemma delete_ok:
  assumes ok: "catalog_ok R s" and body: "delete_body R input s = Inr (result, s')"
  shows "catalog_ok R s'"
  using ok body
proof (cases rule: delete_cases)
  case (remove current)
  show ?thesis
    unfolding remove(6) by (intro file_answer_ok remove_ok [OF ok remove(4)]) (simp add: remove(5) result_ok_def)
qed (use ok in simp)

section \<open>Runs of the catalog\<close>

text \<open>One accepted request, as its caller made it.\<close>

inductive catalog_accepts :: "(rat \<Rightarrow> js_string) \<Rightarrow> 'p catalog_authorizer \<Rightarrow> InMemoryConversationCatalog \<Rightarrow>
    InMemoryConversationCatalog \<Rightarrow> bool" for R host where
  create: "create_conversation R host clock factory value s = Inr (result, s') \<Longrightarrow> catalog_accepts R host s s'"
| rename: "rename_conversation R host clock value s = Inr (result, s') \<Longrightarrow> catalog_accepts R host s s'"
| clear: "clear_conversation R host clock value s = Inr (result, s') \<Longrightarrow> catalog_accepts R host s s'"
| archive: "archive_conversation R host clock value s = Inr (result, s') \<Longrightarrow> catalog_accepts R host s s'"
| restore: "restore_conversation R host clock value s = Inr (result, s') \<Longrightarrow> catalog_accepts R host s s'"
| delete: "permanentlyDelete R host value s = Inr (result, s') \<Longrightarrow> catalog_accepts R host s s'"

text \<open>Behind the parsing and the authorisation there are six bodies.\<close>

lemma catalog_accepts_bodies:
  fixes host :: "'p catalog_authorizer"
  assumes "catalog_accepts R host s s'"
  obtains (create) clock factory and input :: "'p CreateConversationInput" and result where "create_conversation_body R clock factory input s = Inr (result, s')"
  | (update) operation status signature guard expected change clock and input :: "'p ConversationCatalogMutationInput" and result
      where "replacing R operation status signature guard expected change clock input s = Inr (result, s')"
        "\<And>now d. dc_conversationId (change now d) = dc_conversationId d"
  | (delete) input :: "'p ConversationCatalogMutationInput" and result where "delete_body R input s = Inr (result, s')"
  using assms
proof cases
  case (create clock factory raw result)
  then show thesis using that(1) by (auto simp: create_conversation_def bindE_Inr_iff)
next
  case (rename clock raw result)
  then obtain input :: "'p ConversationCatalogMutationInput" and title where "rename_body R clock input title s = Inr (result, s')"
    by (auto simp: rename_conversation_def bindE_Inr_iff)
  then show thesis unfolding body_forms by (rule that(2)) simp
next
  case (clear clock raw result)
  then obtain input :: "'p ConversationCatalogMutationInput" where "clear_body R clock input s = Inr (result, s')"
    by (auto simp: clear_conversation_def plain_mutation_def bindE_Inr_iff)
  then show thesis unfolding body_forms by (rule that(2)) simp
next
  case (archive clock raw result)
  then obtain input :: "'p ConversationCatalogMutationInput" where "archive_body R clock input s = Inr (result, s')"
    by (auto simp: archive_conversation_def plain_mutation_def bindE_Inr_iff)
  then show thesis unfolding body_forms by (rule that(2)) simp
next
  case (restore clock raw result)
  then obtain input :: "'p ConversationCatalogMutationInput" where "restore_body R clock input s = Inr (result, s')"
    by (auto simp: restore_conversation_def plain_mutation_def bindE_Inr_iff)
  then show thesis unfolding body_forms by (rule that(2)) simp
next
  case (delete raw result)
  then show thesis using that(3) by (auto simp: permanentlyDelete_def plain_mutation_def bindE_Inr_iff)
qed

lemma filed_answer_keeps:
  assumes "catalog_ok R s" "map_of (ic_idempotency s) key = None" "map_of (ic_idempotency s) k = Some r"
    and "ic_idempotency t = ic_idempotency s"
  shows "map_of (ic_idempotency (file_answer key a sig res t)) k = Some r \<or>
    map_of (ic_idempotency (file_answer key a sig res t)) k = None"
proof -
  have "distinct (map fst (ic_idempotency s))" using assms(1) by (simp add: catalog_ok_def)
  moreover have "k \<noteq> key" using assms(2,3) by auto
  ultimately show ?thesis using assms(3) by (simp add: file_answer_def assms(4) retain_keeps del: not_Some_eq not_None_eq)
qed

interpretation catalog_records: request_records "catalog_ok R" "\<lambda>s. map_of (ic_idempotency s)" "catalog_accepts R host"
proof
  fix s s' k r
  assume ok: "catalog_ok R s" and step: "catalog_accepts R host s s'"
  from step show "catalog_ok R s'"
  proof (cases rule: catalog_accepts_bodies)
    case (create clock factory input result)
    then show ?thesis by (rule create_conversation_ok [OF ok])
  next
    case (update operation status signature guard expected change clock input result)
    then show ?thesis using replacing_ok [OF ok] by blast
  next
    case (delete input result)
    then show ?thesis by (rule delete_ok [OF ok])
  qed
  assume r: "map_of (ic_idempotency s) k = Some r"
  have same: "ic_idempotency (set_record e s) = ic_idempotency s" for e by (simp add: set_record_def)
  from step show "map_of (ic_idempotency s') k = Some r \<or> map_of (ic_idempotency s') k = None"
  proof (cases rule: catalog_accepts_bodies)
    case (create clock factory input result)
    with ok show ?thesis
    proof (cases rule: create_conversation_cases)
      case (put now e)
      show ?thesis unfolding put(12) by (rule filed_answer_keeps [OF ok put(1) r same])
    qed (use r in simp)
  next
    case (update operation status signature guard expected change clock input result)
    from ok update(1) show ?thesis
    proof (cases rule: replacing_cases)
      case (put current now e)
      show ?thesis unfolding put(11) by (rule filed_answer_keeps [OF ok put(1) r same])
    qed (use r in simp)
  next
    case (delete input result)
    with ok show ?thesis
    proof (cases rule: delete_cases)
      case (remove current)
      show ?thesis unfolding remove(6) by (rule filed_answer_keeps [OF ok remove(1) r]) simp
    qed (use r in simp)
  qed
qed

definition catalog_reach :: "(rat \<Rightarrow> js_string) \<Rightarrow> 'p catalog_authorizer \<Rightarrow> InMemoryConversationCatalog \<Rightarrow> bool" where
  "catalog_reach R host s \<longleftrightarrow> (\<exists>limits s0. createCatalog limits = Some s0 \<and> (catalog_accepts R host)\<^sup>*\<^sup>* s0 s)"

text \<open>
  C26: every catalog that requests can reach keeps its three capacities, holds each identity
  once and only well-formed descriptors, and no identity is both listed and deleted.
\<close>

theorem catalog_reachable_ok:
  assumes "catalog_reach R host s"
  shows "catalog_ok R s"
  using assms catalog_records.steps_inv created_catalog_ok unfolding catalog_reach_def by blast

section \<open>Updates\<close>

lemma map_of_file_answer [simp]: "ic_records (file_answer key a sig r s) = ic_records s"
  "ic_tombstones (file_answer key a sig r s) = ic_tombstones s" "ic_limits (file_answer key a sig r s) = ic_limits s"
  "map_of (ic_idempotency (file_answer key a sig r s)) key = Some \<lparr>cr_operation = a, cr_signature = sig, cr_result = r\<rparr>"
  by (simp_all add: file_answer_def)

lemma map_of_set_record [simp]: "map_of (ic_records (set_record e s)) = (map_of (ic_records s))(dc_conversationId e \<mapsto> e)"
  "ic_tombstones (set_record e s) = ic_tombstones s" "ic_limits (set_record e s) = ic_limits s"
  "ic_idempotency (set_record e s) = ic_idempotency s"
  by (simp_all add: set_record_def update_conv')

lemma replacing_effect:
  assumes ok: "catalog_ok R s" and body: "replacing R operation status signature guard expected change clock input s = Inr (result, s')"
    and fresh: "map_of (ic_idempotency s) (mv_idempotencyKey input) = None"
    and same: "\<And>now d. dc_conversationId (change now d) = dc_conversationId d \<and> dc_createdAt (change now d) = dc_createdAt d \<and>
      dc_metadata (change now d) = dc_metadata d"
  shows "\<exists>current next. map_of (ic_records s) (mv_conversationId input) = Some current \<and>
    result = DescriptorResult operation status next \<and>
    map_of (ic_records s') = (map_of (ic_records s))(mv_conversationId input \<mapsto> next) \<and>
    dc_version current = mv_expectedVersion input \<and> dc_version next = dc_version current + 1 \<and>
    dc_updatedAt current \<le> dc_updatedAt next \<and> dc_createdAt next = dc_createdAt current \<and>
    dc_metadata next = dc_metadata current \<and> guard current \<and> expected next"
  using ok body
proof (cases rule: replacing_cases)
  case (put current now e)
  have "dc_conversationId e = mv_conversationId input" using record_at [OF ok put(2)] same by (simp add: put(7))
  with put same show ?thesis by (intro exI [of _ current] exI [of _ e]) simp
qed (use fresh in simp)

text \<open>
  C27: an accepted rename, clear, archive or restore changes one descriptor. It was at the
  version the caller expected and is now one version further and not older; its creation time
  and metadata are the same and every other conversation is untouched. Clearing and archiving
  need an active conversation, restoring an archived one.
\<close>

theorem catalog_update_effect:
  assumes ok: "catalog_ok R s" and fresh: "map_of (ic_idempotency s) (mv_idempotencyKey input) = None"
    and body: "rename_body R clock input title s = Inr (result, s') \<or> clear_body R clock input s = Inr (result, s') \<or>
      archive_body R clock input s = Inr (result, s') \<or> restore_body R clock input s = Inr (result, s')"
  shows "\<exists>current next operation status. map_of (ic_records s) (mv_conversationId input) = Some current \<and>
    result = DescriptorResult operation status next \<and>
    map_of (ic_records s') = (map_of (ic_records s))(mv_conversationId input \<mapsto> next) \<and>
    dc_version current = mv_expectedVersion input \<and> dc_version next = dc_version current + 1 \<and>
    dc_updatedAt current \<le> dc_updatedAt next \<and> dc_createdAt next = dc_createdAt current \<and>
    dc_metadata next = dc_metadata current \<and>
    (operation = ActClear \<longrightarrow> is_active current \<and> is_active next) \<and>
    (operation = ActArchive \<longrightarrow> is_active current \<and> \<not> is_active next) \<and>
    (operation = ActRestore \<longrightarrow> \<not> is_active current \<and> is_active next)"
  using body unfolding body_forms
proof (elim disjE)
  assume "replacing R ActRename Updated (rename_signature R input title) (\<lambda>_. True) (\<lambda>_. True)
    (\<lambda>_ d. d\<lparr>dc_title := Some title\<rparr>) clock input s = Inr (result, s')"
  from replacing_effect [OF ok this fresh] show ?thesis by fastforce
next
  assume "replacing R ActClear Cleared (mutation_signature R ActClear input) is_active is_active (\<lambda>_ d. d) clock input s = Inr (result, s')"
  from replacing_effect [OF ok this fresh] show ?thesis by fastforce
next
  assume "replacing R ActArchive IsArchived (mutation_signature R ActArchive input) is_active (\<lambda>d. \<not> is_active d)
    (\<lambda>now d. d\<lparr>dc_lifecycle := Archived now\<rparr>) clock input s = Inr (result, s')"
  from replacing_effect [OF ok this fresh] show ?thesis by fastforce
next
  assume "replacing R ActRestore Restored (mutation_signature R ActRestore input) (\<lambda>d. \<not> is_active d) is_active
    (\<lambda>_ d. d\<lparr>dc_lifecycle := Active\<rparr>) clock input s = Inr (result, s')"
  from replacing_effect [OF ok this fresh] show ?thesis by fastforce
qed

text \<open>
  C28: restoring an archived conversation undoes the archiving: after an archive and a restore
  the descriptor is the one before, two versions further and not older.
\<close>

theorem archive_restore_roundtrip:
  assumes ok: "catalog_ok R s" and here: "map_of (ic_records s) cid = Some d"
    and ids: "mv_conversationId input = cid" "mv_conversationId input2 = cid"
    and archive: "archive_body R clock input s = Inr (result, s')" "map_of (ic_idempotency s) (mv_idempotencyKey input) = None"
    and restore: "restore_body R clock2 input2 s' = Inr (result2, s'')" "map_of (ic_idempotency s') (mv_idempotencyKey input2) = None"
  shows "\<exists>now. map_of (ic_records s'') cid = Some (d\<lparr>dc_version := dc_version d + 2, dc_updatedAt := now\<rparr>) \<and> dc_updatedAt d \<le> now"
proof -
  have untrimmed: "map_option trim (dc_title x) = dc_title x" if "descriptor_ok R x" for x
    using that by (auto simp: descriptor_ok_def split: option.splits)
  have d: "dc_conversationId d = cid" "descriptor_ok R d" using record_at [OF ok here] by auto
  have ok': "catalog_ok R s'" by (rule replacing_ok [OF ok _ archive(1) [unfolded body_forms]]) simp
  from ok archive(1) [unfolded body_forms] obtain now where a:
    "map_of (ic_records s') cid = Some (d\<lparr>dc_lifecycle := Archived now, dc_updatedAt := now, dc_version := dc_version d + 1\<rparr>)"
    "dc_updatedAt d \<le> now" "dc_lifecycle d = Active"
  proof (cases rule: replacing_cases)
    case (put current now e)
    with here ids untrimmed [OF d(2)] d show thesis by (intro that [of now]) (auto simp: is_active_def)
  qed (use archive(2) in simp)
  from ok' restore(1) [unfolded body_forms] obtain now2 where r:
    "map_of (ic_records s'') cid = Some (d\<lparr>dc_lifecycle := Active, dc_updatedAt := now2, dc_version := dc_version d + 2\<rparr>)"
    "now \<le> now2"
  proof (cases rule: replacing_cases)
    case (put current now2 e)
    have current: "current = d\<lparr>dc_lifecycle := Archived now, dc_updatedAt := now, dc_version := dc_version d + 1\<rparr>"
      using put(2) a(1) ids(2) by simp
    have e: "e = d\<lparr>dc_lifecycle := Active, dc_updatedAt := now2, dc_version := dc_version d + 2\<rparr>"
      using untrimmed [OF d(2)] by (simp add: put(7) current)
    show thesis by (rule that [of now2]) (use put(6) e current d in \<open>simp_all add: put(11)\<close>)
  qed (use restore(2) in simp)
  have "d\<lparr>dc_lifecycle := Active\<rparr> = d" using a(3) by (cases d) simp
  with r a(2) show ?thesis by (intro exI [of _ now2]) (cases d; simp)
qed

section \<open>Deletion\<close>

lemma tombstone_stays:
  assumes ok: "catalog_ok R s" and step: "catalog_accepts R host s s'" and gone: "map_of (ic_tombstones s) k \<noteq> None"
  shows "map_of (ic_tombstones s') k \<noteq> None"
  using step
proof (cases rule: catalog_accepts_bodies)
  case (create clock factory input result)
  with ok show ?thesis by (cases rule: create_conversation_cases) (use gone in simp_all)
next
  case (update operation status signature guard expected change clock input result)
  from ok update(1) show ?thesis by (cases rule: replacing_cases) (use gone in simp_all)
next
  case (delete input result)
  with ok show ?thesis by (cases rule: delete_cases) (use gone in \<open>simp_all add: update_conv'\<close>)
qed

lemma tombstone_unlisted: "catalog_ok R s \<Longrightarrow> map_of (ic_tombstones s) k \<noteq> None \<Longrightarrow> map_of (ic_records s) k = None"
  unfolding catalog_ok_def map_of_eq_None_iff by blast

lemma mapE_same: "(\<And>x. x \<in> set xs \<Longrightarrow> f x = Inr x) \<Longrightarrow> mapE f xs = Inr xs"
  by (induction xs) auto

lemma page_items_listed:
  assumes "paginateConversationCatalogDescriptors R ds pageSize order cursor = Inr page" "\<And>d. d \<in> set ds \<Longrightarrow> cloneDescriptor R d = Inr d"
  shows "set (lr_items page) \<subseteq> set ds"
proof -
  have "set (after_cursor o' c xs) \<subseteq> set xs" for o' c xs by (auto simp: after_cursor_def split: option.splits)
  then have "x \<in> set ds" if "x \<in> set (take n (after_cursor o' c (sort_by f ds)))" for x n o' c f
    using that set_take_subset by fastforce
  with assms(1) mapE_same [OF assms(2)] show ?thesis
    by (auto simp: paginateConversationCatalogDescriptors_def bindE_Inr_iff Let_def split: sum.splits)
qed

lemma listed_items_live:
  assumes ok: "catalog_ok R s" and page: "list_body R input s = Inr page" and d: "d \<in> set (lr_items page)"
  shows "map_of (ic_records s) (dc_conversationId d) = Some d"
proof -
  have records: "(k, e) \<in> set (ic_records s) \<Longrightarrow> dc_conversationId e = k \<and> cloneDescriptor R e = Inr e" for k e
    using ok cloneDescriptor_ok unfolding catalog_ok_def by blast
  have "set (lr_items page) \<subseteq> set (filter (matches_lifecycle (li_lifecycle input)) (map snd (ic_records s)))"
    by (rule page_items_listed [OF page [unfolded list_body_def]]) (use records in auto)
  with d obtain k where k: "(k, d) \<in> set (ic_records s)" by auto
  moreover have "distinct (map fst (ic_records s))" using ok by (simp add: catalog_ok_def)
  ultimately show ?thesis using records [OF k] by simp
qed

lemma create_refused:
  assumes "map_of (ic_tombstones t) cid \<noteq> None" "map_of (ic_idempotency t) (cv_idempotencyKey request) = None"
    "(case cv_conversationId request of Some i \<Rightarrow> Inr i | None \<Rightarrow> generatedId factory) = Inr cid"
  shows "\<not> okE (create_conversation_body R clock factory request t)"
  using assms by (auto simp: create_conversation_body_def unless_replayed_def InMemoryCatalog.replay_def Let_def)

lemma create_replayed:
  assumes "create_conversation_body R clock factory request t = Inr (result, t')"
    "map_of (ic_idempotency t) (cv_idempotencyKey request) \<noteq> None"
  shows "t' = t"
  using assms by (auto simp: create_conversation_body_def unless_replayed_def InMemoryCatalog.replay_def Let_def bindE_Inr_iff
      split: option.splits if_splits)

text \<open>
  C29: permanent deletion is final. Once a deletion has been accepted, whatever requests follow,
  reading that identity is answered with not found and no list shows it; a request to create
  it, under the identifier that it gives or that the factory generates, is refused, and a request
  to change it finds no conversation. The requests meant are those that are executed: one that
  repeats an earlier idempotency key may be answered with the retained result, and changes nothing.
\<close>

theorem deletion_final:
  assumes ok: "catalog_ok R s" and delete: "delete_body R input s = Inr (result, s')"
    and fresh: "map_of (ic_idempotency s) (mv_idempotencyKey input) = None" and run: "(catalog_accepts R host)\<^sup>*\<^sup>* s' t"
  shows "get_conversation_body R (mv_conversationId input) t = Inl (catalogError CatNotFound ActGet) \<and>
    (\<forall>request page. list_body R request t = Inr page \<longrightarrow> mv_conversationId input \<notin> dc_conversationId ` set (lr_items page)) \<and>
    (\<forall>clock factory request. map_of (ic_idempotency t) (cv_idempotencyKey request) = None \<and>
       (case cv_conversationId request of Some i \<Rightarrow> Inr i | None \<Rightarrow> generatedId factory) = Inr (mv_conversationId input) \<longrightarrow>
       \<not> okE (create_conversation_body R clock factory request t)) \<and>
    (\<forall>request operation. mv_conversationId request = mv_conversationId input \<longrightarrow>
       current_record request operation t = Inl (catalogError CatNotFound operation)) \<and>
    (\<forall>clock factory request result t'. create_conversation_body R clock factory request t = Inr (result, t') \<and>
       map_of (ic_idempotency t) (cv_idempotencyKey request) \<noteq> None \<longrightarrow> t' = t)"
proof -
  have "map_of (ic_tombstones s') (mv_conversationId input) \<noteq> None"
    using ok delete by (cases rule: delete_cases) (use fresh in \<open>simp_all add: update_conv'\<close>)
  with run delete_ok [OF ok delete] have t: "map_of (ic_tombstones t) (mv_conversationId input) \<noteq> None \<and> catalog_ok R t"
  proof (induction rule: rtranclp_induct)
    case (step y z)
    then show ?case using tombstone_stays [of R y host z] catalog_records.step_inv [of R y host z] by blast
  qed simp
  then have gone: "map_of (ic_records t) (mv_conversationId input) = None" using tombstone_unlisted by blast
  show ?thesis
  proof (intro conjI allI impI)
    show "mv_conversationId input \<notin> dc_conversationId ` set (lr_items page)" if "list_body R request t = Inr page" for request page
      using listed_items_live [OF conjunct2 [OF t] that] gone by fastforce
  qed (use gone t in \<open>auto simp: get_conversation_body_def current_record_def intro: create_replayed dest: create_refused [rotated]\<close>)
qed

text \<open>
  Repeating an accepted deletion, at any later time while its record is retained, is
  answered with the deleted version and marked as a repetition; it does not fail although the
  conversation is gone, and it changes nothing.
\<close>

theorem deletion_retry:
  assumes ok: "catalog_ok R s" and delete: "delete_body R input s = Inr (result, s')"
    and fresh: "map_of (ic_idempotency s) (mv_idempotencyKey input) = None"
    and run: "(\<lambda>a b. catalog_accepts R host a b \<and> map_of (ic_idempotency b) (mv_idempotencyKey input) \<noteq> None)\<^sup>*\<^sup>* s' later"
  shows "delete_body R input later =
    Inr (DeletionResult Replayed (mv_conversationId input) (mv_expectedVersion input), later)"
  using ok delete
proof (cases rule: delete_cases)
  case (remove current)
  have "map_of (ic_idempotency later) (mv_idempotencyKey input) = map_of (ic_idempotency s') (mv_idempotencyKey input)"
    using catalog_records.record_stable [OF run delete_ok [OF ok delete]] by (simp add: remove(6))
  then show ?thesis
    by (simp add: delete_body_def unless_replayed_def InMemoryCatalog.replay_def remove(3,5,6) cloneIdempotentResult_def cloneResult_def Let_def)
qed (use fresh in simp)

section \<open>A worked session\<close>

definition instant :: js_string where
  "instant = js ''1970-01-01T00:00:00.000Z''"

definition blank_catalog :: InMemoryConversationCatalog where
  "blank_catalog = \<lparr>ic_limits = DEFAULT_IN_MEMORY_CONVERSATION_CATALOG_LIMITS, ic_records = [], ic_tombstones = [], ic_idempotency = []\<rparr>"

definition listed_catalog :: InMemoryConversationCatalog where
  "listed_catalog = blank_catalog\<lparr>ic_records := [(js ''a'', sample_descriptor ''a'')]\<rparr>"

definition request_a :: "int \<Rightarrow> string \<Rightarrow> unit ConversationCatalogMutationInput" where
  "request_a version key = \<lparr>mv_authorizationContext = (), mv_conversationId = js ''a'', mv_expectedVersion = version,
     mv_idempotencyKey = js key\<rparr>"

definition creation :: "unit raw_request" where
  "creation = AnObject (Some ()) [(js ''conversationId'', JStr (js ''a'')), (js ''title'', JStr (js ''T'')), (js ''idempotencyKey'', JStr (js ''k''))]"

lemma creation_parsed: "parseCreateConversationInput (\<lambda>_. []) creation = Inr \<lparr>cv_authorizationContext = (),
    cv_conversationId = Some (js ''a''), cv_title = Some (js ''T''), cv_metadata = None, cv_idempotencyKey = js ''k''\<rparr>"
  by code_simp

lemma listed_ok: "catalog_ok (\<lambda>_. []) listed_catalog"
  using sample_ok [of "''a''"]
  by (simp add: catalog_ok_def listed_catalog_def blank_catalog_def DEFAULT_IN_MEMORY_CONVERSATION_CATALOG_LIMITS_def)
    (simp add: sample_descriptor_def)

lemma sample_cloned: "cloneDescriptor (\<lambda>_. []) (sample_descriptor ''a'') = Inr (sample_descriptor ''a'')"
  by (rule cloneDescriptor_ok [OF sample_ok]) simp

lemma creation_accepted:
  "\<exists>result s. create_conversation (\<lambda>_. []) (\<lambda>_. Some True) (Some instant) None creation blank_catalog = Inr (result, s) \<and> ic_records s \<noteq> []"
proof -
  have "parseIdentifier (Some (JStr (js ''a''))) ActCreate = Inr (js ''a'')" by code_simp
  moreover have "isCanonicalTimestamp instant" unfolding instant_def by (rule sample_instant)
  moreover have "\<lparr>dc_conversationId = js ''a'', dc_title = Some (js ''T''), dc_createdAt = instant, dc_updatedAt = instant,
      dc_version = 1, dc_lifecycle = Active, dc_metadata = []\<rparr> = sample_descriptor ''a''"
    by (simp add: sample_descriptor_def instant_def)
  moreover have "is_active (sample_descriptor ''a'')" by (simp add: is_active_def sample_descriptor_def)
  ultimately show ?thesis
    by (simp add: create_conversation_def creation_parsed authorizeConversationCatalogRequest_def create_conversation_body_def
        unless_replayed_def InMemoryCatalog.replay_def blank_catalog_def DEFAULT_IN_MEMORY_CONVERSATION_CATALOG_LIMITS_def
        catalog_now_def replace_record_def sample_cloned cloneResult_def commit_def set_record_def Let_def)
qed

theorem catalog_reachable_ok_witness:
  "\<exists>s. catalog_ok (\<lambda>_. []) s \<and> ic_records s \<noteq> []"
proof -
  from creation_accepted obtain result s where
    s: "create_conversation (\<lambda>_. []) (\<lambda>_ :: unit ConversationCatalogAuthorizationRequest. Some True) (Some instant) None creation blank_catalog = Inr (result, s)"
      "ic_records s \<noteq> []"
    by blast
  have "createCatalog DEFAULT_IN_MEMORY_CONVERSATION_CATALOG_LIMITS = Some blank_catalog"
    by (simp add: createCatalog_def resolveCatalogLimits_def DEFAULT_IN_MEMORY_CONVERSATION_CATALOG_LIMITS_def
        MAX_CONFIGURED_CAPACITY_def blank_catalog_def)
  with catalog_accepts.create [OF s(1)] have "catalog_reach (\<lambda>_. []) (\<lambda>_ :: unit ConversationCatalogAuthorizationRequest. Some True) s"
    unfolding catalog_reach_def by blast
  from catalog_reachable_ok [OF this] s(2) show ?thesis by blast
qed

lemma sample_archived_ok: "descriptor_ok (\<lambda>_. []) ((sample_descriptor ''a'')\<lparr>dc_lifecycle := Archived instant, dc_version := 2\<rparr>)"
  using sample_ok [of "''a''"]
  by (simp add: descriptor_ok_def) (simp add: sample_descriptor_def instant_def sample_instant MAX_SAFE_INTEGER_def)

lemma sample_restored_ok: "descriptor_ok (\<lambda>_. []) ((sample_descriptor ''a'')\<lparr>dc_version := 3\<rparr>)"
  using sample_ok [of "''a''"] by (simp add: descriptor_ok_def) (simp add: sample_descriptor_def MAX_SAFE_INTEGER_def)

definition archived_catalog :: InMemoryConversationCatalog where
  "archived_catalog = (let d = (sample_descriptor ''a'')\<lparr>dc_lifecycle := Archived instant, dc_version := 2\<rparr> in
     file_answer (js ''k1'') ActArchive (mutation_signature (\<lambda>_. []) ActArchive (request_a 1 ''k1''))
       (DescriptorResult ActArchive IsArchived d) (set_record d listed_catalog))"

lemma sample_archives:
  "archive_body (\<lambda>_. []) (Some instant) (request_a 1 ''k1'') listed_catalog =
     Inr (DescriptorResult ActArchive IsArchived ((sample_descriptor ''a'')\<lparr>dc_lifecycle := Archived instant, dc_version := 2\<rparr>), archived_catalog)"
proof -
  have "isCanonicalTimestamp instant" unfolding instant_def by (rule sample_instant)
  moreover have "cloneDescriptor (\<lambda>_. []) ((sample_descriptor ''a'')\<lparr>dc_lifecycle := Archived instant, dc_updatedAt := instant, dc_version := 2\<rparr>) =
      Inr ((sample_descriptor ''a'')\<lparr>dc_lifecycle := Archived instant, dc_version := 2\<rparr>)"
    using cloneDescriptor_ok [OF sample_archived_ok] by (simp add: sample_descriptor_def instant_def)
  moreover have "dc_version (sample_descriptor ''a'') = 1"
    "is_active (sample_descriptor ''a'')" "dc_updatedAt (sample_descriptor ''a'') = instant"
    by (simp_all add: sample_descriptor_def instant_def is_active_def)
  moreover have "dc_conversationId (sample_descriptor ''a'') = js ''a''" by (simp add: sample_descriptor_def)
  ultimately show ?thesis
    using cloneDescriptor_ok [OF sample_archived_ok]
    by (simp add: archive_body_def unless_replayed_def InMemoryCatalog.replay_def listed_catalog_def blank_catalog_def
        current_record_def request_a_def catalog_now_def nextVersion_def MAX_SAFE_INTEGER_def replace_record_def is_active_def
        cloneResult_def commit_def set_record_def file_answer_def archived_catalog_def Let_def)
qed

lemma archived_records:
  "ic_records archived_catalog = [(js ''a'', (sample_descriptor ''a'')\<lparr>dc_lifecycle := Archived instant, dc_version := 2\<rparr>)]"
  "map_of (ic_idempotency archived_catalog) (js ''k2'') = None"
  by (simp_all add: archived_catalog_def file_answer_def set_record_def listed_catalog_def blank_catalog_def retain_def
      DEFAULT_IN_MEMORY_CONVERSATION_CATALOG_LIMITS_def Let_def) (simp_all add: sample_descriptor_def)

lemma sample_restores: "okE (restore_body (\<lambda>_. []) (Some instant) (request_a 2 ''k2'') archived_catalog)"
proof -
  have "isCanonicalTimestamp instant" unfolding instant_def by (rule sample_instant)
  moreover have "cloneDescriptor (\<lambda>_. []) ((sample_descriptor ''a'')\<lparr>dc_lifecycle := Active, dc_updatedAt := instant, dc_version := 3\<rparr>) =
      Inr ((sample_descriptor ''a'')\<lparr>dc_version := 3\<rparr>)"
    using cloneDescriptor_ok [OF sample_restored_ok] by (simp add: sample_descriptor_def instant_def)
  moreover have "dc_updatedAt (sample_descriptor ''a'') = instant"
    "is_active ((sample_descriptor ''a'')\<lparr>dc_version := 3\<rparr>)"
    by (simp_all add: sample_descriptor_def instant_def is_active_def)
  ultimately show ?thesis
    using cloneDescriptor_ok [OF sample_restored_ok]
    by (simp add: restore_body_def unless_replayed_def InMemoryCatalog.replay_def archived_records
        current_record_def request_a_def catalog_now_def nextVersion_def MAX_SAFE_INTEGER_def replace_record_def is_active_def
        cloneResult_def commit_def Let_def)
qed

theorem catalog_update_effect_witness:
  "\<exists>current. map_of (ic_records listed_catalog) (js ''a'') = Some current \<and> dc_version current = 1"
  using catalog_update_effect [OF listed_ok, of "request_a 1 ''k1''" "Some instant" "js ''T''"] sample_archives
  by (fastforce simp: request_a_def listed_catalog_def blank_catalog_def)

theorem archive_restore_roundtrip_witness:
  "\<exists>result s now. restore_body (\<lambda>_. []) (Some instant) (request_a 2 ''k2'') archived_catalog = Inr (result, s) \<and>
     map_of (ic_records s) (js ''a'') = Some ((sample_descriptor ''a'')\<lparr>dc_version := 3, dc_updatedAt := now\<rparr>)"
proof -
  from sample_restores obtain result s where
    s: "restore_body (\<lambda>_. []) (Some instant) (request_a 2 ''k2'') archived_catalog = Inr (result, s)" by (auto simp: okE_iff)
  have "map_of (ic_records listed_catalog) (js ''a'') = Some (sample_descriptor ''a'')" by (simp add: listed_catalog_def)
  from archive_restore_roundtrip [OF listed_ok this _ _ sample_archives _ s]
  show ?thesis using s by (simp add: request_a_def listed_catalog_def blank_catalog_def archived_records) (auto simp: sample_descriptor_def)
qed

lemma sample_deletes: "\<exists>result s. delete_body (\<lambda>_. []) (request_a 1 ''k1'') listed_catalog = Inr (result, s)"
  by (simp add: delete_body_def unless_replayed_def InMemoryCatalog.replay_def listed_catalog_def blank_catalog_def
      current_record_def request_a_def cloneResult_def commit_def DEFAULT_IN_MEMORY_CONVERSATION_CATALOG_LIMITS_def Let_def)
    (simp add: sample_descriptor_def)

theorem deletion_final_witness:
  "\<exists>result s. delete_body (\<lambda>_. []) (request_a 1 ''k1'') listed_catalog = Inr (result, s) \<and>
     get_conversation_body (\<lambda>_. []) (js ''a'') s = Inl (catalogError CatNotFound ActGet)"
proof -
  from sample_deletes obtain result s where s: "delete_body (\<lambda>_. []) (request_a 1 ''k1'') listed_catalog = Inr (result, s)" by blast
  from deletion_final [OF listed_ok s _ rtranclp.rtrancl_refl] s show ?thesis
    by (fastforce simp: request_a_def listed_catalog_def blank_catalog_def)
qed

theorem deletion_retry_witness:
  "\<exists>s. delete_body (\<lambda>_. []) (request_a 1 ''k1'') s = Inr (DeletionResult Replayed (js ''a'') 1, s)"
proof -
  from sample_deletes obtain result s where s: "delete_body (\<lambda>_. []) (request_a 1 ''k1'') listed_catalog = Inr (result, s)" by blast
  from deletion_retry [OF listed_ok s _ rtranclp.rtrancl_refl] show ?thesis
    by (fastforce simp: request_a_def listed_catalog_def blank_catalog_def)
qed

end
