(* ===== verification/DualWrite.thy ===== *)
theory DualWrite
  imports EventStore
begin

text \<open>
  \<^verbatim>\<open>src/conversation/dual-write-event-store.ts\<close>: an event store that writes to two stores. The
  primary is authoritative; a write that the shadow refuses is reported to a handler and made
  up for by \<open>reconcile\<close>. The two stores are arbitrary implementations of
  \<^verbatim>\<open>ConversationEventStore\<close>, given by their states and operations.
\<close>

section \<open>The class and its writes\<close>

record ('p, 's) DualWriteConversationEventStore =
  dw_primary :: 'p
  dw_shadow :: 's
  dw_pageSize :: int

definition createDualWrite :: "'p \<Rightarrow> 's \<Rightarrow> js_number option \<Rightarrow> string + ('p, 's) DualWriteConversationEventStore" where
  "createDualWrite primary shadow reconciliationPageSize =
     (case safe_int (coalesce reconciliationPageSize (Finite 100)) of
        None \<Rightarrow> Inl ''reconciliationPageSize is invalid''
      | Some n \<Rightarrow> if n < 1 \<or> 1000 < n then Inl ''reconciliationPageSize is invalid''
          else Inr \<lparr>dw_primary = primary, dw_shadow = shadow, dw_pageSize = n\<rparr>)"

datatype (plugins only: code size) shadow_operation = ShadowAppend | ShadowCheckpoint

text \<open>What \<^verbatim>\<open>onShadowError\<close> throws, or \<open>None\<close> if it returns or no handler is given.\<close>

type_synonym 'x shadow_handler = "shadow_operation \<Rightarrow> js_string \<Rightarrow> 'x option"

datatype (plugins only: code size) ('e, 'x) dual_error = PrimaryFailed 'e | HandlerFailed 'x

definition after_shadow_error :: "'x shadow_handler \<Rightarrow> shadow_operation \<Rightarrow> js_string \<Rightarrow> 'r \<Rightarrow> ('e, 'x) dual_error + 'r" where
  "after_shadow_error onShadowError operation cid result = (case onShadowError operation cid of
     None \<Rightarrow> Inr result | Some x \<Rightarrow> Inl (HandlerFailed x))"

definition dual_append :: "('p \<Rightarrow> AppendConversationEventsInput \<Rightarrow> 'e + AppendConversationEventsResult \<times> 'p) \<Rightarrow>
    ('s \<Rightarrow> AppendConversationEventsInput \<Rightarrow> 'f + AppendConversationEventsResult \<times> 's) \<Rightarrow> 'x shadow_handler \<Rightarrow>
    AppendConversationEventsInput \<Rightarrow> ('p, 's) DualWriteConversationEventStore \<Rightarrow>
    (('e, 'x) dual_error + AppendConversationEventsResult) \<times> ('p, 's) DualWriteConversationEventStore" where
  "dual_append append_primary append_shadow onShadowError input d =
     (case append_primary (dw_primary d) input of
        Inl e \<Rightarrow> (Inl (PrimaryFailed e), d)
      | Inr (result, primary) \<Rightarrow>
          (case append_shadow (dw_shadow d) input of
             Inl _ \<Rightarrow> (after_shadow_error onShadowError ShadowAppend (ai_conversationId input) result, d\<lparr>dw_primary := primary\<rparr>)
           | Inr (_, shadow) \<Rightarrow> (Inr result, d\<lparr>dw_primary := primary, dw_shadow := shadow\<rparr>)))"

text \<open>A shadow without checkpoints (\<open>None\<close>) has nothing to write.\<close>

definition dual_writeCheckpoint :: "('p \<Rightarrow> ConversationEventCheckpoint \<Rightarrow> 'e + 'r \<times> 'p) \<Rightarrow>
    ('s \<Rightarrow> ConversationEventCheckpoint \<Rightarrow> 'f + 'q \<times> 's) option \<Rightarrow> 'x shadow_handler \<Rightarrow>
    ConversationEventCheckpoint \<Rightarrow> ('p, 's) DualWriteConversationEventStore \<Rightarrow>
    (('e, 'x) dual_error + 'r) \<times> ('p, 's) DualWriteConversationEventStore" where
  "dual_writeCheckpoint write_primary write_shadow onShadowError checkpoint d =
     (case write_primary (dw_primary d) checkpoint of
        Inl e \<Rightarrow> (Inl (PrimaryFailed e), d)
      | Inr (result, primary) \<Rightarrow>
          (case write_shadow of
             None \<Rightarrow> (Inr result, d\<lparr>dw_primary := primary\<rparr>)
           | Some wr \<Rightarrow>
               (case wr (dw_shadow d) checkpoint of
                  Inl _ \<Rightarrow> (after_shadow_error onShadowError ShadowCheckpoint (cp_conversationId checkpoint) result,
                    d\<lparr>dw_primary := primary\<rparr>)
                | Inr (_, shadow) \<Rightarrow> (Inr result, d\<lparr>dw_primary := primary, dw_shadow := shadow\<rparr>))))"

definition dual_read :: "('p \<Rightarrow> ReadConversationEventsInput \<Rightarrow> 'r) \<Rightarrow> ReadConversationEventsInput \<Rightarrow>
    ('p, 's) DualWriteConversationEventStore \<Rightarrow> 'r" where
  "dual_read read_primary input d = read_primary (dw_primary d) input"

definition dual_getLatestRevision :: "('p \<Rightarrow> js_string \<Rightarrow> 'r) \<Rightarrow> js_string \<Rightarrow> ('p, 's) DualWriteConversationEventStore \<Rightarrow> 'r" where
  "dual_getLatestRevision latest_primary cid d = latest_primary (dw_primary d) cid"

section \<open>Reconciliation\<close>

datatype (plugins only: code size) ConversationEventReconciliationResult =
    Converged nat "int option"
  | Divergent int js_string js_string

text \<open>The loop of \<^verbatim>\<open>all\<close>, which ends when the store says so.\<close>

partial_function (option) read_all :: "(ReadConversationEventsInput \<Rightarrow> 'e + ReadConversationEventsResult) \<Rightarrow> js_string \<Rightarrow> int \<Rightarrow>
    int option \<Rightarrow> StoredConversationEvent list \<Rightarrow> ('e + StoredConversationEvent list) option" where
  "read_all read cid pageSize revision entries =
     (case read \<lparr>ri_conversationId = cid, ri_after = map_option AfterRevision revision, ri_limit = Some pageSize\<rparr> of
        Inl e \<Rightarrow> Some (Inl e)
      | Inr page \<Rightarrow>
          if \<not> ro_hasMore page \<or> ro_entries page = [] then Some (Inr (entries @ ro_entries page))
          else read_all read cid pageSize (Some (ev_revision (se_event (last (ro_entries page))))) (entries @ ro_entries page))"

declare read_all.simps [code]

definition logs_diverge :: "StoredConversationEvent list \<Rightarrow> StoredConversationEvent list \<Rightarrow>
    ConversationEventReconciliationResult option" where
  "logs_diverge primary shadow =
     (case find (\<lambda>(l, r). \<not> jsonValuesEqual (event_json (se_event l)) (event_json (se_event r))) (zip primary shadow) of
        Some (l, r) \<Rightarrow> Some (Divergent (ev_revision (se_event l)) (ev_event_id (se_event l)) (ev_event_id (se_event r)))
      | None \<Rightarrow>
          if length primary < length shadow
          then let extra = se_event (shadow ! length primary);
                   left = (if primary = [] then extra else se_event (last primary))
               in Some (Divergent (ev_revision left) (ev_event_id left) (ev_event_id extra))
          else None)"

text \<open>\<^verbatim>\<open>batch[0].revision - 1 || null\<close>.\<close>

definition repair_request :: "js_string \<Rightarrow> ConversationEvent list \<Rightarrow> AppendConversationEventsInput" where
  "repair_request cid batch =
     (let before = ev_revision (hd batch) - 1 in
      \<lparr>ai_conversationId = cid, ai_expectedRevision = (if before = 0 then None else Some before), ai_events = batch\<rparr>)"

text \<open>The loop that appends the missing events, a page at a time.\<close>

partial_function (option) repair :: "('s \<Rightarrow> AppendConversationEventsInput \<Rightarrow> 'e + AppendConversationEventsResult \<times> 's) \<Rightarrow>
    js_string \<Rightarrow> nat \<Rightarrow> ConversationEvent list \<Rightarrow> 's \<Rightarrow> (('e + unit) \<times> 's) option" where
  "repair append_shadow cid pageSize missing s =
     (if missing = [] then Some (Inr (), s)
      else case append_shadow s (repair_request cid (take pageSize missing)) of
          Inl e \<Rightarrow> Some (Inl e, s)
        | Inr (_, t) \<Rightarrow> repair append_shadow cid pageSize (drop pageSize missing) t)"

declare repair.simps [code]

datatype (plugins only: code size) ('e, 'f) reconcile_error = PrimaryReadFailed 'e | ShadowFailed 'f

definition reconcile :: "('p \<Rightarrow> ReadConversationEventsInput \<Rightarrow> 'e + ReadConversationEventsResult) \<Rightarrow>
    ('s \<Rightarrow> ReadConversationEventsInput \<Rightarrow> 'f + ReadConversationEventsResult) \<Rightarrow>
    ('s \<Rightarrow> AppendConversationEventsInput \<Rightarrow> 'f + AppendConversationEventsResult \<times> 's) \<Rightarrow> js_string \<Rightarrow>
    ('p, 's) DualWriteConversationEventStore \<Rightarrow>
    ((('e, 'f) reconcile_error + ConversationEventReconciliationResult) \<times> ('p, 's) DualWriteConversationEventStore) option" where
  "reconcile read_primary read_shadow append_shadow cid d =
     Option.bind (read_all (read_primary (dw_primary d)) cid (dw_pageSize d) None []) (\<lambda>r.
     case r of Inl e \<Rightarrow> Some (Inl (PrimaryReadFailed e), d)
     | Inr primary \<Rightarrow>
       Option.bind (read_all (read_shadow (dw_shadow d)) cid (dw_pageSize d) None []) (\<lambda>r.
       case r of Inl e \<Rightarrow> Some (Inl (ShadowFailed e), d)
       | Inr shadow \<Rightarrow>
         (case logs_diverge primary shadow of
            Some divergent \<Rightarrow> Some (Inr divergent, d)
          | None \<Rightarrow>
              let missing = map se_event (drop (length shadow) primary) in
              Option.bind (repair append_shadow cid (nat (dw_pageSize d)) missing (dw_shadow d)) (\<lambda>(outcome, s).
              Some (case outcome of
                  Inl e \<Rightarrow> Inl (ShadowFailed e)
                | Inr _ \<Rightarrow> Inr (Converged (length missing)
                    (if primary = [] then None else Some (ev_revision (se_event (last primary))))),
                d\<lparr>dw_shadow := s\<rparr>)))))"

end
