(* ===== verification/DualWriteProperties.thy ===== *)
theory DualWriteProperties
  imports DualWrite EventStoreProperties "HOL-Library.Sublist"
begin

text \<open>
  The shadow of a dual-write store never overtakes or contradicts the primary, whichever of its
  writes fail, and reconciling makes it equal to the primary again. The locale
  \<open>event_writer\<close> is the contract of the shadow: it accepts the next batch of its log.
\<close>

section \<open>Reading a whole log\<close>

context event_log
begin

lemma read_all_rest:
  assumes inv: "inv s" and n: "0 < n" "n \<le> MAX_SAFE_INTEGER" and k: "k \<le> length (log_of s cid)"
  shows "read_all (read s) cid n (if k = 0 then None else Some (int k)) (take k (log_of s cid)) = Some (Inr (log_of s cid))"
  using k
proof (induction "length (log_of s cid) - k" arbitrary: k rule: less_induct)
  case less
  let ?log = "log_of s cid" and ?rev = "if k = 0 then None else Some (int k)"
  have "position_of ?log (map_option AfterRevision ?rev) k" using less.prems by (simp add: position_of_def)
  moreover have "limit_ok (Some n)" using n by (simp add: limit_ok_def)
  ultimately obtain page where page:
    "read s \<lparr>ri_conversationId = cid, ri_after = map_option AfterRevision ?rev, ri_limit = Some n\<rparr> = Inr page" "page_of ?log k page"
    using read_page [OF inv] by blast
  show ?case
  proof (cases "ro_hasMore page")
    case False
    from page_rest [OF page(2) False] False show ?thesis
      by (subst read_all.simps) (simp add: page(1))
  next
    case True
    from page_end [OF page(2) True] obtain m where m: "0 < m" "k + m < length ?log" "ro_entries page = take m (drop k ?log)" by blast
    then have ne: "ro_entries page \<noteq> []" by auto
    have "last (ro_entries page) = ?log ! (k + m - 1)"
      using m ne by (simp add: last_conv_nth add_diff_assoc)
    with m have "ev_revision (se_event (last (ro_entries page))) = int (k + m)"
      using log_revisions [OF inv, of "k + m - 1" cid] by (simp add: of_nat_diff)
    moreover have "take k ?log @ ro_entries page = take (k + m) ?log" using m(3) by (simp add: take_add)
    moreover have "read_all (read s) cid n (Some (int (k + m))) (take (k + m) ?log) = Some (Inr ?log)"
      using less.hyps [of "k + m"] m(1,2) by simp
    ultimately show ?thesis
      using True ne by (subst read_all.simps) (simp add: page(1))
  qed
qed

lemma read_all_log:
  "inv s \<Longrightarrow> 1 \<le> n \<Longrightarrow> n \<le> 1000 \<Longrightarrow> read_all (read s) cid n None [] = Some (Inr (log_of s cid))"
  using read_all_rest [of s n 0 cid] by (simp add: MAX_SAFE_INTEGER_def)

end

section \<open>The contract of the shadow\<close>

text \<open>Events that continue a log of \<open>k\<close> entries.\<close>

definition next_batch :: "js_string \<Rightarrow> nat \<Rightarrow> ConversationEvent list \<Rightarrow> bool" where
  "next_batch cid k es \<longleftrightarrow>
     (\<forall>i < length es. ev_revision (es ! i) = int (k + i) + 1 \<and> ev_conversation_id (es ! i) = cid) \<and>
     distinct (map ev_event_id es) \<and> distinct (List.map_filter ev_mutation_id es)"

definition latest_of :: "nat \<Rightarrow> int option" where
  "latest_of k = (if k = 0 then None else Some (int k))"

definition shares_identity :: "ConversationEvent \<Rightarrow> ConversationEvent \<Rightarrow> bool" where
  "shares_identity d e \<longleftrightarrow> ev_event_id d = ev_event_id e \<or>
     (\<exists>m. ev_mutation_id d = Some m \<and> ev_mutation_id e = Some m)"

lemma next_batch_drop: "next_batch cid k es \<Longrightarrow> n \<le> length es \<Longrightarrow> next_batch cid (k + n) (drop n es)"
proof -
  assume b: "next_batch cid k es" and n: "n \<le> length es"
  have "List.map_filter ev_mutation_id es =
      List.map_filter ev_mutation_id (take n es) @ List.map_filter ev_mutation_id (drop n es)"
    by (metis append_take_drop_id List.map_filter_def filter_append map_append)
  with b have "distinct (List.map_filter ev_mutation_id (drop n es))" by (metis next_batch_def distinct_append)
  with b n show ?thesis by (simp add: next_batch_def drop_map [symmetric] add.assoc)
qed

lemma next_batch_take: "next_batch cid k es \<Longrightarrow> next_batch cid k (take n es)"
proof -
  assume b: "next_batch cid k es"
  have "List.map_filter ev_mutation_id es =
      List.map_filter ev_mutation_id (take n es) @ List.map_filter ev_mutation_id (drop n es)"
    by (metis append_take_drop_id List.map_filter_def filter_append map_append)
  with b have "distinct (List.map_filter ev_mutation_id (take n es))" by (metis next_batch_def distinct_append)
  with b show ?thesis by (simp add: next_batch_def take_map [symmetric])
qed

lemma next_batch_apart:
  assumes "next_batch cid k es" "d \<in> set (take n es)" "e \<in> set (drop n es)"
  shows "\<not> shares_identity d e"
proof -
  have "distinct (map ev_event_id (take n es @ drop n es))" "distinct (List.map_filter ev_mutation_id (take n es @ drop n es))"
    using assms(1) by (simp_all add: next_batch_def)
  then have "ev_event_id ` set (take n es) \<inter> ev_event_id ` set (drop n es) = {}"
    "set (List.map_filter ev_mutation_id (take n es)) \<inter> set (List.map_filter ev_mutation_id (drop n es)) = {}"
    unfolding map_append List.map_filter_def filter_append distinct_append by auto
  moreover have "m \<in> set (List.map_filter ev_mutation_id xs)" if "x \<in> set xs" "ev_mutation_id x = Some m" for x m xs
    using that by (force simp: List.map_filter_def)
  ultimately show ?thesis using assms(2,3) unfolding shares_identity_def by blast
qed

locale event_writer = event_log inv log_of read
  for inv :: "'s \<Rightarrow> bool" and log_of :: "'s \<Rightarrow> js_string \<Rightarrow> StoredConversationEvent list"
    and read :: "'s \<Rightarrow> ReadConversationEventsInput \<Rightarrow> 'e + ReadConversationEventsResult" +
  fixes append :: "'s \<Rightarrow> AppendConversationEventsInput \<Rightarrow> 'e + AppendConversationEventsResult \<times> 's"
    and storable :: "'s \<Rightarrow> ConversationEvent \<Rightarrow> bool"
  assumes append_next: "inv s \<Longrightarrow> es \<noteq> [] \<Longrightarrow> next_batch cid (length (log_of s cid)) es \<Longrightarrow> \<forall>e \<in> set es. storable s e \<Longrightarrow>
    \<exists>res t xs. append s \<lparr>ai_conversationId = cid, ai_expectedRevision = latest_of (length (log_of s cid)), ai_events = es\<rparr> =
        Inr (res, t) \<and> inv t \<and> log_of t = (log_of s)(cid := log_of s cid @ xs) \<and> map se_event xs = es \<and>
      (\<forall>e. storable s e \<and> (\<forall>d \<in> set es. \<not> shares_identity d e) \<longrightarrow> storable t e)"
begin

lemma repair_appends:
  assumes "inv s" "0 < n" "next_batch cid (length (log_of s cid)) es" "\<forall>e \<in> set es. storable s e"
  shows "\<exists>t xs. repair append cid n es s = Some (Inr (), t) \<and> inv t \<and>
    log_of t = (log_of s)(cid := log_of s cid @ xs) \<and> map se_event xs = es"
  using assms(1,3,4)
proof (induction "length es" arbitrary: es s rule: less_induct)
  case less
  show ?case
  proof (cases "es = []")
    case True
    with less.prems show ?thesis by (subst repair.simps) auto
  next
    case False
    let ?k = "length (log_of s cid)" and ?batch = "take n es"
    have ne: "?batch \<noteq> []" using False assms(2) by simp
    have hd: "ev_revision (hd ?batch) = int ?k + 1"
      using less.prems(2) False assms(2) by (auto simp: next_batch_def hd_conv_nth)
    have request: "repair_request cid ?batch =
        \<lparr>ai_conversationId = cid, ai_expectedRevision = latest_of ?k, ai_events = ?batch\<rparr>"
      using hd by (simp add: repair_request_def latest_of_def)
    have "\<forall>e \<in> set ?batch. storable s e" using less.prems(3) in_set_takeD by fast
    from append_next [OF less.prems(1) ne next_batch_take [OF less.prems(2)] this] obtain res t xs where
      t: "append s (repair_request cid ?batch) = Inr (res, t)" "inv t" "log_of t = (log_of s)(cid := log_of s cid @ xs)"
        "map se_event xs = ?batch" "\<forall>e. storable s e \<and> (\<forall>d \<in> set ?batch. \<not> shares_identity d e) \<longrightarrow> storable t e"
      unfolding request by blast
    have len: "length xs = length ?batch" using arg_cong [OF t(4), of length] by simp
    have "\<exists>u ys. repair append cid n (drop n es) t = Some (Inr (), u) \<and> inv u \<and>
        log_of u = (log_of t)(cid := log_of t cid @ ys) \<and> map se_event ys = drop n es"
    proof (cases "length es \<le> n")
      case True
      then show ?thesis using t(2) by (subst repair.simps) auto
    next
      case more: False
      show ?thesis
      proof (rule less.hyps [OF _ t(2)])
        show "length (drop n es) < length es" using False assms(2) by simp
        have "length (log_of t cid) = ?k + n" using len more by (simp add: t(3))
        then show "next_batch cid (length (log_of t cid)) (drop n es)"
          using next_batch_drop [OF less.prems(2)] more by simp
        show "\<forall>e \<in> set (drop n es). storable t e"
          using t(5) less.prems(3) next_batch_apart [OF less.prems(2)] by (blast dest: in_set_dropD)
      qed
    qed
    then obtain u ys where u: "repair append cid n (drop n es) t = Some (Inr (), u)" "inv u"
      "log_of u = (log_of t)(cid := log_of t cid @ ys)" "map se_event ys = drop n es" by blast
    have "repair append cid n es s = Some (Inr (), u)"
      using False t(1) u(1) by (subst repair.simps) simp
    moreover have "log_of u = (log_of s)(cid := log_of s cid @ (xs @ ys))" using t(3) u(3) by simp
    moreover have "map se_event (xs @ ys) = es" using t(4) u(4) by simp
    ultimately show ?thesis using u(2) by blast
  qed
qed

end


section \<open>The in-memory adapter as a shadow\<close>

definition storable :: "url_parser \<Rightarrow> (rat \<Rightarrow> js_string) \<Rightarrow> InMemoryConversationEventStore \<Rightarrow> ConversationEvent \<Rightarrow> bool" where
  "storable parse_url R store e \<longleftrightarrow> okE (parseConversationEvent parse_url R (event_json e)) \<and> clone_event e = e \<and>
     fresh_in store e \<and> encodeURIComponent (ev_conversation_id e) \<noteq> None"

lemma fresh_match: "fresh_in store e \<Longrightarrow> findIdempotentMatch store e = Inr None"
  by (auto simp: fresh_in_def findIdempotentMatch_def split: option.split)

lemma validate_batch_next:
  assumes "\<forall>i < length es. ev_revision (es ! i) = req + int i \<and> ev_conversation_id (es ! i) = ai_conversationId input"
    "distinct (map ev_event_id es)" "ids \<inter> ev_event_id ` set es = {}"
    "distinct (List.map_filter ev_mutation_id es)" "muts \<inter> set (List.map_filter ev_mutation_id es) = {}"
    "\<forall>e \<in> set es. okE (parseConversationEvent parse_url R (event_json e))"
  shows "validate_batch parse_url R input cur req ids muts es = Inr ()"
  using assms
proof (induction es arbitrary: req ids muts)
  case (Cons e es)
  have e: "ev_revision e = req" "ev_conversation_id e = ai_conversationId input" "ev_event_id e \<notin> ids"
    "okE (parseConversationEvent parse_url R (event_json e))"
    using Cons.prems(1,3,6) by (auto dest: spec [of _ 0])
  have rest: "\<forall>i < length es. ev_revision (es ! i) = req + 1 + int i \<and> ev_conversation_id (es ! i) = ai_conversationId input"
    using Cons.prems(1) by (auto dest: spec [of _ "Suc _"])
  show ?case
  proof (cases "ev_mutation_id e")
    case None
    have "validate_batch parse_url R input cur (req + 1) (insert (ev_event_id e) ids) muts es = Inr ()"
      using Cons.prems None by (intro Cons.IH rest) (auto simp: map_filter_simps)
    with e None show ?thesis by (auto simp: okE_iff)
  next
    case (Some m)
    have "validate_batch parse_url R input cur (req + 1) (insert (ev_event_id e) ids) (insert m muts) es = Inr ()"
      using Cons.prems Some by (intro Cons.IH rest) (auto simp: map_filter_simps)
    moreover have "m \<notin> muts" using Cons.prems(5) Some by (auto simp: map_filter_simps)
    ultimately show ?thesis using e Some by (auto simp: okE_iff)
  qed
qed simp

lemma fold_index_fresh:
  assumes "fresh_in store e" "\<forall>x \<in> set xs. \<not> shares_identity (se_event x) e"
  shows "fresh_in (fold (index_entry cid) xs store) e"
  using assms
proof (induction xs arbitrary: store)
  case (Cons x xs)
  have "fresh_in (index_entry cid x store) e"
    using Cons.prems by (auto simp: fresh_in_def shares_identity_def split: option.split)
  with Cons show ?case by simp
qed simp

lemma store_batch:
  assumes "encodeURIComponent cid \<noteq> None" "\<forall>e \<in> set es. clone_event e = e"
  shows "\<exists>xs. mapE (store_event cid) es = Inr xs"
  using assms
proof (induction es)
  case (Cons e es)
  then obtain xs where "mapE (store_event cid) es = Inr xs" by auto
  moreover have "\<exists>x. store_event cid e = Inr x"
    using Cons.prems(1) by (auto simp: store_event_def memoryCursor_def Let_def)
  ultimately show ?case by auto
qed simp

lemma no_matches: "\<forall>e \<in> set es. fresh_in store e \<Longrightarrow> mapE (findIdempotentMatch store) es = Inr (map (\<lambda>_. None) es)"
  using fresh_match by (simp add: mapE_Inr_iff list_all2_conv_all_nth)

lemma map_filter_none: "List.map_filter id (map (\<lambda>_. None) es) = []"
  by (induction es) (simp_all add: map_filter_simps)

lemma memory_append_next:
  assumes ok: "store_ok store" and es: "es \<noteq> []" "next_batch cid (length (all_entries store cid)) es"
    and storable: "\<forall>e \<in> set es. storable parse_url R store e"
  shows "\<exists>res t xs. append_events parse_url R store
        \<lparr>ai_conversationId = cid, ai_expectedRevision = latest_of (length (all_entries store cid)), ai_events = es\<rparr> =
        Inr (res, t) \<and> store_ok t \<and> all_entries t = (all_entries store)(cid := all_entries store cid @ xs) \<and> map se_event xs = es \<and>
      (\<forall>e. storable parse_url R store e \<and> (\<forall>d \<in> set es. \<not> shares_identity d e) \<longrightarrow> storable parse_url R t e)"
proof -
  let ?input = "\<lparr>ai_conversationId = cid, ai_expectedRevision = latest_of (length (all_entries store cid)), ai_events = es\<rparr>"
    and ?cur = "latestRevision (es_conversations store cid)"
  have cur: "?cur = latest_of (length (all_entries store cid))"
    using latestRevision_length [OF ok] by (simp add: latest_of_def)
  have base: "coalesce (latest_of (length (all_entries store cid))) 0 = int (length (all_entries store cid))"
    by (simp add: latest_of_def)
  have valid: "validate_batch parse_url R ?input ?cur (coalesce (ai_expectedRevision ?input) 0 + 1) {} {} es = Inr ()"
    using es(2) storable base by (intro validate_batch_next) (auto simp: next_batch_def storable_def)
  have fresh: "\<forall>e \<in> set es. fresh_in store e" and clone: "\<forall>e \<in> set es. clone_event e = e"
    using storable by (simp_all add: storable_def)
  have "ev_conversation_id (hd es) = cid" using es by (auto simp: next_batch_def hd_conv_nth)
  moreover have "hd es \<in> set es" using es(1) by simp
  ultimately have "encodeURIComponent cid \<noteq> None" using storable by (auto simp: storable_def)
  from store_batch [OF this clone] obtain xs where xs: "mapE (store_event cid) es = Inr xs" by blast
  let ?t = "fold (index_entry cid) xs store"
  have step: "append_events parse_url R store ?input =
      Inr (appendResult Appended xs (ev_revision (se_event (last xs))), ?t)"
    using valid es(1) cur xs
    by (simp add: append_events_def validateAppend_def no_matches [OF fresh] map_filter_none Let_def)
  have eff: "store_ok ?t" "all_entries ?t = (all_entries store)(cid := all_entries store cid @ xs)"
    "map se_event xs = map clone_event es"
    using append_new [OF ok, of ?input xs parse_url R ?cur] xs cur fresh valid by simp_all
  have events: "map se_event xs = es" using eff(3) clone by (simp add: map_idI)
  then have "se_event ` set xs = set es" by (metis list.set_map)
  then have "storable parse_url R ?t e" if "storable parse_url R store e" "\<forall>d \<in> set es. \<not> shares_identity d e" for e
    using that by (auto simp: storable_def intro!: fold_index_fresh)
  with step eff events show ?thesis by blast
qed

interpretation memory_writer: event_writer store_ok all_entries read_events "append_events parse_url R" "storable parse_url R"
  for parse_url R
  by unfold_locales (rule memory_append_next)

section \<open>Two in-memory stores\<close>

type_synonym memory_pair = "(InMemoryConversationEventStore, InMemoryConversationEventStore) DualWriteConversationEventStore"

text \<open>An append that may fail before it reaches the shadow.\<close>

definition unreliable :: "'f option \<Rightarrow> ('s \<Rightarrow> 'i \<Rightarrow> 'f + 'r) \<Rightarrow> 's \<Rightarrow> 'i \<Rightarrow> 'f + 'r" where
  "unreliable failure f s input = (case failure of Some e \<Rightarrow> Inl e | None \<Rightarrow> f s input)"

abbreviation memory_reconcile where
  "memory_reconcile parse_url R \<equiv> reconcile read_events read_events (append_events parse_url R)"

text \<open>
  The runs of a dual-write store over two in-memory adapters. Every write may or may not reach
  the shadow. Writers send events that survive JSON text, and a writer that repeats a stored
  batch repeats it exactly.
\<close>

inductive mirror_run :: "url_parser \<Rightarrow> (rat \<Rightarrow> js_string) \<Rightarrow> memory_pair \<Rightarrow> bool" for parse_url R where
  start: "createDualWrite empty_store empty_store n = Inr d \<Longrightarrow> mirror_run parse_url R d"
| dual_write: "mirror_run parse_url R d \<Longrightarrow> \<forall>e \<in> set (ai_events input). plain_event e \<Longrightarrow>
    (\<And>res p. append_events parse_url R (dw_primary d) input = Inr (res, p) \<Longrightarrow> ao_status res = Idempotent \<Longrightarrow>
      map se_event (ao_entries res) = ai_events input) \<Longrightarrow>
    dual_append (append_events parse_url R) (unreliable (failure :: store_error option) (append_events parse_url R))
      (handler :: store_error shadow_handler) input d = (outcome, d') \<Longrightarrow>
    mirror_run parse_url R d'"
| reconciled: "mirror_run parse_url R d \<Longrightarrow> memory_reconcile parse_url R cid d = Some (outcome, d') \<Longrightarrow>
    mirror_run parse_url R d'"

definition mirrors :: "url_parser \<Rightarrow> (rat \<Rightarrow> js_string) \<Rightarrow> memory_pair \<Rightarrow> bool" where
  "mirrors parse_url R d \<longleftrightarrow> store_ok (dw_primary d) \<and> store_ok (dw_shadow d) \<and> 1 \<le> dw_pageSize d \<and> dw_pageSize d \<le> 1000 \<and>
     (\<forall>cid. prefix (all_entries (dw_shadow d) cid) (all_entries (dw_primary d) cid) \<and>
       (\<forall>x \<in> set (all_entries (dw_primary d) cid). plain_event (se_event x) \<and>
          okE (parseConversationEvent parse_url R (event_json (se_event x)))))"

lemma empty_log [simp]: "all_entries empty_store = (\<lambda>_. [])"
  by (rule ext) (simp add: all_entries_def empty_store_def)

lemma latest_stored: "store_ok s \<Longrightarrow> getLatestRevision s cid = latest_of (length (all_entries s cid))"
  by (simp add: getLatestRevision_def latestRevision_length latest_of_def)

lemma latest_of_simps [simp]: "coalesce (latest_of k) 0 = int k" "latest_of j = latest_of k \<longleftrightarrow> j = k"
  by (simp_all add: latest_of_def)

lemma created_mirrors: "createDualWrite empty_store empty_store n = Inr d \<Longrightarrow> mirrors parse_url R d"
  by (auto simp: createDualWrite_def mirrors_def empty_store_ok empty_log split: option.splits if_splits)

lemma entry_determined:
  "entry_ok cid i x \<Longrightarrow> entry_ok cid i y \<Longrightarrow> se_event x = se_event y \<Longrightarrow> x = y"
  by (simp add: entry_ok_def)

text \<open>Logs of the same conversation that carry the same events are equal.\<close>

lemma same_entries:
  assumes "store_ok s" "store_ok t" "map se_event (take n (drop k (all_entries s cid))) = map se_event ys"
    "all_entries t cid = take k (all_entries s cid) @ ys" "k \<le> length (all_entries s cid)"
  shows "prefix (all_entries t cid) (all_entries s cid)"
proof -
  let ?s = "all_entries s cid" and ?t = "all_entries t cid"
  have len: "length ys = length (take n (drop k ?s))" using arg_cong [OF assms(3), of length] by simp
  have "ys ! i = take n (drop k ?s) ! i" if i: "i < length ys" for i
  proof -
    have "k + i < length ?t" "k + i < length ?s" using i len assms(4,5) by auto
    then have "entry_ok cid (k + i) (?t ! (k + i))" "entry_ok cid (k + i) (?s ! (k + i))"
      using entry_at [OF assms(2)] entry_at [OF assms(1)] by simp_all
    moreover have "se_event (ys ! i) = se_event (take n (drop k ?s) ! i)"
      using assms(3) i len by (metis nth_map)
    ultimately show ?thesis
      using i len assms(4,5) by (intro entry_determined [of cid "k + i"]) (simp_all add: nth_append)
  qed
  then have "ys = take n (drop k ?s)" using len by (intro nth_equalityI) simp_all
  then have "?t = take (k + n) ?s" by (simp add: assms(4) take_add)
  then show ?thesis by (simp add: take_is_prefix)
qed

lemma append_shadow_prefix:
  assumes m: "mirrors parse_url R d" and plain: "\<forall>e \<in> set (ai_events input). plain_event e"
    and primary: "append_events parse_url R (dw_primary d) input = Inr (res, p)"
    and exact: "ao_status res = Idempotent \<Longrightarrow> map se_event (ao_entries res) = ai_events input"
    and shadow: "append_events parse_url R (dw_shadow d) input = Inr (res', s)"
  shows "prefix (all_entries s cid) (all_entries p cid)"
proof -
  let ?c = "ai_conversationId input" and ?P = "dw_primary d" and ?S = "dw_shadow d"
  have ok: "store_ok ?P" "store_ok ?S" and pre: "\<And>cid. prefix (all_entries ?S cid) (all_entries ?P cid)"
    using m by (simp_all add: mirrors_def)
  have clones: "map clone_event (ai_events input) = ai_events input"
    using plain by (intro map_idI) (simp add: plain_event_def)
  note P = append_effect [OF ok(1) primary]
  have Pgrows: "prefix (all_entries ?P cid) (all_entries p cid)"
    using P by (cases "ao_status res") auto
  show ?thesis
  proof (cases "cid = ?c \<and> ao_status res' = Appended")
    case False
    with append_effect [OF ok(2) shadow] have "all_entries s cid = all_entries ?S cid"
      by (cases "ao_status res'") auto
    with pre Pgrows show ?thesis using prefix_order.trans by metis
  next
    case True
    note S = append_effect [OF ok(2) shadow]
    have slog: "all_entries s ?c = all_entries ?S ?c @ ao_entries res'" "map se_event (ao_entries res') = ai_events input"
      "store_ok s" "getLatestRevision ?S ?c = ai_expectedRevision input"
      using S True clones by auto
    have k: "all_entries ?S ?c = take (length (all_entries ?S ?c)) (all_entries ?P ?c)"
      "length (all_entries ?S ?c) \<le> length (all_entries ?P ?c)"
      using pre [of ?c] by (auto simp: prefix_def)
    have expected: "nat (coalesce (ai_expectedRevision input) 0) = length (all_entries ?S ?c)"
      using slog(4) by (simp add: latest_stored [OF ok(2)] flip: slog(4))
    show ?thesis
    proof (cases "ao_status res")
      case Idempotent
      with P exact have "p = ?P"
        "map se_event (take (length (ai_events input)) (drop (length (all_entries ?S ?c)) (all_entries ?P ?c))) = ai_events input"
        using expected by auto
      with same_entries [OF ok(1) slog(3), of "length (ai_events input)" "length (all_entries ?S ?c)" ?c "ao_entries res'"]
        slog k True show ?thesis by simp
    next
      case Appended
      with P clones have plog: "store_ok p" "all_entries p ?c = all_entries ?P ?c @ ao_entries res"
        "map se_event (ao_entries res) = ai_events input" "getLatestRevision ?P ?c = ai_expectedRevision input" by auto
      have "length (all_entries ?P ?c) = length (all_entries ?S ?c)"
        using trans [OF plog(4) slog(4) [symmetric]] by (simp add: latest_stored ok)
      then have eq: "all_entries ?S ?c = all_entries ?P ?c" using k(1) by simp
      have "prefix (all_entries s ?c) (all_entries p ?c)"
        by (rule same_entries [OF plog(1) slog(3), of "length (ao_entries res)" "length (all_entries ?P ?c)" ?c "ao_entries res'"])
          (use plog slog eq in simp_all)
      with True show ?thesis by simp
    qed
  qed
qed

lemma appended_events_ok:
  assumes ok: "store_ok P" and step: "append_events parse_url R P input = Inr (res, p)"
    and plain: "\<forall>e \<in> set (ai_events input). plain_event e"
    and log: "\<forall>x \<in> set (all_entries P cid). plain_event (se_event x) \<and> okE (parseConversationEvent parse_url R (event_json (se_event x)))"
  shows "\<forall>x \<in> set (all_entries p cid). plain_event (se_event x) \<and> okE (parseConversationEvent parse_url R (event_json (se_event x)))"
proof (cases "ao_status res = Appended \<and> cid = ai_conversationId input")
  case True
  have "map clone_event (ai_events input) = ai_events input"
    using plain by (intro map_idI) (simp add: plain_event_def)
  with append_effect [OF ok step] True have
    p: "all_entries p cid = all_entries P cid @ ao_entries res" "map se_event (ao_entries res) = ai_events input" by auto
  then have "se_event ` set (ao_entries res) = set (ai_events input)" by (metis list.set_map)
  moreover have "\<forall>e \<in> set (ai_events input). okE (parseConversationEvent parse_url R (event_json e))"
    using validate_batch_Inr [OF append_validated(1) [OF step]] by blast
  ultimately show ?thesis using log plain by (auto simp: p(1))
next
  case False
  with append_effect [OF ok step] have "all_entries p cid = all_entries P cid" by (cases "ao_status res") auto
  with log show ?thesis by simp
qed

lemma dual_append_mirrors:
  assumes m: "mirrors parse_url R d" and plain: "\<forall>e \<in> set (ai_events input). plain_event e"
    and exact: "\<And>res p. append_events parse_url R (dw_primary d) input = Inr (res, p) \<Longrightarrow> ao_status res = Idempotent \<Longrightarrow>
      map se_event (ao_entries res) = ai_events input"
    and step: "dual_append (append_events parse_url R) (unreliable failure (append_events parse_url R)) handler input d = (outcome, d')"
  shows "mirrors parse_url R d'"
proof -
  have ok: "store_ok (dw_primary d)" "store_ok (dw_shadow d)" "1 \<le> dw_pageSize d" "dw_pageSize d \<le> 1000"
    and pre: "\<And>cid. prefix (all_entries (dw_shadow d) cid) (all_entries (dw_primary d) cid)"
    and log: "\<And>cid. \<forall>x \<in> set (all_entries (dw_primary d) cid). plain_event (se_event x) \<and>
        okE (parseConversationEvent parse_url R (event_json (se_event x)))"
    using m by (simp_all add: mirrors_def)
  show ?thesis
  proof (cases "append_events parse_url R (dw_primary d) input")
    case (Inl e)
    with m step show ?thesis by (simp add: dual_append_def)
  next
    case (Inr r)
    obtain res p where r: "r = (res, p)" by force
    note primary = Inr [unfolded r]
    have p: "store_ok p" "\<And>cid. \<forall>x \<in> set (all_entries p cid). plain_event (se_event x) \<and>
        okE (parseConversationEvent parse_url R (event_json (se_event x)))"
      by (rule append_store_ok [OF ok(1) primary], rule appended_events_ok [OF ok(1) primary plain log])
    show ?thesis
    proof (cases "unreliable failure (append_events parse_url R) (dw_shadow d) input")
      case (Inl e)
      have "prefix (all_entries (dw_primary d) cid) (all_entries p cid)" for cid
        using append_effect [OF ok(1) primary] by (cases "ao_status res") auto
      then have "prefix (all_entries (dw_shadow d) cid) (all_entries p cid)" for cid
        using pre prefix_order.trans by metis
      moreover have "d' = d\<lparr>dw_primary := p\<rparr>" using step by (simp add: dual_append_def primary Inl)
      ultimately show ?thesis using ok p by (simp add: mirrors_def)
    next
      case (Inr r')
      obtain res' s where r': "r' = (res', s)" by force
      have shadow: "append_events parse_url R (dw_shadow d) input = Inr (res', s)"
        using Inr r' by (simp add: unreliable_def split: option.splits)
      have "prefix (all_entries s cid) (all_entries p cid)" for cid
        by (rule append_shadow_prefix [OF m plain primary exact [OF primary] shadow])
      moreover have "d' = d\<lparr>dw_primary := p, dw_shadow := s\<rparr>" using step by (simp add: dual_append_def primary Inr r')
      ultimately show ?thesis using ok p append_store_ok [OF ok(2) shadow] by (simp add: mirrors_def)
    qed
  qed
qed

section \<open>Reconciliation\<close>

lemma plain_jsonValuesEqual: "plain_event e \<Longrightarrow> jsonValuesEqual (event_json e) (event_json e)"
  by (simp add: plain_event_def jsonValuesEqual_canon_lists)

lemma prefix_agrees:
  assumes "prefix S P" "\<forall>x \<in> set P. plain_event (se_event x)"
  shows "logs_diverge P S = None"
proof -
  from assms(1) obtain rest where P: "P = S @ rest" by (auto simp: prefix_def)
  have "find (\<lambda>(l, r). \<not> jsonValuesEqual (event_json (se_event l)) (event_json (se_event r))) (zip P S) = None"
    unfolding find_None_iff
  proof
    assume "\<exists>x. x \<in> set (zip P S) \<and> (case x of (l, r) \<Rightarrow> \<not> jsonValuesEqual (event_json (se_event l)) (event_json (se_event r)))"
    then obtain l r where lr: "(l, r) \<in> set (zip P S)" "\<not> jsonValuesEqual (event_json (se_event l)) (event_json (se_event r))"
      by auto
    then have "l = r" "l \<in> set P" by (auto simp: P zip_append1 set_zip)
    with lr(2) assms(2) plain_jsonValuesEqual show False by blast
  qed
  with P show ?thesis by (simp add: logs_diverge_def)
qed

lemma log_batch:
  assumes ok: "store_ok P"
  shows "next_batch cid 0 (map se_event (all_entries P cid))"
  unfolding next_batch_def
proof (intro conjI allI impI)
  fix i assume "i < length (map se_event (all_entries P cid))"
  then show "ev_revision (map se_event (all_entries P cid) ! i) = int (0 + i) + 1"
    "ev_conversation_id (map se_event (all_entries P cid) ! i) = cid"
    using entry_at [OF ok, of i cid] by (simp_all add: entry_ok_def)
qed (use memory.log_events [OF ok, of cid] memory.log_mutations [OF ok, of cid] in
  \<open>simp_all add: comp_def List.map_filter_def filter_map\<close>)

lemma index_okD:
  "index_ok key index s \<Longrightarrow> index k = Some ix \<Longrightarrow> ie_entry ix \<in> set (all_entries s (ie_conversationId ix))"
  "index_ok key index s \<Longrightarrow> index k = Some ix \<Longrightarrow> key (se_event (ie_entry ix)) = Some k"
  "index_ok key index s \<Longrightarrow> x \<in> set (all_entries s cid) \<Longrightarrow> key (se_event x) = Some k \<Longrightarrow>
    index k = Some \<lparr>ie_conversationId = cid, ie_entry = x\<rparr>"
  by (simp_all add: index_ok_def)

text \<open>An event of the primary that the shadow has not reached is unknown to the shadow.\<close>

lemma missing_fresh:
  assumes m: "mirrors parse_url R d" and i: "length (all_entries (dw_shadow d) cid) \<le> i" "i < length (all_entries (dw_primary d) cid)"
  shows "fresh_in (dw_shadow d) (se_event (all_entries (dw_primary d) cid ! i))"
proof -
  let ?P = "dw_primary d" and ?S = "dw_shadow d" and ?x = "all_entries (dw_primary d) cid ! i"
  have ok: "store_ok ?P" "store_ok ?S" and pre: "prefix (all_entries ?S c) (all_entries ?P c)" for c
    using m by (simp_all add: mirrors_def)
  have unknown: "index' k = None" if P: "index_ok key index ?P" and S: "index_ok key index' ?S"
    and k: "key (se_event ?x) = Some k" for key index index' k
  proof (rule ccontr)
    assume "index' k \<noteq> None"
    then obtain ix where ix: "index' k = Some ix" by blast
    note y = index_okD(1,2) [OF S ix]
    have "ie_entry ix \<in> set (all_entries ?P (ie_conversationId ix))" using set_mono_prefix [OF pre] y(1) by blast
    from index_okD(3) [OF P this y(2)]
    have "index k = Some \<lparr>ie_conversationId = ie_conversationId ix, ie_entry = ie_entry ix\<rparr>" .
    moreover have "index k = Some \<lparr>ie_conversationId = cid, ie_entry = ?x\<rparr>"
      by (rule index_okD(3) [OF P _ k]) (use i(2) in simp)
    ultimately have "cid = ie_conversationId ix \<and> ?x = ie_entry ix" by (metis IndexedEntry.ext_inject option.inject)
    then have "?x \<in> set (all_entries ?S cid)" using y(1) by metis
    then obtain j where j: "j < length (all_entries ?S cid)" "all_entries ?S cid ! j = ?x" by (auto simp: in_set_conv_nth)
    with entry_at [OF ok(2) j(1)] entry_at [OF ok(1) i(2)] i(1) show False by (simp add: entry_ok_def)
  qed
  show ?thesis
    unfolding fresh_in_def
  proof (intro conjI allI impI)
    show "es_eventIds ?S (ev_event_id (se_event ?x)) = None"
      by (rule unknown [of "\<lambda>e. Some (ev_event_id e)" "es_eventIds ?P"]) (use ok in \<open>simp_all add: store_ok_def\<close>)
    show "es_mutationIds ?S k = None" if "ev_mutation_id (se_event ?x) = Some k" for k
      by (rule unknown [of ev_mutation_id "es_mutationIds ?P"]) (use ok that in \<open>simp_all add: store_ok_def\<close>)
  qed
qed

lemma missing_storable:
  assumes m: "mirrors parse_url R d" and x: "x \<in> set (drop (length (all_entries (dw_shadow d) cid)) (all_entries (dw_primary d) cid))"
  shows "storable parse_url R (dw_shadow d) (se_event x)"
proof -
  let ?P = "all_entries (dw_primary d) cid" and ?k = "length (all_entries (dw_shadow d) cid)"
  from x obtain j where j: "j < length ?P - ?k" "x = ?P ! (?k + j)" by (auto simp: in_set_conv_nth)
  then have i: "?k + j < length ?P" by simp
  have ok: "store_ok (dw_primary d)" using m by (simp add: mirrors_def)
  have "entry_ok cid (?k + j) x" using entry_at [OF ok i] j(2) by simp
  then have "encodeURIComponent (ev_conversation_id (se_event x)) \<noteq> None"
    by (auto simp: entry_ok_def memoryCursor_def split: option.splits)
  moreover have "x \<in> set ?P" using x by (rule in_set_dropD)
  then have "plain_event (se_event x)" "okE (parseConversationEvent parse_url R (event_json (se_event x)))"
    using m unfolding mirrors_def by blast+
  moreover have "fresh_in (dw_shadow d) (se_event x)" using missing_fresh [OF m _ i] j(2) by simp
  ultimately show ?thesis by (simp add: storable_def plain_event_def)
qed

lemma reconcile_mirrors:
  assumes m: "mirrors parse_url R d"
  shows "\<exists>d'. memory_reconcile parse_url R cid d = Some (Inr (Converged
      (length (all_entries (dw_primary d) cid) - length (all_entries (dw_shadow d) cid))
      (getLatestRevision (dw_primary d) cid)), d') \<and> dw_primary d' = dw_primary d \<and> dw_pageSize d' = dw_pageSize d \<and>
    store_ok (dw_shadow d') \<and>
    all_entries (dw_shadow d') = (all_entries (dw_shadow d))(cid := all_entries (dw_primary d) cid)"
proof -
  let ?P = "all_entries (dw_primary d) cid" and ?S = "all_entries (dw_shadow d) cid"
  let ?missing = "map se_event (drop (length ?S) ?P)"
  have ok: "store_ok (dw_primary d)" "store_ok (dw_shadow d)" "1 \<le> dw_pageSize d" "dw_pageSize d \<le> 1000"
    and pre: "prefix ?S ?P" and plain: "\<forall>x \<in> set ?P. plain_event (se_event x)"
    using m by (simp_all add: mirrors_def)
  have k: "length ?S \<le> length ?P" "?S = take (length ?S) ?P" using pre by (auto simp: prefix_def)
  have "next_batch cid (length ?S) ?missing"
    using next_batch_drop [OF log_batch [OF ok(1), of cid], of "length ?S"] k(1) by (simp add: drop_map)
  moreover have "\<forall>e \<in> set ?missing. storable parse_url R (dw_shadow d) e" using missing_storable [OF m] by auto
  ultimately obtain s xs where s: "repair (append_events parse_url R) cid (nat (dw_pageSize d)) ?missing (dw_shadow d) = Some (Inr (), s)"
    "store_ok s" "all_entries s = (all_entries (dw_shadow d))(cid := ?S @ xs)" "map se_event xs = ?missing"
    using memory_writer.repair_appends [OF ok(2), of "nat (dw_pageSize d)" cid ?missing parse_url R] ok(3)
    by auto
  have "prefix (all_entries s cid) ?P"
    by (rule same_entries [OF ok(1) s(2), of "length ?P" "length ?S"]) (use s k in simp_all)
  moreover have "length (all_entries s cid) = length ?P" using arg_cong [OF s(4), of length] k(1) s(3) by simp
  ultimately have "all_entries s cid = ?P" by (auto simp: prefix_def)
  then have entries: "all_entries s = (all_entries (dw_shadow d))(cid := ?P)" using s(3) by simp
  have rev: "getLatestRevision (dw_primary d) cid = (if ?P = [] then None else Some (ev_revision (se_event (last ?P))))"
    using latest_stored [OF ok(1), of cid] entry_at [OF ok(1), of "length ?P - 1" cid]
    by (auto simp: latest_of_def entry_ok_def last_conv_nth of_nat_diff Suc_leI)
  have "memory_reconcile parse_url R cid d = Some (Inr (Converged (length ?P - length ?S) (getLatestRevision (dw_primary d) cid)),
      d\<lparr>dw_shadow := s\<rparr>)"
    unfolding reconcile_def rev using s(1)
    by (simp add: memory.read_all_log ok prefix_agrees [OF pre plain])
  then show ?thesis using s(2) entries by auto
qed

lemma mirror_run_mirrors: "mirror_run parse_url R d \<Longrightarrow> mirrors parse_url R d"
proof (induction rule: mirror_run.induct)
  case (start n d)
  then show ?case by (rule created_mirrors)
next
  case (dual_write d input failure handler outcome d')
  from dual_append_mirrors [OF dual_write.IH dual_write.hyps(2,3,4)] show ?case .
next
  case (reconciled d cid outcome d')
  from reconcile_mirrors [OF reconciled.IH, of cid] reconciled.hyps(2)
  have d': "dw_primary d' = dw_primary d" "dw_pageSize d' = dw_pageSize d" "store_ok (dw_shadow d')"
    "all_entries (dw_shadow d') = (all_entries (dw_shadow d))(cid := all_entries (dw_primary d) cid)" by auto
  then show ?case using reconciled.IH by (simp add: mirrors_def)
qed

text \<open>
  C30: two in-memory stores that start empty are written through the dual-write store, with
  events that survive their JSON copy, any of whose writes may fail to reach the shadow; and a
  batch that the primary confirms as a repetition is the stored one. Then the shadow's log of a
  conversation is at every moment the beginning of the primary's, and reconciling the conversation
  terminates and makes the two logs equal by appending the missing events, without touching the
  primary or any other conversation. The condition on repetitions is needed: the lemma
  \<open>retry_under_new_identifier_diverges\<close> shows two logs that no reconciliation makes equal.
\<close>

theorem reconcile_converges:
  assumes run: "mirror_run parse_url R d"
  shows "prefix (all_entries (dw_shadow d) cid) (all_entries (dw_primary d) cid) \<and>
    (\<exists>d'. reconcile read_events read_events (append_events parse_url R) cid d = Some (Inr (Converged
        (length (all_entries (dw_primary d) cid) - length (all_entries (dw_shadow d) cid))
        (getLatestRevision (dw_primary d) cid)), d') \<and> dw_primary d' = dw_primary d \<and>
      all_entries (dw_shadow d') = (all_entries (dw_shadow d))(cid := all_entries (dw_primary d) cid))"
proof -
  note m = mirror_run_mirrors [OF run]
  then have "prefix (all_entries (dw_shadow d) cid) (all_entries (dw_primary d) cid)" by (simp add: mirrors_def)
  with reconcile_mirrors [OF m, of cid] show ?thesis by auto
qed

definition lagging_pair :: memory_pair where
  "lagging_pair = \<lparr>dw_primary = index_entry (js ''c'') first_entry empty_store, dw_shadow = empty_store, dw_pageSize = 100\<rparr>"

lemma lagging_run: "mirror_run (\<lambda>_. None) (\<lambda>_. []) lagging_pair"
proof (rule mirror_run.dual_write)
  let ?d = "\<lparr>dw_primary = empty_store, dw_shadow = empty_store, dw_pageSize = 100\<rparr>"
  show "mirror_run (\<lambda>_. None) (\<lambda>_. []) ?d"
    by (rule mirror_run.start [of None]) (simp add: createDualWrite_def safe_int_def MAX_SAFE_INTEGER_def)
  show "\<forall>e \<in> set (ai_events first_batch). plain_event e"
  proof -
    have "plain_event (runtime_event (js ''e1'') (js ''c'') 1 ConversationCleared)"
      unfolding plain_event_def by (intro conjI; code_simp)
    then show ?thesis by (simp add: first_batch_def)
  qed
  show "dual_append (append_events (\<lambda>_. None) (\<lambda>_. [])) (unreliable (Some URIError) (append_events (\<lambda>_. None) (\<lambda>_. [])))
      (\<lambda>_ _. None) first_batch ?d = (Inr (appendResult Appended [first_entry] 1), lagging_pair)"
    by (simp add: dual_append_def unreliable_def first_batch_appended after_shadow_error_def lagging_pair_def)
  show "map se_event (ao_entries res) = ai_events first_batch"
    if "append_events (\<lambda>_. None) (\<lambda>_. []) (dw_primary ?d) first_batch = Inr (res, p)" "ao_status res = Idempotent" for res p
    using that by (auto simp: first_batch_appended appendResult_def)
qed

theorem reconcile_converges_witness:
  "\<exists>d. reconcile read_events read_events (append_events (\<lambda>_. None) (\<lambda>_. [])) (js ''c'') lagging_pair =
      Some (Inr (Converged 1 (Some 1)), d) \<and> all_entries (dw_shadow d) (js ''c'') = [first_entry]"
  using reconcile_converges [OF lagging_run, of "js ''c''"] latest_stored [OF append_store_ok [OF empty_store_ok first_batch_appended], of "js ''c''"]
  by (auto simp: lagging_pair_def latest_of_def)

section \<open>A retry under a new event identifier\<close>

text \<open>
  A client may repeat a mutation under a new event identifier: the store answers with the stored
  event. If the shadow missed the first attempt it stores the second one, and the logs
  diverge for good.
\<close>

definition attempt :: "string \<Rightarrow> ConversationEvent" where
  "attempt i = (runtime_event (js i) (js ''c'') 1 ConversationCleared)\<lparr>ev_mutation_id := Some (js ''m'')\<rparr>"

definition attempt_batch :: "string \<Rightarrow> AppendConversationEventsInput" where
  "attempt_batch i = \<lparr>ai_conversationId = js ''c'', ai_expectedRevision = None, ai_events = [attempt i]\<rparr>"

definition attempt_entry :: "string \<Rightarrow> StoredConversationEvent" where
  "attempt_entry i = \<lparr>se_cursor = js ''memory:c:1'', se_event = attempt i\<rparr>"

lemma attempt_simps [simp]:
  "ev_event_id (attempt i) = js i" "ev_mutation_id (attempt i) = Some (js ''m'')" "ev_conversation_id (attempt i) = js ''c''"
  "ev_revision (attempt i) = 1" "ev_payload (attempt i) = ConversationCleared" "clone_event (attempt i) = attempt i"
  by (simp_all add: attempt_def clone_event_def clone_payload_def runtime_event_def)

lemma attempt_valid:
  assumes "identifier_ok (js i)"
  shows "validateAppend (\<lambda>_. None) (\<lambda>_. []) (attempt_batch i) cur = Inr ()"
proof -
  have "parseConversationEvent (\<lambda>_. None) (\<lambda>_. []) (event_json (attempt i)) = Inr (event_json (attempt i))"
    unfolding attempt_def using assms
    by (intro mutation_event_parses) (simp_all add: cleared_payload_ok identifier_ok_def identifierLength_def MAX_SAFE_INTEGER_def)
  then show ?thesis by (simp add: validateAppend_def attempt_batch_def coalesce_def)
qed

lemma attempt_ids: "identifier_ok (js ''e1'')" "identifier_ok (js ''e2'')" "js ''e2'' \<noteq> js ''e1''"
  by (simp_all add: identifier_ok_def identifierLength_def)

lemma attempt_appended:
  assumes "identifier_ok (js i)"
  shows "append_events (\<lambda>_. None) (\<lambda>_. []) empty_store (attempt_batch i) =
    Inr (appendResult Appended [attempt_entry i] 1, index_entry (js ''c'') (attempt_entry i) empty_store)"
  by (simp add: append_events_def attempt_valid [OF assms] attempt_batch_def [of i] empty_store_def latestRevision_def
      findIdempotentMatch_def map_filter_simps store_event_def attempt_entry_def Let_def)
    (simp add: attempt_valid [OF assms, unfolded attempt_batch_def])

lemma attempt_confirmed:
  "append_events (\<lambda>_. None) (\<lambda>_. []) (index_entry (js ''c'') (attempt_entry ''e1'') empty_store) (attempt_batch ''e2'') =
    Inr (appendResult Idempotent [attempt_entry ''e1''] 1, index_entry (js ''c'') (attempt_entry ''e1'') empty_store)"
proof -
  have "plain_event (attempt ''e1'')" unfolding plain_event_def by (intro conjI; code_simp)
  note parts = plain_event_parts [OF this]
  have same: "actor_json (ev_actor (attempt ''e2'')) = actor_json (ev_actor (attempt ''e1''))"
    "source_json (ev_source (attempt ''e2'')) = source_json (ev_source (attempt ''e1''))"
    "ev_metadata (attempt ''e2'') = ev_metadata (attempt ''e1'')" by (simp_all add: attempt_def runtime_event_def)
  have "sameClientMutation (attempt ''e1'') (attempt ''e2'')"
    using parts unfolding sameClientMutation_def same by simp
  then show ?thesis
    using attempt_valid [OF attempt_ids(2), unfolded attempt_batch_def] attempt_ids(3)
    by (simp add: append_events_def attempt_batch_def empty_store_def latestRevision_def findIdempotentMatch_def map_filter_simps
        attempt_entry_def index_entry_def Let_def)
qed

lemma retry_under_new_identifier_diverges:
  assumes "dual_append (append_events (\<lambda>_. None) (\<lambda>_. [])) (unreliable (Some URIError) (append_events (\<lambda>_. None) (\<lambda>_. [])))
      handler (attempt_batch ''e1'') \<lparr>dw_primary = empty_store, dw_shadow = empty_store, dw_pageSize = 100\<rparr> = (first, d)"
    and "dual_append (append_events (\<lambda>_. None) (\<lambda>_. [])) (unreliable None (append_events (\<lambda>_. None) (\<lambda>_. [])))
      handler (attempt_batch ''e2'') d = (second, d')"
  shows "memory_reconcile (\<lambda>_. None) (\<lambda>_. []) (js ''c'') d' = Some (Inr (Divergent 1 (js ''e1'') (js ''e2'')), d')"
proof -
  let ?P = "index_entry (js ''c'') (attempt_entry ''e1'') empty_store" and ?S = "index_entry (js ''c'') (attempt_entry ''e2'') empty_store"
  have d: "d = \<lparr>dw_primary = ?P, dw_shadow = empty_store, dw_pageSize = 100\<rparr>"
    using assms(1) by (simp add: dual_append_def unreliable_def attempt_appended [OF attempt_ids(1)])
  have d': "d' = \<lparr>dw_primary = ?P, dw_shadow = ?S, dw_pageSize = 100\<rparr>"
    using assms(2) by (simp add: d dual_append_def unreliable_def attempt_confirmed attempt_appended [OF attempt_ids(2)])
  have ok: "store_ok ?P" "store_ok ?S"
    using append_store_ok [OF empty_store_ok attempt_appended] attempt_ids by blast+
  have logs: "all_entries ?P (js ''c'') = [attempt_entry ''e1'']" "all_entries ?S (js ''c'') = [attempt_entry ''e2'']" by simp_all
  have "\<not> jsonValuesEqual (event_json (attempt ''e1'')) (event_json (attempt ''e2''))" by code_simp
  then have "logs_diverge [attempt_entry ''e1''] [attempt_entry ''e2''] = Some (Divergent 1 (js ''e1'') (js ''e2''))"
    by (simp add: logs_diverge_def attempt_entry_def)
  then show ?thesis
    by (simp add: reconcile_def d' memory.read_all_log ok logs)
qed

end
