(* ===== verification/StateValidation.thy ===== *)
theory StateValidation
  imports StateJson
begin

text \<open>
  \<^verbatim>\<open>src/conversation/state-validation.ts\<close>: the structural check of the state that a checkpoint
  holds. It reads a JSON value; a field that is absent reads as \<^verbatim>\<open>undefined\<close> (\<open>None\<close>).
\<close>

section \<open>Values\<close>

text \<open>
  \<^verbatim>\<open>String(value)\<close>: an array becomes the texts of its elements with commas between them, where
  \<^verbatim>\<open>null\<close> becomes nothing. An object is taken to inherit its \<^verbatim>\<open>toString\<close>.
\<close>

fun js_text :: "(rat \<Rightarrow> js_string) \<Rightarrow> json \<Rightarrow> js_string" where
  "js_text R JNull = js ''null''"
| "js_text R (JBool b) = js (if b then ''true'' else ''false'')"
| "js_text R (JNum n) = (case n of NaN \<Rightarrow> js ''NaN'' | Infinity positive \<Rightarrow> js (if positive then ''Infinity'' else ''-Infinity'')
     | _ \<Rightarrow> number_text R n)"
| "js_text R (JStr s) = s"
| "js_text R (JArr xs) = join_comma (map (\<lambda>x. if x = JNull then [] else js_text R x) xs)"
| "js_text R (JObj fs) = js ''[object Object]''"

definition text_among :: "(rat \<Rightarrow> js_string) \<Rightarrow> json option \<Rightarrow> string list \<Rightarrow> bool" where
  "text_among R value texts \<longleftrightarrow> (case value of None \<Rightarrow> js ''undefined'' | Some v \<Rightarrow> js_text R v) \<in> js ` set texts"

definition hasExactKeys :: "js_object \<Rightarrow> string list \<Rightarrow> bool" where
  "hasExactKeys obj expected \<longleftrightarrow> length (keys_of obj) = length expected \<and> (\<forall>k \<in> set expected. has_own obj k)"

definition record_with :: "json option \<Rightarrow> (js_object \<Rightarrow> bool) \<Rightarrow> bool" where
  "record_with value p \<longleftrightarrow> (case value of Some (JObj obj) \<Rightarrow> p obj | _ \<Rightarrow> False)"

definition array_of :: "json option \<Rightarrow> (json \<Rightarrow> bool) \<Rightarrow> bool" where
  "array_of value p \<longleftrightarrow> (case value of Some (JArr xs) \<Rightarrow> list_all p xs | _ \<Rightarrow> False)"

definition recordArray :: "json option \<Rightarrow> (js_object \<Rightarrow> bool) \<Rightarrow> bool" where
  "recordArray value p \<longleftrightarrow> array_of value (\<lambda>item. record_with (Some item) p)"

text \<open>The records of an array that \<open>recordArray\<close> accepts.\<close>

definition records_in :: "json option \<Rightarrow> js_object list" where
  "records_in value = (case value of Some (JArr xs) \<Rightarrow> List.map_filter (\<lambda>x. case x of JObj obj \<Rightarrow> Some obj | _ \<Rightarrow> None) xs | _ \<Rightarrow> [])"

definition is_text :: "json option \<Rightarrow> bool" where
  "is_text value \<longleftrightarrow> (case value of Some (JStr _) \<Rightarrow> True | _ \<Rightarrow> False)"

definition is_boolean :: "json option \<Rightarrow> bool" where
  "is_boolean value \<longleftrightarrow> (case value of Some (JBool _) \<Rightarrow> True | _ \<Rightarrow> False)"

definition null_or :: "(json option \<Rightarrow> bool) \<Rightarrow> json option \<Rightarrow> bool" where
  "null_or p value \<longleftrightarrow> value = Some JNull \<or> p value"

definition isIdentifier :: "json option \<Rightarrow> bool" where
  "isIdentifier value \<longleftrightarrow> (case value of Some (JStr s) \<Rightarrow> s \<noteq> [] | _ \<Rightarrow> False)"

definition identifierArrayOf :: "json option \<Rightarrow> js_string list option" where
  "identifierArrayOf value = (if array_of value (\<lambda>x. isIdentifier (Some x))
     then Some (case value of Some (JArr xs) \<Rightarrow> map (\<lambda>x. case x of JStr s \<Rightarrow> s | _ \<Rightarrow> []) xs | _ \<Rightarrow> []) else None)"

fun isJsonValue :: "json \<Rightarrow> bool" where
  "isJsonValue (JNum n) = isFinite n"
| "isJsonValue (JArr xs) = list_all isJsonValue xs"
| "isJsonValue (JObj fs) = list_all (\<lambda>(k, v). isJsonValue v) fs"
| "isJsonValue _ = True"

definition isJsonObject :: "json option \<Rightarrow> bool" where
  "isJsonObject value \<longleftrightarrow> (case value of Some (JObj fs) \<Rightarrow> isJsonValue (JObj fs) | _ \<Rightarrow> False)"

definition isOneOf :: "json option \<Rightarrow> string list \<Rightarrow> bool" where
  "isOneOf value values \<longleftrightarrow> (case value of Some (JStr s) \<Rightarrow> s \<in> js ` set values | _ \<Rightarrow> False)"

definition number_of :: "json option \<Rightarrow> int option" where
  "number_of value = (case value of Some (JNum n) \<Rightarrow> safe_int n | _ \<Rightarrow> None)"

definition isPositiveSafeInteger :: "json option \<Rightarrow> bool" where
  "isPositiveSafeInteger value \<longleftrightarrow> (case number_of value of Some n \<Rightarrow> 0 < n | None \<Rightarrow> False)"

definition isNonnegativeSafeInteger :: "json option \<Rightarrow> bool" where
  "isNonnegativeSafeInteger value \<longleftrightarrow> (case number_of value of Some n \<Rightarrow> 0 \<le> n | None \<Rightarrow> False)"

definition isTimestamp :: "json option \<Rightarrow> bool" where
  "isTimestamp value \<longleftrightarrow> (case value of Some (JStr s) \<Rightarrow> isConversationTimestamp s | _ \<Rightarrow> False)"

section \<open>Parts of records\<close>

definition isAttribution :: "(rat \<Rightarrow> js_string) \<Rightarrow> json option \<Rightarrow> bool" where
  "isAttribution R value \<longleftrightarrow> record_with value (\<lambda>a. record_with (fld a ''actor'') (\<lambda>actor. record_with (fld a ''source'') (\<lambda>source.
     text_among R (fld actor ''type'') [''user'', ''assistant'', ''tool'', ''system''] \<and>
     (fld actor ''id'' \<noteq> None \<longrightarrow> isIdentifier (fld actor ''id'')) \<and>
     text_among R (fld source ''type'') [''client'', ''runtime'', ''sync'', ''import''] \<and>
     (fld source ''type'' \<noteq> Some (JText ''client'') \<or> isIdentifier (fld source ''client_id'')))))"

definition isTextPart :: "json \<Rightarrow> bool" where
  "isTextPart value \<longleftrightarrow> record_with (Some value) (\<lambda>p. hasExactKeys p [''type'', ''text''] \<and>
     fld p ''type'' = Some (JText ''text'') \<and> is_text (fld p ''text''))"

definition isJsonPart :: "json \<Rightarrow> bool" where
  "isJsonPart value \<longleftrightarrow> record_with (Some value) (\<lambda>p. fld p ''type'' = Some (JText ''json'') \<and>
     (case fld p ''value'' of None \<Rightarrow> False | Some v \<Rightarrow> isJsonValue v))"

definition isTurnError :: "json option \<Rightarrow> bool" where
  "isTurnError value \<longleftrightarrow> record_with value (\<lambda>e. is_text (fld e ''code'') \<and> is_text (fld e ''message'') \<and> is_boolean (fld e ''retryable''))"

definition isRetryReasonCategory :: "json option \<Rightarrow> bool" where
  "isRetryReasonCategory value \<longleftrightarrow>
     isOneOf value [''rate_limit'', ''timeout'', ''unavailable'', ''internal'', ''disconnected'', ''interrupted'']"

definition isTurnRetryRecord :: "(rat \<Rightarrow> js_string) \<Rightarrow> json \<Rightarrow> bool" where
  "isTurnRetryRecord R value \<longleftrightarrow> record_with (Some value) (\<lambda>r.
     isPositiveSafeInteger (fld r ''attempt'') \<and> isTimestamp (fld r ''occurred_at'') \<and> isAttribution R (fld r ''attribution'') \<and>
     (if fld r ''type'' = Some (JText ''turn.attempt_started'')
      then hasExactKeys r [''type'', ''attempt'', ''operation'', ''occurred_at'', ''attribution''] \<and>
        isOneOf (fld r ''operation'') [''start'', ''resume'']
      else if fld r ''type'' = Some (JText ''turn.retry_scheduled'')
      then hasExactKeys r [''type'', ''attempt'', ''reason_category'', ''delay_ms'', ''occurred_at'', ''attribution''] \<and>
        isRetryReasonCategory (fld r ''reason_category'') \<and> isNonnegativeSafeInteger (fld r ''delay_ms'')
      else if fld r ''type'' = Some (JText ''turn.retry_exhausted'')
      then hasExactKeys r [''type'', ''attempt'', ''reason_category'', ''exhaustion_reason'', ''occurred_at'', ''attribution''] \<and>
        isRetryReasonCategory (fld r ''reason_category'') \<and>
        isOneOf (fld r ''exhaustion_reason'') [''maximum_attempts'', ''maximum_elapsed_time'']
      else False))"

section \<open>Records\<close>

definition attachment_ids :: "json option \<Rightarrow> json option list" where
  "attachment_ids value = map (\<lambda>a. fld a ''attachment_id'') (records_in value)"

definition isMessage :: "(rat \<Rightarrow> js_string) \<Rightarrow> js_object \<Rightarrow> bool" where
  "isMessage R m \<longleftrightarrow>
     hasExactKeys m (if has_own m ''turn_id''
       then [''message_id'', ''turn_id'', ''role'', ''content'', ''attachments'', ''created_at'', ''attribution'']
       else [''message_id'', ''role'', ''content'', ''attachments'', ''created_at'', ''attribution'']) \<and>
     isIdentifier (fld m ''message_id'') \<and>
     (\<not> has_own m ''turn_id'' \<or> null_or isIdentifier (fld m ''turn_id'')) \<and>
     null_or (\<lambda>v. text_among R v [''user'', ''assistant'', ''system'']) (fld m ''role'') \<and>
     array_of (fld m ''content'') isTextPart \<and>
     array_of (fld m ''attachments'') isConversationAttachmentReference \<and>
     distinct (attachment_ids (fld m ''attachments'')) \<and>
     null_or is_text (fld m ''created_at'') \<and> null_or (isAttribution R) (fld m ''attribution'')"

definition isAttachmentRecord :: "(rat \<Rightarrow> js_string) \<Rightarrow> js_object \<Rightarrow> bool" where
  "isAttachmentRecord R a \<longleftrightarrow>
     hasExactKeys a [''message_id'', ''attachment_id'', ''reference'', ''referenced_at'', ''attribution''] \<and>
     isIdentifier (fld a ''message_id'') \<and>
     (case fld a ''reference'' of None \<Rightarrow> False | Some r \<Rightarrow> isConversationAttachmentReference r) \<and>
     record_with (fld a ''reference'') (\<lambda>r. fld a ''attachment_id'' = fld r ''attachment_id'') \<and>
     isTimestamp (fld a ''referenced_at'') \<and> isAttribution R (fld a ''attribution'')"

definition sameAttachmentReference :: "json option \<Rightarrow> json \<Rightarrow> bool" where
  "sameAttachmentReference left right \<longleftrightarrow>
     (case left of None \<Rightarrow> False | Some l \<Rightarrow> isConversationAttachmentReference l) \<and> isConversationAttachmentReference right \<and>
     record_with left (\<lambda>l. record_with (Some right) (\<lambda>r.
       list_all (\<lambda>k. fld l k = fld r k) [''attachment_id'', ''kind'', ''media_type'', ''filename''] \<and>
       (case (fld l ''size_bytes'', fld r ''size_bytes'') of
          (Some (JNum x), Some (JNum y)) \<Rightarrow> num_strict_eq x y | (x, y) \<Rightarrow> x = y)))"

text \<open>\<^verbatim>\<open>`${message_id}\0${attachment_id}`\<close>.\<close>

definition attachment_key :: "(rat \<Rightarrow> js_string) \<Rightarrow> js_object \<Rightarrow> js_string" where
  "attachment_key R a = (case fld a ''message_id'' of None \<Rightarrow> js ''undefined'' | Some v \<Rightarrow> js_text R v) @ [0] @
     (case fld a ''attachment_id'' of None \<Rightarrow> js ''undefined'' | Some v \<Rightarrow> js_text R v)"

definition elements_in :: "json option \<Rightarrow> json list" where
  "elements_in value = (case value of Some (JArr xs) \<Rightarrow> xs | _ \<Rightarrow> [])"

definition reference_recorded :: "js_object list \<Rightarrow> js_object \<Rightarrow> json \<Rightarrow> bool" where
  "reference_recorded attachments message reference \<longleftrightarrow> record_with (Some reference) (\<lambda>r.
     case find (\<lambda>a. fld a ''message_id'' = fld message ''message_id'' \<and> fld a ''attachment_id'' = fld r ''attachment_id'') attachments of
       None \<Rightarrow> False | Some a \<Rightarrow> sameAttachmentReference (fld a ''reference'') reference)"

definition attachment_referenced :: "js_object list \<Rightarrow> js_object \<Rightarrow> bool" where
  "attachment_referenced messages a \<longleftrightarrow>
     (case find (\<lambda>m. fld m ''message_id'' = fld a ''message_id'') messages of
        None \<Rightarrow> False
      | Some m \<Rightarrow> list_ex (sameAttachmentReference (fld a ''reference'')) (elements_in (fld m ''attachments'')))"

definition hasConsistentAttachmentProjection :: "(rat \<Rightarrow> js_string) \<Rightarrow> js_object list \<Rightarrow> js_object list \<Rightarrow> bool" where
  "hasConsistentAttachmentProjection R messages attachments \<longleftrightarrow>
     distinct (map (\<lambda>m. fld m ''message_id'') messages) \<and> distinct (map (attachment_key R) attachments) \<and>
     list_all (\<lambda>m. list_all (reference_recorded attachments m) (elements_in (fld m ''attachments''))) messages \<and>
     list_all (attachment_referenced messages) attachments"

definition citation_target_known :: "js_object list \<Rightarrow> js_object list \<Rightarrow> Citation \<Rightarrow> bool" where
  "citation_target_known messages toolCalls c \<longleftrightarrow> (case ct_target c of
     AssistantMessageCitationTarget i \<Rightarrow>
       (case find (\<lambda>m. fld m ''message_id'' = Some (JStr i)) messages of
          None \<Rightarrow> False | Some m \<Rightarrow> fld m ''role'' = Some JNull \<or> fld m ''role'' = Some (JText ''assistant''))
   | ToolResultCitationTarget i \<Rightarrow> list_ex (\<lambda>t. fld t ''tool_call_id'' = Some (JStr i)) toolCalls)"

definition hasValidCitationProjection :: "url_parser \<Rightarrow> json option \<Rightarrow> json option \<Rightarrow> js_object list \<Rightarrow> js_object list \<Rightarrow> bool" where
  "hasValidCitationProjection parse_url sources citations messages toolCalls \<longleftrightarrow>
     (case (sources, citations) of
        (Some ss, Some cs) \<Rightarrow>
          (case normalizeCitationRecords parse_url (JObj [(js ''sources'', ss), (js ''citations'', cs)]) of
             Inl _ \<Rightarrow> False
           | Inr normalized \<Rightarrow>
               jsonValuesEqual (JArr (map citation_source_json (rs_sources normalized))) ss \<and>
               jsonValuesEqual (JArr (map citation_json (rs_citations normalized))) cs \<and>
               list_all (citation_target_known messages toolCalls) (rs_citations normalized))
      | _ \<Rightarrow> False)"

definition TURN_STATES :: "string list" where
  "TURN_STATES = [''queued'', ''running'', ''waiting_for_tool_result'', ''waiting_for_approval'', ''completed'', ''cancelled'', ''failed'']"

definition CANCELLATION_REASONS :: "string list" where
  "CANCELLATION_REASONS = [''user'', ''timeout'', ''superseded'', ''runtime_shutdown'']"

definition isTurn :: "(rat \<Rightarrow> js_string) \<Rightarrow> js_object \<Rightarrow> bool" where
  "isTurn R t \<longleftrightarrow> isIdentifier (fld t ''turn_id'') \<and> null_or isIdentifier (fld t ''continuation_of_turn_id'') \<and>
     text_among R (fld t ''status'') TURN_STATES \<and>
     identifierArrayOf (fld t ''input_message_ids'') \<noteq> None \<and> identifierArrayOf (fld t ''output_message_ids'') \<noteq> None \<and>
     null_or (\<lambda>v. text_among R v [''stop'', ''length'', ''tool_calls'']) (fld t ''outcome'') \<and>
     null_or (\<lambda>v. text_among R v CANCELLATION_REASONS) (fld t ''cancellation_reason'') \<and>
     null_or (\<lambda>v. isOneOf v [''requested'', ''unsupported'', ''cancelled'']) (fld t ''cancellation_status'') \<and>
     null_or (\<lambda>v. isOneOf v CANCELLATION_REASONS) (fld t ''cancellation_requested_reason'') \<and>
     is_boolean (fld t ''remote_may_still_be_running'') \<and> null_or isTurnError (fld t ''error'') \<and>
     array_of (fld t ''retry_history'') (isTurnRetryRecord R) \<and>
     null_or is_text (fld t ''started_at'') \<and> null_or is_text (fld t ''terminal_at'') \<and>
     null_or (isAttribution R) (fld t ''attribution'')"

definition isToolResult :: "url_parser \<Rightarrow> (rat \<Rightarrow> js_string) \<Rightarrow> js_string \<Rightarrow> json option \<Rightarrow> bool" where
  "isToolResult parse_url R toolCallId value \<longleftrightarrow> record_with value (\<lambda>r.
     hasExactKeys r (if has_own r ''citation_records'' then [''content'', ''is_error'', ''citation_records'', ''recorded_at'', ''attribution'']
       else [''content'', ''is_error'', ''recorded_at'', ''attribution'']) \<and>
     array_of (fld r ''content'') (\<lambda>part. isTextPart part \<or> isJsonPart part) \<and>
     is_boolean (fld r ''is_error'') \<and> is_text (fld r ''recorded_at'') \<and> isAttribution R (fld r ''attribution'') \<and>
     (case fld r ''citation_records'' of
        None \<Rightarrow> True
      | Some v \<Rightarrow> (case normalizeCitationRecords parse_url v of
          Inl _ \<Rightarrow> False
        | Inr records \<Rightarrow> rs_citations records \<noteq> [] \<and> jsonValuesEqual (citation_records_json records) v \<and>
            list_all (\<lambda>c. ct_target c = ToolResultCitationTarget toolCallId) (rs_citations records))))"

definition isToolCall :: "url_parser \<Rightarrow> (rat \<Rightarrow> js_string) \<Rightarrow> js_object \<Rightarrow> bool" where
  "isToolCall parse_url R t \<longleftrightarrow> isIdentifier (fld t ''tool_call_id'') \<and> isIdentifier (fld t ''turn_id'') \<and>
     null_or is_text (fld t ''name'') \<and> null_or isJsonObject (fld t ''arguments'') \<and>
     null_or is_text (fld t ''requested_at'') \<and> null_or is_text (fld t ''discovered_at'') \<and>
     null_or is_text (fld t ''started_at'') \<and> null_or is_text (fld t ''approval_required_at'') \<and>
     null_or (isAttribution R) (fld t ''attribution'') \<and>
     null_or (isToolResult parse_url R (case fld t ''tool_call_id'' of Some (JStr s) \<Rightarrow> s | _ \<Rightarrow> [])) (fld t ''result'')"

definition reason_or_null :: "json option \<Rightarrow> bool" where
  "reason_or_null = null_or (\<lambda>v. case v of None \<Rightarrow> False | Some r \<Rightarrow> isConversationApprovalReason r)"

definition attributed_to :: "(rat \<Rightarrow> js_string) \<Rightarrow> json option \<Rightarrow> string list \<Rightarrow> bool" where
  "attributed_to R value types \<longleftrightarrow> record_with value (\<lambda>a. record_with (fld a ''actor'') (\<lambda>actor. text_among R (fld actor ''type'') types))"

definition dates_decrease :: "json option \<Rightarrow> json option \<Rightarrow> bool" where
  "dates_decrease first second \<longleftrightarrow> (case (first, second) of (Some (JStr a), Some (JStr b)) \<Rightarrow> date_less b a | _ \<Rightarrow> False)"

definition PROPOSAL_KEYS :: "string list" where
  "PROPOSAL_KEYS = [''proposal_id'', ''group_id'', ''turn_id'', ''tool_call_id'', ''tool_name'', ''reviewed_arguments'', ''status'',
     ''proposal_version'', ''expires_at'', ''created_at'', ''updated_at'', ''created_attribution'', ''latest_attribution'',
     ''decision_at'', ''decision_attribution'', ''decision_reason'', ''failure_reason'']"

definition isApprovalProposal :: "(rat \<Rightarrow> js_string) \<Rightarrow> js_object \<Rightarrow> bool" where
  "isApprovalProposal R p \<longleftrightarrow>
     hasExactKeys p PROPOSAL_KEYS \<and> isIdentifier (fld p ''proposal_id'') \<and> null_or isIdentifier (fld p ''group_id'') \<and>
     isIdentifier (fld p ''turn_id'') \<and> isIdentifier (fld p ''tool_call_id'') \<and> isIdentifier (fld p ''tool_name'') \<and>
     (case fld p ''reviewed_arguments'' of None \<Rightarrow> False | Some v \<Rightarrow> isConversationApprovalReviewedArguments R v) \<and>
     isOneOf (fld p ''status'') [''pending'', ''confirmed'', ''rejected'', ''expired'', ''executing'', ''executed'', ''failed''] \<and>
     isPositiveSafeInteger (fld p ''proposal_version'') \<and> null_or isTimestamp (fld p ''expires_at'') \<and>
     isTimestamp (fld p ''created_at'') \<and> isTimestamp (fld p ''updated_at'') \<and>
     \<not> dates_decrease (fld p ''created_at'') (fld p ''updated_at'') \<and>
     isAttribution R (fld p ''created_attribution'') \<and>
     record_with (fld p ''created_attribution'') (\<lambda>a. record_with (fld a ''actor'') (\<lambda>actor. fld actor ''type'' = Some (JText ''system''))) \<and>
     isAttribution R (fld p ''latest_attribution'') \<and>
     null_or isTimestamp (fld p ''decision_at'') \<and> null_or (isAttribution R) (fld p ''decision_attribution'') \<and>
     reason_or_null (fld p ''decision_reason'') \<and> reason_or_null (fld p ''failure_reason'') \<and>
     (if fld p ''status'' = Some (JText ''pending'')
      then number_of (fld p ''proposal_version'') = Some 1 \<and> fld p ''decision_at'' = Some JNull \<and>
        fld p ''decision_attribution'' = Some JNull \<and> fld p ''decision_reason'' = Some JNull \<and> fld p ''failure_reason'' = Some JNull
      else (case number_of (fld p ''proposal_version'') of Some v \<Rightarrow> 2 \<le> v | None \<Rightarrow> False) \<and>
        fld p ''decision_at'' \<noteq> Some JNull \<and> fld p ''decision_attribution'' \<noteq> Some JNull \<and>
        attributed_to R (fld p ''decision_attribution'') [''user'', ''system''] \<and>
        (fld p ''failure_reason'' = Some JNull \<longleftrightarrow> fld p ''status'' \<noteq> Some (JText ''failed'')))"

definition isConversationApprovalProposalRecord :: "(rat \<Rightarrow> js_string) \<Rightarrow> json \<Rightarrow> bool" where
  "isConversationApprovalProposalRecord R value \<longleftrightarrow> record_with (Some value) (isApprovalProposal R)"

definition isToolLoopBudgetExhaustion :: "(rat \<Rightarrow> js_string) \<Rightarrow> js_object \<Rightarrow> bool" where
  "isToolLoopBudgetExhaustion R b \<longleftrightarrow> isIdentifier (fld b ''turn_id'') \<and>
     text_among R (fld b ''budget'') [''iterations'', ''total_tool_calls'', ''wall_clock''] \<and>
     isPositiveSafeInteger (fld b ''limit'') \<and> is_text (fld b ''exhausted_at'') \<and> isAttribution R (fld b ''attribution'')"

definition isUsageLink :: "(rat \<Rightarrow> js_string) \<Rightarrow> js_object \<Rightarrow> bool" where
  "isUsageLink R u \<longleftrightarrow> isIdentifier (fld u ''usage_receipt_id'') \<and> isIdentifier (fld u ''turn_id'') \<and>
     is_text (fld u ''linked_at'') \<and> isAttribution R (fld u ''attribution'')"

section \<open>The state\<close>

definition STATE_KEYS :: "string list" where
  "STATE_KEYS = [''conversation_id'', ''revision'', ''last_event_id'', ''processed_event_ids'', ''processed_mutation_ids'', ''messages'',
     ''attachments'', ''citation_sources'', ''citations'', ''turns'', ''active_turn_id'', ''tool_calls'', ''approval_proposals'',
     ''tool_loop_budget_exhaustions'', ''usage_receipt_links'', ''metadata'', ''title'', ''replay_error'']"

definition log_fields_ok :: "js_object \<Rightarrow> js_string option \<Rightarrow> int option \<Rightarrow> bool" where
  "log_fields_ok obj conversationId revision \<longleftrightarrow>
     fld obj ''conversation_id'' = Some (nullable conversationId) \<and>
     (case (fld obj ''revision'', revision) of (Some JNull, None) \<Rightarrow> True
        | (Some (JNum n), Some r) \<Rightarrow> num_strict_eq n (Finite (of_int r)) | _ \<Rightarrow> False) \<and>
     (if revision = None then fld obj ''last_event_id'' = Some JNull else isIdentifier (fld obj ''last_event_id'')) \<and>
     fld obj ''replay_error'' = Some JNull \<and> null_or is_text (fld obj ''title'') \<and> isJsonObject (fld obj ''metadata'') \<and>
     (case (identifierArrayOf (fld obj ''processed_event_ids''), identifierArrayOf (fld obj ''processed_mutation_ids'')) of
        (Some eventIds, Some mutationIds) \<Rightarrow>
          int (length eventIds) = coalesce revision 0 \<and> distinct eventIds \<and> distinct mutationIds \<and>
          (revision \<noteq> None \<longrightarrow> eventIds \<noteq> [] \<and> fld obj ''last_event_id'' = Some (JStr (last eventIds)))
      | _ \<Rightarrow> False)"

text \<open>The tool call that a proposal belongs to, named as it and waiting for approval.\<close>

definition proposal_requested :: "js_object list \<Rightarrow> js_object \<Rightarrow> bool" where
  "proposal_requested toolCalls p \<longleftrightarrow> list_ex (\<lambda>t. fld t ''tool_call_id'' = fld p ''tool_call_id'' \<and> fld t ''turn_id'' = fld p ''turn_id'' \<and>
     fld t ''name'' = fld p ''tool_name'' \<and> fld t ''approval_required_at'' \<noteq> Some JNull) toolCalls"

definition active_turn_ok :: "(rat \<Rightarrow> js_string) \<Rightarrow> js_object \<Rightarrow> bool" where
  "active_turn_ok R obj \<longleftrightarrow> null_or isIdentifier (fld obj ''active_turn_id'') \<and>
     (fld obj ''active_turn_id'' = Some JNull \<or>
      list_ex (\<lambda>t. fld t ''turn_id'' = fld obj ''active_turn_id'' \<and>
        text_among R (fld t ''status'') [''queued'', ''running'', ''waiting_for_tool_result'']) (records_in (fld obj ''turns'')))"

definition isConversationState :: "url_parser \<Rightarrow> (rat \<Rightarrow> js_string) \<Rightarrow> json \<Rightarrow> js_string option \<Rightarrow> int option \<Rightarrow> bool" where
  "isConversationState parse_url R value conversationId revision \<longleftrightarrow> record_with (Some value) (\<lambda>obj.
     hasExactKeys obj STATE_KEYS \<and> log_fields_ok obj conversationId revision \<and>
     recordArray (fld obj ''messages'') (isMessage R) \<and> recordArray (fld obj ''attachments'') (isAttachmentRecord R) \<and>
     hasConsistentAttachmentProjection R (records_in (fld obj ''messages'')) (records_in (fld obj ''attachments'')) \<and>
     recordArray (fld obj ''turns'') (isTurn R) \<and> recordArray (fld obj ''tool_calls'') (isToolCall parse_url R) \<and>
     hasValidCitationProjection parse_url (fld obj ''citation_sources'') (fld obj ''citations'')
       (records_in (fld obj ''messages'')) (records_in (fld obj ''tool_calls'')) \<and>
     recordArray (fld obj ''approval_proposals'') (isApprovalProposal R) \<and>
     distinct (map (\<lambda>p. fld p ''proposal_id'') (records_in (fld obj ''approval_proposals''))) \<and>
     list_all (proposal_requested (records_in (fld obj ''tool_calls''))) (records_in (fld obj ''approval_proposals'')) \<and>
     recordArray (fld obj ''tool_loop_budget_exhaustions'') (isToolLoopBudgetExhaustion R) \<and>
     recordArray (fld obj ''usage_receipt_links'') (isUsageLink R) \<and>
     active_turn_ok R obj)"

text \<open>
  \<^verbatim>\<open>String\<close> reads an array of one text as that text, so a role, status or outcome that is such an
  array is accepted where the types of the state have a text.
\<close>

lemma array_role_accepted:
  "text_among R (Some (JArr [JText ''user''])) [''user'', ''assistant'', ''system'']"
  by (simp add: text_among_def)

end
