(* ===== verification/StateSchema.thy ===== *)
theory StateSchema
  imports StateValidation
begin

text \<open>
  The shape of the state that a checkpoint holds, as the interfaces of
  \<^verbatim>\<open>src/conversation/state.ts\<close> describe it: a small language of schemas for JSON values and the
  schema of the state in it, and the lemmas that what \<^verbatim>\<open>state-validation.ts\<close> accepts has this
  shape.
\<close>

section \<open>Schemas\<close>

text \<open>
  \<open>Exactly\<close> lists the required and the optional fields of an object that has no other;
  \<open>Having\<close> allows others. \<open>IsSpelled\<close> is a value that \<^verbatim>\<open>String\<close> turns into one of the words.
\<close>

datatype (plugins only: code size) schema =
    IsNull
  | IsText
  | IsIdentifier
  | IsFlag
  | IsInteger int
  | IsTimestamp
  | IsWord "string list"
  | IsSpelled "string list"
  | IsFiniteJson
  | Such "json \<Rightarrow> bool"
  | Items schema
  | Either schema schema
  | Exactly "(string \<times> schema) list" "(string \<times> schema) list"
  | Having "(string \<times> schema) list" "(string \<times> schema) list"

fun numbers_in :: "json \<Rightarrow> js_number list" where
  "numbers_in (JNum n) = [n]"
| "numbers_in (JArr xs) = concat (map numbers_in xs)"
| "numbers_in (JObj fs) = concat (map (\<lambda>f. numbers_in (snd f)) fs)"
| "numbers_in _ = []"

fun matches :: "(rat \<Rightarrow> js_string) \<Rightarrow> schema \<Rightarrow> json \<Rightarrow> bool" where
  "matches R IsNull v = (v = JNull)"
| "matches R IsText v = (\<exists>s. v = JStr s)"
| "matches R IsIdentifier v = (\<exists>s. v = JStr s \<and> s \<noteq> [])"
| "matches R IsFlag v = (\<exists>b. v = JBool b)"
| "matches R (IsInteger least) v = (\<exists>n i. v = JNum n \<and> safe_int n = Some i \<and> least \<le> i)"
| "matches R IsTimestamp v = (\<exists>s. v = JStr s \<and> Date_parse s \<noteq> None)"
| "matches R (IsWord words) v = (\<exists>w \<in> set words. v = JText w)"
| "matches R (IsSpelled words) v = (\<exists>w \<in> set words. js_text R v = js w)"
| "matches R IsFiniteJson v = (\<forall>n \<in> set (numbers_in v). isFinite n)"
| "matches R (Such p) v = p v"
| "matches R (Items s) v = (case v of JArr xs \<Rightarrow> list_all (matches R s) xs | _ \<Rightarrow> False)"
| "matches R (Either s t) v = (matches R s v \<or> matches R t v)"
| "matches R (Exactly must may) v = (case v of
     JObj obj \<Rightarrow> set (keys_of obj) \<subseteq> js ` set (map fst (must @ may)) \<and>
       list_all (\<lambda>(k, s). case fld obj k of None \<Rightarrow> False | Some x \<Rightarrow> matches R s x) must \<and>
       list_all (\<lambda>(k, s). case fld obj k of None \<Rightarrow> True | Some x \<Rightarrow> matches R s x) may
   | _ \<Rightarrow> False)"
| "matches R (Having must may) v = (case v of
     JObj obj \<Rightarrow> list_all (\<lambda>(k, s). case fld obj k of None \<Rightarrow> False | Some x \<Rightarrow> matches R s x) must \<and>
       list_all (\<lambda>(k, s). case fld obj k of None \<Rightarrow> True | Some x \<Rightarrow> matches R s x) may
   | _ \<Rightarrow> False)"

abbreviation Nullable :: "schema \<Rightarrow> schema" where
  "Nullable s \<equiv> Either IsNull s"

section \<open>The schema of the state\<close>

definition ATTRIBUTION_SCHEMA :: schema where
  "ATTRIBUTION_SCHEMA = Having
     [(''actor'', Having [(''type'', IsSpelled [''user'', ''assistant'', ''tool'', ''system''])] [(''id'', IsIdentifier)]),
      (''source'', Either
        (Having [(''type'', IsWord [''client'']), (''client_id'', IsIdentifier)] [])
        (Having [(''type'', IsSpelled [''client'', ''runtime'', ''sync'', ''import'']), (''type'', Such (\<lambda>v. v \<noteq> JText ''client''))] []))] []"

definition TEXT_PART_SCHEMA :: schema where
  "TEXT_PART_SCHEMA = Exactly [(''type'', IsWord [''text'']), (''text'', IsText)] []"

definition JSON_PART_SCHEMA :: schema where
  "JSON_PART_SCHEMA = Having [(''type'', IsWord [''json'']), (''value'', IsFiniteJson)] []"

definition MESSAGE_SCHEMA :: schema where
  "MESSAGE_SCHEMA = Exactly
     [(''message_id'', IsIdentifier), (''role'', Nullable (IsSpelled [''user'', ''assistant'', ''system''])),
      (''content'', Items TEXT_PART_SCHEMA), (''attachments'', Items (Such isConversationAttachmentReference)),
      (''created_at'', Nullable IsText), (''attribution'', Nullable ATTRIBUTION_SCHEMA)]
     [(''turn_id'', Nullable IsIdentifier)]"

definition ATTACHMENT_SCHEMA :: schema where
  "ATTACHMENT_SCHEMA = Exactly
     [(''message_id'', IsIdentifier), (''attachment_id'', IsText), (''reference'', Such isConversationAttachmentReference),
      (''referenced_at'', IsTimestamp), (''attribution'', ATTRIBUTION_SCHEMA)] []"

definition RETRY_REASONS :: "string list" where
  "RETRY_REASONS = [''rate_limit'', ''timeout'', ''unavailable'', ''internal'', ''disconnected'', ''interrupted'']"

definition RETRY_SCHEMA :: schema where
  "RETRY_SCHEMA = Either
     (Exactly [(''type'', IsWord [''turn.attempt_started'']), (''attempt'', IsInteger 1), (''operation'', IsWord [''start'', ''resume'']),
        (''occurred_at'', IsTimestamp), (''attribution'', ATTRIBUTION_SCHEMA)] [])
     (Either
       (Exactly [(''type'', IsWord [''turn.retry_scheduled'']), (''attempt'', IsInteger 1), (''reason_category'', IsWord RETRY_REASONS),
          (''delay_ms'', IsInteger 0), (''occurred_at'', IsTimestamp), (''attribution'', ATTRIBUTION_SCHEMA)] [])
       (Exactly [(''type'', IsWord [''turn.retry_exhausted'']), (''attempt'', IsInteger 1), (''reason_category'', IsWord RETRY_REASONS),
          (''exhaustion_reason'', IsWord [''maximum_attempts'', ''maximum_elapsed_time'']), (''occurred_at'', IsTimestamp),
          (''attribution'', ATTRIBUTION_SCHEMA)] []))"

definition TURN_SCHEMA :: schema where
  "TURN_SCHEMA = Having
     [(''turn_id'', IsIdentifier), (''continuation_of_turn_id'', Nullable IsIdentifier),
      (''status'', IsSpelled [''queued'', ''running'', ''waiting_for_tool_result'', ''waiting_for_approval'', ''completed'', ''cancelled'', ''failed'']),
      (''input_message_ids'', Items IsIdentifier), (''output_message_ids'', Items IsIdentifier),
      (''outcome'', Nullable (IsSpelled [''stop'', ''length'', ''tool_calls''])),
      (''cancellation_reason'', Nullable (IsSpelled [''user'', ''timeout'', ''superseded'', ''runtime_shutdown''])),
      (''cancellation_status'', Nullable (IsWord [''requested'', ''unsupported'', ''cancelled''])),
      (''cancellation_requested_reason'', Nullable (IsWord [''user'', ''timeout'', ''superseded'', ''runtime_shutdown''])),
      (''remote_may_still_be_running'', IsFlag),
      (''error'', Nullable (Having [(''code'', IsText), (''message'', IsText), (''retryable'', IsFlag)] [])),
      (''retry_history'', Items RETRY_SCHEMA), (''started_at'', Nullable IsText), (''terminal_at'', Nullable IsText),
      (''attribution'', Nullable ATTRIBUTION_SCHEMA)] []"

definition TOOL_RESULT_SCHEMA :: schema where
  "TOOL_RESULT_SCHEMA = Exactly
     [(''content'', Items (Either TEXT_PART_SCHEMA JSON_PART_SCHEMA)), (''is_error'', IsFlag), (''recorded_at'', IsText),
      (''attribution'', ATTRIBUTION_SCHEMA)]
     [(''citation_records'', Having [] [])]"

definition TOOL_CALL_SCHEMA :: schema where
  "TOOL_CALL_SCHEMA = Having
     [(''tool_call_id'', IsIdentifier), (''turn_id'', IsIdentifier), (''name'', Nullable IsText),
      (''arguments'', Nullable (Having [] [])), (''arguments'', IsFiniteJson), (''requested_at'', Nullable IsText),
      (''discovered_at'', Nullable IsText), (''started_at'', Nullable IsText), (''approval_required_at'', Nullable IsText),
      (''attribution'', Nullable ATTRIBUTION_SCHEMA), (''result'', Nullable TOOL_RESULT_SCHEMA)] []"

definition PROPOSAL_SCHEMA :: "(rat \<Rightarrow> js_string) \<Rightarrow> schema" where
  "PROPOSAL_SCHEMA R = Exactly
     [(''proposal_id'', IsIdentifier), (''group_id'', Nullable IsIdentifier), (''turn_id'', IsIdentifier),
      (''tool_call_id'', IsIdentifier), (''tool_name'', IsIdentifier),
      (''reviewed_arguments'', Such (isConversationApprovalReviewedArguments R)),
      (''status'', IsWord [''pending'', ''confirmed'', ''rejected'', ''expired'', ''executing'', ''executed'', ''failed'']),
      (''proposal_version'', IsInteger 1), (''expires_at'', Nullable IsTimestamp), (''created_at'', IsTimestamp),
      (''updated_at'', IsTimestamp), (''created_attribution'', ATTRIBUTION_SCHEMA), (''latest_attribution'', ATTRIBUTION_SCHEMA),
      (''decision_at'', Nullable IsTimestamp), (''decision_attribution'', Nullable ATTRIBUTION_SCHEMA),
      (''decision_reason'', Nullable (Such isConversationApprovalReason)),
      (''failure_reason'', Nullable (Such isConversationApprovalReason))] []"

definition BUDGET_SCHEMA :: schema where
  "BUDGET_SCHEMA = Having [(''turn_id'', IsIdentifier), (''budget'', IsSpelled [''iterations'', ''total_tool_calls'', ''wall_clock'']),
     (''limit'', IsInteger 1), (''exhausted_at'', IsText), (''attribution'', ATTRIBUTION_SCHEMA)] []"

definition USAGE_SCHEMA :: schema where
  "USAGE_SCHEMA = Having [(''usage_receipt_id'', IsIdentifier), (''turn_id'', IsIdentifier), (''linked_at'', IsText),
     (''attribution'', ATTRIBUTION_SCHEMA)] []"

text \<open>The arrays of citations have a meaning beyond their shape, which the properties state.\<close>

definition STATE_SCHEMA :: "(rat \<Rightarrow> js_string) \<Rightarrow> schema" where
  "STATE_SCHEMA R = Exactly
     [(''conversation_id'', IsText), (''revision'', IsInteger 1), (''last_event_id'', IsIdentifier),
      (''processed_event_ids'', Items IsIdentifier), (''processed_mutation_ids'', Items IsIdentifier),
      (''messages'', Items MESSAGE_SCHEMA), (''attachments'', Items ATTACHMENT_SCHEMA),
      (''citation_sources'', Items (Having [] [])), (''citations'', Items (Having [] [])),
      (''turns'', Items TURN_SCHEMA), (''active_turn_id'', Nullable IsIdentifier), (''tool_calls'', Items TOOL_CALL_SCHEMA),
      (''approval_proposals'', Items (PROPOSAL_SCHEMA R)), (''tool_loop_budget_exhaustions'', Items BUDGET_SCHEMA),
      (''usage_receipt_links'', Items USAGE_SCHEMA), (''metadata'', Having [] []), (''metadata'', IsFiniteJson),
      (''title'', Nullable IsText), (''replay_error'', IsNull)] []"

section \<open>What the checks establish\<close>

definition filled :: "(rat \<Rightarrow> js_string) \<Rightarrow> schema \<Rightarrow> json option \<Rightarrow> bool" where
  "filled R s value = (case value of None \<Rightarrow> False | Some x \<Rightarrow> matches R s x)"

lemma filled_simps [simp]: "filled R s None = False" "filled R s (Some x) = matches R s x"
  by (simp_all add: filled_def)

lemma filled_record:
  "matches R (Having must may) (JObj obj) \<longleftrightarrow>
     list_all (\<lambda>(k, s). filled R s (fld obj k)) must \<and> list_all (\<lambda>(k, s). fld obj k = None \<or> filled R s (fld obj k)) may"
  "matches R (Exactly must may) (JObj obj) \<longleftrightarrow> set (keys_of obj) \<subseteq> js ` set (map fst (must @ may)) \<and>
     list_all (\<lambda>(k, s). filled R s (fld obj k)) must \<and> list_all (\<lambda>(k, s). fld obj k = None \<or> filled R s (fld obj k)) may"
  by (auto simp: filled_def list_all_iff split: option.splits)

lemma isJsonValue_numbers: "isJsonValue v \<longleftrightarrow> (\<forall>n \<in> set (numbers_in v). isFinite n)"
  by (induction v rule: isJsonValue.induct) (auto simp: list_all_iff)

lemma filled_checks:
  "isIdentifier v \<longleftrightarrow> filled R IsIdentifier v"
  "is_text v \<longleftrightarrow> filled R IsText v"
  "is_boolean v \<longleftrightarrow> filled R IsFlag v"
  "isTimestamp v \<longleftrightarrow> filled R IsTimestamp v"
  "isPositiveSafeInteger v \<longleftrightarrow> filled R (IsInteger 1) v"
  "isNonnegativeSafeInteger v \<longleftrightarrow> filled R (IsInteger 0) v"
  "isOneOf v words \<longleftrightarrow> filled R (IsWord words) v"
  "isJsonObject v \<longleftrightarrow> filled R (Having [] []) v \<and> filled R IsFiniteJson v"
  "array_of v (matches R s) \<longleftrightarrow> filled R (Items s) v"
  "identifierArrayOf v \<noteq> None \<longleftrightarrow> filled R (Items IsIdentifier) v"
  by (auto simp: filled_def isIdentifier_def is_text_def is_boolean_def isTimestamp_def isConversationTimestamp_iff
      isPositiveSafeInteger_def isNonnegativeSafeInteger_def number_of_def isOneOf_def isJsonObject_def isJsonValue_numbers
      array_of_def identifierArrayOf_def list_all_iff split: option.splits json.splits)

lemma filled_spelled: "text_among R v words \<Longrightarrow> ''undefined'' \<notin> set words \<Longrightarrow> filled R (IsSpelled words) v"
  by (auto simp: text_among_def split: option.splits)

lemma filled_nullable: "null_or p v \<Longrightarrow> (p v \<Longrightarrow> filled R s v) \<Longrightarrow> filled R (Nullable s) v"
  by (cases v) (auto simp: null_or_def)

lemma filled_items: "array_of v p \<Longrightarrow> (\<And>xs x. v = Some (JArr xs) \<Longrightarrow> x \<in> set xs \<Longrightarrow> p x \<Longrightarrow> matches R s x) \<Longrightarrow> filled R (Items s) v"
  by (auto simp: array_of_def list_all_iff split: option.splits json.splits)

lemma exact_keys:
  assumes "hasExactKeys obj ks" "distinct (keys_of obj)" "distinct ks"
  shows "set (keys_of obj) = js ` set ks"
proof -
  have "card (js ` set ks) = length ks" using assms(3) by (simp add: card_image inj_on_def distinct_card)
  then have "card (js ` set ks) = card (set (keys_of obj))"
    using assms(1,2) by (simp add: hasExactKeys_def distinct_card)
  moreover have "js ` set ks \<subseteq> set (keys_of obj)" using assms(1) by (auto simp: hasExactKeys_def has_own_def)
  ultimately show ?thesis by (metis List.finite_set card_subset_eq)
qed

lemma wf_field: "wf_json (JObj obj) \<Longrightarrow> fld obj k = Some v \<Longrightarrow> wf_json v"
  unfolding fld_def prop_of_def by (rule wf_json_map_of)

lemma wf_keys: "wf_json (JObj obj) \<Longrightarrow> distinct (keys_of obj)"
  by (simp add: keys_of_def)

declare matches.simps(13,14) [simp del]

lemma record_withE: "record_with v p \<Longrightarrow> (\<And>obj. v = Some (JObj obj) \<Longrightarrow> p obj \<Longrightarrow> P) \<Longrightarrow> P"
  by (auto simp: record_with_def split: option.splits json.splits)

lemma attribution_matches:
  assumes "isAttribution R v"
  shows "filled R ATTRIBUTION_SCHEMA v"
proof -
  from assms obtain a actor source where v: "v = Some (JObj a)" "fld a ''actor'' = Some (JObj actor)" "fld a ''source'' = Some (JObj source)"
    and actor: "text_among R (fld actor ''type'') [''user'', ''assistant'', ''tool'', ''system'']"
      "fld actor ''id'' \<noteq> None \<longrightarrow> isIdentifier (fld actor ''id'')"
    and source: "text_among R (fld source ''type'') [''client'', ''runtime'', ''sync'', ''import'']"
      "fld source ''type'' \<noteq> Some (JText ''client'') \<or> isIdentifier (fld source ''client_id'')"
    unfolding isAttribution_def by (elim record_withE conjE) (rule that; assumption)
  note spelled = filled_spelled [OF actor(1), simplified] filled_spelled [OF source(1), simplified]
  have "fld actor ''id'' = None \<or> filled R IsIdentifier (fld actor ''id'')" using actor(2) filled_checks(1) by blast
  with spelled(1) have A: "matches R (Having [(''type'', IsSpelled [''user'', ''assistant'', ''tool'', ''system''])] [(''id'', IsIdentifier)]) (JObj actor)"
    by (simp only: filled_record list.pred_inject prod.case simp_thms)
  have B: "matches R (Having [(''type'', IsWord [''client'']), (''client_id'', IsIdentifier)] []) (JObj source) \<or>
    matches R (Having [(''type'', IsSpelled [''client'', ''runtime'', ''sync'', ''import'']), (''type'', Such (\<lambda>v. v \<noteq> JText ''client''))] []) (JObj source)"
  proof (cases "fld source ''type'' = Some (JText ''client'')")
    case True
    with source(2) filled_checks(1) have "filled R IsIdentifier (fld source ''client_id'')" by blast
    with True show ?thesis by (simp add: filled_record)
  next
    case False
    with spelled(2) have "filled R (Such (\<lambda>v. v \<noteq> JText ''client'')) (fld source ''type'')"
      by (cases "fld source ''type''") simp_all
    with spelled(2) show ?thesis by (simp only: filled_record list.pred_inject prod.case simp_thms)
  qed
  from A B show ?thesis
    by (simp only: v ATTRIBUTION_SCHEMA_def filled_record list.pred_inject prod.case filled_simps matches.simps(12) simp_thms)
qed

lemma text_part_matches: "isTextPart v \<Longrightarrow> wf_json v \<Longrightarrow> matches R TEXT_PART_SCHEMA v"
  by (auto simp: isTextPart_def record_with_def TEXT_PART_SCHEMA_def filled_record filled_checks(2) [of _ R] exact_keys [OF _ wf_keys]
      simp del: wf_json.simps split: json.splits)

lemma json_part_matches: "isJsonPart v \<Longrightarrow> matches R JSON_PART_SCHEMA v"
  by (auto simp: isJsonPart_def record_with_def JSON_PART_SCHEMA_def filled_record isJsonValue_numbers
      split: json.splits option.splits)

lemma keys_matches:
  assumes "wf_json (JObj obj)" "hasExactKeys obj ks" "distinct ks"
  shows "set (keys_of obj) \<subseteq> js ` set ks"
  using exact_keys [OF assms(2) wf_keys [OF assms(1)] assms(3)] by simp

lemma wf_items: "wf_json (JObj obj) \<Longrightarrow> fld obj k = Some (JArr xs) \<Longrightarrow> x \<in> set xs \<Longrightarrow> wf_json x"
  using wf_field [of obj k "JArr xs"] by (simp add: list_all_iff)

text \<open>The rules that turn a check of a field into its schema.\<close>

lemma such_rules:
  "array_of v p \<Longrightarrow> filled R (Items (Such p)) v"
  "(case v of None \<Rightarrow> False | Some x \<Rightarrow> p x) \<Longrightarrow> filled R (Such p) v"
  by (auto simp: array_of_def filled_def list_all_iff split: option.splits json.splits)

lemmas field_rules = filled_checks(1-7) [THEN iffD1] filled_checks(10) [THEN iffD1] filled_spelled attribution_matches such_rules

lemma nullable_rules:
  "null_or isIdentifier v \<Longrightarrow> filled R (Nullable IsIdentifier) v"
  "null_or is_text v \<Longrightarrow> filled R (Nullable IsText) v"
  "null_or isTimestamp v \<Longrightarrow> filled R (Nullable IsTimestamp) v"
  "null_or (\<lambda>v. isOneOf v words) v \<Longrightarrow> filled R (Nullable (IsWord words)) v"
  "null_or (\<lambda>v. text_among R v words) v \<Longrightarrow> ''undefined'' \<notin> set words \<Longrightarrow> filled R (Nullable (IsSpelled words)) v"
  "null_or (isAttribution R) v \<Longrightarrow> filled R (Nullable ATTRIBUTION_SCHEMA) v"
  "reason_or_null v \<Longrightarrow> filled R (Nullable (Such isConversationApprovalReason)) v"
  unfolding reason_or_null_def by (erule filled_nullable, erule field_rules; assumption)+

lemmas schema_rules = field_rules nullable_rules
lemmas record_schema = filled_record list.pred_inject prod.case simp_thms

lemma message_matches:
  assumes m: "isMessage R m" and wf: "wf_json (JObj m)"
  shows "matches R MESSAGE_SCHEMA (JObj m)"
proof -
  have keys: "set (keys_of m) \<subseteq> js ` {''message_id'', ''role'', ''content'', ''attachments'', ''created_at'', ''attribution'', ''turn_id''}"
    using m keys_matches [OF wf] by (fastforce simp: isMessage_def split: if_splits)
  have turn: "fld m ''turn_id'' = None \<or> filled R (Nullable IsIdentifier) (fld m ''turn_id'')"
    using m unfolding isMessage_def has_own_fld by (elim conjE) (erule disj_forward, simp, rule nullable_rules)
  have parts: "filled R (Items TEXT_PART_SCHEMA) (fld m ''content'')"
    using m filled_items [of "fld m ''content''" isTextPart R] text_part_matches wf_items [OF wf] unfolding isMessage_def by blast
  show ?thesis
    using m parts turn keys unfolding isMessage_def MESSAGE_SCHEMA_def record_schema
    by (elim conjE) (intro conjI schema_rules; (assumption | simp)?)
qed

lemma reference_identity:
  assumes "isConversationAttachmentReference v"
  obtains r s where "v = JObj r" "fld r ''attachment_id'' = Some (JStr s)"
proof -
  from assms obtain r s where "v = JObj r" "stringValue (fld r ''attachment_id'') (dot (js ''$attachment'') ''attachment_id'') False attachmentIdLength = Inr s"
    unfolding isConversationAttachmentReference_def validateAttachmentReference_def okE_bindE event_record_def
    by (auto split: json.splits)
  moreover from this(2) have "okE (stringValue (fld r ''attachment_id'') (dot (js ''$attachment'') ''attachment_id'') False attachmentIdLength)"
    by simp
  ultimately show thesis using that unfolding stringValue_ok by blast
qed

lemma attachment_matches:
  assumes a: "isAttachmentRecord R a" and wf: "wf_json (JObj a)"
  shows "matches R ATTACHMENT_SCHEMA (JObj a)"
proof -
  have keys: "set (keys_of a) \<subseteq> js ` {''message_id'', ''attachment_id'', ''reference'', ''referenced_at'', ''attribution''}"
    using a keys_matches [OF wf] by (fastforce simp: isAttachmentRecord_def)
  have "is_text (fld a ''attachment_id'')"
    using a by (auto simp: is_text_def isAttachmentRecord_def record_with_def elim: reference_identity split: option.splits json.splits)
  with a keys show ?thesis
    unfolding isAttachmentRecord_def ATTACHMENT_SCHEMA_def record_schema
    by (elim conjE) (intro conjI schema_rules; (assumption | simp)?)
qed

lemma retry_matches:
  assumes r: "isTurnRetryRecord R v" and wf: "wf_json v"
  shows "matches R RETRY_SCHEMA v"
proof -
  obtain r where v: "v = JObj r" using assms by (auto elim: record_withE simp: isTurnRetryRecord_def)
  from assms(1) have r: "isPositiveSafeInteger (fld r ''attempt'')" "isTimestamp (fld r ''occurred_at'')" "isAttribution R (fld r ''attribution'')"
    by (simp_all add: v isTurnRetryRecord_def record_with_def)
  note wf = wf [unfolded v]
  consider "fld r ''type'' = Some (JText ''turn.attempt_started'')" "isOneOf (fld r ''operation'') [''start'', ''resume'']"
      "hasExactKeys r [''type'', ''attempt'', ''operation'', ''occurred_at'', ''attribution'']"
    | "fld r ''type'' = Some (JText ''turn.retry_scheduled'')" "isOneOf (fld r ''reason_category'') RETRY_REASONS"
      "isNonnegativeSafeInteger (fld r ''delay_ms'')"
      "hasExactKeys r [''type'', ''attempt'', ''reason_category'', ''delay_ms'', ''occurred_at'', ''attribution'']"
    | "fld r ''type'' = Some (JText ''turn.retry_exhausted'')" "isOneOf (fld r ''reason_category'') RETRY_REASONS"
      "isOneOf (fld r ''exhaustion_reason'') [''maximum_attempts'', ''maximum_elapsed_time'']"
      "hasExactKeys r [''type'', ''attempt'', ''reason_category'', ''exhaustion_reason'', ''occurred_at'', ''attribution'']"
    using assms(1) unfolding v isTurnRetryRecord_def record_with_def isRetryReasonCategory_def RETRY_REASONS_def
    by (auto split: if_splits)
  then show ?thesis
  proof cases
    case 1
    have "set (keys_of r) \<subseteq> js ` {''type'', ''attempt'', ''operation'', ''occurred_at'', ''attribution''}"
      using keys_matches [OF wf 1(3)] by simp
    with r 1 show ?thesis
      unfolding v RETRY_SCHEMA_def matches.simps(12) record_schema by - (rule disjI1, intro conjI schema_rules; (assumption | simp add: isOneOf_def)?)
  next
    case 2
    have "set (keys_of r) \<subseteq> js ` {''type'', ''attempt'', ''reason_category'', ''delay_ms'', ''occurred_at'', ''attribution''}"
      using keys_matches [OF wf 2(4)] by simp
    with r 2 show ?thesis
      unfolding v RETRY_SCHEMA_def matches.simps(12) record_schema by - (rule disjI2, rule disjI1, intro conjI schema_rules; (assumption | simp add: isOneOf_def)?)
  next
    case 3
    have "set (keys_of r) \<subseteq> js ` {''type'', ''attempt'', ''reason_category'', ''exhaustion_reason'', ''occurred_at'', ''attribution''}"
      using keys_matches [OF wf 3(4)] by simp
    with r 3 show ?thesis
      unfolding v RETRY_SCHEMA_def matches.simps(12) record_schema by - (rule disjI2, rule disjI2, intro conjI schema_rules; (assumption | simp add: isOneOf_def)?)
  qed
qed

lemma turn_matches:
  assumes t: "isTurn R t" and wf: "wf_json (JObj t)"
  shows "matches R TURN_SCHEMA (JObj t)"
proof -
  have retries: "filled R (Items RETRY_SCHEMA) (fld t ''retry_history'')"
    using t filled_items [of "fld t ''retry_history''" "isTurnRetryRecord R" R] retry_matches wf_items [OF wf] unfolding isTurn_def by blast
  have "isTurnError v \<Longrightarrow> filled R (Having [(''code'', IsText), (''message'', IsText), (''retryable'', IsFlag)] []) v" for v
    unfolding isTurnError_def by (elim record_withE conjE) (simp add: filled_record field_rules)
  then have "filled R (Nullable (Having [(''code'', IsText), (''message'', IsText), (''retryable'', IsFlag)] [])) (fld t ''error'')"
    using t unfolding isTurn_def by (blast intro: filled_nullable)
  with t retries show ?thesis
    unfolding isTurn_def TURN_SCHEMA_def record_schema TURN_STATES_def CANCELLATION_REASONS_def
    by (elim conjE) (intro conjI schema_rules; (assumption | simp)?)
qed

lemma tool_result_matches:
  assumes r: "isToolResult U R i (Some (JObj r))" and wf: "wf_json (JObj r)"
  shows "matches R TOOL_RESULT_SCHEMA (JObj r)"
proof -
  have r: "hasExactKeys r (if has_own r ''citation_records'' then [''content'', ''is_error'', ''citation_records'', ''recorded_at'', ''attribution'']
       else [''content'', ''is_error'', ''recorded_at'', ''attribution''])"
    "array_of (fld r ''content'') (\<lambda>part. isTextPart part \<or> isJsonPart part)"
    "is_boolean (fld r ''is_error'')" "is_text (fld r ''recorded_at'')" "isAttribution R (fld r ''attribution'')"
    "\<forall>v. fld r ''citation_records'' = Some v \<longrightarrow> (\<exists>records. jsonValuesEqual (citation_records_json records) v)"
    using r by (auto simp: isToolResult_def record_with_def split: option.splits sum.splits)
  have "filled R (Items (Either TEXT_PART_SCHEMA JSON_PART_SCHEMA)) (fld r ''content'')"
    using r(2) by (rule filled_items) (use text_part_matches json_part_matches wf_items [OF wf] in auto)
  moreover have "set (keys_of r) \<subseteq> js ` {''content'', ''is_error'', ''recorded_at'', ''attribution'', ''citation_records''}"
    using r(1) keys_matches [OF wf] by (fastforce split: if_splits)
  moreover have "fld r ''citation_records'' = None \<or> filled R (Having [] []) (fld r ''citation_records'')"
  proof (cases "fld r ''citation_records''")
    case (Some v)
    with r(6) obtain records where "jsonValuesEqual (citation_records_json records) v" by blast
    then obtain obj where "v = JObj obj"
      by (cases v) (simp_all add: citation_records_json_def jsonValuesEqual.simps [of "JObj _"])
    with Some show ?thesis by (simp add: filled_record)
  qed simp
  ultimately show ?thesis
    using r(3-5) unfolding TOOL_RESULT_SCHEMA_def record_schema
    by (intro conjI schema_rules; (assumption | simp)?)
qed

lemma tool_call_matches:
  assumes t: "isToolCall U R t" and wf: "wf_json (JObj t)"
  shows "matches R TOOL_CALL_SCHEMA (JObj t)"
proof -
  have "filled R TOOL_RESULT_SCHEMA (fld t ''result'')" if "isToolResult U R i (fld t ''result'')" for i
  proof -
    from that obtain r where r: "fld t ''result'' = Some (JObj r)" unfolding isToolResult_def by (rule record_withE)
    with that have "matches R TOOL_RESULT_SCHEMA (JObj r)" using wf_field [OF wf r] by (intro tool_result_matches) simp_all
    with r show ?thesis by simp
  qed
  then have "filled R (Nullable TOOL_RESULT_SCHEMA) (fld t ''result'')"
    using t unfolding isToolCall_def by (blast intro: filled_nullable)
  moreover from t have "null_or isJsonObject (fld t ''arguments'')" unfolding isToolCall_def by blast
  then have "fld t ''arguments'' = Some JNull \<or> filled R (Having [] []) (fld t ''arguments'') \<and> filled R IsFiniteJson (fld t ''arguments'')"
    unfolding null_or_def filled_checks(8) [of _ R] .
  then have "filled R (Nullable (Having [] [])) (fld t ''arguments'')" "filled R IsFiniteJson (fld t ''arguments'')"
    by (elim disjE conjE; simp add: filled_def split: option.splits)+
  ultimately show ?thesis
    using t unfolding isToolCall_def TOOL_CALL_SCHEMA_def record_schema
    by (elim conjE) (intro conjI schema_rules; (assumption | simp)?)
qed

lemma proposal_matches:
  assumes p: "isApprovalProposal R p" and wf: "wf_json (JObj p)"
  shows "matches R (PROPOSAL_SCHEMA R) (JObj p)"
proof -
  have keys: "set (keys_of p) \<subseteq> js ` set PROPOSAL_KEYS"
    using p keys_matches [OF wf] by (fastforce simp: isApprovalProposal_def PROPOSAL_KEYS_def)
  show ?thesis
    using p keys unfolding isApprovalProposal_def PROPOSAL_SCHEMA_def PROPOSAL_KEYS_def record_schema
    by (elim conjE) (intro conjI schema_rules; (assumption | simp)?)
qed

lemma budget_matches: "isToolLoopBudgetExhaustion R b \<Longrightarrow> matches R BUDGET_SCHEMA (JObj b)"
  unfolding isToolLoopBudgetExhaustion_def BUDGET_SCHEMA_def record_schema
  by (elim conjE) (intro conjI schema_rules; (assumption | simp)?)

lemma usage_matches: "isUsageLink R u \<Longrightarrow> matches R USAGE_SCHEMA (JObj u)"
  unfolding isUsageLink_def USAGE_SCHEMA_def record_schema
  by (elim conjE) (intro conjI schema_rules; (assumption | simp)?)

lemma records_match:
  assumes "recordArray (fld obj k) p" "wf_json (JObj obj)" "\<And>x. p x \<Longrightarrow> wf_json (JObj x) \<Longrightarrow> matches R s (JObj x)"
  shows "filled R (Items s) (fld obj k)"
  using assms(1) unfolding recordArray_def
  by (rule filled_items) (elim record_withE, use assms(3) wf_items [OF assms(2)] in \<open>metis option.inject\<close>)

lemma equal_records:
  "jsonListsEqual xs ys \<Longrightarrow> length xs = length ys \<Longrightarrow> \<forall>x \<in> set xs. \<exists>o'. x = JObj o' \<Longrightarrow> y \<in> set ys \<Longrightarrow> \<exists>o'. y = JObj o'"
proof (induction xs arbitrary: ys)
  case (Cons x xs)
  from Cons.prems obtain z zs where ys: "ys = z # zs" by (cases ys) auto
  from Cons.prems(1,3) obtain o' where "x = JObj o'" "jsonValuesEqual x z" by (auto simp: ys)
  then have "\<exists>o'. z = JObj o'" by (cases z) (simp_all add: jsonValuesEqual.simps [of "JObj _"])
  with Cons ys show ?case by auto
qed simp

lemma citations_match:
  assumes "jsonValuesEqual (JArr (map f xs)) v" "\<And>x. \<exists>o'. f x = JObj o'"
  shows "matches R (Items (Having [] [])) v"
proof -
  from assms(1) obtain ys where ys: "v = JArr ys" "length xs = length ys" "jsonListsEqual (map f xs) ys"
    by (cases v) (simp_all add: jsonValuesEqual.simps [of "JArr _"])
  have "\<exists>o'. y = JObj o'" if "y \<in> set ys" for y
    by (rule equal_records [OF ys(3)]) (use ys(2) assms(2) that in auto)
  then show ?thesis by (fastforce simp: ys list_all_iff filled_record)
qed

end
