(* ===== verification/CheckpointProperties.thy ===== *)
theory CheckpointProperties
  imports StateSchema Replay
begin

text \<open>
  Which checkpoints replay starts from (\<^verbatim>\<open>parseCheckpoint\<close> of \<^verbatim>\<open>src/conversation/replay.ts\<close>), and what the
  structural check of \<^verbatim>\<open>state-validation.ts\<close> establishes for the JSON value they hold, whoever
  wrote it: its shape, and how its parts fit together.
\<close>

definition parseCheckpoint :: "url_parser \<Rightarrow> (rat \<Rightarrow> js_string) \<Rightarrow> ConversationEventCheckpoint option \<Rightarrow> js_string \<Rightarrow> int option \<Rightarrow>
    (int \<times> json) option" where
  "parseCheckpoint parse_url R checkpoint conversationId durableLatestRevision =
     (case (checkpoint, durableLatestRevision) of
        (Some c, Some latest) \<Rightarrow>
          (case safe_int (cp_revision c) of
             None \<Rightarrow> None
           | Some r \<Rightarrow>
               if cp_schemaVersion c \<noteq> Some CONVERSATION_CHECKPOINT_SCHEMA_VERSION \<or> cp_conversationId c \<noteq> conversationId \<or>
                  r \<le> 0 \<or> latest < r \<or> \<not> isConversationState parse_url R (cp_state c) (Some conversationId) (Some r)
               then None else Some (r, cloneJson (cp_state c)))
      | _ \<Rightarrow> None)"

section \<open>How the parts of a state fit together\<close>

text \<open>
  The records of a state, read from its JSON object. A reference to an attachment is the same as
  another one when its five fields are.
\<close>

definition reference_view :: "json \<Rightarrow> (json option \<times> json option \<times> json option \<times> json option \<times> int option) option" where
  "reference_view v = (case v of
     JObj r \<Rightarrow> Some (fld r ''attachment_id'', fld r ''kind'', fld r ''media_type'', fld r ''filename'', number_of (fld r ''size_bytes''))
   | _ \<Rightarrow> None)"

definition recorded_reference :: "js_object \<Rightarrow> json" where
  "recorded_reference a = (case fld a ''reference'' of Some v \<Rightarrow> v | None \<Rightarrow> JNull)"

text \<open>The processed events are as many as the revision says, and the last of them is named.\<close>

definition log_consistent :: "js_object \<Rightarrow> js_string \<Rightarrow> int \<Rightarrow> bool" where
  "log_consistent obj cid r \<longleftrightarrow> fld obj ''conversation_id'' = Some (JStr cid) \<and> fld obj ''revision'' = Some (JInt r) \<and>
     (\<exists>events mutations. fld obj ''processed_event_ids'' = Some (JArr (map JStr events)) \<and>
        fld obj ''processed_mutation_ids'' = Some (JArr (map JStr mutations)) \<and>
        int (length events) = r \<and> distinct events \<and> distinct mutations \<and>
        fld obj ''last_event_id'' = Some (JStr (last events)))"

text \<open>Messages have different identifiers and carry exactly the attachments recorded for them.\<close>

definition attachments_consistent :: "js_object list \<Rightarrow> js_object list \<Rightarrow> bool" where
  "attachments_consistent messages attachments \<longleftrightarrow>
     distinct (map (\<lambda>m. fld m ''message_id'') messages) \<and>
     distinct (map (\<lambda>a. (fld a ''message_id'', fld a ''attachment_id'')) attachments) \<and>
     (\<forall>m \<in> set messages. distinct (map (\<lambda>a. fld a ''attachment_id'') (records_in (fld m ''attachments''))) \<and>
        reference_view ` set (elements_in (fld m ''attachments'')) =
        (\<lambda>a. reference_view (recorded_reference a)) ` {a \<in> set attachments. fld a ''message_id'' = fld m ''message_id''}) \<and>
     (\<forall>a \<in> set attachments. fld a ''message_id'' \<in> (\<lambda>m. fld m ''message_id'') ` set messages \<and>
        (\<exists>r. fld a ''reference'' = Some (JObj r) \<and> fld a ''attachment_id'' = fld r ''attachment_id''))"

text \<open>
  A proposal names a tool call that asked for approval; it was created by the system, and its
  version, times, decision and failure fit its status.
\<close>

definition decided :: "(rat \<Rightarrow> js_string) \<Rightarrow> js_object \<Rightarrow> bool" where
  "decided R p \<longleftrightarrow> (\<exists>s. fld p ''decision_at'' = Some (JStr s)) \<and>
     (\<exists>a actor. fld p ''decision_attribution'' = Some (JObj a) \<and> fld a ''actor'' = Some (JObj actor) \<and>
        text_among R (fld actor ''type'') [''user'', ''system''])"

definition undecided :: "js_object \<Rightarrow> bool" where
  "undecided p \<longleftrightarrow> (\<forall>k \<in> {''decision_at'', ''decision_attribution'', ''decision_reason'', ''failure_reason''}. fld p k = Some JNull)"

definition proposal_consistent :: "(rat \<Rightarrow> js_string) \<Rightarrow> js_object list \<Rightarrow> js_object \<Rightarrow> bool" where
  "proposal_consistent R calls p \<longleftrightarrow>
     (\<exists>t \<in> set calls. fld t ''tool_call_id'' = fld p ''tool_call_id'' \<and> fld t ''turn_id'' = fld p ''turn_id'' \<and>
        fld t ''name'' = fld p ''tool_name'' \<and> (\<exists>s. fld t ''approval_required_at'' = Some (JStr s))) \<and>
     (\<exists>a actor. fld p ''created_attribution'' = Some (JObj a) \<and> fld a ''actor'' = Some (JObj actor) \<and>
        fld actor ''type'' = Some (JText ''system'')) \<and>
     (\<exists>c u. fld p ''created_at'' = Some (JStr c) \<and> fld p ''updated_at'' = Some (JStr u) \<and> \<not> date_less u c) \<and>
     (\<exists>v. number_of (fld p ''proposal_version'') = Some v \<and>
        (if fld p ''status'' = Some (JText ''pending'') then v = 1 \<and> undecided p else 2 \<le> v \<and> decided R p)) \<and>
     (fld p ''failure_reason'' = Some JNull \<longleftrightarrow> fld p ''status'' \<noteq> Some (JText ''failed''))"

text \<open>Citations form a record set, and what they are attached to is there.\<close>

definition citations_consistent :: "js_object \<Rightarrow> js_object list \<Rightarrow> js_object list \<Rightarrow> bool" where
  "citations_consistent obj messages calls \<longleftrightarrow> (\<exists>records sources citations. citation_set_ok records \<and>
     fld obj ''citation_sources'' = Some sources \<and> fld obj ''citations'' = Some citations \<and>
     jsonValuesEqual (JArr (map citation_source_json (rs_sources records))) sources \<and>
     jsonValuesEqual (JArr (map citation_json (rs_citations records))) citations \<and>
     (\<forall>c \<in> set (rs_citations records). case ct_target c of
        AssistantMessageCitationTarget i \<Rightarrow>
          \<exists>m \<in> set messages. fld m ''message_id'' = Some (JStr i) \<and> fld m ''role'' \<in> {Some JNull, Some (JText ''assistant'')}
      | ToolResultCitationTarget i \<Rightarrow> \<exists>t \<in> set calls. fld t ''tool_call_id'' = Some (JStr i)))"

definition result_citations_consistent :: "js_object \<Rightarrow> bool" where
  "result_citations_consistent t \<longleftrightarrow> (\<forall>r v. fld t ''result'' = Some (JObj r) \<and> fld r ''citation_records'' = Some v \<longrightarrow>
     (\<exists>records i. citation_set_ok records \<and> rs_citations records \<noteq> [] \<and> jsonValuesEqual (citation_records_json records) v \<and>
        fld t ''tool_call_id'' = Some (JStr i) \<and> (\<forall>c \<in> set (rs_citations records). ct_target c = ToolResultCitationTarget i)))"

definition active_consistent :: "(rat \<Rightarrow> js_string) \<Rightarrow> js_object \<Rightarrow> js_object list \<Rightarrow> bool" where
  "active_consistent R obj turns \<longleftrightarrow> fld obj ''active_turn_id'' = Some JNull \<or>
     (\<exists>t \<in> set turns. fld t ''turn_id'' = fld obj ''active_turn_id'' \<and>
        text_among R (fld t ''status'') [''queued'', ''running'', ''waiting_for_tool_result''])"

definition state_consistent :: "(rat \<Rightarrow> js_string) \<Rightarrow> js_object \<Rightarrow> js_string \<Rightarrow> int \<Rightarrow> bool" where
  "state_consistent R obj cid r \<longleftrightarrow>
     (let messages = records_in (fld obj ''messages''); calls = records_in (fld obj ''tool_calls'');
          proposals = records_in (fld obj ''approval_proposals'') in
      log_consistent obj cid r \<and> attachments_consistent messages (records_in (fld obj ''attachments'')) \<and>
      citations_consistent obj messages calls \<and> (\<forall>t \<in> set calls. result_citations_consistent t) \<and>
      distinct (map (\<lambda>p. fld p ''proposal_id'') proposals) \<and> (\<forall>p \<in> set proposals. proposal_consistent R calls p) \<and>
      active_consistent R obj (records_in (fld obj ''turns'')))"

section \<open>What the check establishes\<close>

lemma find_SomeD: "find P xs = Some x \<Longrightarrow> x \<in> set xs \<and> P x"
  by (induction xs) (auto split: if_splits)

lemma distinct_via: "distinct (map (\<lambda>x. g (f x)) xs) \<Longrightarrow> distinct (map f xs)"
  by (induction xs) force+

lemma record_of: "recordArray v p \<Longrightarrow> o' \<in> set (records_in v) \<Longrightarrow> p o'"
  by (auto simp: recordArray_def array_of_def records_in_def record_with_def list_all_iff List.map_filter_def
      split: option.splits json.splits)

lemma identifier_array:
  assumes "identifierArrayOf v = Some xs"
  shows "v = Some (JArr (map JStr xs))"
proof -
  from assms obtain ys where ys: "v = Some (JArr ys)" "list_all (\<lambda>x. isIdentifier (Some x)) ys"
      "xs = map (\<lambda>x. case x of JStr s \<Rightarrow> s | _ \<Rightarrow> []) ys"
    by (auto simp: identifierArrayOf_def array_of_def split: if_splits option.splits json.splits)
  have "JStr (case y of JStr s \<Rightarrow> s | _ \<Rightarrow> []) = y" if "y \<in> set ys" for y
    using ys(2) that by (cases y) (auto simp: list_all_iff isIdentifier_def)
  then have "map (JStr \<circ> (\<lambda>x. case x of JStr s \<Rightarrow> s | _ \<Rightarrow> [])) ys = ys" by (intro map_idI) simp
  then show ?thesis by (simp add: ys)
qed

lemma checked_log:
  assumes "log_fields_ok obj (Some cid) (Some r)" "1 \<le> r"
  shows "log_consistent obj cid r"
proof -
  have revision: "case fld obj ''revision'' of Some (JNum n) \<Rightarrow> num_strict_eq n (Finite (of_int r)) | _ \<Rightarrow> False"
    and ids: "case (identifierArrayOf (fld obj ''processed_event_ids''), identifierArrayOf (fld obj ''processed_mutation_ids'')) of
        (Some eventIds, Some mutationIds) \<Rightarrow> int (length eventIds) = r \<and> distinct eventIds \<and> distinct mutationIds \<and>
          fld obj ''last_event_id'' = Some (JStr (last eventIds))
      | _ \<Rightarrow> False"
    and cid: "fld obj ''conversation_id'' = Some (JStr cid)"
    using assms(1) unfolding log_fields_ok_def by (simp_all add: nullable_def split: option.splits json.splits)
  from revision obtain n where n: "fld obj ''revision'' = Some (JNum n)" "num_strict_eq n (Finite (of_int r))"
    by (simp split: option.splits json.splits)
  from n(2) assms(2) have "n = Finite (of_int r)" by (cases n) (simp_all add: num_strict_eq_def)
  moreover from ids obtain events mutations where "identifierArrayOf (fld obj ''processed_event_ids'') = Some events"
    "identifierArrayOf (fld obj ''processed_mutation_ids'') = Some mutations"
    "int (length events) = r" "distinct events" "distinct mutations" "fld obj ''last_event_id'' = Some (JStr (last events))"
    by (simp split: option.splits)
  ultimately show ?thesis unfolding log_consistent_def using identifier_array cid n(1) by blast
qed

lemma same_number: "num_strict_eq x y \<Longrightarrow> safe_int x = safe_int y"
  by (cases x; cases y) (auto simp: num_strict_eq_def safe_int_def MAX_SAFE_INTEGER_def)

lemma same_view:
  assumes "sameAttachmentReference (Some a) b"
  shows "reference_view a = reference_view b"
proof -
  from assms obtain l where l: "a = JObj l" unfolding sameAttachmentReference_def by (cases a) (simp_all add: record_with_def)
  with assms obtain r where r: "b = JObj r" unfolding sameAttachmentReference_def by (cases b) (simp_all add: record_with_def)
  have same: "fld l ''attachment_id'' = fld r ''attachment_id''" "fld l ''kind'' = fld r ''kind''"
    "fld l ''media_type'' = fld r ''media_type''" "fld l ''filename'' = fld r ''filename''"
    "case (fld l ''size_bytes'', fld r ''size_bytes'') of (Some (JNum x), Some (JNum y)) \<Rightarrow> num_strict_eq x y | (x, y) \<Rightarrow> x = y"
    using assms unfolding sameAttachmentReference_def l r record_with_def by simp_all
  have "number_of (fld l ''size_bytes'') = number_of (fld r ''size_bytes'')"
  proof (cases "fld l ''size_bytes'' = fld r ''size_bytes''")
    case False
    with same(5) obtain x y where "fld l ''size_bytes'' = Some (JNum x)" "fld r ''size_bytes'' = Some (JNum y)" "num_strict_eq x y"
      by (cases "fld l ''size_bytes''"; cases "fld r ''size_bytes''") (simp_all split: json.splits)
    then show ?thesis by (simp add: number_of_def same_number)
  qed simp
  then show ?thesis by (simp add: reference_view_def l r same)
qed

lemma checked_attachments:
  assumes proj: "hasConsistentAttachmentProjection R messages attachments"
    and messages: "\<And>m. m \<in> set messages \<Longrightarrow> isMessage R m" and records: "\<And>a. a \<in> set attachments \<Longrightarrow> isAttachmentRecord R a"
  shows "attachments_consistent messages attachments"
proof -
  have ids: "distinct (map (\<lambda>m. fld m ''message_id'') messages)" using proj by (simp add: hasConsistentAttachmentProjection_def)
  have key: "attachment_key R = (\<lambda>a. (\<lambda>(m, i). (case m of None \<Rightarrow> js ''undefined'' | Some v \<Rightarrow> js_text R v) @ [0] @
      (case i of None \<Rightarrow> js ''undefined'' | Some v \<Rightarrow> js_text R v)) (fld a ''message_id'', fld a ''attachment_id''))"
    by (simp add: attachment_key_def fun_eq_iff)
  have "distinct (map (attachment_key R) attachments)" using proj by (simp add: hasConsistentAttachmentProjection_def)
  then have keys: "distinct (map (\<lambda>a. (fld a ''message_id'', fld a ''attachment_id'')) attachments)"
    unfolding key by (rule distinct_via)
  have recorded: "\<exists>a \<in> set attachments. fld a ''message_id'' = fld m ''message_id'' \<and> reference_view (recorded_reference a) = reference_view v"
    if m: "m \<in> set messages" "v \<in> set (elements_in (fld m ''attachments''))" for m v
  proof -
    have "reference_recorded attachments m v" using proj m by (simp add: hasConsistentAttachmentProjection_def list_all_iff)
    then obtain a where a: "a \<in> set attachments" "fld a ''message_id'' = fld m ''message_id''" "sameAttachmentReference (fld a ''reference'') v"
      by (auto simp: reference_recorded_def dest: find_SomeD elim!: record_withE split: option.splits)
    then obtain w where "fld a ''reference'' = Some w" by (cases "fld a ''reference''") (auto simp: sameAttachmentReference_def)
    with a same_view show ?thesis by (auto simp: recorded_reference_def)
  qed
  have referenced: "\<exists>m \<in> set messages. fld m ''message_id'' = fld a ''message_id'' \<and>
      reference_view (recorded_reference a) \<in> reference_view ` set (elements_in (fld m ''attachments''))"
    if a: "a \<in> set attachments" for a
  proof -
    have "attachment_referenced messages a" using proj a by (simp add: hasConsistentAttachmentProjection_def list_all_iff)
    then obtain m v where m: "m \<in> set messages" "fld m ''message_id'' = fld a ''message_id''" "v \<in> set (elements_in (fld m ''attachments''))"
      "sameAttachmentReference (fld a ''reference'') v"
      by (auto simp: attachment_referenced_def list_ex_iff dest!: find_SomeD split: option.splits)
    then obtain w where "fld a ''reference'' = Some w" by (cases "fld a ''reference''") (auto simp: sameAttachmentReference_def)
    with m same_view show ?thesis by (auto simp: recorded_reference_def)
  qed
  have "reference_view ` set (elements_in (fld m ''attachments'')) =
      (\<lambda>a. reference_view (recorded_reference a)) ` {a \<in> set attachments. fld a ''message_id'' = fld m ''message_id''}"
    if m: "m \<in> set messages" for m
  proof (intro equalityI subsetI)
    fix x assume "x \<in> reference_view ` set (elements_in (fld m ''attachments''))"
    with recorded [OF m] show "x \<in> (\<lambda>a. reference_view (recorded_reference a)) ` {a \<in> set attachments. fld a ''message_id'' = fld m ''message_id''}"
      by force
  next
    fix x assume "x \<in> (\<lambda>a. reference_view (recorded_reference a)) ` {a \<in> set attachments. fld a ''message_id'' = fld m ''message_id''}"
    then obtain a where a: "a \<in> set attachments" "fld a ''message_id'' = fld m ''message_id''" "x = reference_view (recorded_reference a)" by blast
    from referenced [OF a(1)] obtain m' where m': "m' \<in> set messages" "fld m' ''message_id'' = fld m ''message_id''"
      "x \<in> reference_view ` set (elements_in (fld m' ''attachments''))" using a by auto
    with ids m have "m' = m" by (auto simp: distinct_map dest: inj_onD)
    with m' show "x \<in> reference_view ` set (elements_in (fld m ''attachments''))" by simp
  qed
  moreover have "distinct (map (\<lambda>a. fld a ''attachment_id'') (records_in (fld m ''attachments'')))" if "m \<in> set messages" for m
    using messages [OF that] by (simp add: isMessage_def attachment_ids_def)
  moreover have "\<exists>r. fld a ''reference'' = Some (JObj r) \<and> fld a ''attachment_id'' = fld r ''attachment_id''" if "a \<in> set attachments" for a
    using records [OF that] by (auto simp: isAttachmentRecord_def elim: record_withE)
  moreover have "fld a ''message_id'' \<in> (\<lambda>m. fld m ''message_id'') ` set messages" if "a \<in> set attachments" for a
  proof -
    from referenced [OF that] obtain m where "m \<in> set messages" "fld m ''message_id'' = fld a ''message_id''" by blast
    then show ?thesis by (intro image_eqI [where x = m]) simp_all
  qed
  ultimately show ?thesis using ids keys by (simp add: attachments_consistent_def)
qed

lemma checked_proposal:
  assumes p: "isApprovalProposal R p" and requested: "proposal_requested calls p" and calls: "\<And>t. t \<in> set calls \<Longrightarrow> isToolCall U R t"
  shows "proposal_consistent R calls p"
proof -
  from requested obtain t where t: "t \<in> set calls" "fld t ''tool_call_id'' = fld p ''tool_call_id''" "fld t ''turn_id'' = fld p ''turn_id''"
      "fld t ''name'' = fld p ''tool_name''" "fld t ''approval_required_at'' \<noteq> Some JNull"
    by (auto simp: proposal_requested_def list_ex_iff)
  moreover from calls [OF t(1)] t(5) have "\<exists>s. fld t ''approval_required_at'' = Some (JStr s)"
    by (auto simp: isToolCall_def null_or_def is_text_def split: option.splits json.splits)
  ultimately have "\<exists>t \<in> set calls. fld t ''tool_call_id'' = fld p ''tool_call_id'' \<and> fld t ''turn_id'' = fld p ''turn_id'' \<and>
        fld t ''name'' = fld p ''tool_name'' \<and> (\<exists>s. fld t ''approval_required_at'' = Some (JStr s))" by blast
  moreover have "\<exists>a actor. fld p ''created_attribution'' = Some (JObj a) \<and> fld a ''actor'' = Some (JObj actor) \<and>
        fld actor ''type'' = Some (JText ''system'')"
    using p by (auto simp: isApprovalProposal_def elim!: record_withE)
  moreover have "\<exists>c u. fld p ''created_at'' = Some (JStr c) \<and> fld p ''updated_at'' = Some (JStr u) \<and> \<not> date_less u c"
    using p by (auto simp: isApprovalProposal_def isTimestamp_def dates_decrease_def split: option.splits json.splits)
  moreover have "\<exists>v. number_of (fld p ''proposal_version'') = Some v \<and>
        (if fld p ''status'' = Some (JText ''pending'') then v = 1 \<and> undecided p else 2 \<le> v \<and> decided R p)"
  proof (cases "fld p ''status'' = Some (JText ''pending'')")
    case True
    with p show ?thesis by (auto simp: isApprovalProposal_def undecided_def)
  next
    case False
    with p have d: "case number_of (fld p ''proposal_version'') of Some v \<Rightarrow> 2 \<le> v | None \<Rightarrow> False"
      "null_or isTimestamp (fld p ''decision_at'')" "fld p ''decision_at'' \<noteq> Some JNull"
      "attributed_to R (fld p ''decision_attribution'') [''user'', ''system'']"
      unfolding isApprovalProposal_def by simp_all
    have "\<exists>s. fld p ''decision_at'' = Some (JStr s)"
      using d(2,3) by (auto simp: null_or_def isTimestamp_def split: option.splits json.splits)
    moreover have "\<exists>a actor. fld p ''decision_attribution'' = Some (JObj a) \<and> fld a ''actor'' = Some (JObj actor) \<and>
        text_among R (fld actor ''type'') [''user'', ''system'']"
      using d(4) unfolding attributed_to_def by (blast elim: record_withE)
    ultimately show ?thesis using False d(1) by (auto simp: decided_def split: option.splits)
  qed
  moreover have "fld p ''failure_reason'' = Some JNull \<longleftrightarrow> fld p ''status'' \<noteq> Some (JText ''failed'')"
    using p by (auto simp: isApprovalProposal_def split: if_splits)
  ultimately show ?thesis by (simp add: proposal_consistent_def)
qed

lemma checked_citations:
  assumes "hasValidCitationProjection U (fld obj ''citation_sources'') (fld obj ''citations'') messages calls"
  shows "citations_consistent obj messages calls"
    "filled R (Items (Having [] [])) (fld obj ''citation_sources'')" "filled R (Items (Having [] [])) (fld obj ''citations'')"
proof -
  from assms obtain ss cs records where flds: "fld obj ''citation_sources'' = Some ss" "fld obj ''citations'' = Some cs"
    and n: "normalizeCitationRecords U (JObj [(js ''sources'', ss), (js ''citations'', cs)]) = Inr records"
    and eq: "jsonValuesEqual (JArr (map citation_source_json (rs_sources records))) ss"
      "jsonValuesEqual (JArr (map citation_json (rs_citations records))) cs"
    and known: "list_all (citation_target_known messages calls) (rs_citations records)"
    unfolding hasValidCitationProjection_def by (simp split: option.splits sum.splits)
  have "case ct_target c of
      AssistantMessageCitationTarget i \<Rightarrow>
        \<exists>m \<in> set messages. fld m ''message_id'' = Some (JStr i) \<and> fld m ''role'' \<in> {Some JNull, Some (JText ''assistant'')}
    | ToolResultCitationTarget i \<Rightarrow> \<exists>t \<in> set calls. fld t ''tool_call_id'' = Some (JStr i)" if "c \<in> set (rs_citations records)" for c
  proof -
    have "citation_target_known messages calls c" using known that by (simp add: list_all_iff)
    then show ?thesis
    proof (cases "ct_target c")
      case (AssistantMessageCitationTarget i)
      with \<open>citation_target_known messages calls c\<close> obtain m where
        "find (\<lambda>m. fld m ''message_id'' = Some (JStr i)) messages = Some m" "fld m ''role'' \<in> {Some JNull, Some (JText ''assistant'')}"
        by (auto simp: citation_target_known_def split: option.splits)
      with find_SomeD [OF this(1)] AssistantMessageCitationTarget show ?thesis by auto
    qed (auto simp: citation_target_known_def list_ex_iff)
  qed
  with n eq flds normalizeCitationRecords_set_ok [OF n] show "citations_consistent obj messages calls"
    unfolding citations_consistent_def by blast
  show "filled R (Items (Having [] [])) (fld obj ''citation_sources'')" "filled R (Items (Having [] [])) (fld obj ''citations'')"
    unfolding flds filled_simps
    by (rule citations_match [OF eq(1)], simp add: citation_source_json_def) (rule citations_match [OF eq(2)], simp add: citation_json_def)
qed

lemma checked_result:
  assumes "isToolCall U R t"
  shows "result_citations_consistent t"
  unfolding result_citations_consistent_def
proof (intro allI impI)
  fix r v assume r: "fld t ''result'' = Some (JObj r) \<and> fld r ''citation_records'' = Some v"
  from assms obtain i where i: "fld t ''tool_call_id'' = Some (JStr i)"
    unfolding isToolCall_def isIdentifier_def by (simp split: option.splits json.splits)
  have "isToolResult U R i (Some (JObj r))" using assms r by (simp add: isToolCall_def null_or_def i)
  then obtain records where "normalizeCitationRecords U v = Inr records" "rs_citations records \<noteq> []"
    "jsonValuesEqual (citation_records_json records) v" "\<forall>c \<in> set (rs_citations records). ct_target c = ToolResultCitationTarget i"
    using r by (simp add: isToolResult_def record_with_def list_all_iff split: sum.splits)
  with i normalizeCitationRecords_set_ok show "\<exists>records i. citation_set_ok records \<and> rs_citations records \<noteq> [] \<and>
      jsonValuesEqual (citation_records_json records) v \<and> fld t ''tool_call_id'' = Some (JStr i) \<and>
      (\<forall>c \<in> set (rs_citations records). ct_target c = ToolResultCitationTarget i)" by blast
qed

lemma checked_active: "active_turn_ok R obj \<Longrightarrow> active_consistent R obj (records_in (fld obj ''turns''))"
  by (auto simp: active_turn_ok_def active_consistent_def list_ex_iff)

lemma checked_state:
  assumes state: "isConversationState U R v (Some cid) (Some r)" and r: "1 \<le> r" "r \<le> MAX_SAFE_INTEGER" and wf: "wf_json v"
  shows "matches R (STATE_SCHEMA R) v \<and> (\<exists>obj. v = JObj obj \<and> state_consistent R obj cid r)"
proof -
  from state obtain obj where v: "v = JObj obj" unfolding isConversationState_def by (auto elim: record_withE)
  note wf = wf [unfolded v]
  from state have keys: "hasExactKeys obj STATE_KEYS" and log: "log_fields_ok obj (Some cid) (Some r)"
    and parts: "recordArray (fld obj ''messages'') (isMessage R)" "recordArray (fld obj ''attachments'') (isAttachmentRecord R)"
      "recordArray (fld obj ''turns'') (isTurn R)" "recordArray (fld obj ''tool_calls'') (isToolCall U R)"
      "recordArray (fld obj ''approval_proposals'') (isApprovalProposal R)"
      "recordArray (fld obj ''tool_loop_budget_exhaustions'') (isToolLoopBudgetExhaustion R)"
      "recordArray (fld obj ''usage_receipt_links'') (isUsageLink R)"
    and proj: "hasConsistentAttachmentProjection R (records_in (fld obj ''messages'')) (records_in (fld obj ''attachments''))"
    and cites: "hasValidCitationProjection U (fld obj ''citation_sources'') (fld obj ''citations'')
       (records_in (fld obj ''messages'')) (records_in (fld obj ''tool_calls''))"
    and proposals: "distinct (map (\<lambda>p. fld p ''proposal_id'') (records_in (fld obj ''approval_proposals'')))"
      "list_all (proposal_requested (records_in (fld obj ''tool_calls''))) (records_in (fld obj ''approval_proposals''))"
    and active: "active_turn_ok R obj"
    unfolding v isConversationState_def record_with_def by simp_all
  have "state_consistent R obj cid r"
    unfolding state_consistent_def Let_def
  proof (intro conjI ballI)
    show "log_consistent obj cid r" using log r(1) by (rule checked_log)
    show "attachments_consistent (records_in (fld obj ''messages'')) (records_in (fld obj ''attachments''))"
      using proj record_of [OF parts(1)] record_of [OF parts(2)] by (rule checked_attachments)
    show "result_citations_consistent t" if "t \<in> set (records_in (fld obj ''tool_calls''))" for t
      using record_of [OF parts(4) that] by (rule checked_result)
    show "proposal_consistent R (records_in (fld obj ''tool_calls'')) p" if "p \<in> set (records_in (fld obj ''approval_proposals''))" for p
      using record_of [OF parts(5) that] proposals(2) that record_of [OF parts(4)]
      by (intro checked_proposal) (simp_all add: list_all_iff)
  qed (rule checked_citations(1) [OF cites] proposals(1) checked_active [OF active])+
  moreover have "matches R (STATE_SCHEMA R) (JObj obj)"
  proof -
    have "set (keys_of obj) \<subseteq> js ` set STATE_KEYS" using keys_matches [OF wf keys] by (simp add: STATE_KEYS_def)
    moreover have "is_text (fld obj ''conversation_id'')" "isPositiveSafeInteger (fld obj ''revision'')"
      using checked_log [OF log r(1)] r by (auto simp: log_consistent_def is_text_def isPositiveSafeInteger_def number_of_def)
    moreover have "isIdentifier (fld obj ''last_event_id'')" "fld obj ''replay_error'' = Some JNull" "null_or is_text (fld obj ''title'')"
      "isJsonObject (fld obj ''metadata'')" "identifierArrayOf (fld obj ''processed_event_ids'') \<noteq> None"
      "identifierArrayOf (fld obj ''processed_mutation_ids'') \<noteq> None"
      using log unfolding log_fields_ok_def by (simp_all split: option.splits)
    moreover note records_match [OF parts(1) wf message_matches] records_match [OF parts(2) wf attachment_matches]
      records_match [OF parts(3) wf turn_matches] records_match [OF parts(4) wf tool_call_matches]
      records_match [OF parts(5) wf proposal_matches] records_match [OF parts(6) wf budget_matches]
      records_match [OF parts(7) wf usage_matches] checked_citations(2,3) [OF cites]
    moreover have "null_or isIdentifier (fld obj ''active_turn_id'')" using active by (simp add: active_turn_ok_def)
    ultimately show ?thesis
      unfolding STATE_SCHEMA_def STATE_KEYS_def record_schema filled_checks(8) [of _ R]
      by (elim conjE) (intro conjI schema_rules; (assumption | simp)?)
  qed
  ultimately show ?thesis using v by blast
qed

text \<open>
  C32: replay starts only from a checkpoint of the requested conversation, with the expected
  schema version, at a revision between one and the end of the log, and from a copy of its state.
  Whatever JSON value that state was, it has the shape of a projection: exactly the fields of
  the state, and messages, attachments, turns, tool calls, proposals, exhausted budgets and usage
  links whose fields have the types, words and times of their interfaces. Its parts fit
  together: its log position is that of its processed events, which are all different; its
  messages carry exactly the recorded attachments; its proposals are different, were asked for by
  a tool call, and fit their status; its citations form a record set and name known targets; and
  its active turn exists and is open.
\<close>

theorem accepted_checkpoint_consistent:
  assumes accepted: "parseCheckpoint parse_url R (Some c) cid latest = Some (r, v)" and json: "wf_json (cp_state c)"
  shows "cp_schemaVersion c = Some CONVERSATION_CHECKPOINT_SCHEMA_VERSION \<and> cp_conversationId c = cid \<and> 1 \<le> r \<and>
    (\<exists>n. latest = Some n \<and> r \<le> n) \<and> v = cloneJson (cp_state c) \<and>
    matches R (STATE_SCHEMA R) (cp_state c) \<and> (\<exists>obj. cp_state c = JObj obj \<and> state_consistent R obj cid r)"
proof -
  from accepted have "cp_schemaVersion c = Some CONVERSATION_CHECKPOINT_SCHEMA_VERSION" "cp_conversationId c = cid" "1 \<le> r"
      "\<exists>n. latest = Some n \<and> r \<le> n" "v = cloneJson (cp_state c)" "safe_int (cp_revision c) = Some r"
    and state: "isConversationState parse_url R (cp_state c) (Some cid) (Some r)"
    by (auto simp: parseCheckpoint_def split: option.splits if_splits)
  moreover from this(6) have "r \<le> MAX_SAFE_INTEGER" by (auto simp: safe_int_def MAX_SAFE_INTEGER_def split: js_number.splits if_splits)
  ultimately show ?thesis using checked_state [OF state _ _ json] by blast
qed

lemma identifierArrayOf_ids [simp]: "identifierArrayOf (Some (ids_json xs)) = (if [] \<in> set xs then None else Some xs)"
  by (auto simp: identifierArrayOf_def ids_json_def array_of_def list_all_iff isIdentifier_def comp_def)

definition one_message :: ConversationMessageRecord where
  "one_message = \<lparr>m_message_id = js ''m1'', m_turn_id = None, m_role = Some RoleUser, m_content = [TextPart (js ''hello'')],
     m_attachments = [], m_created_at = None, m_attribution = None\<rparr>"

lemma one_message_valid:
  obtains obj where "message_json one_message = JObj obj" "isMessage (\<lambda>_. []) obj"
    "fld obj ''message_id'' = Some (JText ''m1'')" "fld obj ''attachments'' = Some (JArr [])"
proof -
  obtain obj where obj: "message_json one_message = JObj obj" by (simp add: message_json_def)
  have "isMessage (\<lambda>_. []) obj"
    using obj
    by (auto simp: message_json_def one_message_def isMessage_def hasExactKeys_def has_own_def isIdentifier_def nullable_def or_null_def
      null_or_def text_among_def role_text_def array_of_def isTextPart_def record_with_def text_part_json_def is_text_def attachment_ids_def
      records_in_def map_filter_simps opt_field_def)
  moreover have "fld obj ''message_id'' = Some (JText ''m1'')" "fld obj ''attachments'' = Some (JArr [])"
    using obj by (auto simp: message_json_def one_message_def opt_field_def)
  ultimately show thesis using obj that by blast
qed

definition one_event_state :: ConversationState where
  "one_event_state = \<lparr>st_conversation_id = Some (js ''c''), st_revision = Some 1, st_last_event_id = Some (js ''e''),
      st_processed_event_ids = [js ''e''], st_processed_mutation_ids = [js ''m''], st_messages = [one_message],
      st_attachments = [], st_citation_sources = [], st_citations = [], st_turns = [],
      st_active_turn_id = None, st_tool_calls = [], st_approval_proposals = [],
      st_tool_loop_budget_exhaustions = [], st_usage_receipt_links = [], st_metadata = [],
      st_title = None, st_replay_error = None\<rparr>"

definition sample_checkpoint :: ConversationEventCheckpoint where
  "sample_checkpoint = \<lparr>cp_conversationId = js ''c'', cp_schemaVersion = Some CONVERSATION_CHECKPOINT_SCHEMA_VERSION,
     cp_revision = Finite 1, cp_state = state_json one_event_state\<rparr>"

lemma no_citation_records:
  "normalizeCitationRecords U (JObj [(js ''sources'', JArr []), (js ''citations'', JArr [])]) = Inr \<lparr>rs_sources = [], rs_citations = []\<rparr>"
proof -
  let ?empty = "\<lparr>rs_sources = [], rs_citations = []\<rparr> :: CitationRecordSet"
  have "length (record_text (citation_records_json ?empty)) \<le> 1000"
    unfolding record_text_def citation_records_json_def
    using length_quote [of "js ''sources''"] length_quote [of "js ''citations''"] by simp
  then have "utf8ByteLength (record_text (citation_records_json ?empty)) \<le> 131072"
    using utf8ByteLength_bounds [of "record_text (citation_records_json ?empty)"] by simp
  then have "deduplicateCitationRecords U (Some (JArr [])) (Some (JArr [])) = Inr ?empty"
    by (simp add: deduplicateCitationRecords_def bindE_Inr_iff citation_array_Inr CITATION_LIMITS_def Let_def utf8ByteLength_encode [symmetric])
  then show ?thesis by (simp add: normalizeCitationRecords_def check_iffs keys_of_def)
qed

lemma one_event_state_valid:
  "isConversationState (\<lambda>_. None) (\<lambda>_. []) (state_json one_event_state) (Some (js ''c'')) (Some 1)"
proof -
  obtain m where m: "message_json one_message = JObj m" "isMessage (\<lambda>_. []) m" "fld m ''message_id'' = Some (JText ''m1'')"
      "fld m ''attachments'' = Some (JArr [])"
    by (rule one_message_valid)
  obtain obj where obj: "state_json one_event_state = JObj obj" by (simp add: state_json_def)
  then have obj': "fld obj ''messages'' = Some (JArr [JObj m])" "fld obj ''attachments'' = Some (JArr [])" "fld obj ''turns'' = Some (JArr [])"
      "fld obj ''tool_calls'' = Some (JArr [])" "fld obj ''approval_proposals'' = Some (JArr [])"
      "fld obj ''tool_loop_budget_exhaustions'' = Some (JArr [])" "fld obj ''usage_receipt_links'' = Some (JArr [])"
      "fld obj ''citation_sources'' = Some (JArr [])" "fld obj ''citations'' = Some (JArr [])"
    by (auto simp: state_json_def one_event_state_def m)
  have "hasExactKeys obj STATE_KEYS"
    using obj by (auto simp: state_json_def hasExactKeys_def STATE_KEYS_def has_own_def)
  moreover have "log_fields_ok obj (Some (js ''c'')) (Some 1)"
    using obj by (auto simp: state_json_def one_event_state_def log_fields_ok_def isIdentifier_def nullable_def or_null_def null_or_def isJsonObject_def num_strict_eq_def)
  moreover have "active_turn_ok (\<lambda>_. []) obj"
    using obj by (auto simp: state_json_def one_event_state_def active_turn_ok_def null_or_def nullable_def)
  moreover have "hasValidCitationProjection (\<lambda>_. None) (Some (JArr [])) (Some (JArr [])) [m] []"
    by (simp add: hasValidCitationProjection_def no_citation_records jsonValuesEqual.simps [of "JArr []"] jsonListsEqual.simps)
  ultimately show ?thesis
    unfolding isConversationState_def obj record_with_def
    by (simp add: obj' m recordArray_def record_with_def array_of_def records_in_def map_filter_simps elements_in_def
      hasConsistentAttachmentProjection_def)
qed

lemma sample_checkpoint_accepted:
  "parseCheckpoint (\<lambda>_. None) (\<lambda>_. []) (Some sample_checkpoint) (js ''c'') (Some 3) = Some (1, cloneJson (state_json one_event_state))"
  using one_event_state_valid safe_int_JInt [of 1] by (simp add: parseCheckpoint_def sample_checkpoint_def MAX_SAFE_INTEGER_def)

theorem accepted_checkpoint_consistent_witness:
  "matches (\<lambda>_. []) (STATE_SCHEMA (\<lambda>_. [])) (state_json one_event_state) \<and>
   (\<exists>obj. state_json one_event_state = JObj obj \<and> state_consistent (\<lambda>_. []) obj (js ''c'') 1)"
proof -
  have "wf_json (cp_state sample_checkpoint)"
    by (simp add: sample_checkpoint_def one_event_state_def state_json_def ids_json_def nullable_def or_null_def js_def
      message_json_def one_message_def opt_field_def text_part_json_def)
  from accepted_checkpoint_consistent [OF sample_checkpoint_accepted this] show ?thesis by (simp only: sample_checkpoint_def ConversationEventCheckpoint.simps)
qed

end
