(* ===== verification/Effects.thy ===== *)
theory Effects
  imports Main
begin

text \<open>
  Code that acts on surroundings it does not own: a clock, a network, callbacks of the host. An
  action takes their state and returns a thrown error or a value with the new state. For the
  properties, surroundings are extended by a record of the calls they receive.
\<close>

section \<open>Actions\<close>

type_synonym ('w, 'e, 'a) action = "'w \<Rightarrow> ('e + 'a) \<times> 'w"

definition returning :: "'a \<Rightarrow> ('w, 'e, 'a) action" where
  "returning a = (\<lambda>w. (Inr a, w))"

definition throwing :: "'e \<Rightarrow> ('w, 'e, 'a) action" where
  "throwing e = (\<lambda>w. (Inl e, w))"

definition after :: "('w, 'e, 'a) action \<Rightarrow> ('a \<Rightarrow> ('w, 'e, 'b) action) \<Rightarrow> ('w, 'e, 'b) action" where
  "after m f = (\<lambda>w. case m w of (Inl e, v) \<Rightarrow> (Inl e, v) | (Inr a, v) \<Rightarrow> f a v)"

text \<open>\<^verbatim>\<open>try { ... } catch\<close>: the outcome of an action as a value.\<close>

definition caught :: "('w, 'd, 'a) action \<Rightarrow> ('w, 'e, 'd + 'a) action" where
  "caught m = (\<lambda>w. case m w of (r, v) \<Rightarrow> (Inr r, v))"

definition reading :: "('w \<Rightarrow> 'a \<times> 'w) \<Rightarrow> ('w, 'e, 'a) action" where
  "reading f = (\<lambda>w. case f w of (a, v) \<Rightarrow> (Inr a, v))"

section \<open>Observing the calls\<close>

definition passing :: "('w \<Rightarrow> 'a \<times> 'w) \<Rightarrow> 'w \<times> 'c list \<Rightarrow> 'a \<times> 'w \<times> 'c list" where
  "passing f = (\<lambda>(w, trace). case f w of (a, v) \<Rightarrow> (a, v, trace))"

text \<open>What is recorded may depend on the answer.\<close>

definition recording :: "('a \<Rightarrow> 'c) \<Rightarrow> ('w \<Rightarrow> 'a \<times> 'w) \<Rightarrow> 'w \<times> 'c list \<Rightarrow> 'a \<times> 'w \<times> 'c list" where
  "recording call f = (\<lambda>(w, trace). case f w of (a, v) \<Rightarrow> (a, v, trace @ [call a]))"

text \<open>Every run of \<open>m\<close> adds calls that its outcome and \<open>Q\<close> describe.\<close>

definition calls :: "('w \<times> 'c list, 'e, 'a) action \<Rightarrow> ('e + 'a \<Rightarrow> 'c list \<Rightarrow> bool) \<Rightarrow> bool" where
  "calls m Q \<longleftrightarrow> (\<forall>w t r v u. m (w, t) = (r, v, u) \<longrightarrow> (\<exists>s. u = t @ s \<and> Q r s))"

lemma callsD: "calls m Q \<Longrightarrow> m (w, t) = (r, v, u) \<Longrightarrow> \<exists>s. u = t @ s \<and> Q r s"
  by (simp add: calls_def)

lemma calls_mono: "calls m P \<Longrightarrow> (\<And>r s. P r s \<Longrightarrow> Q r s) \<Longrightarrow> calls m Q"
  unfolding calls_def by blast

lemma calls_after:
  assumes "calls m P" "\<And>e s. P (Inl e) s \<Longrightarrow> Q (Inl e) s" "\<And>a s. P (Inr a) s \<Longrightarrow> calls (f a) (\<lambda>r u. Q r (s @ u))"
  shows "calls (after m f) Q"
  unfolding calls_def
proof (intro allI impI)
  fix w t r v u assume run: "after m f (w, t) = (r, v, u)"
  obtain r1 v1 u1 where m: "m (w, t) = (r1, v1, u1)" by (metis prod_cases3)
  from callsD [OF assms(1) m] obtain s where s: "u1 = t @ s" "P r1 s" by blast
  show "\<exists>s. u = t @ s \<and> Q r s"
  proof (cases r1)
    case (Inl e)
    with run m s assms(2) show ?thesis by (auto simp: after_def)
  next
    case (Inr a)
    with run m have "f a (v1, u1) = (r, v, u)" by (simp add: after_def)
    from callsD [OF assms(3) this] s Inr show ?thesis by auto
  qed
qed

lemma calls_returning: "Q (Inr a) [] \<Longrightarrow> calls (returning a) Q"
  by (simp add: calls_def returning_def)

lemma calls_throwing: "Q (Inl e) [] \<Longrightarrow> calls (throwing e) Q"
  by (simp add: calls_def throwing_def)

lemma calls_caught: "calls m (\<lambda>r. Q (Inr r)) \<Longrightarrow> calls (caught m) Q"
  unfolding calls_def caught_def by (auto split: prod.splits)

lemma calls_reading_passing: "calls (reading (passing f)) (\<lambda>r s. s = [] \<and> (\<exists>a. r = Inr a))"
  by (auto simp: calls_def reading_def passing_def split: prod.splits)

lemma calls_passing: "calls (passing f) (\<lambda>_ s. s = [])"
  by (auto simp: calls_def passing_def split: prod.splits)

lemma calls_recording: "calls (recording c f) (\<lambda>r s. s = [c r])"
  by (auto simp: calls_def recording_def split: prod.splits)

lemma calls_if: "(b \<Longrightarrow> calls m Q) \<Longrightarrow> (\<not> b \<Longrightarrow> calls n Q) \<Longrightarrow> calls (if b then m else n) Q"
  by simp

lemma calls_after_quiet:
  "calls m (\<lambda>_ s. s = []) \<Longrightarrow> (\<And>e. Q (Inl e) []) \<Longrightarrow> (\<And>a. calls (f a) Q) \<Longrightarrow> calls (after m f) Q"
  by (rule calls_after [where P = "\<lambda>_ s. s = []"]) simp_all

section \<open>Calls that follow a protocol\<close>

text \<open>
  A protocol is a transition function on a ledger, which refuses a call by \<open>None\<close>. Running \<open>m\<close>
  from a ledger makes only calls that the protocol allows and ends as \<open>Q\<close> says.
\<close>

fun follow :: "('l \<Rightarrow> 'c \<Rightarrow> 'l option) \<Rightarrow> 'l \<Rightarrow> 'c list \<Rightarrow> 'l option" where
  "follow step L [] = Some L"
| "follow step L (c # cs) = (case step L c of None \<Rightarrow> None | Some L' \<Rightarrow> follow step L' cs)"

lemma follow_append: "follow step L (s @ t) = (case follow step L s of None \<Rightarrow> None | Some L' \<Rightarrow> follow step L' t)"
  by (induction s arbitrary: L) (auto split: option.split)

definition obeys :: "('l \<Rightarrow> 'c \<Rightarrow> 'l option) \<Rightarrow> 'l \<Rightarrow> ('w \<times> 'c list, 'e, 'a) action \<Rightarrow> ('e + 'a \<Rightarrow> 'l \<Rightarrow> bool) \<Rightarrow> bool" where
  "obeys step L m Q \<longleftrightarrow> calls m (\<lambda>r s. \<exists>L'. follow step L s = Some L' \<and> Q r L')"

lemma obeys_after:
  assumes "obeys step L m P" "\<And>e L'. P (Inl e) L' \<Longrightarrow> Q (Inl e) L'" "\<And>a L'. P (Inr a) L' \<Longrightarrow> obeys step L' (f a) Q"
  shows "obeys step L (after m f) Q"
  unfolding obeys_def
proof (rule calls_after [OF assms(1) [unfolded obeys_def]])
  fix a s assume "\<exists>L'. follow step L s = Some L' \<and> P (Inr a) L'"
  then obtain L' where "follow step L s = Some L'" "P (Inr a) L'" by blast
  with assms(3) [OF this(2)] show "calls (f a) (\<lambda>r u. \<exists>L'. follow step L (s @ u) = Some L' \<and> Q r L')"
    by (simp add: obeys_def follow_append)
qed (use assms(2) in blast)

lemma obeys_mono: "obeys step L m P \<Longrightarrow> (\<And>r L'. P r L' \<Longrightarrow> Q r L') \<Longrightarrow> obeys step L m Q"
  unfolding obeys_def by (erule calls_mono) blast

lemma obeys_quiet: "calls m (\<lambda>r s. s = [] \<and> P r) \<Longrightarrow> (\<And>r. P r \<Longrightarrow> Q r L) \<Longrightarrow> obeys step L m Q"
  unfolding obeys_def by (erule calls_mono) auto

lemma obeys_returning: "Q (Inr a) L \<Longrightarrow> obeys step L (returning a) Q"
  by (simp add: obeys_def calls_returning)

lemma obeys_throwing: "Q (Inl e) L \<Longrightarrow> obeys step L (throwing e) Q"
  by (simp add: obeys_def calls_throwing)

lemma obeys_caught: "obeys step L m (\<lambda>r. Q (Inr r)) \<Longrightarrow> obeys step L (caught m) Q"
  unfolding obeys_def by (rule calls_caught)

lemma obeys_reading: "(\<And>a. Q (Inr a) L) \<Longrightarrow> obeys step L (reading (passing f)) Q"
  by (rule obeys_quiet [OF calls_reading_passing]) auto

lemma obeys_if: "(b \<Longrightarrow> obeys step L m Q) \<Longrightarrow> (\<not> b \<Longrightarrow> obeys step L n Q) \<Longrightarrow> obeys step L (if b then m else n) Q"
  by simp

lemma obeysD: "obeys step L m Q \<Longrightarrow> m (w, t) = (r, v, u) \<Longrightarrow> \<exists>s L'. u = t @ s \<and> follow step L s = Some L' \<and> Q r L'"
  unfolding obeys_def by (drule (1) callsD) blast

end
