(* ===== verification/Numbers.thy ===== *)
theory Numbers
  imports Json
begin

text \<open>
  Arithmetic on JavaScript numbers as far as the sources compute with fractions. Comparisons
  with \<^verbatim>\<open>NaN\<close> are false. A result that is not exactly representable is rounded by a parameter
  \<open>round\<close>, and \<^verbatim>\<open>**\<close>, which the language leaves to the implementation, is a parameter too.
\<close>

record arithmetic =
  fl_round :: "rat \<Rightarrow> js_number"
  fl_pow :: "js_number \<Rightarrow> js_number \<Rightarrow> js_number"

text \<open>The position of a number on the extended line; \<^verbatim>\<open>NaN\<close> has none.\<close>

definition position :: "js_number \<Rightarrow> (int \<times> rat) option" where
  "position n = (case n of Finite r \<Rightarrow> Some (0, r) | NegZero \<Rightarrow> Some (0, 0) | NaN \<Rightarrow> None
     | Infinity positive \<Rightarrow> Some (if positive then 1 else - 1, 0))"

definition js_less :: "js_number \<Rightarrow> js_number \<Rightarrow> bool" where
  "js_less a b = (case (position a, position b) of
     (Some (i, x), Some (j, y)) \<Rightarrow> i < j \<or> i = j \<and> x < y | _ \<Rightarrow> False)"

definition js_le :: "js_number \<Rightarrow> js_number \<Rightarrow> bool" where
  "js_le a b = (case (position a, position b) of
     (Some (i, x), Some (j, y)) \<Rightarrow> i < j \<or> i = j \<and> x \<le> y | _ \<Rightarrow> False)"

definition js_min :: "js_number \<Rightarrow> js_number \<Rightarrow> js_number" where
  "js_min a b = (if a = NaN \<or> b = NaN then NaN
     else if js_less a b \<or> a = NegZero \<and> \<not> js_less b a then a else b)"

definition js_max :: "js_number \<Rightarrow> js_number \<Rightarrow> js_number" where
  "js_max a b = (if a = NaN \<or> b = NaN then NaN
     else if js_less b a \<or> b = NegZero \<and> \<not> js_less a b then a else b)"

definition js_negative :: "js_number \<Rightarrow> bool" where
  "js_negative n \<longleftrightarrow> (case n of Finite r \<Rightarrow> r < 0 | NegZero \<Rightarrow> True | NaN \<Rightarrow> False | Infinity positive \<Rightarrow> \<not> positive)"

definition rational :: "js_number \<Rightarrow> rat" where
  "rational n = (case n of Finite r \<Rightarrow> r | _ \<Rightarrow> 0)"

definition is_zero :: "js_number \<Rightarrow> bool" where
  "is_zero n \<longleftrightarrow> n = Finite 0 \<or> n = NegZero"

definition js_mult :: "arithmetic \<Rightarrow> js_number \<Rightarrow> js_number \<Rightarrow> js_number" where
  "js_mult A a b =
     (let negative = (js_negative a \<noteq> js_negative b) in
      if a = NaN \<or> b = NaN then NaN
      else if isFinite a \<and> isFinite b
      then if is_zero a \<or> is_zero b then (if negative then NegZero else Finite 0)
        else fl_round A (rational a * rational b)
      else if is_zero a \<or> is_zero b then NaN else Infinity (\<not> negative))"

definition js_plus :: "arithmetic \<Rightarrow> js_number \<Rightarrow> js_number \<Rightarrow> js_number" where
  "js_plus A a b =
     (if a = NaN \<or> b = NaN then NaN
      else if isFinite a \<and> isFinite b
      then if a = NegZero \<and> b = NegZero then NegZero
        else if rational a + rational b = 0 then Finite 0 else fl_round A (rational a + rational b)
      else if isFinite b \<or> a = b then a else if isFinite a then b else NaN)"

definition js_uminus :: "js_number \<Rightarrow> js_number" where
  "js_uminus n = (case n of Finite r \<Rightarrow> if r = 0 then NegZero else Finite (- r) | NegZero \<Rightarrow> Finite 0
     | NaN \<Rightarrow> NaN | Infinity positive \<Rightarrow> Infinity (\<not> positive))"

definition js_minus :: "arithmetic \<Rightarrow> js_number \<Rightarrow> js_number \<Rightarrow> js_number" where
  "js_minus A a b = js_plus A a (js_uminus b)"

definition js_ceil :: "js_number \<Rightarrow> js_number" where
  "js_ceil n = (case n of Finite r \<Rightarrow> if - 1 < r \<and> r < 0 then NegZero else Finite (of_int \<lceil>r\<rceil>) | _ \<Rightarrow> n)"

section \<open>Order\<close>

lemma position_None [simp]: "position n = None \<longleftrightarrow> n = NaN" "position NaN = None"
  by (cases n; simp add: position_def)+

lemma js_le_refl: "n \<noteq> NaN \<Longrightarrow> js_le n n"
  by (cases "position n") (auto simp: js_le_def)

lemma js_le_trans: "js_le a b \<Longrightarrow> js_le b c \<Longrightarrow> js_le a c"
  by (auto simp: js_le_def split: option.splits)

lemma js_le_linear: "a \<noteq> NaN \<Longrightarrow> b \<noteq> NaN \<Longrightarrow> \<not> js_less b a \<longleftrightarrow> js_le a b"
  by (cases "position a"; cases "position b") (auto simp: js_le_def js_less_def)

lemma js_less_le: "js_less a b \<Longrightarrow> js_le a b"
  by (auto simp: js_less_def js_le_def split: option.splits)

lemma js_min_le: "js_min a b \<noteq> NaN \<Longrightarrow> js_le (js_min a b) a \<and> js_le (js_min a b) b"
  by (auto simp: js_min_def js_le_refl js_less_le js_le_linear split: if_splits)

lemma js_max_ge: "js_max a b \<noteq> NaN \<Longrightarrow> js_le a (js_max a b) \<and> js_le b (js_max a b)"
  by (auto simp: js_max_def js_le_refl js_less_le js_le_linear split: if_splits)

lemma js_max_cases: "js_max a b = NaN \<and> (a = NaN \<or> b = NaN) \<or> js_max a b = a \<or> js_max a b = b"
  by (simp add: js_max_def)

lemma js_min_cases: "js_min a b = NaN \<and> (a = NaN \<or> b = NaN) \<or> js_min a b = a \<or> js_min a b = b"
  by (simp add: js_min_def)

lemma js_max_NaN [simp]: "js_max NaN b = NaN" "js_max a NaN = NaN" "js_min NaN b = NaN" "js_min a NaN = NaN"
  by (simp_all add: js_max_def js_min_def)

lemma js_ceil_mono: "js_le a b \<Longrightarrow> js_le (js_ceil a) (js_ceil b)"
proof -
  assume le: "js_le a b"
  have neg: "- 1 < r \<Longrightarrow> r < 0 \<Longrightarrow> \<lceil>r\<rceil> = 0" for r :: rat by linarith
  show ?thesis
    using le by (cases a; cases b) (auto simp: js_le_def js_ceil_def position_def ceiling_mono neg split: if_splits)
qed

end
