(* ===== verification/Retry.thy ===== *)
theory Retry
  imports Effects Numbers
begin

text \<open>
  \<^verbatim>\<open>src/retry.ts\<close>: bounded retries with exponential backoff. The clock, the source of random
  numbers, the abort signal, sleeping, the operation and the hooks act on a state \<open>'w\<close> of the
  surroundings that the model passes through; every one of them but the clock and the random
  source may throw. The loop is a partial function, and that it ends is proved from the policy.
\<close>

section \<open>Policies\<close>

datatype (plugins only: code size) RetryReasonCategory =
  RateLimit | Timeout | Unavailable | Internal | Disconnected | Interrupted

datatype (plugins only: code size) RetryExhaustionReason = NonRetryable | MaximumAttempts | MaximumElapsedTime

record RetryFailure =
  rf_retryable :: bool
  rf_reasonCategory :: RetryReasonCategory
  rf_retryAfterMs :: "js_number option"

record RetryPolicy =
  rp_maximumAttempts :: js_number
  rp_maximumElapsedMs :: js_number
  rp_initialDelayMs :: js_number
  rp_backoffMultiplier :: js_number
  rp_maximumDelayMs :: js_number
  rp_jitterRatio :: js_number
  rp_maximumRetryAfterMs :: js_number

record RetryPolicyOptions =
  ro_maximumAttempts :: "js_number option"
  ro_maximumElapsedMs :: "js_number option"
  ro_initialDelayMs :: "js_number option"
  ro_backoffMultiplier :: "js_number option"
  ro_maximumDelayMs :: "js_number option"
  ro_jitterRatio :: "js_number option"
  ro_maximumRetryAfterMs :: "js_number option"

text \<open>The jitter ratio is the double closest to 0.2.\<close>

definition DEFAULT_POLICY :: RetryPolicy where
  "DEFAULT_POLICY = \<lparr>rp_maximumAttempts = Finite 3, rp_maximumElapsedMs = Finite 30000, rp_initialDelayMs = Finite 250,
     rp_backoffMultiplier = Finite 2, rp_maximumDelayMs = Finite 5000, rp_jitterRatio = Finite (3602879701896397 / 2 ^ 54),
     rp_maximumRetryAfterMs = Finite 30000\<rparr>"

type_synonym 'a type_checked = "string + 'a"

definition positiveAttempts :: "js_number \<Rightarrow> string \<Rightarrow> unit type_checked" where
  "positiveAttempts value name =
     (if (case safe_int value of None \<Rightarrow> True | Some n \<Rightarrow> n < 1)
      then Inl (name @ '' must be a positive safe integer'') else Inr ())"

definition nonnegativeFinite :: "js_number \<Rightarrow> string \<Rightarrow> unit type_checked" where
  "nonnegativeFinite value name =
     (if \<not> isFinite value \<or> js_less value (Finite 0) then Inl (name @ '' must be a non-negative finite number'') else Inr ())"

definition validatePolicy :: "RetryPolicy \<Rightarrow> unit type_checked" where
  "validatePolicy policy =
     bindE (positiveAttempts (rp_maximumAttempts policy) ''maximumAttempts'') (\<lambda>_.
     bindE (nonnegativeFinite (rp_maximumElapsedMs policy) ''maximumElapsedMs'') (\<lambda>_.
     bindE (nonnegativeFinite (rp_initialDelayMs policy) ''initialDelayMs'') (\<lambda>_.
     if \<not> isFinite (rp_backoffMultiplier policy) \<or> js_less (rp_backoffMultiplier policy) (Finite 1)
     then Inl ''backoffMultiplier must be a finite number of at least 1''
     else bindE (nonnegativeFinite (rp_maximumDelayMs policy) ''maximumDelayMs'') (\<lambda>_.
     if \<not> isFinite (rp_jitterRatio policy) \<or> js_less (rp_jitterRatio policy) (Finite 0) \<or>
        js_less (Finite 1) (rp_jitterRatio policy)
     then Inl ''jitterRatio must be a finite number from 0 to 1''
     else nonnegativeFinite (rp_maximumRetryAfterMs policy) ''maximumRetryAfterMs''))))"

definition createRetryPolicy :: "RetryPolicyOptions \<Rightarrow> RetryPolicy type_checked" where
  "createRetryPolicy options =
     (let policy = \<lparr>rp_maximumAttempts = coalesce (ro_maximumAttempts options) (rp_maximumAttempts DEFAULT_POLICY),
        rp_maximumElapsedMs = coalesce (ro_maximumElapsedMs options) (rp_maximumElapsedMs DEFAULT_POLICY),
        rp_initialDelayMs = coalesce (ro_initialDelayMs options) (rp_initialDelayMs DEFAULT_POLICY),
        rp_backoffMultiplier = coalesce (ro_backoffMultiplier options) (rp_backoffMultiplier DEFAULT_POLICY),
        rp_maximumDelayMs = coalesce (ro_maximumDelayMs options) (rp_maximumDelayMs DEFAULT_POLICY),
        rp_jitterRatio = coalesce (ro_jitterRatio options) (rp_jitterRatio DEFAULT_POLICY),
        rp_maximumRetryAfterMs = coalesce (ro_maximumRetryAfterMs options) (rp_maximumRetryAfterMs DEFAULT_POLICY)\<rparr>
      in bindE (validatePolicy policy) (\<lambda>_. Inr policy))"

section \<open>The delay before the next attempt\<close>

definition retryDelay :: "arithmetic \<Rightarrow> RetryPolicy \<Rightarrow> js_number \<Rightarrow> js_number \<Rightarrow> js_number option \<Rightarrow> js_number type_checked" where
  "retryDelay A policy failedAttempt random retryAfterMs =
     (if (case safe_int failedAttempt of None \<Rightarrow> True | Some n \<Rightarrow> n < 1)
      then Inl ''failedAttempt must be a positive safe integer''
      else let exponential = js_min (rp_maximumDelayMs policy) (js_mult A (rp_initialDelayMs policy)
                 (fl_pow A (rp_backoffMultiplier policy) (js_minus A failedAttempt (Finite 1))))
        in if \<not> isFinite random \<or> js_less random (Finite 0) \<or> js_le (Finite 1) random
           then Inl ''RetryPolicy.random must return a number in [0, 1)''
           else let jittered = js_max (Finite 0) (js_min (rp_maximumDelayMs policy) (js_mult A exponential
                      (js_plus A (Finite 1) (js_mult A (js_minus A (js_mult A random (Finite 2)) (Finite 1)) (rp_jitterRatio policy)))));
                    normalizedHint = (case retryAfterMs of
                      None \<Rightarrow> Finite 0
                    | Some hint \<Rightarrow> js_min (rp_maximumRetryAfterMs policy)
                        (js_max (Finite 0) (if isFinite hint then hint else Finite 0)))
                in Inr (js_ceil (js_max jittered normalizedHint)))"

section \<open>Running an operation\<close>

record RetryAttemptContext =
  at_attempt :: int
  at_elapsedMs :: js_number

record RetryScheduledContext = RetryAttemptContext +
  sc_nextAttempt :: int
  sc_reasonCategory :: RetryReasonCategory
  sc_delayMs :: js_number

record RetryExhaustedContext = RetryAttemptContext +
  ex_reasonCategory :: RetryReasonCategory
  ex_exhaustionReason :: RetryExhaustionReason

datatype (plugins only: code size) ('v, 'f) RetryOperationResult =
  OperationSucceeded 'v | OperationFailed "'f RetryFailure_scheme"

datatype (plugins only: code size) ('v, 'f) RetryExecutionResult =
    RetrySucceeded 'v int js_number
  | RetryFailed "'f RetryFailure_scheme" int js_number RetryExhaustionReason

datatype (plugins only: code size) 'x retry_error = InvalidUse string | Threw 'x

record ('w, 'x, 'v, 'f) retry_surroundings =
  su_now :: "'w \<Rightarrow> js_number \<times> 'w"
  su_random :: "'w \<Rightarrow> js_number \<times> 'w"
  su_aborted :: "'w \<Rightarrow> 'x option"
  su_sleep :: "js_number \<Rightarrow> 'w \<Rightarrow> ('x + unit) \<times> 'w"
  su_operation :: "RetryAttemptContext \<Rightarrow> 'w \<Rightarrow> ('x + ('v, 'f) RetryOperationResult) \<times> 'w"
  su_onAttemptStarted :: "RetryAttemptContext \<Rightarrow> 'w \<Rightarrow> ('x + unit) \<times> 'w"
  su_onRetryScheduled :: "RetryScheduledContext \<Rightarrow> 'w \<Rightarrow> ('x + unit) \<times> 'w"
  su_onRetryExhausted :: "RetryExhaustedContext \<Rightarrow> 'w \<Rightarrow> ('x + unit) \<times> 'w"

definition calling :: "('w \<Rightarrow> ('x + 'a) \<times> 'w) \<Rightarrow> ('w, 'x retry_error, 'a) action" where
  "calling f = (\<lambda>w. case f w of (Inl x, v) \<Rightarrow> (Inl (Threw x), v) | (Inr a, v) \<Rightarrow> (Inr a, v))"

definition type_check :: "'a type_checked \<Rightarrow> ('w, 'x retry_error, 'a) action" where
  "type_check r = (\<lambda>w. (case r of Inl m \<Rightarrow> Inl (InvalidUse m) | Inr a \<Rightarrow> Inr a, w))"

definition throwIfAborted :: "('w, 'x, 'v, 'f) retry_surroundings \<Rightarrow> ('w, 'x retry_error, unit) action" where
  "throwIfAborted E = (\<lambda>w. case su_aborted E w of None \<Rightarrow> (Inr (), w) | Some reason \<Rightarrow> (Inl (Threw reason), w))"

definition elapsed :: "arithmetic \<Rightarrow> ('w, 'x, 'v, 'f) retry_surroundings \<Rightarrow> js_number \<Rightarrow> ('w, 'x retry_error, js_number) action" where
  "elapsed A E startedAt = after (reading (su_now E)) (\<lambda>now.
     let value = js_minus A now startedAt in
     type_check (if isFinite value then Inr (js_max (Finite 0) value) else Inl ''RetryPolicy.now must return a finite number''))"

definition exhausted :: "('w, 'x, 'v, 'f) retry_surroundings \<Rightarrow> int \<Rightarrow> js_number \<Rightarrow> 'f RetryFailure_scheme \<Rightarrow> RetryExhaustionReason \<Rightarrow>
    ('w, 'x retry_error, ('v, 'f) RetryExecutionResult option) action" where
  "exhausted E attempt elapsedMs failure reason =
     after (calling (su_onRetryExhausted E \<lparr>at_attempt = attempt, at_elapsedMs = elapsedMs,
       ex_reasonCategory = rf_reasonCategory failure, ex_exhaustionReason = reason\<rparr>)) (\<lambda>_.
     returning (Some (RetryFailed failure attempt elapsedMs reason)))"

text \<open>The part of an iteration after a retryable failure with attempts left.\<close>

definition schedule_retry :: "arithmetic \<Rightarrow> ('w, 'x, 'v, 'f) retry_surroundings \<Rightarrow> RetryPolicy \<Rightarrow> int \<Rightarrow> js_number \<Rightarrow>
    'f RetryFailure_scheme \<Rightarrow> ('w, 'x retry_error, ('v, 'f) RetryExecutionResult option) action" where
  "schedule_retry A E policy attempt elapsedMs failure =
     after (reading (su_random E)) (\<lambda>random.
     after (type_check (retryDelay A policy (Finite (of_int attempt)) random (rf_retryAfterMs failure))) (\<lambda>delayMs.
     if js_le (rp_maximumElapsedMs policy) elapsedMs \<or> js_less (js_minus A (rp_maximumElapsedMs policy) elapsedMs) delayMs
     then exhausted E attempt elapsedMs failure MaximumElapsedTime
     else after (calling (su_onRetryScheduled E \<lparr>at_attempt = attempt, at_elapsedMs = elapsedMs, sc_nextAttempt = attempt + 1,
            sc_reasonCategory = rf_reasonCategory failure, sc_delayMs = delayMs\<rparr>)) (\<lambda>_.
          after (throwIfAborted E) (\<lambda>_.
          after (calling (su_sleep E delayMs)) (\<lambda>_.
          after (throwIfAborted E) (\<lambda>_.
          returning None))))))"

text \<open>One iteration of the loop: a result, or \<open>None\<close> to go on with the next attempt.\<close>

definition retry_attempt :: "arithmetic \<Rightarrow> ('w, 'x, 'v, 'f) retry_surroundings \<Rightarrow> RetryPolicy \<Rightarrow> js_number \<Rightarrow> int \<Rightarrow>
    ('w, 'x retry_error, ('v, 'f) RetryExecutionResult option) action" where
  "retry_attempt A E policy startedAt attempt =
     after (throwIfAborted E) (\<lambda>_.
     after (elapsed A E startedAt) (\<lambda>started.
     let attemptContext = \<lparr>at_attempt = attempt, at_elapsedMs = started\<rparr> in
     after (calling (su_onAttemptStarted E attemptContext)) (\<lambda>_.
     after (throwIfAborted E) (\<lambda>_.
     after (calling (su_operation E attemptContext)) (\<lambda>outcome.
     after (elapsed A E startedAt) (\<lambda>elapsedMs.
     case outcome of
       OperationSucceeded value \<Rightarrow> returning (Some (RetrySucceeded value attempt elapsedMs))
     | OperationFailed failure \<Rightarrow>
         if \<not> rf_retryable failure then returning (Some (RetryFailed failure attempt elapsedMs NonRetryable))
         else if js_le (rp_maximumAttempts policy) (Finite (of_int attempt))
         then exhausted E attempt elapsedMs failure MaximumAttempts
         else schedule_retry A E policy attempt elapsedMs failure))))))"

partial_function (option) retry_loop :: "arithmetic \<Rightarrow> ('w, 'x, 'v, 'f) retry_surroundings \<Rightarrow> RetryPolicy \<Rightarrow> js_number \<Rightarrow> int \<Rightarrow>
    'w \<Rightarrow> (('x retry_error + ('v, 'f) RetryExecutionResult) \<times> 'w) option" where
  "retry_loop A E policy startedAt attempt w =
     (case retry_attempt A E policy startedAt attempt w of
        (Inl e, v) \<Rightarrow> Some (Inl e, v)
      | (Inr (Some result), v) \<Rightarrow> Some (Inr result, v)
      | (Inr None, v) \<Rightarrow> retry_loop A E policy startedAt (attempt + 1) v)"

declare retry_loop.simps [code]

definition executeWithRetry :: "arithmetic \<Rightarrow> ('w, 'x, 'v, 'f) retry_surroundings \<Rightarrow> RetryPolicy \<Rightarrow> 'w \<Rightarrow>
    (('x retry_error + ('v, 'f) RetryExecutionResult) \<times> 'w) option" where
  "executeWithRetry A E policy w = (case validatePolicy policy of
     Inl m \<Rightarrow> Some (Inl (InvalidUse m), w)
   | Inr _ \<Rightarrow> (case su_now E w of (startedAt, v) \<Rightarrow> retry_loop A E policy startedAt 1 v))"

end
