(* ===== verification/RetryProperties.thy ===== *)
theory RetryProperties
  imports Retry "HOL-Library.Sublist"
begin

text \<open>
  What bounded retries promise: the operation runs at most as often as the policy allows, the
  hooks are called in one fixed order, and the reason a failure is returned with is the true
  one. Delays stay within the limits of the policy.
\<close>

section \<open>Observing the calls\<close>

text \<open>
  Surroundings that also record the calls they receive: what the clock and the random source
  answer, how the operation ends, and what the hooks and the wait are given.
\<close>

datatype ('x, 'v, 'f) retry_call =
    Clock js_number
  | Started RetryAttemptContext
  | Operated RetryAttemptContext "'x + ('v, 'f) RetryOperationResult"
  | Drawn js_number
  | Scheduled RetryScheduledContext
  | Slept js_number
  | Exhausted RetryExhaustedContext

definition observed :: "('w, 'x, 'v, 'f) retry_surroundings \<Rightarrow>
    ('w \<times> ('x, 'v, 'f) retry_call list, 'x, 'v, 'f) retry_surroundings" where
  "observed E = \<lparr>su_now = recording Clock (su_now E), su_random = recording Drawn (su_random E),
     su_aborted = (\<lambda>(w, _). su_aborted E w),
     su_sleep = (\<lambda>d. recording (\<lambda>_. Slept d) (su_sleep E d)),
     su_operation = (\<lambda>c. recording (Operated c) (su_operation E c)),
     su_onAttemptStarted = (\<lambda>c. recording (\<lambda>_. Started c) (su_onAttemptStarted E c)),
     su_onRetryScheduled = (\<lambda>c. recording (\<lambda>_. Scheduled c) (su_onRetryScheduled E c)),
     su_onRetryExhausted = (\<lambda>c. recording (\<lambda>_. Exhausted c) (su_onRetryExhausted E c))\<rparr>"

text \<open>The time an attempt reports, from the start of the run and a reading of the clock.\<close>

definition since :: "arithmetic \<Rightarrow> js_number \<Rightarrow> js_number \<Rightarrow> js_number" where
  "since A startedAt now = js_max (Finite 0) (js_minus A now startedAt)"

lemma calls_quiet: "calls (throwIfAborted (observed E)) (\<lambda>_ s. s = [])" "calls (type_check c) (\<lambda>_ s. s = [])"
  by (auto simp: calls_def throwIfAborted_def type_check_def observed_def split: option.splits sum.splits prod.splits)

lemma calls_calling:
  "calls (calling (recording c f)) (\<lambda>r s. case r of Inl e \<Rightarrow> \<exists>x. s = [c (Inl x)] | Inr a \<Rightarrow> s = [c (Inr a)])"
  by (auto simp: calls_def calling_def recording_def split: sum.splits prod.splits)

lemma calls_after_calling:
  assumes "\<And>e x. Q (Inl e) [c (Inl x)]" "\<And>a. calls (f a) (\<lambda>r u. Q r (c (Inr a) # u))"
  shows "calls (after (calling (recording c g)) f) Q"
  by (rule calls_after [OF calls_calling]) (use assms in auto)

lemma calls_after_reading:
  assumes "\<And>a. calls (f a) (\<lambda>r u. Q r (c a # u))"
  shows "calls (after (reading (recording c g)) f) Q"
proof (rule calls_after [where P = "\<lambda>r s. \<exists>a. r = Inr a \<and> s = [c a]"])
  show "calls (reading (recording c g)) (\<lambda>r s. \<exists>a. r = Inr a \<and> s = [c a])"
    by (auto simp: calls_def reading_def recording_def split: prod.splits)
qed (use assms in auto)

lemma calls_elapsed:
  "calls (elapsed A (observed E) startedAt) (\<lambda>r s. \<exists>now. s = [Clock now] \<and> (\<forall>ms. r = Inr ms \<longrightarrow> ms = since A startedAt now))"
  by (auto simp: calls_def elapsed_def observed_def after_def reading_def recording_def type_check_def since_def Let_def
      split: prod.splits sum.splits if_splits)

lemma calls_after_elapsed:
  assumes "\<And>e now. Q (Inl e) [Clock now]" "\<And>now. calls (f (since A startedAt now)) (\<lambda>r u. Q r (Clock now # u))"
  shows "calls (after (elapsed A (observed E) startedAt) f) Q"
  by (rule calls_after [OF calls_elapsed]) (use assms in auto)

lemma observed_hooks:
  "su_sleep (observed E) d = recording (\<lambda>_. Slept d) (su_sleep E d)"
  "su_operation (observed E) c = recording (Operated c) (su_operation E c)"
  "su_onAttemptStarted (observed E) c = recording (\<lambda>_. Started c) (su_onAttemptStarted E c)"
  "su_onRetryScheduled (observed E) sc = recording (\<lambda>_. Scheduled sc) (su_onRetryScheduled E sc)"
  "su_onRetryExhausted (observed E) ec = recording (\<lambda>_. Exhausted ec) (su_onRetryExhausted E ec)"
  "su_random (observed E) = recording Drawn (su_random E)"
  by (simp_all add: observed_def)

text \<open>A check that passes has passed.\<close>

lemma calls_checked:
  "(\<And>e. Q (Inl e) []) \<Longrightarrow> (\<And>a. c = Inr a \<Longrightarrow> calls (f a) Q) \<Longrightarrow> calls (after (type_check c) f) Q"
  by (rule calls_after [where P = "\<lambda>r s. s = [] \<and> (\<forall>a. r = Inr a \<longrightarrow> c = Inr a)"])
    (auto simp: calls_def type_check_def split: sum.splits)

lemmas call_rules = calls_after_quiet [OF calls_quiet(1)] calls_after_elapsed calls_after_reading calls_after_calling calls_returning

section \<open>Delays\<close>

text \<open>
  A delay lies between zero and the larger of the two limits of the policy, rounded up. It is
  \<^verbatim>\<open>NaN\<close> when the exponential delay is (\<^verbatim>\<open>0 * Infinity\<close>, after the multiplier has overflowed).
\<close>

definition wait_ok :: "RetryPolicy \<Rightarrow> js_number \<Rightarrow> bool" where
  "wait_ok policy d \<longleftrightarrow> d = NaN \<or> js_le (Finite 0) d \<and>
     js_le d (js_ceil (js_max (rp_maximumDelayMs policy) (rp_maximumRetryAfterMs policy)))"

lemma nonnegativeFinite_ok: "nonnegativeFinite x name = Inr () \<longleftrightarrow> isFinite x \<and> js_le (Finite 0) x"
  by (cases x) (auto simp: nonnegativeFinite_def isFinite_def js_less_def js_le_def position_def)

lemma valid_limits:
  assumes "validatePolicy policy = Inr ()"
  shows "isFinite (rp_maximumDelayMs policy)" "js_le (Finite 0) (rp_maximumDelayMs policy)"
    "isFinite (rp_maximumRetryAfterMs policy)" "js_le (Finite 0) (rp_maximumRetryAfterMs policy)"
    "\<exists>n \<ge> 1. safe_int (rp_maximumAttempts policy) = Some n"
  using assms by (auto simp: validatePolicy_def bindE_Inr_iff nonnegativeFinite_ok positiveAttempts_def not_less
      split: if_splits option.splits)

lemma js_ceil_zero: "js_le (Finite 0) d \<Longrightarrow> js_le (Finite 0) (js_ceil d)"
  using js_ceil_mono [of "Finite 0" d] by (simp add: js_ceil_def)

lemma retryDelay_bounds:
  assumes valid: "validatePolicy policy = Inr ()" and delay: "retryDelay A policy k random hint = Inr d"
  shows "wait_ok policy d"
proof -
  note lim = valid_limits [OF valid]
  obtain x h where d: "d = js_ceil (js_max (js_max (Finite 0) (js_min (rp_maximumDelayMs policy) x)) h)"
    and h: "h = Finite 0 \<or> (\<exists>y. h = js_min (rp_maximumRetryAfterMs policy) (js_max (Finite 0) y) \<and> isFinite y)"
  proof -
    from delay obtain x where "d = js_ceil (js_max (js_max (Finite 0) (js_min (rp_maximumDelayMs policy) x)) (case hint of
        None \<Rightarrow> Finite 0 | Some hint \<Rightarrow> js_min (rp_maximumRetryAfterMs policy) (js_max (Finite 0) (if isFinite hint then hint else Finite 0))))"
      by (auto simp: retryDelay_def Let_def split: if_splits)
    then show ?thesis by (rule that) (auto simp: isFinite_def split: option.split)
  qed
  let ?bound = "js_max (rp_maximumDelayMs policy) (rp_maximumRetryAfterMs policy)" and ?j = "js_max (Finite 0) (js_min (rp_maximumDelayMs policy) x)"
  have finite: "rp_maximumDelayMs policy \<noteq> NaN" "rp_maximumRetryAfterMs policy \<noteq> NaN"
    using lim by (auto simp: isFinite_def)
  then have bound: "?bound \<noteq> NaN" by (simp add: js_max_def)
  note ge = js_max_ge [OF bound]
  show ?thesis
  proof (cases "js_max ?j h = NaN")
    case True
    then show ?thesis by (simp add: d wait_ok_def js_ceil_def)
  next
    case False
    then have "?j \<noteq> NaN" "h \<noteq> NaN" by auto
    have "js_le ?j ?bound"
    proof -
      from \<open>?j \<noteq> NaN\<close> have "js_min (rp_maximumDelayMs policy) x \<noteq> NaN" by auto
      from js_min_le [OF this] ge lim(2) js_max_cases [of "Finite 0" "js_min (rp_maximumDelayMs policy) x"] \<open>?j \<noteq> NaN\<close>
      show ?thesis by (metis js_le_trans)
    qed
    moreover have "js_le h ?bound"
      using h \<open>h \<noteq> NaN\<close> ge lim(4) js_min_le js_le_trans by blast
    moreover have "js_le (Finite 0) (js_max ?j h)"
      using js_max_ge [OF False] js_max_ge [OF \<open>?j \<noteq> NaN\<close>] js_le_trans by blast
    ultimately show ?thesis
      using js_max_cases [of ?j h] False by (auto simp: d wait_ok_def js_ceil_zero js_ceil_mono)
  qed
qed

section \<open>One iteration\<close>

text \<open>The calls of an attempt up to the outcome of the operation and the clock after it.\<close>

definition begun :: "arithmetic \<Rightarrow> js_number \<Rightarrow> int \<Rightarrow> js_number \<Rightarrow> 'x + ('v, 'f) RetryOperationResult \<Rightarrow> js_number \<Rightarrow>
    ('x, 'v, 'f) retry_call list" where
  "begun A T i t1 outcome t2 = (let c = \<lparr>at_attempt = i, at_elapsedMs = since A T t1\<rparr> in
     [Clock t1, Started c, Operated c outcome, Clock t2])"

text \<open>No time is left for another attempt after a wait of \<open>d\<close>.\<close>

definition time_is_up :: "arithmetic \<Rightarrow> RetryPolicy \<Rightarrow> js_number \<Rightarrow> js_number \<Rightarrow> bool" where
  "time_is_up A policy ms d \<longleftrightarrow>
     js_le (rp_maximumElapsedMs policy) ms \<or> js_less (js_minus A (rp_maximumElapsedMs policy) ms) d"

definition exhaustion :: "int \<Rightarrow> js_number \<Rightarrow> 'f RetryFailure_scheme \<Rightarrow> RetryExhaustionReason \<Rightarrow> ('x, 'v, 'f) retry_call" where
  "exhaustion i ms failure reason = Exhausted \<lparr>at_attempt = i, at_elapsedMs = ms,
     ex_reasonCategory = rf_reasonCategory failure, ex_exhaustionReason = reason\<rparr>"

text \<open>
  An attempt that is followed by another one: a retryable failure with attempts left, and the delay
  for the number drawn leaves time.
\<close>

definition full_round :: "arithmetic \<Rightarrow> RetryPolicy \<Rightarrow> int \<Rightarrow> js_number \<Rightarrow> int \<Rightarrow> ('x, 'v, 'f) retry_call list \<Rightarrow> bool" where
  "full_round A policy n T i s \<longleftrightarrow> (\<exists>t1 t2 failure u d.
     rf_retryable failure \<and> i < n \<and> retryDelay A policy (Finite (of_int i)) u (rf_retryAfterMs failure) = Inr d \<and>
     wait_ok policy d \<and> \<not> time_is_up A policy (since A T t2) d \<and>
     s = begun A T i t1 (Inr (OperationFailed failure)) t2 @
       [Drawn u, Scheduled \<lparr>at_attempt = i, at_elapsedMs = since A T t2, sc_nextAttempt = i + 1,
          sc_reasonCategory = rf_reasonCategory failure, sc_delayMs = d\<rparr>, Slept d])"

text \<open>The calls of the attempt that a result comes from, when the policy allows \<open>n\<close> attempts.\<close>

fun last_round :: "arithmetic \<Rightarrow> RetryPolicy \<Rightarrow> int \<Rightarrow> js_number \<Rightarrow> int \<Rightarrow> ('v, 'f) RetryExecutionResult \<Rightarrow>
    ('x, 'v, 'f) retry_call list \<Rightarrow> bool" where
  "last_round A policy n T i (RetrySucceeded v a ms) s \<longleftrightarrow> a = i \<and>
     (\<exists>t1 t2. ms = since A T t2 \<and> s = begun A T i t1 (Inr (OperationSucceeded v)) t2)"
| "last_round A policy n T i (RetryFailed failure a ms reason) s \<longleftrightarrow> a = i \<and>
     (\<exists>t1 t2. ms = since A T t2 \<and> (let b = begun A T i t1 (Inr (OperationFailed failure)) t2 in
        case reason of
          NonRetryable \<Rightarrow> \<not> rf_retryable failure \<and> s = b
        | MaximumAttempts \<Rightarrow> rf_retryable failure \<and> n \<le> i \<and> s = b @ [exhaustion i ms failure MaximumAttempts]
        | MaximumElapsedTime \<Rightarrow> rf_retryable failure \<and> i < n \<and>
            (\<exists>u d. retryDelay A policy (Finite (of_int i)) u (rf_retryAfterMs failure) = Inr d \<and> time_is_up A policy ms d \<and>
              s = b @ [Drawn u, exhaustion i ms failure MaximumElapsedTime])))"

text \<open>
  An attempt that something thrown cut short: before its outcome was known, at the computation of
  the delay, or within the calls of one of the attempts above.
\<close>

definition broken_round :: "arithmetic \<Rightarrow> RetryPolicy \<Rightarrow> int \<Rightarrow> js_number \<Rightarrow> int \<Rightarrow> ('x, 'v, 'f) retry_call list \<Rightarrow> bool" where
  "broken_round A policy n T i s \<longleftrightarrow>
     (\<exists>t1 outcome t2. prefix s (begun A T i t1 outcome t2)) \<or>
     (\<exists>t1 failure t2 u. rf_retryable failure \<and> i < n \<and> s = begun A T i t1 (Inr (OperationFailed failure)) t2 @ [Drawn u]) \<or>
     (\<exists>s'. prefix s s' \<and> full_round A policy n T i s') \<or>
     (\<exists>result. last_round A policy n T i result s)"

definition round_ok :: "arithmetic \<Rightarrow> RetryPolicy \<Rightarrow> int \<Rightarrow> js_number \<Rightarrow> int \<Rightarrow>
    'x retry_error + ('v, 'f) RetryExecutionResult option \<Rightarrow> ('x, 'v, 'f) retry_call list \<Rightarrow> bool" where
  "round_ok A policy n T i r s \<longleftrightarrow> (case r of
     Inl _ \<Rightarrow> broken_round A policy n T i s
   | Inr None \<Rightarrow> full_round A policy n T i s
   | Inr (Some result) \<Rightarrow> last_round A policy n T i result s)"

lemma attempts_reached:
  "safe_int (rp_maximumAttempts policy) = Some n \<Longrightarrow> js_le (rp_maximumAttempts policy) (Finite (of_int i)) \<longleftrightarrow> n \<le> i"
  by (auto simp: safe_int_def js_le_def position_def split: js_number.splits if_splits)

lemma calls_exhausted:
  assumes "\<And>e. Q (Inl e) [exhaustion i ms failure reason]"
    "Q (Inr (Some (RetryFailed failure i ms reason))) [exhaustion i ms failure reason]"
  shows "calls (exhausted (observed E) i ms failure reason) Q"
  unfolding exhausted_def observed_hooks by (intro call_rules) (use assms in \<open>simp_all add: exhaustion_def\<close>)

lemma calls_outcome:
  "(\<And>v. outcome = OperationSucceeded v \<Longrightarrow> calls (f v) Q) \<Longrightarrow> (\<And>x. outcome = OperationFailed x \<Longrightarrow> calls (g x) Q) \<Longrightarrow>
   calls (case outcome of OperationSucceeded v \<Rightarrow> f v | OperationFailed x \<Rightarrow> g x) Q"
  by (simp split: RetryOperationResult.split)

text \<open>A last attempt and the calls it makes.\<close>

lemma ended_round:
  "last_round A policy n T i result s \<Longrightarrow> round_ok A policy n T i (Inr (Some result)) s"
  "last_round A policy n T i result s \<Longrightarrow> round_ok A policy n T i (Inl e) s"
  by (auto simp: round_ok_def broken_round_def)

lemma continued_round:
  "full_round A policy n T i s \<Longrightarrow> round_ok A policy n T i (Inr None) s"
  "full_round A policy n T i (s @ s') \<Longrightarrow> round_ok A policy n T i (Inl e) s"
  by (auto simp: round_ok_def broken_round_def)

lemma interrupted_round:
  assumes "c = \<lparr>at_attempt = i, at_elapsedMs = since A T t\<rparr>"
  shows "round_ok A policy n T i (Inl e) []" "round_ok A policy n T i (Inl e) [Clock t]"
    "round_ok A policy n T i (Inl e) [Clock t, Started c]" "round_ok A policy n T i (Inl e) [Clock t, Started c, Operated c outcome]"
    "round_ok A policy n T i (Inl e) [Clock t, Started c, Operated c outcome, Clock u]"
  by (auto simp: round_ok_def broken_round_def begun_def Let_def assms)

lemma calls_schedule:
  assumes valid: "validatePolicy policy = Inr ()"
    and failure: "rf_retryable failure" "i < n" and b: "b = begun A T i t1 (Inr (OperationFailed failure)) t2"
  shows "calls (schedule_retry A (observed E) policy i (since A T t2) failure) (\<lambda>r s. round_ok A policy n T i r (b @ s))"
proof -
  let ?ms = "since A T t2"
  have no_delay: "round_ok A policy n T i (Inl e) (b @ [Drawn u])" for e u
    using failure unfolding b round_ok_def broken_round_def by (simp only: sum.case) blast
  have up: "last_round A policy n T i (RetryFailed failure i ?ms MaximumElapsedTime)
      (b @ [Drawn u, exhaustion i ?ms failure MaximumElapsedTime])"
    if "retryDelay A policy (Finite (of_int i)) u (rf_retryAfterMs failure) = Inr d" "time_is_up A policy ?ms d" for u d
    using that failure b by (auto simp: Let_def)
  have next_round: "full_round A policy n T i (b @ [Drawn u, Scheduled \<lparr>at_attempt = i, at_elapsedMs = ?ms, sc_nextAttempt = i + 1,
          sc_reasonCategory = rf_reasonCategory failure, sc_delayMs = d\<rparr>, Slept d])"
    if "retryDelay A policy (Finite (of_int i)) u (rf_retryAfterMs failure) = Inr d" "\<not> time_is_up A policy ?ms d" for u d
    using that failure b retryDelay_bounds [OF valid that(1)] unfolding full_round_def by blast
  have cut: "round_ok A policy n T i (Inl e) (b @ [Drawn u, Scheduled \<lparr>at_attempt = i, at_elapsedMs = ?ms, sc_nextAttempt = i + 1,
          sc_reasonCategory = rf_reasonCategory failure, sc_delayMs = d\<rparr>] @ s)"
    if "retryDelay A policy (Finite (of_int i)) u (rf_retryAfterMs failure) = Inr d" "\<not> time_is_up A policy ?ms d" "s @ s' = [Slept d]"
    for u d e s s'
    using continued_round(2) [where s' = s'] next_round [OF that(1,2)] that(3) by fastforce
  show ?thesis
    unfolding schedule_retry_def observed_hooks time_is_up_def [symmetric]
    by (intro call_rules calls_checked calls_if calls_exhausted)
      (use cut [of _ _ "[]"] cut [of _ _ _ "[]"] in
        \<open>auto intro: no_delay ended_round up continued_round(1) next_round simp: append_eq_Cons_conv\<close>)
qed

lemma final_round:
  "round_ok A policy n T i (Inr (Some (RetrySucceeded v i (since A T t2)))) (begun A T i t1 (Inr (OperationSucceeded v)) t2)"
  "\<not> rf_retryable failure \<Longrightarrow> round_ok A policy n T i (Inr (Some (RetryFailed failure i (since A T t2) NonRetryable)))
    (begun A T i t1 (Inr (OperationFailed failure)) t2)"
  by (intro ended_round(1); auto simp: Let_def)+

lemma attempts_used_up:
  assumes "rf_retryable failure" "n \<le> i"
  shows "last_round A policy n T i (RetryFailed failure i (since A T t2) MaximumAttempts)
    (begun A T i t1 (Inr (OperationFailed failure)) t2 @ [exhaustion i (since A T t2) failure MaximumAttempts])"
  using assms by (auto simp: Let_def)

lemmas begun_calls = begun_def Let_def append_Cons append_Nil

lemma calls_attempt:
  assumes "validatePolicy policy = Inr ()" "safe_int (rp_maximumAttempts policy) = Some n"
  shows "calls (retry_attempt A (observed E) policy T i) (round_ok A policy n T i)"
proof -
  note schedule = calls_schedule [OF assms(1) _ _ refl, unfolded begun_calls]
  note last = ended_round [OF attempts_used_up, unfolded begun_calls]
  show ?thesis
    unfolding retry_attempt_def Let_def observed_hooks attempts_reached [OF assms(2)]
    by (intro call_rules calls_if calls_outcome calls_exhausted)
      (simp_all add: interrupted_round(1,2) interrupted_round(3-5) [OF refl] final_round [unfolded begun_calls] last schedule)
qed

section \<open>The whole run\<close>

text \<open>The attempts \<open>i, i + 1, \<dots>\<close> that were followed by another one.\<close>

fun full_rounds :: "arithmetic \<Rightarrow> RetryPolicy \<Rightarrow> int \<Rightarrow> js_number \<Rightarrow> int \<Rightarrow> ('x, 'v, 'f) retry_call list list \<Rightarrow> bool" where
  "full_rounds A policy n T i [] = True"
| "full_rounds A policy n T i (s # ss) = (full_round A policy n T i s \<and> full_rounds A policy n T (i + 1) ss)"

text \<open>A run ends with an error in attempt \<open>k\<close>, or with a result of attempt \<open>k\<close>.\<close>

definition ends_in :: "arithmetic \<Rightarrow> RetryPolicy \<Rightarrow> int \<Rightarrow> js_number \<Rightarrow> int \<Rightarrow>
    'x retry_error + ('v, 'f) RetryExecutionResult \<Rightarrow> ('x, 'v, 'f) retry_call list \<Rightarrow> bool" where
  "ends_in A policy n T k r s \<longleftrightarrow> (case r of
     Inl _ \<Rightarrow> broken_round A policy n T k s
   | Inr result \<Rightarrow> last_round A policy n T k result s)"

definition run_ok :: "arithmetic \<Rightarrow> RetryPolicy \<Rightarrow> int \<Rightarrow> js_number \<Rightarrow> int \<Rightarrow>
    'x retry_error + ('v, 'f) RetryExecutionResult \<Rightarrow> ('x, 'v, 'f) retry_call list \<Rightarrow> bool" where
  "run_ok A policy n T i r trace \<longleftrightarrow> (\<exists>ss s. let k = i + int (length ss) in
     trace = concat ss @ s \<and> k \<le> n \<and> full_rounds A policy n T i ss \<and> ends_in A policy n T k r s)"

lemma run_ok_single:
  "i \<le> n \<Longrightarrow> ends_in A policy n T i r s \<Longrightarrow> run_ok A policy n T i r s"
  unfolding run_ok_def Let_def by (intro exI [where x = "[]"] exI [where x = s]) simp

lemma run_ok_step:
  assumes "full_round A policy n T i s" "run_ok A policy n T (i + 1) r trace"
  shows "run_ok A policy n T i r (s @ trace)"
proof -
  from assms(2) obtain ss s' where rest: "trace = concat ss @ s'" "i + 1 + int (length ss) \<le> n"
      "full_rounds A policy n T (i + 1) ss" "ends_in A policy n T (i + 1 + int (length ss)) r s'"
    by (auto simp: run_ok_def Let_def)
  have len: "i + int (length (s # ss)) = i + 1 + int (length ss)" by simp
  have "concat (s # ss) @ s' = s @ trace" "full_rounds A policy n T i (s # ss)" using assms(1) rest by simp_all
  with rest(2,4) show ?thesis
    unfolding run_ok_def Let_def
    by (intro exI [where x = "s # ss"] exI [where x = s']) (simp only: len simp_thms)
qed

lemma retry_loop_runs:
  assumes valid: "validatePolicy policy = Inr ()" "safe_int (rp_maximumAttempts policy) = Some n" and "i \<le> n"
  shows "\<exists>r v trace. retry_loop A (observed E) policy T i (w, t) = Some (r, v, t @ trace) \<and> run_ok A policy n T i r trace"
  using assms(3)
proof (induction "nat (n - i)" arbitrary: i w t rule: less_induct)
  case less
  obtain r v u where step: "retry_attempt A (observed E) policy T i (w, t) = (r, v, u)" by (metis prod_cases3)
  from callsD [OF calls_attempt [OF valid] step] obtain s where s: "u = t @ s" "round_ok A policy n T i r s" by blast
  note single = run_ok_single [OF less.prems, of A policy T _ s]
  show ?case
  proof (cases r)
    case (Inl e)
    with s step single [of "Inl e"] show ?thesis by (subst retry_loop.simps) (simp add: round_ok_def ends_in_def)
  next
    case (Inr answer)
    show ?thesis
    proof (cases answer)
      case None
      with s Inr have round: "full_round A policy n T i s" by (simp add: round_ok_def)
      then have "i < n" by (auto simp: full_round_def)
      then obtain r' v' trace where IH:
        "retry_loop A (observed E) policy T (i + 1) (v, t @ s) = Some (r', v', (t @ s) @ trace)" "run_ok A policy n T (i + 1) r' trace"
        using less.hyps [of "i + 1" v "t @ s"] by auto
      with None Inr step s(1) run_ok_step [OF round IH(2)] show ?thesis
        by (subst retry_loop.simps) auto
    next
      case (Some res)
      with Inr s step single [of "Inr res"] show ?thesis by (subst retry_loop.simps) (simp add: round_ok_def ends_in_def)
    qed
  qed
qed

text \<open>
  C31: a validated policy with \<open>n\<close> attempts bounds a run, whatever the operation, the hooks, the
  clock and the signal do. The run reads its starting time and ends; its attempts \<open>1, 2, \<dots>, k\<close> with
  \<open>k \<le> n\<close> each call the attempt hook, then the operation. Attempts before the last fail in a
  way that may be retried, have attempts left, and the delay computed for the random number drawn
  fits in the time that is left by the clock; then the schedule hook is told this delay and exactly
  it is waited, a delay within the limits of the policy unless it is \<^verbatim>\<open>NaN\<close>. A result names its
  attempt, the time by the clock, and the true reason: the failure must not be retried; or it may
  and this was the last allowed attempt; or it may, attempts are left, and the time is used up or
  the delay does not fit in it. The exhaustion hook is called once, for the last two, with that
  reason. When something throws, the calls of the broken attempt are the beginning of such calls.
\<close>

theorem retry_protocol:
  assumes "validatePolicy policy = Inr ()"
  shows "\<exists>n r v trace. safe_int (rp_maximumAttempts policy) = Some n \<and>
    executeWithRetry A (observed E) policy (w, []) = Some (r, v, Clock (fst (su_now E w)) # trace) \<and>
    run_ok A policy n (fst (su_now E w)) 1 r trace"
proof -
  obtain n where n: "1 \<le> n" "safe_int (rp_maximumAttempts policy) = Some n" using valid_limits(5) [OF assms] by blast
  obtain T w' where now: "su_now E w = (T, w')" by force
  have "su_now (observed E) (w, []) = (T, w', [Clock T])" by (simp add: observed_def recording_def now)
  with retry_loop_runs [OF assms n(2) n(1), of A E T w' "[Clock T]"] n(2) assms now show ?thesis
    by (auto simp: executeWithRetry_def)
qed

lemma default_valid: "validatePolicy DEFAULT_POLICY = Inr ()" "safe_int (rp_maximumAttempts DEFAULT_POLICY) = Some 3"
  by (simp_all add: validatePolicy_def DEFAULT_POLICY_def positiveAttempts_def nonnegativeFinite_def safe_int_def isFinite_def
      js_less_def position_def MAX_SAFE_INTEGER_def)

text \<open>An operation that is unavailable for good, at a clock that stands still.\<close>

definition unavailable_service :: "(unit, string, unit, unit) retry_surroundings" where
  "unavailable_service = \<lparr>su_now = Pair (Finite 0), su_random = Pair (Finite 0), su_aborted = (\<lambda>_. None),
     su_sleep = (\<lambda>_. Pair (Inr ())),
     su_operation = (\<lambda>_. Pair (Inr (OperationFailed \<lparr>rf_retryable = True, rf_reasonCategory = Unavailable, rf_retryAfterMs = None,
       \<dots> = ()\<rparr>))),
     su_onAttemptStarted = (\<lambda>_. Pair (Inr ())), su_onRetryScheduled = (\<lambda>_. Pair (Inr ())), su_onRetryExhausted = (\<lambda>_. Pair (Inr ()))\<rparr>"

theorem retry_protocol_witness:
  "\<exists>r v trace. executeWithRetry \<lparr>fl_round = Finite, fl_pow = \<lambda>_ _. Finite 1\<rparr> (observed unavailable_service) DEFAULT_POLICY ((), []) =
     Some (r, v, Clock (Finite 0) # trace) \<and> run_ok \<lparr>fl_round = Finite, fl_pow = \<lambda>_ _. Finite 1\<rparr> DEFAULT_POLICY 3 (Finite 0) 1 r trace"
  using retry_protocol [OF default_valid(1), of "\<lparr>fl_round = Finite, fl_pow = \<lambda>_ _. Finite 1\<rparr>" unavailable_service "()"] default_valid(2)
  by (simp add: unavailable_service_def)

text \<open>
  A policy that waits for nothing at first passes validation, and yet its delay is no number
  once the multiplier has overflowed: nothing compares it with the remaining time.
\<close>

lemma overflowing_delay:
  assumes "fl_pow A (Finite 2) (js_minus A (Finite 1025) (Finite 1)) = Infinity True"
  shows "validatePolicy (DEFAULT_POLICY\<lparr>rp_maximumAttempts := Finite 2000, rp_initialDelayMs := Finite 0\<rparr>) = Inr () \<and>
    retryDelay A (DEFAULT_POLICY\<lparr>rp_maximumAttempts := Finite 2000, rp_initialDelayMs := Finite 0\<rparr>) (Finite 1025) (Finite (1 / 2)) None =
      Inr NaN"
proof
  show "validatePolicy (DEFAULT_POLICY\<lparr>rp_maximumAttempts := Finite 2000, rp_initialDelayMs := Finite 0\<rparr>) = Inr ()"
    by (simp add: validatePolicy_def DEFAULT_POLICY_def positiveAttempts_def nonnegativeFinite_def safe_int_def isFinite_def
      js_less_def position_def MAX_SAFE_INTEGER_def)
  show "retryDelay A (DEFAULT_POLICY\<lparr>rp_maximumAttempts := Finite 2000, rp_initialDelayMs := Finite 0\<rparr>) (Finite 1025) (Finite (1 / 2)) None =
      Inr NaN"
    using assms by (simp add: retryDelay_def DEFAULT_POLICY_def safe_int_def MAX_SAFE_INTEGER_def js_mult_def [of A _ "Infinity True"]
      isFinite_def is_zero_def js_less_def js_le_def position_def js_mult_def [of A NaN] js_ceil_def)
qed

end
