(* ===== verification/Recovery.thy ===== *)
theory Recovery
  imports Effects Numbers Events
begin

text \<open>
  \<^verbatim>\<open>src/tools/recovery.ts\<close>: the bounded recovery of a failed tool call. Reads may be repeated,
  with other arguments if the host proposes them; a write is repeated only after the host has
  found out that it was not applied. The clock, the abort signal, the policy's callbacks and the
  tool act on a state \<open>'w\<close> of the surroundings.
\<close>

section \<open>Failures\<close>

datatype (plugins only: code size) ToolFailureCategory =
    TransientFailure | InvalidInput | NotFoundFailure | PermissionDenied | BusinessRule | CancelledFailure | UnknownOutcome
  | BugFailure | MissingCapability

definition category_text :: "ToolFailureCategory \<Rightarrow> string" where
  "category_text c = (case c of TransientFailure \<Rightarrow> ''transient'' | InvalidInput \<Rightarrow> ''invalid_input'' | NotFoundFailure \<Rightarrow> ''not_found''
     | PermissionDenied \<Rightarrow> ''permission_denied'' | BusinessRule \<Rightarrow> ''business_rule'' | CancelledFailure \<Rightarrow> ''cancelled''
     | UnknownOutcome \<Rightarrow> ''unknown_outcome'' | BugFailure \<Rightarrow> ''bug'' | MissingCapability \<Rightarrow> ''missing_capability'')"

definition CATEGORIES :: "ToolFailureCategory list" where
  "CATEGORIES = [TransientFailure, InvalidInput, NotFoundFailure, PermissionDenied, BusinessRule, CancelledFailure, UnknownOutcome,
     BugFailure, MissingCapability]"

definition category_of :: "js_string \<Rightarrow> ToolFailureCategory option" where
  "category_of s = find (\<lambda>c. js (category_text c) = s) CATEGORIES"

text \<open>A classification as the host gives it, and as it is after its check.\<close>

record host_failure =
  hf_category :: js_string
  hf_code :: js_string
  hf_message :: js_string
  hf_retryAfterMs :: "js_number option"

record ToolFailure =
  tf_category :: ToolFailureCategory
  tf_code :: js_string
  tf_message :: js_string
  tf_retryAfterMs :: "js_number option"

definition as_host :: "ToolFailure \<Rightarrow> host_failure" where
  "as_host f = \<lparr>hf_category = js (category_text (tf_category f)), hf_code = tf_code f, hf_message = tf_message f,
     hf_retryAfterMs = tf_retryAfterMs f\<rparr>"

definition UNKNOWN :: ToolFailure where
  "UNKNOWN = \<lparr>tf_category = BugFailure, tf_code = js ''unclassified_tool_failure'',
     tf_message = js ''The tool failed unexpectedly. Continue independent work and report the unresolved operation.'',
     tf_retryAfterMs = None\<rparr>"

definition TIMEOUT :: ToolFailure where
  "TIMEOUT = \<lparr>tf_category = TransientFailure, tf_code = js ''tool_timeout'',
     tf_message = js ''The tool did not respond before its deadline.'', tf_retryAfterMs = None\<rparr>"

definition CANCELLED :: ToolFailure where
  "CANCELLED = \<lparr>tf_category = CancelledFailure, tf_code = js ''tool_cancelled'',
     tf_message = js ''The operation was cancelled.'', tf_retryAfterMs = None\<rparr>"

definition FAILURE_CODE :: re where
  "FAILURE_CODE = RSeq RStart (RSeq (RRep 1 (Some 100) (RChar (\<lambda>c. alnum_i c \<or> one_of ''_.:-'' c))) REnd)"

definition line_terminator :: "code_unit \<Rightarrow> bool" where
  "line_terminator c \<longleftrightarrow> c = 10 \<or> c = 13 \<or> c = 0x2028 \<or> c = 0x2029"

definition PRIVATE_MESSAGE :: re where
  "PRIVATE_MESSAGE = RAlt (RSeq RWordB (RSeq (lit_i ''bearer'') (RChar white_space)))
     (RAlt (RSeq RWordB (RSeq (lit_i ''sk-'') (RRep 8 None (RChar (\<lambda>c. alnum_i c \<or> one_of ''_-'' c)))))
       (RSeq (lit_i ''-----begin '') (RSeq (RRep 0 None (RChar (\<lambda>c. \<not> line_terminator c))) (lit_i ''private key''))))"

definition normalizeToolFailure :: "host_failure option \<Rightarrow> ToolFailure" where
  "normalizeToolFailure given =
     (case given of
        None \<Rightarrow> UNKNOWN
      | Some f \<Rightarrow>
          (case category_of (hf_category f) of
             None \<Rightarrow> UNKNOWN
           | Some category \<Rightarrow>
               if \<not> test FAILURE_CODE (hf_code f) \<or> hf_message f = [] \<or> 1000 < length (hf_message f) \<or>
                  test PRIVATE_MESSAGE (hf_message f)
               then UNKNOWN
               else \<lparr>tf_category = category, tf_code = hf_code f, tf_message = hf_message f,
                 tf_retryAfterMs = (case hf_retryAfterMs f of
                    None \<Rightarrow> None | Some n \<Rightarrow> if isFinite n \<and> \<not> js_less n (Finite 0) then Some n else None)\<rparr>))"

section \<open>The policy and its surroundings\<close>

datatype (plugins only: code size) recovery_status = Recovered | NotRecovered

datatype (plugins only: code size) recovery_reason =
  RecoveryCompleted | RecoveryTerminal | AttemptLimit | NoProgress | RecoveryDeadline | OutcomeUnknown

record ToolRecoverySummary =
  ts_status :: recovery_status
  ts_attempts :: int
  ts_failedAttempts :: int
  ts_category :: ToolFailureCategory
  ts_code :: js_string
  ts_reason :: recovery_reason

datatype (plugins only: code size) 'x thrown = FailureError host_failure | OtherError 'x

text \<open>What a race of an invocation against the signal and a timer ends in.\<close>

datatype (plugins only: code size) ('x, 'a) race = Settled "'x thrown + 'a" | AbortedFirst | TimedOutFirst

datatype (plugins only: code size) 'v write_outcome = WriteCompleted 'v | WriteNotApplied | WriteUnknown

type_synonym ('w, 'x, 'a) raced = "int \<Rightarrow> 'w \<Rightarrow> ('x, 'a) race \<times> 'w"

record ToolRecoveryLimits =
  tl_maxRecoveryAttempts :: "js_number option"
  tl_maxElapsedMs :: "js_number option"
  tl_attemptTimeoutMs :: "js_number option"
  tl_initialDelayMs :: "js_number option"

text \<open>The callbacks get the arguments of the call, the only part of the context that changes.\<close>

record ('w, 'x, 'v) recovery_host =
  rh_now :: "'w \<Rightarrow> int \<times> 'w"
  rh_aborted :: "'w \<Rightarrow> bool"
  rh_isRead :: "'w \<Rightarrow> ('x + bool) \<times> 'w"
  rh_classify :: "('x \<Rightarrow> json \<Rightarrow> 'w \<Rightarrow> ('x + host_failure option) \<times> 'w) option"
  rh_repairArguments :: "(json \<Rightarrow> ToolFailure \<Rightarrow> ('w, 'x, json option) raced) option"
  rh_verifyWriteOutcome :: "(json \<Rightarrow> ToolFailure \<Rightarrow> ('w, 'x, 'v write_outcome) raced) option"
  rh_record :: "(ToolRecoverySummary \<Rightarrow> ('w, 'x, unit) raced) option"
  rh_execute :: "json \<Rightarrow> ('w, 'x, 'v) raced"
  rh_validateAndAuthorize :: "json \<Rightarrow> ('w, 'x, unit) raced"
  rh_sleep :: "rat \<Rightarrow> ('w, 'x, unit) raced"

definition bounded :: "('w \<Rightarrow> bool) \<Rightarrow> int \<Rightarrow> ('w, 'x, 'a) raced \<Rightarrow> ('w, 'x thrown, 'a) action" where
  "bounded aborted timeoutMs run = (\<lambda>w.
     if aborted w then (Inl (FailureError (as_host CANCELLED)), w)
     else if timeoutMs \<le> 0 then (Inl (FailureError (as_host TIMEOUT)), w)
     else (case run timeoutMs w of
         (Settled r, v) \<Rightarrow> (r, v)
       | (AbortedFirst, v) \<Rightarrow> (Inl (FailureError (as_host CANCELLED)), v)
       | (TimedOutFirst, v) \<Rightarrow> (Inl (FailureError (as_host TIMEOUT)), v)))"

definition integer :: "js_number \<Rightarrow> string \<Rightarrow> int \<Rightarrow> int \<Rightarrow> string + int" where
  "integer given name minimum maximum = (case safe_int given of
     None \<Rightarrow> Inl (''Invalid '' @ name)
   | Some n \<Rightarrow> if n < minimum \<or> maximum < n then Inl (''Invalid '' @ name) else Inr n)"

fun canonical :: "(rat \<Rightarrow> js_string) \<Rightarrow> json \<Rightarrow> js_string" where
  "canonical R (JArr xs) = js ''['' @ join_comma (map (canonical R) xs) @ js '']''"
| "canonical R (JObj fs) =
     js ''{'' @ join_comma (map snd (sort_key fst (map (\<lambda>f. (fst f, quote (fst f) @ js '':'' @ canonical R (snd f))) fs))) @ js ''}''"
| "canonical R v = stringify R v"

section \<open>The recovery loop\<close>

text \<open>The local variables of \<^verbatim>\<open>runToolWithRecovery\<close>.\<close>

record 'x recovery =
  rc_arguments :: json
  rc_seen :: "js_string set"
  rc_attempts :: int
  rc_cycles :: int
  rc_failures :: int
  rc_failure :: ToolFailure
  rc_cause :: "'x thrown option"

record recovery_bounds =
  rb_maximum :: int
  rb_attemptTimeout :: int
  rb_initialDelay :: int
  rb_deadline :: int
  rb_isRead :: bool

datatype (plugins only: code size) 'x recovery_error =
  InvalidRecoveryPolicy string | EffectThrew 'x | ToolRecoveryError ToolFailure ToolRecoverySummary "'x thrown option"

text \<open>A cycle ends with the value of the call, with a receipt if it had failed before, or goes on.\<close>

datatype (plugins only: code size) ('v, 'x) cycle_result = Finished 'v "ToolRecoverySummary option" | NextCycle "'x recovery"

type_synonym ('w, 'x, 'v) cycle_action = "('w, 'x recovery_error, ('v, 'x) cycle_result) action"

definition summary :: "'x recovery \<Rightarrow> recovery_status \<Rightarrow> recovery_reason \<Rightarrow> ToolRecoverySummary" where
  "summary st status reason = \<lparr>ts_status = status, ts_attempts = rc_attempts st, ts_failedAttempts = rc_failures st,
     ts_category = tf_category (rc_failure st), ts_code = tf_code (rc_failure st), ts_reason = reason\<rparr>"

definition record_summary :: "('w, 'x, 'v) recovery_host \<Rightarrow> ToolRecoverySummary \<Rightarrow> ('w, 'x recovery_error, unit) action" where
  "record_summary H s = (case rh_record H of
     None \<Rightarrow> returning ()
   | Some write_record \<Rightarrow> after (caught (bounded (\<lambda>_. False) 1000 (write_record s))) (\<lambda>_. returning ()))"

definition recovery_fail :: "('w, 'x, 'v) recovery_host \<Rightarrow> recovery_bounds \<Rightarrow> 'x recovery \<Rightarrow> recovery_reason \<Rightarrow> ('w, 'x, 'v) cycle_action" where
  "recovery_fail H B st reason =
     (let failure = (if reason = OutcomeUnknown \<and> \<not> rb_isRead B
            then (rc_failure st)\<lparr>tf_message := js ''The write outcome could not be verified. Do not repeat this operation; inspect its authoritative receipt before taking further action.''\<rparr>
            else rc_failure st);
          s = summary st NotRecovered reason
      in after (record_summary H s) (\<lambda>_. throwing (ToolRecoveryError failure s (rc_cause st))))"

definition recovered :: "('w, 'x, 'v) recovery_host \<Rightarrow> 'x recovery \<Rightarrow> 'v \<Rightarrow> ('w, 'x, 'v) cycle_action" where
  "recovered H st v = (let s = summary st Recovered RecoveryCompleted in
     after (record_summary H s) (\<lambda>_. returning (Finished v (Some s))))"

definition remaining :: "('w, 'x, 'v) recovery_host \<Rightarrow> recovery_bounds \<Rightarrow> ('w, 'e, int) action" where
  "remaining H B = after (reading (rh_now H)) (\<lambda>now. returning (max 0 (rb_deadline B - now)))"

definition if_aborted :: "('w, 'x, 'v) recovery_host \<Rightarrow> ('w, 'e, 'a) action \<Rightarrow> ('w, 'e, 'a) action \<Rightarrow> ('w, 'e, 'a) action" where
  "if_aborted H m n = (\<lambda>w. if rh_aborted H w then m w else n w)"

definition classified :: "('w, 'x, 'v) recovery_host \<Rightarrow> json \<Rightarrow> 'x thrown \<Rightarrow> ('w, 'e, ToolFailure) action" where
  "classified H arguments error = (case error of
     FailureError f \<Rightarrow> returning (normalizeToolFailure (Some f))
   | OtherError x \<Rightarrow>
       (case rh_classify H of
          None \<Rightarrow> returning (normalizeToolFailure None)
        | Some classify \<Rightarrow> after (caught (classify x arguments)) (\<lambda>r.
            returning (case r of Inl _ \<Rightarrow> UNKNOWN | Inr f \<Rightarrow> normalizeToolFailure f))))"

definition repair_arguments :: "(rat \<Rightarrow> js_string) \<Rightarrow> ('w, 'x, 'v) recovery_host \<Rightarrow> recovery_bounds \<Rightarrow> 'x recovery \<Rightarrow>
    ('w, 'x, 'v) cycle_action" where
  "repair_arguments R H B st =
     (case rh_repairArguments H of
        None \<Rightarrow> recovery_fail H B st RecoveryTerminal
      | Some propose \<Rightarrow>
          if \<not> rb_isRead B then recovery_fail H B st RecoveryTerminal
          else after (remaining H B) (\<lambda>left.
            after (caught (bounded (rh_aborted H) left (propose (rc_arguments st) (rc_failure st)))) (\<lambda>r.
            case r of
              Inl _ \<Rightarrow> recovery_fail H B st NoProgress
            | Inr None \<Rightarrow> recovery_fail H B st NoProgress
            | Inr (Some candidate) \<Rightarrow>
                if canonical R candidate \<in> rc_seen st then recovery_fail H B st NoProgress
                else returning (NextCycle (st\<lparr>rc_arguments := candidate,
                  rc_seen := insert (canonical R candidate) (rc_seen st)\<rparr>)))))"

definition retry_delay_ms :: "recovery_bounds \<Rightarrow> 'x recovery \<Rightarrow> rat" where
  "retry_delay_ms B st = max (case tf_retryAfterMs (rc_failure st) of Some (Finite q) \<Rightarrow> q | _ \<Rightarrow> 0)
     (of_int (rb_initialDelay B * 2 ^ nat (rc_cycles st - 1)))"

definition wait_for_retry :: "('w, 'x, 'v) recovery_host \<Rightarrow> recovery_bounds \<Rightarrow> 'x recovery \<Rightarrow> ('w, 'x, 'v) cycle_action" where
  "wait_for_retry H B st =
     (let delay = retry_delay_ms B st in
      after (remaining H B) (\<lambda>left.
      if of_int left \<le> delay then recovery_fail H B st RecoveryDeadline
      else if delay = 0 then returning (NextCycle st)
      else after (remaining H B) (\<lambda>left.
        after (caught (bounded (rh_aborted H) left (rh_sleep H delay))) (\<lambda>r.
        case r of
          Inr _ \<Rightarrow> returning (NextCycle st)
        | Inl _ \<Rightarrow> if_aborted H (recovery_fail H B (st\<lparr>rc_failure := CANCELLED\<rparr>) RecoveryDeadline)
            (recovery_fail H B (st\<lparr>rc_failure := TIMEOUT\<rparr>) RecoveryDeadline)))))"

text \<open>The end of a cycle whose call failed and may be tried again.\<close>

definition try_again :: "(rat \<Rightarrow> js_string) \<Rightarrow> ('w, 'x, 'v) recovery_host \<Rightarrow> recovery_bounds \<Rightarrow> 'x recovery \<Rightarrow> ('w, 'x, 'v) cycle_action" where
  "try_again R H B st =
     (if rb_maximum B \<le> rc_cycles st then recovery_fail H B st AttemptLimit
      else after (remaining H B) (\<lambda>left.
        if left = 0 then recovery_fail H B st RecoveryDeadline
        else if tf_category (rc_failure st) = InvalidInput \<or> tf_category (rc_failure st) = NotFoundFailure
        then repair_arguments R H B st
        else if tf_category (rc_failure st) = TransientFailure then wait_for_retry H B st
        else recovery_fail H B st OutcomeUnknown))"

definition verify_write :: "(rat \<Rightarrow> js_string) \<Rightarrow> ('w, 'x, 'v) recovery_host \<Rightarrow> recovery_bounds \<Rightarrow> 'x recovery \<Rightarrow> ('w, 'x, 'v) cycle_action" where
  "verify_write R H B st =
     (case rh_verifyWriteOutcome H of
        None \<Rightarrow> recovery_fail H B st OutcomeUnknown
      | Some verify \<Rightarrow>
          after (remaining H B) (\<lambda>left.
          if left = 0 then recovery_fail H B st OutcomeUnknown
          else after (remaining H B) (\<lambda>left.
            after (caught (bounded (rh_aborted H) left (verify (rc_arguments st) (rc_failure st)))) (\<lambda>r.
            case r of
              Inl _ \<Rightarrow> recovery_fail H B st OutcomeUnknown
            | Inr (WriteCompleted v) \<Rightarrow> recovered H st v
            | Inr WriteUnknown \<Rightarrow> recovery_fail H B st OutcomeUnknown
            | Inr WriteNotApplied \<Rightarrow>
                if tf_category (rc_failure st) \<noteq> TransientFailure then recovery_fail H B st RecoveryTerminal
                else try_again R H B st))))"

definition after_failure :: "(rat \<Rightarrow> js_string) \<Rightarrow> ('w, 'x, 'v) recovery_host \<Rightarrow> recovery_bounds \<Rightarrow> 'x recovery \<Rightarrow> 'x thrown \<Rightarrow>
    ('w, 'x, 'v) cycle_action" where
  "after_failure R H B st error =
     after (classified H (rc_arguments st) error) (\<lambda>failure.
     let st = st\<lparr>rc_cause := Some error, rc_failures := rc_failures st + 1, rc_failure := failure\<rparr> in
     if_aborted H (recovery_fail H B (st\<lparr>rc_failure := CANCELLED\<rparr>) RecoveryTerminal)
       (if tf_category failure \<in> {PermissionDenied, BusinessRule, CancelledFailure, MissingCapability} \<or>
           rb_isRead B \<and> tf_category failure = BugFailure
        then recovery_fail H B st RecoveryTerminal
        else if \<not> rb_isRead B then verify_write R H B st
        else try_again R H B st))"

definition execute_attempt :: "(rat \<Rightarrow> js_string) \<Rightarrow> ('w, 'x, 'v) recovery_host \<Rightarrow> recovery_bounds \<Rightarrow> 'x recovery \<Rightarrow>
    ('w, 'x, 'v) cycle_action" where
  "execute_attempt R H B st =
     (let st = st\<lparr>rc_attempts := rc_attempts st + 1\<rparr> in
      after (remaining H B) (\<lambda>left.
      after (caught (bounded (rh_aborted H) (min (rb_attemptTimeout B) left) (rh_execute H (rc_arguments st)))) (\<lambda>r.
      case r of
        Inl error \<Rightarrow> after_failure R H B st error
      | Inr v \<Rightarrow> if rc_failures st = 0 then returning (Finished v None) else recovered H st v)))"

definition recovery_cycle :: "(rat \<Rightarrow> js_string) \<Rightarrow> ('w, 'x, 'v) recovery_host \<Rightarrow> recovery_bounds \<Rightarrow> 'x recovery \<Rightarrow>
    ('w, 'x, 'v) cycle_action" where
  "recovery_cycle R H B st =
     (let st = st\<lparr>rc_cycles := rc_cycles st + 1\<rparr> in
      if_aborted H (recovery_fail H B (st\<lparr>rc_failure := CANCELLED\<rparr>) RecoveryTerminal)
        (after (remaining H B) (\<lambda>left.
         if left = 0 then recovery_fail H B st RecoveryDeadline
         else if rc_attempts st = 0 then execute_attempt R H B st
         else after (remaining H B) (\<lambda>left.
           after (caught (bounded (rh_aborted H) left (rh_validateAndAuthorize H (rc_arguments st)))) (\<lambda>r.
           case r of
             Inl error \<Rightarrow> after_failure R H B st error
           | Inr _ \<Rightarrow> execute_attempt R H B st)))))"

text \<open>The loop; its first argument is the number of cycles that are left.\<close>

primrec recovery_loop :: "nat \<Rightarrow> (rat \<Rightarrow> js_string) \<Rightarrow> ('w, 'x, 'v) recovery_host \<Rightarrow> recovery_bounds \<Rightarrow> 'x recovery \<Rightarrow>
    ('w, 'x, 'v) cycle_action" where
  "recovery_loop 0 R H B st = recovery_fail H B st AttemptLimit"
| "recovery_loop (Suc n) R H B st = after (recovery_cycle R H B st) (\<lambda>r.
     case r of Finished v s \<Rightarrow> returning (Finished v s) | NextCycle st' \<Rightarrow> recovery_loop n R H B st')"

definition recovery_limits :: "ToolRecoveryLimits \<Rightarrow> string + int \<times> int \<times> int \<times> int" where
  "recovery_limits P =
     bindE (integer (coalesce (tl_maxRecoveryAttempts P) (Finite 2)) ''maxRecoveryAttempts'' 0 2) (\<lambda>attempts.
     bindE (integer (coalesce (tl_maxElapsedMs P) (Finite 30000)) ''maxElapsedMs'' 1 600000) (\<lambda>elapsed.
     bindE (integer (coalesce (tl_attemptTimeoutMs P) (Finite 8000)) ''attemptTimeoutMs'' 1 600000) (\<lambda>attemptTimeout.
     bindE (integer (coalesce (tl_initialDelayMs P) (Finite 250)) ''initialDelayMs'' 0 30000) (\<lambda>initialDelay.
     Inr (1 + attempts, elapsed, attemptTimeout, initialDelay)))))"

definition initial_recovery :: "(rat \<Rightarrow> js_string) \<Rightarrow> json \<Rightarrow> 'x recovery" where
  "initial_recovery R arguments = \<lparr>rc_arguments = arguments, rc_seen = {canonical R arguments}, rc_attempts = 0, rc_cycles = 0,
     rc_failures = 0, rc_failure = UNKNOWN, rc_cause = None\<rparr>"

definition runToolWithRecovery :: "(rat \<Rightarrow> js_string) \<Rightarrow> ('w, 'x, 'v) recovery_host \<Rightarrow> ToolRecoveryLimits \<Rightarrow> json \<Rightarrow>
    ('w, 'x, 'v) cycle_action" where
  "runToolWithRecovery R H P arguments = (case recovery_limits P of
     Inl m \<Rightarrow> throwing (InvalidRecoveryPolicy m)
   | Inr (maximum, elapsed, attemptTimeout, initialDelay) \<Rightarrow>
       after (reading (rh_now H)) (\<lambda>now.
       after (reading (rh_isRead H)) (\<lambda>r.
       case r of
         Inl x \<Rightarrow> throwing (EffectThrew x)
       | Inr isRead \<Rightarrow> recovery_loop (nat maximum) R H \<lparr>rb_maximum = maximum, rb_attemptTimeout = attemptTimeout,
           rb_initialDelay = initialDelay, rb_deadline = now + elapsed, rb_isRead = isRead\<rparr> (initial_recovery R arguments))))"

section \<open>Receipts\<close>

text \<open>\<^verbatim>\<open>ToolRecoverySummary\<close> as the JSON value that a tool result carries.\<close>

definition recovery_status_text :: "recovery_status \<Rightarrow> string" where
  "recovery_status_text s = (case s of Recovered \<Rightarrow> ''recovered'' | NotRecovered \<Rightarrow> ''failed'')"

definition recovery_status_of :: "json option \<Rightarrow> recovery_status option" where
  "recovery_status_of v = find (\<lambda>s. v = Some (JText (recovery_status_text s))) [Recovered, NotRecovered]"

definition recovery_reason_text :: "recovery_reason \<Rightarrow> string" where
  "recovery_reason_text r = (case r of RecoveryCompleted \<Rightarrow> ''completed'' | RecoveryTerminal \<Rightarrow> ''terminal''
     | AttemptLimit \<Rightarrow> ''attempt_limit'' | NoProgress \<Rightarrow> ''no_progress'' | RecoveryDeadline \<Rightarrow> ''deadline''
     | OutcomeUnknown \<Rightarrow> ''unknown_outcome'')"

definition recovery_reason_of :: "json option \<Rightarrow> recovery_reason option" where
  "recovery_reason_of v = find (\<lambda>r. v = Some (JText (recovery_reason_text r)))
     [RecoveryCompleted, RecoveryTerminal, AttemptLimit, NoProgress, RecoveryDeadline, OutcomeUnknown]"

definition recovery_summary_json :: "ToolRecoverySummary \<Rightarrow> json" where
  "recovery_summary_json s = JObj [(js ''type'', JText ''handrail.tool_recovery.v1''),
     (js ''status'', JText (recovery_status_text (ts_status s))), (js ''attempts'', JInt (ts_attempts s)),
     (js ''failedAttempts'', JInt (ts_failedAttempts s)), (js ''category'', JText (category_text (ts_category s))),
     (js ''code'', JStr (ts_code s)), (js ''reason'', JText (recovery_reason_text (ts_reason s)))]"

definition attempt_count :: "json option \<Rightarrow> int option" where
  "attempt_count v = (case v of Some (JNum n) \<Rightarrow> (case safe_int n of Some k \<Rightarrow> if 0 \<le> k \<and> k \<le> 3 then Some k else None | None \<Rightarrow> None)
     | _ \<Rightarrow> None)"

definition parseToolRecoverySummary :: "json \<Rightarrow> ToolRecoverySummary option" where
  "parseToolRecoverySummary v = (case v of JObj row \<Rightarrow>
     (if fld row ''type'' \<noteq> Some (JText ''handrail.tool_recovery.v1'') then None
      else case (recovery_status_of (fld row ''status''), attempt_count (fld row ''attempts''),
          attempt_count (fld row ''failedAttempts''), fld row ''category'', fld row ''code'',
          recovery_reason_of (fld row ''reason'')) of
        (Some status, Some attempts, Some failed, Some (JStr category), Some (JStr code), Some reason) \<Rightarrow>
          if failed = 0 \<and> (attempts \<noteq> 0 \<or> status \<noteq> NotRecovered) \<or>
             status = Recovered \<and> (attempts = 0 \<or> reason \<noteq> RecoveryCompleted) \<or>
             status = NotRecovered \<and> reason = RecoveryCompleted \<or> \<not> test FAILURE_CODE code
          then None
          else map_option (\<lambda>c. \<lparr>ts_status = status, ts_attempts = attempts, ts_failedAttempts = failed, ts_category = c,
            ts_code = code, ts_reason = reason\<rparr>) (category_of category)
      | _ \<Rightarrow> None)
   | _ \<Rightarrow> None)"

end
