(* ===== verification/RecoveryProperties.thy ===== *)
theory RecoveryProperties
  imports Recovery
begin

text \<open>
  What recovery promises: a write is executed again only after the host has reported that it was
  not applied, every repeated execution was authorised right before, no arguments are tried that
  were tried before, and the receipt tells what happened.
\<close>

section \<open>Observing a run\<close>

datatype ('x, 'v) recovery_call =
    Executed json "('x, 'v) race"
  | Authorized json "('x, unit) race"
  | Verified json "('x, 'v write_outcome) race"
  | Proposed json "('x, json option) race"
  | Waited rat
  | Receipt ToolRecoverySummary

definition observed_host :: "('w, 'x, 'v) recovery_host \<Rightarrow> ('w \<times> ('x, 'v) recovery_call list, 'x, 'v) recovery_host" where
  "observed_host H = \<lparr>rh_now = passing (rh_now H), rh_aborted = (\<lambda>(w, _). rh_aborted H w), rh_isRead = passing (rh_isRead H),
     rh_classify = map_option (\<lambda>f x a. passing (f x a)) (rh_classify H),
     rh_repairArguments = map_option (\<lambda>f a e t. recording (Proposed a) (f a e t)) (rh_repairArguments H),
     rh_verifyWriteOutcome = map_option (\<lambda>f a e t. recording (Verified a) (f a e t)) (rh_verifyWriteOutcome H),
     rh_record = map_option (\<lambda>f s t. recording (\<lambda>_. Receipt s) (f s t)) (rh_record H),
     rh_execute = (\<lambda>a t. recording (Executed a) (rh_execute H a t)),
     rh_validateAndAuthorize = (\<lambda>a t. recording (Authorized a) (rh_validateAndAuthorize H a t)),
     rh_sleep = (\<lambda>d t. recording (\<lambda>_. Waited d) (rh_sleep H d t))\<rparr>"

lemma observed_calls:
  "rh_sleep (observed_host H) d = (\<lambda>t. recording (\<lambda>_. Waited d) (rh_sleep H d t))"
  "rh_execute (observed_host H) a = (\<lambda>t. recording (Executed a) (rh_execute H a t))"
  "rh_validateAndAuthorize (observed_host H) a = (\<lambda>t. recording (Authorized a) (rh_validateAndAuthorize H a t))"
  "rh_repairArguments (observed_host H) = map_option (\<lambda>f a e t. recording (Proposed a) (f a e t)) (rh_repairArguments H)"
  "rh_verifyWriteOutcome (observed_host H) = map_option (\<lambda>f a e t. recording (Verified a) (f a e t)) (rh_verifyWriteOutcome H)"
  by (simp_all add: observed_host_def)

section \<open>The protocol\<close>

record 'v ledger =
  lg_arguments :: json
  lg_seen :: "js_string set"
  lg_executions :: nat
  lg_authorized :: bool
  lg_cleared :: bool
  lg_value :: "'v option"
  lg_receipt :: "ToolRecoverySummary option"

definition value_of :: "('x, 'v) race \<Rightarrow> 'v option" where
  "value_of r = (case r of Settled (Inr v) \<Rightarrow> Some v | _ \<Rightarrow> None)"

text \<open>
  An execution needs the current arguments, fewer than \<open>n\<close> executions before it, permission, and
  for a repetition an authorisation right before it. A write withdraws the permission; only a
  report that it was not applied gives it back. Proposed arguments must be new. A value ends the
  run up to its receipt, and a receipt ends it.
\<close>

definition recovery_step :: "(rat \<Rightarrow> js_string) \<Rightarrow> nat \<Rightarrow> bool \<Rightarrow> 'v ledger \<Rightarrow> ('x, 'v) recovery_call \<Rightarrow> 'v ledger option" where
  "recovery_step R n isRead L call =
     (if lg_receipt L \<noteq> None then None
      else case call of Receipt s \<Rightarrow> Some (L\<lparr>lg_receipt := Some s\<rparr>)
      | Waited d \<Rightarrow> if lg_value L = None then Some L else None
      | Executed a r \<Rightarrow>
          if lg_value L = None \<and> a = lg_arguments L \<and> lg_executions L < n \<and> lg_cleared L \<and> (lg_executions L = 0 \<or> lg_authorized L)
          then Some (L\<lparr>lg_executions := lg_executions L + 1, lg_authorized := False, lg_cleared := isRead, lg_value := value_of r\<rparr>)
          else None
      | Authorized a r \<Rightarrow>
          if lg_value L = None \<and> a = lg_arguments L then Some (L\<lparr>lg_authorized := r = Settled (Inr ())\<rparr>) else None
      | Verified a r \<Rightarrow>
          if lg_value L = None \<and> a = lg_arguments L \<and> \<not> isRead
          then Some (L\<lparr>lg_authorized := False, lg_cleared := r = Settled (Inr WriteNotApplied),
            lg_value := (case value_of r of Some (WriteCompleted v) \<Rightarrow> Some v | _ \<Rightarrow> None)\<rparr>)
          else None
      | Proposed a r \<Rightarrow>
          if lg_value L = None \<and> a = lg_arguments L \<and> isRead
          then (case value_of r of
              Some (Some b) \<Rightarrow> if canonical R b \<in> lg_seen L then Some (L\<lparr>lg_cleared := False\<rparr>)
                else Some (L\<lparr>lg_arguments := b, lg_seen := insert (canonical R b) (lg_seen L), lg_authorized := False\<rparr>)
            | _ \<Rightarrow> Some (L\<lparr>lg_cleared := False\<rparr>))
          else None)"

definition fresh_ledger :: "(rat \<Rightarrow> js_string) \<Rightarrow> json \<Rightarrow> 'v ledger" where
  "fresh_ledger R arguments = \<lparr>lg_arguments = arguments, lg_seen = {canonical R arguments}, lg_executions = 0,
     lg_authorized = False, lg_cleared = True, lg_value = None, lg_receipt = None\<rparr>"

section \<open>Rules for the pieces\<close>

lemma obeys_bounded:
  assumes "\<And>e w. aborted w \<or> t \<le> 0 \<Longrightarrow> Q (Inl e) L"
    and "\<And>x. \<exists>L'. step L (c x) = Some L' \<and> (case x of Settled r \<Rightarrow> Q r L' | _ \<Rightarrow> \<forall>e. Q (Inl e) L')"
  shows "obeys step L (bounded aborted t (\<lambda>t. recording c (f t))) Q"
  unfolding obeys_def calls_def
proof (intro allI impI)
  fix w tr r v u assume run: "bounded aborted t (\<lambda>t. recording c (f t)) (w, tr) = (r, v, u)"
  show "\<exists>s. u = tr @ s \<and> (\<exists>L'. follow step L s = Some L' \<and> Q r L')"
  proof (cases "aborted (w, tr) \<or> t \<le> 0")
    case True
    then have "Q (Inl e) L" for e using assms(1) by blast
    with True run show ?thesis by (auto simp: bounded_def split: if_splits)
  next
    case False
    obtain x w' where f: "f t w = (x, w')" by force
    from assms(2) [of x] obtain L' where L': "step L (c x) = Some L'" "case x of Settled r \<Rightarrow> Q r L' | _ \<Rightarrow> \<forall>e. Q (Inl e) L'" by blast
    from False run f have "u = tr @ [c x]" "Q r L'" using L'(2) by (auto simp: bounded_def recording_def split: race.splits)
    with L'(1) show ?thesis by auto
  qed
qed

lemma obeys_if_aborted: "obeys step L m Q \<Longrightarrow> obeys step L n Q \<Longrightarrow> obeys step L (if_aborted H m n) Q"
  unfolding if_aborted_def obeys_def calls_def by auto

lemma obeys_remaining: "(\<And>left. Q (Inr left) L) \<Longrightarrow> obeys step L (remaining (observed_host H) B) Q"
  unfolding remaining_def
  by (intro obeys_after [where P = "\<lambda>r L'. L' = L \<and> (\<exists>a. r = Inr a)"])
    (auto simp: observed_host_def intro: obeys_reading obeys_returning)

lemma obeys_after_remaining: "(\<And>left. obeys step L (f left) Q) \<Longrightarrow> obeys step L (after (remaining (observed_host H) B) f) Q"
  by (rule obeys_after [where P = "\<lambda>r L'. L' = L \<and> (\<exists>a. r = Inr a)"]) (auto intro: obeys_remaining)

lemma calls_caught_passing: "calls (caught (passing g)) (\<lambda>r s. s = [] \<and> (\<exists>a. r = Inr a))"
  by (rule calls_caught) (rule calls_mono [OF calls_passing], auto)

lemma obeys_classified: "(\<And>f. Q (Inr f) L) \<Longrightarrow> obeys step L (classified (observed_host H) a error) Q"
proof -
  assume Q: "\<And>f. Q (Inr f) L"
  show ?thesis
  proof (cases error)
    case (FailureError f)
    with Q show ?thesis by (simp add: classified_def obeys_returning)
  next
    case (OtherError x)
    show ?thesis
    proof (cases "rh_classify H")
      case None
      with OtherError Q show ?thesis by (simp add: classified_def observed_host_def obeys_returning)
    next
      case (Some g)
      show ?thesis
        unfolding classified_def observed_host_def OtherError Some
        apply simp
        apply (rule obeys_after [where P = "\<lambda>r L'. L' = L \<and> (\<exists>a. r = Inr a)"])
          apply (rule obeys_quiet [OF calls_caught_passing])
          apply (simp_all add: Q obeys_returning)
        done
    qed
  qed
qed

section \<open>A cycle\<close>

text \<open>What holds of the ledger between the calls of a cycle, and in addition before a cycle.\<close>

definition in_step :: "recovery_bounds \<Rightarrow> 'x recovery \<Rightarrow> 'v ledger \<Rightarrow> bool" where
  "in_step B st L \<longleftrightarrow> lg_arguments L = rc_arguments st \<and> lg_seen L = rc_seen st \<and> lg_value L = None \<and> lg_receipt L = None \<and>
     int (lg_executions L) \<le> rc_attempts st \<and> rc_attempts st \<le> rc_cycles st \<and> rc_cycles st \<le> rb_maximum B"

definition ready :: "recovery_bounds \<Rightarrow> 'x recovery \<Rightarrow> 'v ledger \<Rightarrow> bool" where
  "ready B st L \<longleftrightarrow> in_step B st L \<and> lg_cleared L \<and> rc_failures st = rc_cycles st \<and> 0 \<le> rc_attempts st \<and>
     (0 < rc_cycles st \<longrightarrow> 0 < rc_attempts st)"

text \<open>How a run ends: the receipt is the one that was recorded, if receipts are.\<close>

definition receipt_ok :: "('w, 'x, 'v) recovery_host \<Rightarrow> recovery_bounds \<Rightarrow> ToolRecoverySummary \<Rightarrow> 'v ledger \<Rightarrow> bool" where
  "receipt_ok H B s L \<longleftrightarrow> lg_receipt L = (if rh_record H = None then None else Some s) \<and>
     int (lg_executions L) \<le> ts_attempts s \<and> ts_attempts s \<le> rb_maximum B"

definition ends_well :: "('w, 'x, 'v) recovery_host \<Rightarrow> recovery_bounds \<Rightarrow> 'x recovery_error + ('v, 'x) cycle_result \<Rightarrow> 'v ledger \<Rightarrow> bool" where
  "ends_well H B r L \<longleftrightarrow> (case r of
     Inr (Finished v None) \<Rightarrow> lg_value L = Some v \<and> lg_receipt L = None \<and> lg_executions L = 1
   | Inr (Finished v (Some s)) \<Rightarrow> lg_value L = Some v \<and> ts_status s = Recovered \<and> receipt_ok H B s L
   | Inl (ToolRecoveryError f s c) \<Rightarrow> lg_value L = None \<and> ts_status s = NotRecovered \<and> receipt_ok H B s L
   | _ \<Rightarrow> False)"

definition cycle_ok :: "('w, 'x, 'v) recovery_host \<Rightarrow> recovery_bounds \<Rightarrow> int \<Rightarrow> 'x recovery_error + ('v, 'x) cycle_result \<Rightarrow> 'v ledger \<Rightarrow> bool" where
  "cycle_ok H B k r L \<longleftrightarrow> (case r of Inr (NextCycle st) \<Rightarrow> ready B st L \<and> rc_cycles st = k | _ \<Rightarrow> ends_well H B r L)"

definition protocol :: "(rat \<Rightarrow> js_string) \<Rightarrow> recovery_bounds \<Rightarrow> 'v ledger \<Rightarrow> ('x, 'v) recovery_call \<Rightarrow> 'v ledger option" where
  "protocol R B L call = recovery_step R (nat (rb_maximum B)) (rb_isRead B) L call"

lemma protocol_eq: "protocol R B = recovery_step R (nat (rb_maximum B)) (rb_isRead B)"
  by (intro ext) (simp add: protocol_def)

lemmas protocol_defs = protocol_def recovery_step_def

lemma obeys_record:
  assumes "lg_receipt L = None" "\<And>L'. L' = L\<lparr>lg_receipt := if rh_record H = None then None else Some s\<rparr> \<Longrightarrow> Q (Inr ()) L'"
  shows "obeys (protocol R B) L (record_summary (observed_host H) s) Q"
proof (cases "rh_record H")
  case None
  with assms show ?thesis by (cases L) (simp add: record_summary_def observed_host_def obeys_returning)
next
  case (Some wr)
  then show ?thesis
    unfolding record_summary_def observed_host_def
    apply simp
    apply (rule obeys_after [where P = "\<lambda>r L'. (\<exists>x. r = Inr x) \<and> L' = L\<lparr>lg_receipt := Some s\<rparr>"])
      apply (rule obeys_caught, rule obeys_bounded)
       apply (use assms Some in \<open>auto simp: protocol_defs intro!: obeys_returning split: race.split\<close>)
    done
qed

text \<open>What the calls of a cycle keep, whatever they answer.\<close>

definition pending :: "recovery_bounds \<Rightarrow> 'x recovery \<Rightarrow> 'v ledger \<Rightarrow> bool" where
  "pending B st L \<longleftrightarrow> in_step B st L \<and> rc_failures st = rc_cycles st \<and> 0 < rc_attempts st"

lemma obeys_fail:
  assumes "lg_value L = None" "lg_receipt L = None" "int (lg_executions L) \<le> rc_attempts st" "rc_attempts st \<le> rb_maximum B"
  shows "obeys (protocol R B) L (recovery_fail (observed_host H) B st reason) (cycle_ok H B k)"
  unfolding recovery_fail_def Let_def
  by (rule obeys_after [where P = "\<lambda>r L'. L' = L\<lparr>lg_receipt := if rh_record H = None then None else Some (summary st NotRecovered reason)\<rparr> \<and> (\<exists>a. r = Inr a)"])
    (use assms in \<open>auto intro!: obeys_record obeys_throwing simp: cycle_ok_def ends_well_def receipt_ok_def summary_def\<close>)

lemma obeys_recovered:
  assumes "lg_value L = Some v" "lg_receipt L = None" "int (lg_executions L) \<le> rc_attempts st" "rc_attempts st \<le> rb_maximum B"
  shows "obeys (protocol R B) L (recovered (observed_host H) st v) (cycle_ok H B k)"
  unfolding recovered_def Let_def
  by (rule obeys_after [where P = "\<lambda>r L'. L' = L\<lparr>lg_receipt := if rh_record H = None then None else Some (summary st Recovered RecoveryCompleted)\<rparr> \<and> (\<exists>a. r = Inr a)"])
    (use assms in \<open>auto intro!: obeys_record obeys_returning simp: cycle_ok_def ends_well_def receipt_ok_def summary_def\<close>)

lemma fail_in_step: "in_step B st L \<Longrightarrow> obeys (protocol R B) L (recovery_fail (observed_host H) B st reason) (cycle_ok H B k)"
  by (rule obeys_fail) (auto simp: in_step_def)

text \<open>A call of the host whose outcome decides how the cycle goes on.\<close>

lemma obeys_call:
  assumes "\<And>e. obeys stp L (g (Inl e)) Q"
    and "\<And>x. \<exists>L'. stp L (c x) = Some L' \<and> (case x of Settled r \<Rightarrow> obeys stp L' (g r) Q | _ \<Rightarrow> \<forall>e. obeys stp L' (g (Inl e)) Q)"
  shows "obeys stp L (after (caught (bounded aborted t (\<lambda>t. recording c (f t)))) g) Q"
proof (rule obeys_after)
  show "obeys stp L (caught (bounded aborted t (\<lambda>t. recording c (f t)))) (\<lambda>r L'. \<exists>x. r = Inr x \<and> obeys stp L' (g x) Q)"
  proof (rule obeys_caught, rule obeys_bounded)
    fix x
    from assms(2) [of x] show "\<exists>L'. stp L (c x) = Some L' \<and> (case x of Settled r \<Rightarrow> \<exists>x. Inr r = Inr x \<and> obeys stp L' (g x) Q
        | _ \<Rightarrow> \<forall>e. \<exists>x. Inr (Inl e) = Inr x \<and> obeys stp L' (g x) Q)"
      by (cases x) auto
  qed (use assms(1) in auto)
qed auto

lemma obeys_wait:
  assumes "pending B st L" "lg_cleared L" "rc_cycles st = k"
  shows "obeys (protocol R B) L (wait_for_retry (observed_host H) B st) (cycle_ok H B k)"
proof -
  have L: "in_step B st L" "ready B st L" using assms by (auto simp: ready_def pending_def)
  have next_ok: "cycle_ok H B k (Inr (NextCycle st)) L" using L assms(3) by (simp add: cycle_ok_def)
  have fails: "obeys (protocol R B) L (recovery_fail (observed_host H) B (st\<lparr>rc_failure := f\<rparr>) reason) (cycle_ok H B k)" for f reason
    by (rule fail_in_step) (use L(1) in \<open>simp add: in_step_def\<close>)
  have "obeys (protocol R B) L (after (caught (bounded ab left (rh_sleep (observed_host H) (retry_delay_ms B st)))) (\<lambda>r. case r of
          Inr _ \<Rightarrow> returning (NextCycle st)
        | Inl _ \<Rightarrow> if_aborted (observed_host H) (recovery_fail (observed_host H) B (st\<lparr>rc_failure := CANCELLED\<rparr>) RecoveryDeadline)
            (recovery_fail (observed_host H) B (st\<lparr>rc_failure := TIMEOUT\<rparr>) RecoveryDeadline))) (cycle_ok H B k)" for ab left
    unfolding observed_calls
    by (rule obeys_call)
      (use L(1) in \<open>auto simp: protocol_defs in_step_def intro!: obeys_if_aborted obeys_returning next_ok fails split: race.split sum.split\<close>)
  then show ?thesis
    unfolding wait_for_retry_def Let_def
    by (intro obeys_after_remaining obeys_if obeys_returning next_ok fail_in_step [OF L(1)])
qed

lemma obeys_repair:
  assumes "pending B st L" "lg_cleared L" "rc_cycles st = k"
  shows "obeys (protocol R B) L (repair_arguments R (observed_host H) B st) (cycle_ok H B k)"
proof (cases "rh_repairArguments H")
  case None
  with assms show ?thesis by (simp add: repair_arguments_def observed_calls fail_in_step pending_def)
next
  case (Some propose)
  have L: "in_step B st L" using assms by (simp add: pending_def)
  have kept: "in_step B st (L\<lparr>lg_cleared := False\<rparr>)" using L by (simp add: in_step_def)
  have next_ok: "cycle_ok H B k (Inr (NextCycle (st\<lparr>rc_arguments := b, rc_seen := insert (canonical R b) (rc_seen st)\<rparr>)))
      (L\<lparr>lg_arguments := b, lg_seen := insert (canonical R b) (rc_seen st), lg_authorized := False\<rparr>)" for b
    using assms by (simp add: cycle_ok_def ready_def pending_def in_step_def)
  have "obeys (protocol R B) L (after (caught (bounded ab left (\<lambda>t. recording (Proposed (rc_arguments st)) (propose (rc_arguments st) (rc_failure st) t)))) (\<lambda>r. case r of
              Inl _ \<Rightarrow> recovery_fail (observed_host H) B st NoProgress
            | Inr None \<Rightarrow> recovery_fail (observed_host H) B st NoProgress
            | Inr (Some candidate) \<Rightarrow>
                if canonical R candidate \<in> rc_seen st then recovery_fail (observed_host H) B st NoProgress
                else returning (NextCycle (st\<lparr>rc_arguments := candidate,
                  rc_seen := insert (canonical R candidate) (rc_seen st)\<rparr>)))) (cycle_ok H B k)" if "rb_isRead B" for ab left
    by (rule obeys_call)
      (use that L in \<open>auto simp: protocol_defs value_of_def in_step_def split: race.split sum.split option.split
        intro!: obeys_returning next_ok fail_in_step [OF L] fail_in_step [OF kept]\<close>)
  then show ?thesis
    unfolding repair_arguments_def observed_calls Some option.map option.case
    by (intro obeys_after_remaining obeys_if fail_in_step [OF L]) simp_all
qed

lemma obeys_try_again:
  assumes "pending B st L" "lg_cleared L" "rc_cycles st = k"
  shows "obeys (protocol R B) L (try_again R (observed_host H) B st) (cycle_ok H B k)"
proof -
  have L: "in_step B st L" using assms by (simp add: pending_def)
  show ?thesis
    unfolding try_again_def
    by (intro obeys_after_remaining obeys_if fail_in_step [OF L] obeys_repair [OF assms] obeys_wait [OF assms])
qed

lemma obeys_verify:
  assumes "pending B st L" "\<not> rb_isRead B" "rc_cycles st = k"
  shows "obeys (protocol R B) L (verify_write R (observed_host H) B st) (cycle_ok H B k)"
proof (cases "rh_verifyWriteOutcome H")
  case None
  with assms show ?thesis by (simp add: verify_write_def observed_calls fail_in_step pending_def)
next
  case (Some verify)
  have L: "in_step B st L" using assms by (simp add: pending_def)
  have kept: "in_step B st (L\<lparr>lg_authorized := False, lg_cleared := b, lg_value := None\<rparr>)" for b using L by (simp add: in_step_def)
  have pend: "pending B st (L\<lparr>lg_authorized := False, lg_cleared := True, lg_value := None\<rparr>)" using assms(1) kept by (simp add: pending_def)
  have completes: "obeys (protocol R B) (L\<lparr>lg_authorized := False, lg_cleared := b, lg_value := Some v\<rparr>) (recovered (observed_host H) st v) (cycle_ok H B k)" for b v
    by (rule obeys_recovered) (use L in \<open>simp_all add: in_step_def\<close>)
  have "obeys (protocol R B) L (after (caught (bounded ab left (\<lambda>t. recording (Verified (rc_arguments st)) (verify (rc_arguments st) (rc_failure st) t)))) (\<lambda>r. case r of
              Inl _ \<Rightarrow> recovery_fail (observed_host H) B st OutcomeUnknown
            | Inr (WriteCompleted v) \<Rightarrow> recovered (observed_host H) st v
            | Inr WriteUnknown \<Rightarrow> recovery_fail (observed_host H) B st OutcomeUnknown
            | Inr WriteNotApplied \<Rightarrow>
                if tf_category (rc_failure st) \<noteq> TransientFailure then recovery_fail (observed_host H) B st RecoveryTerminal
                else try_again R (observed_host H) B st)) (cycle_ok H B k)" for ab left
    by (rule obeys_call)
      (use assms(2) L in \<open>auto simp: protocol_defs value_of_def in_step_def split: race.split sum.split write_outcome.split
        intro!: fail_in_step [OF L] fail_in_step [OF kept] completes obeys_try_again [OF pend _ assms(3)]\<close>)
  then show ?thesis
    unfolding verify_write_def observed_calls Some option.map option.case
    by (intro obeys_after_remaining obeys_if fail_in_step [OF L]) simp_all
qed

lemma obeys_failure:
  assumes "in_step B st L" "rc_failures st + 1 = rc_cycles st" "0 < rc_attempts st" "rb_isRead B \<Longrightarrow> lg_cleared L" "rc_cycles st = k"
  shows "obeys (protocol R B) L (after_failure R (observed_host H) B st error) (cycle_ok H B k)"
  unfolding after_failure_def Let_def
proof (rule obeys_after [where P = "\<lambda>r L'. L' = L \<and> (\<exists>f. r = Inr f)"])
  fix failure :: ToolFailure and L' assume "L' = L \<and> (\<exists>f. Inr failure = Inr f)"
  then have L': "L' = L" by simp
  let ?st = "st\<lparr>rc_cause := Some error, rc_failures := rc_failures st + 1, rc_failure := failure\<rparr>"
  have pend: "pending B ?st L" using assms by (simp add: pending_def in_step_def)
  have "in_step B ?st L" "in_step B (?st\<lparr>rc_failure := CANCELLED\<rparr>) L" using assms(1) by (simp_all add: in_step_def)
  note fails = this [THEN fail_in_step]
  show "obeys (protocol R B) L' (if_aborted (observed_host H) (recovery_fail (observed_host H) B (?st\<lparr>rc_failure := CANCELLED\<rparr>) RecoveryTerminal)
       (if tf_category failure \<in> {PermissionDenied, BusinessRule, CancelledFailure, MissingCapability} \<or>
           rb_isRead B \<and> tf_category failure = BugFailure
        then recovery_fail (observed_host H) B ?st RecoveryTerminal
        else if \<not> rb_isRead B then verify_write R (observed_host H) B ?st
        else try_again R (observed_host H) B ?st)) (cycle_ok H B k)"
    unfolding L' by (intro obeys_if_aborted obeys_if fails obeys_verify [OF pend] obeys_try_again [OF pend]) (use assms(4,5) in simp_all)
qed (auto intro: obeys_classified)

lemma obeys_execute:
  assumes L: "in_step B st L" "lg_cleared L" "lg_executions L = 0 \<or> lg_authorized L" "rc_attempts st < rc_cycles st" "0 \<le> rc_attempts st"
    and failures: "rc_failures st + 1 = rc_cycles st" and k: "rc_cycles st = k"
  shows "obeys (protocol R B) L (execute_attempt R (observed_host H) B st) (cycle_ok H B k)"
proof -
  let ?st = "st\<lparr>rc_attempts := rc_attempts st + 1\<rparr>"
  define M where "M v = L\<lparr>lg_executions := lg_executions L + 1, lg_authorized := False, lg_cleared := rb_isRead B, lg_value := v\<rparr>" for v
  have "lg_executions L < nat (rb_maximum B)" using L(1,4) unfolding in_step_def by linarith
  with L have executed: "protocol R B L (Executed (rc_arguments ?st) r) = Some (M (value_of r))" for r
    by (simp add: protocol_defs in_step_def M_def)
  have failed: "obeys (protocol R B) L (after_failure R (observed_host H) B ?st e) (cycle_ok H B k)"
    "obeys (protocol R B) (M None) (after_failure R (observed_host H) B ?st e) (cycle_ok H B k)" for e
    by (rule obeys_failure; use L failures k in \<open>simp add: in_step_def M_def\<close>)+
  have recovers: "obeys (protocol R B) (M (Some v)) (recovered (observed_host H) ?st v) (cycle_ok H B k)" for v
    by (rule obeys_recovered) (use L(1,4) in \<open>simp_all add: in_step_def M_def\<close>)
  have once: "cycle_ok H B k (Inr (Finished v None)) (M (Some v))" if "rc_failures st = 0" for v
    using that L failures by (auto simp: cycle_ok_def ends_well_def in_step_def M_def)
  have "obeys (protocol R B) L (after (caught (bounded ab left (\<lambda>t. recording (Executed (rc_arguments ?st)) (rh_execute H (rc_arguments ?st) t)))) (\<lambda>r. case r of
        Inl error \<Rightarrow> after_failure R (observed_host H) B ?st error
      | Inr v \<Rightarrow> if rc_failures ?st = 0 then returning (Finished v None) else recovered (observed_host H) ?st v)) (cycle_ok H B k)" for ab left
    by (rule obeys_call [where c = "Executed (rc_arguments ?st)"], simp only: sum.case failed, unfold executed)
      (auto simp: value_of_def split: race.split sum.split intro!: failed recovers obeys_returning once)
  then show ?thesis
    unfolding execute_attempt_def Let_def observed_calls by (intro obeys_after_remaining)
qed

lemma obeys_cycle:
  assumes "ready B st L" "rc_cycles st < rb_maximum B"
  shows "obeys (protocol R B) L (recovery_cycle R (observed_host H) B st) (cycle_ok H B (rc_cycles st + 1))"
proof -
  let ?st = "st\<lparr>rc_cycles := rc_cycles st + 1\<rparr>"
  have L: "in_step B ?st L" "lg_cleared L" "rc_failures ?st + 1 = rc_cycles ?st" "rc_attempts st < rc_cycles st + 1"
    using assms by (auto simp: ready_def in_step_def)
  then have fails: "obeys (protocol R B) L (recovery_fail (observed_host H) B (?st\<lparr>rc_failure := f\<rparr>) reason) (cycle_ok H B k)"
    "obeys (protocol R B) L (recovery_fail (observed_host H) B ?st reason) (cycle_ok H B k)" for f reason k
    by (auto intro!: fail_in_step simp: in_step_def)
  have first: "obeys (protocol R B) L (execute_attempt R (observed_host H) B ?st) (cycle_ok H B (rc_cycles st + 1))" if "rc_attempts st = 0"
    by (rule obeys_execute [OF L(1,2)]) (use that assms L in \<open>auto simp: ready_def in_step_def\<close>)
  define M where "M b = L\<lparr>lg_authorized := b\<rparr>" for b
  have authorizes: "protocol R B L (Authorized (rc_arguments ?st) r) = Some (M (r = Settled (Inr ())))" for r
    using L by (simp add: protocol_defs in_step_def M_def)
  have "obeys (protocol R B) L (after (caught (bounded ab left (\<lambda>t. recording (Authorized (rc_arguments ?st)) (rh_validateAndAuthorize H (rc_arguments ?st) t)))) (\<lambda>r.
           case r of
             Inl error \<Rightarrow> after_failure R (observed_host H) B ?st error
           | Inr _ \<Rightarrow> execute_attempt R (observed_host H) B ?st)) (cycle_ok H B (rc_cycles st + 1))" if "rc_attempts st \<noteq> 0" for ab left
  proof -
    have attempts: "0 < rc_attempts st" using that assms by (simp add: ready_def)
    have failed: "obeys (protocol R B) L (after_failure R (observed_host H) B ?st e) (cycle_ok H B (rc_cycles st + 1))"
      "obeys (protocol R B) (M b) (after_failure R (observed_host H) B ?st e) (cycle_ok H B (rc_cycles st + 1))" for e b
      by (rule obeys_failure; use L attempts in \<open>simp add: in_step_def M_def\<close>)+
    have executes: "obeys (protocol R B) (M True) (execute_attempt R (observed_host H) B ?st) (cycle_ok H B (rc_cycles st + 1))"
      by (rule obeys_execute; use L attempts in \<open>simp add: in_step_def M_def\<close>)
    show ?thesis
      by (rule obeys_call [where c = "Authorized (rc_arguments ?st)"], simp only: sum.case failed, unfold authorizes)
        (auto split: race.split sum.split intro!: failed executes)
  qed
  with first show ?thesis
    unfolding recovery_cycle_def Let_def observed_calls
    by (intro obeys_if_aborted obeys_if obeys_after_remaining fails) simp_all
qed

lemma obeys_loop:
  assumes "ready B st L" "rb_maximum B = rc_cycles st + int n"
  shows "obeys (protocol R B) L (recovery_loop n R (observed_host H) B st) (ends_well H B)"
  using assms
proof (induction n arbitrary: st L)
  case 0
  have "obeys (protocol R B) L (recovery_fail (observed_host H) B st AttemptLimit) (ends_well H B)"
  proof (rule obeys_mono)
    show "obeys (protocol R B) L (recovery_fail (observed_host H) B st AttemptLimit) (cycle_ok H B (- 1))"
      by (rule fail_in_step) (use 0 in \<open>simp add: ready_def\<close>)
  qed (auto simp: cycle_ok_def ready_def in_step_def ends_well_def split: sum.splits cycle_result.splits option.splits)
  then show ?case by simp
next
  case (Suc n)
  have "obeys (protocol R B) L (recovery_cycle R (observed_host H) B st) (cycle_ok H B (rc_cycles st + 1))"
    by (rule obeys_cycle) (use Suc.prems in simp_all)
  then show ?case
    unfolding recovery_loop.simps
  proof (rule obeys_after)
    fix r L' assume r: "cycle_ok H B (rc_cycles st + 1) (Inr r) L'"
    show "obeys (protocol R B) L' (case r of Finished v s \<Rightarrow> returning (Finished v s)
        | NextCycle st' \<Rightarrow> recovery_loop n R (observed_host H) B st') (ends_well H B)"
      using r Suc.prems(2) Suc.IH by (cases r) (auto simp: cycle_ok_def intro: obeys_returning)
  qed (simp add: cycle_ok_def)
qed

section \<open>What the protocol means\<close>

fun is_execution :: "('x, 'v) recovery_call \<Rightarrow> bool" where
  "is_execution (Executed a r) = True"
| "is_execution _ = False"

fun receipts :: "('x, 'v) recovery_call list \<Rightarrow> ToolRecoverySummary list" where
  "receipts [] = []"
| "receipts (Receipt s # cs) = s # receipts cs"
| "receipts (c # cs) = receipts cs"

lemma receipts_append: "receipts (s @ t) = receipts s @ receipts t"
  by (induction s rule: receipts.induct) simp_all

definition answer_of :: "('x, 'v) recovery_call \<Rightarrow> 'v option" where
  "answer_of c = (case c of Executed a r \<Rightarrow> value_of r
     | Verified a r \<Rightarrow> (case value_of r of Some (WriteCompleted v) \<Rightarrow> Some v | _ \<Rightarrow> None) | _ \<Rightarrow> None)"

lemma step_facts:
  assumes "recovery_step R n isRead L c = Some M"
  shows "lg_executions M = lg_executions L + (if is_execution c then 1 else 0)" "is_execution c \<Longrightarrow> lg_executions L < n"
    "lg_receipt L = None" "receipts [c] = (case lg_receipt M of None \<Rightarrow> [] | Some s \<Rightarrow> [s])"
    "lg_authorized M \<Longrightarrow> c = Authorized (lg_arguments M) (Settled (Inr ())) \<or> lg_authorized L \<and> lg_arguments M = lg_arguments L"
    "\<not> isRead \<Longrightarrow> lg_arguments M = lg_arguments L"
    "\<not> isRead \<Longrightarrow> lg_cleared M \<Longrightarrow> c = Verified (lg_arguments L) (Settled (Inr WriteNotApplied)) \<or> lg_cleared L"
    "lg_value M = (case answer_of c of Some v \<Rightarrow> Some v | None \<Rightarrow> lg_value L)" "answer_of c \<noteq> None \<Longrightarrow> lg_value L = None"
  using assms
  by (auto simp: recovery_step_def answer_of_def split: if_splits recovery_call.splits option.splits write_outcome.splits)

lemma follow_snoc: "follow stp L (s @ [c]) = Some M \<longleftrightarrow> (\<exists>L'. follow stp L s = Some L' \<and> stp L' c = Some M)"
  by (auto simp: follow_append split: option.splits)

lemma follow_executions:
  assumes "follow (recovery_step R n isRead) L s = Some M" "lg_executions L \<le> n"
  shows "lg_executions M = lg_executions L + length (filter is_execution s) \<and> lg_executions M \<le> n"
  using assms(1)
proof (induction s arbitrary: M rule: rev_induct)
  case (snoc c s)
  then obtain L' where "follow (recovery_step R n isRead) L s = Some L'" and c: "recovery_step R n isRead L' c = Some M"
    by (auto simp: follow_snoc)
  with snoc.IH step_facts(1,2) [OF c] show ?case by (auto split: if_splits)
qed (use assms(2) in simp)

lemma follow_authorized:
  assumes "follow (recovery_step R n isRead) L s = Some M" "lg_authorized M" "\<not> lg_authorized L"
  shows "Authorized (lg_arguments M) (Settled (Inr ())) \<in> set s"
  using assms(1,2)
proof (induction s arbitrary: M rule: rev_induct)
  case (snoc c s)
  then obtain L' where "follow (recovery_step R n isRead) L s = Some L'" and c: "recovery_step R n isRead L' c = Some M"
    by (auto simp: follow_snoc)
  with snoc.IH step_facts(5) [OF c snoc.prems(2)] show ?case by auto
qed (use assms(3) in simp)

lemma follow_cleared:
  assumes "follow (recovery_step R n False) L s = Some M"
  shows "lg_arguments M = lg_arguments L \<and>
    (lg_cleared M \<longrightarrow> lg_cleared L \<or> Verified (lg_arguments L) (Settled (Inr WriteNotApplied)) \<in> set s)"
  using assms
proof (induction s arbitrary: M rule: rev_induct)
  case (snoc c s)
  then obtain L' where "follow (recovery_step R n False) L s = Some L'" and c: "recovery_step R n False L' c = Some M"
    by (auto simp: follow_snoc)
  with snoc.IH step_facts(6,7) [OF c] show ?case by auto
qed simp

lemma follow_value:
  assumes "follow (recovery_step R n isRead) L s = Some M" "lg_value L = None"
  shows "(\<forall>c \<in> set s. \<forall>v. answer_of c = Some v \<longrightarrow> lg_value M = Some v) \<and>
    (\<forall>v. lg_value M = Some v \<longrightarrow> (\<exists>c \<in> set s. answer_of c = Some v))"
  using assms(1)
proof (induction s arbitrary: M rule: rev_induct)
  case (snoc c s)
  then obtain L' where "follow (recovery_step R n isRead) L s = Some L'" and c: "recovery_step R n isRead L' c = Some M"
    by (auto simp: follow_snoc)
  with snoc.IH step_facts(8,9) [OF c] show ?case by (auto split: option.splits)
qed (use assms(2) in simp)

lemma follow_receipts:
  assumes "follow (recovery_step R n isRead) L s = Some M" "lg_receipt L = None"
  shows "receipts s = (case lg_receipt M of None \<Rightarrow> [] | Some r \<Rightarrow> [r])"
  using assms(1)
proof (induction s arbitrary: M rule: rev_induct)
  case (snoc c s)
  then obtain L' where "follow (recovery_step R n isRead) L s = Some L'" and c: "recovery_step R n isRead L' c = Some M"
    by (auto simp: follow_snoc)
  with snoc.IH step_facts(3,4) [OF c] show ?case by (simp add: receipts_append)
qed (use assms(2) in simp)

text \<open>Two executions, and the calls between them.\<close>

lemma follow_repetition:
  assumes "follow (recovery_step R n isRead) L (xs @ Executed a x # ys @ Executed b y # zs) = Some M"
  shows "Authorized b (Settled (Inr ())) \<in> set ys \<and>
    (\<not> isRead \<longrightarrow> b = a \<and> Verified a (Settled (Inr WriteNotApplied)) \<in> set ys)"
proof -
  from assms obtain L1 L2 L3 L4 where L: "recovery_step R n isRead L1 (Executed a x) = Some L2"
      "follow (recovery_step R n isRead) L2 ys = Some L3" "recovery_step R n isRead L3 (Executed b y) = Some L4"
    by (auto simp: follow_append split: option.splits)
  have L2: "\<not> lg_authorized L2" "0 < lg_executions L2" "lg_arguments L2 = a" "lg_cleared L2 = isRead"
    using L(1) by (auto simp: recovery_step_def split: if_splits)
  have "lg_executions L3 = lg_executions L2 + length (filter is_execution ys)"
  proof -
    have "lg_executions L2 \<le> n" using step_facts(1,2) [OF L(1)] by simp
    from follow_executions [OF L(2) this] show ?thesis by simp
  qed
  then have L3: "lg_authorized L3" "lg_arguments L3 = b" "lg_cleared L3"
    using L(3) L2(2) by (auto simp: recovery_step_def split: if_splits)
  show ?thesis
  proof (intro conjI impI)
    show "Authorized b (Settled (Inr ())) \<in> set ys" using follow_authorized [OF L(2) L3(1) L2(1)] L3(2) by simp
    assume "\<not> isRead"
    with follow_cleared [of R n L2 ys L3] L(2) L2 L3 show "b = a" "Verified a (Settled (Inr WriteNotApplied)) \<in> set ys" by auto
  qed
qed

text \<open>What a run returns, by the calls it made.\<close>

definition recovery_outcome :: "('w, 'x, 'v) recovery_host \<Rightarrow> 'x recovery_error + ('v, 'x) cycle_result \<Rightarrow>
    ('x, 'v) recovery_call list \<Rightarrow> bool" where
  "recovery_outcome H r trace \<longleftrightarrow> (case r of
     Inr (Finished v s) \<Rightarrow> (\<exists>c \<in> set trace. answer_of c = Some v) \<and>
       receipts trace = (if rh_record H = None then [] else case s of None \<Rightarrow> [] | Some s \<Rightarrow> [s]) \<and>
       (case s of None \<Rightarrow> length (filter is_execution trace) = 1 | Some s \<Rightarrow> ts_status s = Recovered)
   | Inr (NextCycle _) \<Rightarrow> False
   | Inl (ToolRecoveryError f s c) \<Rightarrow> (\<forall>c \<in> set trace. answer_of c = None) \<and>
       receipts trace = (if rh_record H = None then [] else [s]) \<and> ts_status s = NotRecovered \<and>
       int (length (filter is_execution trace)) \<le> ts_attempts s \<and> ts_attempts s \<le> 3
   | Inl _ \<Rightarrow> trace = [])"

lemma recovery_limits_bound:
  "recovery_limits P = Inr (maximum, elapsed, attemptTimeout, initialDelay) \<Longrightarrow> 1 \<le> maximum \<and> maximum \<le> 3"
  by (auto simp: recovery_limits_def integer_def bindE_Inr_iff split: option.splits if_splits)

lemma fresh_ready: "0 \<le> rb_maximum B \<Longrightarrow> ready B (initial_recovery R arguments) (fresh_ledger R arguments)"
  by (simp add: ready_def in_step_def initial_recovery_def fresh_ledger_def)

lemma loop_outcome:
  assumes "ends_well H B r M" "follow (protocol R B) (fresh_ledger R arguments) trace = Some M" "rb_maximum B \<le> 3"
  shows "recovery_outcome H r trace"
proof -
  let ?L = "fresh_ledger R arguments"
  from assms(2) have run: "follow (recovery_step R (nat (rb_maximum B)) (rb_isRead B)) ?L trace = Some M"
    by (simp add: protocol_eq)
  have L: "lg_executions ?L = 0" "lg_value ?L = None" "lg_receipt ?L = None" by (simp_all add: fresh_ledger_def)
  have "lg_executions M = length (filter is_execution trace)" using follow_executions [OF run, unfolded L(1)] by simp
  note f = this follow_value [OF run L(2)] follow_receipts [OF run L(3)]
  have none: "lg_value M = None \<Longrightarrow> \<forall>c \<in> set trace. answer_of c = None" using f(2) by fastforce
  show ?thesis
  proof (cases r)
    case (Inl e)
    with assms(1,3) f(1,3) L none show ?thesis
      by (cases e) (simp_all add: ends_well_def recovery_outcome_def receipt_ok_def)
  next
    case (Inr res)
    show ?thesis
    proof (cases res)
      case (Finished v s)
      with Inr assms(1) f L show ?thesis
        by (cases s) (simp_all add: ends_well_def recovery_outcome_def receipt_ok_def)
    next
      case (NextCycle st)
      with Inr assms(1) show ?thesis by (simp add: ends_well_def)
    qed
  qed
qed

lemma after_reading: "after (reading (passing f)) g (w, t) = (case f w of (a, v) \<Rightarrow> g a (v, t))"
  by (simp add: after_def reading_def passing_def split: prod.split)

lemma observed_readings: "rh_now (observed_host H) = passing (rh_now H)" "rh_isRead (observed_host H) = passing (rh_isRead H)"
  by (simp_all add: observed_host_def)

text \<open>
  C33: whatever the tool and the host do, a call is executed at most three times. Every
  repetition was authorised anew with its arguments after the execution before it; a write is
  only repeated with the same arguments and after the host has reported that it was not applied.
  A value that is returned comes from an execution or from the verification of a write, a call
  that fails has no value, and exactly one receipt, if any, is recorded.
\<close>

theorem unverified_write_never_repeated:
  assumes run: "runToolWithRecovery R (observed_host H) P arguments (w, []) = (r, v, trace)"
  shows "length (filter is_execution trace) \<le> 3 \<and>
    (\<forall>xs a x ys b y zs. trace = xs @ Executed a x # ys @ Executed b y # zs \<longrightarrow> Authorized b (Settled (Inr ())) \<in> set ys \<and>
      (fst (rh_isRead H (snd (rh_now H w))) = Inr False \<longrightarrow> b = a \<and> Verified a (Settled (Inr WriteNotApplied)) \<in> set ys)) \<and>
    recovery_outcome H r trace"
proof (cases "recovery_limits P")
  case (Inl m)
  with run show ?thesis by (auto simp: runToolWithRecovery_def throwing_def recovery_outcome_def)
next
  case (Inr limits)
  then obtain n e t d where P: "recovery_limits P = Inr (n, e, t, d)" by (cases limits) auto
  obtain now w1 where now: "rh_now H w = (now, w1)" by force
  obtain isRead w2 where effect: "rh_isRead H w1 = (isRead, w2)" by force
  note start = after_reading observed_readings now effect
  show ?thesis
  proof (cases isRead)
    case (Inl x)
    with run P have "r = Inl (EffectThrew x) \<and> trace = []" by (auto simp: runToolWithRecovery_def throwing_def start)
    then show ?thesis by (simp add: recovery_outcome_def)
  next
    case read: (Inr b)
    let ?B = "\<lparr>rb_maximum = n, rb_attemptTimeout = t, rb_initialDelay = d, rb_deadline = now + e, rb_isRead = b\<rparr>"
    have n: "1 \<le> n" "n \<le> 3" using recovery_limits_bound [OF P] by auto
    have "recovery_loop (nat n) R (observed_host H) ?B (initial_recovery R arguments) (w2, []) = (r, v, trace)"
      using run P read by (simp add: runToolWithRecovery_def start)
    from obeysD [OF obeys_loop [OF fresh_ready] this] n
    obtain M where M: "follow (protocol R ?B) (fresh_ledger R arguments) trace = Some M" "ends_well H ?B r M"
      by (auto simp: initial_recovery_def)
    then have follows: "follow (recovery_step R (nat n) b) (fresh_ledger R arguments) trace = Some M"
      by (simp add: protocol_eq)
    have "length (filter is_execution trace) \<le> nat n" using follow_executions [OF follows] by (simp add: fresh_ledger_def)
    with n have "length (filter is_execution trace) \<le> 3" by simp
    moreover have "recovery_outcome H r trace" by (rule loop_outcome [OF M(2,1)]) (use n in simp)
    moreover have "Authorized b' (Settled (Inr ())) \<in> set ys \<and> (\<not> b \<longrightarrow> b' = a \<and> Verified a (Settled (Inr WriteNotApplied)) \<in> set ys)"
      if "trace = xs @ Executed a x # ys @ Executed b' y # zs" for xs a x ys b' y zs
      by (rule follow_repetition [OF follows [unfolded that]])
    ultimately show ?thesis using now effect read by auto
  qed
qed

text \<open>A write that times out, of which the host finds out that it was not applied.\<close>

definition lost_write :: "(nat, string, nat) recovery_host" where
  "lost_write = \<lparr>rh_now = Pair 0, rh_aborted = (\<lambda>_. False), rh_isRead = Pair (Inr False), rh_classify = None,
     rh_repairArguments = None, rh_verifyWriteOutcome = Some (\<lambda>_ _ _ w. (Settled (Inr WriteNotApplied), w)), rh_record = None,
     rh_execute = (\<lambda>_ _ w. (TimedOutFirst, Suc w)), rh_validateAndAuthorize = (\<lambda>_ _ w. (Settled (Inr ()), w)),
     rh_sleep = (\<lambda>_ _ w. (Settled (Inr ()), w))\<rparr>"

theorem unverified_write_never_repeated_witness:
  "\<exists>r v trace. runToolWithRecovery (\<lambda>_. []) (observed_host lost_write)
      \<lparr>tl_maxRecoveryAttempts = None, tl_maxElapsedMs = None, tl_attemptTimeoutMs = None, tl_initialDelayMs = None\<rparr> (JObj []) (0, []) = (r, v, trace) \<and>
    length (filter is_execution trace) \<le> 3 \<and> recovery_outcome lost_write r trace"
proof -
  obtain r v trace where run: "runToolWithRecovery (\<lambda>_. []) (observed_host lost_write)
      \<lparr>tl_maxRecoveryAttempts = None, tl_maxElapsedMs = None, tl_attemptTimeoutMs = None, tl_initialDelayMs = None\<rparr> (JObj []) (0, []) = (r, v, trace)"
    by (metis prod_cases3)
  with unverified_write_never_repeated [OF run] show ?thesis by blast
qed

end
