(* ===== verification/Timeline.thy ===== *)
theory Timeline
  imports State Sorting
begin

text \<open>
  \<^verbatim>\<open>src/conversation/timeline.ts\<close>: the order in which a user interface shows a projection. Turns
  that continue one another form a group; messages keep their order, and groups, approvals,
  tool results and failures are placed between them.
\<close>

section \<open>Activity groups\<close>

record ConversationActivityGroup =
  ag_id :: js_string
  ag_turnId :: js_string
  ag_turnIds :: "js_string list"

text \<open>\<^verbatim>\<open>turns.get\<close> of the map of turns: a later turn with the same identifier replaces an earlier one.\<close>

definition turn_of :: "ConversationTurnRecord list \<Rightarrow> js_string \<Rightarrow> ConversationTurnRecord option" where
  "turn_of turns = map_of (rev (map (\<lambda>t. (t_turn_id t, t)) turns))"

text \<open>The parent of a turn, where an empty identifier counts as none.\<close>

definition parent_of :: "ConversationTurnRecord list \<Rightarrow> js_string \<Rightarrow> js_string option" where
  "parent_of turns i = (case turn_of turns i of
     None \<Rightarrow> None
   | Some t \<Rightarrow> if t_continuation_of_turn_id t = Some [] then None else t_continuation_of_turn_id t)"

lemma parent_of_known: "parent_of turns i = Some p \<Longrightarrow> i \<in> t_turn_id ` set turns"
proof -
  assume "parent_of turns i = Some p"
  then obtain t where "map_of (rev (map (\<lambda>t. (t_turn_id t, t)) turns)) i = Some t"
    by (auto simp: parent_of_def turn_of_def split: option.splits)
  from map_of_SomeD [OF this] show ?thesis by auto
qed

text \<open>The \<^verbatim>\<open>while\<close> loop that follows the parents, with its set of visited turns.\<close>

function root_of :: "ConversationTurnRecord list \<Rightarrow> js_string set \<Rightarrow> js_string \<Rightarrow> js_string" where
  "root_of turns visited i =
     (if i \<in> visited then i
      else case parent_of turns i of
          None \<Rightarrow> i
        | Some parent \<Rightarrow> if parent \<in> insert i visited then i else root_of turns (insert i visited) parent)"
  by pat_completeness auto

termination
proof (relation "measure (\<lambda>(turns, visited, _). card (t_turn_id ` set turns - visited))")
  fix turns visited i parent
  assume i: "i \<notin> visited" "parent_of turns i = Some parent"
  have "i \<in> t_turn_id ` set turns" by (rule parent_of_known [OF i(2)])
  with i(1) have "t_turn_id ` set turns - insert i visited \<subset> t_turn_id ` set turns - visited"
    by (intro psubsetI) auto
  then have "card (t_turn_id ` set turns - insert i visited) < card (t_turn_id ` set turns - visited)"
    by (intro psubset_card_mono) simp_all
  then show "((turns, insert i visited, parent), turns, visited, i) \<in>
      measure (\<lambda>(turns, visited, _). card (t_turn_id ` set turns - visited))" by simp
qed simp

declare root_of.simps [simp del]

text \<open>A \<^verbatim>\<open>Set\<close> in insertion order.\<close>

definition set_of :: "'a list \<Rightarrow> 'a list" where
  "set_of xs = rev (remdups (rev xs))"

definition turn_ids :: "ConversationState \<Rightarrow> js_string list" where
  "turn_ids state = set_of (map t_turn_id (st_turns state) @ map tc_turn_id (st_tool_calls state))"

text \<open>One iteration of the loop over the turns: the group of the root gains the turn.\<close>

fun join_group :: "js_string \<Rightarrow> js_string \<Rightarrow> ConversationActivityGroup list \<Rightarrow> ConversationActivityGroup list" where
  "join_group root_id i [] = [\<lparr>ag_id = root_id, ag_turnId = i, ag_turnIds = [i]\<rparr>]"
| "join_group root_id i (g # gs) =
     (if ag_id g = root_id then g\<lparr>ag_turnId := i, ag_turnIds := ag_turnIds g @ [i]\<rparr> # gs else g # join_group root_id i gs)"

definition conversationActivityGroups :: "ConversationState \<Rightarrow> ConversationActivityGroup list" where
  "conversationActivityGroups state =
     fold (\<lambda>i. join_group (root_of (st_turns state) {} i) i) (turn_ids state) []"

section \<open>Entries and their slots\<close>

datatype (plugins only: code size) ConversationTimelineEntry =
    ActivityEntry ConversationActivityGroup
  | MessageEntry ConversationMessageRecord
  | ApprovalEntry ConversationApprovalProposalRecord
  | ToolResultEntry ConversationToolCallRecord
  | FailureEntry ConversationTurnRecord

record ConversationTimelineOptions =
  to_includeActivity :: bool
  to_proposals :: "ConversationApprovalProposalRecord list option"
  to_includeToolResult :: "(ConversationToolCallRecord \<Rightarrow> bool) option"

definition is_user :: "ConversationMessageRecord \<Rightarrow> bool" where
  "is_user m \<longleftrightarrow> m_role m = Some RoleUser"

definition last_index :: "('a \<Rightarrow> bool) \<Rightarrow> 'a list \<Rightarrow> nat option" where
  "last_index p xs = map_option (\<lambda>i. length xs - 1 - i) (findIndex p (rev xs))"

definition activity_slot :: "ConversationState \<Rightarrow> ConversationActivityGroup \<Rightarrow> nat" where
  "activity_slot state g =
     (let messages = st_messages state;
          turns = filter (\<lambda>t. t_turn_id t \<in> set (ag_turnIds g)) (st_turns state);
          first = (case find (\<lambda>t. t_turn_id t = ag_id g) turns of
            Some t \<Rightarrow> Some t | None \<Rightarrow> if turns = [] then None else Some (hd turns));
          input = findIndex (\<lambda>m. is_user m \<and> (m_turn_id m = Some (ag_id g) \<or>
            (case first of None \<Rightarrow> False | Some t \<Rightarrow> m_message_id m \<in> set (t_input_message_ids t)))) messages;
          related = findIndex (\<lambda>m. coalesce (m_turn_id m) [] \<in> set (ag_turnIds g) \<or>
            list_ex (\<lambda>t. m_message_id m \<in> set (t_output_message_ids t)) turns) messages
      in case input of Some i \<Rightarrow> i + 1
         | None \<Rightarrow> (case related of Some i \<Rightarrow> i | None \<Rightarrow> length messages))"

record timeline_item =
  it_entry :: ConversationTimelineEntry
  it_id :: js_string
  it_turnId :: js_string
  it_createdAt :: js_string

definition approval_item :: "ConversationApprovalProposalRecord \<Rightarrow> timeline_item" where
  "approval_item p = \<lparr>it_entry = ApprovalEntry p, it_id = ap_proposal_id p, it_turnId = ap_turn_id p,
     it_createdAt = ap_created_at p\<rparr>"

definition result_item :: "ConversationTimelineOptions \<Rightarrow> ConversationApprovalProposalRecord list \<Rightarrow>
    ConversationToolCallRecord \<Rightarrow> timeline_item option" where
  "result_item options proposals call =
     (case (tc_result call, to_includeToolResult options) of
        (Some result, Some shown) \<Rightarrow>
          if \<not> shown call \<or> tc_approval_required_at call \<noteq> None \<or>
             list_ex (\<lambda>p. ap_turn_id p = tc_turn_id call \<and> ap_tool_call_id p = tc_tool_call_id call \<and>
               Some (ap_tool_name p) = tc_name call) proposals
          then None
          else Some \<lparr>it_entry = ToolResultEntry call, it_id = tc_turn_id call @ js '':'' @ tc_tool_call_id call,
            it_turnId = tc_turn_id call, it_createdAt = coalesce (tc_requested_at call) (tr_recorded_at result)\<rparr>
      | _ \<Rightarrow> None)"

definition compare_items :: "(js_string \<Rightarrow> js_string \<Rightarrow> int) \<Rightarrow> timeline_item \<Rightarrow> timeline_item \<Rightarrow> int" where
  "compare_items localeCompare a b =
     (let order = localeCompare (it_id a) (it_id b) in
      case (Date_parse (it_createdAt a), Date_parse (it_createdAt b)) of
        (Some x, Some y) \<Rightarrow> if x - y \<noteq> 0 then x - y else order
      | _ \<Rightarrow> order)"

text \<open>The messages between the user's message that a turn answers and the next one.\<close>

definition related_message :: "ConversationState \<Rightarrow> js_string \<Rightarrow> ConversationMessageRecord \<Rightarrow> bool" where
  "related_message state turnId m \<longleftrightarrow> m_turn_id m = Some turnId \<or>
     (case find (\<lambda>t. t_turn_id t = turnId) (st_turns state) of
        None \<Rightarrow> False
      | Some t \<Rightarrow> m_message_id m \<in> set (t_input_message_ids t) \<or> m_message_id m \<in> set (t_output_message_ids t))"

definition request_span :: "ConversationState \<Rightarrow> js_string \<Rightarrow> nat \<times> nat" where
  "request_span state turnId =
     (let messages = st_messages state in
      case findIndex (related_message state turnId) messages of
        None \<Rightarrow> (0, length messages)
      | Some related \<Rightarrow>
          (let start = (case last_index is_user (take (related + 1) messages) of None \<Rightarrow> 0 | Some i \<Rightarrow> i + 1);
               from = max start (related + 1)
           in (start, case findIndex is_user (drop from messages) of None \<Rightarrow> length messages | Some i \<Rightarrow> from + i)))"

definition shown_after :: "timeline_item \<Rightarrow> ConversationMessageRecord \<Rightarrow> bool" where
  "shown_after item m \<longleftrightarrow>
     (case m_created_at m of
        None \<Rightarrow> False
      | Some c \<Rightarrow> (case (Date_parse c, Date_parse (it_createdAt item)) of
          (Some created, Some requested) \<Rightarrow> requested < created \<or> created = requested \<and> \<not> is_user m
        | _ \<Rightarrow> False))"

definition item_slot :: "ConversationState \<Rightarrow> timeline_item \<Rightarrow> nat" where
  "item_slot state item =
     (let (start, stop) = request_span state (it_turnId item) in
      case findIndex (shown_after item) (drop start (take stop (st_messages state))) of
        None \<Rightarrow> stop | Some i \<Rightarrow> start + i)"

definition failure_slot :: "ConversationState \<Rightarrow> ConversationTurnRecord \<Rightarrow> nat" where
  "failure_slot state turn =
     coalesce (last_index (\<lambda>m. m_turn_id m = Some (t_turn_id turn) \<or> m_message_id m \<in> set (t_output_message_ids turn) \<or>
       m_message_id m \<in> set (t_input_message_ids turn)) (st_messages state)) (length (st_messages state))"

definition add_to :: "nat \<times> ConversationTimelineEntry \<Rightarrow> (nat \<Rightarrow> ConversationTimelineEntry list) \<Rightarrow>
    nat \<Rightarrow> ConversationTimelineEntry list" where
  "add_to = (\<lambda>(slot, entry) slots. slots(slot := slots slot @ [entry]))"

definition timeline_proposals :: "ConversationState \<Rightarrow> ConversationTimelineOptions \<Rightarrow> ConversationApprovalProposalRecord list" where
  "timeline_proposals state options = coalesce (to_proposals options) (st_approval_proposals state)"

definition timeline_items :: "(js_string \<Rightarrow> js_string \<Rightarrow> int) \<Rightarrow> ConversationState \<Rightarrow> ConversationTimelineOptions \<Rightarrow> timeline_item list" where
  "timeline_items localeCompare state options =
     (let proposals = timeline_proposals state options in
      sort_by (compare_items localeCompare)
        (map approval_item proposals @ List.map_filter (result_item options proposals) (st_tool_calls state)))"

definition timeline_slots :: "(js_string \<Rightarrow> js_string \<Rightarrow> int) \<Rightarrow> ConversationState \<Rightarrow> ConversationTimelineOptions \<Rightarrow>
    (nat \<times> ConversationTimelineEntry) list" where
  "timeline_slots localeCompare state options =
     (if to_includeActivity options
      then map (\<lambda>g. (activity_slot state g, ActivityEntry g)) (conversationActivityGroups state) else []) @
     map (\<lambda>item. (item_slot state item, it_entry item)) (timeline_items localeCompare state options)"

definition failure_slots :: "ConversationState \<Rightarrow> (nat \<times> ConversationTimelineEntry) list" where
  "failure_slots state =
     map (\<lambda>t. (failure_slot state t, FailureEntry t)) (filter (\<lambda>t. t_status t = TurnIsFailed) (st_turns state))"

definition conversationTimeline :: "(js_string \<Rightarrow> js_string \<Rightarrow> int) \<Rightarrow> ConversationState \<Rightarrow> ConversationTimelineOptions \<Rightarrow>
    ConversationTimelineEntry list" where
  "conversationTimeline localeCompare state options =
     (let messages = st_messages state;
          slots = fold add_to (timeline_slots localeCompare state options) (\<lambda>_. []);
          failures = fold add_to (failure_slots state) (\<lambda>_. [])
      in concat (map (\<lambda>index. slots index @ (if index < length messages then [MessageEntry (messages ! index)] else []) @
           failures index) [0..<length messages + 1]))"

end
