(* ===== verification/TimelineProperties.thy ===== *)
theory TimelineProperties
  imports Timeline
begin

text \<open>
  The timeline shows everything once: the messages in their order, every approval, selected
  tool result, failed turn and group of turns, and an approval or result between the user's
  message it answers and the next one.
\<close>

section \<open>Groups\<close>

lemma set_of_simps [simp]: "set (set_of xs) = set xs" "distinct (set_of xs)"
  by (simp_all add: set_of_def)

lemma join_group_ids:
  "mset (concat (map ag_turnIds (join_group root_id i gs))) = add_mset i (mset (concat (map ag_turnIds gs)))"
  by (induction gs) auto

lemma join_group_keeps:
  "set (map ag_id (join_group root_id i gs)) = insert root_id (set (map ag_id gs))"
  "distinct (map ag_id gs) \<Longrightarrow> distinct (map ag_id (join_group root_id i gs))"
proof -
  show ids: "set (map ag_id (join_group root_id i gs)) = insert root_id (set (map ag_id gs))" for gs
    by (induction gs) auto
  show "distinct (map ag_id gs) \<Longrightarrow> distinct (map ag_id (join_group root_id i gs))"
  proof (induction gs)
    case (Cons g gs)
    then show ?case using ids [of gs] by (auto simp: image_iff)
  qed simp
qed

lemma join_group_roots:
  "\<forall>g \<in> set gs. \<forall>j \<in> set (ag_turnIds g). f j = ag_id g \<Longrightarrow>
   \<forall>g \<in> set (join_group (f i) i gs). \<forall>j \<in> set (ag_turnIds g). f j = ag_id g"
  by (induction gs) auto

text \<open>Every turn is in exactly one group, the group of its root.\<close>

lemma groups_partition:
  "mset (concat (map ag_turnIds (conversationActivityGroups state))) = mset (turn_ids state) \<and>
   distinct (map ag_id (conversationActivityGroups state)) \<and>
   (\<forall>g \<in> set (conversationActivityGroups state). \<forall>i \<in> set (ag_turnIds g). root_of (st_turns state) {} i = ag_id g)"
proof -
  let ?f = "root_of (st_turns state) {}"
  have "mset (concat (map ag_turnIds (fold (\<lambda>i. join_group (?f i) i) is gs))) = mset is + mset (concat (map ag_turnIds gs)) \<and>
      distinct (map ag_id (fold (\<lambda>i. join_group (?f i) i) is gs)) \<and>
      (\<forall>g \<in> set (fold (\<lambda>i. join_group (?f i) i) is gs). \<forall>i \<in> set (ag_turnIds g). ?f i = ag_id g)"
    if "distinct (map ag_id gs)" "\<forall>g \<in> set gs. \<forall>i \<in> set (ag_turnIds g). ?f i = ag_id g" for "is" gs
    using that
  proof (induction "is" arbitrary: gs)
    case (Cons i "is")
    note IH = Cons.IH [OF join_group_keeps(2) [OF Cons.prems(1), of "?f i" i] join_group_roots [OF Cons.prems(2), of i]]
    have "mset (concat (map ag_turnIds (fold (\<lambda>i. join_group (?f i) i) is (join_group (?f i) i gs)))) =
        mset (i # is) + mset (concat (map ag_turnIds gs))"
      unfolding conjunct1 [OF IH] join_group_ids by simp
    with IH show ?case unfolding fold_simps by blast
  qed simp
  from this [of "[]" "turn_ids state"] show ?thesis by (simp add: conversationActivityGroups_def)
qed

section \<open>Slots\<close>

lemma fold_add_to: "fold add_to es f k = f k @ map snd (filter (\<lambda>(s, _). s = k) es)"
  by (induction es arbitrary: f) (auto simp: add_to_def)

lemma mset_concat_append:
  "mset (concat (map (\<lambda>k. f k @ g k) xs)) = mset (concat (map f xs)) + mset (concat (map g xs))"
  by (induction xs) simp_all

lemma mset_concat_single: "s < n \<Longrightarrow> mset (concat (map (\<lambda>k. if s = k then [e] else []) [0..<n])) = {#e#}"
proof (induction n)
  case (Suc n)
  show ?case
  proof (cases "s = n")
    case True
    then have "concat (map (\<lambda>k. if s = k then [e] else []) [0..<n]) = []" by auto
    with True show ?thesis by simp
  qed (use Suc in simp)
qed simp

lemma slots_complete:
  assumes "\<forall>(s, e) \<in> set es. s < n"
  shows "mset (concat (map (fold add_to es (\<lambda>_. [])) [0..<n])) = mset (map snd es)"
  using assms
proof (induction es)
  case Nil
  have "concat (map (\<lambda>_. []) [0..<n]) = []" by (induction n) simp_all
  then show ?case by simp
next
  case (Cons x es)
  obtain s e where x: "x = (s, e)" by force
  have "fold add_to (x # es) (\<lambda>_. []) = (\<lambda>k. (if s = k then [e] else []) @ fold add_to es (\<lambda>_. []) k)"
    by (rule ext) (unfold fold_add_to x, auto)
  with Cons x show ?case by (simp add: mset_concat_append mset_concat_single)
qed

lemma last_index_less: "last_index p xs = Some i \<Longrightarrow> i < length xs"
  by (auto simp: last_index_def dest: findIndex_less)

lemma activity_slot_bound: "activity_slot state g \<le> length (st_messages state)"
  by (auto simp: activity_slot_def Let_def Suc_le_eq split: option.split dest: findIndex_less intro: less_imp_le)

lemma request_span_ok:
  "request_span state turnId = (start, stop) \<Longrightarrow> start \<le> stop \<and> stop \<le> length (st_messages state)"
proof -
  assume span: "request_span state turnId = (start, stop)"
  show ?thesis
  proof (cases "findIndex (related_message state turnId) (st_messages state)")
    case None
    with span show ?thesis by (simp add: request_span_def)
  next
    case (Some related)
    let ?ms = "st_messages state" and ?start = "case last_index is_user (take (related + 1) (st_messages state)) of None \<Rightarrow> 0 | Some i \<Rightarrow> i + 1"
    have r: "related < length ?ms" by (rule findIndex_less [OF Some])
    have "?start \<le> related + 1" using r by (auto split: option.split dest: last_index_less)
    with span Some r show ?thesis
      by (auto simp: request_span_def Let_def split: option.splits dest: findIndex_less)
  qed
qed

lemma item_slot_span:
  "request_span state (it_turnId item) = (start, stop) \<Longrightarrow> start \<le> item_slot state item \<and> item_slot state item \<le> stop"
  using request_span_ok [of state "it_turnId item" start "stop"]
  by (auto simp: item_slot_def split: option.split dest: findIndex_less)

lemma last_index_after: "last_index p xs = Some i \<Longrightarrow> j < length xs \<Longrightarrow> p (xs ! j) \<Longrightarrow> j \<le> i"
proof -
  assume i: "last_index p xs = Some i" and j: "j < length xs" "p (xs ! j)"
  then obtain k where k: "findIndex p (rev xs) = Some k" "i = length xs - 1 - k" by (auto simp: last_index_def)
  have "\<not> length xs - 1 - j < k"
    using findIndex_SomeD [OF k(1)] j by (auto simp: rev_nth dest!: spec [of _ "length xs - 1 - j"])
  with k(2) j(1) show ?thesis by simp
qed

text \<open>
  Position \<open>k\<close> lies behind every user's message up to the first message of the turn, and not
  behind any later user's message.
\<close>

definition answers_request :: "ConversationState \<Rightarrow> js_string \<Rightarrow> nat \<Rightarrow> bool" where
  "answers_request state turnId k \<longleftrightarrow> (case findIndex (related_message state turnId) (st_messages state) of
     None \<Rightarrow> True
   | Some related \<Rightarrow> (\<forall>j < length (st_messages state). is_user (st_messages state ! j) \<longrightarrow>
       (if j \<le> related then j < k else k \<le> j)))"

lemma item_slot_answers: "answers_request state (it_turnId item) (item_slot state item)"
proof (cases "findIndex (related_message state (it_turnId item)) (st_messages state)")
  case (Some related)
  let ?ms = "st_messages state"
  have r: "related < length ?ms" by (rule findIndex_less [OF Some])
  let ?start = "case last_index is_user (take (related + 1) ?ms) of None \<Rightarrow> 0 | Some i \<Rightarrow> i + 1"
  let ?stop = "case findIndex is_user (drop (related + 1) ?ms) of None \<Rightarrow> length ?ms | Some i \<Rightarrow> related + 1 + i"
  have le: "?start \<le> related + 1" using r by (auto split: option.split dest: last_index_less)
  then have "request_span state (it_turnId item) = (?start, ?stop)"
    unfolding request_span_def Some Let_def option.case max_absorb2 [OF le] by simp
  from item_slot_span [OF this] have slot: "?start \<le> item_slot state item" "item_slot state item \<le> ?stop" by simp_all
  have "if j \<le> related then j < item_slot state item else item_slot state item \<le> j" if j: "j < length ?ms" "is_user (?ms ! j)" for j
  proof (cases "j \<le> related")
    case True
    then have at: "j < length (take (related + 1) ?ms)" "is_user (take (related + 1) ?ms ! j)" using j r by simp_all
    from nth_mem [OF at(1)] at(2) have "last_index is_user (take (related + 1) ?ms) \<noteq> None"
      by (auto simp: last_index_def simp del: take_Suc_Cons)
    with last_index_after [of is_user "take (related + 1) ?ms" _ j] at slot(1) True show ?thesis by (auto simp: less_Suc_eq_le split: option.splits)
  next
    case False
    then have at: "j - (related + 1) < length (drop (related + 1) ?ms)" "is_user (drop (related + 1) ?ms ! (j - (related + 1)))"
      using j by simp_all
    obtain i where i: "findIndex is_user (drop (related + 1) ?ms) = Some i"
      using at by (metis findIndex_None nth_mem option.exhaust)
    have "\<not> j - (related + 1) < i" using findIndex_SomeD [OF i] at(2) by blast
    with slot(2) i False show ?thesis by simp
  qed
  then show ?thesis by (simp add: answers_request_def Some)
qed (simp add: answers_request_def del: findIndex_None)

lemma item_slot_bound: "item_slot state item \<le> length (st_messages state)"
  using item_slot_span request_span_ok by (metis le_trans surj_pair)

lemma failure_slot_bound: "failure_slot state turn \<le> length (st_messages state)"
  by (auto simp: failure_slot_def coalesce_def split: option.split dest: last_index_less intro: less_imp_le)

section \<open>The timeline\<close>

definition is_message :: "ConversationTimelineEntry \<Rightarrow> bool" where
  "is_message e \<longleftrightarrow> (case e of MessageEntry _ \<Rightarrow> True | _ \<Rightarrow> False)"

lemma item_entries:
  "e \<in> it_entry ` set (timeline_items lc state options) \<Longrightarrow> \<not> is_message e"
  by (auto simp: timeline_items_def Let_def is_message_def approval_item_def result_item_def List.map_filter_def
      split: option.splits if_splits)

lemma slots_not_messages:
  "(s, e) \<in> set (timeline_slots lc state options) \<Longrightarrow> \<not> is_message e \<and> s \<le> length (st_messages state)"
  "(s, e) \<in> set (failure_slots state) \<Longrightarrow> \<not> is_message e \<and> s \<le> length (st_messages state)"
  using item_entries [of e lc state options]
  by (auto simp: timeline_slots_def failure_slots_def activity_slot_bound item_slot_bound failure_slot_bound is_message_def
      split: if_splits)

text \<open>The entries in front of message \<open>k\<close>, and the ones that follow.\<close>

definition chunk :: "ConversationMessageRecord list \<Rightarrow> (nat \<times> ConversationTimelineEntry) list \<Rightarrow>
    (nat \<times> ConversationTimelineEntry) list \<Rightarrow> nat \<Rightarrow> ConversationTimelineEntry list" where
  "chunk messages slots failures k = fold add_to slots (\<lambda>_. []) k @
     (if k < length messages then [MessageEntry (messages ! k)] else []) @ fold add_to failures (\<lambda>_. []) k"

lemma timeline_chunks:
  "conversationTimeline lc state options = concat (map (chunk (st_messages state)
     (timeline_slots lc state options) (failure_slots state)) [0..<length (st_messages state) + 1])"
  unfolding conversationTimeline_def Let_def by (intro arg_cong [of _ _ concat] map_cong refl) (simp add: chunk_def)

lemma chunk_messages:
  assumes "\<forall>(s, e) \<in> set slots. \<not> is_message e" "\<forall>(s, e) \<in> set failures. \<not> is_message e"
  shows "filter is_message (chunk messages slots failures k) = (if k < length messages then [MessageEntry (messages ! k)] else [])"
proof -
  have "filter is_message (map snd (filter (\<lambda>(s, _). s = k) es)) = []" if "\<forall>(s, e) \<in> set es. \<not> is_message e" for es
    using that by (auto simp: filter_empty_conv)
  from this [OF assms(1)] this [OF assms(2)] show ?thesis
    by (simp add: chunk_def fold_add_to) (simp add: is_message_def)
qed

lemma chunks_messages:
  assumes "\<forall>(s, e) \<in> set slots. \<not> is_message e" "\<forall>(s, e) \<in> set failures. \<not> is_message e" "k \<le> length messages"
  shows "filter is_message (concat (map (chunk messages slots failures) [0..<k])) = map MessageEntry (take k messages)"
  using assms(3)
proof (induction k)
  case (Suc k)
  then show ?case by (simp add: chunk_messages [OF assms(1,2)] take_Suc_conv_app_nth)
qed simp

lemma slots_apart:
  "\<forall>(s, e) \<in> set (timeline_slots lc state options). \<not> is_message e" "\<forall>(s, e) \<in> set (failure_slots state). \<not> is_message e"
  using slots_not_messages by blast+

lemma entries_shown:
  "mset (conversationTimeline lc state options) = mset (map MessageEntry (st_messages state)) +
     mset (map snd (timeline_slots lc state options)) + mset (map snd (failure_slots state))"
proof -
  let ?n = "length (st_messages state) + 1"
  have bounds: "\<forall>(s, e) \<in> set (timeline_slots lc state options). s < ?n" "\<forall>(s, e) \<in> set (failure_slots state). s < ?n"
    using slots_not_messages by (auto simp: less_Suc_eq_le)
  have singles: "concat (map (\<lambda>k. if k < length ms then [MessageEntry (ms ! k)] else []) [0..<m]) = map MessageEntry (take m ms)"
    for ms m by (induction m) (auto simp: take_Suc_conv_app_nth)
  from arg_cong [OF singles [of "st_messages state" ?n], of mset]
  have "mset (concat (map (\<lambda>k. if k < length (st_messages state) then [MessageEntry (st_messages state ! k)] else []) [0..<?n])) =
      mset (map MessageEntry (st_messages state))"
    by (simp only: take_all le_add1)
  then show ?thesis
    unfolding timeline_chunks chunk_def mset_concat_append
    by (simp only: slots_complete [OF bounds(1)] slots_complete [OF bounds(2)]) (simp add: ac_simps)
qed

lemma entry_placed:
  assumes "(k, e) \<in> set (timeline_slots lc state options)"
  shows "\<exists>xs ys. conversationTimeline lc state options = xs @ e # ys \<and>
    filter is_message xs = map MessageEntry (take k (st_messages state))"
proof -
  let ?ms = "st_messages state" and ?slots = "timeline_slots lc state options" and ?failures = "failure_slots state"
  let ?chunk = "chunk ?ms ?slots ?failures"
  have k: "k \<le> length ?ms" using slots_not_messages(1) [OF assms] by blast
  have "e \<in> set (fold add_to ?slots (\<lambda>_. []) k)" using assms by (force simp: fold_add_to)
  then obtain us vs where us: "fold add_to ?slots (\<lambda>_. []) k = us @ e # vs" by (auto dest: split_list)
  have "\<not> is_message x" if "x \<in> set us" for x
  proof -
    have "x \<in> set (map snd (filter (\<lambda>(s, _). s = k) ?slots))" using that us by (simp add: fold_add_to)
    then show ?thesis using slots_apart(1) [of lc state options] by auto
  qed
  then have quiet: "filter is_message us = []" by (simp add: filter_empty_conv)
  obtain rest where rest: "?chunk k = us @ e # rest" using us by (simp add: chunk_def)
  have "[0..<length ?ms + 1] = [0..<k] @ k # [k + 1..<length ?ms + 1]"
    using upt_add_eq_append [of 0 k "length ?ms + 1 - k"] k by (simp add: upt_conv_Cons del: upt_Suc)
  then have "conversationTimeline lc state options =
      (concat (map ?chunk [0..<k]) @ us) @ e # rest @ concat (map ?chunk [k + 1..<length ?ms + 1])"
    unfolding timeline_chunks by (simp add: rest)
  moreover have "filter is_message (concat (map ?chunk [0..<k]) @ us) = map MessageEntry (take k ?ms)"
    using chunks_messages [OF slots_apart k] quiet by simp
  ultimately show ?thesis by blast
qed

text \<open>The tool results that the options select: answered, without an approval of their own.\<close>

definition shown_result :: "ConversationTimelineOptions \<Rightarrow> ConversationApprovalProposalRecord list \<Rightarrow> ConversationToolCallRecord \<Rightarrow> bool" where
  "shown_result options proposals call \<longleftrightarrow> tc_result call \<noteq> None \<and> tc_approval_required_at call = None \<and>
     (case to_includeToolResult options of None \<Rightarrow> False | Some shown \<Rightarrow> shown call) \<and>
     (\<forall>p \<in> set proposals. ap_turn_id p = tc_turn_id call \<and> ap_tool_call_id p = tc_tool_call_id call \<longrightarrow>
        Some (ap_tool_name p) \<noteq> tc_name call)"

lemma result_items:
  "map it_entry (List.map_filter (result_item options proposals) calls) = map ToolResultEntry (filter (shown_result options proposals) calls)"
proof (induction calls)
  case (Cons c cs)
  have "map_option it_entry (result_item options proposals c) =
      (if shown_result options proposals c then Some (ToolResultEntry c) else None)"
    by (auto simp: result_item_def shown_result_def list_ex_iff split: option.split)
  with Cons show ?case by (auto simp: map_filter_simps split: option.splits if_splits)
qed (simp add: map_filter_simps)

lemma timeline_item_entries:
  "mset (map it_entry (timeline_items lc state options)) =
     mset (map ApprovalEntry (timeline_proposals state options)) +
     mset (map ToolResultEntry (filter (shown_result options (timeline_proposals state options)) (st_tool_calls state)))"
proof -
  have "map it_entry (map approval_item ps) = map ApprovalEntry ps" for ps by (simp add: approval_item_def)
  with result_items [of options _ "st_tool_calls state"] show ?thesis
    unfolding timeline_items_def Let_def
    by (metis (no_types, lifting) map_append mset_append mset_map mset_sort_by)
qed

text \<open>
  C34: the timeline drops and invents nothing. The messages appear in their order; besides them
  it shows each approval, each selected tool result, each failed turn and, on request, each
  group of turns exactly once, and every turn is in exactly one group. An approval or tool
  result never appears before the user's message that its turn answers, nor after the next
  user's message.
\<close>

theorem timeline_complete:
  "filter is_message (conversationTimeline lc state options) = map MessageEntry (st_messages state) \<and>
    mset (filter (\<lambda>e. \<not> is_message e) (conversationTimeline lc state options)) =
      (if to_includeActivity options then mset (map ActivityEntry (conversationActivityGroups state)) else {#}) +
      mset (map ApprovalEntry (timeline_proposals state options)) +
      mset (map ToolResultEntry (filter (shown_result options (timeline_proposals state options)) (st_tool_calls state))) +
      mset (map FailureEntry (filter (\<lambda>t. t_status t = TurnIsFailed) (st_turns state))) \<and>
    mset (concat (map ag_turnIds (conversationActivityGroups state))) = mset (turn_ids state) \<and>
    (\<forall>item \<in> set (timeline_items lc state options). \<exists>xs ys k. conversationTimeline lc state options = xs @ it_entry item # ys \<and>
      filter is_message xs = map MessageEntry (take k (st_messages state)) \<and>
      answers_request state (it_turnId item) k)"
proof (intro conjI ballI)
  let ?ms = "st_messages state"
  show messages: "filter is_message (conversationTimeline lc state options) = map MessageEntry ?ms"
    using chunks_messages [OF slots_apart(1) [of lc state options] slots_apart(2) [of state] order_refl [of "length ?ms"]]
    by (simp add: timeline_chunks chunk_messages [OF slots_apart])
  have "mset (map MessageEntry ?ms) + mset (filter (\<lambda>e. \<not> is_message e) (conversationTimeline lc state options)) =
      mset (map MessageEntry ?ms) + (mset (map snd (timeline_slots lc state options)) + mset (map snd (failure_slots state)))"
    using entries_shown [of lc state options, folded messages] unfolding messages [symmetric] add.assoc [symmetric]
    by (simp only: mset_filter multiset_partition [symmetric])
  then have "mset (filter (\<lambda>e. \<not> is_message e) (conversationTimeline lc state options)) = mset (map snd (timeline_slots lc state options)) + mset (map snd (failure_slots state))"
    by (rule add_left_imp_eq)
  also have "mset (map snd (timeline_slots lc state options)) =
      (if to_includeActivity options then mset (map ActivityEntry (conversationActivityGroups state)) else {#}) +
      mset (map it_entry (timeline_items lc state options))"
    by (simp add: timeline_slots_def comp_def image_mset.compositionality)
  also have "mset (map snd (failure_slots state)) = mset (map FailureEntry (filter (\<lambda>t. t_status t = TurnIsFailed) (st_turns state)))"
    by (simp add: failure_slots_def comp_def)
  finally show "mset (filter (\<lambda>e. \<not> is_message e) (conversationTimeline lc state options)) =
      (if to_includeActivity options then mset (map ActivityEntry (conversationActivityGroups state)) else {#}) +
      mset (map ApprovalEntry (timeline_proposals state options)) +
      mset (map ToolResultEntry (filter (shown_result options (timeline_proposals state options)) (st_tool_calls state))) +
      mset (map FailureEntry (filter (\<lambda>t. t_status t = TurnIsFailed) (st_turns state)))"
    unfolding timeline_item_entries by (simp only: add.assoc)
  show "mset (concat (map ag_turnIds (conversationActivityGroups state))) = mset (turn_ids state)"
    using groups_partition by blast
  fix item assume "item \<in> set (timeline_items lc state options)"
  then have "(item_slot state item, it_entry item) \<in> set (timeline_slots lc state options)"
    by (simp add: timeline_slots_def)
  from entry_placed [OF this] item_slot_answers [of state item]
  show "\<exists>xs ys k. conversationTimeline lc state options = xs @ it_entry item # ys \<and> filter is_message xs = map MessageEntry (take k ?ms) \<and>
      answers_request state (it_turnId item) k"
    by blast
qed

section \<open>A sample\<close>

definition sample_message :: "string \<Rightarrow> string \<Rightarrow> ConversationMessageRole \<Rightarrow> ConversationMessageRecord" where
  "sample_message i turn role = \<lparr>m_message_id = js i, m_turn_id = Some (js turn), m_role = Some role, m_content = [],
     m_attachments = [], m_created_at = None, m_attribution = None\<rparr>"

definition sample_call :: ConversationToolCallRecord where
  "sample_call = \<lparr>tc_tool_call_id = js ''x'', tc_turn_id = js ''t1'', tc_name = None, tc_arguments = None, tc_requested_at = None,
     tc_discovered_at = None, tc_started_at = None, tc_approval_required_at = None, tc_attribution = None,
     tc_result = Some \<lparr>tr_content = [], tr_is_error = False, tr_citation_records = None, tr_recorded_at = js ''1970-01-01T00:00:00Z'',
       tr_attribution = \<lparr>aa_actor = \<lparr>actor_type = ActorSystem, actor_id = None\<rparr>, aa_source = RuntimeSource\<rparr>\<rparr>\<rparr>"

text \<open>Two requests, each with its answer; the first one called a tool.\<close>

definition sample_timeline :: ConversationState where
  "sample_timeline = (createInitialConversationState None)\<lparr>st_messages :=
     [sample_message ''m1'' ''t1'' RoleUser, sample_message ''m2'' ''t1'' RoleAssistant,
      sample_message ''m3'' ''t2'' RoleUser, sample_message ''m4'' ''t2'' RoleAssistant], st_tool_calls := [sample_call]\<rparr>"

definition sample_options :: ConversationTimelineOptions where
  "sample_options = \<lparr>to_includeActivity = False, to_proposals = None, to_includeToolResult = Some (\<lambda>_. True)\<rparr>"

theorem timeline_complete_witness:
  "\<exists>xs ys k. conversationTimeline (\<lambda>_ _. 0) sample_timeline sample_options = xs @ ToolResultEntry sample_call # ys \<and>
     filter is_message xs = map MessageEntry (take k (st_messages sample_timeline)) \<and> 1 \<le> k \<and> k \<le> 2"
proof -
  have "\<exists>item \<in> set (timeline_items (\<lambda>_ _. 0) sample_timeline sample_options). it_entry item = ToolResultEntry sample_call \<and>
      it_turnId item = js ''t1''"
    by (simp add: timeline_items_def sample_timeline_def sample_options_def timeline_proposals_def createInitialConversationState_def
        map_filter_simps result_item_def sample_call_def Let_def)
  then obtain item where item: "item \<in> set (timeline_items (\<lambda>_ _. 0) sample_timeline sample_options)"
    "it_entry item = ToolResultEntry sample_call" "it_turnId item = js ''t1''" by blast
  have "1 \<le> k \<and> k \<le> 2" if "answers_request sample_timeline (js ''t1'') k" for k
  proof -
    have ms: "st_messages sample_timeline = [sample_message ''m1'' ''t1'' RoleUser, sample_message ''m2'' ''t1'' RoleAssistant,
      sample_message ''m3'' ''t2'' RoleUser, sample_message ''m4'' ''t2'' RoleAssistant]" by (simp add: sample_timeline_def)
    have first: "findIndex (related_message sample_timeline (js ''t1'')) (st_messages sample_timeline) = Some 0"
      by (simp add: ms related_message_def sample_message_def)
    show ?thesis
      using spec [OF that [unfolded answers_request_def first option.case], of 0]
        spec [OF that [unfolded answers_request_def first option.case], of 2]
      by (simp add: ms is_user_def sample_message_def)
  qed
  with timeline_complete [of "\<lambda>_ _. 0" sample_timeline sample_options] item show ?thesis by metis
qed

end
