(* ===== verification/ApprovalExecution.thy ===== *)
theory ApprovalExecution
  imports Effects EventStore ApprovalStore
begin

text \<open>
  \<^verbatim>\<open>src/tools/approval-execution.ts\<close>: claiming a confirmed proposal for one execution of its tool
  and settling that execution, over a store of proposals and a store of events, and
  \<^verbatim>\<open>src/conversation/approval-evidence.ts\<close>. Both stores are interfaces of the host, like the
  permission check, the verifier of arguments and the abort signal; other parties may use the
  stores between any two calls.
\<close>

section \<open>Data\<close>

record ApprovalExecutionCoordinatorLimits =
  maxEventAppendAttempts :: int
  reconciliationPageSize :: int
  maxReconciliationPages :: int

definition APPROVAL_EXECUTION_COORDINATOR_LIMITS :: ApprovalExecutionCoordinatorLimits where
  "APPROVAL_EXECUTION_COORDINATOR_LIMITS =
     \<lparr>maxEventAppendAttempts = 4, reconciliationPageSize = 100, maxReconciliationPages = 50\<rparr>"

text \<open>
  An override of a limit: the key is absent, or its value is \<^verbatim>\<open>undefined\<close> or a number. The spread of
  the overrides over the defaults keeps a value that is given as \<^verbatim>\<open>undefined\<close> (\<open>None\<close>).
\<close>

datatype (plugins only: code size) limit_override = NotGiven | GivenUndefined | Given js_number

definition limit_or :: "limit_override \<Rightarrow> int \<Rightarrow> js_number option" where
  "limit_or given d = (case given of NotGiven \<Rightarrow> Some (Finite (of_int d)) | GivenUndefined \<Rightarrow> None | Given n \<Rightarrow> Some n)"

definition positive_limit :: "js_number option \<Rightarrow> int option" where
  "positive_limit value = (case Option.bind value safe_int of
     Some i \<Rightarrow> if i \<le> 0 then None else Some i
   | None \<Rightarrow> None)"

record coordinator_overrides =
  lo_maxEventAppendAttempts :: limit_override
  lo_reconciliationPageSize :: limit_override
  lo_maxReconciliationPages :: limit_override

definition resolvedLimits :: "coordinator_overrides \<Rightarrow> ApprovalExecutionCoordinatorLimits option" where
  "resolvedLimits overrides =
     (let D = APPROVAL_EXECUTION_COORDINATOR_LIMITS in
      case (positive_limit (limit_or (lo_maxEventAppendAttempts overrides) (maxEventAppendAttempts D)),
            positive_limit (limit_or (lo_reconciliationPageSize overrides) (reconciliationPageSize D)),
            positive_limit (limit_or (lo_maxReconciliationPages overrides) (maxReconciliationPages D))) of
        (Some attempts, Some pageSize, Some pages) \<Rightarrow>
          Some \<lparr>maxEventAppendAttempts = attempts, reconciliationPageSize = pageSize, maxReconciliationPages = pages\<rparr>
      | _ \<Rightarrow> None)"

record ToolDefinition =
  td_name :: js_string
  td_description :: js_string
  td_input_schema :: json

datatype (plugins only: code size) ApprovalExecutionArgumentBinding =
    ReviewedArgumentsDigest js_string
  | ArgumentReference js_string

record 'p ApprovalExecutionClaimRequest =
  cr_permissionContext :: 'p
  cr_proposalId :: js_string
  cr_expectedProposalVersion :: js_number
  cr_executionId :: js_string
  cr_argumentBinding :: ApprovalExecutionArgumentBinding
  cr_attribution :: ConversationEventAttribution
  cr_conversationId :: js_string
  cr_turnId :: js_string
  cr_toolCallId :: js_string
  cr_toolName :: js_string
  cr_arguments :: json
  cr_definition :: ToolDefinition

datatype (plugins only: code size) claim_refusal =
  ApprovalRequired | InvalidClaim | ForbiddenClaim | CancelledClaim | UnavailableClaim

datatype (plugins only: code size) ApprovalExecutionClaimResult =
    Claimed js_string int js_string
  | Reuse js_string ConversationApprovalProposalStatus int
  | Refused claim_refusal js_string

record 'p SettleApprovalExecutionRequest =
  sr_permissionContext :: 'p
  sr_conversationId :: js_string
  sr_proposalId :: js_string
  sr_executingVersion :: js_number
  sr_executionId :: js_string
  sr_attribution :: ConversationEventAttribution
  sr_status :: ConversationApprovalProposalStatus
  sr_failureReason :: "js_string option"

datatype (plugins only: code size) ApprovalExecutionSettlementResult =
  SettlementRecorded int | SettlementInvalid | SettlementForbidden | SettlementUnavailable

record 'p ApprovalExecutionPermissionRequest =
  aq_permissionContext :: 'p
  aq_conversationId :: js_string
  aq_proposalId :: js_string
  aq_expectedProposalVersion :: js_number
  aq_executionId :: js_string
  aq_turnId :: js_string
  aq_toolCallId :: js_string
  aq_toolName :: js_string

record 'p ApprovalExecutionArgumentVerificationRequest =
  vq_permissionContext :: 'p
  vq_proposalId :: js_string
  vq_binding :: ApprovalExecutionArgumentBinding
  vq_reviewedArguments :: ConversationApprovalReviewedArguments
  vq_arguments :: json
  vq_definition :: ToolDefinition

text \<open>
  What the coordinator calls. A failure of a store is the code of its error class, or \<open>None\<close> for
  any other exception. An answer of a callback is \<open>None\<close> when it throws or when the signal is
  aborted before it settles (\<^verbatim>\<open>raceWithAbort\<close>).
\<close>

type_synonym proposal_failure = "ApprovalProposalStoreErrorCode option"
type_synonym event_failure = "ConversationEventStoreConflictCode option"

record ('w, 'p) coordinator_options =
  co_get :: "'p \<Rightarrow> js_string \<Rightarrow> 'w \<Rightarrow> (proposal_failure + ConversationApprovalProposalRecord option) \<times> 'w"
  co_transition :: "'p TransitionApprovalProposalInput \<Rightarrow> 'w \<Rightarrow> (proposal_failure + ConversationApprovalProposalRecord) \<times> 'w"
  co_read :: "ReadConversationEventsInput \<Rightarrow> 'w \<Rightarrow> (event_failure + ReadConversationEventsResult) \<times> 'w"
  co_getLatestRevision :: "js_string \<Rightarrow> 'w \<Rightarrow> (event_failure + int option) \<times> 'w"
  co_append :: "AppendConversationEventsInput \<Rightarrow> 'w \<Rightarrow> (event_failure + AppendConversationEventsResult) \<times> 'w"
  co_authorize :: "'p ApprovalExecutionPermissionRequest \<Rightarrow> 'w \<Rightarrow> bool option \<times> 'w"
  co_verifyArguments :: "'p ApprovalExecutionArgumentVerificationRequest \<Rightarrow> 'w \<Rightarrow> bool option \<times> 'w"
  co_aborted :: "'w \<Rightarrow> bool"

definition on_abort :: "('w, 'p) coordinator_options \<Rightarrow> ('w, 'e, 'a) action \<Rightarrow> ('w, 'e, 'a) action \<Rightarrow> ('w, 'e, 'a) action" where
  "on_abort C m n = (\<lambda>w. if co_aborted C w then m w else n w)"

section \<open>Keys and validation\<close>

definition transitionKey :: "js_string \<Rightarrow> ConversationApprovalProposalStatus \<Rightarrow> js_string" where
  "transitionKey executionId status = js ''approval-execution:'' @ executionId @ js '':'' @ js (proposal_status_text status)"

definition lifecycleEventId :: "js_string \<Rightarrow> ConversationApprovalProposalStatus \<Rightarrow> js_string" where
  "lifecycleEventId executionId status = transitionKey executionId status"

definition safeProposalId :: "js_string \<Rightarrow> js_string" where
  "safeProposalId value = (if identifier_ok value then value else js ''invalid-proposal'')"

definition validOpaque :: "js_string \<Rightarrow> bool" where
  "validOpaque value \<longleftrightarrow> length value \<le> 256 \<and> test OPAQUE_VALUE_PATTERN value \<and> \<not> str_includes value (js ''://'')"

definition validExecutionId :: "js_string \<Rightarrow> bool" where
  "validExecutionId value \<longleftrightarrow> value \<noteq> [] \<and> length value \<le> 128 \<and> validOpaque value"

definition validBinding :: "ApprovalExecutionArgumentBinding \<Rightarrow> bool" where
  "validBinding value = (case value of ReviewedArgumentsDigest digest \<Rightarrow> validOpaque digest
     | ArgumentReference reference \<Rightarrow> identifier_ok reference)"

definition system_attribution :: "ConversationEventAttribution \<Rightarrow> bool" where
  "system_attribution a \<longleftrightarrow> actor_type (aa_actor a) = ActorSystem \<and> aa_source a = RuntimeSource"

definition positive_version :: "js_number \<Rightarrow> bool" where
  "positive_version n = (case safe_int n of None \<Rightarrow> False | Some v \<Rightarrow> 0 < v)"

definition validClaimInput :: "'p ApprovalExecutionClaimRequest \<Rightarrow> bool" where
  "validClaimInput input \<longleftrightarrow>
     identifier_ok (cr_conversationId input) \<and> identifier_ok (cr_proposalId input) \<and>
     identifier_ok (cr_turnId input) \<and> identifier_ok (cr_toolCallId input) \<and>
     identifier_ok (cr_toolName input) \<and> td_name (cr_definition input) = cr_toolName input \<and>
     positive_version (cr_expectedProposalVersion input) \<and>
     validExecutionId (cr_executionId input) \<and> validBinding (cr_argumentBinding input) \<and>
     system_attribution (cr_attribution input)"

definition FAILURE_REASONS :: "string list" where
  "FAILURE_REASONS = [''execution_cancelled'', ''execution_timed_out'', ''execution_recording_failed'', ''invalid_tool_output'',
     ''tool_execution_failed'']"

definition validSettlementInput :: "'p SettleApprovalExecutionRequest \<Rightarrow> bool" where
  "validSettlementInput input \<longleftrightarrow>
     identifier_ok (sr_conversationId input) \<and> identifier_ok (sr_proposalId input) \<and>
     positive_version (sr_executingVersion input) \<and> validExecutionId (sr_executionId input) \<and>
     (sr_status input = Executed \<or> sr_status input = Failed) \<and>
     (if sr_status input = Failed
      then (case sr_failureReason input of None \<Rightarrow> False | Some r \<Rightarrow> r \<in> set (map js FAILURE_REASONS))
      else sr_failureReason input = None) \<and>
     system_attribution (sr_attribution input)"

text \<open>The version that the reviewer confirmed, as a number, once the input is valid.\<close>

definition confirmed_version :: "'p ApprovalExecutionClaimRequest \<Rightarrow> int" where
  "confirmed_version input = coalesce (safe_int (cr_expectedProposalVersion input)) 0"

section \<open>Evidence of the log\<close>

text \<open>
  \<^verbatim>\<open>originalApprovalEvidence\<close>: copies that repair an earlier event must agree with it and are left
  out. \<open>None\<close> is its \<^verbatim>\<open>TypeError\<close>.
\<close>

definition repair_reference :: "ConversationEvent \<Rightarrow> json option" where
  "repair_reference event = (case ev_metadata event of None \<Rightarrow> None | Some m \<Rightarrow> fld m ''repair_of_event_id'')"

definition repairs :: "(rat \<Rightarrow> js_string) \<Rightarrow> ConversationEvent \<Rightarrow> ConversationEvent \<Rightarrow> bool" where
  "repairs R event original \<longleftrightarrow> ev_mutation_id event = None \<and>
     ev_conversation_id event = ev_conversation_id original \<and> ev_revision original < ev_revision event \<and>
     ev_occurred_at event = ev_occurred_at original \<and>
     stringify R (actor_json (ev_actor event)) = stringify R (actor_json (ev_actor original)) \<and>
     stringify R (source_json (ev_source event)) = stringify R (source_json (ev_source original)) \<and>
     stringify R (payload_json (ev_payload event)) = stringify R (payload_json (ev_payload original))"

fun collect_originals :: "(rat \<Rightarrow> js_string) \<Rightarrow> (js_string \<times> ConversationEvent) list \<Rightarrow> ConversationEvent list \<Rightarrow>
    (js_string \<times> ConversationEvent) list option" where
  "collect_originals R originals [] = Some originals"
| "collect_originals R originals (event # events) = (case repair_reference event of
     None \<Rightarrow> collect_originals R (AList.update (ev_event_id event) event originals) events
   | Some reference \<Rightarrow>
       (case (case reference of JStr s \<Rightarrow> map_of originals s | _ \<Rightarrow> None) of
          None \<Rightarrow> None
        | Some original \<Rightarrow> if repairs R event original then collect_originals R originals events else None))"

definition originalApprovalEvidence :: "(rat \<Rightarrow> js_string) \<Rightarrow> ConversationEvent list \<Rightarrow> ConversationEvent list option" where
  "originalApprovalEvidence R events = map_option (map snd) (collect_originals R [] events)"

record DurableProposalAudit =
  da_created :: ConversationEvent
  da_confirmed :: "ConversationEvent option"
  da_executing :: "ConversationEvent option"
  da_terminal :: "ConversationEvent option"

definition concerns :: "js_string \<Rightarrow> ConversationEvent \<Rightarrow> bool" where
  "concerns proposalId event = (case ev_payload event of
     ApprovalProposalCreated q \<Rightarrow> pc_proposal_id q = proposalId
   | ApprovalProposalStatusChanged q _ _ \<Rightarrow> q = proposalId
   | _ \<Rightarrow> False)"

text \<open>The version and the status that an event records, if it is a change of status.\<close>

definition recorded_change :: "ConversationEvent \<Rightarrow> (int \<times> ConversationApprovalProposalStatus) option" where
  "recorded_change event = (case ev_payload event of
     ApprovalProposalStatusChanged _ version change \<Rightarrow> Some (version, change_status change) | _ \<Rightarrow> None)"

definition records_status :: "ConversationApprovalProposalStatus \<Rightarrow> ConversationEvent \<Rightarrow> bool" where
  "records_status status event = (case recorded_change event of None \<Rightarrow> False | Some (_, s) \<Rightarrow> s = status)"

definition created_payload :: "ConversationEvent \<Rightarrow> ApprovalProposalCreatedPayload option" where
  "created_payload event = (case ev_payload event of ApprovalProposalCreated q \<Rightarrow> Some q | _ \<Rightarrow> None)"

definition audit_of :: "js_string \<Rightarrow> ConversationEvent list \<Rightarrow> DurableProposalAudit option" where
  "audit_of executionId matching = (case filter (\<lambda>e. created_payload e \<noteq> None) matching of
     [created] \<Rightarrow> Some \<lparr>da_created = created,
       da_confirmed = find (records_status Confirmed) matching,
       da_executing = find (\<lambda>e. ev_event_id e = lifecycleEventId executionId Executing \<and> records_status Executing e) matching,
       da_terminal = find (\<lambda>e. (ev_event_id e = lifecycleEventId executionId Executed \<or>
           ev_event_id e = lifecycleEventId executionId Failed) \<and>
         (records_status Executed e \<or> records_status Failed e)) matching\<rparr>
   | _ \<Rightarrow> None)"

definition page_input :: "js_string \<Rightarrow> js_string option \<Rightarrow> ApprovalExecutionCoordinatorLimits \<Rightarrow> ReadConversationEventsInput" where
  "page_input conversationId cursor limits = \<lparr>ri_conversationId = conversationId, ri_after = map_option AfterCursor cursor,
     ri_limit = Some (reconciliationPageSize limits)\<rparr>"

text \<open>The loop of \<^verbatim>\<open>readProposalAudit\<close>; the first argument counts the pages that may still be read.\<close>

fun audit_pages :: "nat \<Rightarrow> ('w, 'p) coordinator_options \<Rightarrow> ApprovalExecutionCoordinatorLimits \<Rightarrow> js_string \<Rightarrow> js_string \<Rightarrow>
    js_string option \<Rightarrow> ConversationEvent list \<Rightarrow> ('w, 'e, ConversationEvent list option) action" where
  "audit_pages 0 C limits conversationId proposalId cursor matching = returning (Some matching)"
| "audit_pages (Suc pages) C limits conversationId proposalId cursor matching =
     after (reading (co_read C (page_input conversationId cursor limits))) (\<lambda>answer.
     case answer of
       Inl _ \<Rightarrow> returning None
     | Inr read \<Rightarrow>
         (let matching = matching @ filter (concerns proposalId) (map se_event (ro_entries read)) in
          if \<not> ro_hasMore read then returning (Some matching)
          else case ro_nextCursor read of
            None \<Rightarrow> returning None
          | Some next \<Rightarrow>
              if pages = 0 then returning None
              else audit_pages pages C limits conversationId proposalId (Some next) matching))"

definition readProposalAudit :: "(rat \<Rightarrow> js_string) \<Rightarrow> ('w, 'p) coordinator_options \<Rightarrow> ApprovalExecutionCoordinatorLimits \<Rightarrow>
    js_string \<Rightarrow> js_string \<Rightarrow> js_string \<Rightarrow> ('w, 'e, DurableProposalAudit option) action" where
  "readProposalAudit R C limits conversationId proposalId executionId =
     after (audit_pages (nat (maxReconciliationPages limits)) C limits conversationId proposalId None []) (\<lambda>pages.
     returning (Option.bind (Option.bind pages (originalApprovalEvidence R)) (audit_of executionId)))"

section \<open>Comparing the proposal with its evidence\<close>

text \<open>\<^verbatim>\<open>matchesProposalIdentity\<close>; version 1 is part of the type of the payload.\<close>

definition matchesProposalIdentity :: "(rat \<Rightarrow> js_string) \<Rightarrow> ConversationApprovalProposalRecord \<Rightarrow> ConversationEvent \<Rightarrow>
    'p ApprovalExecutionClaimRequest \<Rightarrow> bool" where
  "matchesProposalIdentity R proposal created input = (case created_payload created of
     None \<Rightarrow> False
   | Some payload \<Rightarrow>
       ev_conversation_id created = cr_conversationId input \<and>
       ap_proposal_id proposal = cr_proposalId input \<and>
       ap_turn_id proposal = cr_turnId input \<and>
       ap_tool_call_id proposal = cr_toolCallId input \<and>
       ap_tool_name proposal = cr_toolName input \<and>
       ap_tool_name proposal = td_name (cr_definition input) \<and>
       pc_proposal_id payload = ap_proposal_id proposal \<and>
       pc_turn_id payload = ap_turn_id proposal \<and>
       pc_tool_call_id payload = ap_tool_call_id proposal \<and>
       pc_tool_name payload = ap_tool_name proposal \<and>
       pc_expires_at payload = ap_expires_at proposal \<and>
       stringify R (reviewed_arguments_json (pc_reviewed_arguments payload)) =
         stringify R (reviewed_arguments_json (ap_reviewed_arguments proposal)))"

definition hasExactConfirmation :: "ConversationApprovalProposalRecord \<Rightarrow> DurableProposalAudit \<Rightarrow> int \<Rightarrow> bool" where
  "hasExactConfirmation proposal audit expectedVersion \<longleftrightarrow>
     ap_status proposal \<notin> {Pending, Rejected, Expired} \<and>
     Option.bind (da_confirmed audit) recorded_change = Some (expectedVersion, Confirmed) \<and>
     2 \<le> expectedVersion"

definition matchesExistingExecution :: "ConversationApprovalProposalRecord \<Rightarrow> DurableProposalAudit \<Rightarrow> int \<Rightarrow> bool" where
  "matchesExistingExecution proposal audit confirmedVersion \<longleftrightarrow>
     Option.bind (da_executing audit) recorded_change = Some (confirmedVersion + 1, Executing) \<and>
     (if ap_status proposal = Executing then ap_proposal_version proposal = confirmedVersion + 1
      else Option.bind (da_terminal audit) recorded_change = Some (confirmedVersion + 2, ap_status proposal) \<and>
        ap_proposal_version proposal = confirmedVersion + 2)"

section \<open>Recording the lifecycle\<close>

definition lifecycle_change :: "ConversationApprovalProposalRecord \<Rightarrow> ApprovalProposalChange option" where
  "lifecycle_change proposal = (case ap_status proposal of
     Executing \<Rightarrow> Some ChangeExecuting
   | Executed \<Rightarrow> Some ChangeExecuted
   | Failed \<Rightarrow> map_option ChangeFailed (ap_failure_reason proposal)
   | _ \<Rightarrow> None)"

text \<open>
  \<^verbatim>\<open>lifecycleEvent\<close>. A failed proposal without a reason, which the type excludes, has no event
  here; the source would build one that no validation accepts.
\<close>

definition lifecycleEvent :: "ConversationApprovalProposalRecord \<Rightarrow> js_string \<Rightarrow> js_string \<Rightarrow> int \<Rightarrow> ConversationEvent option" where
  "lifecycleEvent proposal conversationId eventId revision = map_option (\<lambda>change.
     \<lparr>ev_event_id = eventId, ev_conversation_id = conversationId, ev_revision = revision,
      ev_occurred_at = ap_updated_at proposal, ev_actor = aa_actor (ap_latest_attribution proposal),
      ev_source = aa_source (ap_latest_attribution proposal), ev_mutation_id = None, ev_metadata = None,
      ev_payload = ApprovalProposalStatusChanged (ap_proposal_id proposal) (ap_proposal_version proposal) change\<rparr>)
     (lifecycle_change proposal)"

definition nextRevision :: "int option \<Rightarrow> int" where
  "nextRevision revision = coalesce revision 0 + 1"

definition same_payload :: "(rat \<Rightarrow> js_string) \<Rightarrow> ConversationEvent \<Rightarrow> ConversationEvent option \<Rightarrow> bool" where
  "same_payload R found expected = (case expected of
     None \<Rightarrow> False
   | Some e \<Rightarrow> stringify R (payload_json (ev_payload found)) = stringify R (payload_json (ev_payload e)))"

text \<open>The loop of \<^verbatim>\<open>eventExists\<close>.\<close>

fun exists_pages :: "nat \<Rightarrow> (rat \<Rightarrow> js_string) \<Rightarrow> ('w, 'p) coordinator_options \<Rightarrow> ApprovalExecutionCoordinatorLimits \<Rightarrow>
    js_string \<Rightarrow> js_string \<Rightarrow> ConversationApprovalProposalRecord \<Rightarrow> js_string option \<Rightarrow> ('w, 'e, bool) action" where
  "exists_pages 0 R C limits conversationId eventId proposal cursor = returning False"
| "exists_pages (Suc pages) R C limits conversationId eventId proposal cursor =
     after (reading (co_read C (page_input conversationId cursor limits))) (\<lambda>answer.
     case answer of
       Inl _ \<Rightarrow> returning False
     | Inr read \<Rightarrow>
         (case find (\<lambda>e. ev_event_id e = eventId) (map se_event (ro_entries read)) of
            Some found \<Rightarrow> returning (same_payload R found (lifecycleEvent proposal conversationId eventId (ev_revision found)))
          | None \<Rightarrow>
              if \<not> ro_hasMore read then returning False
              else case ro_nextCursor read of
                None \<Rightarrow> returning False
              | Some next \<Rightarrow> exists_pages pages R C limits conversationId eventId proposal (Some next)))"

definition eventExists :: "(rat \<Rightarrow> js_string) \<Rightarrow> ('w, 'p) coordinator_options \<Rightarrow> ApprovalExecutionCoordinatorLimits \<Rightarrow>
    js_string \<Rightarrow> js_string \<Rightarrow> ConversationApprovalProposalRecord \<Rightarrow> ('w, 'e, bool) action" where
  "eventExists R C limits conversationId eventId proposal =
     exists_pages (nat (maxReconciliationPages limits)) R C limits conversationId eventId proposal None"

text \<open>
  The loop of \<^verbatim>\<open>appendLifecycleEvent\<close>: another writer may take the next revision first, and an
  earlier attempt may have stored the event already.
\<close>

fun append_attempts :: "nat \<Rightarrow> (rat \<Rightarrow> js_string) \<Rightarrow> ('w, 'p) coordinator_options \<Rightarrow> ApprovalExecutionCoordinatorLimits \<Rightarrow>
    js_string \<Rightarrow> ConversationApprovalProposalRecord \<Rightarrow> js_string \<Rightarrow> ('w, 'e, bool) action" where
  "append_attempts 0 R C limits conversationId proposal eventId = returning False"
| "append_attempts (Suc attempts) R C limits conversationId proposal eventId =
     (let failed = (\<lambda>failure. if failure = Some revision_conflict
          then append_attempts attempts R C limits conversationId proposal eventId
          else if failure = Some idempotency_conflict then eventExists R C limits conversationId eventId proposal
          else returning False) in
      after (reading (co_getLatestRevision C conversationId)) (\<lambda>answer.
      case answer of
        Inl failure \<Rightarrow> failed failure
      | Inr latest \<Rightarrow>
          (case lifecycleEvent proposal conversationId eventId (nextRevision latest) of
             None \<Rightarrow> returning False
           | Some event \<Rightarrow>
               after (reading (co_append C \<lparr>ai_conversationId = conversationId, ai_expectedRevision = latest, ai_events = [event]\<rparr>)) (\<lambda>appended.
               case appended of
                 Inl failure \<Rightarrow> failed failure
               | Inr _ \<Rightarrow> returning True))))"

definition appendLifecycleEvent :: "(rat \<Rightarrow> js_string) \<Rightarrow> ('w, 'p) coordinator_options \<Rightarrow> ApprovalExecutionCoordinatorLimits \<Rightarrow>
    js_string \<Rightarrow> ConversationApprovalProposalRecord \<Rightarrow> js_string \<Rightarrow> ('w, 'e, bool) action" where
  "appendLifecycleEvent R C limits conversationId proposal executionId =
     (if ap_status proposal \<notin> {Executing, Executed, Failed} then returning False
      else append_attempts (nat (maxEventAppendAttempts limits)) R C limits conversationId proposal
        (lifecycleEventId executionId (ap_status proposal)))"

section \<open>Callbacks\<close>

definition authorized :: "('w, 'p) coordinator_options \<Rightarrow> 'p ApprovalExecutionClaimRequest \<Rightarrow> ('w, 'e, bool) action" where
  "authorized C input =
     after (reading (co_authorize C \<lparr>aq_permissionContext = cr_permissionContext input, aq_conversationId = cr_conversationId input,
       aq_proposalId = cr_proposalId input, aq_expectedProposalVersion = cr_expectedProposalVersion input,
       aq_executionId = cr_executionId input, aq_turnId = cr_turnId input, aq_toolCallId = cr_toolCallId input,
       aq_toolName = cr_toolName input\<rparr>)) (\<lambda>answer. returning (answer = Some True))"

definition binding_fits :: "ApprovalExecutionArgumentBinding \<Rightarrow> ConversationApprovalReviewedArguments \<Rightarrow> bool" where
  "binding_fits binding reviewed = (case binding of
     ArgumentReference reference \<Rightarrow> reviewed = OpaqueReference reference
   | ReviewedArgumentsDigest _ \<Rightarrow> (case reviewed of RedactedJson _ \<Rightarrow> True | OpaqueReference _ \<Rightarrow> False))"

definition argumentsMatch :: "('w, 'p) coordinator_options \<Rightarrow> 'p ApprovalExecutionClaimRequest \<Rightarrow>
    ConversationApprovalReviewedArguments \<Rightarrow> ('w, 'e, bool) action" where
  "argumentsMatch C input reviewedArguments =
     (if \<not> binding_fits (cr_argumentBinding input) reviewedArguments then returning False
      else after (reading (co_verifyArguments C \<lparr>vq_permissionContext = cr_permissionContext input,
        vq_proposalId = cr_proposalId input, vq_binding = cr_argumentBinding input, vq_reviewedArguments = reviewedArguments,
        vq_arguments = cr_arguments input, vq_definition = cr_definition input\<rparr>)) (\<lambda>answer. returning (answer = Some True)))"

section \<open>Claiming\<close>

definition mapStoreFailure :: "proposal_failure \<Rightarrow> js_string \<Rightarrow> ApprovalExecutionClaimResult" where
  "mapStoreFailure failure proposalId =
     (if failure = Some permission_denied then Refused ForbiddenClaim proposalId
      else if failure \<in> Some ` {version_conflict, invalid_transition, not_found} then Refused InvalidClaim proposalId
      else Refused UnavailableClaim proposalId)"

definition execution_transition :: "'p \<Rightarrow> js_string \<Rightarrow> js_number \<Rightarrow> ConversationApprovalProposalStatus \<Rightarrow>
    ConversationEventAttribution \<Rightarrow> js_string \<Rightarrow> js_string option \<Rightarrow> 'p TransitionApprovalProposalInput" where
  "execution_transition ctx proposalId expectedVersion status attribution executionId failureReason =
     \<lparr>ti_permissionContext = ctx, ti_proposalId = proposalId, ti_expectedVersion = expectedVersion, ti_status = status,
      ti_attribution = attribution, ti_decisionReason = None, ti_failureReason = failureReason,
      ti_idempotencyKey = transitionKey executionId status, ti_idempotencyFingerprint = transitionKey executionId status\<rparr>"

text \<open>A proposal that moved on while the event of the move is missing from the log.\<close>

definition repairMissingLifecycleAudit :: "(rat \<Rightarrow> js_string) \<Rightarrow> ('w, 'p) coordinator_options \<Rightarrow> 'p ApprovalExecutionClaimRequest \<Rightarrow>
    ConversationApprovalProposalRecord \<Rightarrow> DurableProposalAudit \<Rightarrow> ApprovalExecutionCoordinatorLimits \<Rightarrow>
    ('w, 'e, ApprovalExecutionClaimResult option) action" where
  "repairMissingLifecycleAudit R C input proposal audit limits =
     (let missingExecuting = (ap_status proposal = Executing \<and> da_executing audit = None);
          missingTerminal = (ap_status proposal \<in> {Executed, Failed} \<and> da_terminal audit = None) in
      if \<not> missingExecuting \<and> \<not> missingTerminal then returning None
      else let status = (if missingExecuting then Executing else ap_status proposal) in
        after (reading (co_transition C (execution_transition (cr_permissionContext input) (cr_proposalId input)
          (if status = Executing then cr_expectedProposalVersion input else Finite (of_int (confirmed_version input + 1)))
          status (cr_attribution input) (cr_executionId input)
          (if status = Failed then ap_failure_reason proposal else None)))) (\<lambda>answer.
        case answer of
          Inl failure \<Rightarrow> returning (Some (mapStoreFailure failure (cr_proposalId input)))
        | Inr replayed \<Rightarrow>
            after (appendLifecycleEvent R C limits (cr_conversationId input) replayed (cr_executionId input)) (\<lambda>appended.
            returning (Some (if \<not> appended then Refused UnavailableClaim (cr_proposalId input)
              else if status = Executing then Claimed (cr_proposalId input) (ap_proposal_version replayed) (cr_executionId input)
              else Reuse (cr_proposalId input) status (ap_proposal_version replayed))))))"

text \<open>The claim of a proposal that is confirmed.\<close>

definition start_execution :: "(rat \<Rightarrow> js_string) \<Rightarrow> ('w, 'p) coordinator_options \<Rightarrow> ApprovalExecutionCoordinatorLimits \<Rightarrow>
    'p ApprovalExecutionClaimRequest \<Rightarrow> js_string \<Rightarrow> ('w, 'e, ApprovalExecutionClaimResult) action" where
  "start_execution R C limits input proposalId =
     after (reading (co_transition C (execution_transition (cr_permissionContext input) proposalId
       (cr_expectedProposalVersion input) Executing (cr_attribution input) (cr_executionId input) None))) (\<lambda>answer.
     case answer of
       Inl failure \<Rightarrow> returning (mapStoreFailure failure proposalId)
     | Inr executing \<Rightarrow>
         after (appendLifecycleEvent R C limits (cr_conversationId input) executing (cr_executionId input)) (\<lambda>appended.
         returning (if appended then Claimed proposalId (ap_proposal_version executing) (cr_executionId input)
           else Refused UnavailableClaim proposalId)))"

text \<open>The claim of a proposal whose execution has started or ended.\<close>

definition resume_execution :: "(rat \<Rightarrow> js_string) \<Rightarrow> ('w, 'p) coordinator_options \<Rightarrow> ApprovalExecutionCoordinatorLimits \<Rightarrow>
    'p ApprovalExecutionClaimRequest \<Rightarrow> js_string \<Rightarrow> ConversationApprovalProposalRecord \<Rightarrow> DurableProposalAudit \<Rightarrow>
    ('w, 'e, ApprovalExecutionClaimResult) action" where
  "resume_execution R C limits input proposalId proposal audit =
     after (repairMissingLifecycleAudit R C input proposal audit limits) (\<lambda>repaired.
     case repaired of
       Some result \<Rightarrow> returning result
     | None \<Rightarrow>
         returning (if ap_status proposal \<notin> {Executing, Executed, Failed} \<or>
             \<not> matchesExistingExecution proposal audit (confirmed_version input)
           then Refused InvalidClaim proposalId
           else Reuse proposalId (ap_status proposal) (ap_proposal_version proposal)))"

definition verify_and_execute :: "(rat \<Rightarrow> js_string) \<Rightarrow> ('w, 'p) coordinator_options \<Rightarrow> ApprovalExecutionCoordinatorLimits \<Rightarrow>
    'p ApprovalExecutionClaimRequest \<Rightarrow> js_string \<Rightarrow> ConversationApprovalProposalRecord \<Rightarrow> DurableProposalAudit \<Rightarrow>
    ('w, 'e, ApprovalExecutionClaimResult) action" where
  "verify_and_execute R C limits input proposalId proposal audit =
     (let refuse = (\<lambda>reason. returning (Refused reason proposalId)) in
      after (argumentsMatch C input (ap_reviewed_arguments proposal)) (\<lambda>match.
      if \<not> match then on_abort C (refuse CancelledClaim) (refuse InvalidClaim)
      else on_abort C (refuse CancelledClaim)
        (if ap_status proposal \<noteq> Confirmed then resume_execution R C limits input proposalId proposal audit
         else start_execution R C limits input proposalId)))"

definition claim_proposal :: "(rat \<Rightarrow> js_string) \<Rightarrow> ('w, 'p) coordinator_options \<Rightarrow> ApprovalExecutionCoordinatorLimits \<Rightarrow>
    'p ApprovalExecutionClaimRequest \<Rightarrow> js_string \<Rightarrow> ConversationApprovalProposalRecord \<Rightarrow>
    ('w, 'e, ApprovalExecutionClaimResult) action" where
  "claim_proposal R C limits input proposalId proposal =
     (let refuse = (\<lambda>reason. returning (Refused reason proposalId)) in
      after (readProposalAudit R C limits (cr_conversationId input) proposalId (cr_executionId input)) (\<lambda>evidence.
      case evidence of
        None \<Rightarrow> refuse InvalidClaim
      | Some audit \<Rightarrow>
          if \<not> matchesProposalIdentity R proposal (da_created audit) input then refuse InvalidClaim
          else if \<not> hasExactConfirmation proposal audit (confirmed_version input)
          then refuse (if ap_status proposal = Pending then ApprovalRequired else InvalidClaim)
          else verify_and_execute R C limits input proposalId proposal audit))"

definition get_and_claim :: "(rat \<Rightarrow> js_string) \<Rightarrow> ('w, 'p) coordinator_options \<Rightarrow> ApprovalExecutionCoordinatorLimits \<Rightarrow>
    'p ApprovalExecutionClaimRequest \<Rightarrow> js_string \<Rightarrow> ('w, 'e, ApprovalExecutionClaimResult) action" where
  "get_and_claim R C limits input proposalId =
     (let refuse = (\<lambda>reason. returning (Refused reason proposalId)) in
      after (reading (co_get C (cr_permissionContext input) proposalId)) (\<lambda>answer.
      case answer of
        Inl failure \<Rightarrow> refuse (if failure = Some permission_denied then ForbiddenClaim else UnavailableClaim)
      | Inr proposal \<Rightarrow> on_abort C (refuse CancelledClaim)
          (case proposal of None \<Rightarrow> refuse InvalidClaim | Some p \<Rightarrow> claim_proposal R C limits input proposalId p)))"

definition claim :: "(rat \<Rightarrow> js_string) \<Rightarrow> ('w, 'p) coordinator_options \<Rightarrow> ApprovalExecutionCoordinatorLimits \<Rightarrow>
    'p ApprovalExecutionClaimRequest \<Rightarrow> ('w, 'e, ApprovalExecutionClaimResult) action" where
  "claim R C limits input =
     (let proposalId = safeProposalId (cr_proposalId input);
          refuse = (\<lambda>reason. returning (Refused reason proposalId)) in
      if \<not> validClaimInput input then refuse InvalidClaim
      else on_abort C (refuse CancelledClaim)
        (after (authorized C input) (\<lambda>allowed.
         if \<not> allowed then on_abort C (refuse CancelledClaim) (refuse ForbiddenClaim)
         else get_and_claim R C limits input proposalId)))"

section \<open>Settling\<close>

definition settle :: "(rat \<Rightarrow> js_string) \<Rightarrow> ('w, 'p) coordinator_options \<Rightarrow> ApprovalExecutionCoordinatorLimits \<Rightarrow>
    'p SettleApprovalExecutionRequest \<Rightarrow> ('w, 'e, ApprovalExecutionSettlementResult) action" where
  "settle R C limits input =
     (if \<not> validSettlementInput input then returning SettlementInvalid
      else after (reading (co_transition C (execution_transition (sr_permissionContext input) (sr_proposalId input)
        (sr_executingVersion input) (sr_status input) (sr_attribution input) (sr_executionId input) (sr_failureReason input)))) (\<lambda>answer.
      case answer of
        Inl failure \<Rightarrow> returning (if failure = Some permission_denied then SettlementForbidden else SettlementUnavailable)
      | Inr transitioned \<Rightarrow>
          after (appendLifecycleEvent R C limits (sr_conversationId input) transitioned (sr_executionId input)) (\<lambda>appended.
          returning (if appended then SettlementRecorded (ap_proposal_version transitioned) else SettlementUnavailable))))"

end
