(* ===== verification/JsonText.thy ===== *)
theory JsonText
  imports ApprovalStoreProperties EventStoreProperties
begin

text \<open>
  Reading JSON text back: a quoted string determines its value and where it ends, so the text of
  an object determines the texts of its entries. Request signatures are such texts, and
  therefore tell requests apart.
\<close>

section \<open>Quoted strings\<close>

definition hex_value :: "code_unit \<Rightarrow> nat" where
  "hex_value c = (if unat c < 58 then unat c - 48 else unat c - 87)"

fun unquote :: "js_string \<Rightarrow> (js_string \<times> js_string) option" where
  "unquote [] = None"
| "unquote (c # cs) =
     (if c = 0x22 then Some ([], cs)
      else if c = 0x5C then
        (case cs of
           [] \<Rightarrow> None
         | d # ds \<Rightarrow>
             if d = of_char CHR ''u'' then
               map_option (\<lambda>(s, rest). (of_nat (foldl (\<lambda>n h. 16 * n + hex_value h) 0 (take 4 ds)) # s, rest)) (unquote (drop 4 ds))
             else map_option (\<lambda>(s, rest). ((if d = of_char CHR ''b'' then 8 else if d = of_char CHR ''t'' then 9
               else if d = of_char CHR ''n'' then 10 else if d = of_char CHR ''f'' then 12
               else if d = of_char CHR ''r'' then 13 else d) # s, rest)) (unquote ds))
      else map_option (\<lambda>(s, rest). (c # s, rest)) (unquote cs))"

lemma hex_value_digit: "n < 16 \<Longrightarrow> hex_value (of_char (hex_digit n)) = n"
  by (auto simp: hex_value_def hex_digit_def)

lemma hex_read:
  fixes n :: nat
  assumes "n < 65536"
  shows "16 * (16 * (16 * (n div 4096 mod 16) + n div 256 mod 16) + n div 16 mod 16) + n mod 16 = n"
proof -
  have top: "n div 4096 mod 16 = n div 4096" using assms by simp
  have "n div 16 div 16 = n div 256" "n div 256 div 16 = n div 4096" by (simp_all add: div_mult2_eq [symmetric])
  then have "16 * (n div 4096) + n div 256 mod 16 = n div 256" "16 * (n div 256) + n div 16 mod 16 = n div 16"
    using mult_div_mod_eq [of 16 "n div 256"] mult_div_mod_eq [of 16 "n div 16"] by simp_all
  with top mult_div_mod_eq [of 16 n] show ?thesis by simp
qed

lemma unicode_escape_units:
  "unicode_escape c = [0x5C, of_char CHR ''u'', of_char (hex_digit (unat c div 4096 mod 16)),
     of_char (hex_digit (unat c div 256 mod 16)), of_char (hex_digit (unat c div 16 mod 16)), of_char (hex_digit (unat c mod 16))]"
  by (simp add: unicode_escape_def js_def)

lemma hex_digits_value:
  fixes n :: nat
  assumes "n < 65536"
  shows "foldl (\<lambda>n h. 16 * n + hex_value h) 0 [of_char (hex_digit (n div 4096 mod 16)), of_char (hex_digit (n div 256 mod 16)),
    of_char (hex_digit (n div 16 mod 16)), of_char (hex_digit (n mod 16))] = n"
proof -
  have "n div 4096 mod 16 = n div 4096" using assms by simp
  moreover have "hex_value (of_char (hex_digit (n div 4096))) = n div 4096" using assms by (intro hex_value_digit) simp
  ultimately show ?thesis using hex_read [OF assms] by (simp add: hex_value_digit)
qed

lemma unquote_escape: "unquote (unicode_escape c @ x) = map_option (\<lambda>(s, rest). (c # s, rest)) (unquote x)"
proof -
  have "unat c < 65536" using unsigned_less [of c] by simp
  note hex_digits_value [OF this]
  moreover have "(of_char CHR ''u'' :: code_unit) = 0x75" by simp
  ultimately show ?thesis unfolding unicode_escape_units append.simps
    by (subst unquote.simps(2)) simp
qed

lemma unquote_quote_units: "unquote (quote_units s @ 0x22 # x) = Some (s, x)"
proof (induction s rule: quote_units.induct)
  case 1
  then show ?case by simp
next
  case (2 c cs)
  show ?case
  proof (cases "high_surrogate c \<and> cs \<noteq> [] \<and> low_surrogate (hd cs)")
    case True
    then obtain d ds where d: "cs = d # ds" by (cases cs) auto
    from True d have "c \<noteq> 0x22" "c \<noteq> 0x5C" "d \<noteq> 0x22" "d \<noteq> 0x5C"
      by (auto simp: high_surrogate_def low_surrogate_def)
    with True d 2(1) show ?thesis by simp
  next
    case False
    then have IH: "unquote (quote_units cs @ 0x22 # x) = Some (cs, x)" using 2(2-) by metis
    show ?thesis
      apply (subst quote_units.simps(2))
      apply (subst if_not_P [OF False])
      apply (simp only: if_distrib [of "\<lambda>q. unquote (q @ 0x22 # x)"] append_assoc unquote_escape IH)
      apply (simp add: js_def IH)
      done
  qed
qed

lemma quote_determined:
  assumes "quote s @ x = quote t @ y"
  shows "s = t \<and> x = y"
proof -
  have "unquote (quote_units s @ 0x22 # x) = unquote (quote_units t @ 0x22 # y)"
    using assms by (simp add: quote_def)
  then show ?thesis by (simp add: unquote_quote_units)
qed

section \<open>Objects\<close>

text \<open>Two texts, followed by anything, agree only if they are equal.\<close>

definition apart :: "js_string \<Rightarrow> js_string \<Rightarrow> bool" where
  "apart s t \<longleftrightarrow> (\<forall>x y. s @ x = t @ y \<longrightarrow> s = t)"

lemma apartD: "apart s t \<Longrightarrow> s @ x = t @ y \<Longrightarrow> s = t \<and> x = y"
  unfolding apart_def by blast

lemma join_comma_Cons: "join_comma (x # xs) = (if xs = [] then x else x @ js '','' @ join_comma xs)"
  by (cases xs) simp_all

lemma join_determined:
  assumes "\<And>t u. t \<in> set ts \<Longrightarrow> u \<in> set us \<Longrightarrow> apart t u" "\<And>t. t \<in> set ts \<union> set us \<Longrightarrow> t \<noteq> [] \<and> hd t \<noteq> c" "js '','' \<noteq> [c]"
    and "join_comma ts @ c # x = join_comma us @ c # y"
  shows "ts = us \<and> x = y"
  using assms
proof (induction ts arbitrary: us)
  case Nil
  show ?case
  proof (cases us)
    case (Cons u vs)
    then have "hd (u @ (if vs = [] then c # y else js '','' @ join_comma vs @ c # y)) = c"
      using Nil.prems(4) by (simp add: join_comma_Cons split: if_splits) (metis list.sel(1))+
    with Nil.prems(2) [of u] Cons show ?thesis by simp
  qed (use Nil in simp)
next
  case (Cons t ts)
  show ?case
  proof (cases us)
    case Nil
    then have "hd (t @ (if ts = [] then c # x else js '','' @ join_comma ts @ c # x)) = c"
      using Cons.prems(4) by (simp add: join_comma_Cons split: if_splits)
    with Cons.prems(2) [of t] show ?thesis by simp
  next
    case (Cons u vs)
    from Cons.prems(4) have eq: "t @ (if ts = [] then c # x else js '','' @ join_comma ts @ c # x) =
        u @ (if vs = [] then c # y else js '','' @ join_comma vs @ c # y)"
      by (simp add: Cons join_comma_Cons split: if_splits)
    have "apart t u" using Cons.prems(1) Cons by simp
    from apartD [OF this eq] have tail: "t = u"
      "(if ts = [] then c # x else js '','' @ join_comma ts @ c # x) = (if vs = [] then c # y else js '','' @ join_comma vs @ c # y)"
      by blast+
    have comma: "js '','' = [0x2C]" by (simp add: js_def)
    from Cons.prems(3) comma have "c \<noteq> 0x2C" by simp
    with tail(2) comma have both: "(ts = [] \<longleftrightarrow> vs = []) \<and> (ts = [] \<longrightarrow> x = y) \<and>
        (ts \<noteq> [] \<longrightarrow> join_comma ts @ c # x = join_comma vs @ c # y)"
      by (auto split: if_splits)
    show ?thesis
    proof (cases "ts = []")
      case True
      with both tail Cons show ?thesis by simp
    next
      case False
      have "ts = vs \<and> x = y"
        by (rule Cons.IH) (use Cons.prems(1,2,3) Cons both False in auto)
      with tail Cons show ?thesis by simp
    qed
  qed
qed

fun numberless :: "json \<Rightarrow> bool" where
  "numberless (JNum _) = False"
| "numberless (JArr vs) = list_all numberless vs"
| "numberless (JObj fs) = list_all (\<lambda>f. numberless (snd f)) fs"
| "numberless _ = True"

definition entry_text :: "(rat \<Rightarrow> js_string) \<Rightarrow> js_string \<times> json \<Rightarrow> js_string" where
  "entry_text R f = quote (fst f) @ js '':'' @ stableStringify R (snd f)"

lemma stableStringify_obj: "\<exists>ts. stableStringify R (JObj fs) = [0x7B] @ join_comma ts @ [0x7D] \<and> set ts = entry_text R ` set fs"
  by (rule exI [of _ "map snd (sort_key fst (map (\<lambda>f. (fst f, quote (fst f) @ js '':'' @ stableStringify R (snd f))) fs))"])
    (auto simp: js_def entry_text_def image_image)

lemma entries_apart:
  assumes "\<And>x y. stableStringify R (snd f) @ x = stableStringify R (snd g) @ y \<Longrightarrow> stableStringify R (snd f) = stableStringify R (snd g)"
  shows "apart (entry_text R f) (entry_text R g)"
  unfolding apart_def entry_text_def append_assoc
proof (intro allI impI)
  fix x y assume eq: "quote (fst f) @ js '':'' @ stableStringify R (snd f) @ x = quote (fst g) @ js '':'' @ stableStringify R (snd g) @ y"
  from quote_determined [OF this] assms show "quote (fst f) @ js '':'' @ stableStringify R (snd f) = quote (fst g) @ js '':'' @ stableStringify R (snd g)"
    by (metis same_append_eq)
qed

lemma entry_text_head: "entry_text R f \<noteq> [] \<and> hd (entry_text R f) = 0x22"
  by (simp add: entry_text_def quote_def)

lemma stable_head:
  "stableStringify R (JStr s) = 0x22 # quote_units s @ [0x22]"
  "stableStringify R (JArr vs) = 0x5B # join_comma (map (stableStringify R) vs) @ [0x5D]"
  "stableStringify R JNull = [0x6E, 0x75, 0x6C, 0x6C]"
  "stableStringify R (JBool b) = (if b then [0x74, 0x72, 0x75, 0x65] else [0x66, 0x61, 0x6C, 0x73, 0x65])"
  by (simp_all add: quote_def js_def)

lemma stable_hd:
  "hd (stableStringify R v) = (case v of JStr _ \<Rightarrow> 0x22 | JArr _ \<Rightarrow> 0x5B | JObj _ \<Rightarrow> 0x7B | JNull \<Rightarrow> 0x6E
     | JBool b \<Rightarrow> (if b then 0x74 else 0x66) | JNum n \<Rightarrow> hd (number_text R n))"
  by (cases v) (simp_all add: quote_def js_def)

lemma numberless_head: "numberless v \<Longrightarrow> stableStringify R v \<noteq> [] \<and> hd (stableStringify R v) \<in> {0x22, 0x5B, 0x7B, 0x6E, 0x74, 0x66}"
  using stable_hd [of R v] by (cases v) (auto simp: quote_def js_def)

lemma size_entry: "f \<in> set fs \<Longrightarrow> size (snd f) < size (JObj fs)"
  by (induction fs) auto

lemma stable_apart:
  "numberless v \<Longrightarrow> numberless w \<Longrightarrow> stableStringify R v @ x = stableStringify R w @ y \<Longrightarrow> stableStringify R v = stableStringify R w"
proof (induction v arbitrary: w x y rule: measure_induct_rule [of size])
  case (less v)
  obtain h where h: "hd (stableStringify R w) = hd (stableStringify R v)" "stableStringify R v \<noteq> []" "stableStringify R w \<noteq> []"
    using numberless_head [OF less.prems(1)] numberless_head [OF less.prems(2)] less.prems(3) by (metis hd_append2)
  show ?case
  proof (cases v)
    case (JStr s)
    with h less.prems(2) obtain t where w: "w = JStr t" using stable_hd [of R v] stable_hd [of R w] by (cases w) (auto split: if_splits)
    from less.prems(3) have "quote s @ x = quote t @ y" by (simp add: JStr w)
    from quote_determined [OF this] show ?thesis by (simp add: JStr w)
  next
    case (JArr vs)
    with h less.prems(2) obtain ws where w: "w = JArr ws" using stable_hd [of R v] stable_hd [of R w] by (cases w) (auto split: if_splits)
    have "map (stableStringify R) vs = map (stableStringify R) ws \<and> x = y"
    proof (rule join_determined)
      show "join_comma (map (stableStringify R) vs) @ 0x5D # x = join_comma (map (stableStringify R) ws) @ 0x5D # y"
        using less.prems(3) by (simp add: JArr w js_def)
    next
      fix t u assume "t \<in> set (map (stableStringify R) vs)" "u \<in> set (map (stableStringify R) ws)"
      then obtain a b where ab: "a \<in> set vs" "b \<in> set ws" "t = stableStringify R a" "u = stableStringify R b" by auto
      have "size a < size v" using ab(1) by (auto simp: JArr size_list_estimation' less_Suc_eq_le)
      moreover have "numberless a" "numberless b" using less.prems(1,2) ab JArr w by (auto simp: list_all_iff)
      ultimately show "apart t u" using less.IH ab unfolding apart_def by blast
    next
      fix t assume "t \<in> set (map (stableStringify R) vs) \<union> set (map (stableStringify R) ws)"
      then obtain a where "numberless a" "t = stableStringify R a" using less.prems(1,2) JArr w by (auto simp: list_all_iff)
      with numberless_head [of a R] show "t \<noteq> [] \<and> hd t \<noteq> 0x5D" by auto
    qed (simp add: js_def)
    then show ?thesis by (simp add: JArr w)
  next
    case (JObj fs)
    with h less.prems(2) obtain gs where w: "w = JObj gs" using stable_hd [of R v] stable_hd [of R w] by (cases w) (auto split: if_splits)
    obtain ts us where ts: "stableStringify R v = [0x7B] @ join_comma ts @ [0x7D]" "set ts = entry_text R ` set fs"
      and us: "stableStringify R w = [0x7B] @ join_comma us @ [0x7D]" "set us = entry_text R ` set gs"
      using stableStringify_obj [of R fs] stableStringify_obj [of R gs] JObj w by blast
    have "ts = us \<and> x = y"
    proof (rule join_determined)
      show "join_comma ts @ 0x7D # x = join_comma us @ 0x7D # y" using less.prems(3) by (simp add: ts us)
    next
      fix t u assume "t \<in> set ts" "u \<in> set us"
      then obtain f g where fg: "f \<in> set fs" "g \<in> set gs" "t = entry_text R f" "u = entry_text R g" using ts(2) us(2) by auto
      have "size (snd f) < size v" using size_entry [OF fg(1)] by (simp add: JObj)
      moreover have "numberless (snd f)" "numberless (snd g)" using less.prems(1,2) fg JObj w by (auto simp: list_all_iff)
      ultimately show "apart t u" unfolding fg(3,4) by (intro entries_apart) (rule less.IH)
    next
      fix t assume "t \<in> set ts \<union> set us"
      with ts(2) us(2) obtain f where "t = entry_text R f" by auto
      then show "t \<noteq> [] \<and> hd t \<noteq> 0x7D" by (simp add: entry_text_head)
    qed (simp add: js_def)
    then show ?thesis by (simp add: ts us)
  qed (use h less.prems stable_hd [of R v] stable_hd [of R w] in \<open>(cases w; auto split: if_splits)+\<close>)
qed

section \<open>Request signatures\<close>

lemma nat_digits_ascii: "c \<in> set (nat_digits n) \<Longrightarrow> c \<noteq> CHR '',''"
proof (induction n rule: nat_digits.induct)
  case (1 n)
  have digit: "char_of (48 + d) \<noteq> CHR '',''" if "d < 10" for d :: nat
  proof
    assume "char_of (48 + d) = CHR '',''"
    then have "(of_char (char_of (48 + d) :: char) :: nat) = 44" by simp
    with digit_chars [OF that] show False by simp
  qed
  note last = digit [of "n mod 10"] digit [of n]
  from 1 last show ?case
    by (subst (asm) nat_digits.simps) (auto split: if_splits)
qed

lemma js_mem: "(of_char c :: code_unit) \<in> set (js s) \<longleftrightarrow> c \<in> set s"
  by (auto simp: js_def)

lemma version_text:
  assumes "safe_int n = Some v" "0 < v"
  shows "number_text R n = js (int_digits v)" "of_char CHR '','' \<notin> set (js (int_digits v))"
proof -
  from assms have "n = Finite (of_int v)" "\<bar>v\<bar> \<le> MAX_SAFE_INTEGER"
    by (auto simp: safe_int_def split: js_number.splits if_splits)
  then show "number_text R n = js (int_digits v)"
    using assms(2) by (simp add: number_text_def MAX_SAFE_INTEGER_def)
  show "of_char CHR '','' \<notin> set (js (int_digits v))"
    unfolding js_mem using assms(2) nat_digits_ascii by (auto simp: int_digits_def)
qed

lemma upto_comma: "c \<notin> set s \<Longrightarrow> c \<notin> set t \<Longrightarrow> s @ c # x = t @ c # y \<Longrightarrow> s = t \<and> x = y"
proof (induction s arbitrary: t)
  case Nil
  then show ?case by (cases t) auto
next
  case (Cons a s)
  then show ?case by (cases t) auto
qed

lemma transition_signature_text:
  "transitionRequestSignature R i = js ''{'' @
     quote (js ''attribution'') @ js '':'' @ stableStringify R (attribution_object (ti_attribution i)) @ js '','' @
     quote (js ''decisionReason'') @ js '':'' @ stableStringify R (nullable (ti_decisionReason i)) @ js '','' @
     quote (js ''expectedVersion'') @ js '':'' @ number_text R (ti_expectedVersion i) @ js '','' @
     quote (js ''failureReason'') @ js '':'' @ stableStringify R (nullable (ti_failureReason i)) @ js '','' @
     quote (js ''operation'') @ js '':'' @ quote (js ''transition'') @ js '','' @
     quote (js ''proposalId'') @ js '':'' @ quote (ti_proposalId i) @ js '','' @
     quote (js ''status'') @ js '':'' @ quote (js (proposal_status_text (ti_status i))) @ js ''}''"
  unfolding transitionRequestSignature_def by (simp add: sort_key_def js_def)

lemma numberless_parts:
  "numberless (attribution_object a)" "numberless (nullable r)"
  by (auto simp: attribution_object_def actor_json_def source_json_def nullable_def opt_field_def split: option.split
      ConversationEventSource.split)

text \<open>The signature of a transition tells its proposal, its version and its status.\<close>

lemma stable_next: "numberless a \<Longrightarrow> numberless b \<Longrightarrow> stableStringify R a @ x = stableStringify R b @ y \<Longrightarrow> x = y"
  using stable_apart by (metis same_append_eq)

lemma transition_signature_determines:
  assumes sig: "transitionRequestSignature R i = transitionRequestSignature R j"
    and v: "safe_int (ti_expectedVersion i) = Some v" "0 < v" and w: "safe_int (ti_expectedVersion j) = Some w" "0 < w"
  shows "ti_proposalId i = ti_proposalId j \<and> v = w \<and> ti_status i = ti_status j"
proof -
  have comma: "js '','' @ x = of_char CHR '','' # x" for x by (simp add: js_def)
  note parts = sig [unfolded transition_signature_text version_text(1) [OF v] version_text(1) [OF w], unfolded same_append_eq]
  note reason = stable_next [OF numberless_parts(1) numberless_parts(1) parts, unfolded same_append_eq]
  note version = stable_next [OF numberless_parts(2) numberless_parts(2) reason, unfolded same_append_eq]
  note tail = upto_comma [OF version_text(2) [OF v] version_text(2) [OF w] version [unfolded comma]]
  then have "v = w" using v(2) w(2) by (auto simp: int_digits_def dest: nat_digits_inj)
  note failure = conjunct2 [OF tail, unfolded same_append_eq]
  note rest = quote_determined [OF stable_next [OF numberless_parts(2) numberless_parts(2) failure, unfolded comma [symmetric] same_append_eq]]
  have "proposal_status_text (ti_status i) = proposal_status_text (ti_status j)"
    using quote_determined [OF conjunct2 [OF rest, unfolded same_append_eq]] by simp
  then have "ti_status i = ti_status j"
    by (cases "ti_status i"; cases "ti_status j") (simp_all add: proposal_status_text_def)
  with conjunct1 [OF rest] \<open>v = w\<close> show ?thesis by simp
qed

end
