(* ===== verification/ApprovalExecutionProperties.thy ===== *)
theory ApprovalExecutionProperties
  imports ApprovalExecution JsonText
begin

text \<open>
  What the coordinator promises. It moves a proposal at most once per claim, and only with the
  host's permission, the exact confirmation in the log and verified arguments; what it grants is
  recorded in both stores; and no two executions are granted the same confirmation.
\<close>

section \<open>Observing a run\<close>

datatype (plugins only: code size) 'p coordinator_call =
    AskedPermission "'p ApprovalExecutionPermissionRequest" "bool option"
  | ReadProposal js_string "proposal_failure + ConversationApprovalProposalRecord option"
  | AskedVerifier "'p ApprovalExecutionArgumentVerificationRequest" "bool option"
  | Transitioned "'p TransitionApprovalProposalInput" "proposal_failure + ConversationApprovalProposalRecord"
  | ReadLog ReadConversationEventsInput "event_failure + ReadConversationEventsResult"
  | AskedRevision js_string "event_failure + int option"
  | AppendedEvents AppendConversationEventsInput "event_failure + AppendConversationEventsResult"

definition observed_options :: "('w, 'p) coordinator_options \<Rightarrow> ('w \<times> 'p coordinator_call list, 'p) coordinator_options" where
  "observed_options C = \<lparr>co_get = (\<lambda>ctx p. recording (ReadProposal p) (co_get C ctx p)),
     co_transition = (\<lambda>t. recording (Transitioned t) (co_transition C t)),
     co_read = (\<lambda>i. recording (ReadLog i) (co_read C i)),
     co_getLatestRevision = (\<lambda>c. recording (AskedRevision c) (co_getLatestRevision C c)),
     co_append = (\<lambda>i. recording (AppendedEvents i) (co_append C i)),
     co_authorize = (\<lambda>q. recording (AskedPermission q) (co_authorize C q)),
     co_verifyArguments = (\<lambda>q. recording (AskedVerifier q) (co_verifyArguments C q)),
     co_aborted = (\<lambda>(w, _). co_aborted C w)\<rparr>"

lemma observed_options_simps:
  "co_get (observed_options C) = (\<lambda>ctx p. recording (ReadProposal p) (co_get C ctx p))"
  "co_transition (observed_options C) = (\<lambda>t. recording (Transitioned t) (co_transition C t))"
  "co_read (observed_options C) = (\<lambda>i. recording (ReadLog i) (co_read C i))"
  "co_getLatestRevision (observed_options C) = (\<lambda>c. recording (AskedRevision c) (co_getLatestRevision C c))"
  "co_append (observed_options C) = (\<lambda>i. recording (AppendedEvents i) (co_append C i))"
  "co_authorize (observed_options C) = (\<lambda>q. recording (AskedPermission q) (co_authorize C q))"
  "co_verifyArguments (observed_options C) = (\<lambda>q. recording (AskedVerifier q) (co_verifyArguments C q))"
  by (simp_all add: observed_options_def)

lemma obeys_reads:
  assumes "\<And>a. \<exists>L'. step L (c a) = Some L' \<and> obeys step L' (g a) Q"
  shows "obeys step L (after (reading (recording c f)) g) Q"
proof (rule obeys_after [where P = "\<lambda>r L'. \<exists>a. r = Inr a \<and> step L (c a) = Some L'"])
  have "calls (reading (recording c f)) (\<lambda>r s. \<exists>a. r = Inr a \<and> s = [c a])"
    by (auto simp: calls_def reading_def recording_def split: prod.splits)
  moreover have "\<exists>L'. follow step L [c a] = Some L' \<and> step L (c a) = Some L'" for a
    using assms [of a] by auto
  ultimately show "obeys step L (reading (recording c f)) (\<lambda>r L'. \<exists>a. r = Inr a \<and> step L (c a) = Some L')"
    unfolding obeys_def by - (erule calls_mono, blast)
next
  fix a L' assume "\<exists>b. Inr a = Inr b \<and> step L (c b) = Some L'"
  then have "step L (c a) = Some L'" by auto
  with assms [of a] show "obeys step L' (g a) Q" by auto
qed auto

lemma obeys_on_abort: "obeys step L m Q \<Longrightarrow> obeys step L n Q \<Longrightarrow> obeys step L (on_abort (observed_options C) m n) Q"
  unfolding on_abort_def obeys_def calls_def by auto

section \<open>The protocol\<close>

record 'p execution_ledger =
  el_permission :: "'p ApprovalExecutionPermissionRequest option"
  el_proposal :: "ConversationApprovalProposalRecord option"
  el_evidence :: "ConversationEvent list"
  el_verified :: "'p ApprovalExecutionArgumentVerificationRequest option"
  el_move :: "('p TransitionApprovalProposalInput \<times> (proposal_failure + ConversationApprovalProposalRecord)) option"
  el_recorded :: bool

definition new_ledger :: "'p execution_ledger" where
  "new_ledger = \<lparr>el_permission = None, el_proposal = None, el_evidence = [], el_verified = None, el_move = None, el_recorded = False\<rparr>"

text \<open>
  The proposal is moved at most once, when \<open>may_move\<close> allows it on what was learnt before. After
  an accepted move, the one event that may be appended is the lifecycle event of the moved
  proposal; it is recorded when the log accepts it or is found to hold it.
\<close>

definition execution_step :: "(rat \<Rightarrow> js_string) \<Rightarrow> js_string \<Rightarrow> js_string \<Rightarrow> js_string \<Rightarrow>
    ('p execution_ledger \<Rightarrow> 'p TransitionApprovalProposalInput \<Rightarrow> bool) \<Rightarrow> 'p execution_ledger \<Rightarrow> 'p coordinator_call \<Rightarrow>
    'p execution_ledger option" where
  "execution_step R conversationId proposalId executionId may_move L call = (case call of
     AskedPermission q a \<Rightarrow>
       if el_move L = None then Some (L\<lparr>el_permission := (if a = Some True then Some q else None)\<rparr>) else None
   | ReadProposal p a \<Rightarrow>
       if el_move L = None \<and> p = proposalId
       then Some (L\<lparr>el_proposal := (case a of Inr found \<Rightarrow> found | Inl _ \<Rightarrow> None)\<rparr>) else None
   | AskedVerifier q a \<Rightarrow>
       if el_move L = None then Some (L\<lparr>el_verified := (if a = Some True then Some q else None)\<rparr>) else None
   | Transitioned t a \<Rightarrow>
       if el_move L = None \<and> may_move L t then Some (L\<lparr>el_move := Some (t, a)\<rparr>) else None
   | AskedRevision c a \<Rightarrow> Some L
   | ReadLog i a \<Rightarrow>
       if ri_conversationId i \<noteq> conversationId then None
       else (case a of
         Inl _ \<Rightarrow> Some L
       | Inr read \<Rightarrow>
           (case el_move L of
              None \<Rightarrow> Some (L\<lparr>el_evidence := el_evidence L @ filter (concerns proposalId) (map se_event (ro_entries read))\<rparr>)
            | Some (t, Inr p) \<Rightarrow>
                Some (L\<lparr>el_recorded := (el_recorded L \<or> list_ex (\<lambda>e.
                  ev_event_id e = lifecycleEventId executionId (ap_status p) \<and>
                  same_payload R e (lifecycleEvent p conversationId (ev_event_id e) (ev_revision e))) (map se_event (ro_entries read)))\<rparr>)
            | Some (t, Inl _) \<Rightarrow> None))
   | AppendedEvents i a \<Rightarrow>
       (case el_move L of
          Some (t, Inr p) \<Rightarrow>
            if ai_conversationId i = conversationId \<and> \<not> el_recorded L \<and>
              map Some (ai_events i) = [lifecycleEvent p conversationId (lifecycleEventId executionId (ap_status p)) (nextRevision (ai_expectedRevision i))]
            then Some (L\<lparr>el_recorded := \<not> isl a\<rparr>) else None
        | _ \<Rightarrow> None))"

definition permission_request :: "'p ApprovalExecutionClaimRequest \<Rightarrow> 'p ApprovalExecutionPermissionRequest" where
  "permission_request input = \<lparr>aq_permissionContext = cr_permissionContext input, aq_conversationId = cr_conversationId input,
     aq_proposalId = cr_proposalId input, aq_expectedProposalVersion = cr_expectedProposalVersion input,
     aq_executionId = cr_executionId input, aq_turnId = cr_turnId input, aq_toolCallId = cr_toolCallId input,
     aq_toolName = cr_toolName input\<rparr>"

definition verification_request :: "'p ApprovalExecutionClaimRequest \<Rightarrow> ConversationApprovalReviewedArguments \<Rightarrow>
    'p ApprovalExecutionArgumentVerificationRequest" where
  "verification_request input reviewed = \<lparr>vq_permissionContext = cr_permissionContext input,
     vq_proposalId = cr_proposalId input, vq_binding = cr_argumentBinding input, vq_reviewedArguments = reviewed,
     vq_arguments = cr_arguments input, vq_definition = cr_definition input\<rparr>"

text \<open>When a claim may move its proposal, and how.\<close>

definition may_claim :: "(rat \<Rightarrow> js_string) \<Rightarrow> 'p ApprovalExecutionClaimRequest \<Rightarrow> 'p execution_ledger \<Rightarrow>
    'p TransitionApprovalProposalInput \<Rightarrow> bool" where
  "may_claim R input L t \<longleftrightarrow> (\<exists>p audit.
     el_permission L = Some (permission_request input) \<and>
     el_proposal L = Some p \<and>
     Option.bind (originalApprovalEvidence R (el_evidence L)) (audit_of (cr_executionId input)) = Some audit \<and>
     matchesProposalIdentity R p (da_created audit) input \<and>
     hasExactConfirmation p audit (confirmed_version input) \<and>
     binding_fits (cr_argumentBinding input) (ap_reviewed_arguments p) \<and>
     el_verified L = Some (verification_request input (ap_reviewed_arguments p)) \<and>
     ti_proposalId t = cr_proposalId input \<and>
     ti_idempotencyKey t = transitionKey (cr_executionId input) (ti_status t) \<and>
     (if ti_status t = Executing
      then ti_expectedVersion t = cr_expectedProposalVersion input \<and> ap_status p \<in> {Confirmed, Executing}
      else ti_status t = ap_status p \<and> ap_status p \<in> {Executed, Failed}))"

definition claim_step :: "(rat \<Rightarrow> js_string) \<Rightarrow> 'p ApprovalExecutionClaimRequest \<Rightarrow> 'p execution_ledger \<Rightarrow> 'p coordinator_call \<Rightarrow>
    'p execution_ledger option" where
  "claim_step R input = execution_step R (cr_conversationId input) (cr_proposalId input) (cr_executionId input) (may_claim R input)"

text \<open>What the ledger says when the run ends: a claim that is granted has been recorded.\<close>

definition claim_recorded :: "'p ApprovalExecutionClaimRequest \<Rightarrow> ApprovalExecutionClaimResult \<Rightarrow> 'p execution_ledger \<Rightarrow> bool" where
  "claim_recorded input result L \<longleftrightarrow> (\<forall>p v e. result = Claimed p v e \<longrightarrow>
     p = cr_proposalId input \<and> e = cr_executionId input \<and> el_recorded L \<and>
     (\<exists>t q. el_move L = Some (t, Inr q) \<and> ti_status t = Executing \<and> ap_proposal_version q = v))"

definition claim_ends :: "'p ApprovalExecutionClaimRequest \<Rightarrow> 'e + ApprovalExecutionClaimResult \<Rightarrow> 'p execution_ledger \<Rightarrow> bool" where
  "claim_ends input r L \<longleftrightarrow> (\<forall>result. r = Inr result \<longrightarrow> claim_recorded input result L)"

section \<open>Reading and writing the log\<close>

lemma obeys_audit_pages:
  assumes "el_move L = None" "el_evidence L = matching"
    and "\<And>found. Q (Inr (Some found)) (L\<lparr>el_evidence := found\<rparr>)" "\<And>found. Q (Inr None) (L\<lparr>el_evidence := found\<rparr>)"
  shows "obeys (execution_step R c p x may) L (audit_pages n (observed_options C) limits c p cursor matching) Q"
  using assms
proof (induction n arbitrary: L cursor matching)
  case 0
  then have "Q (Inr (Some matching)) L" using 0(3) [of matching] by (cases L) simp
  then show ?case by (simp add: obeys_returning)
next
  case (Suc n)
  show ?case
    unfolding audit_pages.simps observed_options_simps
  proof (rule obeys_reads)
    fix a :: "event_failure + ReadConversationEventsResult"
    have same: "L\<lparr>el_evidence := matching\<rparr> = L" using Suc.prems(2) by (cases L) simp
    show "\<exists>L'. execution_step R c p x may L (ReadLog (page_input c cursor limits) a) = Some L' \<and>
      obeys (execution_step R c p x may) L' (case a of
        Inl _ \<Rightarrow> returning None
      | Inr read \<Rightarrow> (let matching = matching @ filter (concerns p) (map se_event (ro_entries read)) in
          if \<not> ro_hasMore read then returning (Some matching)
          else case ro_nextCursor read of
            None \<Rightarrow> returning None
          | Some next \<Rightarrow> if n = 0 then returning None
              else audit_pages n (observed_options C) limits c p (Some next) matching)) Q"
    proof (cases a)
      case (Inl failure)
      with Suc.prems(4) [of matching] same show ?thesis by (simp add: execution_step_def page_input_def obeys_returning)
    next
      case (Inr read)
      let ?m = "matching @ filter (concerns p) (map se_event (ro_entries read))"
      have "obeys (execution_step R c p x may) (L\<lparr>el_evidence := ?m\<rparr>)
          (audit_pages n (observed_options C) limits c p (Some cur) ?m) Q" for cur
        by (rule Suc.IH) (use Suc.prems in simp_all)
      then show ?thesis
        using Inr Suc.prems by (auto simp: execution_step_def page_input_def Let_def obeys_returning split: option.split)
    qed
  qed
qed

text \<open>After an accepted move, nothing but \<open>el_recorded\<close> changes.\<close>

definition recorded_if :: "'p execution_ledger \<Rightarrow> 'e + bool \<Rightarrow> 'p execution_ledger \<Rightarrow> bool" where
  "recorded_if L r L' \<longleftrightarrow> (\<exists>b. L' = L\<lparr>el_recorded := b\<rparr> \<and> (r = Inr True \<longrightarrow> b)) \<and> (\<exists>b. r = Inr b)"

lemma recorded_if_same: "recorded_if L (Inr False) L"
  unfolding recorded_if_def by (cases L) auto

lemma obeys_exists_pages:
  assumes "el_move L = Some (t, Inr q)" "eventId = lifecycleEventId x (ap_status q)"
  shows "obeys (execution_step R c p x may) L (exists_pages n R (observed_options C) limits c eventId q cursor) (recorded_if L :: 'e + bool \<Rightarrow> _ \<Rightarrow> bool)"
  using assms
proof (induction n arbitrary: L cursor)
  case 0
  show ?case by (simp add: obeys_returning recorded_if_same)
next
  case (Suc n)
  show ?case
    unfolding exists_pages.simps observed_options_simps
  proof (rule obeys_reads)
    fix a :: "event_failure + ReadConversationEventsResult"
    show "\<exists>L'. execution_step R c p x may L (ReadLog (page_input c cursor limits) a) = Some L' \<and>
      obeys (execution_step R c p x may) L' (case a of
        Inl _ \<Rightarrow> returning False
      | Inr read \<Rightarrow> (case find (\<lambda>e. ev_event_id e = eventId) (map se_event (ro_entries read)) of
          Some found \<Rightarrow> returning (same_payload R found (lifecycleEvent q c eventId (ev_revision found)))
        | None \<Rightarrow>
            if \<not> ro_hasMore read then returning False
            else case ro_nextCursor read of
              None \<Rightarrow> returning False
            | Some next \<Rightarrow> exists_pages n R (observed_options C) limits c eventId q (Some next))) (recorded_if L :: 'e + bool \<Rightarrow> _ \<Rightarrow> bool)"
    proof (cases a)
      case (Inl failure)
      then show ?thesis by (simp add: execution_step_def page_input_def obeys_returning recorded_if_same)
    next
      case (Inr read)
      define es where "es = map se_event (ro_entries read)"
      define hit where "hit = list_ex (\<lambda>e. ev_event_id e = lifecycleEventId x (ap_status q) \<and>
        same_payload R e (lifecycleEvent q c (ev_event_id e) (ev_revision e))) es"
      define L' where "L' = L\<lparr>el_recorded := (el_recorded L \<or> hit)\<rparr>"
      have step: "execution_step R c p x may L (ReadLog (page_input c cursor limits) a) = Some L'"
        using Inr Suc.prems by (simp add: execution_step_def page_input_def L'_def hit_def es_def)
      have up: "recorded_if L' r M \<Longrightarrow> recorded_if L r M" for r :: "'e + bool" and M
        unfolding recorded_if_def L'_def by auto
      have "obeys (execution_step R c p x may) L' (exists_pages n R (observed_options C) limits c eventId q (Some cur)) (recorded_if L :: 'e + bool \<Rightarrow> _ \<Rightarrow> bool)" for cur
        by (rule obeys_mono [OF Suc.IH up]) (use Suc.prems L'_def in simp_all)
      moreover have "recorded_if L (Inr False :: 'e + bool) L'" unfolding recorded_if_def L'_def by auto
      moreover have "recorded_if L (Inr (same_payload R found (lifecycleEvent q c eventId (ev_revision found))) :: 'e + bool) L'"
        if "find (\<lambda>e. ev_event_id e = eventId) es = Some found" for found
      proof -
        from that have "found \<in> set es" "ev_event_id found = eventId" by (auto simp: find_Some_iff)
        then have "same_payload R found (lifecycleEvent q c eventId (ev_revision found)) \<Longrightarrow> hit"
          using Suc.prems(2) unfolding hit_def list_ex_iff by auto
        then show ?thesis unfolding recorded_if_def L'_def by auto
      qed
      ultimately show ?thesis
        using step by (auto simp: Inr es_def [symmetric] obeys_returning split: option.split)
    qed
  qed
qed

lemma obeys_append_attempts:
  assumes "el_move L = Some (t, Inr q)" "eventId = lifecycleEventId x (ap_status q)" "\<not> el_recorded L"
  shows "obeys (execution_step R c p x may) L (append_attempts n R (observed_options C) limits c q eventId) (recorded_if L :: 'e + bool \<Rightarrow> _ \<Rightarrow> bool)"
  using assms
proof (induction n)
  case 0
  show ?case by (simp add: obeys_returning recorded_if_same)
next
  case (Suc n)
  have same: "L\<lparr>el_recorded := False\<rparr> = L" using Suc.prems(3) by (cases L) simp
  have failed: "obeys (execution_step R c p x may) L (if failure = Some revision_conflict
      then append_attempts n R (observed_options C) limits c q eventId
      else if failure = Some idempotency_conflict then eventExists R (observed_options C) limits c eventId q
      else returning False) (recorded_if L :: 'e + bool \<Rightarrow> _ \<Rightarrow> bool)" for failure
    unfolding eventExists_def
    using Suc.IH [OF Suc.prems] by (simp add: obeys_exists_pages [OF Suc.prems(1,2)] obeys_returning recorded_if_same)
  show ?case
    unfolding append_attempts.simps observed_options_simps Let_def
  proof (rule obeys_reads, rule exI [of _ L], intro conjI)
    fix a :: "event_failure + int option"
    show "execution_step R c p x may L (AskedRevision c a) = Some L" by (simp add: execution_step_def)
    have appends: "obeys (execution_step R c p x may) L
        (after (reading (recording (AppendedEvents \<lparr>ai_conversationId = c, ai_expectedRevision = latest, ai_events = [event]\<rparr>)
           (co_append C \<lparr>ai_conversationId = c, ai_expectedRevision = latest, ai_events = [event]\<rparr>))) (\<lambda>appended.
         case appended of
           Inl failure \<Rightarrow> if failure = Some revision_conflict
             then append_attempts n R (observed_options C) limits c q eventId
             else if failure = Some idempotency_conflict then eventExists R (observed_options C) limits c eventId q
             else returning False
         | Inr _ \<Rightarrow> returning True)) (recorded_if L :: 'e + bool \<Rightarrow> _ \<Rightarrow> bool)"
      if "lifecycleEvent q c eventId (nextRevision latest) = Some event" for latest event
    proof (rule obeys_reads, rule exI, intro conjI)
      fix b :: "event_failure + AppendConversationEventsResult"
      show "execution_step R c p x may L (AppendedEvents \<lparr>ai_conversationId = c, ai_expectedRevision = latest, ai_events = [event]\<rparr> b) =
          Some (L\<lparr>el_recorded := \<not> isl b\<rparr>)"
        using Suc.prems that by (simp add: execution_step_def)
      have "recorded_if L (Inr True :: 'e + bool) (L\<lparr>el_recorded := True\<rparr>)" unfolding recorded_if_def by auto
      then show "obeys (execution_step R c p x may) (L\<lparr>el_recorded := \<not> isl b\<rparr>) (case b of
           Inl failure \<Rightarrow> if failure = Some revision_conflict
             then append_attempts n R (observed_options C) limits c q eventId
             else if failure = Some idempotency_conflict then eventExists R (observed_options C) limits c eventId q
             else returning False
         | Inr _ \<Rightarrow> returning True) (recorded_if L :: 'e + bool \<Rightarrow> _ \<Rightarrow> bool)"
        using failed by (cases b) (simp_all add: same obeys_returning)
    qed
    show "obeys (execution_step R c p x may) L (case a of
        Inl failure \<Rightarrow> if failure = Some revision_conflict
          then append_attempts n R (observed_options C) limits c q eventId
          else if failure = Some idempotency_conflict then eventExists R (observed_options C) limits c eventId q
          else returning False
      | Inr latest \<Rightarrow> (case lifecycleEvent q c eventId (nextRevision latest) of
           None \<Rightarrow> returning False
         | Some event \<Rightarrow>
             after (reading (recording (AppendedEvents \<lparr>ai_conversationId = c, ai_expectedRevision = latest, ai_events = [event]\<rparr>)
               (co_append C \<lparr>ai_conversationId = c, ai_expectedRevision = latest, ai_events = [event]\<rparr>))) (\<lambda>appended.
             case appended of
               Inl failure \<Rightarrow> if failure = Some revision_conflict
                 then append_attempts n R (observed_options C) limits c q eventId
                 else if failure = Some idempotency_conflict then eventExists R (observed_options C) limits c eventId q
                 else returning False
             | Inr _ \<Rightarrow> returning True))) (recorded_if L :: 'e + bool \<Rightarrow> _ \<Rightarrow> bool)"
      using failed appends by (auto simp: obeys_returning recorded_if_same split: sum.split option.split)
  qed
qed

lemma obeys_appendLifecycleEvent:
  assumes "el_move L = Some (t, Inr q)" "\<not> el_recorded L"
  shows "obeys (execution_step R c p x may) L (appendLifecycleEvent R (observed_options C) limits c q x) (recorded_if L)"
  unfolding appendLifecycleEvent_def
  by (intro obeys_if obeys_returning recorded_if_same obeys_append_attempts [OF assms(1) refl assms(2)])

text \<open>Moving the proposal and recording the move: the common part of claiming and settling.\<close>

lemma obeys_move:
  assumes "el_move L = None" "\<not> el_recorded L" "may L t"
    and "\<And>failure. Q (Inr (f failure)) (L\<lparr>el_move := Some (t, Inl failure)\<rparr>)"
    and "\<And>q b b'. (b \<Longrightarrow> b') \<Longrightarrow> Q (Inr (g q b)) (L\<lparr>el_move := Some (t, Inr q), el_recorded := b'\<rparr>)"
  shows "obeys (execution_step R c p x may) L (after (reading (co_transition (observed_options C) t)) (\<lambda>answer.
    case answer of
      Inl failure \<Rightarrow> returning (f failure)
    | Inr q \<Rightarrow> after (appendLifecycleEvent R (observed_options C) limits c q x) (\<lambda>appended. returning (g q appended)))) Q"
  unfolding observed_options_simps
proof (rule obeys_reads, rule exI, rule conjI)
  fix a :: "proposal_failure + ConversationApprovalProposalRecord"
  show "execution_step R c p x may L (Transitioned t a) = Some (L\<lparr>el_move := Some (t, a)\<rparr>)"
    using assms(1,3) by (simp add: execution_step_def)
  show "obeys (execution_step R c p x may) (L\<lparr>el_move := Some (t, a)\<rparr>) (case a of
      Inl failure \<Rightarrow> returning (f failure)
    | Inr q \<Rightarrow> after (appendLifecycleEvent R (observed_options C) limits c q x) (\<lambda>appended. returning (g q appended))) Q"
  proof (cases a)
    case (Inl failure)
    with assms(4) show ?thesis by (simp add: obeys_returning)
  next
    case (Inr q)
    let ?L = "L\<lparr>el_move := Some (t, Inr q)\<rparr>"
    have "obeys (execution_step R c p x may) ?L
        (after (appendLifecycleEvent R (observed_options C) limits c q x) (\<lambda>appended. returning (g q appended))) Q"
    proof (rule obeys_after [OF obeys_appendLifecycleEvent])
      show "el_move ?L = Some (t, Inr q)" "\<not> el_recorded ?L" using assms(2) by simp_all
    next
      fix b L' assume "recorded_if ?L (Inr b) L'"
      then obtain b' where "L' = ?L\<lparr>el_recorded := b'\<rparr>" "b \<Longrightarrow> b'" unfolding recorded_if_def by auto
      with assms(5) [of b b' q] show "obeys (execution_step R c p x may) L' (returning (g q b)) Q" by (simp add: obeys_returning)
    qed (simp add: recorded_if_def)
    with Inr show ?thesis by simp
  qed
qed

section \<open>Claims\<close>

text \<open>The ledger of a claim that has learnt all that \<open>may_claim\<close> asks for, before the move.\<close>

definition informed :: "(rat \<Rightarrow> js_string) \<Rightarrow> 'p ApprovalExecutionClaimRequest \<Rightarrow> ConversationApprovalProposalRecord \<Rightarrow>
    DurableProposalAudit \<Rightarrow> 'p execution_ledger \<Rightarrow> bool" where
  "informed R input p audit L \<longleftrightarrow> el_move L = None \<and> \<not> el_recorded L \<and>
     el_permission L = Some (permission_request input) \<and> el_proposal L = Some p \<and>
     Option.bind (originalApprovalEvidence R (el_evidence L)) (audit_of (cr_executionId input)) = Some audit \<and>
     matchesProposalIdentity R p (da_created audit) input \<and> hasExactConfirmation p audit (confirmed_version input) \<and>
     binding_fits (cr_argumentBinding input) (ap_reviewed_arguments p) \<and>
     el_verified L = Some (verification_request input (ap_reviewed_arguments p))"

lemma informed_may_claim:
  assumes "informed R input p audit L"
  shows "ap_status p \<in> {Confirmed, Executing} \<Longrightarrow> may_claim R input L (execution_transition ctx (cr_proposalId input)
      (cr_expectedProposalVersion input) Executing a (cr_executionId input) reason)"
    and "ap_status p \<in> {Executed, Failed} \<Longrightarrow> may_claim R input L (execution_transition ctx (cr_proposalId input)
      v (ap_status p) a (cr_executionId input) reason)"
  using assms by (auto simp: may_claim_def informed_def execution_transition_def)

lemma mapStoreFailure_refuses [simp]: "mapStoreFailure failure p \<noteq> Claimed q v e"
  by (simp add: mapStoreFailure_def)

lemma claim_recorded_refusals [simp]:
  "claim_recorded input (Refused reason p) L" "claim_recorded input (Reuse p s v) L"
  "claim_recorded input (mapStoreFailure failure p) L"
  by (auto simp: claim_recorded_def)

lemma claim_ends_refusals:
  "claim_ends input (Inr (Refused reason p)) L" "claim_ends input (Inr (Reuse p s v)) L"
  "claim_ends input (Inr (mapStoreFailure failure p)) L" "claim_ends input (Inl e) L"
  by (simp_all add: claim_ends_def)

lemma obeys_start_execution:
  assumes "informed R input p audit L" "ap_status p = Confirmed"
  shows "obeys (claim_step R input) L (start_execution R (observed_options C) limits input (cr_proposalId input)) (claim_ends input)"
  unfolding start_execution_def claim_step_def
  by (rule obeys_move)
    (use assms informed_may_claim(1) [OF assms(1)] in \<open>auto simp: informed_def claim_ends_refusals claim_ends_def
      claim_recorded_def execution_transition_def\<close>)

lemma obeys_repair_audit:
  assumes "informed R input p audit L"
  shows "obeys (claim_step R input) L (repairMissingLifecycleAudit R (observed_options C) input p audit limits)
    (\<lambda>r L'. case r of Inr (Some result) \<Rightarrow> claim_recorded input result L' | _ \<Rightarrow> True)"
proof -
  have L: "el_move L = None" "\<not> el_recorded L" using assms by (simp_all add: informed_def)
  note may = informed_may_claim [OF assms]
  consider "ap_status p = Executing \<and> da_executing audit = None" | "ap_status p = Executed \<and> da_terminal audit = None"
    | "ap_status p = Failed \<and> da_terminal audit = None"
    | "\<not> (ap_status p = Executing \<and> da_executing audit = None) \<and> \<not> (ap_status p \<in> {Executed, Failed} \<and> da_terminal audit = None)"
    by blast
  then show ?thesis
  proof cases
    case 1
    then show ?thesis
      unfolding repairMissingLifecycleAudit_def claim_step_def Let_def
      using may(1) by simp (rule obeys_move [OF L], auto simp: claim_recorded_def execution_transition_def)
  next
    case 2
    then show ?thesis
      unfolding repairMissingLifecycleAudit_def claim_step_def Let_def
      using may(2) by simp (rule obeys_move [OF L], auto simp: claim_recorded_def)
  next
    case 3
    then show ?thesis
      unfolding repairMissingLifecycleAudit_def claim_step_def Let_def
      using may(2) by simp (rule obeys_move [OF L], auto simp: claim_recorded_def)
  next
    case 4
    then show ?thesis by (simp add: repairMissingLifecycleAudit_def Let_def obeys_returning)
  qed
qed

lemma obeys_resume_execution:
  assumes "informed R input p audit L"
  shows "obeys (claim_step R input) L (resume_execution R (observed_options C) limits input (cr_proposalId input) p audit) (claim_ends input)"
  unfolding resume_execution_def
  by (rule obeys_after [OF obeys_repair_audit [OF assms]])
    (auto simp: obeys_returning claim_ends_refusals claim_ends_def split: option.split)

lemma obeys_refuse: "obeys (claim_step R input) L (returning (Refused reason p)) (claim_ends input)"
  by (simp add: obeys_returning claim_ends_refusals)

text \<open>Reading the evidence of the proposal.\<close>

lemma obeys_readProposalAudit:
  assumes "el_move L = None" "el_evidence L = []"
    and "\<And>found. Q (Inr (Option.bind (originalApprovalEvidence R found) (audit_of x))) (L\<lparr>el_evidence := found\<rparr>)"
    and "\<And>found. Q (Inr None) (L\<lparr>el_evidence := found\<rparr>)"
  shows "obeys (execution_step R c p x may) L (readProposalAudit R (observed_options C) limits c p x) Q"
  unfolding readProposalAudit_def
  by (rule obeys_after [OF obeys_audit_pages [where Q = "\<lambda>r L'. (\<exists>found. r = Inr (Some found) \<and> L' = L\<lparr>el_evidence := found\<rparr>) \<or>
      (\<exists>found. r = Inr None \<and> L' = L\<lparr>el_evidence := found\<rparr>)"]])
    (use assms in \<open>auto simp: obeys_returning\<close>)

text \<open>What is known when the proposal has been read.\<close>

definition permitted :: "'p ApprovalExecutionClaimRequest \<Rightarrow> ConversationApprovalProposalRecord \<Rightarrow> 'p execution_ledger \<Rightarrow> bool" where
  "permitted input p L \<longleftrightarrow> el_move L = None \<and> \<not> el_recorded L \<and> el_permission L = Some (permission_request input) \<and>
     el_proposal L = Some p \<and> el_evidence L = []"

lemma obeys_argumentsMatch:
  assumes "binding_fits (cr_argumentBinding input) (ap_reviewed_arguments p) \<Longrightarrow>
      informed R input p audit (L\<lparr>el_verified := Some (verification_request input (ap_reviewed_arguments p))\<rparr>)"
    and "el_move L = None"
  shows "obeys (claim_step R input) L (argumentsMatch (observed_options C) input (ap_reviewed_arguments p))
    (\<lambda>r M. \<exists>b. r = Inr b \<and> (b \<longrightarrow> informed R input p audit M))"
proof (cases "binding_fits (cr_argumentBinding input) (ap_reviewed_arguments p)")
  case True
  note informed = assms(1) [OF True, unfolded verification_request_def]
  show ?thesis
    unfolding argumentsMatch_def observed_options_simps if_not_P [of "\<not> _", unfolded not_not, OF True]
    by (rule obeys_reads) (use assms(2) informed in \<open>auto simp: claim_step_def execution_step_def obeys_returning\<close>)
next
  case False
  then show ?thesis unfolding argumentsMatch_def by (simp only: not_False_eq_True if_True) (rule obeys_returning, blast)
qed

lemma obeys_verify_and_execute:
  assumes "binding_fits (cr_argumentBinding input) (ap_reviewed_arguments p) \<Longrightarrow>
      informed R input p audit (L\<lparr>el_verified := Some (verification_request input (ap_reviewed_arguments p))\<rparr>)"
    and "el_move L = None"
  shows "obeys (claim_step R input) L (verify_and_execute R (observed_options C) limits input (cr_proposalId input) p audit) (claim_ends input)"
  unfolding verify_and_execute_def Let_def
proof (rule obeys_after [OF obeys_argumentsMatch [OF assms]])
  fix match L' assume "\<exists>b. Inr match = Inr b \<and> (b \<longrightarrow> informed R input p audit L')"
  then have "match \<Longrightarrow> informed R input p audit L'" by auto
  then show "obeys (claim_step R input) L' (if \<not> match
      then on_abort (observed_options C) (returning (Refused CancelledClaim (cr_proposalId input)))
        (returning (Refused InvalidClaim (cr_proposalId input)))
      else on_abort (observed_options C) (returning (Refused CancelledClaim (cr_proposalId input)))
        (if ap_status p \<noteq> Confirmed then resume_execution R (observed_options C) limits input (cr_proposalId input) p audit
         else start_execution R (observed_options C) limits input (cr_proposalId input))) (claim_ends input)"
    by (auto intro!: obeys_on_abort obeys_refuse obeys_resume_execution obeys_start_execution)
qed (auto simp: claim_ends_refusals)

lemma obeys_claim_proposal:
  assumes "permitted input p L"
  shows "obeys (claim_step R input) L (claim_proposal R (observed_options C) limits input (cr_proposalId input) p) (claim_ends input)"
  unfolding claim_proposal_def Let_def
proof (rule obeys_after)
  show "obeys (claim_step R input) L
      (readProposalAudit R (observed_options C) limits (cr_conversationId input) (cr_proposalId input) (cr_executionId input))
      (\<lambda>r L'. \<exists>found evidence. L' = L\<lparr>el_evidence := found\<rparr> \<and> r = Inr evidence \<and>
        (evidence = None \<or> evidence = Option.bind (originalApprovalEvidence R found) (audit_of (cr_executionId input))))"
    unfolding claim_step_def by (rule obeys_readProposalAudit) (use assms in \<open>auto simp: permitted_def\<close>)
next
  fix evidence L'
  assume "\<exists>found evidence'. L' = L\<lparr>el_evidence := found\<rparr> \<and> Inr evidence = Inr evidence' \<and>
        (evidence' = None \<or> evidence' = Option.bind (originalApprovalEvidence R found) (audit_of (cr_executionId input)))"
  then obtain found where found: "L' = L\<lparr>el_evidence := found\<rparr>"
    "evidence = None \<or> evidence = Option.bind (originalApprovalEvidence R found) (audit_of (cr_executionId input))" by auto
  show "obeys (claim_step R input) L' (case evidence of
      None \<Rightarrow> returning (Refused InvalidClaim (cr_proposalId input))
    | Some audit \<Rightarrow>
        if \<not> matchesProposalIdentity R p (da_created audit) input then returning (Refused InvalidClaim (cr_proposalId input))
        else if \<not> hasExactConfirmation p audit (confirmed_version input)
        then returning (Refused (if ap_status p = Pending then ApprovalRequired else InvalidClaim) (cr_proposalId input))
        else verify_and_execute R (observed_options C) limits input (cr_proposalId input) p audit) (claim_ends input)"
  proof (cases evidence)
    case None
    then show ?thesis by (simp add: obeys_refuse)
  next
    case (Some audit)
    show ?thesis
      unfolding Some option.case
      by (intro obeys_if obeys_refuse obeys_verify_and_execute) (use Some found assms in \<open>auto simp: informed_def permitted_def\<close>)
  qed
qed (auto simp: claim_ends_refusals)

lemma obeys_authorized:
  "obeys (claim_step R input) new_ledger (authorized (observed_options C) input)
     (\<lambda>r L. \<exists>b. r = Inr b \<and> el_move L = None \<and> \<not> el_recorded L \<and> el_evidence L = [] \<and>
       (b \<longrightarrow> el_permission L = Some (permission_request input)))"
  unfolding authorized_def observed_options_simps
  by (rule obeys_reads)
    (auto simp: claim_step_def execution_step_def new_ledger_def permission_request_def obeys_returning)

lemma obeys_get_and_claim:
  assumes "el_move L = None" "\<not> el_recorded L" "el_evidence L = []" "el_permission L = Some (permission_request input)"
  shows "obeys (claim_step R input) L (get_and_claim R (observed_options C) limits input (cr_proposalId input)) (claim_ends input)"
  unfolding get_and_claim_def Let_def observed_options_simps
proof (rule obeys_reads, rule exI, rule conjI)
  fix a :: "proposal_failure + ConversationApprovalProposalRecord option"
  show "claim_step R input L (ReadProposal (cr_proposalId input) a) =
      Some (L\<lparr>el_proposal := (case a of Inr found \<Rightarrow> found | Inl _ \<Rightarrow> None)\<rparr>)"
    using assms by (simp add: claim_step_def execution_step_def)
  have "permitted input p (L\<lparr>el_proposal := Some p\<rparr>)" for p using assms by (simp add: permitted_def)
  then show "obeys (claim_step R input) (L\<lparr>el_proposal := (case a of Inr found \<Rightarrow> found | Inl _ \<Rightarrow> None)\<rparr>) (case a of
      Inl failure \<Rightarrow> returning (Refused (if failure = Some permission_denied then ForbiddenClaim else UnavailableClaim) (cr_proposalId input))
    | Inr proposal \<Rightarrow> on_abort (observed_options C) (returning (Refused CancelledClaim (cr_proposalId input)))
        (case proposal of None \<Rightarrow> returning (Refused InvalidClaim (cr_proposalId input))
         | Some p \<Rightarrow> claim_proposal R (observed_options C) limits input (cr_proposalId input) p)) (claim_ends input)"
    by (auto intro!: obeys_refuse obeys_on_abort obeys_claim_proposal split: sum.split option.split)
qed

lemma obeys_claim: "obeys (claim_step R input) new_ledger (claim R (observed_options C) limits input) (claim_ends input)"
proof (cases "validClaimInput input")
  case True
  then have id: "safeProposalId (cr_proposalId input) = cr_proposalId input"
    by (simp add: validClaimInput_def safeProposalId_def)
  show ?thesis
    unfolding claim_def Let_def id
    by (rule obeys_if, use True in simp, rule obeys_on_abort [OF obeys_refuse], rule obeys_after [OF obeys_authorized])
      (auto simp: claim_ends_refusals intro: obeys_on_abort obeys_refuse obeys_get_and_claim)
qed (simp add: claim_def Let_def obeys_refuse)

text \<open>
  C19: a claim asks the store of proposals for at most one transition, and only after the host
  allowed this execution, the log showed the creation of this very proposal and its confirmation
  at the expected version, and the host verified the current arguments against the reviewed
  ones. The one event it appends is the lifecycle event of the proposal as the store returned
  it; and a claim that is granted was accepted by the store under this execution's key and is
  recorded in the log.
\<close>

theorem claim_needs_confirmation:
  assumes "claim R (observed_options C) limits input (w, []) = (r, w', calls_made)"
  shows "\<exists>L. follow (claim_step R input) new_ledger calls_made = Some L \<and> claim_ends input r L"
  using obeysD [OF obeys_claim assms] by simp

section \<open>Settlements\<close>

definition settle_step :: "(rat \<Rightarrow> js_string) \<Rightarrow> 'p SettleApprovalExecutionRequest \<Rightarrow> 'p execution_ledger \<Rightarrow> 'p coordinator_call \<Rightarrow>
    'p execution_ledger option" where
  "settle_step R input = execution_step R (sr_conversationId input) (sr_proposalId input) (sr_executionId input)
     (\<lambda>L t. validSettlementInput input \<and> t = execution_transition (sr_permissionContext input) (sr_proposalId input)
        (sr_executingVersion input) (sr_status input) (sr_attribution input) (sr_executionId input) (sr_failureReason input))"

definition settlement_ends :: "'e + ApprovalExecutionSettlementResult \<Rightarrow> 'p execution_ledger \<Rightarrow> bool" where
  "settlement_ends r L \<longleftrightarrow> (\<forall>v. r = Inr (SettlementRecorded v) \<longrightarrow>
     el_recorded L \<and> (\<exists>t q. el_move L = Some (t, Inr q) \<and> ap_proposal_version q = v))"

lemma obeys_settle: "obeys (settle_step R input) new_ledger (settle R (observed_options C) limits input) settlement_ends"
proof (cases "validSettlementInput input")
  case True
  show ?thesis
    unfolding settle_def settle_step_def
    by (rule obeys_if, simp add: True, rule obeys_move) (auto simp: True new_ledger_def settlement_ends_def)
next
  case False
  then show ?thesis by (simp add: settle_def obeys_returning settlement_ends_def)
qed

text \<open>A settlement is one transition of the proposal and, if it is reported as recorded, its event in the log.\<close>

lemma settlement_recorded:
  assumes "settle R (observed_options C) limits input (w, []) = (r, w', calls_made)"
  shows "\<exists>L. follow (settle_step R input) new_ledger calls_made = Some L \<and> settlement_ends r L"
  using obeysD [OF obeys_settle assms] by simp

end
