(* ===== verification/ApprovalHistory.thy ===== *)
theory ApprovalHistory
  imports ApprovalExecutionProperties
begin

text \<open>
  The stores of proposals as a coordinator meets them: other parties use them too, so what a
  coordinator relies on is a fact about every history of accepted requests. From it, no two
  executions are granted the same confirmation.
\<close>

section \<open>What a coordinator relies on\<close>

text \<open>
  A history is a run of a store in which the accepted transitions are recorded with the answers.
  Two of them that expect the same version of the same proposal carry the same key, so that one
  is the repetition of the other.
\<close>

locale guarded_proposals =
  fixes history :: "('p TransitionApprovalProposalInput \<times> ConversationApprovalProposalRecord) list \<Rightarrow> bool"
  assumes one_key: "history h \<Longrightarrow> (i, p) \<in> set h \<Longrightarrow> (j, q) \<in> set h \<Longrightarrow> ti_proposalId i = ti_proposalId j \<Longrightarrow>
      ti_expectedVersion i = ti_expectedVersion j \<Longrightarrow> ti_idempotencyKey i = ti_idempotencyKey j"
begin

lemma one_execution:
  assumes "history h" "(i, p) \<in> set h" "(j, q) \<in> set h" "ti_proposalId i = ti_proposalId j"
    and "ti_expectedVersion i = ti_expectedVersion j"
    and "ti_idempotencyKey i = transitionKey e (ti_status i)" "ti_idempotencyKey j = transitionKey f (ti_status j)"
    and "ti_status i = ti_status j"
  shows "e = f"
  using one_key [OF assms(1-5)] assms(6-8) by (simp add: transitionKey_def)

end

section \<open>The in-memory store\<close>

inductive proposal_history :: "(rat \<Rightarrow> js_string) \<Rightarrow> 'p permission_check \<Rightarrow>
    ('p TransitionApprovalProposalInput \<times> ConversationApprovalProposalRecord) list \<Rightarrow> InMemoryApprovalProposalStore \<Rightarrow> bool"
  for R check where
  empty_history: "createApprovalStore limits = Some s \<Longrightarrow> proposal_history R check [] s"
| proposal_created: "proposal_history R check h s \<Longrightarrow> create_request R check (as_limits s) input = Inr () \<Longrightarrow>
    create_body R clock input s = Inr (result, s') \<Longrightarrow> proposal_history R check h s'"
| proposal_moved: "proposal_history R check h s \<Longrightarrow> transition_request check (as_limits s) input = Inr () \<Longrightarrow>
    transition_body R clock input s = Inr (result, s') \<Longrightarrow> proposal_history R check (h @ [(input, result)]) s'"

text \<open>
  Every transition of the history was filed: its proposal has since a later version, and the
  record kept under a key belongs to a transition of the history with the same signature.
\<close>

definition filed :: "(rat \<Rightarrow> js_string) \<Rightarrow> ('p TransitionApprovalProposalInput \<times> ConversationApprovalProposalRecord) list \<Rightarrow>
    InMemoryApprovalProposalStore \<Rightarrow> bool" where
  "filed R h s \<longleftrightarrow>
     (\<forall>(i, p) \<in> set h. \<exists>v current. safe_int (ti_expectedVersion i) = Some v \<and> 0 < v \<and>
        map_of (as_proposals s) (ti_proposalId i) = Some current \<and> v < ap_proposal_version current) \<and>
     (\<forall>k r. map_of (as_idempotency s) k = Some r \<and> ir_operation r = IdTransition \<longrightarrow>
        (\<exists>(i, p) \<in> set h. ti_idempotencyKey i = k \<and> ir_requestSignature r = transitionRequestSignature R i \<and> ir_result r = p)) \<and>
     (\<forall>(i, p) \<in> set h. \<forall>(j, q) \<in> set h. ti_proposalId i = ti_proposalId j \<and>
        safe_int (ti_expectedVersion i) = safe_int (ti_expectedVersion j) \<longrightarrow> ti_idempotencyKey i = ti_idempotencyKey j)"

lemma filedI:
  assumes "\<And>i p. (i, p) \<in> set h \<Longrightarrow> \<exists>v current. safe_int (ti_expectedVersion i) = Some v \<and> 0 < v \<and>
        map_of (as_proposals s) (ti_proposalId i) = Some current \<and> v < ap_proposal_version current"
    and "\<And>k r. map_of (as_idempotency s) k = Some r \<Longrightarrow> ir_operation r = IdTransition \<Longrightarrow>
        \<exists>i. (i, ir_result r) \<in> set h \<and> ti_idempotencyKey i = k \<and> ir_requestSignature r = transitionRequestSignature R i"
    and "\<And>i p j q. (i, p) \<in> set h \<Longrightarrow> (j, q) \<in> set h \<Longrightarrow> ti_proposalId i = ti_proposalId j \<Longrightarrow>
        safe_int (ti_expectedVersion i) = safe_int (ti_expectedVersion j) \<Longrightarrow> ti_idempotencyKey i = ti_idempotencyKey j"
  shows "filed R h s"
  unfolding filed_def using assms by blast

lemma filed_version: "filed R h s \<Longrightarrow> (i, p) \<in> set h \<Longrightarrow> \<exists>v current. safe_int (ti_expectedVersion i) = Some v \<and> 0 < v \<and>
    map_of (as_proposals s) (ti_proposalId i) = Some current \<and> v < ap_proposal_version current"
  unfolding filed_def by blast

lemma filed_record: "filed R h s \<Longrightarrow> map_of (as_idempotency s) k = Some r \<Longrightarrow> ir_operation r = IdTransition \<Longrightarrow>
    \<exists>i. (i, ir_result r) \<in> set h \<and> ti_idempotencyKey i = k \<and> ir_requestSignature r = transitionRequestSignature R i"
  unfolding filed_def by blast

lemma filed_key: "filed R h s \<Longrightarrow> (i, p) \<in> set h \<Longrightarrow> (j, q) \<in> set h \<Longrightarrow> ti_proposalId i = ti_proposalId j \<Longrightarrow>
    safe_int (ti_expectedVersion i) = safe_int (ti_expectedVersion j) \<Longrightarrow> ti_idempotencyKey i = ti_idempotencyKey j"
  unfolding filed_def by blast

text \<open>Filing a record keeps the other records or drops them.\<close>

lemma filed_records:
  assumes "approval_store_ok s" "store_proposal p key op' fp sig s = Inr (result, s')" "map_of (as_idempotency s') k = Some r"
  shows "map_of (as_idempotency s) k = Some r \<or>
    k = key \<and> r = \<lparr>ir_operation = op', ir_fingerprint = fp, ir_requestSignature = sig, ir_result = p\<rparr>"
proof (cases "k = key")
  case True
  with store_proposal_effect(2) [OF assms(2)] assms(3) show ?thesis by simp
next
  case False
  have "distinct (map fst (as_idempotency s))" using assms(1) by (simp add: approval_store_ok_def)
  from retain_other [OF this False] assms(3) show ?thesis
    by (simp add: store_proposal_Inr(3) [OF assms(2)] retainIdempotency_def)
qed

text \<open>A transition that is answered from a record repeats the request of the record.\<close>

lemma transition_body_repeats:
  assumes "transition_body R clock input s = Inr (result, s')" "map_of (as_idempotency s) (ti_idempotencyKey input) \<noteq> None"
  shows "s' = s \<and> (\<exists>r. map_of (as_idempotency s) (ti_idempotencyKey input) = Some r \<and> ir_operation r = IdTransition \<and>
    ir_requestSignature r = transitionRequestSignature R input \<and> result = ir_result r)"
  using assms by (auto simp: transition_body_def idempotentResult_def Let_def bindE_Inr_iff cloneProposal_Inr split: if_splits)

lemma transition_request_version:
  assumes "transition_request check limits input = Inr ()"
  shows "\<exists>v. safe_int (ti_expectedVersion input) = Some v \<and> 0 < v"
  using assms by (auto simp: transition_request_def validateTransitionInput_def Let_def bindE_Inr_iff split: option.splits if_splits)

lemma filed_created:
  assumes ok: "approval_store_ok s" and filed: "filed R h s" and body: "create_body R clock input s = Inr (result, s')"
  shows "filed R h s'"
  using body
proof (cases rule: create_body_cases)
  case (retry rec)
  with filed show ?thesis by simp
next
  case (new now)
  note effect = store_proposal_effect [OF new(7)] and records = filed_records [OF ok new(7)]
  have "map_of (as_proposals s') k = Some c" if "map_of (as_proposals s) k = Some c" for k c
    using that new(3) by (auto simp: effect(1))
  moreover have "map_of (as_idempotency s) k = Some r" if "map_of (as_idempotency s') k = Some r" "ir_operation r = IdTransition" for k r
    using records [OF that(1)] that(2) by auto
  ultimately show ?thesis
    using filed_version [OF filed] filed_record [OF filed] filed_key [OF filed] by (intro filedI) meson+
qed

lemma filed_extend:
  assumes filed: "filed R h s"
    and kept: "\<And>k p. map_of (as_proposals s) k = Some p \<Longrightarrow>
      \<exists>q. map_of (as_proposals s') k = Some q \<and> ap_proposal_version p \<le> ap_proposal_version q"
    and moved: "safe_int (ti_expectedVersion input) = Some v" "0 < v"
      "map_of (as_proposals s') (ti_proposalId input) = Some current" "v < ap_proposal_version current"
    and records: "\<And>k r. map_of (as_idempotency s') k = Some r \<Longrightarrow> map_of (as_idempotency s) k = Some r \<or>
      k = ti_idempotencyKey input \<and> ir_requestSignature r = transitionRequestSignature R input \<and> ir_result r = result"
    and key: "\<And>j q. (j, q) \<in> set h \<Longrightarrow> ti_proposalId j = ti_proposalId input \<Longrightarrow>
      safe_int (ti_expectedVersion j) = safe_int (ti_expectedVersion input) \<Longrightarrow> ti_idempotencyKey j = ti_idempotencyKey input"
  shows "filed R (h @ [(input, result)]) s'"
proof (rule filedI)
  fix j q assume "(j, q) \<in> set (h @ [(input, result)])"
  then consider "(j, q) \<in> set h" | "j = input" by auto
  then show "\<exists>v current. safe_int (ti_expectedVersion j) = Some v \<and> 0 < v \<and>
      map_of (as_proposals s') (ti_proposalId j) = Some current \<and> v < ap_proposal_version current"
  proof cases
    case 1
    from filed_version [OF filed this] kept show ?thesis by force
  qed (use moved in blast)
next
  fix k r assume r: "map_of (as_idempotency s') k = Some r" "ir_operation r = IdTransition"
  from records [OF r(1)] filed_record [OF filed _ r(2)] show "\<exists>i. (i, ir_result r) \<in> set (h @ [(input, result)]) \<and>
      ti_idempotencyKey i = k \<and> ir_requestSignature r = transitionRequestSignature R i" by fastforce
next
  fix a p b q assume "(a, p) \<in> set (h @ [(input, result)])" "(b, q) \<in> set (h @ [(input, result)])"
    and same: "ti_proposalId a = ti_proposalId b" "safe_int (ti_expectedVersion a) = safe_int (ti_expectedVersion b)"
  then consider "(a, p) \<in> set h" "(b, q) \<in> set h" | "(a, p) \<in> set h" "b = input" | "a = input" "(b, q) \<in> set h" | "a = input" "b = input"
    by auto
  then show "ti_idempotencyKey a = ti_idempotencyKey b"
    using filed_key [OF filed] key same by cases metis+
qed

lemma filed_repeated:
  assumes filed: "filed R h s" and v: "safe_int (ti_expectedVersion input) = Some v" "0 < v"
    and r: "map_of (as_idempotency s) (ti_idempotencyKey input) = Some r" "ir_operation r = IdTransition"
      "ir_requestSignature r = transitionRequestSignature R input"
  shows "filed R (h @ [(input, ir_result r)]) s"
proof -
  from filed_record [OF filed r(1,2)] obtain i where i: "(i, ir_result r) \<in> set h" "ti_idempotencyKey i = ti_idempotencyKey input"
    "transitionRequestSignature R i = transitionRequestSignature R input" using r(3) by auto
  from filed_version [OF filed i(1)] obtain u current where u: "safe_int (ti_expectedVersion i) = Some u" "0 < u"
    "map_of (as_proposals s) (ti_proposalId i) = Some current" "u < ap_proposal_version current" by blast
  from transition_signature_determines [OF i(3) u(1,2) v] have same: "ti_proposalId i = ti_proposalId input" "u = v" by simp_all
  have "ti_idempotencyKey j = ti_idempotencyKey input" if "(j, q) \<in> set h" "ti_proposalId j = ti_proposalId input"
      "safe_int (ti_expectedVersion j) = safe_int (ti_expectedVersion input)" for j q
    using filed_key [OF filed that(1) i(1)] that(2,3) same u(1) v(1) i(2) by simp
  with filed v u same show ?thesis by (intro filed_extend) auto
qed

lemma filed_moved:
  assumes ok: "approval_store_ok s" and filed: "filed R h s" and req: "transition_request check (as_limits s) input = Inr ()"
    and body: "transition_body R clock input s = Inr (result, s')"
  shows "filed R (h @ [(input, result)]) s'"
proof -
  from transition_request_version [OF req] obtain v where v: "safe_int (ti_expectedVersion input) = Some v" "0 < v" by blast
  show ?thesis
  proof (cases "map_of (as_idempotency s) (ti_idempotencyKey input)")
    case (Some rec)
    with transition_body_repeats [OF body] filed_repeated [OF filed v] show ?thesis by auto
  next
    case None
    from body show ?thesis
    proof (cases rule: transition_body_cases)
      case (retry rec)
      with None show ?thesis by simp
    next
      case (move now current)
      have id: "ap_proposal_id current = ti_proposalId input" using stored_at [OF ok move(3)] by simp
      have current: "v = ap_proposal_version current" using move(4) v(1) by simp
      have stored: "map_of (as_proposals s') k = (if k = ti_proposalId input then Some result else map_of (as_proposals s) k)" for k
        using id store_proposal_effect(1) [OF move(10)] by (simp add: move(9))
      have newer: "ap_proposal_version result = v + 1" using current by (simp add: move(9))
      have "ti_proposalId j \<noteq> ti_proposalId input \<or> safe_int (ti_expectedVersion j) \<noteq> safe_int (ti_expectedVersion input)"
        if "(j, q) \<in> set h" for j q
        using filed_version [OF filed that] move(3) v(1) current by auto
      moreover have "\<exists>q. map_of (as_proposals s') k = Some q \<and> ap_proposal_version p \<le> ap_proposal_version q"
        if "map_of (as_proposals s) k = Some p" for k p
        using that move(3) newer current by (auto simp: stored)
      moreover have "map_of (as_idempotency s) k = Some r \<or>
          k = ti_idempotencyKey input \<and> ir_requestSignature r = transitionRequestSignature R input \<and> ir_result r = result"
        if "map_of (as_idempotency s') k = Some r" for k r
        using filed_records [OF ok move(10) that] by auto
      ultimately show ?thesis using newer by (intro filed_extend [OF filed _ v]) (auto simp: stored)
    qed
  qed
qed

lemma history_filed: "proposal_history R check h s \<Longrightarrow> approval_store_ok s \<and> filed R h s"
proof (induction rule: proposal_history.induct)
  case (empty_history limits s)
  then show ?case by (auto simp: created_store_ok filed_def createApprovalStore_def)
next
  case (proposal_created h s input clock result s')
  then show ?case using create_body_ok filed_created by blast
next
  case (proposal_moved h s input clock result s')
  then show ?case using transition_body_ok filed_moved by blast
qed

text \<open>The in-memory store keeps what the coordinators rely on.\<close>

interpretation guarded_memory: guarded_proposals "\<lambda>h. \<exists>s. proposal_history R check h s"
proof
  fix h i p j q
  assume "\<exists>s. proposal_history R check h s" and at: "(i, p) \<in> set h" "(j, q) \<in> set h" "ti_proposalId i = ti_proposalId j"
    and version: "ti_expectedVersion i = ti_expectedVersion j"
  then obtain s where "filed R h s" using history_filed by blast
  from filed_key [OF this at] version show "ti_idempotencyKey i = ti_idempotencyKey j" by simp
qed

section \<open>One execution per confirmation\<close>

text \<open>Where the move in a ledger comes from.\<close>

lemma move_was_called:
  assumes "follow (claim_step R input) L calls_made = Some M" "el_move L = None" "el_move M = Some (t, a)"
  shows "Transitioned t a \<in> set calls_made \<and> (\<exists>N. may_claim R input N t)"
  using assms(1,3)
proof (induction calls_made arbitrary: M rule: rev_induct)
  case Nil
  with assms(2) show ?case by simp
next
  case (snoc c cs)
  from snoc.prems(1) obtain N where N: "follow (claim_step R input) L cs = Some N" "claim_step R input N c = Some M"
    by (auto simp: follow_append split: option.splits)
  show ?case
  proof (cases "el_move N = Some (t, a)")
    case True
    with snoc.IH [OF N(1)] show ?thesis by simp
  next
    case False
    with N(2) snoc.prems(2) have "c = Transitioned t a \<and> may_claim R input N t"
      by (auto simp: claim_step_def execution_step_def split: coordinator_call.splits if_splits sum.splits option.splits)
    then show ?thesis by auto
  qed
qed

lemma granted_transition:
  assumes "claim R (observed_options C) limits input (w, []) = (Inr (Claimed p v e), w', calls_made)"
  obtains t q where "Transitioned t (Inr q) \<in> set calls_made" "ti_proposalId t = cr_proposalId input"
    "ti_expectedVersion t = cr_expectedProposalVersion input" "ti_status t = Executing"
    "ti_idempotencyKey t = transitionKey (cr_executionId input) Executing" "e = cr_executionId input"
proof -
  from obeysD [OF obeys_claim assms] obtain L where L: "follow (claim_step R input) new_ledger calls_made = Some L"
    "claim_recorded input (Claimed p v e) L" by (auto simp: claim_ends_def)
  from L(2) obtain t q where t: "el_move L = Some (t, Inr q)" "ti_status t = Executing" "e = cr_executionId input"
    unfolding claim_recorded_def by auto
  from move_was_called [OF L(1) _ t(1)] obtain N where N: "Transitioned t (Inr q) \<in> set calls_made" "may_claim R input N t"
    by (auto simp: new_ledger_def)
  from N(2) t(2) have "ti_proposalId t = cr_proposalId input" "ti_expectedVersion t = cr_expectedProposalVersion input"
    "ti_idempotencyKey t = transitionKey (cr_executionId input) Executing"
    unfolding may_claim_def by auto
  with that N(1) t show thesis by blast
qed

text \<open>
  C14: two claims of the same confirmed version of a proposal are never both granted to
  different executions, however their calls interleave with each other and with other requests
  to the store, whatever the other host services answer, and even when the store has forgotten
  idempotency records.
\<close>

theorem one_execution_per_confirmation:
  assumes "proposal_history R check h s"
    and "claim R (observed_options C) limits input (w, []) = (Inr (Claimed p v e), w', calls1)"
    and "claim R (observed_options D) limits2 input2 (x, []) = (Inr (Claimed p2 v2 e2), x', calls2)"
    and "\<forall>t q. Transitioned t (Inr q) \<in> set calls1 \<union> set calls2 \<longrightarrow> (t, q) \<in> set h"
    and "cr_proposalId input2 = cr_proposalId input"
    and "cr_expectedProposalVersion input2 = cr_expectedProposalVersion input"
  shows "e2 = e"
proof -
  from granted_transition [OF assms(2)] obtain t q where t: "Transitioned t (Inr q) \<in> set calls1" "ti_proposalId t = cr_proposalId input"
    "ti_expectedVersion t = cr_expectedProposalVersion input" "ti_status t = Executing"
    "ti_idempotencyKey t = transitionKey (cr_executionId input) Executing" "e = cr_executionId input" by metis
  from granted_transition [OF assms(3)] obtain u r where u: "Transitioned u (Inr r) \<in> set calls2" "ti_proposalId u = cr_proposalId input2"
    "ti_expectedVersion u = cr_expectedProposalVersion input2" "ti_status u = Executing"
    "ti_idempotencyKey u = transitionKey (cr_executionId input2) Executing" "e2 = cr_executionId input2" by metis
  have "cr_executionId input2 = cr_executionId input"
    by (rule guarded_memory.one_execution [of R check h u r t q]) (use assms t u in auto)
  with t(6) u(6) show ?thesis by simp
qed

section \<open>A worked claim\<close>

definition confirmed_sample :: ConversationApprovalProposalRecord where
  "confirmed_sample = transitioned (sample_confirmation (js ''k2'')) sample_time (new_proposal sample_creation sample_time)"

definition sample_claim :: "unit ApprovalExecutionClaimRequest" where
  "sample_claim = \<lparr>cr_permissionContext = (), cr_proposalId = js ''p'', cr_expectedProposalVersion = Finite 2,
     cr_executionId = js ''e1'', cr_argumentBinding = ArgumentReference (js ''a''),
     cr_attribution = \<lparr>aa_actor = \<lparr>actor_type = ActorSystem, actor_id = None\<rparr>, aa_source = RuntimeSource\<rparr>,
     cr_conversationId = js ''x'', cr_turnId = js ''t'', cr_toolCallId = js ''c'', cr_toolName = js ''n'',
     cr_arguments = JObj [], cr_definition = \<lparr>td_name = js ''n'', td_description = js ''d'', td_input_schema = JObj []\<rparr>\<rparr>"

definition sample_move :: "unit TransitionApprovalProposalInput" where
  "sample_move = execution_transition () (js ''p'') (Finite 2) Executing (cr_attribution sample_claim) (js ''e1'') None"

definition executing_sample :: ConversationApprovalProposalRecord where
  "executing_sample = transitioned sample_move sample_time confirmed_sample"

definition creation_event :: ConversationEvent where
  "creation_event = runtime_event (js ''e'') (js ''x'') 1 (ApprovalProposalCreated
     \<lparr>pc_proposal_id = js ''p'', pc_group_id = None, pc_turn_id = js ''t'', pc_tool_call_id = js ''c'', pc_tool_name = js ''n'',
      pc_expires_at = None, pc_reviewed_arguments = OpaqueReference (js ''a'')\<rparr>)"

definition confirmation_event :: ConversationEvent where
  "confirmation_event = runtime_event (js ''g'') (js ''x'') 2 (ApprovalProposalStatusChanged (js ''p'') 2 (ChangeConfirmed None))"

text \<open>A host whose log holds the evidence and which answers as the in-memory store does.\<close>

definition sample_options :: "(unit, unit) coordinator_options" where
  "sample_options = \<lparr>co_get = (\<lambda>_ _ w. (Inr (Some confirmed_sample), w)), co_transition = (\<lambda>_ w. (Inr executing_sample, w)),
     co_read = (\<lambda>_ w. (Inr \<lparr>ro_entries = [\<lparr>se_cursor = js ''c1'', se_event = creation_event\<rparr>, \<lparr>se_cursor = js ''c2'', se_event = confirmation_event\<rparr>],
       ro_nextCursor = Some (js ''c2''), ro_latestRevision = Some 2, ro_hasMore = False\<rparr>, w)),
     co_getLatestRevision = (\<lambda>_ w. (Inr (Some 2), w)),
     co_append = (\<lambda>_ w. (Inr \<lparr>ao_status = Appended, ao_entries = [], ao_latestRevision = 3\<rparr>, w)),
     co_authorize = (\<lambda>_ w. (Some True, w)), co_verifyArguments = (\<lambda>_ w. (Some True, w)), co_aborted = (\<lambda>_. False)\<rparr>"

lemma sample_options_simps:
  "co_get sample_options c p w = (Inr (Some confirmed_sample), w)" "co_transition sample_options t w = (Inr executing_sample, w)"
  "co_getLatestRevision sample_options x w = (Inr (Some 2), w)" "co_authorize sample_options q w = (Some True, w)"
  "co_append sample_options i w = (Inr \<lparr>ao_status = Appended, ao_entries = [], ao_latestRevision = 3\<rparr>, w)"
  "co_verifyArguments sample_options v w = (Some True, w)"
  by (simp_all add: sample_options_def)

lemma sample_claim_valid: "validClaimInput sample_claim" "identifier_ok (js ''p'')"
  by code_simp+

lemma confirmed_sample_simps [simp]:
  "ap_proposal_id confirmed_sample = js ''p''" "ap_turn_id confirmed_sample = js ''t''" "ap_tool_call_id confirmed_sample = js ''c''"
  "ap_tool_name confirmed_sample = js ''n''" "ap_expires_at confirmed_sample = None" "ap_status confirmed_sample = Confirmed"
  "ap_proposal_version confirmed_sample = 2" "ap_reviewed_arguments confirmed_sample = OpaqueReference (js ''a'')"
  by (simp_all add: confirmed_sample_def transitioned_def transitionProposal_def new_proposal_def sample_creation_def
      sample_confirmation_def Let_def cloneReviewedArguments_def)

lemma executing_sample_simps [simp]:
  "ap_proposal_id executing_sample = js ''p''" "ap_status executing_sample = Executing" "ap_proposal_version executing_sample = 3"
  by (simp_all add: executing_sample_def sample_move_def execution_transition_def)

definition sample_audit :: DurableProposalAudit where
  "sample_audit = \<lparr>da_created = creation_event, da_confirmed = Some confirmation_event, da_executing = None, da_terminal = None\<rparr>"

lemma runtime_event_original [simp]: "repair_reference (runtime_event i c r p) = None"
  by (simp add: repair_reference_def runtime_event_def)

lemma sample_evidence:
  "concerns (js ''p'') creation_event" "concerns (js ''p'') confirmation_event"
  "originalApprovalEvidence R [creation_event, confirmation_event] = Some [creation_event, confirmation_event]"
  "audit_of (js ''e1'') [creation_event, confirmation_event] = Some sample_audit"
  by (simp_all add: creation_event_def confirmation_event_def concerns_def originalApprovalEvidence_def
      audit_of_def created_payload_def records_status_def recorded_change_def change_status_def lifecycleEventId_def transitionKey_def
      sample_audit_def)

lemma sample_confirmation_found:
  "matchesProposalIdentity R confirmed_sample (da_created sample_audit) sample_claim"
  "hasExactConfirmation confirmed_sample sample_audit 2" "confirmed_version sample_claim = 2"
  by (simp_all add: matchesProposalIdentity_def sample_audit_def creation_event_def created_payload_def sample_claim_def
      hasExactConfirmation_def confirmation_event_def recorded_change_def change_status_def confirmed_version_def coalesce_def safe_int_def
      MAX_SAFE_INTEGER_def)

definition sample_calls :: "unit coordinator_call list" where
  "sample_calls = snd (snd (claim (\<lambda>_. []) (observed_options sample_options) APPROVAL_EXECUTION_COORDINATOR_LIMITS sample_claim ((), [])
     :: (unit + ApprovalExecutionClaimResult) \<times> unit \<times> unit coordinator_call list))"

lemmas run_simps = after_def reading_def recording_def returning_def on_abort_def

lemma sample_claim_fields [simp]:
  "cr_permissionContext sample_claim = ()" "cr_proposalId sample_claim = js ''p''" "cr_expectedProposalVersion sample_claim = Finite 2"
  "cr_executionId sample_claim = js ''e1''" "cr_argumentBinding sample_claim = ArgumentReference (js ''a'')"
  "cr_conversationId sample_claim = js ''x''"
  by (simp_all add: sample_claim_def)

lemma sample_audit_read:
  "readProposalAudit R (observed_options sample_options) APPROVAL_EXECUTION_COORDINATOR_LIMITS (js ''x'') (js ''p'') (js ''e1'') ((), cs) =
     (Inr (Some sample_audit), (), cs @ [ReadLog (page_input (js ''x'') None APPROVAL_EXECUTION_COORDINATOR_LIMITS) (fst (co_read sample_options undefined ()))])"
proof -
  obtain n where "nat (maxReconciliationPages APPROVAL_EXECUTION_COORDINATOR_LIMITS) = Suc n"
    by (simp add: APPROVAL_EXECUTION_COORDINATOR_LIMITS_def numeral_eq_Suc)
  then show ?thesis
    unfolding readProposalAudit_def
    by (simp add: observed_options_simps sample_options_def run_simps sample_evidence)
qed

lemma sample_claim_run:
  "claim (\<lambda>_. []) (observed_options sample_options) APPROVAL_EXECUTION_COORDINATOR_LIMITS sample_claim ((), []) =
     (Inr (Claimed (js ''p'') 3 (js ''e1'')) :: unit + ApprovalExecutionClaimResult, (), sample_calls)
   \<and> (\<forall>t q. Transitioned t (Inr q) \<in> set sample_calls \<longrightarrow> t = sample_move \<and> q = executing_sample)"
proof -
  obtain n where attempts: "nat (maxEventAppendAttempts APPROVAL_EXECUTION_COORDINATOR_LIMITS) = Suc n"
    by (simp add: APPROVAL_EXECUTION_COORDINATOR_LIMITS_def numeral_eq_Suc)
  have id: "safeProposalId (js ''p'') = js ''p''" by (simp add: safeProposalId_def sample_claim_valid)
  have aborted: "co_aborted (observed_options sample_options) w = False" for w by (cases w) (simp add: observed_options_def sample_options_def)
  note steps = claim_def Let_def sample_claim_valid authorized_def get_and_claim_def claim_proposal_def verify_and_execute_def
    argumentsMatch_def start_execution_def appendLifecycleEvent_def attempts id aborted binding_fits_def sample_audit_read sample_confirmation_found
    lifecycleEvent_def lifecycle_change_def observed_options_simps sample_options_simps run_simps
  show ?thesis
    unfolding sample_calls_def
    by (simp add: steps) (simp add: sample_options_def sample_move_def)
qed

text \<open>The in-memory store accepts the move of the worked claim.\<close>

abbreviation sample_check :: "unit permission_check" where
  "sample_check \<equiv> \<lambda>_. Some True"

lemma confirmed_store_eq:
  "map_of (as_proposals confirmed_store) (js ''p'') = Some confirmed_sample"
  "map_of (as_idempotency confirmed_store) (ti_idempotencyKey sample_move) = None"
  "as_limits confirmed_store = DEFAULT_APPROVAL_PROPOSAL_STORE_LIMITS"
proof -
  note filed = store_proposal_Inr(3) [OF trans [OF sample_confirms [symmetric] sample_confirmed]]
  have new: "js ''k2'' \<noteq> js ''k1''" by simp
  show "map_of (as_proposals confirmed_store) (js ''p'') = Some confirmed_sample"
    by (subst filed [OF new]) (simp add: retainIdempotency_def pending_store_eq confirmed_sample_def, simp add: sample_creation_def)
  show "map_of (as_idempotency confirmed_store) (ti_idempotencyKey sample_move) = None"
    by (subst filed [OF new]) (simp add: pending_store_eq retainIdempotency_def retain_def DEFAULT_APPROVAL_PROPOSAL_STORE_LIMITS_def
      sample_move_def execution_transition_def transitionKey_def js_append [symmetric])
  show "as_limits confirmed_store = DEFAULT_APPROVAL_PROPOSAL_STORE_LIMITS"
    by (subst filed [OF new]) (simp add: pending_store_eq retainIdempotency_def)
qed

lemma sample_moves: "\<exists>s'. transition_body (\<lambda>_. []) (Some sample_time) sample_move confirmed_store = Inr (executing_sample, s')"
proof -
  have parts: "ti_proposalId sample_move = js ''p''" "safe_int (ti_expectedVersion sample_move) = Some 2" "ti_status sample_move = Executing"
    "actor_type (aa_actor (ti_attribution sample_move)) = ActorSystem" "attribution_valid (ti_attribution sample_move)"
    by (simp_all add: sample_move_def execution_transition_def sample_claim_def attribution_valid_def safe_int_def MAX_SAFE_INTEGER_def)
  have eta: "\<lparr>aa_actor = aa_actor a, aa_source = aa_source a\<rparr> = a" for a :: ConversationEventAttribution by (cases a) simp
  have "ap_updated_at confirmed_sample = sample_time" by (simp add: confirmed_sample_def)
  moreover have "\<not> date_less sample_time sample_time" by (simp add: date_less_def split: option.split)
  moreover have "attributions_valid executing_sample"
    using parts(5) by (simp add: executing_sample_def confirmed_sample_def attributions_valid_def transitioned_def transitionProposal_def
      new_proposal_def sample_creation_def sample_confirmation_def attribution_valid_def Let_def isDecision_def parts(3))
  ultimately show ?thesis
    using parts confirmed_store_eq
    by (simp add: transition_body_def idempotentResult_def checked_now_def checkedAttribution_def eta legal_transition_cases Let_def
      store_proposal_def cloneProposal_valid executing_sample_def transitioned_def)
qed

lemma sample_key_ok: "isBoundedOpaqueValue (transitionKey (js ''e1'') Executing) 256"
proof -
  have pattern: "test (head_then_star p q) (c # cs) \<longleftrightarrow> p c \<and> list_all q cs" for p q c cs
    by (simp add: test_head_then_star list_all_iff)
  have key: "transitionKey (js ''e1'') Executing = of_char CHR ''a'' # js ''pproval-execution:e1:executing''"
    by (simp add: transitionKey_def proposal_status_text_def js_def)
  show ?thesis unfolding isBoundedOpaqueValue_def OPAQUE_VALUE_PATTERN_def key pattern by code_simp
qed

lemma sample_request: "transition_request sample_check (as_limits confirmed_store) sample_move = Inr ()"
  unfolding confirmed_store_eq(3)
  by (simp add: transition_request_def validateTransitionInput_def validateIdentifier_def validateIdempotency_def sample_move_def
      execution_transition_def sample_key_ok sample_claim_valid(2) DEFAULT_APPROVAL_PROPOSAL_STORE_LIMITS_def check_that_def safe_int_def
      MAX_SAFE_INTEGER_def Let_def checkedAttribution_def attribution_valid_def sample_claim_def authorize_def)

lemma confirmed_history:
  "proposal_history (\<lambda>_. []) sample_check [(sample_confirmation (js ''k2''), confirmed_sample)] confirmed_store"
proof -
  have "createApprovalStore DEFAULT_APPROVAL_PROPOSAL_STORE_LIMITS = Some blank_store"
    by (simp add: createApprovalStore_def resolveLimits_def limit_value_ok_def blank_store_def
        DEFAULT_APPROVAL_PROPOSAL_STORE_LIMITS_def MAX_SAFE_INTEGER_def textLength_def)
  from empty_history [OF this] have "proposal_history (\<lambda>_. []) sample_check [] pending_store"
    by (rule proposal_created [OF _ _ sample_creates]) (simp add: blank_store_def sample_requests)
  then have "proposal_history (\<lambda>_. []) sample_check ([] @ [(sample_confirmation (js ''k2''), confirmed_sample)]) confirmed_store"
    by (rule proposal_moved [OF _ _ sample_confirmed [folded confirmed_sample_def]])
      (simp add: pending_store_eq sample_requests)
  then show ?thesis by (simp only: append_Nil)
qed

lemma sample_history: "\<exists>h s. proposal_history (\<lambda>_. []) sample_check h s \<and> (sample_move, executing_sample) \<in> set h"
proof -
  obtain s where s: "transition_body (\<lambda>_. []) (Some sample_time) sample_move confirmed_store = Inr (executing_sample, s)"
    using sample_moves by blast
  have "proposal_history (\<lambda>_. []) sample_check
      ([(sample_confirmation (js ''k2''), confirmed_sample)] @ [(sample_move, executing_sample)]) s"
    by (rule proposal_moved [OF confirmed_history sample_request s])
  moreover have "(sample_move, executing_sample) \<in> set ([(sample_confirmation (js ''k2''), confirmed_sample)] @ [(sample_move, executing_sample)])"
    by simp
  ultimately show ?thesis by blast
qed

theorem one_execution_per_confirmation_witness:
  "(js ''e1'' :: js_string) = js ''e1'' \<and> Transitioned sample_move (Inr executing_sample) \<in> set sample_calls"
proof -
  note run = conjunct1 [OF sample_claim_run] and moves = conjunct2 [OF sample_claim_run]
  from sample_history obtain h s where s: "proposal_history (\<lambda>_. []) sample_check h s" "(sample_move, executing_sample) \<in> set h" by blast
  have "(js ''e1'' :: js_string) = js ''e1''"
    by (rule one_execution_per_confirmation [OF s(1) run run]) (use moves s(2) in auto)
  moreover from granted_transition [OF run] moves have "Transitioned sample_move (Inr executing_sample) \<in> set sample_calls" by metis
  ultimately show ?thesis by blast
qed

theorem claim_needs_confirmation_witness:
  "\<exists>L. follow (claim_step (\<lambda>_. []) sample_claim) new_ledger sample_calls = Some L \<and>
     claim_ends sample_claim (Inr (Claimed (js ''p'') 3 (js ''e1'')) :: unit + ApprovalExecutionClaimResult) L"
  by (rule claim_needs_confirmation [OF conjunct1 [OF sample_claim_run]])

end
