(* ===== verification/Protocol.thy ===== *)
theory Protocol
  imports EventValidation
begin

text \<open>
  \<^verbatim>\<open>src/protocol.ts\<close>, the wire protocol between a host and the runtime: its limits, the checks on
  messages, tools, tool results and metadata, and the parser of requests. A check takes a JSON
  value and the path it reports. As in the validation of events, \<open>parse_url\<close> is the URL parser of
  the platform and \<open>R\<close> renders numbers that are not integers.
\<close>

section \<open>Limits\<close>

datatype (plugins only: code size) protocol_error = ProtocolValidationError js_string js_string

definition perr :: "protocol_error error_of" where
  "perr path message = ProtocolValidationError path (js message)"

definition AI_RUNTIME_PROTOCOL_VERSION :: string where
  "AI_RUNTIME_PROTOCOL_VERSION = ''handrail.ai-runtime.v1''"

definition AI_RUNTIME_COMPLETION_OUTCOMES :: "string list" where
  "AI_RUNTIME_COMPLETION_OUTCOMES = [''stop'', ''length'', ''tool_calls'']"

definition AI_RUNTIME_CANCELLATION_REASONS :: "string list" where
  "AI_RUNTIME_CANCELLATION_REASONS = [''explicit_stop'', ''deadline_exceeded'', ''policy_revoked'', ''runtime_shutdown'']"

definition AI_RUNTIME_ERROR_CATEGORIES :: "string list" where
  "AI_RUNTIME_ERROR_CATEGORIES = [''request'', ''authentication'', ''authorization'', ''policy'', ''capacity'', ''upstream'', ''internal'']"

definition AI_RUNTIME_ERROR_CODES :: "string list" where
  "AI_RUNTIME_ERROR_CODES = [''invalid_request'', ''unauthenticated'', ''forbidden'', ''policy_denied'', ''rate_limited'',
     ''capacity_exceeded'', ''idempotency_conflict'', ''deadline_exceeded'', ''upstream_unavailable'', ''internal_error'']"

record protocol_limits =
  pl_identifierLength :: nat
  pl_textLength :: nat
  pl_errorMessageLength :: nat
  pl_attachmentIdLength :: nat
  pl_attachmentContentReferenceLength :: nat
  pl_attachmentFilenameLength :: nat
  pl_attachmentAltTextLength :: nat
  pl_imageAttachmentMinBytes :: int
  pl_imageAttachmentMaxBytes :: int
  pl_imageAttachmentsPerMessage :: nat
  pl_imageAttachmentsPerRequest :: nat
  pl_documentAttachmentMinBytes :: int
  pl_documentAttachmentMaxBytes :: int
  pl_documentAttachmentsPerMessage :: nat
  pl_documentAttachmentsPerRequest :: nat
  pl_metadataSerializedBytes :: nat

definition AI_RUNTIME_PROTOCOL_LIMITS :: protocol_limits where
  "AI_RUNTIME_PROTOCOL_LIMITS = \<lparr>pl_identifierLength = 256, pl_textLength = 1000000, pl_errorMessageLength = 1024,
     pl_attachmentIdLength = 256, pl_attachmentContentReferenceLength = 256, pl_attachmentFilenameLength = 255,
     pl_attachmentAltTextLength = 1024, pl_imageAttachmentMinBytes = 1, pl_imageAttachmentMaxBytes = 10485760,
     pl_imageAttachmentsPerMessage = 4, pl_imageAttachmentsPerRequest = 8, pl_documentAttachmentMinBytes = 1,
     pl_documentAttachmentMaxBytes = 26214400, pl_documentAttachmentsPerMessage = 2, pl_documentAttachmentsPerRequest = 4,
     pl_metadataSerializedBytes = 16384\<rparr>"

definition PROTOCOL_CREDENTIAL_FIELD_NAMES :: "string list" where
  "PROTOCOL_CREDENTIAL_FIELD_NAMES = [''accesstoken'', ''apikey'', ''apitoken'', ''authorization'', ''bearertoken'',
     ''clientsecret'', ''cookie'', ''credential'', ''credentials'', ''idtoken'', ''managedtoken'', ''password'', ''passwd'',
     ''privatekey'', ''proxyauthorization'', ''refreshtoken'', ''secret'', ''secretkey'', ''secrets'', ''setcookie'',
     ''signingkey'']"

definition PROTOCOL_METADATA_FORBIDDEN_FIELD_NAMES :: "string list" where
  "PROTOCOL_METADATA_FORBIDDEN_FIELD_NAMES = PROTOCOL_CREDENTIAL_FIELD_NAMES @ [''anthropic'', ''attribution'', ''automation'',
     ''automationid'', ''chunk'', ''choices'', ''completiontokens'', ''contentblock'', ''contentblockdelta'', ''finishreason'',
     ''functioncall'', ''functioncallingconfig'', ''gemini'', ''headers'', ''knownuser'', ''knownuserid'', ''model'', ''modelid'',
     ''modeltransport'', ''nativechunk'', ''nativefinishreason'', ''openai'', ''organization'', ''organizationid'', ''orgid'',
     ''project'', ''projectid'', ''provider'', ''providerchunk'', ''providererror'', ''providername'', ''providerpayload'',
     ''providerrequest'', ''providerresponse'', ''promptfeedback'', ''prompttokens'', ''raw'', ''rawerror'', ''rawrequest'',
     ''rawresponse'', ''requestheaders'', ''requestid'', ''serviceenvironment'', ''serviceenvironmentid'', ''session'',
     ''sessionid'', ''stopreason'', ''stopsequence'', ''systemfingerprint'', ''tooluse'', ''tooluses'', ''traceid'',
     ''usagemetadata'', ''xai'']"

definition PROTOCOL_METADATA_FORBIDDEN_STRING_VALUES :: "string list" where
  "PROTOCOL_METADATA_FORBIDDEN_STRING_VALUES = [''anthropic'', ''chatcompletion'', ''chatcompletionchunk'',
     ''contentblockdelta'', ''gemini'', ''openai'', ''xai'']"

definition PROTOCOL_CREDENTIAL_VALUE_PATTERNS :: "re list" where
  "PROTOCOL_CREDENTIAL_VALUE_PATTERNS =
     [bearer_pattern, RSeq (RAlt RStart (RChar (\<lambda>c. \<not> alnum_i c))) sk_tail, private_key_pattern]"

definition PUBLIC_JSON_LIMITS :: JsonLimits where
  "PUBLIC_JSON_LIMITS = \<lparr>maxDepth = 20, maxNodes = 10000, maxArrayLength = 2000, maxObjectKeys = 2000, maxKeyLength = 256,
     maxStringLength = 1000000, forbiddenFields = PROTOCOL_CREDENTIAL_FIELD_NAMES, forbiddenStringValues = [],
     forbiddenStringPatterns = PROTOCOL_CREDENTIAL_VALUE_PATTERNS\<rparr>"

definition PROTOCOL_METADATA_LIMITS :: JsonLimits where
  "PROTOCOL_METADATA_LIMITS = \<lparr>maxDepth = 5, maxNodes = 256, maxArrayLength = 64, maxObjectKeys = 64, maxKeyLength = 128,
     maxStringLength = 4096, forbiddenFields = PROTOCOL_METADATA_FORBIDDEN_FIELD_NAMES,
     forbiddenStringValues = PROTOCOL_METADATA_FORBIDDEN_STRING_VALUES,
     forbiddenStringPatterns = PROTOCOL_CREDENTIAL_VALUE_PATTERNS\<rparr>"

section \<open>Scalars\<close>

definition protocol_record :: "json option \<Rightarrow> js_string \<Rightarrow> protocol_error + js_object" where
  "protocol_record value path = (case value of Some (JObj fs) \<Rightarrow> Inr fs | _ \<Rightarrow> Inl (perr path ''must be a JSON object''))"

definition protocol_string :: "json option \<Rightarrow> js_string \<Rightarrow> bool \<Rightarrow> nat \<Rightarrow> protocol_error + js_string" where
  "protocol_string value path allowEmpty maxLength =
     (case value of
        Some (JStr s) \<Rightarrow>
          if \<not> allowEmpty \<and> length s = 0 then Inl (perr path ''must not be empty'')
          else if maxLength < length s
          then Inl (perr path (''must be at most '' @ nat_digits maxLength @ '' characters''))
          else Inr s
      | _ \<Rightarrow> Inl (perr path ''must be a string''))"

abbreviation protocol_identifier :: "json option \<Rightarrow> js_string \<Rightarrow> protocol_error + js_string" where
  "protocol_identifier value path \<equiv> protocol_string value path False (pl_identifierLength AI_RUNTIME_PROTOCOL_LIMITS)"

text \<open>\<^verbatim>\<open>Number.isInteger\<close>, with the integer.\<close>

definition integer_of :: "json option \<Rightarrow> int option" where
  "integer_of value = (case value of
     Some (JNum (Finite q)) \<Rightarrow> if q = of_int \<lfloor>q\<rfloor> then Some \<lfloor>q\<rfloor> else None
   | Some (JNum NegZero) \<Rightarrow> Some 0
   | _ \<Rightarrow> None)"

definition integer_among :: "(int \<Rightarrow> bool) \<Rightarrow> json option \<Rightarrow> bool" where
  "integer_among P value = (case integer_of value of None \<Rightarrow> False | Some n \<Rightarrow> P n)"

definition finite_number :: "json option \<Rightarrow> bool" where
  "finite_number value = (case value of Some (JNum n) \<Rightarrow> isFinite n | _ \<Rightarrow> False)"

definition must_be :: "js_object \<Rightarrow> string \<Rightarrow> js_string \<Rightarrow> string \<Rightarrow> protocol_error + unit" where
  "must_be obj key path wanted = throw_if (fld obj key \<noteq> Some (JText wanted))
     (perr (dot path key) (''must equal \"'' @ wanted @ ''\"''))"

definition id_of :: "js_object \<Rightarrow> string \<Rightarrow> js_string \<Rightarrow> protocol_error + unit" where
  "id_of obj key path = voidE (protocol_identifier (fld obj key) (dot path key))"

text \<open>The elements of an array in order, with their paths; a repeated one is refused.\<close>

fun unique_elements :: "(json option \<Rightarrow> js_string \<Rightarrow> protocol_error + 'a) \<Rightarrow> 'a list \<Rightarrow> js_string \<Rightarrow> nat \<Rightarrow> json list \<Rightarrow>
    protocol_error + unit" where
  "unique_elements parse seen path i [] = Inr ()"
| "unique_elements parse seen path i (x # xs) =
     bindE (parse (Some x) (index_path path i)) (\<lambda>v.
     if v \<in> set seen then Inl (perr (index_path path i) ''must be unique'')
     else unique_elements parse (v # seen) path (Suc i) xs)"

section \<open>Bounded JSON\<close>

definition scan_string :: "JsonLimits \<Rightarrow> js_string \<Rightarrow> js_string \<Rightarrow> protocol_error + unit" where
  "scan_string limits current currentPath = checks
     [throw_if (maxStringLength limits < length current)
        (perr currentPath (''must be at most '' @ nat_digits (maxStringLength limits) @ '' characters'')),
      throw_if (matches_any (forbiddenStringPatterns limits) current)
        (perr currentPath ''must not contain credential material''),
      throw_if (normalizeFieldName current \<in> set (map js (forbiddenStringValues limits)))
        (perr currentPath ''must not identify provider-native data'')]"

definition scan_key :: "JsonLimits \<Rightarrow> js_string \<Rightarrow> js_string \<Rightarrow> protocol_error + unit" where
  "scan_key limits key currentPath = checks
     [throw_if (length key = 0 \<or> maxKeyLength limits < length key)
        (perr (entry_path currentPath key) (''field names must be 1-'' @ nat_digits (maxKeyLength limits) @ '' characters'')),
      throw_if (normalizeFieldName key \<in> set (map js (forbiddenFields limits)))
        (perr (entry_path currentPath key) ''is forbidden at this public protocol boundary'')]"

definition scan_value :: "JsonLimits \<Rightarrow> json \<Rightarrow> js_string \<Rightarrow> protocol_error + unit" where
  "scan_value limits current currentPath = (case current of
     JNum n \<Rightarrow> throw_if (\<not> isFinite n) (perr currentPath ''must be a finite JSON number'')
   | JStr s \<Rightarrow> scan_string limits s currentPath
   | JArr xs \<Rightarrow> throw_if (maxArrayLength limits < length xs)
       (perr currentPath (''must contain at most '' @ nat_digits (maxArrayLength limits) @ '' items''))
   | JObj fs \<Rightarrow> throw_if (maxObjectKeys limits < length fs)
       (perr currentPath (''must contain at most '' @ nat_digits (maxObjectKeys limits) @ '' fields''))
   | _ \<Rightarrow> Inr ())"

text \<open>The inner \<^verbatim>\<open>visit\<close>, with the count of values after the subtree.\<close>

function (sequential) scan :: "JsonLimits \<Rightarrow> js_string \<Rightarrow> json \<Rightarrow> js_string \<Rightarrow> nat \<Rightarrow> nat \<Rightarrow> protocol_error + nat"
  and scan_items :: "JsonLimits \<Rightarrow> js_string \<Rightarrow> json list \<Rightarrow> js_string \<Rightarrow> nat \<Rightarrow> nat \<Rightarrow> nat \<Rightarrow> protocol_error + nat"
  and scan_entries :: "JsonLimits \<Rightarrow> js_string \<Rightarrow> js_object \<Rightarrow> js_string \<Rightarrow> nat \<Rightarrow> nat \<Rightarrow> protocol_error + nat"
  where
  "scan limits path current currentPath depth nodes =
     (if maxNodes limits < nodes + 1
      then Inl (perr path (''must contain at most '' @ nat_digits (maxNodes limits) @ '' JSON values''))
      else if maxDepth limits < depth
      then Inl (perr currentPath (''exceeds maximum depth '' @ nat_digits (maxDepth limits)))
      else bindE (scan_value limits current currentPath) (\<lambda>_.
        case current of
          JArr xs \<Rightarrow> scan_items limits path xs currentPath 0 depth (nodes + 1)
        | JObj fs \<Rightarrow> scan_entries limits path fs currentPath depth (nodes + 1)
        | _ \<Rightarrow> Inr (nodes + 1)))"
| "scan_items limits path [] currentPath index depth nodes = Inr nodes"
| "scan_items limits path (x # xs) currentPath index depth nodes =
     bindE (scan limits path x (index_path currentPath index) (depth + 1) nodes) (\<lambda>nodes.
     scan_items limits path xs currentPath (Suc index) depth nodes)"
| "scan_entries limits path [] currentPath depth nodes = Inr nodes"
| "scan_entries limits path ((key, item) # fs) currentPath depth nodes =
     bindE (scan_key limits key currentPath) (\<lambda>_.
     bindE (scan limits path item (entry_path currentPath key) (depth + 1) nodes) (\<lambda>nodes.
     scan_entries limits path fs currentPath depth nodes))"
  by pat_completeness auto
termination
  by (relation "measure (\<lambda>x. case x of
      Inl (_, _, v, _) \<Rightarrow> Suc (2 * size v)
    | Inr (Inl (_, _, vs, _)) \<Rightarrow> 2 * size_list size vs
    | Inr (Inr (_, _, fs, _)) \<Rightarrow> 2 * size_list (size_prod (\<lambda>_. 0) size) fs)") auto

definition validateBoundedJson :: "json option \<Rightarrow> js_string \<Rightarrow> JsonLimits \<Rightarrow> protocol_error + unit" where
  "validateBoundedJson value path limits = (case value of
     Some v \<Rightarrow> voidE (scan limits path v path 0 0)
   | None \<Rightarrow> Inl (perr path ''must be a JSON value''))"

definition validateCredentialsAbsent :: "json option \<Rightarrow> js_string \<Rightarrow> protocol_error + unit" where
  "validateCredentialsAbsent value path = validateBoundedJson value path PUBLIC_JSON_LIMITS"

definition validateProtocolMetadata :: "(rat \<Rightarrow> js_string) \<Rightarrow> json option \<Rightarrow> js_string \<Rightarrow> protocol_error + unit" where
  "validateProtocolMetadata R value path =
     bindE (protocol_record value path) (\<lambda>fs. checks
       [validateBoundedJson value path PROTOCOL_METADATA_LIMITS,
        throw_if (pl_metadataSerializedBytes AI_RUNTIME_PROTOCOL_LIMITS < utf8ByteLength (stringify R (JObj fs)))
          (perr path (''must serialize to at most '' @ nat_digits (pl_metadataSerializedBytes AI_RUNTIME_PROTOCOL_LIMITS) @ '' bytes''))])"

section \<open>Schemas of tools\<close>

definition JSON_SCHEMA_TYPES :: "string list" where
  "JSON_SCHEMA_TYPES = [''array'', ''boolean'', ''integer'', ''null'', ''number'', ''object'', ''string'']"

definition schema_type_check :: "js_object \<Rightarrow> js_string \<Rightarrow> protocol_error + unit" where
  "schema_type_check schema path = when_own schema ''type'' (case fld schema ''type'' of
     Some (JArr types) \<Rightarrow>
       if types = [] then Inl (perr (dot path ''type'') ''must not be empty'')
       else unique_elements (\<lambda>v. enum_value perr v JSON_SCHEMA_TYPES) [] (dot path ''type'') 0 types
   | value \<Rightarrow> voidE (enum_value perr value JSON_SCHEMA_TYPES (dot path ''type'')))"

definition schema_required_check :: "js_object \<Rightarrow> js_string \<Rightarrow> protocol_error + unit" where
  "schema_required_check schema path = when_own schema ''required'' (case fld schema ''required'' of
     Some (JArr names) \<Rightarrow> unique_elements protocol_identifier [] (dot path ''required'') 0 names
   | _ \<Rightarrow> Inl (perr (dot path ''required'') ''must be an array''))"

definition schema_enum_check :: "js_object \<Rightarrow> js_string \<Rightarrow> protocol_error + unit" where
  "schema_enum_check schema path = throw_if
     (has_own schema ''enum'' \<and> (case fld schema ''enum'' of Some (JArr xs) \<Rightarrow> xs = [] | _ \<Rightarrow> True))
     (perr (dot path ''enum'') ''must be a non-empty array'')"

definition SCHEMA_NUMBERS :: "string list" where
  "SCHEMA_NUMBERS = [''multipleOf'', ''maximum'', ''exclusiveMaximum'', ''minimum'', ''exclusiveMinimum'', ''maxLength'',
     ''minLength'', ''maxItems'', ''minItems'', ''maxContains'', ''minContains'', ''maxProperties'', ''minProperties'']"

definition schema_numbers_check :: "js_object \<Rightarrow> js_string \<Rightarrow> protocol_error + unit" where
  "schema_numbers_check schema path = checks (map (\<lambda>keyword. throw_if
     (has_own schema keyword \<and> \<not> finite_number (fld schema keyword))
     (perr (dot path keyword) ''must be a finite number'')) SCHEMA_NUMBERS)"

definition SCHEMA_MAPS :: "string list" where
  "SCHEMA_MAPS = [''properties'', ''patternProperties'', ''$defs'', ''definitions'', ''dependentSchemas'']"

definition SCHEMA_CHILDREN :: "string list" where
  "SCHEMA_CHILDREN = [''additionalProperties'', ''unevaluatedProperties'', ''items'', ''contains'', ''not'', ''if'', ''then'',
     ''else'', ''propertyNames'']"

definition SCHEMA_LISTS :: "string list" where
  "SCHEMA_LISTS = [''allOf'', ''anyOf'', ''oneOf'', ''prefixItems'']"

lemma size_fld: "fld fs k = Some v \<Longrightarrow> size v < Suc (size_list (size_prod (\<lambda>_. 0) size) fs)"
  by (simp add: fld_def prop_of_def size_map_of)

text \<open>
  \<^verbatim>\<open>validateJsonSchemaNode\<close> below the root, in four recursive parts: a node, the fields of a schema
  object, a map of named schemas and a list of schemas.
\<close>

function (sequential) schema_node :: "bool \<Rightarrow> json \<Rightarrow> js_string \<Rightarrow> protocol_error + unit"
  and schema_body :: "bool \<Rightarrow> js_object \<Rightarrow> js_string \<Rightarrow> protocol_error + unit"
  and schema_named :: "bool \<Rightarrow> js_object \<Rightarrow> js_string \<Rightarrow> protocol_error + unit"
  and schema_listed :: "bool \<Rightarrow> json list \<Rightarrow> js_string \<Rightarrow> nat \<Rightarrow> protocol_error + unit"
  where
  "schema_node draft07 (JBool _) path = Inr ()"
| "schema_node draft07 (JObj schema) path = schema_body draft07 schema path"
| "schema_node draft07 _ path = Inl (perr path ''must be a JSON object'')"
| "schema_body draft07 schema path = checks
     ([schema_type_check schema path] @
      map (\<lambda>keyword. case fld schema keyword of
          None \<Rightarrow> Inr ()
        | Some (JObj schemas) \<Rightarrow> schema_named draft07 schemas (dot path keyword)
        | Some _ \<Rightarrow> Inl (perr (dot path keyword) ''must be a JSON object'')) SCHEMA_MAPS @
      [schema_required_check schema path] @
      map (\<lambda>keyword. case fld schema keyword of
          None \<Rightarrow> Inr ()
        | Some child \<Rightarrow>
            (case child of
               JArr items \<Rightarrow>
                 if keyword = ''items'' \<and> draft07
                 then if items = [] then Inl (perr (dot path ''items'') ''must be a non-empty array of JSON Schemas'')
                      else schema_listed draft07 items (dot path ''items'') 0
                 else schema_node draft07 child (dot path keyword)
             | _ \<Rightarrow> schema_node draft07 child (dot path keyword))) SCHEMA_CHILDREN @
      map (\<lambda>keyword. case fld schema keyword of
          None \<Rightarrow> Inr ()
        | Some (JArr schemas) \<Rightarrow>
            if schemas = [] then Inl (perr (dot path keyword) ''must be a non-empty array of JSON Schemas'')
            else schema_listed draft07 schemas (dot path keyword) 0
        | Some _ \<Rightarrow> Inl (perr (dot path keyword) ''must be a non-empty array of JSON Schemas'')) SCHEMA_LISTS @
      [schema_enum_check schema path, schema_numbers_check schema path])"
| "schema_named draft07 [] path = Inr ()"
| "schema_named draft07 ((name, child) # schemas) path =
     bindE (schema_node draft07 child (entry_path path name)) (\<lambda>_. schema_named draft07 schemas path)"
| "schema_listed draft07 [] path i = Inr ()"
| "schema_listed draft07 (child # schemas) path i =
     bindE (schema_node draft07 child (index_path path i)) (\<lambda>_. schema_listed draft07 schemas path (Suc i))"
  by pat_completeness auto
termination
  by (relation "measure (\<lambda>x. case x of
      Inl (Inl (_, v, _)) \<Rightarrow> 2 * size v
    | Inl (Inr (_, fs, _)) \<Rightarrow> Suc (2 * size_list (size_prod (\<lambda>_. 0) size) fs)
    | Inr (Inl (_, fs, _)) \<Rightarrow> Suc (2 * size_list (size_prod (\<lambda>_. 0) size) fs)
    | Inr (Inr (_, vs, _)) \<Rightarrow> Suc (2 * size_list size vs))") (auto dest!: size_fld)

definition validateJsonSchema :: "json option \<Rightarrow> js_string \<Rightarrow> protocol_error + unit" where
  "validateJsonSchema value path =
     bindE (protocol_record value path) (\<lambda>schema.
     bindE (must_be schema ''type'' path ''object'') (\<lambda>_.
     schema_body (fld schema ''$schema'' = Some (JText ''http://json-schema.org/draft-07/schema#'')) schema path))"

section \<open>Messages\<close>

definition protocol_text_part :: "json option \<Rightarrow> js_string \<Rightarrow> protocol_error + unit" where
  "protocol_text_part value path =
     bindE (protocol_record value path) (\<lambda>obj. checks
       [required_keys perr obj [''type'', ''text''] path,
        allowed_keys perr obj [''type'', ''text''] path,
        must_be obj ''type'' path ''text'',
        voidE (protocol_string (fld obj ''text'') (dot path ''text'') True (pl_textLength AI_RUNTIME_PROTOCOL_LIMITS))])"

definition rejectCredentialMaterial :: "js_string \<Rightarrow> js_string \<Rightarrow> protocol_error + unit" where
  "rejectCredentialMaterial value path = throw_if (matches_any PROTOCOL_CREDENTIAL_VALUE_PATTERNS value)
     (perr path ''must not contain credential material'')"

definition validateAttachmentIdentifier :: "json option \<Rightarrow> js_string \<Rightarrow> protocol_error + unit" where
  "validateAttachmentIdentifier value path =
     bindE (protocol_string value path False (pl_attachmentIdLength AI_RUNTIME_PROTOCOL_LIMITS)) (\<lambda>parsed. checks
       [rejectCredentialMaterial parsed path,
        throw_if (\<not> test ATTACHMENT_ID_PATTERN parsed) (perr path ''must match ^att_[A-Za-z0-9][A-Za-z0-9._-]{0,251}$'')])"

definition CONTENT_REFERENCE_PATTERN :: re where
  "CONTENT_REFERENCE_PATTERN = foldr RSeq (RStart # map (\<lambda>c. RChar (\<lambda>u. u = of_char c)) ''ref_'')
     (RSeq (RChar alnum_i) (RSeq (RRep 0 (Some 251) (RChar (\<lambda>c. alnum_i c \<or> one_of ''._-'' c))) REnd))"

definition URL_PREFIX_PATTERN :: re where
  "URL_PREFIX_PATTERN = RSeq RStart (RSeq (RAlt (lit_i ''data'') (RAlt (lit_i ''blob'') (RSeq (lit_i ''http'') (opt (lit_i ''s'')))))
     (lit_i '':''))"

definition validateContentReference :: "json option \<Rightarrow> js_string \<Rightarrow> protocol_error + unit" where
  "validateContentReference value path =
     bindE (protocol_string value path False (pl_attachmentContentReferenceLength AI_RUNTIME_PROTOCOL_LIMITS)) (\<lambda>parsed. checks
       [rejectCredentialMaterial parsed path,
        throw_if (test URL_PREFIX_PATTERN parsed \<or> \<not> test CONTENT_REFERENCE_PATTERN parsed)
          (perr path ''must be an opaque identifier matching ^ref_[A-Za-z0-9][A-Za-z0-9._-]{0,251}$'')])"

definition validateSafeFilename :: "json option \<Rightarrow> js_string \<Rightarrow> protocol_error + unit" where
  "validateSafeFilename value path =
     bindE (protocol_string value path False (pl_attachmentFilenameLength AI_RUNTIME_PROTOCOL_LIMITS)) (\<lambda>parsed. checks
       [rejectCredentialMaterial parsed path,
        throw_if (parsed = js ''.'' \<or> parsed = js ''..'' \<or> list_ex unsafe_filename_unit parsed)
          (perr path ''must be a safe filename without path separators or control characters'')])"

definition protocol_attachment :: "json option \<Rightarrow> js_string \<Rightarrow> string list \<Rightarrow> int \<Rightarrow> int \<Rightarrow> protocol_error + unit" where
  "protocol_attachment value path mediaTypes minBytes maxBytes =
     bindE (protocol_record value path) (\<lambda>attachment. checks
       [required_keys perr attachment [''attachment_id'', ''content_ref'', ''media_type'', ''byte_size''] path,
        allowed_keys perr attachment [''attachment_id'', ''content_ref'', ''media_type'', ''byte_size'', ''filename''] path,
        validateAttachmentIdentifier (fld attachment ''attachment_id'') (dot path ''attachment_id''),
        validateContentReference (fld attachment ''content_ref'') (dot path ''content_ref''),
        voidE (enum_value perr (fld attachment ''media_type'') mediaTypes (dot path ''media_type'')),
        throw_if (\<not> integer_among (\<lambda>n. minBytes \<le> n \<and> n \<le> maxBytes) (fld attachment ''byte_size''))
          (perr (dot path ''byte_size'') (''must be an integer from '' @ int_digits minBytes @ '' through '' @ int_digits maxBytes)),
        when_own attachment ''filename'' (validateSafeFilename (fld attachment ''filename'') (dot path ''filename''))])"

definition validateImagePart :: "json option \<Rightarrow> js_string \<Rightarrow> protocol_error + unit" where
  "validateImagePart value path =
     bindE (protocol_record value path) (\<lambda>obj. checks
       [required_keys perr obj [''type'', ''attachment''] path,
        allowed_keys perr obj [''type'', ''attachment'', ''alt_text''] path,
        must_be obj ''type'' path ''image'',
        protocol_attachment (fld obj ''attachment'') (dot path ''attachment'') IMAGE_MIME_TYPES
          (pl_imageAttachmentMinBytes AI_RUNTIME_PROTOCOL_LIMITS) (pl_imageAttachmentMaxBytes AI_RUNTIME_PROTOCOL_LIMITS),
        when_own obj ''alt_text'' (bindE (protocol_string (fld obj ''alt_text'') (dot path ''alt_text'') False
            (pl_attachmentAltTextLength AI_RUNTIME_PROTOCOL_LIMITS))
          (\<lambda>altText. rejectCredentialMaterial altText (dot path ''alt_text'')))])"

definition validateDocumentPart :: "json option \<Rightarrow> js_string \<Rightarrow> protocol_error + unit" where
  "validateDocumentPart value path =
     bindE (protocol_record value path) (\<lambda>obj. checks
       [required_keys perr obj [''type'', ''attachment''] path,
        allowed_keys perr obj [''type'', ''attachment''] path,
        must_be obj ''type'' path ''document'',
        protocol_attachment (fld obj ''attachment'') (dot path ''attachment'') DOCUMENT_MIME_TYPES
          (pl_documentAttachmentMinBytes AI_RUNTIME_PROTOCOL_LIMITS) (pl_documentAttachmentMaxBytes AI_RUNTIME_PROTOCOL_LIMITS)])"

datatype (plugins only: code size) part_kind = TextPart | ImagePart | DocumentPart

text \<open>The kind of an accepted part is the one its \<^verbatim>\<open>type\<close> names.\<close>

definition validateMessageContentPart :: "json option \<Rightarrow> js_string \<Rightarrow> protocol_error + part_kind" where
  "validateMessageContentPart value path =
     bindE (protocol_record value path) (\<lambda>obj.
     if fld obj ''type'' = Some (JText ''text'') then bindE (protocol_text_part value path) (\<lambda>_. Inr TextPart)
     else if fld obj ''type'' = Some (JText ''image'') then bindE (validateImagePart value path) (\<lambda>_. Inr ImagePart)
     else if fld obj ''type'' = Some (JText ''document'') then bindE (validateDocumentPart value path) (\<lambda>_. Inr DocumentPart)
     else Inl (perr (dot path ''type'') ''must equal \"text\", \"image\", or \"document\"''))"

record MessageAttachmentCounts =
  imageCount :: nat
  documentCount :: nat

fun count_parts :: "string \<Rightarrow> js_string \<Rightarrow> MessageAttachmentCounts \<Rightarrow> nat \<Rightarrow> json list \<Rightarrow> protocol_error + MessageAttachmentCounts" where
  "count_parts role path counts i [] = Inr counts"
| "count_parts role path counts i (part # parts) =
     bindE (validateMessageContentPart (Some part) (index_path (dot path ''content'') i)) (\<lambda>kind.
     case kind of
       TextPart \<Rightarrow> count_parts role path counts (Suc i) parts
     | ImagePart \<Rightarrow> count_parts role path (counts\<lparr>imageCount := imageCount counts + 1\<rparr>) (Suc i) parts
     | DocumentPart \<Rightarrow>
         if role \<noteq> ''user'' then Inl (perr (dot (index_path (dot path ''content'') i) ''type'') ''document parts are user-only'')
         else count_parts role path (counts\<lparr>documentCount := documentCount counts + 1\<rparr>) (Suc i) parts)"

definition at_most_parts :: "nat \<Rightarrow> nat \<Rightarrow> js_string \<Rightarrow> string \<Rightarrow> protocol_error + unit" where
  "at_most_parts n limit path what = throw_if (limit < n)
     (perr path (''must contain at most '' @ nat_digits limit @ what))"

definition validateMessage :: "json option \<Rightarrow> js_string \<Rightarrow> protocol_error + MessageAttachmentCounts" where
  "validateMessage value path =
     bindE (protocol_record value path) (\<lambda>obj.
     bindE (required_keys perr obj [''role'', ''content''] path) (\<lambda>_.
     bindE (allowed_keys perr obj [''role'', ''content''] path) (\<lambda>_.
     bindE (enum_value perr (fld obj ''role'') [''user'', ''assistant''] (dot path ''role'')) (\<lambda>role.
     bindE (case fld obj ''content'' of
         Some (JArr parts) \<Rightarrow>
           if parts = [] then Inl (perr (dot path ''content'') ''must be a non-empty array'')
           else count_parts role path \<lparr>imageCount = 0, documentCount = 0\<rparr> 0 parts
       | _ \<Rightarrow> Inl (perr (dot path ''content'') ''must be a non-empty array'')) (\<lambda>counts.
     bindE (at_most_parts (imageCount counts) (pl_imageAttachmentsPerMessage AI_RUNTIME_PROTOCOL_LIMITS)
       (dot path ''content'') '' image parts'') (\<lambda>_.
     bindE (at_most_parts (documentCount counts) (pl_documentAttachmentsPerMessage AI_RUNTIME_PROTOCOL_LIMITS)
       (dot path ''content'') '' document parts'') (\<lambda>_.
     Inr counts)))))))"

section \<open>Tools and their results\<close>

definition validateToolDefinition :: "json option \<Rightarrow> js_string \<Rightarrow> protocol_error + js_object" where
  "validateToolDefinition value path =
     bindE (protocol_record value path) (\<lambda>obj.
     bindE (checks
       [required_keys perr obj [''name'', ''description'', ''input_schema''] path,
        allowed_keys perr obj [''name'', ''description'', ''input_schema''] path,
        id_of obj ''name'' path,
        voidE (protocol_string (fld obj ''description'') (dot path ''description'') False (pl_textLength AI_RUNTIME_PROTOCOL_LIMITS)),
        voidE (protocol_record (fld obj ''input_schema'') (dot path ''input_schema'')),
        validateCredentialsAbsent (fld obj ''input_schema'') (dot path ''input_schema''),
        validateJsonSchema (fld obj ''input_schema'') (dot path ''input_schema'')]) (\<lambda>_.
     Inr obj))"

definition parseToolDefinition :: "json \<Rightarrow> protocol_error + js_object" where
  "parseToolDefinition value = validateToolDefinition (Some value) (js ''$tool'')"

definition protocol_result_part :: "json option \<Rightarrow> js_string \<Rightarrow> protocol_error + unit" where
  "protocol_result_part value path =
     bindE (protocol_record value path) (\<lambda>obj.
     if fld obj ''type'' = Some (JText ''text'') then protocol_text_part value path
     else if fld obj ''type'' = Some (JText ''json'')
     then checks
       [required_keys perr obj [''type'', ''value''] path,
        allowed_keys perr obj [''type'', ''value''] path,
        validateCredentialsAbsent (fld obj ''value'') (dot path ''value'')]
     else Inl (perr (dot path ''type'') ''must equal \"text\" or \"json\"''))"

definition protocol_refail :: "js_string \<Rightarrow> validation_error + 'a \<Rightarrow> protocol_error + 'a" where
  "protocol_refail path m = (case m of Inl e \<Rightarrow> Inl (ProtocolValidationError path (error_message e)) | Inr x \<Rightarrow> Inr x)"

definition protocol_result_citations :: "url_parser \<Rightarrow> js_object \<Rightarrow> js_string \<Rightarrow> protocol_error + unit" where
  "protocol_result_citations parse_url obj path =
     (let value = coalesce (fld obj ''citation_records'') JNull in
      bindE (protocol_refail (dot path ''citation_records'') (normalizeCitationRecords parse_url value)) (\<lambda>records. checks
       [throw_if (rs_citations records = [])
          (perr (dot (dot path ''citation_records'') ''citations'') ''must contain at least one citation link''),
        throw_if (\<not> jsonValuesEqual (citation_records_json records) value)
          (perr (dot path ''citation_records'') ''must already be normalized and identity-deduplicated''),
        throw_if (list_ex (\<lambda>c. case ct_target c of
              ToolResultCitationTarget t \<Rightarrow> Some (JStr t) \<noteq> fld obj ''tool_call_id''
            | _ \<Rightarrow> True) (rs_citations records))
          (perr (dot (dot path ''citation_records'') ''citations'') ''must contain only links to this tool result'')]))"

definition is_boolean_value :: "json option \<Rightarrow> bool" where
  "is_boolean_value value = (case value of Some (JBool _) \<Rightarrow> True | _ \<Rightarrow> False)"

definition validateToolResult :: "url_parser \<Rightarrow> json option \<Rightarrow> js_string \<Rightarrow> protocol_error + js_object" where
  "validateToolResult parse_url value path =
     bindE (protocol_record value path) (\<lambda>obj.
     bindE (checks
       [required_keys perr obj [''tool_call_id'', ''name'', ''content'', ''is_error''] path,
        allowed_keys perr obj [''tool_call_id'', ''name'', ''content'', ''is_error'', ''citation_records''] path,
        id_of obj ''tool_call_id'' path,
        id_of obj ''name'' path,
        (case fld obj ''content'' of
           Some (JArr parts) \<Rightarrow>
             if parts = [] then Inl (perr (dot path ''content'') ''must be a non-empty array'')
             else forE (\<lambda>x i. protocol_result_part (Some x) (index_path (dot path ''content'') i)) 0 parts
         | _ \<Rightarrow> Inl (perr (dot path ''content'') ''must be a non-empty array'')),
        throw_if (\<not> is_boolean_value (fld obj ''is_error'')) (perr (dot path ''is_error'') ''must be a boolean''),
        when_own obj ''citation_records'' (protocol_result_citations parse_url obj path)]) (\<lambda>_.
     Inr obj))"

section \<open>Requests\<close>

definition validateGeneration :: "json option \<Rightarrow> js_string \<Rightarrow> protocol_error + unit" where
  "validateGeneration value path =
     bindE (protocol_record value path) (\<lambda>obj. checks
       [required_keys perr obj [''max_output_tokens'', ''temperature''] path,
        allowed_keys perr obj [''max_output_tokens'', ''temperature''] path,
        throw_if (\<not> integer_among (\<lambda>n. 0 < n) (fld obj ''max_output_tokens''))
          (perr (dot path ''max_output_tokens'') ''must be a positive integer''),
        throw_if (case fld obj ''temperature'' of
            Some (JNum (Finite q)) \<Rightarrow> q < 0 \<or> 2 < q | Some (JNum NegZero) \<Rightarrow> False | _ \<Rightarrow> True)
          (perr (dot path ''temperature'') ''must be a finite number from 0 through 2'')])"

definition validateCorrelationHint :: "json option \<Rightarrow> js_string \<Rightarrow> protocol_error + unit" where
  "validateCorrelationHint value path =
     bindE (protocol_record value path) (\<lambda>obj. checks
       [required_keys perr obj [''external_id'', ''source'', ''trust''] path,
        allowed_keys perr obj [''external_id'', ''source'', ''trust''] path,
        id_of obj ''external_id'' path,
        must_be obj ''source'' path ''client'',
        must_be obj ''trust'' path ''untrusted_correlation_hint''])"

definition validateCorrelationHints :: "json option \<Rightarrow> js_string \<Rightarrow> protocol_error + unit" where
  "validateCorrelationHints value path =
     bindE (protocol_record value path) (\<lambda>obj.
     bindE (allowed_keys perr obj [''known_user'', ''session'', ''automation''] path) (\<lambda>_.
     checks (map (\<lambda>key. when_own obj key (validateCorrelationHint (fld obj key) (dot path key)))
       [''known_user'', ''session'', ''automation''])))"

definition required_array :: "json option \<Rightarrow> js_string \<Rightarrow> protocol_error + json list" where
  "required_array value path = (case value of Some (JArr xs) \<Rightarrow> Inr xs | _ \<Rightarrow> Inl (perr path ''must be an array''))"

fun request_messages :: "MessageAttachmentCounts \<Rightarrow> nat \<Rightarrow> json list \<Rightarrow> protocol_error + MessageAttachmentCounts" where
  "request_messages before i [] = Inr before"
| "request_messages before i (message # messages) =
     bindE (validateMessage (Some message) (index_path (js ''$request.messages'') i)) (\<lambda>counts.
     request_messages \<lparr>imageCount = imageCount before + imageCount counts,
       documentCount = documentCount before + documentCount counts\<rparr> (Suc i) messages)"

text \<open>The names that the tools declare, and then the results that refer to them.\<close>

fun request_tools :: "json list \<Rightarrow> nat \<Rightarrow> json list \<Rightarrow> protocol_error + json list" where
  "request_tools toolNames i [] = Inr toolNames"
| "request_tools toolNames i (tool # tools) =
     bindE (validateToolDefinition (Some tool) (index_path (js ''$request.tools'') i)) (\<lambda>obj.
     let name = coalesce (fld obj ''name'') JNull in
     if name \<in> set toolNames then Inl (perr (dot (index_path (js ''$request.tools'') i) ''name'') ''must be unique'')
     else request_tools (toolNames @ [name]) (Suc i) tools)"

fun request_results :: "url_parser \<Rightarrow> json list \<Rightarrow> json list \<Rightarrow> nat \<Rightarrow> json list \<Rightarrow> protocol_error + unit" where
  "request_results parse_url toolNames callIds i [] = Inr ()"
| "request_results parse_url toolNames callIds i (result # results) =
     (let path = index_path (js ''$request.tool_results'') i in
      bindE (validateToolResult parse_url (Some result) path) (\<lambda>obj.
      let call = coalesce (fld obj ''tool_call_id'') JNull in
      if coalesce (fld obj ''name'') JNull \<notin> set toolNames then Inl (perr (dot path ''name'') ''must match a declared tool'')
      else if call \<in> set callIds then Inl (perr (dot path ''tool_call_id'') ''must be unique'')
      else request_results parse_url toolNames (call # callIds) (Suc i) results))"

definition REQUEST_FIELDS :: "string list" where
  "REQUEST_FIELDS = [''protocol_version'', ''continuation_of'', ''messages'', ''tools'', ''tool_results'', ''generation'',
     ''correlation_hints'']"

definition parseChatRequest :: "url_parser \<Rightarrow> (rat \<Rightarrow> js_string) \<Rightarrow> json \<Rightarrow> protocol_error + js_object" where
  "parseChatRequest parse_url R value =
     (let path = js ''$request'' in
      bindE (protocol_record (Some value) path) (\<lambda>obj.
      bindE (checks
        [required_keys perr obj REQUEST_FIELDS path,
         allowed_keys perr obj (REQUEST_FIELDS @ [''metadata'']) path,
         must_be obj ''protocol_version'' path AI_RUNTIME_PROTOCOL_VERSION,
         (if fld obj ''continuation_of'' = Some JNull then Inr () else id_of obj ''continuation_of'' path)]) (\<lambda>_.
      bindE (case fld obj ''messages'' of
          Some (JArr messages) \<Rightarrow>
            if messages = [] then Inl (perr (dot path ''messages'') ''must be a non-empty array'')
            else request_messages \<lparr>imageCount = 0, documentCount = 0\<rparr> 0 messages
        | _ \<Rightarrow> Inl (perr (dot path ''messages'') ''must be a non-empty array'')) (\<lambda>counts.
      bindE (checks
        [at_most_parts (imageCount counts) (pl_imageAttachmentsPerRequest AI_RUNTIME_PROTOCOL_LIMITS)
           (dot path ''messages'') '' image parts across the request'',
         at_most_parts (documentCount counts) (pl_documentAttachmentsPerRequest AI_RUNTIME_PROTOCOL_LIMITS)
           (dot path ''messages'') '' document parts across the request'']) (\<lambda>_.
      bindE (required_array (fld obj ''tools'') (dot path ''tools'')) (\<lambda>tools.
      bindE (request_tools [] 0 tools) (\<lambda>toolNames.
      bindE (required_array (fld obj ''tool_results'') (dot path ''tool_results'')) (\<lambda>results.
      bindE (request_results parse_url toolNames [] 0 results) (\<lambda>_.
      bindE (checks
        [throw_if (results = [] \<and> fld obj ''continuation_of'' \<noteq> Some JNull)
           (perr (dot path ''continuation_of'') ''must be null when tool_results is empty''),
         throw_if (results \<noteq> [] \<and> fld obj ''continuation_of'' = Some JNull)
           (perr (dot path ''continuation_of'') ''must identify the preceding request when tool_results is non-empty''),
         validateGeneration (fld obj ''generation'') (dot path ''generation''),
         validateCorrelationHints (fld obj ''correlation_hints'') (dot path ''correlation_hints''),
         when_own obj ''metadata'' (validateProtocolMetadata R (fld obj ''metadata'') (dot path ''metadata''))]) (\<lambda>_.
      Inr obj))))))))))"

definition isChatRequest :: "url_parser \<Rightarrow> (rat \<Rightarrow> js_string) \<Rightarrow> json \<Rightarrow> bool" where
  "isChatRequest parse_url R value \<longleftrightarrow> okE (parseChatRequest parse_url R value)"

end
