(* ===== verification/ProtocolStream.thy ===== *)
theory ProtocolStream
  imports Protocol "HOL-Library.AList"
begin

text \<open>
  \<^verbatim>\<open>src/protocol.ts\<close>: the events that a response streams, the parser of one event and the parser
  of a whole stream. A parsed event carries what the checks of the stream read.
\<close>

section \<open>Events\<close>

record Usage =
  us_input_tokens :: int
  us_output_tokens :: int
  us_total_tokens :: int

record CitationBatch =
  cb_message_id :: js_string
  cb_sources :: "json list"
  cb_records :: CitationRecordSet

datatype (plugins only: code size) StreamEventBody =
    ResponseStarted
  | ResponseTextDelta js_string
  | ResponseToolCall js_string js_string js_object
  | ResponseCitationBatch CitationBatch
  | ResponseUsage Usage
  | ResponseCompleted string
  | ResponseCancelled string
  | ResponseError

record StreamEvent =
  sv_request_id :: js_string
  sv_trace_id :: js_string
  sv_sequence :: int
  sv_body :: StreamEventBody

definition AI_RUNTIME_STREAM_EVENT_TYPES :: "string list" where
  "AI_RUNTIME_STREAM_EVENT_TYPES = [''response.started'', ''response.text.delta'', ''response.tool_call'', ''response.citation_batch'',
     ''response.usage'', ''response.completed'', ''response.cancelled'', ''response.error'']"

definition terminal_body :: "StreamEventBody \<Rightarrow> bool" where
  "terminal_body b = (case b of ResponseCompleted _ \<Rightarrow> True | ResponseCancelled _ \<Rightarrow> True | ResponseError \<Rightarrow> True | _ \<Rightarrow> False)"

section \<open>Parsing one event\<close>

definition ENVELOPE_FIELDS :: "string list" where
  "ENVELOPE_FIELDS = [''type'', ''protocol_version'', ''request_id'', ''trace_id'', ''sequence'']"

definition validateEnvelope :: "(rat \<Rightarrow> js_string) \<Rightarrow> js_object \<Rightarrow> js_string \<Rightarrow> string list \<Rightarrow> protocol_error + unit" where
  "validateEnvelope R obj path allowed = checks
     [required_keys perr obj ENVELOPE_FIELDS path,
      allowed_keys perr obj (ENVELOPE_FIELDS @ [''metadata''] @ allowed) path,
      must_be obj ''protocol_version'' path AI_RUNTIME_PROTOCOL_VERSION,
      id_of obj ''request_id'' path,
      id_of obj ''trace_id'' path,
      throw_if (\<not> integer_among (\<lambda>n. 0 \<le> n) (fld obj ''sequence'')) (perr (dot path ''sequence'') ''must be a non-negative integer''),
      when_own obj ''metadata'' (validateProtocolMetadata R (fld obj ''metadata'') (dot path ''metadata''))]"

definition validateAttributionMember :: "json option \<Rightarrow> js_string \<Rightarrow> bool \<Rightarrow> protocol_error + unit" where
  "validateAttributionMember value path may_be_null =
     bindE (protocol_record value path) (\<lambda>obj. checks
       [required_keys perr obj [''id'', ''source'', ''trust''] path,
        allowed_keys perr obj [''id'', ''source'', ''trust''] path,
        (if may_be_null \<and> fld obj ''id'' = Some JNull then Inr () else id_of obj ''id'' path),
        must_be obj ''source'' path ''server_derived'',
        must_be obj ''trust'' path ''authoritative''])"

definition ATTRIBUTION_MEMBERS :: "(string \<times> bool) list" where
  "ATTRIBUTION_MEMBERS = [(''organization'', False), (''project'', False), (''service_environment'', False),
     (''known_user'', True), (''session'', True), (''automation'', True)]"

definition validateAttribution :: "json option \<Rightarrow> js_string \<Rightarrow> protocol_error + unit" where
  "validateAttribution value path =
     bindE (protocol_record value path) (\<lambda>obj. checks
       ([required_keys perr obj (map fst ATTRIBUTION_MEMBERS) path,
         allowed_keys perr obj (map fst ATTRIBUTION_MEMBERS) path] @
        map (\<lambda>(key, may_be_null). validateAttributionMember (fld obj key) (dot path key) may_be_null) ATTRIBUTION_MEMBERS))"

definition USAGE_FIELDS :: "string list" where
  "USAGE_FIELDS = [''input_tokens'', ''output_tokens'', ''total_tokens'']"

definition token_count :: "js_object \<Rightarrow> string \<Rightarrow> int" where
  "token_count obj key = coalesce (integer_of (fld obj key)) 0"

definition validateUsage :: "json option \<Rightarrow> js_string \<Rightarrow> protocol_error + Usage" where
  "validateUsage value path =
     bindE (protocol_record value path) (\<lambda>obj.
     bindE (checks
       ([required_keys perr obj USAGE_FIELDS path, allowed_keys perr obj USAGE_FIELDS path] @
        map (\<lambda>key. throw_if (\<not> integer_among (\<lambda>n. 0 \<le> n) (fld obj key)) (perr (dot path key) ''must be a non-negative integer''))
          USAGE_FIELDS)) (\<lambda>_.
     Inr \<lparr>us_input_tokens = token_count obj ''input_tokens'', us_output_tokens = token_count obj ''output_tokens'',
       us_total_tokens = token_count obj ''total_tokens''\<rparr>))"

definition next_order :: "js_number \<Rightarrow> js_number \<Rightarrow> bool" where
  "next_order previous order = (case (safe_int previous, safe_int order) of (Some p, Some n) \<Rightarrow> n = p + 1 | _ \<Rightarrow> False)"

text \<open>The loop over the citations of a batch: each links to the output and follows the one before.\<close>

fun batch_citations :: "js_string \<Rightarrow> json \<Rightarrow> js_number option \<Rightarrow> nat \<Rightarrow> Citation list \<Rightarrow> protocol_error + unit" where
  "batch_citations path message previousOrder i [] = Inr ()"
| "batch_citations path message previousOrder i (c # cs) =
     (if (case ct_target c of AssistantMessageCitationTarget m \<Rightarrow> JStr m \<noteq> message | _ \<Rightarrow> True)
      then Inl (perr (dot (index_path (dot path ''citations'') i) ''target'') ''must match the assistant output target'')
      else if (case previousOrder of None \<Rightarrow> False | Some p \<Rightarrow> \<not> next_order p (ct_order c))
      then Inl (perr (dot (index_path (dot path ''citations'') i) ''order'') ''must be contiguous and strictly increasing within the batch'')
      else batch_citations path message (Some (ct_order c)) (Suc i) cs)"

definition validateCitationBatch :: "url_parser \<Rightarrow> (rat \<Rightarrow> js_string) \<Rightarrow> js_object \<Rightarrow> js_string \<Rightarrow> protocol_error + CitationBatch" where
  "validateCitationBatch parse_url R obj path =
     bindE (validateEnvelope R obj path [''target'', ''sources'', ''citations'']) (\<lambda>_.
     bindE (required_keys perr obj [''target'', ''sources'', ''citations''] path) (\<lambda>_.
     let sources = coalesce (fld obj ''sources'') JNull; citations = coalesce (fld obj ''citations'') JNull in
     bindE (protocol_refail path (normalizeCitationRecords parse_url (JObj [(js ''sources'', sources), (js ''citations'', citations)]))) (\<lambda>records.
     bindE (checks
       [throw_if (rs_citations records = []) (perr (dot path ''citations'') ''must contain at least one citation link''),
        throw_if (\<not> jsonValuesEqual (JArr (map citation_source_json (rs_sources records))) sources \<or>
            \<not> jsonValuesEqual (JArr (map citation_json (rs_citations records))) citations)
          (perr path ''citation records must already be normalized and identity-deduplicated'')]) (\<lambda>_.
     bindE (protocol_record (fld obj ''target'') (dot path ''target'')) (\<lambda>target.
     bindE (checks
       [required_keys perr target [''type'', ''message_id''] (dot path ''target''),
        allowed_keys perr target [''type'', ''message_id''] (dot path ''target''),
        must_be target ''type'' (dot path ''target'') ''assistant_message'',
        batch_citations path (coalesce (fld target ''message_id'') JNull) None 0 (rs_citations records)]) (\<lambda>_.
     Inr \<lparr>cb_message_id = (case fld target ''message_id'' of Some (JStr m) \<Rightarrow> m | _ \<Rightarrow> []),
       cb_sources = (case sources of JArr xs \<Rightarrow> xs | _ \<Rightarrow> []), cb_records = records\<rparr>))))))"

definition validatePublicError :: "json option \<Rightarrow> js_string \<Rightarrow> protocol_error + unit" where
  "validatePublicError value path =
     bindE (protocol_record value path) (\<lambda>obj. checks
       [required_keys perr obj [''category'', ''code'', ''message'', ''retryable''] path,
        allowed_keys perr obj [''category'', ''code'', ''message'', ''retryable''] path,
        voidE (enum_value perr (fld obj ''category'') AI_RUNTIME_ERROR_CATEGORIES (dot path ''category'')),
        voidE (enum_value perr (fld obj ''code'') AI_RUNTIME_ERROR_CODES (dot path ''code'')),
        voidE (protocol_string (fld obj ''message'') (dot path ''message'') False (pl_errorMessageLength AI_RUNTIME_PROTOCOL_LIMITS)),
        throw_if (\<not> is_boolean_value (fld obj ''retryable'')) (perr (dot path ''retryable'') ''must be a boolean'')])"

definition with_fields :: "(rat \<Rightarrow> js_string) \<Rightarrow> js_object \<Rightarrow> js_string \<Rightarrow> string list \<Rightarrow> protocol_error + unit" where
  "with_fields R obj path names = bindE (validateEnvelope R obj path names) (\<lambda>_. required_keys perr obj names path)"

definition identifier_in :: "js_object \<Rightarrow> string \<Rightarrow> js_string \<Rightarrow> protocol_error + js_string" where
  "identifier_in obj key path = protocol_identifier (fld obj key) (dot path key)"

definition started_body :: "(rat \<Rightarrow> js_string) \<Rightarrow> js_object \<Rightarrow> js_string \<Rightarrow> protocol_error + StreamEventBody" where
  "started_body R obj path =
     bindE (validateEnvelope R obj path [''attribution'']) (\<lambda>_.
     bindE (checks
       [throw_if (integer_of (fld obj ''sequence'') \<noteq> Some 0) (perr (dot path ''sequence'') ''must be 0 for response.started''),
        required_keys perr obj [''attribution''] path,
        validateAttribution (fld obj ''attribution'') (dot path ''attribution'')]) (\<lambda>_.
     Inr ResponseStarted))"

definition tool_call_body :: "(rat \<Rightarrow> js_string) \<Rightarrow> js_object \<Rightarrow> js_string \<Rightarrow> protocol_error + StreamEventBody" where
  "tool_call_body R obj path =
     bindE (with_fields R obj path [''tool_call_id'', ''name'', ''arguments'']) (\<lambda>_.
     bindE (identifier_in obj ''tool_call_id'' path) (\<lambda>call.
     bindE (identifier_in obj ''name'' path) (\<lambda>name.
     bindE (protocol_record (fld obj ''arguments'') (dot path ''arguments'')) (\<lambda>arguments.
     bindE (validateCredentialsAbsent (fld obj ''arguments'') (dot path ''arguments'')) (\<lambda>_.
     Inr (ResponseToolCall call name arguments))))))"

text \<open>The \<^verbatim>\<open>switch\<close> over the type.\<close>

definition event_body :: "url_parser \<Rightarrow> (rat \<Rightarrow> js_string) \<Rightarrow> string \<Rightarrow> js_object \<Rightarrow> js_string \<Rightarrow> protocol_error + StreamEventBody" where
  "event_body parse_url R type obj path =
     (if type = ''response.started'' then started_body R obj path
      else if type = ''response.text.delta'' then
        bindE (with_fields R obj path [''delta'']) (\<lambda>_.
        bindE (protocol_string (fld obj ''delta'') (dot path ''delta'') True (pl_textLength AI_RUNTIME_PROTOCOL_LIMITS)) (\<lambda>delta.
        Inr (ResponseTextDelta delta)))
      else if type = ''response.tool_call'' then tool_call_body R obj path
      else if type = ''response.citation_batch'' then
        bindE (validateCitationBatch parse_url R obj path) (\<lambda>batch. Inr (ResponseCitationBatch batch))
      else if type = ''response.usage'' then
        bindE (with_fields R obj path [''usage'']) (\<lambda>_.
        bindE (validateUsage (fld obj ''usage'') (dot path ''usage'')) (\<lambda>usage. Inr (ResponseUsage usage)))
      else if type = ''response.completed'' then
        bindE (with_fields R obj path [''outcome'']) (\<lambda>_.
        bindE (enum_value perr (fld obj ''outcome'') AI_RUNTIME_COMPLETION_OUTCOMES (dot path ''outcome'')) (\<lambda>outcome.
        Inr (ResponseCompleted outcome)))
      else if type = ''response.cancelled'' then
        bindE (with_fields R obj path [''reason'']) (\<lambda>_.
        bindE (enum_value perr (fld obj ''reason'') AI_RUNTIME_CANCELLATION_REASONS (dot path ''reason'')) (\<lambda>reason.
        Inr (ResponseCancelled reason)))
      else
        bindE (with_fields R obj path [''error'']) (\<lambda>_.
        bindE (validatePublicError (fld obj ''error'') (dot path ''error'')) (\<lambda>_. Inr ResponseError)))"

definition text_of :: "json option \<Rightarrow> js_string" where
  "text_of value = (case value of Some (JStr s) \<Rightarrow> s | _ \<Rightarrow> [])"

definition parseStreamEvent :: "url_parser \<Rightarrow> (rat \<Rightarrow> js_string) \<Rightarrow> json \<Rightarrow> protocol_error + StreamEvent" where
  "parseStreamEvent parse_url R value =
     (let path = js ''$event'' in
      bindE (protocol_record (Some value) path) (\<lambda>obj.
      bindE (enum_value perr (fld obj ''type'') AI_RUNTIME_STREAM_EVENT_TYPES (dot path ''type'')) (\<lambda>type.
      bindE (event_body parse_url R type obj path) (\<lambda>body.
      bindE (throw_if (type \<noteq> ''response.started'' \<and> integer_of (fld obj ''sequence'') = Some 0)
        (perr (dot path ''sequence'') ''must be greater than 0 after response.started'')) (\<lambda>_.
      Inr \<lparr>sv_request_id = text_of (fld obj ''request_id''), sv_trace_id = text_of (fld obj ''trace_id''),
        sv_sequence = coalesce (integer_of (fld obj ''sequence'')) 0, sv_body = body\<rparr>)))))"

definition isStreamEvent :: "url_parser \<Rightarrow> (rat \<Rightarrow> js_string) \<Rightarrow> json \<Rightarrow> bool" where
  "isStreamEvent parse_url R value \<longleftrightarrow> okE (parseStreamEvent parse_url R value)"

section \<open>Parsing a stream\<close>

text \<open>The local variables of \<^verbatim>\<open>parseStreamEvents\<close>.\<close>

record stream_progress =
  sp_terminalCount :: nat
  sp_lastUsage :: "Usage option"
  sp_toolCallCount :: nat
  sp_toolCallIds :: "js_string list"
  sp_citationTargetId :: "js_string option"
  sp_nextCitationOrder :: int
  sp_citationIds :: "js_string list"
  sp_citationSources :: "(js_string \<times> js_string) list"

definition no_progress :: stream_progress where
  "no_progress = \<lparr>sp_terminalCount = 0, sp_lastUsage = None, sp_toolCallCount = 0, sp_toolCallIds = [], sp_citationTargetId = None,
     sp_nextCitationOrder = 0, sp_citationIds = [], sp_citationSources = []\<rparr>"

definition events_path :: "nat \<Rightarrow> js_string" where
  "events_path i = index_path (js ''$events'') i"

definition usage_decreases :: "Usage \<Rightarrow> Usage \<Rightarrow> bool" where
  "usage_decreases new old \<longleftrightarrow> us_input_tokens new < us_input_tokens old \<or> us_output_tokens new < us_output_tokens old \<or>
     us_total_tokens new < us_total_tokens old"

text \<open>The sources of a batch, as values and as normalised records; then its citations.\<close>

fun stream_sources :: "(rat \<Rightarrow> js_string) \<Rightarrow> js_string \<Rightarrow> nat \<Rightarrow> (json \<times> CitationSource) list \<Rightarrow> (js_string \<times> js_string) list \<Rightarrow>
    protocol_error + (js_string \<times> js_string) list" where
  "stream_sources R path i [] known = Inr known"
| "stream_sources R path i ((raw, source) # sources) known =
     (let fingerprint = stringify R raw in
      if map_of known (cs_source_id source) \<notin> {None, Some fingerprint}
      then Inl (perr (dot (index_path (dot path ''sources'') i) ''source_id'') ''conflicts with an earlier source identity'')
      else stream_sources R path (Suc i) sources (AList.update (cs_source_id source) fingerprint known))"

fun stream_citations :: "js_string \<Rightarrow> nat \<Rightarrow> Citation list \<Rightarrow> int \<Rightarrow> js_string list \<Rightarrow> protocol_error + int \<times> js_string list" where
  "stream_citations path i [] nextOrder ids = Inr (nextOrder, ids)"
| "stream_citations path i (c # cs) nextOrder ids =
     (if safe_int (ct_order c) \<noteq> Some nextOrder
      then Inl (perr (dot (index_path (dot path ''citations'') i) ''order'') (''must equal '' @ int_digits nextOrder))
      else if ct_citation_id c \<in> set ids
      then Inl (perr (dot (index_path (dot path ''citations'') i) ''citation_id'') ''must be unique within the stream'')
      else stream_citations path (Suc i) cs (nextOrder + 1) (ct_citation_id c # ids))"

definition stream_batch :: "(rat \<Rightarrow> js_string) \<Rightarrow> js_string \<Rightarrow> CitationBatch \<Rightarrow> stream_progress \<Rightarrow> protocol_error + stream_progress" where
  "stream_batch R path batch p =
     (if sp_citationTargetId p \<notin> {None, Some (cb_message_id batch)}
      then Inl (perr (dot (dot path ''target'') ''message_id'') ''must match the stream assistant output target'')
      else
        bindE (stream_sources R path 0 (zip (cb_sources batch) (rs_sources (cb_records batch))) (sp_citationSources p)) (\<lambda>sources.
        bindE (stream_citations path 0 (rs_citations (cb_records batch)) (sp_nextCitationOrder p) (sp_citationIds p)) (\<lambda>(nextOrder, ids).
        Inr (p\<lparr>sp_citationTargetId := Some (cb_message_id batch), sp_citationSources := sources,
          sp_nextCitationOrder := nextOrder, sp_citationIds := ids\<rparr>))))"

definition event_progress :: "(rat \<Rightarrow> js_string) \<Rightarrow> js_string \<Rightarrow> StreamEventBody \<Rightarrow> stream_progress \<Rightarrow> protocol_error + stream_progress" where
  "event_progress R path body p = (case body of
     ResponseUsage usage \<Rightarrow>
       if (case sp_lastUsage p of None \<Rightarrow> False | Some old \<Rightarrow> usage_decreases usage old)
       then Inl (perr (dot path ''usage'') ''cumulative usage must not decrease'')
       else Inr (p\<lparr>sp_lastUsage := Some usage\<rparr>)
   | ResponseToolCall call _ _ \<Rightarrow>
       if call \<in> set (sp_toolCallIds p) then Inl (perr (dot path ''tool_call_id'') ''must be unique within the stream'')
       else Inr (p\<lparr>sp_toolCallCount := sp_toolCallCount p + 1, sp_toolCallIds := call # sp_toolCallIds p\<rparr>)
   | ResponseCitationBatch batch \<Rightarrow> stream_batch R path batch p
   | _ \<Rightarrow> Inr p)"

definition stream_event :: "(rat \<Rightarrow> js_string) \<Rightarrow> StreamEvent \<Rightarrow> nat \<Rightarrow> nat \<Rightarrow> StreamEvent \<Rightarrow> stream_progress \<Rightarrow>
    protocol_error + stream_progress" where
  "stream_event R first n index event p =
     (let path = events_path index in
      if sv_request_id event \<noteq> sv_request_id first then Inl (perr (dot path ''request_id'') ''must match the stream request_id'')
      else if sv_trace_id event \<noteq> sv_trace_id first then Inl (perr (dot path ''trace_id'') ''must match the stream trace_id'')
      else if sv_sequence event \<noteq> int index then Inl (perr (dot path ''sequence'') (''must equal '' @ nat_digits index))
      else if 0 < index \<and> sv_body event = ResponseStarted
      then Inl (perr (dot path ''type'') ''response.started may appear only once'')
      else if terminal_body (sv_body event) \<and> index \<noteq> n - 1 then Inl (perr path ''terminal event must be last'')
      else event_progress R path (sv_body event)
        (if terminal_body (sv_body event) then p\<lparr>sp_terminalCount := sp_terminalCount p + 1\<rparr> else p))"

fun stream_events :: "(rat \<Rightarrow> js_string) \<Rightarrow> StreamEvent \<Rightarrow> nat \<Rightarrow> nat \<Rightarrow> StreamEvent list \<Rightarrow> stream_progress \<Rightarrow>
    protocol_error + stream_progress" where
  "stream_events R first n index [] p = Inr p"
| "stream_events R first n index (event # events) p =
     bindE (stream_event R first n index event p) (stream_events R first n (Suc index) events)"

definition check_stream :: "(rat \<Rightarrow> js_string) \<Rightarrow> StreamEvent list \<Rightarrow> protocol_error + unit" where
  "check_stream R events = (case events of
     [] \<Rightarrow> Inl (perr (js ''$events'') ''must be a non-empty array'')
   | first # _ \<Rightarrow>
       if sv_body first \<noteq> ResponseStarted then Inl (perr (dot (events_path 0) ''type'') ''must be response.started'')
       else bindE (stream_events R first (length events) 0 events no_progress) (\<lambda>p. checks
         [throw_if (sp_terminalCount p \<noteq> 1) (perr (js ''$events'') ''must contain exactly one terminal event''),
          throw_if (sv_body (last events) = ResponseCompleted ''tool_calls'' \<and> sp_toolCallCount p = 0)
            (perr (dot (events_path (length events - 1)) ''outcome'') ''tool_calls requires at least one tool call event'')]))"

definition parseStreamEvents :: "url_parser \<Rightarrow> (rat \<Rightarrow> js_string) \<Rightarrow> json \<Rightarrow> protocol_error + StreamEvent list" where
  "parseStreamEvents parse_url R value = (case value of
     JArr (x # xs) \<Rightarrow>
       bindE (mapE (parseStreamEvent parse_url R) (x # xs)) (\<lambda>events.
       bindE (check_stream R events) (\<lambda>_. Inr events))
   | _ \<Rightarrow> Inl (perr (js ''$events'') ''must be a non-empty array''))"

end
