(* ===== verification/StreamProperties.thy ===== *)
theory StreamProperties
  imports ProtocolStream
begin

text \<open>
  What the parser of a stream accepts, stated without its running variables: the order of the
  events, the cumulative usage, the identities of tool calls and the numbering of citations.
\<close>

section \<open>What a stream contains\<close>

definition usages :: "StreamEvent list \<Rightarrow> Usage list" where
  "usages es = concat (map (\<lambda>e. case sv_body e of ResponseUsage u \<Rightarrow> [u] | _ \<Rightarrow> []) es)"

definition tool_call_ids :: "StreamEvent list \<Rightarrow> js_string list" where
  "tool_call_ids es = concat (map (\<lambda>e. case sv_body e of ResponseToolCall call _ _ \<Rightarrow> [call] | _ \<Rightarrow> []) es)"

definition batches :: "StreamEvent list \<Rightarrow> CitationBatch list" where
  "batches es = concat (map (\<lambda>e. case sv_body e of ResponseCitationBatch b \<Rightarrow> [b] | _ \<Rightarrow> []) es)"

definition stream_cited :: "StreamEvent list \<Rightarrow> Citation list" where
  "stream_cited es = concat (map (\<lambda>b. rs_citations (cb_records b)) (batches es))"

text \<open>The sources with their JSON text.\<close>

definition batch_texts :: "(rat \<Rightarrow> js_string) \<Rightarrow> CitationBatch \<Rightarrow> (js_string \<times> js_string) list" where
  "batch_texts R b = map (\<lambda>(raw, s). (cs_source_id s, stringify R raw)) (zip (cb_sources b) (rs_sources (cb_records b)))"

definition source_texts :: "(rat \<Rightarrow> js_string) \<Rightarrow> StreamEvent list \<Rightarrow> (js_string \<times> js_string) list" where
  "source_texts R es = concat (map (batch_texts R) (batches es))"

definition one_text_each :: "(js_string \<times> js_string) list \<Rightarrow> bool" where
  "one_text_each ts \<longleftrightarrow> (\<forall>(k, v) \<in> set ts. \<forall>(k', v') \<in> set ts. k = k' \<longrightarrow> v = v')"

lemma stream_contents_snoc:
  "usages (es @ [e]) = usages es @ (case sv_body e of ResponseUsage u \<Rightarrow> [u] | _ \<Rightarrow> [])"
  "tool_call_ids (es @ [e]) = tool_call_ids es @ (case sv_body e of ResponseToolCall call _ _ \<Rightarrow> [call] | _ \<Rightarrow> [])"
  "batches (es @ [e]) = batches es @ (case sv_body e of ResponseCitationBatch b \<Rightarrow> [b] | _ \<Rightarrow> [])"
  "stream_cited (es @ [e]) = stream_cited es @ (case sv_body e of ResponseCitationBatch b \<Rightarrow> rs_citations (cb_records b) | _ \<Rightarrow> [])"
  "source_texts R (es @ [e]) = source_texts R es @ (case sv_body e of ResponseCitationBatch b \<Rightarrow> batch_texts R b | _ \<Rightarrow> [])"
  by (simp_all add: usages_def tool_call_ids_def batches_def stream_cited_def source_texts_def split: StreamEventBody.split)

section \<open>The specification\<close>

text \<open>Event \<open>i\<close> of a stream of \<open>n\<close> events.\<close>

definition in_place :: "StreamEvent \<Rightarrow> nat \<Rightarrow> nat \<Rightarrow> StreamEvent \<Rightarrow> bool" where
  "in_place first n i e \<longleftrightarrow> sv_request_id e = sv_request_id first \<and> sv_trace_id e = sv_trace_id first \<and>
     sv_sequence e = int i \<and> (0 < i \<longrightarrow> sv_body e \<noteq> ResponseStarted) \<and> (terminal_body (sv_body e) \<longrightarrow> i = n - 1)"

definition usage_grows :: "Usage \<Rightarrow> Usage \<Rightarrow> bool" where
  "usage_grows a b \<longleftrightarrow> us_input_tokens a \<le> us_input_tokens b \<and> us_output_tokens a \<le> us_output_tokens b \<and>
     us_total_tokens a \<le> us_total_tokens b"

definition contents_ok :: "(rat \<Rightarrow> js_string) \<Rightarrow> StreamEvent list \<Rightarrow> bool" where
  "contents_ok R es \<longleftrightarrow> sorted_wrt usage_grows (usages es) \<and> distinct (tool_call_ids es) \<and>
     (\<forall>b \<in> set (batches es). cb_message_id b = cb_message_id (hd (batches es))) \<and>
     map (\<lambda>c. safe_int (ct_order c)) (stream_cited es) = map (\<lambda>i. Some (int i)) [0..<length (stream_cited es)] \<and>
     distinct (map ct_citation_id (stream_cited es)) \<and> one_text_each (source_texts R es)"

definition stream_ok :: "(rat \<Rightarrow> js_string) \<Rightarrow> StreamEvent list \<Rightarrow> bool" where
  "stream_ok R es \<longleftrightarrow> es \<noteq> [] \<and> sv_body (hd es) = ResponseStarted \<and> terminal_body (sv_body (last es)) \<and>
     (\<forall>i < length es. in_place (hd es) (length es) i (es ! i)) \<and> contents_ok R es \<and>
     (sv_body (last es) = ResponseCompleted ''tool_calls'' \<longrightarrow> tool_call_ids es \<noteq> [])"

section \<open>The running variables\<close>

definition known_texts :: "(js_string \<times> js_string) list \<Rightarrow> (js_string \<times> js_string) list \<Rightarrow> bool" where
  "known_texts known ts \<longleftrightarrow> (\<forall>k v. map_of known k = Some v \<longleftrightarrow> (k, v) \<in> set ts)"

definition progress_of :: "(rat \<Rightarrow> js_string) \<Rightarrow> StreamEvent list \<Rightarrow> stream_progress \<Rightarrow> bool" where
  "progress_of R es p \<longleftrightarrow>
     sp_terminalCount p = length (filter (\<lambda>e. terminal_body (sv_body e)) es) \<and>
     sp_lastUsage p = (if usages es = [] then None else Some (last (usages es))) \<and>
     sp_toolCallCount p = length (tool_call_ids es) \<and> set (sp_toolCallIds p) = set (tool_call_ids es) \<and>
     sp_citationTargetId p = (if batches es = [] then None else Some (cb_message_id (hd (batches es)))) \<and>
     sp_nextCitationOrder p = int (length (stream_cited es)) \<and>
     set (sp_citationIds p) = set (map ct_citation_id (stream_cited es)) \<and>
     known_texts (sp_citationSources p) (source_texts R es)"

lemma known_texts_once: "known_texts known ts \<Longrightarrow> one_text_each ts"
  unfolding known_texts_def one_text_each_def by (auto; metis option.inject)

lemma stream_sources_step:
  assumes "known_texts known ts"
  shows "(case stream_sources R path i sources known of
      Inl _ \<Rightarrow> \<not> one_text_each (ts @ map (\<lambda>(raw, s). (cs_source_id s, stringify R raw)) sources)
    | Inr known' \<Rightarrow> known_texts known' (ts @ map (\<lambda>(raw, s). (cs_source_id s, stringify R raw)) sources))"
  using assms
proof (induction sources arbitrary: known ts i)
  case (Cons x sources)
  obtain raw s where x: "x = (raw, s)" by (cases x)
  let ?k = "cs_source_id s" and ?v = "stringify R raw"
  show ?case
  proof (cases "map_of known ?k \<in> {None, Some ?v}")
    case True
    have "known_texts (AList.update ?k ?v known) (ts @ [(?k, ?v)])"
      using Cons.prems True unfolding known_texts_def update_conv' by (auto; metis option.distinct(1) option.inject)
    from Cons.IH [OF this, of "Suc i"] True show ?thesis by (auto simp: x Let_def split: sum.splits)
  next
    case False
    then obtain w where w: "map_of known ?k = Some w" "w \<noteq> ?v" by auto
    with Cons.prems have "(?k, w) \<in> set ts" by (simp add: known_texts_def)
    with w(2) have "\<not> one_text_each (ts @ map (\<lambda>(raw, s). (cs_source_id s, stringify R raw)) (x # sources))"
      by (force simp: one_text_each_def x)
    with False show ?thesis by (auto simp: x Let_def)
  qed
qed simp

lemma stream_citations_step:
  "stream_citations path i cs n ids = Inr r \<longleftrightarrow>
     map (\<lambda>c. safe_int (ct_order c)) cs = map (\<lambda>j. Some (n + int j)) [0..<length cs] \<and>
     distinct (map ct_citation_id cs) \<and> set (map ct_citation_id cs) \<inter> set ids = {} \<and>
     r = (n + int (length cs), rev (map ct_citation_id cs) @ ids)"
proof (induction cs arbitrary: i n ids)
  case Nil
  then show ?case by auto
next
  case (Cons c cs)
  have shift: "map (\<lambda>j. Some (n + int j)) [0..<length (c # cs)] = Some n # map (\<lambda>j. Some (n + 1 + int j)) [0..<length cs]"
    unfolding length_Cons map_upt_Suc by (simp add: add.assoc)
  show ?case
    unfolding shift using Cons.IH [of "Suc i" "n + 1" "ct_citation_id c # ids"] by (auto simp: add.assoc)
qed

section \<open>Event by event\<close>

lemma usage_grows_iff: "usage_grows a b \<longleftrightarrow> \<not> usage_decreases b a"
  by (auto simp: usage_grows_def usage_decreases_def)

lemma usages_grow_snoc:
  "sorted_wrt usage_grows (us @ [u]) \<longleftrightarrow> sorted_wrt usage_grows us \<and> (us = [] \<or> usage_grows (last us) u)"
proof (cases us rule: rev_cases)
  case (snoc vs v)
  have "usage_grows a u" if "usage_grows a v" "usage_grows v u" for a
    using that by (auto simp: usage_grows_def)
  with snoc show ?thesis by (auto simp: sorted_wrt_append)
qed simp

lemma numbered_snoc:
  "map f (cs @ ds) = map (\<lambda>i. Some (int i)) [0..<length (cs @ ds)] \<longleftrightarrow>
   map f cs = map (\<lambda>i. Some (int i)) [0..<length cs] \<and> map f ds = map (\<lambda>j. Some (int (length cs) + int j)) [0..<length ds]"
proof -
  have "[0..<length (cs @ ds)] = [0..<length cs] @ [length cs..<length cs + length ds]"
    unfolding length_append by (rule upt_add_eq_append) simp
  also have "[length cs..<length cs + length ds] = map (\<lambda>j. j + length cs) [0..<length ds]"
    using map_add_upt [of "length cs" "length ds"] by (simp add: add.commute)
  finally show ?thesis by (simp add: o_def add.commute)
qed

lemma same_target_snoc:
  "(\<forall>x \<in> set (bs @ [b]). f x = f (hd (bs @ [b]))) \<longleftrightarrow> (\<forall>x \<in> set bs. f x = f (hd bs)) \<and> (bs = [] \<or> f b = f (hd bs))"
proof (cases bs)
  case (Cons c cs)
  then show ?thesis unfolding set_append ball_Un by simp
qed simp

text \<open>A batch that follows a stream that is in order.\<close>

lemma batch_target:
  assumes "progress_of R es p"
  shows "sp_citationTargetId p \<in> {None, Some m} \<longleftrightarrow> batches es = [] \<or> m = cb_message_id (hd (batches es))"
  using assms by (auto simp: progress_of_def)

lemma batch_contents:
  assumes p: "progress_of R es p" and es: "contents_ok R es" and e: "sv_body e = ResponseCitationBatch b"
  shows "contents_ok R (es @ [e]) \<longleftrightarrow> sp_citationTargetId p \<in> {None, Some (cb_message_id b)} \<and>
    one_text_each (source_texts R es @ batch_texts R b) \<and>
    (\<exists>r. stream_citations path 0 (rs_citations (cb_records b)) (sp_nextCitationOrder p) (sp_citationIds p) = Inr r)"
proof -
  let ?cs = "rs_citations (cb_records b)"
  have order: "sp_nextCitationOrder p = int (length (stream_cited es))"
    and ids: "set (sp_citationIds p) = set (map ct_citation_id (stream_cited es))"
    using p by (simp_all add: progress_of_def)
  have distinct: "distinct (map ct_citation_id (stream_cited es @ ?cs)) \<longleftrightarrow> distinct (map ct_citation_id ?cs) \<and>
      set (map ct_citation_id ?cs) \<inter> set (sp_citationIds p) = {}"
    unfolding ids using es unfolding contents_ok_def by (simp del: set_map) blast
  have cited: "(\<exists>r. stream_citations path 0 ?cs (sp_nextCitationOrder p) (sp_citationIds p) = Inr r) \<longleftrightarrow>
      map (\<lambda>c. safe_int (ct_order c)) ?cs = map (\<lambda>j. Some (int (length (stream_cited es)) + int j)) [0..<length ?cs] \<and>
      distinct (map ct_citation_id (stream_cited es @ ?cs))"
    unfolding stream_citations_step distinct order by blast
  show ?thesis
    unfolding cited batch_target [OF p]
    unfolding contents_ok_def stream_contents_snoc e StreamEventBody.case append_Nil2 numbered_snoc same_target_snoc
    using es unfolding contents_ok_def by blast
qed

lemma stream_batch_step:
  assumes p: "progress_of R es p" and es: "contents_ok R es" and e: "sv_body e = ResponseCitationBatch b"
  shows "(case stream_batch R path b p of Inl _ \<Rightarrow> \<not> contents_ok R (es @ [e])
    | Inr q \<Rightarrow> contents_ok R (es @ [e]) \<and> progress_of R (es @ [e]) q)"
proof (cases "sp_citationTargetId p \<in> {None, Some (cb_message_id b)}")
  case False
  then show ?thesis using batch_contents [OF p es e] by (auto simp: stream_batch_def)
next
  case target: True
  let ?srcs = "zip (cb_sources b) (rs_sources (cb_records b))" and ?cs = "rs_citations (cb_records b)"
  have known: "known_texts (sp_citationSources p) (source_texts R es)" using p by (simp add: progress_of_def)
  show ?thesis
  proof (cases "stream_sources R path 0 ?srcs (sp_citationSources p)")
    case (Inl err)
    with stream_sources_step [OF known, where R = R and path = path and i = 0 and sources = ?srcs] have "\<not> one_text_each (source_texts R es @ batch_texts R b)"
      by (simp add: batch_texts_def)
    with batch_contents [OF p es e] have "\<not> contents_ok R (es @ [e])" by blast
    with target Inl show ?thesis by (auto simp: stream_batch_def)
  next
    case known': (Inr known')
    with stream_sources_step [OF known, where R = R and path = path and i = 0 and sources = ?srcs] have k: "known_texts known' (source_texts R es @ batch_texts R b)"
      by (simp add: batch_texts_def)
    note contents = batch_contents [OF p es e, where path = path]
    show ?thesis
    proof (cases "stream_citations path 0 ?cs (sp_nextCitationOrder p) (sp_citationIds p)")
      case (Inl err)
      with contents have "\<not> contents_ok R (es @ [e])" by simp
      with target Inl known' show ?thesis by (auto simp: stream_batch_def)
    next
      case (Inr r)
      then have r: "r = (sp_nextCitationOrder p + int (length ?cs), rev (map ct_citation_id ?cs) @ sp_citationIds p)"
        by (simp only: stream_citations_step)
      have "contents_ok R (es @ [e])" using contents target known_texts_once [OF k] Inr by blast
      moreover have "progress_of R (es @ [e]) (p\<lparr>sp_citationTargetId := Some (cb_message_id b), sp_citationSources := known',
          sp_nextCitationOrder := fst r, sp_citationIds := snd r\<rparr>)"
        using p k target batch_target [OF p, of "cb_message_id b"]
        unfolding progress_of_def stream_contents_snoc e StreamEventBody.case
        by (auto simp: e r terminal_body_def hd_append split: if_splits)
      ultimately show ?thesis using target Inr known' by (cases r) (auto simp: stream_batch_def)
    qed
  qed
qed

lemma one_text_each_append: "one_text_each (ts @ us) \<Longrightarrow> one_text_each ts"
  unfolding one_text_each_def set_append by blast

lemma one_target_append:
  "\<forall>x \<in> set (bs @ cs). cb_message_id x = cb_message_id (hd (bs @ cs)) \<Longrightarrow> \<forall>x \<in> set bs. cb_message_id x = cb_message_id (hd bs)"
  by (cases bs) auto

lemma contents_ok_prefix: "contents_ok R (es @ [e]) \<Longrightarrow> contents_ok R es"
  unfolding contents_ok_def stream_contents_snoc numbered_snoc
  unfolding sorted_wrt_append map_append distinct_append
  by (elim conjE, intro conjI) (assumption | erule one_text_each_append | erule one_target_append)+

text \<open>The variables after one more event.\<close>

lemma event_progress_step:
  assumes p: "progress_of R es p" and es: "contents_ok R es"
  shows "(case event_progress R path (sv_body e)
      (if terminal_body (sv_body e) then p\<lparr>sp_terminalCount := sp_terminalCount p + 1\<rparr> else p) of
      Inl _ \<Rightarrow> \<not> contents_ok R (es @ [e]) | Inr q \<Rightarrow> contents_ok R (es @ [e]) \<and> progress_of R (es @ [e]) q)"
proof -
  note snoc = stream_contents_snoc(1-4) [of es e] stream_contents_snoc(5) [of R es e]
  consider (usage) u where "sv_body e = ResponseUsage u" | (call) c n a where "sv_body e = ResponseToolCall c n a"
    | (batch) b where "sv_body e = ResponseCitationBatch b"
    | (other) "\<And>u. sv_body e \<noteq> ResponseUsage u" "\<And>c n a. sv_body e \<noteq> ResponseToolCall c n a"
        "\<And>b. sv_body e \<noteq> ResponseCitationBatch b"
    by blast
  then show ?thesis
  proof cases
    case usage
    have "contents_ok R (es @ [e]) \<longleftrightarrow> sp_lastUsage p = None \<or> usage_grows (the (sp_lastUsage p)) u"
      using p es unfolding contents_ok_def snoc by (auto simp: usage usages_grow_snoc progress_of_def)
    moreover have "progress_of R (es @ [e]) (p\<lparr>sp_lastUsage := Some u\<rparr>)"
      using p unfolding progress_of_def snoc by (simp add: usage terminal_body_def)
    ultimately show ?thesis
      by (auto simp: usage event_progress_def terminal_body_def usage_grows_iff split: option.split)
  next
    case call
    have "contents_ok R (es @ [e]) \<longleftrightarrow> c \<notin> set (sp_toolCallIds p)"
      using p es unfolding contents_ok_def snoc by (auto simp: call progress_of_def)
    moreover have "progress_of R (es @ [e]) (p\<lparr>sp_toolCallCount := sp_toolCallCount p + 1, sp_toolCallIds := c # sp_toolCallIds p\<rparr>)"
      using p unfolding progress_of_def snoc by (simp add: call terminal_body_def)
    ultimately show ?thesis by (simp add: call event_progress_def terminal_body_def)
  next
    case (batch b)
    with stream_batch_step [OF p es batch, where path = path] show ?thesis
      by (simp add: event_progress_def terminal_body_def)
  next
    case other
    then have none: "(case sv_body e of ResponseUsage u \<Rightarrow> [u] | _ \<Rightarrow> []) = []" "(case sv_body e of ResponseToolCall c _ _ \<Rightarrow> [c] | _ \<Rightarrow> []) = []"
      "(case sv_body e of ResponseCitationBatch b \<Rightarrow> [b] | _ \<Rightarrow> []) = []"
      "(case sv_body e of ResponseCitationBatch b \<Rightarrow> rs_citations (cb_records b) | _ \<Rightarrow> []) = []"
      "(case sv_body e of ResponseCitationBatch b \<Rightarrow> batch_texts R b | _ \<Rightarrow> []) = []"
      "event_progress R path (sv_body e) q = Inr q" for q
      by (cases "sv_body e"; simp add: event_progress_def)+
    have "contents_ok R (es @ [e])" using es unfolding contents_ok_def snoc none by simp
    moreover have "progress_of R (es @ [e]) (if terminal_body (sv_body e) then p\<lparr>sp_terminalCount := sp_terminalCount p + 1\<rparr> else p)"
      using p unfolding progress_of_def snoc none by simp
    ultimately show ?thesis unfolding none by simp
  qed
qed

lemma stream_events_snoc:
  "stream_events R first n i (es @ [e]) p = bindE (stream_events R first n i es p) (stream_event R first n (i + length es) e)"
proof (induction es arbitrary: i p)
  case (Cons x xs)
  then show ?case by (cases "stream_event R first n i x p") simp_all
next
  case Nil
  show ?case by (cases "stream_event R first n i e p") simp_all
qed

lemma stream_events_step:
  "(case stream_events R first n 0 es no_progress of
      Inl _ \<Rightarrow> \<not> ((\<forall>i < length es. in_place first n i (es ! i)) \<and> contents_ok R es)
    | Inr p \<Rightarrow> (\<forall>i < length es. in_place first n i (es ! i)) \<and> contents_ok R es \<and> progress_of R es p)"
proof (induction es rule: rev_induct)
  case Nil
  show ?case
    by (simp add: contents_ok_def progress_of_def no_progress_def usages_def tool_call_ids_def batches_def stream_cited_def
      source_texts_def one_text_each_def known_texts_def)
next
  case (snoc e es)
  have places: "(\<forall>i < length (es @ [e]). in_place first n i ((es @ [e]) ! i)) \<longleftrightarrow>
      (\<forall>i < length es. in_place first n i (es ! i)) \<and> in_place first n (length es) e"
    by (auto simp: nth_append less_Suc_eq)
  show ?case
  proof (cases "stream_events R first n 0 es no_progress")
    case (Inl err)
    with snoc contents_ok_prefix [of R es e] show ?thesis unfolding stream_events_snoc places by auto
  next
    case (Inr p)
    with snoc have es: "\<forall>i < length es. in_place first n i (es ! i)" "contents_ok R es" "progress_of R es p" by simp_all
    let ?path = "events_path (length es)"
    show ?thesis
    proof (cases "in_place first n (length es) e")
      case True
      then have "stream_event R first n (length es) e p = event_progress R ?path (sv_body e)
          (if terminal_body (sv_body e) then p\<lparr>sp_terminalCount := sp_terminalCount p + 1\<rparr> else p)"
        by (auto simp: stream_event_def in_place_def Let_def)
      then have "case stream_event R first n (length es) e p of Inl _ \<Rightarrow> \<not> contents_ok R (es @ [e])
          | Inr q \<Rightarrow> contents_ok R (es @ [e]) \<and> progress_of R (es @ [e]) q"
        by (simp only:) (rule event_progress_step [OF es(3,2)])
      with True es(1) Inr show ?thesis unfolding stream_events_snoc places by (simp split: sum.splits)
    next
      case False
      then have "\<exists>err. stream_event R first n (length es) e p = Inl err"
        by (auto simp: stream_event_def in_place_def Let_def)
      with False Inr show ?thesis unfolding stream_events_snoc places by auto
    qed
  qed
qed

section \<open>What is accepted\<close>

lemma terminal_last:
  assumes "es \<noteq> []" "\<forall>i < length es. in_place first (length es) i (es ! i)"
  shows "length (filter (\<lambda>e. terminal_body (sv_body e)) es) = (if terminal_body (sv_body (last es)) then 1 else 0)"
proof -
  from assms(1) obtain xs x where es: "es = xs @ [x]" by (metis append_butlast_last_id)
  have "\<not> terminal_body (sv_body e)" if e: "e \<in> set xs" for e
  proof -
    from e obtain i where "i < length xs" "xs ! i = e" by (auto simp: in_set_conv_nth)
    moreover from this have "in_place first (length es) i (es ! i)" using assms(2) by (simp add: es)
    ultimately show ?thesis by (auto simp: es nth_append in_place_def)
  qed
  then have "filter (\<lambda>e. terminal_body (sv_body e)) xs = []" by (simp add: filter_empty_conv)
  then show ?thesis by (simp add: es)
qed

lemma check_stream_iff: "okE (check_stream R es) \<longleftrightarrow> stream_ok R es"
proof (cases es)
  case (Cons first rest)
  show ?thesis
  proof (cases "stream_events R first (length es) 0 es no_progress")
    case (Inl err)
    with stream_events_step [where R = R and first = first and n = "length es" and es = es] Cons show ?thesis
      by (auto simp: check_stream_def stream_ok_def)
  next
    case (Inr p)
    with stream_events_step [where R = R and first = first and n = "length es" and es = es] Cons have p: "\<forall>i < length es. in_place (hd es) (length es) i (es ! i)"
      "contents_ok R es" "progress_of R es p" by auto
    from terminal_last [OF _ p(1)] Cons have "length (filter (\<lambda>e. terminal_body (sv_body e)) es) =
      (if terminal_body (sv_body (last es)) then 1 else 0)" by blast
    with p(3) have "sp_terminalCount p = 1 \<longleftrightarrow> terminal_body (sv_body (last es))" "sp_toolCallCount p = 0 \<longleftrightarrow> tool_call_ids es = []"
      by (simp_all add: progress_of_def)
    moreover have "okE (check_stream R es) \<longleftrightarrow> sv_body first = ResponseStarted \<and> sp_terminalCount p = 1 \<and>
        (sv_body (last es) = ResponseCompleted ''tool_calls'' \<longrightarrow> sp_toolCallCount p \<noteq> 0)"
      using Inr unfolding check_stream_def Cons by auto
    ultimately show ?thesis using p Cons by (auto simp: stream_ok_def)
  qed
qed (simp add: check_stream_def stream_ok_def)

lemma check_stream_Inr: "check_stream R es = Inr () \<longleftrightarrow> stream_ok R es"
  using check_stream_iff [of R es] by (simp add: okE_unit)

text \<open>
  C35: a stream is accepted exactly when it is a non-empty array of valid events, the first one
  and no other starts the response, every event has the identifiers of the first and its own
  index as sequence number, the last event and no other ends the response, the cumulative usage
  never decreases, tool calls have different identifiers, all citations belong to one output,
  are numbered from 0 without gaps over all batches and have different identifiers, a source is
  always described by the same text, and a response that ends with tool calls contains one.
\<close>

theorem parseStreamEvents_iff:
  "parseStreamEvents parse_url R v = Inr events \<longleftrightarrow>
   (\<exists>xs. v = JArr xs \<and> mapE (parseStreamEvent parse_url R) xs = Inr events \<and> stream_ok R events)"
proof (cases "\<exists>x xs. v = JArr (x # xs)")
  case True
  then show ?thesis
    by (auto simp: parseStreamEvents_def bindE_Inr_iff check_stream_Inr)
next
  case False
  then have "\<exists>e. parseStreamEvents parse_url R v = Inl e"
    by (cases v) (auto simp: parseStreamEvents_def split: list.split)
  moreover have "\<not> (\<exists>xs. v = JArr xs \<and> mapE (parseStreamEvent parse_url R) xs = Inr events \<and> stream_ok R events)"
  proof
    assume "\<exists>xs. v = JArr xs \<and> mapE (parseStreamEvent parse_url R) xs = Inr events \<and> stream_ok R events"
    with False have "mapE (parseStreamEvent parse_url R) [] = Inr events" "stream_ok R events" by (metis neq_Nil_conv)+
    then show False by (simp add: stream_ok_def)
  qed
  ultimately show ?thesis by auto
qed

section \<open>Examples\<close>

definition sample_stream :: "StreamEvent list" where
  "sample_stream = map (\<lambda>(i, body). \<lparr>sv_request_id = js ''r1'', sv_trace_id = js ''x1'', sv_sequence = i, sv_body = body\<rparr>)
     [(0, ResponseStarted), (1, ResponseTextDelta (js ''Hi'')), (2, ResponseToolCall (js ''call1'') (js ''search'') []),
      (3, ResponseUsage \<lparr>us_input_tokens = 5, us_output_tokens = 2, us_total_tokens = 7\<rparr>), (4, ResponseCompleted ''tool_calls'')]"

lemma sample_stream_ok: "stream_ok R sample_stream"
  by (auto simp: stream_ok_def sample_stream_def contents_ok_def usages_def tool_call_ids_def batches_def stream_cited_def
    source_texts_def one_text_each_def in_place_def terminal_body_def less_Suc_eq)

text \<open>A source that a later batch repeats with its fields in another order counts as a conflict.\<close>

lemma reordered_source_conflicts:
  fixes s :: CitationSource
  defines "first \<equiv> [(js ''source_id'', JText ''s1''), (js ''type'', JText ''tool'')]"
    and "again \<equiv> [(js ''type'', JText ''tool''), (js ''source_id'', JText ''s1'')]"
  shows "set first = set again" "\<not> okE (stream_sources R p 0 [(JObj first, s), (JObj again, s)] [])"
proof -
  show "set first = set again" by (auto simp: first_def again_def)
  have "stringify R (JObj first) \<noteq> stringify R (JObj again)"
  proof
    assume "stringify R (JObj first) = stringify R (JObj again)"
    then have "take 3 (stringify R (JObj first)) = take 3 (stringify R (JObj again))" by simp
    moreover have "quote (js ''source_id'') = 0x22 # 0x73 # quote_units (js ''ource_id'') @ [0x22]"
      "quote (js ''type'') = 0x22 # 0x74 # quote_units (js ''ype'') @ [0x22]"
      by (simp_all add: quote_def js_def high_surrogate_def low_surrogate_def)
    ultimately show False by (simp add: first_def again_def js_def [of "''{''"])
  qed
  then show "\<not> okE (stream_sources R p 0 [(JObj first, s), (JObj again, s)] [])" by simp
qed

end
