(* ===== verification/ProtocolProperties.thy ===== *)
theory ProtocolProperties
  imports StreamProperties
begin

text \<open>
  How the wire protocol and the durable events fit together, and what an accepted request
  guarantees. The two bounded checks of JSON are shown to accept the same values, and the
  credential patterns of the protocol to refuse every text that those of the events refuse.
\<close>

section \<open>Credential texts\<close>

lemma ends_seq: "ends (RSeq a b) s i \<noteq> [] \<longleftrightarrow> (\<exists>j \<in> set (ends a s i). ends b s j \<noteq> [])"
  by auto

lemma sk_tail_head: "ends sk_tail s i \<noteq> [] \<Longrightarrow> word_at s i"
  by (auto simp: sk_tail_def word_at_def word_char_def alnum_i_def lower_ascii_def in_range_def split: if_splits)

lemma boundary_start:
  assumes "word_boundary s i" "word_at s i"
  shows "i = 0 \<or> 0 < i \<and> \<not> alnum_i (s ! (i - 1))"
  using assms by (auto simp: word_boundary_def word_at_def word_char_def)

lemma sk_patterns:
  assumes "test (RSeq RWordB sk_tail) s"
  shows "test (RSeq (RAlt RStart (RChar (\<lambda>c. \<not> alnum_i c))) sk_tail) s"
proof -
  from assms obtain i where i: "i \<le> length s" "ends (RSeq RWordB sk_tail) s i \<noteq> []"
    unfolding test_def list_ex_iff set_upt by (auto simp: less_Suc_eq_le simp del: ends.simps)
  then have b: "word_boundary s i" "ends sk_tail s i \<noteq> []"
    unfolding ends_seq by (auto split: if_splits)
  from boundary_start [OF b(1) sk_tail_head [OF b(2)]]
  show ?thesis
  proof
    assume "i = 0"
    with b(2) have "ends (RSeq (RAlt RStart (RChar (\<lambda>c. \<not> alnum_i c))) sk_tail) s 0 \<noteq> []" unfolding ends_seq by auto
    then show ?thesis unfolding test_def list_ex_iff by (intro bexI [of _ 0]) auto
  next
    assume p: "0 < i \<and> \<not> alnum_i (s ! (i - 1))"
    have "i < length s" using sk_tail_head [OF b(2)] by (simp add: word_at_def)
    with p b(2) have "ends (RSeq (RAlt RStart (RChar (\<lambda>c. \<not> alnum_i c))) sk_tail) s (i - 1) \<noteq> []"
      unfolding ends_seq by (intro bexI [of _ i]) auto
    with i p show ?thesis unfolding test_def list_ex_iff by (intro bexI [of _ "i - 1"]) auto
  qed
qed

lemma protocol_patterns_stricter:
  "matches_any CREDENTIAL_VALUE_PATTERNS s \<Longrightarrow> matches_any PROTOCOL_CREDENTIAL_VALUE_PATTERNS s"
  using sk_patterns by (auto simp: matches_any_def CREDENTIAL_VALUE_PATTERNS_def PROTOCOL_CREDENTIAL_VALUE_PATTERNS_def)

section \<open>Bounded JSON\<close>

definition protocol_patterns :: "JsonLimits \<Rightarrow> bool" where
  "protocol_patterns L \<longleftrightarrow> forbiddenStringPatterns L = PROTOCOL_CREDENTIAL_VALUE_PATTERNS"

lemma scan_string_ok: "protocol_patterns L \<Longrightarrow> okE (scan_string L s p) \<longleftrightarrow> string_within L s"
  using protocol_patterns_stricter [of s] by (auto simp: scan_string_def string_within_def protocol_patterns_def not_less)

lemma scan_key_ok: "okE (scan_key L k p) \<longleftrightarrow> key_within L k"
  by (auto simp: scan_key_def key_within_def not_less Suc_le_eq)

lemma scan_value_ok: "protocol_patterns L \<Longrightarrow> okE (scan_value L v p) \<longleftrightarrow> okE (visit_scalar L v p)"
  by (cases v) (simp_all add: scan_value_def visit_scalar_def scan_string_ok visit_string_ok)

declare scan.simps [simp del]

lemma scan_visit:
  "protocol_patterns L \<Longrightarrow> scan L p v q d n = Inr m \<longleftrightarrow> visit L p v q d n = Inr m"
  "protocol_patterns L \<Longrightarrow> scan_items L p xs q i d n = Inr m \<longleftrightarrow> visit_items L p xs q i d n = Inr m"
  "protocol_patterns L \<Longrightarrow> scan_entries L p fs q d n = Inr m \<longleftrightarrow> visit_entries L p fs q d n = Inr m"
proof (induction L p v q d n and L p xs q i d n and L p fs q d n arbitrary: m and m and m rule: scan_scan_items_scan_entries.induct)
  case (1 L p v q d n)
  note agree = scan_value_ok [OF 1(3), of v q]
  show ?case
  proof (cases "n + 1 \<le> maxNodes L \<and> d \<le> maxDepth L \<and> okE (scan_value L v q)")
    case True
    then have ok: "scan_value L v q = Inr ()" "visit_scalar L v q = Inr ()" using agree by (simp_all add: okE_unit)
    with True 1 show ?thesis by (simp add: scan.simps visit.simps split: json.split)
  next
    case False
    then show ?thesis using agree by (auto simp: scan.simps visit.simps okE_unit bindE_Inr_iff)
  qed
next
  case (5 L p key item fs q d n)
  have "okE (scan_key L key q) \<longleftrightarrow> okE (visit_key L key q)" by (simp add: scan_key_ok visit_key_ok)
  with 5 show ?case by (auto simp: bindE_Inr_iff okE_unit)
qed (auto simp: bindE_Inr_iff)

lemma bounded_json_iff:
  "protocol_patterns L \<Longrightarrow> okE (validateBoundedJson (Some v) p L) \<longleftrightarrow> json_within L 0 v \<and> node_count v \<le> maxNodes L"
  unfolding validateBoundedJson_def option.case voidE_ok unfolding okE_iff by (simp add: scan_visit visit_accepts(1))

lemma public_within:
  assumes "json_within PUBLIC_JSON_LIMITS d v"
  shows "json_within JSON_LIMITS d v"
  using assms
proof (induction PUBLIC_JSON_LIMITS d v rule: json_within.induct)
  case (4 d fs)
  have "key_within JSON_LIMITS k" if "key_within PUBLIC_JSON_LIMITS k" for k
  proof -
    have "set CREDENTIAL_FIELD_NAMES \<subseteq> set PROTOCOL_CREDENTIAL_FIELD_NAMES"
      by (simp add: CREDENTIAL_FIELD_NAMES_def PROTOCOL_CREDENTIAL_FIELD_NAMES_def)
    with that show ?thesis by (auto simp: key_within_def JSON_LIMITS_def PUBLIC_JSON_LIMITS_def)
  qed
  with 4 show ?case by (auto simp: list_all_iff JSON_LIMITS_def PUBLIC_JSON_LIMITS_def)
qed (auto simp: list_all_iff JSON_LIMITS_def PUBLIC_JSON_LIMITS_def string_within_def matches_any_def)

lemma credentials_absent_durable:
  assumes "okE (validateCredentialsAbsent (Some v) p)"
  shows "okE (validateJson (Some v) q JSON_LIMITS)"
proof -
  have "protocol_patterns PUBLIC_JSON_LIMITS" by (simp add: protocol_patterns_def PUBLIC_JSON_LIMITS_def)
  from bounded_json_iff [OF this, of v p] assms have "json_within PUBLIC_JSON_LIMITS 0 v" "node_count v \<le> maxNodes PUBLIC_JSON_LIMITS"
    by (simp_all add: validateCredentialsAbsent_def)
  with public_within [OF this(1)] show ?thesis
    by (simp add: validateJson_iff PUBLIC_JSON_LIMITS_def JSON_LIMITS_def)
qed

section \<open>Tool calls become events\<close>

lemma protocol_identifier_ok:
  "protocol_string v p False (pl_identifierLength AI_RUNTIME_PROTOCOL_LIMITS) = Inr s \<longleftrightarrow> v = Some (JStr s) \<and> identifier_ok s"
  by (auto simp: protocol_string_def AI_RUNTIME_PROTOCOL_LIMITS_def identifier_ok_def identifierLength_def split: option.splits json.splits)

lemma protocol_record_Inr: "protocol_record v p = Inr fs \<longleftrightarrow> v = Some (JObj fs)"
  by (auto simp: protocol_record_def split: option.splits json.splits)

lemma tool_call_body_facts:
  assumes "tool_call_body R obj p = Inr (ResponseToolCall call name args)"
  shows "identifier_ok call" "identifier_ok name" "okE (validateCredentialsAbsent (Some (JObj args)) (dot p ''arguments''))"
  using assms by (auto simp: tool_call_body_def bindE_Inr_iff identifier_in_def protocol_identifier_ok protocol_record_Inr okE_unit)

lemma event_body_tool_call:
  assumes "event_body U R type obj p = Inr (ResponseToolCall call name args)"
  shows "tool_call_body R obj p = Inr (ResponseToolCall call name args)"
  using assms by (auto simp: event_body_def started_body_def bindE_Inr_iff split: if_splits)

lemma requested_payload_ok:
  assumes "identifier_ok turn" "identifier_ok call" "identifier_ok name" "okE (validateJson (Some (JObj args)) (dot p ''arguments'') JSON_LIMITS)"
  shows "okE (validatePayload U R (Some (payload_json (ToolCallRequested turn call name args))) p)"
proof -
  define obj where "obj = [(js ''type'', JText ''tool_call.requested''), (js ''turn_id'', JStr turn), (js ''tool_call_id'', JStr call),
    (js ''name'', JStr name), (js ''arguments'', JObj args)]"
  have json: "payload_json (ToolCallRequested turn call name args) = JObj obj"
    by (simp add: payload_json_def obj_def)
  have "okE (validate_tool_call_requested obj p)"
    using assms by (simp add: validate_tool_call_requested_def payload_keys_def okE_field_checks id_field_ok)
      (simp add: obj_def event_record_def)
  moreover have "validatePayload U R (Some (JObj obj)) p = validate_tool_call_requested obj p"
    by (simp add: validatePayload_def event_record_def required_keys_def obj_def CONVERSATION_EVENT_TYPES_def payload_validator_def)
  ultimately show ?thesis by (simp add: json)
qed

text \<open>
  C37: a tool call that the parser of the stream accepts can be recorded: the durable event that
  requests this call, with its identifier, name and arguments in any turn, passes the validation
  of events. Whatever the stricter lists of the protocol refuse, they never let through what the
  events refuse.
\<close>

theorem accepted_tool_call_durable:
  assumes "parseStreamEvent parse_url R v = Inr e" "sv_body e = ResponseToolCall call name args" "identifier_ok turn"
  shows "okE (validatePayload U S (Some (payload_json (ToolCallRequested turn call name args))) path)"
proof -
  from assms(1,2) obtain type obj where "event_body parse_url R type obj (js ''$event'') = Inr (ResponseToolCall call name args)"
    by (auto simp: parseStreamEvent_def bindE_Inr_iff Let_def)
  from tool_call_body_facts [OF event_body_tool_call [OF this]] assms(3) show ?thesis
    by (intro requested_payload_ok credentials_absent_durable)
qed

text \<open>A call with one argument.\<close>

definition sample_call :: js_object where
  "sample_call = [(js ''type'', JText ''response.tool_call''), (js ''protocol_version'', JText AI_RUNTIME_PROTOCOL_VERSION),
     (js ''request_id'', JText ''r1''), (js ''trace_id'', JText ''x1''), (js ''sequence'', JInt 1),
     (js ''tool_call_id'', JText ''call1''), (js ''name'', JText ''search''),
     (js ''arguments'', JObj [(js ''query'', JText ''isabelle'')])]"

lemma normalized_query: "normalizeFieldName (js ''query'') = js ''query''"
  by (simp add: normalizeFieldName_def normalize_unit_def js_def in_range_def is_digit_def)

lemma sample_arguments_ok: "okE (validateCredentialsAbsent (Some (JObj [(js ''query'', JText ''isabelle'')])) p)"
proof -
  have "protocol_patterns PUBLIC_JSON_LIMITS" by (simp add: protocol_patterns_def PUBLIC_JSON_LIMITS_def)
  moreover have "\<not> matches_any PROTOCOL_CREDENTIAL_VALUE_PATTERNS (js ''isabelle'')" "\<not> matches_any CREDENTIAL_VALUE_PATTERNS (js ''isabelle'')"
    using credential_patterns_short [of "js ''isabelle''"]
    by (simp_all add: PROTOCOL_CREDENTIAL_VALUE_PATTERNS_def CITATION_CREDENTIAL_VALUE_PATTERNS_def)
  ultimately show ?thesis
    unfolding validateCredentialsAbsent_def
    by (simp add: bounded_json_iff PUBLIC_JSON_LIMITS_def key_within_def string_within_def normalized_query
      PROTOCOL_CREDENTIAL_FIELD_NAMES_def)
qed

lemma id_of_ok: "okE (id_of obj k p) \<longleftrightarrow> (\<exists>s. fld obj k = Some (JStr s) \<and> identifier_ok s)"
  unfolding id_of_def voidE_ok by (auto simp: okE_iff protocol_identifier_ok)

lemma must_be_ok: "okE (must_be obj k p t) \<longleftrightarrow> fld obj k = Some (JText t)"
  by (simp add: must_be_def)

lemma sample_envelope: "validateEnvelope R sample_call p [''tool_call_id'', ''name'', ''arguments''] = Inr ()"
  unfolding okE_unit [symmetric] validateEnvelope_def checks_ok
  by (simp add: okE_field_checks id_of_ok must_be_ok ENVELOPE_FIELDS_def)
    (simp add: sample_call_def identifier_ok_def identifierLength_def integer_among_def integer_of_def has_own_fld)

lemma sample_call_parses:
  "\<exists>e. parseStreamEvent U R (JObj sample_call) = Inr e \<and>
    sv_body e = ResponseToolCall (js ''call1'') (js ''search'') [(js ''query'', JText ''isabelle'')]"
proof -
  have arguments: "validateCredentialsAbsent (Some (JObj [(js ''query'', JText ''isabelle'')])) p = Inr ()" for p
    using sample_arguments_ok by (simp add: okE_unit)
  have fields: "fld sample_call ''type'' = Some (JText ''response.tool_call'')" "fld sample_call ''tool_call_id'' = Some (JText ''call1'')"
    "fld sample_call ''name'' = Some (JText ''search'')" "fld sample_call ''sequence'' = Some (JInt 1)"
    "fld sample_call ''arguments'' = Some (JObj [(js ''query'', JText ''isabelle'')])"
    by (simp_all add: sample_call_def)
  have "required_keys perr sample_call [''tool_call_id'', ''name'', ''arguments''] p = Inr ()" for p
    by (simp add: required_keys_Inr_iff fields)
  then have body: "tool_call_body R sample_call p =
      Inr (ResponseToolCall (js ''call1'') (js ''search'') [(js ''query'', JText ''isabelle'')])" for p
    by (simp add: tool_call_body_def with_fields_def sample_envelope identifier_in_def fields arguments protocol_record_def
      protocol_string_def AI_RUNTIME_PROTOCOL_LIMITS_def)
  have type: "enum_value perr (Some (JText ''response.tool_call'')) AI_RUNTIME_STREAM_EVENT_TYPES p = Inr ''response.tool_call''" for p
    by (simp add: enum_value_Inr_iff AI_RUNTIME_STREAM_EVENT_TYPES_def)
  show ?thesis
    by (simp add: parseStreamEvent_def Let_def protocol_record_def fields type event_body_def body throw_if_def integer_of_def)
qed

theorem accepted_tool_call_durable_witness:
  "okE (validatePayload (\<lambda>_. None) (\<lambda>_. []) (Some (payload_json (ToolCallRequested (js ''t1'') (js ''call1'') (js ''search'')
    [(js ''query'', JText ''isabelle'')]))) (js ''$event.payload''))"
proof -
  obtain e where "parseStreamEvent (\<lambda>_. None) (\<lambda>_. []) (JObj sample_call) = Inr e"
    "sv_body e = ResponseToolCall (js ''call1'') (js ''search'') [(js ''query'', JText ''isabelle'')]"
    using sample_call_parses by blast
  from accepted_tool_call_durable [OF this, of "js ''t1''"] show ?thesis
    by (simp add: identifier_ok_def identifierLength_def)
qed

section \<open>Two lists of credential names\<close>

lemma normalized_managed_token: "normalizeFieldName (js ''managedToken'') = js ''managedtoken''"
  by (simp add: normalizeFieldName_def normalize_unit_def js_def in_range_def is_digit_def)

text \<open>Durable events accept a field that the wire protocol refuses as a credential.\<close>

lemma managed_token_durable:
  "okE (validateJson (Some (JObj [(js ''managedToken'', JNull)])) p JSON_LIMITS)"
  "\<not> okE (validateCredentialsAbsent (Some (JObj [(js ''managedToken'', JNull)])) p)"
proof -
  show "okE (validateJson (Some (JObj [(js ''managedToken'', JNull)])) p JSON_LIMITS)"
    by (simp add: validateJson_iff JSON_LIMITS_def key_within_def normalized_managed_token CREDENTIAL_FIELD_NAMES_def)
  have "protocol_patterns PUBLIC_JSON_LIMITS" by (simp add: protocol_patterns_def PUBLIC_JSON_LIMITS_def)
  then show "\<not> okE (validateCredentialsAbsent (Some (JObj [(js ''managedToken'', JNull)])) p)"
    unfolding validateCredentialsAbsent_def
    by (simp add: bounded_json_iff PUBLIC_JSON_LIMITS_def key_within_def normalized_managed_token PROTOCOL_CREDENTIAL_FIELD_NAMES_def)
qed

end
