(* ===== verification/RequestProperties.thy ===== *)
theory RequestProperties
  imports ProtocolProperties
begin

text \<open>
  What a request that the parser accepts guarantees to the runtime: bounded messages, tools with
  different names, and results that belong to declared tools and to an earlier request.
\<close>

section \<open>Reading a request\<close>

definition field_of :: "json \<Rightarrow> string \<Rightarrow> json option" where
  "field_of v k = (case v of JObj fs \<Rightarrow> fld fs k | _ \<Rightarrow> None)"

definition elements :: "json option \<Rightarrow> json list" where
  "elements v = (case v of Some (JArr xs) \<Rightarrow> xs | _ \<Rightarrow> [])"

definition message_parts :: "json \<Rightarrow> json list" where
  "message_parts message = elements (field_of message ''content'')"

definition of_type :: "string \<Rightarrow> json \<Rightarrow> bool" where
  "of_type t part \<longleftrightarrow> field_of part ''type'' = Some (JText t)"

definition parts_of_type :: "string \<Rightarrow> json \<Rightarrow> json list" where
  "parts_of_type t message = filter (of_type t) (message_parts message)"

definition message_ok :: "json \<Rightarrow> bool" where
  "message_ok message \<longleftrightarrow> message_parts message \<noteq> [] \<and>
     length (parts_of_type ''image'' message) \<le> 4 \<and> length (parts_of_type ''document'' message) \<le> 2 \<and>
     (parts_of_type ''document'' message \<noteq> [] \<longrightarrow> field_of message ''role'' = Some (JText ''user''))"

definition request_ok :: "js_object \<Rightarrow> bool" where
  "request_ok obj \<longleftrightarrow>
     (let messages = elements (fld obj ''messages''); tools = elements (fld obj ''tools''); results = elements (fld obj ''tool_results'') in
      messages \<noteq> [] \<and> (\<forall>m \<in> set messages. message_ok m) \<and>
      length (concat (map (parts_of_type ''image'') messages)) \<le> 8 \<and>
      length (concat (map (parts_of_type ''document'') messages)) \<le> 4 \<and>
      distinct (map (\<lambda>t. field_of t ''name'') tools) \<and> distinct (map (\<lambda>r. field_of r ''tool_call_id'') results) \<and>
      (\<forall>r \<in> set results. \<exists>t \<in> set tools. field_of r ''name'' = field_of t ''name'' \<and> field_of r ''name'' \<noteq> None) \<and>
      (results = [] \<longleftrightarrow> fld obj ''continuation_of'' = Some JNull))"

section \<open>Messages\<close>

lemma content_part_type:
  assumes "validateMessageContentPart (Some part) p = Inr kind"
  shows "of_type ''image'' part \<longleftrightarrow> kind = ImagePart" "of_type ''document'' part \<longleftrightarrow> kind = DocumentPart"
  using assms by (auto simp: validateMessageContentPart_def bindE_Inr_iff protocol_record_Inr of_type_def field_of_def split: if_splits)

lemma count_parts_result:
  assumes "count_parts role p counts i parts = Inr c"
  shows "imageCount c = imageCount counts + length (filter (of_type ''image'') parts)"
    "documentCount c = documentCount counts + length (filter (of_type ''document'') parts)"
    "filter (of_type ''document'') parts \<noteq> [] \<longrightarrow> role = ''user''"
proof -
  have "imageCount c = imageCount counts + length (filter (of_type ''image'') parts) \<and>
      documentCount c = documentCount counts + length (filter (of_type ''document'') parts) \<and>
      (filter (of_type ''document'') parts \<noteq> [] \<longrightarrow> role = ''user'')"
    using assms
  proof (induction parts arbitrary: counts i)
    case (Cons part parts)
    let ?path = "index_path (dot p ''content'') i"
    from Cons.prems obtain kind where kind: "validateMessageContentPart (Some part) ?path = Inr kind"
      unfolding count_parts.simps bindE_Inr_iff by blast
    note type = content_part_type [OF kind]
    show ?case
    proof (cases kind)
      case TextPart
      with Cons.prems kind have "count_parts role p counts (Suc i) parts = Inr c" by simp
      from Cons.IH [OF this] type TextPart show ?thesis by simp
    next
      case ImagePart
      with Cons.prems kind have "count_parts role p (counts\<lparr>imageCount := imageCount counts + 1\<rparr>) (Suc i) parts = Inr c" by simp
      from Cons.IH [OF this] type ImagePart show ?thesis by simp
    next
      case DocumentPart
      with Cons.prems kind have "role = ''user''"
        and "count_parts role p (counts\<lparr>documentCount := documentCount counts + 1\<rparr>) (Suc i) parts = Inr c"
        by (simp_all split: if_splits)
      with Cons.IH [OF this(2)] type DocumentPart show ?thesis by simp
    qed
  qed simp
  then show "imageCount c = imageCount counts + length (filter (of_type ''image'') parts)"
    "documentCount c = documentCount counts + length (filter (of_type ''document'') parts)"
    "filter (of_type ''document'') parts \<noteq> [] \<longrightarrow> role = ''user''" by blast+
qed

lemma at_most_Inr: "at_most_parts n limit p t = Inr u \<longleftrightarrow> n \<le> limit"
  by (auto simp: at_most_parts_def throw_if_def)

lemma array_case:
  "(case x of Some (JArr xs) \<Rightarrow> if xs = [] then Inl e else f xs | _ \<Rightarrow> Inl e) = Inr c \<Longrightarrow>
   \<exists>xs. x = Some (JArr xs) \<and> xs \<noteq> [] \<and> f xs = Inr c"
  by (auto split: option.splits json.splits if_splits)

lemma validateMessage_result:
  assumes "validateMessage (Some m) p = Inr c"
  shows "message_ok m" "imageCount c = length (parts_of_type ''image'' m)" "documentCount c = length (parts_of_type ''document'' m)"
proof -
  from assms obtain fs role where m: "m = JObj fs" "fld fs ''role'' = Some (JText role)"
    and content: "(case fld fs ''content'' of
         Some (JArr parts) \<Rightarrow>
           if parts = [] then Inl (perr (dot p ''content'') ''must be a non-empty array'')
           else count_parts role p \<lparr>imageCount = 0, documentCount = 0\<rparr> 0 parts
       | _ \<Rightarrow> Inl (perr (dot p ''content'') ''must be a non-empty array'')) = Inr c"
    and limits: "imageCount c \<le> 4" "documentCount c \<le> 2"
    unfolding validateMessage_def bindE_Inr_iff protocol_record_Inr enum_value_Inr_iff at_most_Inr
    by (auto simp: AI_RUNTIME_PROTOCOL_LIMITS_def)
  from array_case [OF content] obtain parts where parts_of: "fld fs ''content'' = Some (JArr parts)" "parts \<noteq> []"
    "count_parts role p \<lparr>imageCount = 0, documentCount = 0\<rparr> 0 parts = Inr c" by blast
  have parts: "message_parts m = parts" by (simp add: message_parts_def field_of_def elements_def m parts_of)
  show counts: "imageCount c = length (parts_of_type ''image'' m)" "documentCount c = length (parts_of_type ''document'' m)"
    using count_parts_result [OF parts_of(3)] by (simp_all add: parts_of_type_def parts)
  show "message_ok m"
    using count_parts_result(3) [OF parts_of(3)] limits parts_of(2) unfolding message_ok_def counts [symmetric]
    by (simp add: parts parts_of_type_def) (simp add: field_of_def m)
qed

lemma request_messages_result:
  "request_messages before i messages = Inr c \<Longrightarrow> (\<forall>m \<in> set messages. message_ok m) \<and>
     imageCount c = imageCount before + length (concat (map (parts_of_type ''image'') messages)) \<and>
     documentCount c = documentCount before + length (concat (map (parts_of_type ''document'') messages))"
proof (induction messages arbitrary: before i)
  case (Cons m ms)
  from Cons.prems obtain counts where "validateMessage (Some m) (index_path (js ''$request.messages'') i) = Inr counts"
    "request_messages \<lparr>imageCount = imageCount before + imageCount counts, documentCount = documentCount before + documentCount counts\<rparr>
      (Suc i) ms = Inr c"
    by (auto simp: bindE_Inr_iff)
  with Cons.IH [OF this(2)] validateMessage_result [OF this(1)] show ?case by simp
qed simp

section \<open>Tools and results\<close>

lemma tool_definition_name:
  assumes "validateToolDefinition (Some t) p = Inr obj"
  shows "t = JObj obj" "field_of t ''name'' = Some (coalesce (fld obj ''name'') JNull)"
proof -
  from assms show t: "t = JObj obj" by (auto simp: validateToolDefinition_def bindE_Inr_iff protocol_record_Inr)
  from assms have "okE (id_of obj ''name'' p)"
    by (auto simp: validateToolDefinition_def bindE_Inr_iff okE_unit [symmetric])
  then show "field_of t ''name'' = Some (coalesce (fld obj ''name'') JNull)" by (auto simp: t field_of_def id_of_ok)
qed

lemma request_tools_result:
  "request_tools names i tools = Inr out \<Longrightarrow> distinct names \<Longrightarrow>
     distinct out \<and> map Some out = map Some names @ map (\<lambda>t. field_of t ''name'') tools"
proof (induction tools arbitrary: names i)
  case (Cons t ts)
  from Cons.prems(1) obtain obj where obj: "validateToolDefinition (Some t) (index_path (js ''$request.tools'') i) = Inr obj"
    by (auto simp: bindE_Inr_iff)
  let ?name = "coalesce (fld obj ''name'') JNull"
  from Cons.prems(1) obj have new: "?name \<notin> set names" and rest: "request_tools (names @ [?name]) (Suc i) ts = Inr out"
    by (auto simp: bindE_Inr_iff Let_def split: if_splits)
  with Cons.IH [OF rest] Cons.prems(2) tool_definition_name(2) [OF obj] show ?case by simp
qed simp

lemma tool_result_fields:
  assumes "validateToolResult U (Some r) p = Inr obj"
  shows "r = JObj obj" "field_of r ''name'' = Some (coalesce (fld obj ''name'') JNull)"
    "field_of r ''tool_call_id'' = Some (coalesce (fld obj ''tool_call_id'') JNull)"
proof -
  from assms show r: "r = JObj obj" by (auto simp: validateToolResult_def bindE_Inr_iff protocol_record_Inr)
  from assms have "okE (id_of obj ''name'' p)" "okE (id_of obj ''tool_call_id'' p)"
    by (auto simp: validateToolResult_def bindE_Inr_iff okE_unit [symmetric])
  then show "field_of r ''name'' = Some (coalesce (fld obj ''name'') JNull)"
    "field_of r ''tool_call_id'' = Some (coalesce (fld obj ''tool_call_id'') JNull)" by (auto simp: r field_of_def id_of_ok)
qed

lemma request_results_result:
  "request_results U names ids i results = Inr u \<Longrightarrow>
     distinct (map (\<lambda>r. field_of r ''tool_call_id'') results) \<and>
     set (map (\<lambda>r. field_of r ''tool_call_id'') results) \<inter> Some ` set ids = {} \<and>
     (\<forall>r \<in> set results. \<exists>n \<in> set names. field_of r ''name'' = Some n)"
proof (induction results arbitrary: ids i)
  case (Cons r rs)
  from Cons.prems obtain obj where obj: "validateToolResult U (Some r) (index_path (js ''$request.tool_results'') i) = Inr obj"
    by (auto simp: bindE_Inr_iff Let_def)
  let ?name = "coalesce (fld obj ''name'') JNull" and ?call = "coalesce (fld obj ''tool_call_id'') JNull"
  from Cons.prems obj have "?name \<in> set names" "?call \<notin> set ids" and rest: "request_results U names (?call # ids) (Suc i) rs = Inr u"
    by (auto simp: bindE_Inr_iff Let_def split: if_splits)
  with Cons.IH [OF rest] tool_result_fields(2,3) [OF obj] show ?case by auto
qed simp

lemma required_array_Inr: "required_array v p = Inr xs \<longleftrightarrow> v = Some (JArr xs)"
  by (auto simp: required_array_def split: option.splits json.splits)

lemma okE_at_most: "okE (at_most_parts n limit p t) \<longleftrightarrow> n \<le> limit"
  by (simp add: at_most_parts_def not_less)

section \<open>The guarantee\<close>

text \<open>
  C36: in a request that the parser accepts there is at least one message and every message has
  parts, within the limits on images and documents of a message and of the request, with
  documents in messages of the user only; tools have different names; every tool result names a
  declared tool and results have different call identifiers; and the request continues an
  earlier one exactly if it carries tool results.
\<close>

theorem accepted_request_ok:
  assumes "parseChatRequest parse_url R v = Inr obj"
  shows "v = JObj obj \<and> request_ok obj"
proof -
  from assms obtain tools results names counts u where v: "v = JObj obj" and
    content: "(case fld obj ''messages'' of
          Some (JArr messages) \<Rightarrow>
            if messages = [] then Inl (perr (dot (js ''$request'') ''messages'') ''must be a non-empty array'')
            else request_messages \<lparr>imageCount = 0, documentCount = 0\<rparr> 0 messages
        | _ \<Rightarrow> Inl (perr (dot (js ''$request'') ''messages'') ''must be a non-empty array'')) = Inr counts" and
    limits: "imageCount counts \<le> 8" "documentCount counts \<le> 4" and
    tools: "fld obj ''tools'' = Some (JArr tools)" "request_tools [] 0 tools = Inr names" and
    results: "fld obj ''tool_results'' = Some (JArr results)" "request_results parse_url names [] 0 results = Inr u" and
    continuation: "results = [] \<longleftrightarrow> fld obj ''continuation_of'' = Some JNull"
    unfolding parseChatRequest_def Let_def bindE_Inr_iff protocol_record_Inr required_array_Inr
    by (auto simp: okE_unit [symmetric] okE_at_most AI_RUNTIME_PROTOCOL_LIMITS_def)
  from array_case [OF content] obtain ms where ms: "fld obj ''messages'' = Some (JArr ms)" "ms \<noteq> []"
    "request_messages \<lparr>imageCount = 0, documentCount = 0\<rparr> 0 ms = Inr counts" by blast
  from request_tools_result [OF tools(2)] have names: "distinct names" "map Some names = map (\<lambda>t. field_of t ''name'') tools" by simp_all
  then have "distinct (map (\<lambda>t. field_of t ''name'') tools)" by (metis distinct_map inj_Some inj_on_subset subset_UNIV)
  moreover have "\<exists>t \<in> set tools. field_of r ''name'' = field_of t ''name'' \<and> field_of r ''name'' \<noteq> None" if "r \<in> set results" for r
  proof -
    from request_results_result [OF results(2)] that obtain n where n: "n \<in> set names" "field_of r ''name'' = Some n" by blast
    then have "Some n \<in> set (map (\<lambda>t. field_of t ''name'') tools)" unfolding names(2) [symmetric] by simp
    with n show ?thesis by auto
  qed
  ultimately show ?thesis
    using v ms limits tools results continuation request_messages_result [OF ms(3)] request_results_result [OF results(2)]
    by (simp add: request_ok_def Let_def elements_def)
qed

text \<open>A request that carries one question, one tool and its result.\<close>

definition sample_message :: json where
  "sample_message = JObj [(js ''role'', JText ''user''), (js ''content'', JArr [JObj [(js ''type'', JText ''text''), (js ''text'', JText ''Hi'')]])]"

definition sample_tool :: js_object where
  "sample_tool = [(js ''name'', JText ''search''), (js ''description'', JText ''Search''),
     (js ''input_schema'', JObj [(js ''type'', JText ''object'')])]"

definition sample_result :: js_object where
  "sample_result = [(js ''tool_call_id'', JText ''call1''), (js ''name'', JText ''search''),
     (js ''content'', JArr [JObj [(js ''type'', JText ''text''), (js ''text'', JText ''ok'')]]), (js ''is_error'', JBool False)]"

definition sample_request :: js_object where
  "sample_request = [(js ''protocol_version'', JText AI_RUNTIME_PROTOCOL_VERSION), (js ''continuation_of'', JText ''r0''),
     (js ''messages'', JArr [sample_message]), (js ''tools'', JArr [JObj sample_tool]), (js ''tool_results'', JArr [JObj sample_result]),
     (js ''generation'', JObj [(js ''max_output_tokens'', JInt 100), (js ''temperature'', JInt 1)]), (js ''correlation_hints'', JObj [])]"

lemma sample_text: "protocol_text_part (Some (JObj [(js ''type'', JText ''text''), (js ''text'', JStr s)])) p = Inr ()"
  if "length s \<le> 1000000"
  using that unfolding okE_unit [symmetric] protocol_text_part_def
  by (simp add: protocol_record_def okE_field_checks must_be_ok has_own_fld protocol_string_def AI_RUNTIME_PROTOCOL_LIMITS_def)

lemma sample_message_counts: "validateMessage (Some sample_message) p = Inr \<lparr>imageCount = 0, documentCount = 0\<rparr>"
proof -
  have "validateMessageContentPart (Some (JObj [(js ''type'', JText ''text''), (js ''text'', JText ''Hi'')])) q = Inr TextPart" for q
    by (simp add: validateMessageContentPart_def protocol_record_def sample_text)
  moreover have "required_keys perr [(js ''role'', a), (js ''content'', b)] [''role'', ''content''] q = Inr ()"
    "allowed_keys perr [(js ''role'', a), (js ''content'', b)] [''role'', ''content''] q = Inr ()"
    "enum_value perr (Some (JText ''user'')) [''user'', ''assistant''] q = Inr ''user''" for a b q
    by (simp_all add: required_keys_Inr_iff allowed_keys_Inr_iff enum_value_Inr_iff)
  moreover have "at_most_parts 0 n q t = Inr ()" for n q t by (simp add: at_most_Inr)
  ultimately show ?thesis
    by (simp add: validateMessage_def sample_message_def protocol_record_def)
qed

lemma sample_schema: "validateJsonSchema (Some (JObj [(js ''type'', JText ''object'')])) p = Inr ()"
proof -
  have "schema_body d [(js ''type'', JText ''object'')] p = Inr ()" for d
    unfolding okE_unit [symmetric] schema_body.simps checks_ok
    by (simp add: SCHEMA_MAPS_def SCHEMA_CHILDREN_def SCHEMA_LISTS_def schema_type_check_def schema_required_check_def
      schema_enum_check_def schema_numbers_check_def SCHEMA_NUMBERS_def okE_field_checks has_own_fld JSON_SCHEMA_TYPES_def)
  then show ?thesis by (simp add: validateJsonSchema_def protocol_record_def must_be_def throw_if_def)
qed

lemma normalized_type: "normalizeFieldName (js ''type'') = js ''type''"
  by (simp add: normalizeFieldName_def normalize_unit_def js_def in_range_def is_digit_def)

lemma sample_schema_public: "okE (validateCredentialsAbsent (Some (JObj [(js ''type'', JText ''object'')])) p)"
proof -
  have "protocol_patterns PUBLIC_JSON_LIMITS" by (simp add: protocol_patterns_def PUBLIC_JSON_LIMITS_def)
  moreover have "\<not> matches_any PROTOCOL_CREDENTIAL_VALUE_PATTERNS (js ''object'')" "\<not> matches_any CREDENTIAL_VALUE_PATTERNS (js ''object'')"
    using credential_patterns_short [of "js ''object''"]
    by (simp_all add: PROTOCOL_CREDENTIAL_VALUE_PATTERNS_def CITATION_CREDENTIAL_VALUE_PATTERNS_def)
  ultimately show ?thesis
    unfolding validateCredentialsAbsent_def
    by (simp add: bounded_json_iff PUBLIC_JSON_LIMITS_def key_within_def string_within_def normalized_type
      PROTOCOL_CREDENTIAL_FIELD_NAMES_def)
qed

lemma sample_tool_parses: "validateToolDefinition (Some (JObj sample_tool)) p = Inr sample_tool"
proof -
  have "checks [required_keys perr sample_tool [''name'', ''description'', ''input_schema''] p,
        allowed_keys perr sample_tool [''name'', ''description'', ''input_schema''] p,
        id_of sample_tool ''name'' p,
        voidE (protocol_string (fld sample_tool ''description'') (dot p ''description'') False (pl_textLength AI_RUNTIME_PROTOCOL_LIMITS)),
        voidE (protocol_record (fld sample_tool ''input_schema'') (dot p ''input_schema'')),
        validateCredentialsAbsent (fld sample_tool ''input_schema'') (dot p ''input_schema''),
        validateJsonSchema (fld sample_tool ''input_schema'') (dot p ''input_schema'')] = Inr ()"
    unfolding okE_unit [symmetric] checks_ok
    by (simp add: okE_field_checks id_of_ok) (simp add: sample_tool_def sample_schema sample_schema_public protocol_record_def
      protocol_string_def AI_RUNTIME_PROTOCOL_LIMITS_def identifier_ok_def identifierLength_def)
  then show ?thesis by (simp add: validateToolDefinition_def protocol_record_def)
qed

lemma sample_result_parses: "validateToolResult U (Some (JObj sample_result)) p = Inr sample_result"
proof -
  have content: "fld sample_result ''content'' = Some (JArr [JObj [(js ''type'', JText ''text''), (js ''text'', JText ''ok'')]])"
    by (simp add: sample_result_def)
  have part: "protocol_result_part (Some (JObj [(js ''type'', JText ''text''), (js ''text'', JText ''ok'')])) q = Inr ()" for q
    by (simp add: protocol_result_part_def protocol_record_def sample_text)
  have "checks [required_keys perr sample_result [''tool_call_id'', ''name'', ''content'', ''is_error''] p,
        allowed_keys perr sample_result [''tool_call_id'', ''name'', ''content'', ''is_error'', ''citation_records''] p,
        id_of sample_result ''tool_call_id'' p,
        id_of sample_result ''name'' p,
        (case fld sample_result ''content'' of
           Some (JArr parts) \<Rightarrow>
             if parts = [] then Inl (perr (dot p ''content'') ''must be a non-empty array'')
             else forE (\<lambda>x i. protocol_result_part (Some x) (index_path (dot p ''content'') i)) 0 parts
         | _ \<Rightarrow> Inl (perr (dot p ''content'') ''must be a non-empty array'')),
        throw_if (\<not> is_boolean_value (fld sample_result ''is_error'')) (perr (dot p ''is_error'') ''must be a boolean''),
        when_own sample_result ''citation_records'' (protocol_result_citations U sample_result p)] = Inr ()"
    unfolding okE_unit [symmetric] checks_ok content
    by (simp add: okE_field_checks id_of_ok part has_own_fld)
      (simp add: sample_result_def is_boolean_value_def identifier_ok_def identifierLength_def)
  then show ?thesis by (simp add: validateToolResult_def protocol_record_def)
qed

lemma bindE_InrI: "m = Inr x \<Longrightarrow> f x = Inr y \<Longrightarrow> bindE m f = Inr y"
  by simp

lemma sample_request_parses: "parseChatRequest U R (JObj sample_request) = Inr sample_request"
proof -
  have fields: "fld sample_request ''messages'' = Some (JArr [sample_message])" "fld sample_request ''tools'' = Some (JArr [JObj sample_tool])"
    "fld sample_request ''tool_results'' = Some (JArr [JObj sample_result])" "fld sample_request ''continuation_of'' = Some (JText ''r0'')"
    "fld sample_request ''generation'' = Some (JObj [(js ''max_output_tokens'', JInt 100), (js ''temperature'', JInt 1)])"
    "fld sample_request ''correlation_hints'' = Some (JObj [])"
    by (simp_all add: sample_request_def)
  let ?p = "js ''$request''"
  have head: "checks [required_keys perr sample_request REQUEST_FIELDS ?p, allowed_keys perr sample_request (REQUEST_FIELDS @ [''metadata'']) ?p,
         must_be sample_request ''protocol_version'' ?p AI_RUNTIME_PROTOCOL_VERSION,
         (if fld sample_request ''continuation_of'' = Some JNull then Inr () else id_of sample_request ''continuation_of'' ?p)] = Inr ()"
    unfolding okE_unit [symmetric] checks_ok fields
    by (simp add: okE_field_checks id_of_ok must_be_ok REQUEST_FIELDS_def fields) (simp add: sample_request_def identifier_ok_def identifierLength_def)
  have limits: "at_most_parts 0 n q t = Inr ()" for n q t by (simp add: at_most_Inr)
  have last: "checks [throw_if ([JObj sample_result] = [] \<and> fld sample_request ''continuation_of'' \<noteq> Some JNull) e,
         throw_if ([JObj sample_result] \<noteq> [] \<and> fld sample_request ''continuation_of'' = Some JNull) e',
         validateGeneration (fld sample_request ''generation'') (dot ?p ''generation''),
         validateCorrelationHints (fld sample_request ''correlation_hints'') (dot ?p ''correlation_hints''),
         when_own sample_request ''metadata'' (validateProtocolMetadata R (fld sample_request ''metadata'') (dot ?p ''metadata''))] = Inr ()" for e e'
    unfolding okE_unit [symmetric] checks_ok fields
    by (simp add: validateGeneration_def validateCorrelationHints_def protocol_record_def okE_field_checks integer_among_def integer_of_def
        okE_bindE allowed_keys_Inr_iff has_own_fld)
      (simp add: sample_request_def)
  have tools: "request_tools [] 0 [JObj sample_tool] = Inr [JText ''search'']"
    by (simp add: sample_tool_parses) (simp add: sample_tool_def)
  have results: "request_results U [JText ''search''] [] 0 [JObj sample_result] = Inr ()"
    by (simp add: sample_result_parses Let_def) (simp add: sample_result_def)
  have obj: "protocol_record (Some (JObj sample_request)) ?p = Inr sample_request" by (simp add: protocol_record_def)
  have messages: "(case fld sample_request ''messages'' of
          Some (JArr messages) \<Rightarrow>
            if messages = [] then Inl (perr (dot ?p ''messages'') ''must be a non-empty array'')
            else request_messages \<lparr>imageCount = 0, documentCount = 0\<rparr> 0 messages
        | _ \<Rightarrow> Inl (perr (dot ?p ''messages'') ''must be a non-empty array'')) = Inr \<lparr>imageCount = 0, documentCount = 0\<rparr>"
    by (simp add: fields sample_message_counts)
  have counts: "checks [at_most_parts (imageCount \<lparr>imageCount = 0, documentCount = 0\<rparr>) n q t,
      at_most_parts (documentCount \<lparr>imageCount = 0, documentCount = 0\<rparr>) n' q' t'] = Inr ()" for n q t n' q' t'
    unfolding okE_unit [symmetric] checks_ok by (simp add: okE_at_most)
  have arrays: "required_array (fld sample_request ''tools'') q = Inr [JObj sample_tool]"
    "required_array (fld sample_request ''tool_results'') q = Inr [JObj sample_result]" for q
    by (simp_all add: required_array_Inr fields)
  show ?thesis
    unfolding parseChatRequest_def Let_def
    by (rule bindE_InrI [OF obj], rule bindE_InrI [OF head], rule bindE_InrI [OF messages], rule bindE_InrI [OF counts],
      rule bindE_InrI [OF arrays(1)], rule bindE_InrI [OF tools], rule bindE_InrI [OF arrays(2)], rule bindE_InrI [OF results],
      rule bindE_InrI [OF last], rule refl)
qed

theorem accepted_request_ok_witness:
  "request_ok sample_request \<and> field_of (JObj sample_result) ''name'' = field_of (JObj sample_tool) ''name''"
  using accepted_request_ok [OF sample_request_parses]
  by (simp add: field_of_def sample_result_def sample_tool_def)

end
