(* ===== verification/ToolOutput.thy ===== *)
theory ToolOutput
  imports Protocol ApprovalExecution
begin

text \<open>
  \<^verbatim>\<open>src/tools/executor.ts\<close>: the limits of an executor, and the copies that it takes of the
  arguments a model sends and of the values a tool returns. Both come from outside, so they are
  values of the host language: they may hold functions, accessors, foreign prototypes, gaps and
  references to themselves. Proxies are left out: what one answers may change between two looks.
\<close>

section \<open>Values of the host language\<close>

datatype (plugins only: code size) host_prototype = ObjectPrototype | NullPrototype | OtherPrototype

text \<open>
  \<open>HAncestor\<close> is an object met inside itself, \<open>HOther\<close> a function, symbol or big integer. An array
  is regular (it has the prototype of arrays, and entries that are enumerable data) or else
  foreign, and then it has a name, because its methods and accessors are code of its own. It says
  whether it has further own keys, and holds its entries, a gap being \<open>None\<close>. An object has a
  prototype, may have symbol keys, and has named properties: whether it is enumerable, and its
  value, which an accessor does not have.
\<close>

datatype (plugins only: code size) host_value =
    HUndefined | HNull | HOther | HAncestor
  | HBool bool | HNum js_number | HStr js_string
  | HArray "nat option" bool "host_value option list"
  | HObject host_prototype bool "(js_string \<times> bool \<times> host_value option) list"

text \<open>A JSON value as a value of the host.\<close>

fun host_of :: "json \<Rightarrow> host_value" where
  "host_of JNull = HNull"
| "host_of (JBool b) = HBool b"
| "host_of (JNum n) = HNum n"
| "host_of (JStr s) = HStr s"
| "host_of (JArr xs) = HArray None False (map (\<lambda>x. Some (host_of x)) xs)"
| "host_of (JObj fs) = HObject ObjectPrototype False (map (\<lambda>f. (fst f, True, Some (host_of (snd f)))) fs)"

text \<open>\<^verbatim>\<open>Object.getOwnPropertyDescriptor(value, key)\<close> and the value that it holds.\<close>

definition own_descriptor :: "(js_string \<times> bool \<times> host_value option) list \<Rightarrow> string \<Rightarrow> (bool \<times> host_value option) option" where
  "own_descriptor ps k = map_of ps (js k)"

definition own_value :: "(js_string \<times> bool \<times> host_value option) list \<Rightarrow> string \<Rightarrow> host_value option" where
  "own_value ps k = (case own_descriptor ps k of Some (_, Some v) \<Rightarrow> Some v | _ \<Rightarrow> None)"

section \<open>Limits\<close>

record BoundedToolExecutorLimits =
  bl_timeoutMs :: int
  bl_maxConcurrency :: int
  bl_maxResultBytes :: int
  bl_maxResultNodes :: int
  bl_maxResultDepth :: int

definition DEFAULT_BOUNDED_TOOL_EXECUTOR_LIMITS :: BoundedToolExecutorLimits where
  "DEFAULT_BOUNDED_TOOL_EXECUTOR_LIMITS = \<lparr>bl_timeoutMs = 30000, bl_maxConcurrency = 4, bl_maxResultBytes = 64 * 1024,
     bl_maxResultNodes = 2000, bl_maxResultDepth = 12\<rparr>"

record executor_overrides =
  eo_timeoutMs :: limit_override
  eo_maxConcurrency :: limit_override
  eo_maxResultBytes :: limit_override
  eo_maxResultNodes :: limit_override
  eo_maxResultDepth :: limit_override

definition positiveInteger :: "js_number option \<Rightarrow> string \<Rightarrow> string + int" where
  "positiveInteger value name = (case positive_limit value of
     Some i \<Rightarrow> Inr i
   | None \<Rightarrow> Inl (name @ '' must be a positive safe integer''))"

text \<open>The spread and its reading of \<^verbatim>\<open>undefined\<close> are those of \<open>limit_or\<close>.\<close>

definition executor_limits :: "executor_overrides \<Rightarrow> string + BoundedToolExecutorLimits" where
  "executor_limits overrides =
     (let D = DEFAULT_BOUNDED_TOOL_EXECUTOR_LIMITS in
      bindE (positiveInteger (limit_or (eo_timeoutMs overrides) (bl_timeoutMs D)) ''limits.timeoutMs'') (\<lambda>timeoutMs.
      bindE (positiveInteger (limit_or (eo_maxConcurrency overrides) (bl_maxConcurrency D)) ''limits.maxConcurrency'') (\<lambda>maxConcurrency.
      bindE (positiveInteger (limit_or (eo_maxResultBytes overrides) (bl_maxResultBytes D)) ''limits.maxResultBytes'') (\<lambda>maxResultBytes.
      bindE (positiveInteger (limit_or (eo_maxResultNodes overrides) (bl_maxResultNodes D)) ''limits.maxResultNodes'') (\<lambda>maxResultNodes.
      bindE (positiveInteger (limit_or (eo_maxResultDepth overrides) (bl_maxResultDepth D)) ''limits.maxResultDepth'') (\<lambda>maxResultDepth.
      Inr \<lparr>bl_timeoutMs = timeoutMs, bl_maxConcurrency = maxConcurrency, bl_maxResultBytes = maxResultBytes,
        bl_maxResultNodes = maxResultNodes, bl_maxResultDepth = maxResultDepth\<rparr>))))))"

section \<open>Copies\<close>

definition FORBIDDEN_OUTPUT_FIELDS :: "string list" where
  "FORBIDDEN_OUTPUT_FIELDS = [''accesstoken'', ''apikey'', ''apitoken'', ''authorization'', ''bearertoken'', ''client'',
     ''clientsecret'', ''cookie'', ''credential'', ''credentials'', ''idtoken'', ''managedtoken'', ''nativeclient'', ''password'',
     ''passwd'', ''privatekey'', ''providerclient'', ''proxyauthorization'', ''refreshtoken'', ''sdkclient'', ''secret'',
     ''secretkey'', ''secrets'', ''setcookie'', ''signingkey'']"

definition OUTPUT_CREDENTIAL_VALUE_PATTERNS :: "re list" where
  "OUTPUT_CREDENTIAL_VALUE_PATTERNS =
     [bearer_pattern, RSeq (RAlt RStart (RChar (\<lambda>c. \<not> alnum_i c))) sk_tail, private_key_pattern]"

text \<open>
  What foreign arrays answer: to \<^verbatim>\<open>map\<close> with the visit of a copy (the copy, taken to be JSON data,
  and the count of values, from the depth and the count so far; \<open>None\<close> when it throws), and to
  \<^verbatim>\<open>every\<close> with a test of its entries.
\<close>

record foreign_arrays =
  fa_map :: "nat \<Rightarrow> nat \<Rightarrow> nat \<Rightarrow> (json \<times> nat) option"
  fa_every :: "nat \<Rightarrow> bool"

record copy_bounds =
  cp_nodes :: nat
  cp_depth :: nat
  cp_items :: nat
  cp_sensitive :: bool

definition plain_prototype :: "host_prototype \<Rightarrow> bool" where
  "plain_prototype p \<longleftrightarrow> p = ObjectPrototype \<or> p = NullPrototype"

text \<open>
  The inner \<^verbatim>\<open>visit\<close> of \<^verbatim>\<open>cloneJson\<close>, with the count of values after the subtree; \<open>None\<close> is its
  one exception. The \<^verbatim>\<open>visit\<close> of \<^verbatim>\<open>cloneArguments\<close> is the same without the sensitive checks.
\<close>

function (sequential) copy_value :: "foreign_arrays \<Rightarrow> copy_bounds \<Rightarrow> host_value \<Rightarrow> nat \<Rightarrow> nat \<Rightarrow> (json \<times> nat) option"
  and copy_items :: "foreign_arrays \<Rightarrow> copy_bounds \<Rightarrow> host_value option list \<Rightarrow> nat \<Rightarrow> nat \<Rightarrow> (json list \<times> nat) option"
  and copy_fields :: "foreign_arrays \<Rightarrow> copy_bounds \<Rightarrow> (js_string \<times> bool \<times> host_value option) list \<Rightarrow> nat \<Rightarrow> nat \<Rightarrow> (js_object \<times> nat) option"
  where
  "copy_value F B current depth nodes =
     (let nodes = nodes + 1 in
      if cp_nodes B < nodes \<or> cp_depth B < depth then None
      else case current of
        HNull \<Rightarrow> Some (JNull, nodes)
      | HBool b \<Rightarrow> Some (JBool b, nodes)
      | HNum n \<Rightarrow> if \<not> isFinite n then None else Some (JNum n, nodes)
      | HStr s \<Rightarrow> if cp_sensitive B \<and> matches_any OUTPUT_CREDENTIAL_VALUE_PATTERNS s then None else Some (JStr s, nodes)
      | HArray foreign extra cells \<Rightarrow>
          if cp_items B < length cells \<or> extra \<or> list_ex Option.is_none cells then None
          else if foreign \<noteq> None then fa_map F (the foreign) depth nodes
          else map_option (\<lambda>(xs, n). (JArr xs, n)) (copy_items F B cells depth nodes)
      | HObject prototype symbols props \<Rightarrow>
          if \<not> plain_prototype prototype \<or> symbols then None
          else map_option (\<lambda>(fs, n). (JObj fs, n)) (copy_fields F B props depth nodes)
      | _ \<Rightarrow> None)"
| "copy_items F B [] depth nodes = Some ([], nodes)"
| "copy_items F B (None # cells) depth nodes = None"
| "copy_items F B (Some v # cells) depth nodes =
     (case copy_value F B v (depth + 1) nodes of
        None \<Rightarrow> None
      | Some (x, nodes) \<Rightarrow> map_option (\<lambda>(xs, n). (x # xs, n)) (copy_items F B cells depth nodes))"
| "copy_fields F B [] depth nodes = Some ([], nodes)"
| "copy_fields F B ((key, enumerable, None) # props) depth nodes = None"
| "copy_fields F B ((key, enumerable, Some v) # props) depth nodes =
     (if cp_sensitive B \<and> normalizeFieldName key \<in> set (map js FORBIDDEN_OUTPUT_FIELDS) then None
      else case copy_value F B v (depth + 1) nodes of
        None \<Rightarrow> None
      | Some (x, nodes) \<Rightarrow> map_option (\<lambda>(fs, n). ((key, x) # fs, n)) (copy_fields F B props depth nodes))"
  by pat_completeness auto
termination
  by (relation "measure (\<lambda>x. case x of
      Inl (_, _, v, _) \<Rightarrow> Suc (2 * size v)
    | Inr (Inl (_, _, vs, _)) \<Rightarrow> 2 * size_list (size_option size) vs
    | Inr (Inr (_, _, fs, _)) \<Rightarrow> 2 * size_list (size_prod (\<lambda>_. 0) (size_prod (\<lambda>_. 0) (size_option size))) fs)") auto

definition result_bounds :: "BoundedToolExecutorLimits \<Rightarrow> copy_bounds" where
  "result_bounds limits = \<lparr>cp_nodes = nat (bl_maxResultNodes limits), cp_depth = nat (bl_maxResultDepth limits),
     cp_items = nat (bl_maxResultNodes limits), cp_sensitive = True\<rparr>"

definition cloneOutput :: "foreign_arrays \<Rightarrow> (rat \<Rightarrow> js_string) \<Rightarrow> host_value \<Rightarrow> BoundedToolExecutorLimits \<Rightarrow> json option" where
  "cloneOutput F R v limits = (case copy_value F (result_bounds limits) v 0 0 of
     None \<Rightarrow> None
   | Some (clone, _) \<Rightarrow>
       if bl_maxResultBytes limits < int (utf8ByteLength (stringify R clone)) then None else Some clone)"

definition argument_bounds :: copy_bounds where
  "argument_bounds = \<lparr>cp_nodes = 10000, cp_depth = 20, cp_items = 10000, cp_sensitive = False\<rparr>"

definition cloneArguments :: "foreign_arrays \<Rightarrow> host_value \<Rightarrow> js_object option" where
  "cloneArguments F v = (case copy_value F argument_bounds v 0 0 of Some (JObj fs, _) \<Rightarrow> Some fs | _ \<Rightarrow> None)"

section \<open>What a tool returned\<close>

definition resemblesContentPart :: "host_value \<Rightarrow> bool" where
  "resemblesContentPart v = (case v of
     HObject _ _ props \<Rightarrow> own_value props ''type'' \<in> {Some (HStr (js ''text'')), Some (HStr (js ''json''))}
   | _ \<Rightarrow> False)"

text \<open>The trusted envelope of content and citations: absent, broken, or its two parts.\<close>

datatype (plugins only: code size) output_projection = NotProjection | BrokenProjection | Projection host_value host_value

definition outputProjection :: "host_value \<Rightarrow> output_projection" where
  "outputProjection v = (case v of
     HObject prototype symbols props \<Rightarrow>
       if own_value props ''type'' \<noteq> Some (HStr (js ''handrail.application_tool_output'')) then NotProjection
       else if prototype \<noteq> ObjectPrototype then BrokenProjection
       else if length props \<noteq> 3 \<or> symbols then BrokenProjection
       else if list_ex (\<lambda>(_, enumerable, x). \<not> enumerable \<or> Option.is_none x) props then BrokenProjection
       else (case (own_value props ''content'', own_value props ''citation_records'') of
           (Some content, Some records) \<Rightarrow> Projection content records
         | _ \<Rightarrow> BrokenProjection)
   | _ \<Rightarrow> NotProjection)"

definition host_object :: "(js_string \<times> host_value) list \<Rightarrow> host_value" where
  "host_object fs = HObject ObjectPrototype False (map (\<lambda>(k, v). (k, True, Some v)) fs)"

definition host_array :: "host_value list \<Rightarrow> host_value" where
  "host_array vs = HArray None False (map Some vs)"

definition content_candidate :: "foreign_arrays \<Rightarrow> host_value \<Rightarrow> host_value" where
  "content_candidate F output = (case output of
     HStr s \<Rightarrow> host_array [host_object [(js ''type'', HStr (js ''text'')), (js ''text'', HStr s)]]
   | _ \<Rightarrow>
       if resemblesContentPart output then host_array [output]
       else if (case output of
             HArray None _ cells \<Rightarrow> cells \<noteq> [] \<and> list_all (\<lambda>i. case i of None \<Rightarrow> True | Some v \<Rightarrow> resemblesContentPart v) cells
           | HArray (Some foreign) _ cells \<Rightarrow> cells \<noteq> [] \<and> fa_every F foreign
           | _ \<Rightarrow> False)
       then output
       else host_array [host_object [(js ''type'', HStr (js ''json'')), (js ''value'', output)]])"

definition content_part :: "json \<Rightarrow> ConversationToolResultContentPart option" where
  "content_part part = (case part of
     JObj fs \<Rightarrow>
       if fld fs ''type'' = Some (JText ''text'') then
         (if length fs \<noteq> 2 then None else case fld fs ''text'' of Some (JStr t) \<Rightarrow> Some (ToolTextPart t) | _ \<Rightarrow> None)
       else if fld fs ''type'' = Some (JText ''json'') then
         (if length fs \<noteq> 2 then None else map_option ToolJsonPart (fld fs ''value''))
       else None
   | _ \<Rightarrow> None)"

definition normalizeContentOutput :: "foreign_arrays \<Rightarrow> (rat \<Rightarrow> js_string) \<Rightarrow> host_value \<Rightarrow> BoundedToolExecutorLimits \<Rightarrow>
    ConversationToolResultContentPart list option" where
  "normalizeContentOutput F R output limits = (case cloneOutput F R (content_candidate F output) limits of
     Some (JArr cloned) \<Rightarrow> if cloned = [] then None else those (map content_part cloned)
   | _ \<Rightarrow> None)"

text \<open>
  The value that \<^verbatim>\<open>normalizeCitationRecords\<close> works on. It refuses every object, array or value
  that is not plain JSON data wherever it looks, and it looks at every part of its input.
\<close>

function (sequential) plain_json :: "host_value \<Rightarrow> json option"
  and plain_items :: "host_value option list \<Rightarrow> json list option"
  and plain_fields :: "(js_string \<times> bool \<times> host_value option) list \<Rightarrow> js_object option"
  where
  "plain_json HNull = Some JNull"
| "plain_json (HBool b) = Some (JBool b)"
| "plain_json (HNum n) = Some (JNum n)"
| "plain_json (HStr s) = Some (JStr s)"
| "plain_json (HArray foreign extra cells) = (if foreign \<noteq> None \<or> extra then None else map_option JArr (plain_items cells))"
| "plain_json (HObject prototype symbols props) =
     (if \<not> plain_prototype prototype \<or> symbols then None else map_option JObj (plain_fields props))"
| "plain_json _ = None"
| "plain_items [] = Some []"
| "plain_items (None # cells) = None"
| "plain_items (Some v # cells) = (case plain_json v of None \<Rightarrow> None | Some x \<Rightarrow> map_option ((#) x) (plain_items cells))"
| "plain_fields [] = Some []"
| "plain_fields ((key, enumerable, None) # props) = None"
| "plain_fields ((key, enumerable, Some v) # props) =
     (if \<not> enumerable then None
      else case plain_json v of None \<Rightarrow> None | Some x \<Rightarrow> map_option ((#) (key, x)) (plain_fields props))"
  by pat_completeness auto
termination
  by (relation "measure (\<lambda>x. case x of
      Inl v \<Rightarrow> Suc (2 * size v)
    | Inr (Inl vs) \<Rightarrow> 2 * size_list (size_option size) vs
    | Inr (Inr fs) \<Rightarrow> 2 * size_list (size_prod (\<lambda>_. 0) (size_prod (\<lambda>_. 0) (size_option size))) fs)") auto

record NormalizedApplicationToolOutput =
  no_content :: "ConversationToolResultContentPart list"
  no_citationRecords :: "CitationRecordSet option"

definition links_to_call :: "js_string \<Rightarrow> Citation \<Rightarrow> bool" where
  "links_to_call toolCallId c \<longleftrightarrow> ct_target c = ToolResultCitationTarget toolCallId"

definition normalizeOutput :: "foreign_arrays \<Rightarrow> url_parser \<Rightarrow> (rat \<Rightarrow> js_string) \<Rightarrow> host_value \<Rightarrow> BoundedToolExecutorLimits \<Rightarrow> js_string \<Rightarrow>
    NormalizedApplicationToolOutput option" where
  "normalizeOutput F parse_url R output limits toolCallId = (case outputProjection output of
     BrokenProjection \<Rightarrow> None
   | NotProjection \<Rightarrow>
       map_option (\<lambda>content. \<lparr>no_content = content, no_citationRecords = None\<rparr>) (normalizeContentOutput F R output limits)
   | Projection content records \<Rightarrow>
       (case normalizeContentOutput F R (if content \<in> {HNull, HUndefined} then output else content) limits of
          None \<Rightarrow> None
        | Some parts \<Rightarrow>
            (case Option.bind (plain_json records) (\<lambda>r. case normalizeCitationRecords parse_url r of Inl _ \<Rightarrow> None | Inr s \<Rightarrow> Some s) of
               None \<Rightarrow> None
             | Some citationRecords \<Rightarrow>
                 if rs_citations citationRecords = [] then None
                 else if list_ex (\<lambda>c. \<not> links_to_call toolCallId c) (rs_citations citationRecords) then None
                 else Some \<lparr>no_content = parts, no_citationRecords = Some citationRecords\<rparr>)))"

end
