(* ===== verification/ToolOutputProperties.thy ===== *)
theory ToolOutputProperties
  imports ToolOutput
begin

text \<open>
  What the copies of an executor guarantee: a copy is JSON data within its bounds, copying JSON
  data changes nothing, and what reaches the model of a tool's output is bounded and free of
  credentials, with citations of this very call.
\<close>

section \<open>Copies are bounded JSON\<close>

text \<open>Values in which every array is regular.\<close>

function (sequential) native :: "host_value \<Rightarrow> bool"
  and native_cells :: "host_value option list \<Rightarrow> bool"
  and native_props :: "(js_string \<times> bool \<times> host_value option) list \<Rightarrow> bool"
  where
  "native (HArray foreign extra cells) = (foreign = None \<and> native_cells cells)"
| "native (HObject prototype symbols props) = native_props props"
| "native _ = True"
| "native_cells [] = True"
| "native_cells (None # cells) = native_cells cells"
| "native_cells (Some v # cells) = (native v \<and> native_cells cells)"
| "native_props [] = True"
| "native_props ((key, enumerable, None) # props) = native_props props"
| "native_props ((key, enumerable, Some v) # props) = (native v \<and> native_props props)"
  by pat_completeness auto
termination
  by (relation "measure (\<lambda>x. case x of
      Inl v \<Rightarrow> Suc (2 * size v)
    | Inr (Inl vs) \<Rightarrow> 2 * size_list (size_option size) vs
    | Inr (Inr fs) \<Rightarrow> 2 * size_list (size_prod (\<lambda>_. 0) (size_prod (\<lambda>_. 0) (size_option size))) fs)") auto

lemma native_host_of: "native (host_of v)"
proof (induction v rule: measure_induct_rule [of size])
  case (less v)
  have cells: "(\<And>x. x \<in> set xs \<Longrightarrow> native (host_of x)) \<Longrightarrow> native_cells (map (\<lambda>x. Some (host_of x)) xs)" for xs
    by (induction xs) simp_all
  have props: "(\<And>f. f \<in> set fs \<Longrightarrow> native (host_of (snd f))) \<Longrightarrow>
      native_props (map (\<lambda>f. (fst f, True, Some (host_of (snd f)))) fs)" for fs
    by (induction fs) simp_all
  have "size (snd f) < size (JObj fs)" if "f \<in> set fs" for f and fs :: js_object using that by (induction fs) auto
  then show ?case
    using less by (cases v) (auto intro!: cells props simp: size_list_estimation' less_Suc_eq_le)
qed

fun json_safe :: "copy_bounds \<Rightarrow> nat \<Rightarrow> json \<Rightarrow> bool" where
  "json_safe B d (JNum n) = (d \<le> cp_depth B \<and> isFinite n)"
| "json_safe B d (JStr s) = (d \<le> cp_depth B \<and> (cp_sensitive B \<longrightarrow> \<not> matches_any OUTPUT_CREDENTIAL_VALUE_PATTERNS s))"
| "json_safe B d (JArr xs) = (d \<le> cp_depth B \<and> length xs \<le> cp_items B \<and> list_all (json_safe B (Suc d)) xs)"
| "json_safe B d (JObj fs) = (d \<le> cp_depth B \<and> list_all (\<lambda>f. (cp_sensitive B \<longrightarrow>
     normalizeFieldName (fst f) \<notin> js ` set FORBIDDEN_OUTPUT_FIELDS) \<and> json_safe B (Suc d) (snd f)) fs)"
| "json_safe B d _ = (d \<le> cp_depth B)"

declare copy_value.simps [simp del]

lemma copy_items_length: "copy_items F B cells d n = Some (xs, m) \<Longrightarrow> length xs = length cells"
proof (induction cells arbitrary: n xs m)
  case (Cons c cells)
  then show ?case by (cases c) (auto split: option.splits)
qed simp

lemma copy_safe:
  "copy_value F B v d n = Some (j, m) \<Longrightarrow> native v \<Longrightarrow> json_safe B d j \<and> m = n + node_count j \<and> m \<le> cp_nodes B"
  "copy_items F B cells d n = Some (xs, m) \<Longrightarrow> native_cells cells \<Longrightarrow> n \<le> cp_nodes B \<Longrightarrow>
     list_all (json_safe B (Suc d)) xs \<and> m = n + sum_list (map node_count xs) \<and> m \<le> cp_nodes B"
  "copy_fields F B props d n = Some (fs, m) \<Longrightarrow> native_props props \<Longrightarrow> n \<le> cp_nodes B \<Longrightarrow>
     list_all (\<lambda>f. (cp_sensitive B \<longrightarrow> normalizeFieldName (fst f) \<notin> js ` set FORBIDDEN_OUTPUT_FIELDS) \<and> json_safe B (Suc d) (snd f)) fs \<and>
     m = n + sum_list (map (\<lambda>f. node_count (snd f)) fs) \<and> m \<le> cp_nodes B"
proof (induction F B v d n and F B cells d n and F B props d n arbitrary: j m and xs m and fs m
    rule: copy_value_copy_items_copy_fields.induct)
  case (1 F B v d n)
  from "1.prems" have room: "\<not> (cp_nodes B < n + 1 \<or> cp_depth B < d)" by (auto simp: copy_value.simps Let_def)
  show ?case
  proof (cases v)
    case (HArray foreign extra cells)
    with "1.prems"(2) have here: "foreign = None" "native_cells cells" by simp_all
    with HArray "1.prems"(1) room obtain xs where xs: "copy_items F B cells d (n + 1) = Some (xs, m)" "j = JArr xs" "length cells \<le> cp_items B"
      by (auto simp: copy_value.simps Let_def split: if_splits)
    moreover have "\<not> (cp_items B < length cells \<or> extra \<or> list_ex Option.is_none cells)"
      using "1.prems"(1) HArray by (auto simp: copy_value.simps Let_def split: if_splits)
    ultimately show ?thesis
      using "1.IH"(1) [OF refl room HArray _ _ xs(1) here(2)] here(1) room copy_items_length [OF xs(1)] by simp
  next
    case (HObject prototype symbols props)
    with "1.prems" room obtain fs where fs: "copy_fields F B props d (n + 1) = Some (fs, m)" "j = JObj fs"
      by (auto simp: copy_value.simps Let_def split: if_splits)
    moreover have "\<not> (\<not> plain_prototype prototype \<or> symbols)"
      using "1.prems" HObject by (auto simp: copy_value.simps Let_def split: if_splits)
    ultimately show ?thesis
      using "1.IH"(2) [OF refl room HObject _ fs(1)] "1.prems"(2) HObject room by simp
  qed (use "1.prems" room in \<open>auto simp: copy_value.simps Let_def split: if_splits\<close>)
next
  case (4 F B v cells d n)
  then obtain x k ys where x: "copy_value F B v (d + 1) n = Some (x, k)" "copy_items F B cells d k = Some (ys, m)" "xs = x # ys"
    by (auto split: option.splits)
  moreover from "4.prems"(2) have "native v" "native_cells cells" by simp_all
  ultimately show ?case using "4.IH"(1) [OF x(1)] "4.IH"(2) [OF x(1) refl x(2)] by auto
next
  case (7 F B key enumerable v props d n)
  then obtain x k ys where x: "copy_value F B v (d + 1) n = Some (x, k)" "copy_fields F B props d k = Some (ys, m)" "fs = (key, x) # ys"
    and key: "\<not> (cp_sensitive B \<and> normalizeFieldName key \<in> set (map js FORBIDDEN_OUTPUT_FIELDS))"
    by (auto split: option.splits if_splits)
  moreover from "7.prems"(2) have "native v" "native_props props" by simp_all
  ultimately show ?case using "7.IH"(1) [OF key x(1)] "7.IH"(2) [OF key x(1) refl x(2)] by auto
qed auto

text \<open>JSON data is copied as it is, if it is within the bounds.\<close>

lemma copy_items_json:
  assumes "\<And>x n. x \<in> set xs \<Longrightarrow> n + node_count x \<le> cp_nodes B \<Longrightarrow> copy_value F B (host_of x) (Suc d) n = Some (x, n + node_count x)"
    and "n + sum_list (map node_count xs) \<le> cp_nodes B"
  shows "copy_items F B (map (\<lambda>x. Some (host_of x)) xs) d n = Some (xs, n + sum_list (map node_count xs))"
  using assms by (induction xs arbitrary: n) (simp_all add: add.assoc)

lemma copy_fields_json:
  assumes "\<And>f n. f \<in> set fs \<Longrightarrow> n + node_count (snd f) \<le> cp_nodes B \<Longrightarrow>
      copy_value F B (host_of (snd f)) (Suc d) n = Some (snd f, n + node_count (snd f))"
    and "\<And>f. f \<in> set fs \<Longrightarrow> cp_sensitive B \<Longrightarrow> normalizeFieldName (fst f) \<notin> js ` set FORBIDDEN_OUTPUT_FIELDS"
    and "n + sum_list (map (\<lambda>f. node_count (snd f)) fs) \<le> cp_nodes B"
  shows "copy_fields F B (map (\<lambda>f. (fst f, True, Some (host_of (snd f)))) fs) d n =
    Some (fs, n + sum_list (map (\<lambda>f. node_count (snd f)) fs))"
  using assms
proof (induction fs arbitrary: n)
  case (Cons f fs)
  have "copy_fields F B (map (\<lambda>f. (fst f, True, Some (host_of (snd f)))) fs) d (n + node_count (snd f)) =
      Some (fs, n + node_count (snd f) + sum_list (map (\<lambda>f. node_count (snd f)) fs))"
    by (rule Cons.IH) (use Cons.prems in \<open>auto simp: add.assoc\<close>)
  moreover have "copy_value F B (host_of (snd f)) (Suc d) n = Some (snd f, n + node_count (snd f))"
    using Cons.prems(3) by (intro Cons.prems(1)) simp_all
  ultimately show ?case using Cons.prems(2) [of f] by (auto simp: add.assoc)
qed simp

lemma size_entry_less: "f \<in> set fs \<Longrightarrow> size (snd f) < size (JObj fs)"
  by (induction fs) auto

text \<open>A copy of JSON data is that data.\<close>

lemma copy_of_json: "copy_value F B (host_of v) d n = Some (j, m) \<Longrightarrow> j = v"
proof (induction v arbitrary: d n j m rule: measure_induct_rule [of size])
  case (less v)
  have cells: "copy_items F B (map (\<lambda>x. Some (host_of x)) xs) d n = Some (ys, m) \<Longrightarrow> (\<And>x. x \<in> set xs \<Longrightarrow> size x < size v) \<Longrightarrow> ys = xs"
    for xs ys d n m
    by (induction xs arbitrary: ys n m) (auto split: option.splits dest: less.IH)
  have props: "copy_fields F B (map (\<lambda>f. (fst f, True, Some (host_of (snd f)))) fs) d n = Some (gs, m) \<Longrightarrow>
      (\<And>f. f \<in> set fs \<Longrightarrow> size (snd f) < size v) \<Longrightarrow> gs = fs" for fs gs d n m
  proof (induction fs arbitrary: gs n m)
    case (Cons f fs)
    from Cons.prems(1) obtain y k hs where y: "copy_value F B (host_of (snd f)) (Suc d) n = Some (y, k)" "gs = (fst f, y) # hs"
      "copy_fields F B (map (\<lambda>f. (fst f, True, Some (host_of (snd f)))) fs) d k = Some (hs, m)"
      by (auto split: option.splits if_splits)
    from less.IH [OF _ y(1)] Cons.prems(2) Cons.IH [OF y(3)] show ?case by (simp add: y(2))
  qed simp
  show ?case
  proof (cases v)
    case (JArr xs)
    with less.prems obtain ys k where "copy_items F B (map (\<lambda>x. Some (host_of x)) xs) d (n + 1) = Some (ys, k)" "j = JArr ys"
      by (auto simp: copy_value.simps Let_def split: if_splits)
    with cells [OF this(1)] show ?thesis by (auto simp: JArr size_list_estimation' less_Suc_eq_le)
  next
    case (JObj fs)
    with less.prems obtain gs k where "copy_fields F B (map (\<lambda>f. (fst f, True, Some (host_of (snd f)))) fs) d (n + 1) = Some (gs, k)" "j = JObj gs"
      by (auto simp: copy_value.simps Let_def split: if_splits)
    with props [OF this(1)] size_entry_less [of _ fs] show ?thesis by (auto simp: JObj)
  qed (use less.prems in \<open>auto simp: copy_value.simps Let_def split: if_splits\<close>)
qed

lemma node_count_pos: "0 < node_count j"
  by (cases j) simp_all

lemma copy_json:
  "json_safe B d j \<Longrightarrow> n + node_count j \<le> cp_nodes B \<Longrightarrow> copy_value F B (host_of j) d n = Some (j, n + node_count j)"
proof (induction j arbitrary: d n rule: measure_induct_rule [of size])
  case (less j)
  show ?case
  proof (cases j)
    case (JArr xs)
    have "copy_items F B (map (\<lambda>x. Some (host_of x)) xs) d (n + 1) = Some (xs, n + 1 + sum_list (map node_count xs))"
    proof (rule copy_items_json)
      fix x n assume x: "x \<in> set xs" "n + node_count x \<le> cp_nodes B"
      then have "size x < size j" by (auto simp: JArr size_list_estimation' less_Suc_eq_le)
      with less.IH [OF this] less.prems(1) x show "copy_value F B (host_of x) (Suc d) n = Some (x, n + node_count x)"
        by (simp add: JArr list_all_iff)
    qed (use less.prems in \<open>simp add: JArr\<close>)
    with less.prems show ?thesis by (simp add: JArr copy_value.simps Let_def list_ex_iff)
  next
    case (JObj fs)
    have "copy_fields F B (map (\<lambda>f. (fst f, True, Some (host_of (snd f)))) fs) d (n + 1) =
        Some (fs, n + 1 + sum_list (map (\<lambda>f. node_count (snd f)) fs))"
    proof (rule copy_fields_json)
      fix f n assume f: "f \<in> set fs" "n + node_count (snd f) \<le> cp_nodes B"
      have "size (snd f) < size j" using size_entry_less [OF f(1)] by (simp add: JObj)
      with less.IH [OF this] less.prems(1) f show "copy_value F B (host_of (snd f)) (Suc d) n = Some (snd f, n + node_count (snd f))"
        by (simp add: JObj list_all_iff)
    qed (use less.prems in \<open>auto simp: JObj list_all_iff\<close>)
    with less.prems show ?thesis by (simp add: JObj copy_value.simps Let_def plain_prototype_def)
  qed (use less.prems in \<open>auto simp: copy_value.simps Let_def\<close>)
qed

lemma argument_copy:
  assumes "cloneArguments F h = Some fs" "native h"
  shows "json_safe argument_bounds 0 (JObj fs)" "node_count (JObj fs) \<le> 10000"
proof -
  from assms(1) obtain m where "copy_value F argument_bounds h 0 0 = Some (JObj fs, m)"
    by (auto simp: cloneArguments_def split: option.splits json.splits)
  from copy_safe(1) [OF this assms(2)] show "json_safe argument_bounds 0 (JObj fs)" "node_count (JObj fs) \<le> 10000"
    by (simp_all add: argument_bounds_def)
qed

lemma argument_copied:
  assumes "json_safe argument_bounds 0 (JObj fs)" "node_count (JObj fs) \<le> 10000"
  shows "cloneArguments F (host_of (JObj fs)) = Some fs"
proof -
  have "copy_value F argument_bounds (host_of (JObj fs)) 0 0 = Some (JObj fs, 0 + node_count (JObj fs))"
    by (rule copy_json) (use assms in \<open>simp_all add: argument_bounds_def\<close>)
  then show ?thesis by (simp add: cloneArguments_def)
qed

text \<open>Whatever was copied once is copied again without change, so a second copy never fails.\<close>

lemma cloned_again: "cloneArguments F h = Some fs \<Longrightarrow> native h \<Longrightarrow> cloneArguments F (host_of (JObj fs)) = Some fs"
  using argument_copy argument_copied by blast

text \<open>
  C39: the copy of JSON data that an executor takes of a call's arguments is the data itself,
  and it exists exactly for an object of at most 10000 values nested at most 20 deep, with finite
  numbers and no array longer than 10000.
\<close>

theorem cloneArguments_iff:
  "cloneArguments F (host_of v) = Some fs \<longleftrightarrow> v = JObj fs \<and> json_safe argument_bounds 0 v \<and> node_count v \<le> 10000"
proof
  assume a: "cloneArguments F (host_of v) = Some fs"
  then obtain m where "copy_value F argument_bounds (host_of v) 0 0 = Some (JObj fs, m)"
    by (auto simp: cloneArguments_def split: option.splits json.splits)
  from copy_of_json [OF this] argument_copy [OF a native_host_of]
  show "v = JObj fs \<and> json_safe argument_bounds 0 v \<and> node_count v \<le> 10000" by simp
next
  assume "v = JObj fs \<and> json_safe argument_bounds 0 v \<and> node_count v \<le> 10000"
  then show "cloneArguments F (host_of v) = Some fs" using argument_copied by blast
qed

section \<open>The size of a result\<close>

lemma utf8_ascii: "c \<le> 0x7F \<Longrightarrow> utf8ByteLength (a @ c # b) = utf8ByteLength a + 1 + utf8ByteLength b"
proof (induction a rule: utf8ByteLength.induct)
  case (2 d ds)
  have c: "\<not> low_surrogate c" using 2(5) by (simp add: low_surrogate_def word_le_nat_alt)
  show ?case
  proof (cases "high_surrogate d \<and> ds \<noteq> [] \<and> low_surrogate (hd ds)")
    case True
    then show ?thesis using 2 by (cases ds) auto
  next
    case False
    with 2 c show ?thesis by (cases ds) auto
  qed
qed simp

lemma utf8_join: "ts \<noteq> [] \<Longrightarrow> utf8ByteLength (join_comma ts) = sum_list (map utf8ByteLength ts) + (length ts - 1)"
proof (induction ts rule: join_comma.induct)
  case (3 x y ys)
  have "utf8ByteLength (x @ 0x2C # join_comma (y # ys)) = utf8ByteLength x + 1 + utf8ByteLength (join_comma (y # ys))"
    by (rule utf8_ascii) simp
  with 3 show ?case by (simp add: js_def)
qed auto

lemma utf8_wrapped:
  "utf8ByteLength (js ''['' @ s @ js '']'') = utf8ByteLength s + 2" "utf8ByteLength (js ''{'' @ s @ js ''}'') = utf8ByteLength s + 2"
  using utf8_ascii [of "0x5D" s "[]"] utf8_ascii [of "0x7D" s "[]"] by (simp_all add: js_def)

lemma swapped_size: "utf8ByteLength (stringify R (JObj [b, a])) = utf8ByteLength (stringify R (JObj [a, b]))"
  unfolding stringify.simps utf8_wrapped by (simp add: utf8_join del: join_comma.simps)

lemma content_part_entries:
  assumes "content_part x = Some p"
  shows "\<exists>a b. (x = JObj [a, b] \<or> x = JObj [b, a]) \<and> tool_part_json p = JObj [a, b]"
proof -
  from assms obtain fs where x: "x = JObj fs" "length fs = 2"
    by (auto simp: content_part_def split: json.splits if_splits)
  then obtain e f where fs: "fs = [e, f]" by (auto simp: length_Suc_conv numeral_2_eq_2)
  obtain k v l w where [simp]: "e = (k, v)" "f = (l, w)" by (metis surj_pair)
  from assms show ?thesis
    unfolding x fs content_part_def
    by (auto simp: tool_part_json_def fld_def prop_of_def split: if_splits json.splits)
qed

section \<open>The content of a result\<close>

definition content_safe :: "(rat \<Rightarrow> js_string) \<Rightarrow> BoundedToolExecutorLimits \<Rightarrow> ConversationToolResultContentPart list \<Rightarrow> bool" where
  "content_safe R limits parts \<longleftrightarrow> (let v = JArr (map tool_part_json parts) in
     parts \<noteq> [] \<and> json_safe (result_bounds limits) 0 v \<and> node_count v \<le> nat (bl_maxResultNodes limits) \<and>
     int (utf8ByteLength (stringify R v)) \<le> bl_maxResultBytes limits)"

lemma those_map_Some: "those (map f xs) = Some ys \<longleftrightarrow> list_all2 (\<lambda>x y. f x = Some y) xs ys"
  by (induction xs arbitrary: ys) (auto simp: list_all2_Cons1 split: option.splits)

lemma part_same:
  assumes "content_part x = Some p"
  shows "json_safe B d (tool_part_json p) = json_safe B d x" "node_count (tool_part_json p) = node_count x"
    "utf8ByteLength (stringify R (tool_part_json p)) = utf8ByteLength (stringify R x)"
  using content_part_entries [OF assms] swapped_size by auto

lemma parts_same:
  assumes "list_all2 (\<lambda>x p. content_part x = Some p) xs ps"
  shows "json_safe B 0 (JArr (map tool_part_json ps)) = json_safe B 0 (JArr xs)"
    "node_count (JArr (map tool_part_json ps)) = node_count (JArr xs)"
    "utf8ByteLength (stringify R (JArr (map tool_part_json ps))) = utf8ByteLength (stringify R (JArr xs))"
proof -
  have same: "list_all (json_safe B (Suc 0)) (map tool_part_json ps) = list_all (json_safe B (Suc 0)) xs \<and>
      map node_count (map tool_part_json ps) = map node_count xs \<and>
      map utf8ByteLength (map (stringify R) (map tool_part_json ps)) = map utf8ByteLength (map (stringify R) xs)"
    using assms by (induction rule: list_all2_induct) (auto simp: part_same)
  have length: "length ps = length xs" using list_all2_lengthD [OF assms] by simp
  show "json_safe B 0 (JArr (map tool_part_json ps)) = json_safe B 0 (JArr xs)" using same length by simp
  show "node_count (JArr (map tool_part_json ps)) = node_count (JArr xs)" using same by simp
  show "utf8ByteLength (stringify R (JArr (map tool_part_json ps))) = utf8ByteLength (stringify R (JArr xs))"
  proof (cases "xs = []")
    case False
    then have some: "map (stringify R) xs \<noteq> []" "map (stringify R) (map tool_part_json ps) \<noteq> []" using length by auto
    show ?thesis
      unfolding stringify.simps utf8_wrapped utf8_join [OF some(1)] utf8_join [OF some(2)] using same length
      by (simp only: length_map)
  qed (use length in simp)
qed

lemma native_candidate: "native v \<Longrightarrow> native (content_candidate F v)"
  by (auto simp: content_candidate_def host_array_def host_object_def split: host_value.split option.split)

lemma native_entry: "native_props props \<Longrightarrow> (k, e, Some v) \<in> set props \<Longrightarrow> native v"
proof (induction props)
  case (Cons p props)
  obtain k' e' c where "p = (k', e', c)" by (rule prod_cases3)
  with Cons show ?case by (cases c) auto
qed simp

lemma native_own_value: "native_props props \<Longrightarrow> own_value props k = Some v \<Longrightarrow> native v"
  by (auto simp: own_value_def own_descriptor_def split: option.splits dest!: map_of_SomeD intro: native_entry)

lemma normalizeContentOutput_safe:
  assumes "normalizeContentOutput F R v limits = Some parts" "native v"
  shows "content_safe R limits parts"
proof -
  from assms(1) obtain xs where xs: "cloneOutput F R (content_candidate F v) limits = Some (JArr xs)" "xs \<noteq> []"
    "list_all2 (\<lambda>x p. content_part x = Some p) xs parts"
    by (auto simp: normalizeContentOutput_def those_map_Some split: option.splits json.splits if_splits)
  from xs(1) obtain m where m: "copy_value F (result_bounds limits) (content_candidate F v) 0 0 = Some (JArr xs, m)"
    and bytes: "int (utf8ByteLength (stringify R (JArr xs))) \<le> bl_maxResultBytes limits"
    by (auto simp: cloneOutput_def not_less simp del: stringify.simps split: option.splits if_splits)
  have "parts \<noteq> []" using xs(2,3) by auto
  with copy_safe(1) [OF m native_candidate [OF assms(2)]] bytes show ?thesis
    unfolding content_safe_def Let_def parts_same [OF xs(3)]
    by (simp add: result_bounds_def del: stringify.simps json_safe.simps node_count.simps)
qed

lemma normalized_records:
  assumes "Option.bind (plain_json v) (\<lambda>r. case normalizeCitationRecords U r of Inl _ \<Rightarrow> None | Inr s \<Rightarrow> Some s) = Some records"
  shows "citation_set_ok records"
proof -
  from assms obtain j where "(case normalizeCitationRecords U j of Inl _ \<Rightarrow> None | Inr s \<Rightarrow> Some s) = Some records"
    by (auto simp: bind_eq_Some_conv)
  then have "normalizeCitationRecords U j = Inr records" by (cases "normalizeCitationRecords U j") simp_all
  then show ?thesis by (rule normalizeCitationRecords_set_ok)
qed

text \<open>
  C38: what \<^verbatim>\<open>normalizeOutput\<close> makes of the value a tool returned, with accessors, foreign objects, gaps
  or references to itself, but without foreign arrays, is a non-empty list of text and JSON parts
  that as a whole respect the limits of the executor on values, depth and serialised size, hold
  no forbidden field name and no credential text, and only finite numbers; and its citation
  records, if any, are a normalised set that is not empty and links to this very call.
\<close>

theorem tool_output_safe:
  assumes normalized: "normalizeOutput F parse_url R v limits toolCallId = Some out" and native: "native v"
  shows "content_safe R limits (no_content out) \<and>
    (case no_citationRecords out of None \<Rightarrow> True
     | Some records \<Rightarrow> citation_set_ok records \<and> rs_citations records \<noteq> [] \<and>
         list_all (links_to_call toolCallId) (rs_citations records))"
proof (cases "outputProjection v")
  case NotProjection
  with normalized show ?thesis by (auto simp: normalizeOutput_def normalizeContentOutput_safe [OF _ native])
next
  case BrokenProjection
  with normalized show ?thesis by (simp add: normalizeOutput_def)
next
  case (Projection content records)
  with normalized obtain parts links where
    parts: "normalizeContentOutput F R (if content \<in> {HNull, HUndefined} then v else content) limits = Some parts"
    and links: "Option.bind (plain_json records) (\<lambda>r. case normalizeCitationRecords parse_url r of Inl _ \<Rightarrow> None | Inr s \<Rightarrow> Some s) = Some links"
    and out: "rs_citations links \<noteq> []" "\<not> list_ex (\<lambda>c. \<not> links_to_call toolCallId c) (rs_citations links)"
      "out = \<lparr>no_content = parts, no_citationRecords = Some links\<rparr>"
    unfolding normalizeOutput_def by (simp split: option.splits if_splits)
  from Projection obtain prototype symbols props where "v = HObject prototype symbols props" "own_value props ''content'' = Some content"
    by (auto simp: outputProjection_def split: host_value.splits if_splits option.splits)
  with native have "native (if content \<in> {HNull, HUndefined} then v else content)"
    using native_own_value [of props "''content''" content] by (auto simp del: native.simps simp: native.simps(2))
  from normalizeContentOutput_safe [OF parts this] normalized_records [OF links] out show ?thesis
    by (auto simp: list_ex_iff list_all_iff)
qed

text \<open>
  A foreign array escapes the inspection, because the copy is what its own \<^verbatim>\<open>map\<close> answers: here a
  bearer token.
\<close>

lemma foreign_array_escapes:
  fixes token :: js_string
  defines "part \<equiv> JObj [(js ''type'', JText ''text''), (js ''text'', JStr token)]"
  assumes "fa_map F 7 0 1 = Some (JArr [part], 1)" "fa_every F 7"
    and "int (utf8ByteLength (stringify R (JArr [part]))) \<le> 65536"
  shows "normalizeOutput F parse_url R (HArray (Some 7) False [Some HNull]) DEFAULT_BOUNDED_TOOL_EXECUTOR_LIMITS call =
    Some \<lparr>no_content = [ToolTextPart token], no_citationRecords = None\<rparr>"
  using assms
  by (simp add: normalizeOutput_def outputProjection_def normalizeContentOutput_def content_candidate_def resemblesContentPart_def
      cloneOutput_def copy_value.simps Let_def result_bounds_def DEFAULT_BOUNDED_TOOL_EXECUTOR_LIMITS_def content_part_def
      del: stringify.simps)

lemma short_text_output:
  assumes "length s < 11"
  shows "normalizeOutput F parse_url R (HStr s) DEFAULT_BOUNDED_TOOL_EXECUTOR_LIMITS call =
    Some \<lparr>no_content = [ToolTextPart s], no_citationRecords = None\<rparr>"
proof -
  let ?L = "DEFAULT_BOUNDED_TOOL_EXECUTOR_LIMITS"
  let ?v = "JArr [JObj [(js ''type'', JText ''text''), (js ''text'', JStr s)]]"
  have quiet: "\<not> matches_any OUTPUT_CREDENTIAL_VALUE_PATTERNS t" if "length t < 11" for t
    using credential_patterns_short(2) [OF that] by (simp add: OUTPUT_CREDENTIAL_VALUE_PATTERNS_def CITATION_CREDENTIAL_VALUE_PATTERNS_def)
  have names: "normalizeFieldName (js ''type'') = js ''type''" "normalizeFieldName (js ''text'') = js ''text''"
    by (simp_all add: normalizeFieldName_def normalize_unit_def js_def in_range_def is_digit_def)
  have "content_candidate F (HStr s) = host_of ?v"
    by (simp add: content_candidate_def host_array_def host_object_def)
  moreover have "copy_value F (result_bounds ?L) (host_of ?v) 0 0 = Some (?v, 0 + node_count ?v)"
    by (rule copy_json) (use assms quiet names in \<open>simp_all add: result_bounds_def DEFAULT_BOUNDED_TOOL_EXECUTOR_LIMITS_def FORBIDDEN_OUTPUT_FIELDS_def\<close>)
  moreover have "utf8ByteLength (stringify R ?v) \<le> 3 * length (stringify R ?v)" using utf8ByteLength_bounds by blast
  moreover have "length (stringify R ?v) \<le> 1000"
    using length_quote [of s] length_quote [of "js ''type''"] length_quote [of "js ''text''"] assms by simp
  ultimately have "cloneOutput F R (content_candidate F (HStr s)) ?L = Some ?v"
    by (simp add: cloneOutput_def DEFAULT_BOUNDED_TOOL_EXECUTOR_LIMITS_def del: stringify.simps host_of.simps)
  then show ?thesis
    by (simp add: normalizeOutput_def outputProjection_def normalizeContentOutput_def content_part_def)
qed

text \<open>A host without foreign arrays.\<close>

definition no_foreign_arrays :: foreign_arrays where
  "no_foreign_arrays = \<lparr>fa_map = \<lambda>_ _ _. None, fa_every = \<lambda>_. False\<rparr>"

theorem tool_output_safe_witness:
  "content_safe (\<lambda>_. []) DEFAULT_BOUNDED_TOOL_EXECUTOR_LIMITS [ToolTextPart (js ''42 rows'')]"
  using tool_output_safe [OF short_text_output [of "js ''42 rows''" no_foreign_arrays "\<lambda>_. None" "\<lambda>_. []" "js ''call1''"]] by simp

text \<open>An envelope whose content is \<^verbatim>\<open>null\<close> is published itself, with the citations it carries, as JSON content.\<close>

lemma null_content_publishes_envelope:
  fixes limits :: BoundedToolExecutorLimits
  defines "envelope records \<equiv> host_object [(js ''type'', HStr (js ''handrail.application_tool_output'')), (js ''content'', HNull),
    (js ''citation_records'', records)]"
  shows "outputProjection (envelope records) = Projection HNull records"
    "content_candidate F (envelope records) = host_array [host_object [(js ''type'', HStr (js ''json'')), (js ''value'', envelope records)]]"
  by (simp_all add: envelope_def host_object_def outputProjection_def own_value_def own_descriptor_def content_candidate_def
    resemblesContentPart_def)

end
