(* ===== verification/ToolLimiter.thy ===== *)
theory ToolLimiter
  imports Main
begin

text \<open>
  \<^verbatim>\<open>src/tools/executor.ts\<close>, \<^verbatim>\<open>ConcurrencyLimiter\<close>: at most a fixed number of tools run at the same
  time, the others wait in a queue. A promise that \<^verbatim>\<open>acquire\<close> returns is a ticket, and a signal is
  a number; callers may ask, release and abort in any order.
\<close>

section \<open>Slots and the queue\<close>

datatype (plugins only: code size) slot_answer = SlotGranted | SlotRefused

record Waiter =
  wt_ticket :: nat
  wt_signal :: nat

text \<open>
  \<open>lm_settled\<close> lists the promises that were settled and \<open>lm_released\<close> the release functions
  whose flag is set; \<open>lm_aborted\<close> are the signals that were aborted.
\<close>

record limiter =
  lm_maximum :: int
  lm_active :: int
  lm_waiters :: "Waiter list"
  lm_settled :: "(nat \<times> slot_answer) list"
  lm_released :: "nat list"
  lm_aborted :: "nat list"
  lm_next :: nat

definition new_limiter :: "int \<Rightarrow> limiter" where
  "new_limiter maximum = \<lparr>lm_maximum = maximum, lm_active = 0, lm_waiters = [], lm_settled = [], lm_released = [],
     lm_aborted = [], lm_next = 0\<rparr>"

definition acquire :: "nat \<Rightarrow> limiter \<Rightarrow> limiter" where
  "acquire signal L =
     (let ticket = lm_next L; L = L\<lparr>lm_next := ticket + 1\<rparr> in
      if signal \<in> set (lm_aborted L) then L\<lparr>lm_settled := lm_settled L @ [(ticket, SlotRefused)]\<rparr>
      else if lm_active L < lm_maximum L
      then L\<lparr>lm_active := lm_active L + 1, lm_settled := lm_settled L @ [(ticket, SlotGranted)]\<rparr>
      else L\<lparr>lm_waiters := lm_waiters L @ [\<lparr>wt_ticket = ticket, wt_signal = signal\<rparr>]\<rparr>)"

text \<open>The loop of \<^verbatim>\<open>#startNext\<close>: the new count, the waiters that remain, and the promises it settles.\<close>

fun start_waiters :: "nat list \<Rightarrow> int \<Rightarrow> int \<Rightarrow> Waiter list \<Rightarrow> int \<times> Waiter list \<times> (nat \<times> slot_answer) list" where
  "start_waiters aborted maximum active [] = (active, [], [])"
| "start_waiters aborted maximum active (w # ws) =
     (if \<not> active < maximum then (active, w # ws, [])
      else if wt_signal w \<in> set aborted
      then (case start_waiters aborted maximum active ws of (n, rest, settled) \<Rightarrow> (n, rest, (wt_ticket w, SlotRefused) # settled))
      else (case start_waiters aborted maximum (active + 1) ws of (n, rest, settled) \<Rightarrow> (n, rest, (wt_ticket w, SlotGranted) # settled)))"

definition startNext :: "limiter \<Rightarrow> limiter" where
  "startNext L = (case start_waiters (lm_aborted L) (lm_maximum L) (lm_active L) (lm_waiters L) of (n, rest, settled) \<Rightarrow>
     L\<lparr>lm_active := n, lm_waiters := rest, lm_settled := lm_settled L @ settled\<rparr>)"

text \<open>The function that a granted promise resolves to.\<close>

definition release :: "nat \<Rightarrow> limiter \<Rightarrow> limiter" where
  "release ticket L =
     (if ticket \<in> set (lm_released L) then L
      else startNext (L\<lparr>lm_released := ticket # lm_released L, lm_active := lm_active L - 1\<rparr>))"

text \<open>Aborting a signal runs the listeners of the waiters that were registered on it.\<close>

definition abort_signal :: "nat \<Rightarrow> limiter \<Rightarrow> limiter" where
  "abort_signal signal L =
     (if signal \<in> set (lm_aborted L) then L
      else L\<lparr>lm_aborted := signal # lm_aborted L,
        lm_waiters := filter (\<lambda>w. wt_signal w \<noteq> signal) (lm_waiters L),
        lm_settled := lm_settled L @ map (\<lambda>w. (wt_ticket w, SlotRefused)) (filter (\<lambda>w. wt_signal w = signal) (lm_waiters L))\<rparr>)"

definition granted :: "limiter \<Rightarrow> nat list" where
  "granted L = map fst (filter (\<lambda>s. snd s = SlotGranted) (lm_settled L))"

definition holding :: "limiter \<Rightarrow> nat list" where
  "holding L = filter (\<lambda>t. t \<notin> set (lm_released L)) (granted L)"

inductive limiter_step :: "limiter \<Rightarrow> limiter \<Rightarrow> bool" where
  ask: "limiter_step L (acquire signal L)"
| give_back: "t \<in> set (granted L) \<Longrightarrow> limiter_step L (release t L)"
| give_up: "limiter_step L (abort_signal signal L)"

inductive_cases limiter_stepE: "limiter_step L L'"

section \<open>The invariant\<close>

text \<open>
  Tickets are settled once or wait; the queue and the list of grants are in the order of asking,
  with all grants before all waiters; and nobody waits while a slot is free.
\<close>

definition limiter_ok :: "limiter \<Rightarrow> bool" where
  "limiter_ok L \<longleftrightarrow>
     lm_active L = int (length (holding L)) \<and> lm_active L \<le> lm_maximum L \<and>
     (lm_waiters L \<noteq> [] \<longrightarrow> lm_active L = lm_maximum L) \<and>
     distinct (map fst (lm_settled L) @ map wt_ticket (lm_waiters L)) \<and>
     set (map fst (lm_settled L) @ map wt_ticket (lm_waiters L)) = {..<lm_next L} \<and>
     sorted_wrt (<) (granted L @ map wt_ticket (lm_waiters L)) \<and>
     (\<forall>w \<in> set (lm_waiters L). wt_signal w \<notin> set (lm_aborted L)) \<and>
     set (lm_released L) \<subseteq> set (granted L)"

lemma granted_settled: "set (granted L) \<subseteq> fst ` set (lm_settled L)"
  by (auto simp: granted_def)

lemma granted_add:
  "granted (L\<lparr>lm_settled := lm_settled L @ settled\<rparr>) = granted L @ map fst (filter (\<lambda>s. snd s = SlotGranted) settled)"
  by (simp add: granted_def)

lemma limiter_ok_new: "0 \<le> maximum \<Longrightarrow> limiter_ok (new_limiter maximum)"
  by (auto simp: limiter_ok_def new_limiter_def granted_def holding_def)

lemma limiter_okD:
  assumes "limiter_ok L"
  shows "lm_active L = int (length (holding L))" "lm_active L \<le> lm_maximum L" "lm_waiters L \<noteq> [] \<Longrightarrow> lm_active L = lm_maximum L"
    "distinct (map fst (lm_settled L) @ map wt_ticket (lm_waiters L))"
    "set (map fst (lm_settled L) @ map wt_ticket (lm_waiters L)) = {..<lm_next L}"
    "sorted_wrt (<) (granted L @ map wt_ticket (lm_waiters L))"
    "w \<in> set (lm_waiters L) \<Longrightarrow> wt_signal w \<notin> set (lm_aborted L)" "set (lm_released L) \<subseteq> set (granted L)"
  using assms unfolding limiter_ok_def by blast+

text \<open>The ticket of a new request is not known yet.\<close>

lemma new_ticket:
  assumes "limiter_ok L"
  shows "lm_next L \<notin> set (map fst (lm_settled L) @ map wt_ticket (lm_waiters L))" "lm_next L \<notin> set (lm_released L)"
    "\<forall>t \<in> set (granted L @ map wt_ticket (lm_waiters L)). t < lm_next L"
proof -
  note known = limiter_okD(5) [OF assms] and granted = granted_settled [of L]
  show "lm_next L \<notin> set (map fst (lm_settled L) @ map wt_ticket (lm_waiters L))" using known by simp
  then show "lm_next L \<notin> set (lm_released L)" using limiter_okD(8) [OF assms] granted by auto
  show "\<forall>t \<in> set (granted L @ map wt_ticket (lm_waiters L)). t < lm_next L" using known granted by auto
qed

lemma limiter_ok_refused:
  assumes "limiter_ok L" "signal \<in> set (lm_aborted L)"
  shows "limiter_ok (acquire signal L)"
proof -
  have L': "acquire signal L = L\<lparr>lm_next := lm_next L + 1, lm_settled := lm_settled L @ [(lm_next L, SlotRefused)]\<rparr>"
    using assms(2) by (simp add: acquire_def Let_def)
  have g: "granted (acquire signal L) = granted L" by (simp add: L' granted_def)
  then have h: "holding (acquire signal L) = holding L" by (simp add: holding_def) (simp add: L')
  note ok = limiter_okD [OF assms(1)]
  show ?thesis
    unfolding limiter_ok_def g h
    using ok new_ticket [OF assms(1)] by (auto simp: L' lessThan_Suc)
qed

lemma limiter_ok_free:
  assumes "limiter_ok L" "signal \<notin> set (lm_aborted L)" "lm_active L < lm_maximum L"
  shows "limiter_ok (acquire signal L)"
proof -
  note ok = limiter_okD [OF assms(1)] and new = new_ticket [OF assms(1)]
  have L': "acquire signal L = L\<lparr>lm_next := lm_next L + 1, lm_active := lm_active L + 1,
      lm_settled := lm_settled L @ [(lm_next L, SlotGranted)]\<rparr>"
    using assms(2,3) by (simp add: acquire_def Let_def)
  from ok(3) assms(3) have empty: "lm_waiters L = []" by auto
  have g: "granted (acquire signal L) = granted L @ [lm_next L]" by (simp add: L' granted_def)
  then have h: "holding (acquire signal L) = holding L @ [lm_next L]" using new(2) by (simp add: holding_def) (simp add: L')
  have "sorted_wrt (<) (granted L @ [lm_next L])" using ok(6) new(3) empty by (simp add: sorted_wrt_append)
  then show ?thesis
    unfolding limiter_ok_def g h
    using ok(1,2,4,5,8) new assms(3) empty by (auto simp: L' lessThan_Suc)
qed

lemma limiter_ok_full:
  assumes "limiter_ok L" "signal \<notin> set (lm_aborted L)" "\<not> lm_active L < lm_maximum L"
  shows "limiter_ok (acquire signal L)"
proof -
  note ok = limiter_okD [OF assms(1)] and new = new_ticket [OF assms(1)]
  have L': "acquire signal L = L\<lparr>lm_next := lm_next L + 1,
      lm_waiters := lm_waiters L @ [\<lparr>wt_ticket = lm_next L, wt_signal = signal\<rparr>]\<rparr>"
    using assms(2,3) by (simp add: acquire_def Let_def)
  have g: "granted (acquire signal L) = granted L" by (simp add: L' granted_def)
  then have h: "holding (acquire signal L) = holding L" by (simp add: holding_def) (simp add: L')
  have "sorted_wrt (<) ((granted L @ map wt_ticket (lm_waiters L)) @ [lm_next L])"
    using ok(6) new(3) by (simp only: sorted_wrt_append) auto
  then show ?thesis
    unfolding limiter_ok_def g h
    using ok(1,2,4,5,7,8) new assms(2,3) by (auto simp: L' lessThan_Suc)
qed

lemma limiter_ok_acquire: "limiter_ok L \<Longrightarrow> limiter_ok (acquire signal L)"
  using limiter_ok_refused limiter_ok_free limiter_ok_full by blast

text \<open>A ticket that is given back is one that was held.\<close>

lemma filter_remove_length:
  "distinct xs \<Longrightarrow> t \<in> set xs \<Longrightarrow> t \<notin> A \<Longrightarrow>
   length (filter (\<lambda>x. x \<notin> insert t A) xs) + 1 = length (filter (\<lambda>x. x \<notin> A) xs)"
proof (induction xs)
  case (Cons x xs)
  show ?case
  proof (cases "x = t")
    case True
    with Cons.prems have "filter (\<lambda>x. x \<notin> insert t A) xs = filter (\<lambda>x. x \<notin> A) xs" by (intro filter_cong) auto
    with True Cons.prems show ?thesis by simp
  next
    case False
    with Cons show ?thesis by auto
  qed
qed simp

text \<open>When the signals of the waiters are live, the loop grants a prefix of the queue.\<close>

lemma start_waiters_prefix:
  assumes "\<forall>w \<in> set ws. wt_signal w \<notin> set aborted" "active \<le> maximum"
  shows "\<exists>k. start_waiters aborted maximum active ws =
    (active + int k, drop k ws, map (\<lambda>w. (wt_ticket w, SlotGranted)) (take k ws)) \<and> k \<le> length ws \<and>
    active + int k \<le> maximum \<and> (drop k ws \<noteq> [] \<longrightarrow> active + int k = maximum)"
  using assms
proof (induction ws arbitrary: active)
  case (Cons w ws)
  show ?case
  proof (cases "active < maximum")
    case True
    with Cons.IH [of "active + 1"] Cons.prems obtain k where k: "start_waiters aborted maximum (active + 1) ws =
        (active + 1 + int k, drop k ws, map (\<lambda>w. (wt_ticket w, SlotGranted)) (take k ws))" "k \<le> length ws"
      "active + 1 + int k \<le> maximum" "drop k ws \<noteq> [] \<longrightarrow> active + 1 + int k = maximum"
      by auto
    with True Cons.prems show ?thesis by (intro exI [of _ "Suc k"]) (simp add: algebra_simps)
  next
    case False
    with Cons.prems show ?thesis by (intro exI [of _ 0]) simp
  qed
qed simp

lemma limiter_ok_release:
  assumes ok: "limiter_ok L" and t: "t \<in> set (granted L)"
  shows "limiter_ok (release t L)"
proof (cases "t \<in> set (lm_released L)")
  case True
  with ok show ?thesis by (simp add: release_def)
next
  case False
  define M where "M = L\<lparr>lm_released := t # lm_released L, lm_active := lm_active L - 1\<rparr>"
  let ?ws = "lm_waiters L"
  have "lm_active L - 1 \<le> lm_maximum L" "\<forall>w \<in> set ?ws. wt_signal w \<notin> set (lm_aborted L)"
    using ok by (auto simp: limiter_ok_def)
  from start_waiters_prefix [OF this(2,1)] obtain k where k: "start_waiters (lm_aborted L) (lm_maximum L) (lm_active L - 1) ?ws =
      (lm_active L - 1 + int k, drop k ?ws, map (\<lambda>w. (wt_ticket w, SlotGranted)) (take k ?ws))" "k \<le> length ?ws"
    "lm_active L - 1 + int k \<le> lm_maximum L" "drop k ?ws \<noteq> [] \<longrightarrow> lm_active L - 1 + int k = lm_maximum L"
    by blast
  let ?new = "map wt_ticket (take k ?ws)"
  have L': "release t L = M\<lparr>lm_active := lm_active L - 1 + int k, lm_waiters := drop k ?ws,
      lm_settled := lm_settled L @ map (\<lambda>w. (wt_ticket w, SlotGranted)) (take k ?ws)\<rparr>"
    using False k(1) by (simp add: release_def startNext_def M_def)
  have granted: "granted (release t L) = granted L @ ?new"
    by (simp add: L' granted_def M_def filter_map o_def)
  have all: "granted L @ map wt_ticket ?ws = (granted L @ ?new) @ map wt_ticket (drop k ?ws)"
    by (metis append.assoc append_take_drop_id map_append)
  have sorted: "sorted_wrt (<) (granted L @ map wt_ticket ?ws)" using ok by (simp add: limiter_ok_def)
  then have distinct: "distinct (granted L @ ?new)"
    unfolding all by (metis sorted_wrt_append strict_sorted_iff)
  have "set ?new \<inter> set (granted L) = {}" using distinct by auto
  then have new: "set ?new \<inter> set (lm_released L) = {}" "t \<notin> set ?new"
    using ok t by (auto simp: limiter_ok_def)
  have "length (filter (\<lambda>x. x \<notin> insert t (set (lm_released L))) (granted L)) + 1 = length (holding L)"
    using filter_remove_length [OF _ t False] distinct by (simp add: holding_def)
  moreover have "filter (\<lambda>x. x \<notin> insert t (set (lm_released L))) ?new = ?new"
    by (rule filter_True) (use new in auto)
  ultimately have "int (length (holding (release t L))) = int (length (holding L)) - 1 + int k"
    unfolding holding_def granted using k(2) by (simp add: L' M_def)
  moreover have "map fst (lm_settled (release t L)) @ map wt_ticket (lm_waiters (release t L)) =
      map fst (lm_settled L) @ ?new @ map wt_ticket (drop k ?ws)"
    by (simp add: L' M_def o_def)
  then have "map fst (lm_settled (release t L)) @ map wt_ticket (lm_waiters (release t L)) = map fst (lm_settled L) @ map wt_ticket ?ws"
    by (metis append_take_drop_id map_append)
  moreover have "granted (release t L) @ map wt_ticket (lm_waiters (release t L)) = granted L @ map wt_ticket ?ws"
    unfolding granted all by (simp add: L' M_def)
  moreover have "set (lm_released (release t L)) \<subseteq> set (granted (release t L))"
    unfolding granted using ok t by (auto simp: L' M_def limiter_ok_def)
  moreover have "lm_next (release t L) = lm_next L" "lm_aborted (release t L) = lm_aborted L"
    "lm_maximum (release t L) = lm_maximum L" "lm_active (release t L) = lm_active L - 1 + int k"
    "lm_waiters (release t L) = drop k ?ws"
    by (simp_all add: L' M_def)
  ultimately show ?thesis
    using ok k(3,4) unfolding limiter_ok_def by (simp del: map_append) (meson in_set_dropD)
qed

lemma limiter_ok_abort:
  assumes "limiter_ok L"
  shows "limiter_ok (abort_signal signal L)"
proof (cases "signal \<in> set (lm_aborted L)")
  case True
  with assms show ?thesis by (simp add: abort_signal_def)
next
  case False
  let ?gone = "filter (\<lambda>w. wt_signal w = signal) (lm_waiters L)" and ?left = "filter (\<lambda>w. wt_signal w \<noteq> signal) (lm_waiters L)"
  have granted: "granted (abort_signal signal L) = granted L"
    by (simp add: abort_signal_def granted_def filter_map o_def)
  have sets: "set ?gone \<union> set ?left = set (lm_waiters L)" by auto
  have "distinct (map wt_ticket (lm_waiters L))" using assms by (simp add: limiter_ok_def)
  then have "distinct (map wt_ticket ?gone @ map wt_ticket ?left)"
    by (auto simp: distinct_map inj_on_def)
  then have "distinct (map fst (lm_settled L) @ map wt_ticket ?gone @ map wt_ticket ?left)"
    using assms sets by (auto simp: limiter_ok_def)
  moreover have "sorted_wrt (<) (granted L @ map wt_ticket ?left)"
    using assms by (auto simp: limiter_ok_def sorted_wrt_append sorted_wrt_map sorted_wrt_filter)
  moreover have "wt_ticket ` set ?gone \<union> wt_ticket ` set ?left = wt_ticket ` set (lm_waiters L)"
    using sets by blast
  moreover have "holding (abort_signal signal L) = holding L"
    using False by (simp add: holding_def granted) (simp add: abort_signal_def)
  ultimately show ?thesis
    using assms False unfolding limiter_ok_def granted
    by (auto simp: abort_signal_def o_def)
qed

lemma limiter_ok_step: "limiter_step L L' \<Longrightarrow> limiter_ok L \<Longrightarrow> limiter_ok L'"
  by (erule limiter_stepE) (simp_all add: limiter_ok_acquire limiter_ok_release limiter_ok_abort)

lemma limiter_ok_run: "limiter_step\<^sup>*\<^sup>* L L' \<Longrightarrow> limiter_ok L \<Longrightarrow> limiter_ok L'"
  by (induction rule: rtranclp_induct) (auto intro: limiter_ok_step)

lemma maximum_run: "limiter_step\<^sup>*\<^sup>* L L' \<Longrightarrow> lm_maximum L' = lm_maximum L"
proof (induction rule: rtranclp_induct)
  case (step M N)
  from step(2) have "lm_maximum N = lm_maximum M"
    by (rule limiter_stepE)
      (auto simp: acquire_def release_def startNext_def abort_signal_def Let_def split: prod.split)
  with step(3) show ?case by simp
qed simp

text \<open>What was settled stays settled.\<close>

lemma settled_step: "limiter_step L L' \<Longrightarrow> set (lm_settled L) \<subseteq> set (lm_settled L')"
  by (erule limiter_stepE)
    (auto simp: acquire_def release_def startNext_def abort_signal_def Let_def split: prod.split)

lemma settled_run: "limiter_step\<^sup>*\<^sup>* L L' \<Longrightarrow> s \<in> set (lm_settled L) \<Longrightarrow> s \<in> set (lm_settled L')"
  by (induction rule: rtranclp_induct) (use settled_step in blast)+

lemma refused_not_granted:
  assumes "limiter_ok L" "(t, SlotRefused) \<in> set (lm_settled L)"
  shows "t \<notin> set (granted L)"
proof
  assume "t \<in> set (granted L)"
  then have "(t, SlotGranted) \<in> set (lm_settled L)" by (auto simp: granted_def)
  moreover have "distinct (map fst (lm_settled L))" using limiter_okD(4) [OF assms(1)] by simp
  ultimately show False using assms(2) eq_key_imp_eq_value by fastforce
qed

lemma aborted_waiter_refused:
  assumes "limiter_ok L" "w \<in> set (lm_waiters L)" "limiter_step\<^sup>*\<^sup>* (abort_signal (wt_signal w) L) L'"
  shows "(wt_ticket w, SlotRefused) \<in> set (lm_settled L') \<and> wt_ticket w \<notin> set (granted L')"
proof -
  have "(wt_ticket w, SlotRefused) \<in> set (lm_settled (abort_signal (wt_signal w) L))"
    using assms(2) limiter_okD(7) [OF assms(1,2)] by (auto simp: abort_signal_def)
  then have "(wt_ticket w, SlotRefused) \<in> set (lm_settled L')" by (rule settled_run [OF assms(3)])
  then show ?thesis
    using refused_not_granted limiter_ok_run [OF assms(3) limiter_ok_abort [OF assms(1)]] by blast
qed

text \<open>A request on an aborted signal is refused at once.\<close>

lemma aborted_request_refused:
  "signal \<in> set (lm_aborted L) \<Longrightarrow> (lm_next L, SlotRefused) \<in> set (lm_settled (acquire signal L))"
  by (simp add: acquire_def Let_def)

text \<open>
  C40: whatever the order of requests, releases and aborts, never more than the maximum of tickets
  hold a slot, and the counter of the limiter is their number; a request is settled at most once
  and never while it waits; slots are granted in the order of asking, so that no later request
  overtakes one that waits; nobody waits while a slot is free; nobody waits on an aborted signal:
  aborting the signal of a waiter refuses it, and whatever happens afterwards it is never granted
  a slot; and a request on an aborted signal is refused at once.
\<close>

theorem slots_bounded_and_fair:
  assumes "limiter_step\<^sup>*\<^sup>* (new_limiter maximum) L" "0 < maximum"
  shows "int (length (holding L)) \<le> maximum \<and> lm_active L = int (length (holding L)) \<and>
    distinct (map fst (lm_settled L) @ map wt_ticket (lm_waiters L)) \<and>
    sorted_wrt (<) (granted L @ map wt_ticket (lm_waiters L)) \<and>
    (lm_waiters L \<noteq> [] \<longrightarrow> int (length (holding L)) = maximum) \<and>
    (\<forall>w \<in> set (lm_waiters L). wt_signal w \<notin> set (lm_aborted L) \<and>
       (\<forall>L'. limiter_step\<^sup>*\<^sup>* (abort_signal (wt_signal w) L) L' \<longrightarrow>
          (wt_ticket w, SlotRefused) \<in> set (lm_settled L') \<and> wt_ticket w \<notin> set (granted L'))) \<and>
    (\<forall>signal \<in> set (lm_aborted L). (lm_next L, SlotRefused) \<in> set (lm_settled (acquire signal L)))"
proof -
  have ok: "limiter_ok L" using limiter_ok_run [OF assms(1) limiter_ok_new] assms(2) by simp
  moreover have "lm_maximum L = maximum" using maximum_run [OF assms(1)] by (simp add: new_limiter_def)
  ultimately show ?thesis
    using aborted_waiter_refused [OF ok] limiter_okD(1,2,3,4,6,7) [OF ok] aborted_request_refused [of _ L]
    by (intro conjI ballI allI impI) auto
qed

text \<open>
  Two slots and four requests: the fourth gives up while it waits and the third gets the slot that
  is given back; however the run goes on, the fourth stays refused.
\<close>

definition waiting_limiter :: limiter where
  "waiting_limiter = acquire 6 (acquire 5 (acquire 4 (acquire 3 (new_limiter 2))))"

definition sample_limiter :: limiter where
  "sample_limiter = release 0 (abort_signal 6 waiting_limiter)"

lemmas sample_limiter_simps =
  sample_limiter_def waiting_limiter_def release_def startNext_def abort_signal_def acquire_def new_limiter_def
  granted_def holding_def Let_def

lemma ask_run: "limiter_step\<^sup>*\<^sup>* M L \<Longrightarrow> limiter_step\<^sup>*\<^sup>* M (acquire signal L)"
  by (erule rtranclp.rtrancl_into_rtrancl) (rule ask)

lemma waiting_run: "limiter_step\<^sup>*\<^sup>* (new_limiter 2) waiting_limiter"
  unfolding waiting_limiter_def by (intro ask_run rtranclp.rtrancl_refl)

lemma sample_run: "limiter_step\<^sup>*\<^sup>* (abort_signal 6 waiting_limiter) sample_limiter"
proof -
  have "0 \<in> set (granted (abort_signal 6 waiting_limiter))" by (simp add: sample_limiter_simps)
  then show ?thesis unfolding sample_limiter_def by (rule r_into_rtranclp [where r = limiter_step, OF give_back])
qed

theorem slots_bounded_and_fair_witness:
  "map wt_ticket (lm_waiters waiting_limiter) = [2, 3] \<and> int (length (holding waiting_limiter)) \<le> 2 \<and>
   holding sample_limiter = [1, 2] \<and> (3, SlotRefused) \<in> set (lm_settled sample_limiter) \<and>
   3 \<notin> set (granted sample_limiter)"
proof -
  have waiting: "lm_waiters waiting_limiter = [\<lparr>wt_ticket = 2, wt_signal = 5\<rparr>, \<lparr>wt_ticket = 3, wt_signal = 6\<rparr>]"
    by (simp add: sample_limiter_simps)
  then have "\<lparr>wt_ticket = 3, wt_signal = 6\<rparr> \<in> set (lm_waiters waiting_limiter)" by simp
  moreover have "holding sample_limiter = [1, 2]" by (simp add: sample_limiter_simps)
  moreover note slots_bounded_and_fair [OF waiting_run] and sample_run
  ultimately show ?thesis using waiting by force
qed

end
