(* ===== verification/Spec2Isabelle.thy ===== *)
theory Spec2Isabelle
  imports ReplayProperties ApprovalStoreProperties InMemoryCatalogProperties DualWriteProperties
    CheckpointProperties RetryProperties RecoveryProperties TimelineProperties ApprovalHistory
    StreamProperties RequestProperties ProtocolProperties ToolOutputProperties ToolLimiter
begin

text \<open>
  Verification of the conversation core of the assistant SDK (\<^verbatim>\<open>src/src/conversation\<close> with
  \<^verbatim>\<open>citations.ts\<close>, \<^verbatim>\<open>retry.ts\<close>, \<^verbatim>\<open>json-equality.ts\<close>), of the wire protocol (\<^verbatim>\<open>protocol.ts\<close>) and of
  the parts of \<^verbatim>\<open>src/src/tools\<close> that guard the execution of tools.

  \<^bold>\<open>The program.\<close> A conversation is a log of durable events. Writers append batches of events to
  an event store under optimistic concurrency; readers page through the log. The reducer folds
  the log into a projection, the state that user interfaces show and that checkpoints
  save; replay rebuilds the projection from a checkpoint and the tail of the log; the
  conversation store holds a live projection and notifies listeners. Beside the log, the
  proposal store owns the approval workflow of tool calls and the catalog owns the list of
  conversations. All of them validate what crosses their boundary and file the answers of
  mutations under idempotency keys. A store can be mirrored to a second one, which
  reconciliation brings up to date; a retry policy bounds how often a request is tried. The
  protocol validates what a host sends to a model and the stream of events it answers; a tool
  call of the stream is executed by a bounded executor, whose results return in the next request.

  \<^bold>\<open>Theories and code.\<close> Foundations:
  \<^item> \<open>Prelude\<close>: strings as lists of UTF-16 code units (\<open>js_string\<close>), thrown errors as the left
    summand (\<open>bindE\<close>, \<open>mapE\<close>), array operations, decimal digits.
  \<^item> \<open>Patterns\<close>: regular expressions as sets of match ends, and the patterns of the sources.
  \<^item> \<open>Json\<close>: JSON values with every JavaScript number, \<^verbatim>\<open>JSON.stringify\<close>, UTF-8 length and the two
    deep equalities (\<^verbatim>\<open>json-equality.ts\<close>, \<^verbatim>\<open>jsonEqual\<close> of \<^verbatim>\<open>event-store.ts\<close>).
  \<^item> \<open>Timestamps\<close>, \<open>Validation\<close>: RFC 3339 times with the calendar, and the field checks that the
    validators share.
  \<^item> \<open>Numbers\<close>: comparison, minimum, rounding and arithmetic of JavaScript numbers.
  \<^item> \<open>Effects\<close>: actions on surroundings the code does not own, the calls they make, and protocols
    of calls (\<open>obeys\<close>) with their proof rules.
  \<^item> \<open>Retention\<close>, \<open>Sorting\<close>: maps bounded by evicting the oldest entry, and stable sorting by a
    comparison function; both with the locale that states their contract.

  Components, each with a theory of definitions and one of properties where it is large:
  \<^item> \<open>Citations\<close> (\<^verbatim>\<open>citations.ts\<close>): \<open>normalizeCitationRecords\<close> and what it calls.
  \<^item> \<open>Events\<close>, \<open>EventValidation\<close> (\<^verbatim>\<open>events.ts\<close>): the event types with their JSON form, the table of
    proposal transitions, and \<open>parseConversationEvent\<close>.
  \<^item> \<open>State\<close>, \<open>Reducer\<close>, \<open>ReducerInvariants\<close>, \<open>ReducerProperties\<close> (\<^verbatim>\<open>state.ts\<close>, \<^verbatim>\<open>reducer.ts\<close>): the
    projection and \<open>reduceConversationEvent\<close>, one \<open>on_...\<close> definition per case of its switch.
  \<^item> \<open>EventStore\<close>, \<open>EventStoreProperties\<close> (\<^verbatim>\<open>event-store.ts\<close>): append, read, checkpoints of the
    in-memory adapter. \<open>EventLog\<close> is the contract of a read as its clients use it (locale
    \<open>event_log\<close>), interpreted on the adapter; \<open>FindEvent\<close> (\<^verbatim>\<open>find-event.ts\<close>) and \<open>Replay\<close>,
    \<open>ReplayProperties\<close> (\<^verbatim>\<open>replay.ts\<close>) are its clients, \<open>StateJson\<close> the JSON form that a checkpoint
    saves. \<open>StateValidation\<close> (\<^verbatim>\<open>state-validation.ts\<close>) is the structural check of that form,
    \<open>StateSchema\<close> a small language of schemas with the schema of the state, and
    \<open>CheckpointProperties\<close> has \<^verbatim>\<open>parseCheckpoint\<close> and what an accepted checkpoint satisfies.
  \<^item> \<open>DualWrite\<close>, \<open>DualWriteProperties\<close> (\<^verbatim>\<open>dual-write-event-store.ts\<close>): the mirrored store over two
    arbitrary stores; the locale \<open>event_writer\<close> extends \<open>event_log\<close> by what appends promise.
  \<^item> \<open>Timeline\<close>, \<open>TimelineProperties\<close> (\<^verbatim>\<open>timeline.ts\<close>): the order in which a projection is shown.
  \<^item> \<open>Retry\<close>, \<open>RetryProperties\<close> (\<^verbatim>\<open>retry.ts\<close>): policies, delays and the retry loop. \<open>Recovery\<close>,
    \<open>RecoveryProperties\<close> (\<^verbatim>\<open>tools/recovery.ts\<close>): the recovery of a failed tool call.
  \<^item> \<open>ConversationStore\<close>, \<open>ConversationStoreProperties\<close> (\<^verbatim>\<open>store.ts\<close>): subscriptions, selectors, the
    queue of mutations, notification. What a listener does is a parameter that may call back
    into the store.
  \<^item> \<open>ApprovalStore\<close>, \<open>ApprovalStoreProperties\<close> (\<^verbatim>\<open>approval-proposal-store.ts\<close>): create, get,
    listGroup and transition of the in-memory adapter, and their agreement with the reducer.
    \<open>JsonText\<close> reads JSON text back, so that request signatures tell requests apart.
  \<^item> \<open>ApprovalExecution\<close>, \<open>ApprovalExecutionProperties\<close>, \<open>ApprovalHistory\<close>
    (\<^verbatim>\<open>tools/approval-execution.ts\<close>, \<^verbatim>\<open>approval-evidence.ts\<close>): claiming a confirmed proposal for one
    execution and settling it, over both stores; the locale \<open>guarded_proposals\<close> is what a claim
    relies on, interpreted on every history of the in-memory store.
  \<^item> \<open>Protocol\<close>, \<open>ProtocolStream\<close> (\<^verbatim>\<open>protocol.ts\<close>): bounded JSON, tool schemas, messages, requests,
    stream events and streams. \<open>StreamProperties\<close> characterises the accepted streams,
    \<open>RequestProperties\<close> the accepted requests, and \<open>ProtocolProperties\<close> compares the protocol with
    the durable events that record it.
  \<^item> \<open>ToolOutput\<close>, \<open>ToolOutputProperties\<close>, \<open>ToolLimiter\<close> (\<^verbatim>\<open>tools/executor.ts\<close>): the copies of arguments and
    outputs over values of the host language (\<open>host_value\<close>, with accessors, gaps, cycles and foreign
    arrays, whose own \<^verbatim>\<open>map\<close> and \<^verbatim>\<open>every\<close> are the parameter \<open>foreign_arrays\<close>), the
    normalisation of results, and the limiter of concurrent executions with its waiters.
  \<^item> \<open>Catalog\<close>, \<open>CatalogProperties\<close> (\<^verbatim>\<open>catalog.ts\<close>): descriptors, metadata, orders, cursors, paging and
    request validation. \<open>InMemoryCatalog\<close>, \<open>InMemoryCatalogProperties\<close> (\<^verbatim>\<open>in-memory-catalog.ts\<close>):
    the adapter with its versions, tombstones and retained answers.

  \<^bold>\<open>Conventions.\<close> A class is a record of its fields and a method a function from the old state to
  an error or the answer and the new state; a method that throws leaves the state alone, as the
  code does. An asynchronous method is modelled as the atomic step it is between two awaits. A
  \<^verbatim>\<open>Map\<close> is a map where its order does not matter and an association list in insertion order where
  the code iterates over it. Numbers are extended rationals with a negative zero where the code
  inspects them and integers after a check that they are safe integers; sums that stay below
  \<open>2 ^ 53\<close> by those checks are sums of integers.

  \<^bold>\<open>Parameters.\<close> The URL parser of the platform (\<open>parse_url\<close>), the rendering of a number as text
  (\<open>R\<close>), \<^verbatim>\<open>localeCompare\<close>, the clock, the permission check, the authoriser, the identifier factory
  and listeners enter as arguments; where a property relies on one of them it says so. Any event
  store that answers reads is an argument of \<open>replayConversation\<close> and \<open>findConversationEvent\<close>.
  Rounding (\<open>fl_round\<close>) and \<^verbatim>\<open>**\<close> (\<open>fl_pow\<close>) of floating-point numbers are parameters of \<open>Retry\<close>, with
  its operation, hooks, signal and clock, which act on a state of their own.

  \<^bold>\<open>Loops.\<close> Loops over data are structural recursion. The paging loops of \<open>Replay\<close>,
  \<open>FindEvent\<close> and \<open>DualWrite\<close> depend on answers of a store, the retry loop on its operation; they are \<open>partial_function (option)\<close>: \<open>None\<close> is a loop
  that never returns. The properties that claim a result show \<open>Some\<close>. \<open>walk_pages\<close> of
  \<open>CatalogProperties\<close> carries fuel, and more fuel than there are descriptors suffices.

  \<^bold>\<open>What is shown.\<close> Reducer: a projection invariant, exact log positions, idempotence, finality of
  terminal turns, the proposal lifecycle, the exceptions that remain for validated events.
  Event store: the effect of an append, retries, conflicts, checkpoints that only move forward.
  Replay and lookup: termination and the fold of the whole log for every page size, soundness
  against arbitrary stores. Conversation store: batches applied whole and in order, order of
  notification, finality of destruction. Validators: soundness, equivalence with a declarative
  reference, round trips. Proposal store and catalog: capacity, lifecycle, optimistic
  versions, retries, finality of deletion (a repeated request may still be answered with its
  retained result, which changes nothing), complete paging, and refinement of the store by the
  reducer. Mirrored store: whatever writes the shadow misses, as long as a
  repeated batch is the stored one, the shadow stays a beginning of the primary and
  reconciliation makes them equal. Checkpoints: whatever JSON an accepted one holds, it has the
  shape of a projection and its parts fit together. Timeline: nothing is dropped or invented, and
  requests stay with their answers. Retry: bounded attempts in the documented order, each
  repeated or given up for the reason that the clock, the delay and the failure give. Recovery: no write is repeated unless it was found not to be applied.
  Approval execution: a claim needs permission, evidence and verified arguments, what it grants
  is recorded in both stores, and one confirmation is granted to one execution only. Protocol:
  an equivalence for streams, the guarantees of a request, and that accepted tool calls can be
  recorded. Tools: what a result is normalised to is bounded and clean, if no array of it is
  foreign (the receipt of a recovery is appended to it later); slots are bounded, granted in
  order, and never granted to a request whose signal was aborted while it waited.

  \<^bold>\<open>Not modelled.\<close> Abort signals of replay and the default sleep of a retry, which is a timer;
  providers, transports, servers, user interfaces and the runtime that connects them, which
  orchestrate I/O; coordination of approvals by a host; usage accounting; the
  rest of the tool subsystem; proxies among the values of the host language.
\<close>

end
